(* ===== verification/Prelude.thy ===== *)
theory Prelude
  imports Main "HOL-Library.Word" "HOL-Library.Sublist"
begin

unbundle bit_operations_syntax

text \<open>
  The prelude of the development: the machine integers and the pieces of the Rust standard
  library that the crates under src/crates use (checked and saturating arithmetic, ASCII
  classification, splitting and trimming of strings, decimal and hexadecimal formatting,
  parsing of unsigned integers, Unix paths), the result-and-state combinators in which the
  effectful code is written, and the lemmas on them that every component shares.

  A Rust \<open>String\<close> is a list of bytes (\<open>string\<close>); the classification of white space is the
  one for ASCII text. A \<open>Path\<close> is its list of components, which is the equality that
  \<open>std::path\<close> uses.
\<close>

named_theorems io_simps \<open>unfolding of the state-and-error combinators\<close>
named_theorems word_bounds \<open>bounds on machine words\<close>

section \<open>Machine integers\<close>

type_synonym u8 = "8 word"
type_synonym u16 = "16 word"
type_synonym u32 = "32 word"
type_synonym u64 = "64 word"

definition checked_add :: "'a::len word \<Rightarrow> 'a word \<Rightarrow> 'a word option" where
  "checked_add a b = (if unat a + unat b < 2 ^ LENGTH('a) then Some (a + b) else None)"

definition checked_sub :: "'a::len word \<Rightarrow> 'a word \<Rightarrow> 'a word option" where
  "checked_sub a b = (if b \<le> a then Some (a - b) else None)"

definition checked_mul :: "'a::len word \<Rightarrow> 'a word \<Rightarrow> 'a word option" where
  "checked_mul a b = (if unat a * unat b < 2 ^ LENGTH('a) then Some (a * b) else None)"

definition saturating_add :: "'a::len word \<Rightarrow> 'a word \<Rightarrow> 'a word" where
  "saturating_add a b = (if unat a + unat b < 2 ^ LENGTH('a) then a + b else - 1)"

definition saturating_sub :: "'a::len word \<Rightarrow> 'a word \<Rightarrow> 'a word" where
  "saturating_sub a b = (if b \<le> a then a - b else 0)"

definition saturating_mul :: "'a::len word \<Rightarrow> 'a word \<Rightarrow> 'a word" where
  "saturating_mul a b = (if unat a * unat b < 2 ^ LENGTH('a) then a * b else - 1)"

lemma unat_u8_less: "unat (x :: u8) < 256"
proof -
  have "unat x < 2 ^ LENGTH(8)" by (rule unsigned_less)
  then show ?thesis by simp
qed

lemma checked_add_Some [word_bounds]:
  "checked_add a b = Some c \<Longrightarrow> unat c = unat a + unat b"
  by (auto simp: checked_add_def unat_word_ariths split: if_splits)

lemma checked_mul_Some [word_bounds]:
  "checked_mul a b = Some c \<Longrightarrow> unat c = unat a * unat b"
  by (auto simp: checked_mul_def unat_word_ariths split: if_splits)

lemma checked_sub_Some [word_bounds]:
  "checked_sub a b = Some c \<Longrightarrow> unat c = unat a - unat b \<and> unat b \<le> unat a"
  by (auto simp: checked_sub_def unat_sub word_le_nat_alt split: if_splits)

lemma checked_add_None:
  "checked_add (a :: 'a::len word) b = None \<longleftrightarrow> 2 ^ LENGTH('a) \<le> unat a + unat b"
  by (auto simp: checked_add_def)

lemma unat_saturating_add:
  "unat (saturating_add (a :: 'a::len word) b) = min (unat a + unat b) (2 ^ LENGTH('a) - 1)"
  by (auto simp: saturating_add_def unat_word_ariths unsigned_minus_1_eq_mask mask_eq_exp_minus_1)

lemma unat_saturating_sub:
  "unat (saturating_sub (a :: 'a::len word) b) = unat a - unat b"
  by (auto simp: saturating_sub_def unat_sub word_le_nat_alt)

section \<open>Bytes and strings\<close>

abbreviation byte :: "char \<Rightarrow> nat" where
  "byte c \<equiv> of_char c"

definition is_ascii :: "char \<Rightarrow> bool" where
  "is_ascii c \<longleftrightarrow> byte c < 128"

definition is_ascii_digit :: "char \<Rightarrow> bool" where
  "is_ascii_digit c \<longleftrightarrow> 48 \<le> byte c \<and> byte c \<le> 57"

definition is_ascii_alphanumeric :: "char \<Rightarrow> bool" where
  "is_ascii_alphanumeric c \<longleftrightarrow>
     is_ascii_digit c \<or> 65 \<le> byte c \<and> byte c \<le> 90 \<or> 97 \<le> byte c \<and> byte c \<le> 122"

definition is_ascii_control :: "char \<Rightarrow> bool" where
  "is_ascii_control c \<longleftrightarrow> byte c < 32 \<or> byte c = 127"

definition is_ascii_whitespace :: "char \<Rightarrow> bool" where
  "is_ascii_whitespace c \<longleftrightarrow> byte c \<in> {9, 10, 12, 13, 32}"

definition is_ascii_hexdigit :: "char \<Rightarrow> bool" where
  "is_ascii_hexdigit c \<longleftrightarrow>
     is_ascii_digit c \<or> 65 \<le> byte c \<and> byte c \<le> 70 \<or> 97 \<le> byte c \<and> byte c \<le> 102"

text \<open>The ASCII part of the Unicode property \<open>White_Space\<close>, used by \<open>char::is_whitespace\<close>.\<close>

definition is_whitespace :: "char \<Rightarrow> bool" where
  "is_whitespace c \<longleftrightarrow> 9 \<le> byte c \<and> byte c \<le> 13 \<or> byte c = 32"

definition str_contains :: "string \<Rightarrow> string \<Rightarrow> bool" where
  "str_contains s pat \<longleftrightarrow> list_ex (prefix pat) (suffixes s)"

definition str_trim_start :: "string \<Rightarrow> string" where
  "str_trim_start s = dropWhile is_whitespace s"

definition str_trim :: "string \<Rightarrow> string" where
  "str_trim s = rev (dropWhile is_whitespace (rev (dropWhile is_whitespace s)))"

text \<open>\<open>split_on c s\<close> is \<open>s.split(c)\<close>: the pieces between the separators, empty ones included.\<close>

fun split_on :: "char \<Rightarrow> string \<Rightarrow> string list" where
  "split_on c [] = [[]]"
| "split_on c (x # xs) =
     (if x = c then [] # split_on c xs
      else (case split_on c xs of [] \<Rightarrow> [[x]] | p # ps \<Rightarrow> (x # p) # ps))"

text \<open>\<open>split_once c s\<close>: the text before and after the first separator.\<close>

fun split_once :: "char \<Rightarrow> string \<Rightarrow> (string \<times> string) option" where
  "split_once c [] = None"
| "split_once c (x # xs) =
     (if x = c then Some ([], xs)
      else map_option (\<lambda>(a, b). (x # a, b)) (split_once c xs))"

fun split_whitespace_acc :: "string \<Rightarrow> string \<Rightarrow> string list" where
  "split_whitespace_acc cur [] = (if cur = [] then [] else [rev cur])"
| "split_whitespace_acc cur (x # xs) =
     (if is_whitespace x
      then (if cur = [] then split_whitespace_acc [] xs else rev cur # split_whitespace_acc [] xs)
      else split_whitespace_acc (x # cur) xs)"

definition split_whitespace :: "string \<Rightarrow> string list" where
  "split_whitespace s = split_whitespace_acc [] s"

text \<open>\<open>str::lines\<close>: split at line feeds, a trailing carriage return of a line is dropped and a
  final empty line does not count.\<close>

definition strip_cr :: "string \<Rightarrow> string" where
  "strip_cr s = (if s \<noteq> [] \<and> last s = CHR 0x0D then butlast s else s)"

definition str_lines :: "string \<Rightarrow> string list" where
  "str_lines s =
     (let ps = split_on CHR 0x0A s
      in map strip_cr (if last ps = [] then butlast ps else ps))"

definition ascii_lower :: "char \<Rightarrow> char" where
  "ascii_lower c = (if 65 \<le> byte c \<and> byte c \<le> 90 then char_of (byte c + 32) else c)"

definition to_lowercase :: "string \<Rightarrow> string" where
  "to_lowercase s = map ascii_lower s"

fun join_with :: "string \<Rightarrow> string list \<Rightarrow> string" where
  "join_with sep [] = []"
| "join_with sep [x] = x"
| "join_with sep (x # y # ys) = x @ sep @ join_with sep (y # ys)"

lemma split_on_nonempty [simp]: "split_on c s \<noteq> []"
  by (induction s) (auto split: list.splits)

lemma split_on_free: "c \<notin> set s \<Longrightarrow> split_on c s = [s]"
  by (induction s) auto

lemma split_on_append: "c \<notin> set s \<Longrightarrow> split_on c (s @ c # t) = s # split_on c t"
  by (induction s) auto

lemma split_on_pieces_free: "p \<in> set (split_on c s) \<Longrightarrow> c \<notin> set p"
proof (induction s arbitrary: p)
  case Nil
  then show ?case by simp
next
  case (Cons x xs)
  show ?case
  proof (cases "split_on c xs")
    case Nil
    then show ?thesis by simp
  next
    case (Cons q qs)
    with Cons.prems Cons.IH show ?thesis by (auto split: if_splits)
  qed
qed

lemma split_once_append: "c \<notin> set s \<Longrightarrow> split_once c (s @ c # t) = Some (s, t)"
  by (induction s) auto

lemma split_once_Some: "split_once c s = Some (a, b) \<Longrightarrow> s = a @ c # b \<and> c \<notin> set a"
  by (induction s arbitrary: a) (auto split: if_splits)

lemma str_contains_append: "str_contains (a @ pat @ b) pat"
proof -
  have "pat @ b \<in> set (suffixes (a @ pat @ b))"
    by (simp only: in_set_suffixes suffix_def) blast
  moreover have "prefix pat (pat @ b)" by simp
  ultimately show ?thesis
    unfolding str_contains_def list_ex_iff by (rule bexI [rotated])
qed

lemma str_containsI: "s = a @ pat @ b \<Longrightarrow> str_contains s pat"
  using str_contains_append by simp

section \<open>Numerals\<close>

definition digit_char :: "nat \<Rightarrow> char" where
  "digit_char d = char_of (48 + d)"

fun show_nat :: "nat \<Rightarrow> string" where
  "show_nat n = (if n < 10 then [digit_char n] else show_nat (n div 10) @ [digit_char (n mod 10)])"

declare show_nat.simps [simp del]

definition digit_value :: "char \<Rightarrow> nat option" where
  "digit_value c = (if is_ascii_digit c then Some (byte c - 48) else None)"

fun parse_digits :: "nat \<Rightarrow> string \<Rightarrow> nat option" where
  "parse_digits acc [] = Some acc"
| "parse_digits acc (c # cs) =
     (case digit_value c of None \<Rightarrow> None | Some d \<Rightarrow> parse_digits (10 * acc + d) cs)"

text \<open>\<open>str::parse\<close> for an unsigned type whose largest value is \<open>limit\<close>: an optional plus sign, at
  least one digit, nothing else, and no overflow.\<close>

definition parse_unsigned :: "nat \<Rightarrow> string \<Rightarrow> nat option" where
  "parse_unsigned limit s =
     (let ds = (case s of c # cs \<Rightarrow> if c = CHR ''+'' then cs else s | [] \<Rightarrow> [])
      in if ds = [] then None
         else (case parse_digits 0 ds of
                 None \<Rightarrow> None
               | Some n \<Rightarrow> if n \<le> limit then Some n else None))"

lemma byte_digit_char [simp]: "d < 10 \<Longrightarrow> byte (digit_char d) = 48 + d"
  by (simp add: digit_char_def)

lemma is_ascii_digit_digit_char [simp]: "d < 10 \<Longrightarrow> is_ascii_digit (digit_char d)"
  by (simp add: is_ascii_digit_def)

lemma digit_value_digit_char [simp]: "d < 10 \<Longrightarrow> digit_value (digit_char d) = Some d"
  by (simp add: digit_value_def)

lemma parse_digits_append:
  "parse_digits acc (xs @ ys) = (case parse_digits acc xs of None \<Rightarrow> None | Some n \<Rightarrow> parse_digits n ys)"
  by (induction xs arbitrary: acc) (auto split: option.splits)

lemma parse_digits_show_nat_exp:
  "parse_digits acc (show_nat n) = Some (acc * 10 ^ length (show_nat n) + n)"
proof (induction n arbitrary: acc rule: show_nat.induct)
  case (1 n)
  show ?case
  proof (cases "n < 10")
    case True
    then show ?thesis by (simp add: show_nat.simps [of n])
  next
    case False
    with 1 [OF False, of acc]
    have "parse_digits acc (show_nat n)
        = Some (10 * (acc * 10 ^ length (show_nat (n div 10)) + n div 10) + n mod 10)"
      by (simp add: show_nat.simps [of n] parse_digits_append)
    with False show ?thesis by (simp add: show_nat.simps [of n] algebra_simps)
  qed
qed

lemma parse_digits_show_nat [simp]: "parse_digits 0 (show_nat n) = Some n"
  using parse_digits_show_nat_exp [of 0 n] by simp

lemma show_nat_nonempty [simp]: "show_nat n \<noteq> []"
  by (subst show_nat.simps) simp

lemma show_nat_digits: "c \<in> set (show_nat n) \<Longrightarrow> is_ascii_digit c"
proof (induction n rule: show_nat.induct)
  case (1 n)
  then show ?case
    by (cases "n < 10") (auto simp: show_nat.simps [of n])
qed

lemma show_nat_hd_not_plus: "show_nat n = c # cs \<Longrightarrow> c \<noteq> CHR ''+''"
  using show_nat_digits [of c n] by (auto simp: is_ascii_digit_def)

lemma parse_unsigned_show_nat [simp]:
  assumes "n \<le> limit"
  shows "parse_unsigned limit (show_nat n) = Some n"
proof (cases "show_nat n")
  case Nil
  then show ?thesis by simp
next
  case (Cons c cs)
  then have "c \<noteq> CHR ''+''" by (rule show_nat_hd_not_plus)
  moreover have "parse_digits 0 (c # cs) = Some n"
    using parse_digits_show_nat [of n] Cons by simp
  ultimately show ?thesis
    using assms Cons by (simp add: parse_unsigned_def Let_def del: parse_digits.simps)
qed

lemma parse_unsigned_bound: "parse_unsigned limit s = Some n \<Longrightarrow> n \<le> limit"
  by (auto simp: parse_unsigned_def Let_def split: if_splits option.splits)

lemma show_nat_inject: "show_nat a = show_nat b \<Longrightarrow> a = b"
  by (metis parse_digits_show_nat option.inject)

definition hex_char :: "nat \<Rightarrow> char" where
  "hex_char d = (if d < 10 then char_of (48 + d) else char_of (87 + d))"

text \<open>\<open>format!("{:02x}", b)\<close> for one byte.\<close>

definition show_hex2 :: "u8 \<Rightarrow> string" where
  "show_hex2 b = [hex_char (unat b div 16), hex_char (unat b mod 16)]"

lemma length_show_hex2 [simp]: "length (show_hex2 b) = 2"
  by (simp add: show_hex2_def)

lemma byte_hex_char: "d < 16 \<Longrightarrow> byte (hex_char d) = (if d < 10 then 48 + d else 87 + d)"
  by (simp add: hex_char_def)

lemma hex_char_inject: "a < 16 \<Longrightarrow> b < 16 \<Longrightarrow> hex_char a = hex_char b \<Longrightarrow> a = b"
proof -
  assume lt: "a < 16" "b < 16" and eq: "hex_char a = hex_char b"
  from eq have "byte (hex_char a) = byte (hex_char b)" by simp
  with lt show "a = b" by (simp only: byte_hex_char) (auto split: if_splits)
qed

lemma show_hex2_inject [simp]: "show_hex2 a = show_hex2 b \<longleftrightarrow> a = b"
proof
  assume eq: "show_hex2 a = show_hex2 b"
  have bound: "unat x div 16 < 16" "unat x mod 16 < 16" for x :: u8
    using unat_u8_less [of x] by auto
  from eq have "unat a div 16 = unat b div 16" and "unat a mod 16 = unat b mod 16"
    using bound hex_char_inject by (auto simp: show_hex2_def)
  then have "unat a = unat b" by (metis div_mult_mod_eq)
  then show "a = b" by (rule word_unat_eq_iff [THEN iffD2])
qed simp

section \<open>Unix paths\<close>

text \<open>
  \<open>Path::components\<close>: a leading separator is the root, empty pieces and inner \<open>.\<close> pieces
  disappear, a leading \<open>.\<close> of a relative path stays. \<open>Component::Prefix\<close> only exists on Windows.
\<close>

datatype component = RootDir | CurDir | ParentDir | Normal string

type_synonym path = "component list"

definition piece_component :: "string \<Rightarrow> component list" where
  "piece_component p =
     (if p = [] \<or> p = ''.'' then [] else if p = ''..'' then [ParentDir] else [Normal p])"

definition components :: "string \<Rightarrow> path" where
  "components s =
     (case s of
        [] \<Rightarrow> []
      | c # cs \<Rightarrow>
          if c = CHR ''/'' then RootDir # concat (map piece_component (split_on CHR ''/'' cs))
          else (case split_on CHR ''/'' s of
                  [] \<Rightarrow> []
                | p # ps \<Rightarrow>
                    (if p = ''.'' then [CurDir] else piece_component p)
                      @ concat (map piece_component ps)))"

definition is_absolute :: "path \<Rightarrow> bool" where
  "is_absolute p \<longleftrightarrow> (case p of RootDir # _ \<Rightarrow> True | _ \<Rightarrow> False)"

text \<open>\<open>PathBuf::push\<close>, \<open>pop\<close>, \<open>Path::join\<close>, \<open>starts_with\<close>, \<open>parent\<close> and \<open>file_name\<close>.\<close>

definition path_join :: "path \<Rightarrow> path \<Rightarrow> path" where
  "path_join base p =
     (if is_absolute p then p
      else if base = [] then p
      else base @ (case p of CurDir # q \<Rightarrow> q | _ \<Rightarrow> p))"

definition path_pop :: "path \<Rightarrow> path" where
  "path_pop p = (if p = [] \<or> last p = RootDir then p else butlast p)"

definition path_starts_with :: "path \<Rightarrow> path \<Rightarrow> bool" where
  "path_starts_with p base \<longleftrightarrow> prefix base p"

definition path_parent :: "path \<Rightarrow> path option" where
  "path_parent p = (if p = [] \<or> last p = RootDir then None else Some (butlast p))"

definition path_file_name :: "path \<Rightarrow> string option" where
  "path_file_name p =
     (if p = [] then None else case last p of Normal n \<Rightarrow> Some n | _ \<Rightarrow> None)"

definition is_Normal :: "component \<Rightarrow> bool" where
  "is_Normal c \<longleftrightarrow> (case c of Normal _ \<Rightarrow> True | _ \<Rightarrow> False)"

text \<open>A path that names one place without \<open>.\<close> and \<open>..\<close>: the root followed by plain names.\<close>

definition normal_absolute :: "path \<Rightarrow> bool" where
  "normal_absolute p \<longleftrightarrow> (\<exists>q. p = RootDir # q \<and> list_all is_Normal q)"

lemma normal_absolute_code [code]:
  "normal_absolute p = (case p of RootDir # q \<Rightarrow> list_all is_Normal q | _ \<Rightarrow> False)"
  by (auto simp: normal_absolute_def split: list.splits component.splits)

text \<open>The text of a path of plain names, as \<open>Path::display\<close> prints it.\<close>

fun show_component :: "component \<Rightarrow> string" where
  "show_component RootDir = []"
| "show_component CurDir = ''.''"
| "show_component ParentDir = ''..''"
| "show_component (Normal s) = s"

definition show_path :: "path \<Rightarrow> string" where
  "show_path p = (if p = [RootDir] then ''/'' else join_with ''/'' (map show_component p))"

definition plain_name :: "string \<Rightarrow> bool" where
  "plain_name s \<longleftrightarrow> s \<noteq> [] \<and> s \<noteq> ''.'' \<and> s \<noteq> ''..'' \<and> CHR ''/'' \<notin> set s"

lemma components_plain_name: "plain_name s \<Longrightarrow> components s = [Normal s]"
  by (cases s) (auto simp: components_def plain_name_def piece_component_def split_on_free)

lemma path_join_plain_name:
  "plain_name s \<Longrightarrow> base \<noteq> [] \<Longrightarrow> path_join base (components s) = base @ [Normal s]"
  by (simp add: components_plain_name path_join_def is_absolute_def)

section \<open>State and errors\<close>

text \<open>
  Effectful code is a function from a world to a result and the next world; an error leaves the
  world as the code left it. \<open>bindE\<close> is the \<open>?\<close> operator followed by the rest of the function.
\<close>

type_synonym ('e, 'w, 'a) io = "'w \<Rightarrow> ('e + 'a) \<times> 'w"

definition returnE :: "'a \<Rightarrow> ('e, 'w, 'a) io" where
  "returnE x = (\<lambda>w. (Inr x, w))"

definition throwE :: "'e \<Rightarrow> ('e, 'w, 'a) io" where
  "throwE e = (\<lambda>w. (Inl e, w))"

definition bindE :: "('e, 'w, 'a) io \<Rightarrow> ('a \<Rightarrow> ('e, 'w, 'b) io) \<Rightarrow> ('e, 'w, 'b) io" where
  "bindE m f = (\<lambda>w. case m w of (Inl e, w') \<Rightarrow> (Inl e, w') | (Inr x, w') \<Rightarrow> f x w')"

text \<open>\<open>attemptE m\<close> runs \<open>m\<close> and hands its result over as a value, for code that matches on it.\<close>

definition attemptE :: "('e, 'w, 'a) io \<Rightarrow> ('e, 'w, 'e + 'a) io" where
  "attemptE m = (\<lambda>w. case m w of (r, w') \<Rightarrow> (Inr r, w'))"

definition liftE :: "'e + 'a \<Rightarrow> ('e, 'w, 'a) io" where
  "liftE r = (\<lambda>w. (r, w))"

definition whenE :: "bool \<Rightarrow> ('e, 'w, unit) io \<Rightarrow> ('e, 'w, unit) io" where
  "whenE b m = (if b then m else returnE ())"

fun forE :: "'a list \<Rightarrow> ('a \<Rightarrow> ('e, 'w, unit) io) \<Rightarrow> ('e, 'w, unit) io" where
  "forE [] f = returnE ()"
| "forE (x # xs) f = bindE (f x) (\<lambda>_. forE xs f)"

text \<open>The pure counterpart: \<open>bindR\<close> sequences fallible code without state.\<close>

definition bindR :: "'e + 'a \<Rightarrow> ('a \<Rightarrow> 'e + 'b) \<Rightarrow> 'e + 'b" where
  "bindR r f = (case r of Inl e \<Rightarrow> Inl e | Inr x \<Rightarrow> f x)"

definition ok_or :: "'a option \<Rightarrow> 'e \<Rightarrow> 'e + 'a" where
  "ok_or x e = (case x of None \<Rightarrow> Inl e | Some v \<Rightarrow> Inr v)"

fun forR :: "'a list \<Rightarrow> ('a \<Rightarrow> 'e + unit) \<Rightarrow> 'e + unit" where
  "forR [] f = Inr ()"
| "forR (x # xs) f = bindR (f x) (\<lambda>_. forR xs f)"

lemma bindE_return [simp]: "bindE (returnE x) f = f x"
  by (simp add: bindE_def returnE_def)

lemma bindE_throw [simp]: "bindE (throwE e) f = throwE e"
  by (simp add: bindE_def throwE_def)

lemma bindE_assoc: "bindE (bindE m f) g = bindE m (\<lambda>x. bindE (f x) g)"
  by (auto simp: bindE_def fun_eq_iff split: prod.splits sum.splits)

lemma returnE_apply [simp, io_simps]: "returnE x w = (Inr x, w)"
  by (simp add: returnE_def)

lemma throwE_apply [simp, io_simps]: "throwE e w = (Inl e, w)"
  by (simp add: throwE_def)

lemma liftE_apply [simp, io_simps]: "liftE r w = (r, w)"
  by (simp add: liftE_def)

lemma bindE_Inr [io_simps]:
  "bindE m f w = (Inr y, w') \<longleftrightarrow> (\<exists>x w1. m w = (Inr x, w1) \<and> f x w1 = (Inr y, w'))"
  by (auto simp: bindE_def split: prod.splits sum.splits)

lemma bindE_Inl [io_simps]:
  "bindE m f w = (Inl e, w') \<longleftrightarrow>
     m w = (Inl e, w') \<or> (\<exists>x w1. m w = (Inr x, w1) \<and> f x w1 = (Inl e, w'))"
  by (auto simp: bindE_def split: prod.splits sum.splits)

lemma bindR_Inr: "bindR r f = Inr y \<longleftrightarrow> (\<exists>x. r = Inr x \<and> f x = Inr y)"
  by (cases r) (auto simp: bindR_def)

lemma bindR_simps [simp]: "bindR (Inr x) f = f x" "bindR (Inl e) f = Inl e"
  by (simp_all add: bindR_def)

lemma ok_or_Inr [simp]: "ok_or x e = Inr v \<longleftrightarrow> x = Some v"
  by (cases x) (auto simp: ok_or_def)

lemma ok_or_simps [simp]: "ok_or (Some v) e = Inr v" "ok_or None e = Inl e"
  by (simp_all add: ok_or_def)

lemma forR_Inr: "forR xs f = Inr u \<longleftrightarrow> (\<forall>x \<in> set xs. f x = Inr ())"
  by (induction xs) (auto simp: bindR_Inr)

text \<open>
  An effect that satisfies a reflexive and transitive relation on worlds, whatever it returns. Safety
  properties of a program that hold whatever its environment does are proved by composing it.
\<close>

definition keepsE :: "('w \<Rightarrow> 'w \<Rightarrow> bool) \<Rightarrow> ('e, 'w, 'a) io \<Rightarrow> bool" where
  "keepsE R m \<longleftrightarrow> (\<forall>w r w'. m w = (r, w') \<longrightarrow> R w w')"

lemma keepsED: "keepsE R m \<Longrightarrow> m w = (r, w') \<Longrightarrow> R w w'"
  by (auto simp: keepsE_def)

lemma keepsE_return [intro]: "reflp R \<Longrightarrow> keepsE R (returnE x)"
  by (auto simp: keepsE_def reflp_def)

lemma keepsE_throw [intro]: "reflp R \<Longrightarrow> keepsE R (throwE e)"
  by (auto simp: keepsE_def reflp_def)

lemma keepsE_lift [intro]: "reflp R \<Longrightarrow> keepsE R (liftE r)"
  by (auto simp: keepsE_def reflp_def)

lemma keepsE_bind:
  assumes "transp R" and "keepsE R m" and "\<And>x. keepsE R (f x)"
  shows "keepsE R (bindE m f)"
  unfolding keepsE_def bindE_def
  by (auto split: prod.splits sum.splits)
    (use assms in \<open>auto dest: keepsED transpD\<close>)

lemma keepsE_attempt: "keepsE R m \<Longrightarrow> keepsE R (attemptE m)"
  by (auto simp: keepsE_def attemptE_def split: prod.splits)

lemma keepsE_when: "reflp R \<Longrightarrow> keepsE R m \<Longrightarrow> keepsE R (whenE b m)"
  by (simp add: whenE_def keepsE_return)

lemma keepsE_for:
  assumes "reflp R" "transp R" "\<And>x. x \<in> set xs \<Longrightarrow> keepsE R (f x)"
  shows "keepsE R (forE xs f)"
  using assms(3)
  by (induction xs) (auto intro!: keepsE_bind keepsE_return assms(1,2))

text \<open>
  Partial-correctness triples with one postcondition for success and one for failure.
\<close>

definition tripleE ::
  "('w \<Rightarrow> bool) \<Rightarrow> ('e, 'w, 'a) io \<Rightarrow> ('a \<Rightarrow> 'w \<Rightarrow> bool) \<Rightarrow> ('e \<Rightarrow> 'w \<Rightarrow> bool) \<Rightarrow> bool" where
  "tripleE P m Q E \<longleftrightarrow>
     (\<forall>w. P w \<longrightarrow> (case m w of (Inl e, w') \<Rightarrow> E e w' | (Inr x, w') \<Rightarrow> Q x w'))"

lemma tripleE_Inr: "tripleE P m Q E \<Longrightarrow> P w \<Longrightarrow> m w = (Inr x, w') \<Longrightarrow> Q x w'"
  by (fastforce simp: tripleE_def)

lemma tripleE_Inl: "tripleE P m Q E \<Longrightarrow> P w \<Longrightarrow> m w = (Inl e, w') \<Longrightarrow> E e w'"
  by (fastforce simp: tripleE_def)

lemma tripleE_return: "(\<And>w. P w \<Longrightarrow> Q x w) \<Longrightarrow> tripleE P (returnE x) Q E"
  by (simp add: tripleE_def)

lemma tripleE_throw: "(\<And>w. P w \<Longrightarrow> E e w) \<Longrightarrow> tripleE P (throwE e) Q E"
  by (simp add: tripleE_def)

lemma tripleE_bind:
  "tripleE P m R E \<Longrightarrow> (\<And>x. tripleE (R x) (f x) Q E) \<Longrightarrow> tripleE P (bindE m f) Q E"
  unfolding tripleE_def bindE_def by (fastforce split: prod.splits sum.splits)

lemma tripleE_attempt:
  "tripleE P m (\<lambda>x. Q (Inr x)) (\<lambda>e. Q (Inl e)) \<Longrightarrow> tripleE P (attemptE m) Q E"
  unfolding tripleE_def attemptE_def by (fastforce split: prod.splits sum.splits)

lemma tripleE_conseq:
  "tripleE P' m Q' E' \<Longrightarrow> (\<And>w. P w \<Longrightarrow> P' w) \<Longrightarrow> (\<And>x w. Q' x w \<Longrightarrow> Q x w) \<Longrightarrow>
   (\<And>e w. E' e w \<Longrightarrow> E e w) \<Longrightarrow> tripleE P m Q E"
  unfolding tripleE_def by (fastforce split: prod.splits sum.splits)

lemma tripleE_when:
  "(b \<Longrightarrow> tripleE P m (\<lambda>_. Q) E) \<Longrightarrow> (\<And>w. \<not> b \<Longrightarrow> P w \<Longrightarrow> Q w) \<Longrightarrow> tripleE P (whenE b m) (\<lambda>_. Q) E"
  by (simp add: whenE_def tripleE_return)

text \<open>A loop over a list, with an invariant on the elements already handled.\<close>

lemma tripleE_for_from:
  assumes "\<And>done x rest. xs = done @ x # rest \<Longrightarrow>
    tripleE (I (before @ done)) (f x) (\<lambda>_. I (before @ done @ [x])) E"
  shows "tripleE (I before) (forE xs f) (\<lambda>_. I (before @ xs)) E"
  using assms
proof (induction xs arbitrary: before)
  case Nil
  then show ?case by (simp add: tripleE_def)
next
  case (Cons x xs)
  have "tripleE (I before) (f x) (\<lambda>_. I (before @ [x])) E" using Cons.prems [of "[]"] by simp
  moreover have "tripleE (I (before @ [x])) (forE xs f) (\<lambda>_. I ((before @ [x]) @ xs)) E"
  proof (rule Cons.IH)
    fix dn y rest
    assume "xs = dn @ y # rest"
    then show "tripleE (I ((before @ [x]) @ dn)) (f y) (\<lambda>_. I ((before @ [x]) @ dn @ [y])) E"
      using Cons.prems [of "x # dn" y rest] by simp
  qed
  ultimately show ?case by (auto intro: tripleE_bind)
qed

lemmas tripleE_for = tripleE_for_from [where before = "[]", simplified]

end
