(* ===== verification/Domain.thy ===== *)
theory Domain
  imports Prelude
begin

text \<open>
  The data of the SDK: the error type of src/crates/sdk/src/error.rs and the value types of
  src/crates/sdk/src/domain (lifecycle.rs, microvm.rs, autostart.rs, artifact.rs, registry.rs,
  snapshot.rs, restore.rs) that the components exchange. Structs are records, whose fields carry
  a short prefix because HOL fields share one name space; enums are datatypes.

  Errors of other crates (\<open>io::Error\<close>, \<open>reqwest::Error\<close>, \<open>rusqlite::Error\<close>) are represented by what
  the SDK reads of them: the kind of an I/O error and its text. Where the SDK stores the rendered
  text of an error (\<open>error.to_string()\<close>) the model stores the error itself, as a \<open>message\<close>;
  \<open>Quoted\<close> is a text around a string in the format \<open>{:?}\<close>, which is not rendered.
\<close>

section \<open>Addresses and modes\<close>

type_synonym ipv4 = u32

datatype ip_addr = V4 ipv4 | V6 "128 word"

datatype MicroVmState = Running | Stopped

fun MicroVmState_as_str :: "MicroVmState \<Rightarrow> string" where
  "MicroVmState_as_str Running = ''running''"
| "MicroVmState_as_str Stopped = ''stopped''"

datatype NetworkMode = HostOnly | Lan

fun NetworkMode_as_str :: "NetworkMode \<Rightarrow> string" where
  "NetworkMode_as_str HostOnly = ''host_only''"
| "NetworkMode_as_str Lan = ''lan''"

definition NetworkMode_parse :: "string \<Rightarrow> NetworkMode option" where
  "NetworkMode_parse v =
     (if v = ''host_only'' then Some HostOnly else if v = ''lan'' then Some Lan else None)"

lemma NetworkMode_parse_as_str [simp]: "NetworkMode_parse (NetworkMode_as_str m) = Some m"
  by (cases m) (simp_all add: NetworkMode_parse_def)

section \<open>Errors\<close>

datatype io_kind = NotFoundKind | AlreadyExistsKind | ConnectionRefusedKind | ConnectionResetKind
  | UnexpectedEofKind | UnsupportedKind | OtherKind

record io_error =
  io_kind :: io_kind
  io_text :: string

record PrunedImageId =
  pi_distribution_id :: string
  pi_image_id :: string

record PruneSummary =
  ps_removed_kernels :: "string list"
  ps_removed_images :: "PrunedImageId list"
  ps_skipped_artifact_keys :: "string list"
  ps_freed_bytes_kernels :: u64
  ps_freed_bytes_images :: u64
  ps_freed_bytes_total :: u64

datatype SdkError =
    InvalidRequest string string
  | InvalidHome path string
  | InvalidMetadata string string
  | InvalidUrl string
  | NotFound string string
  | RegistryTransport string
  | RegistryStatus string nat
  | RegistryDecode string
  | UnsupportedSchema u32 u32
  | Filesystem string path io_error
  | IntegrityMismatch string u64 u64 string string
  | Concurrency path
  | Sqlite string
  | Migration string
  | TaskJoin string
  | StaleBinary string string path
  | ArtifactPrerequisite string string path message
  | DiskSizeTooSmall string u64 u64
  | RuntimeIncompatible string string string string string
  | StorageConflict string path string string
  | LifecycleConflict string string string
  | ConfigurationConflict string string string string
  | Network string string string string
  | GuestFilesystem string path string
  | Credential string path string
  | TemporaryRuntime string message bool
  | Cleanup message "message list"
  | HostCommand string string
  | SnapshotOutputExists path
  | SnapshotViewInvalid string string
  | SnapshotCapacity string string
  | SnapshotArchive string string
  | SnapshotCancelled
  | UnsupportedSnapshotVersion u32 u32
  | UnsupportedSnapshotPolicy string
  | InvalidSnapshotManifest string
  | SnapshotNetworkConflict string string
  | SnapshotSanitization path string
  | SnapshotCapability string string
  | SnapshotCowOverflow string
  | RestoreConflict string string string
  | RestoreArchive string message
  | RestoreRecovery string string
  | RestoreCancelled
  | IncompatibleArtifact string string
  | PruneIncomplete PruneSummary "(string \<times> message) list"
  | Cancelled
and message = Text string | Shown SdkError | Prefixed string SdkError | Quoted string string string

type_synonym 'a result = "SdkError + 'a"
type_synonym ('w, 'a) sdk_io = "(SdkError, 'w, 'a) io"

abbreviation invalid_metadata :: "string \<Rightarrow> string \<Rightarrow> SdkError" where
  "invalid_metadata artifact reason \<equiv> InvalidMetadata artifact reason"

text \<open>How code that collected clean-up failures reports a primary error.\<close>

definition with_cleanup_failures :: "SdkError \<Rightarrow> message list \<Rightarrow> SdkError" where
  "with_cleanup_failures primary failures =
     (if failures = [] then primary else Cleanup (Shown primary) failures)"

section \<open>The registry manifest\<close>

datatype Architecture = X86_64 | Aarch64 | Arm | Riscv64 | X86
datatype Endianness = Little | Big
datatype Linkage = Static | Dynamic

fun architecture_name :: "Architecture \<Rightarrow> string" where
  "architecture_name X86_64 = ''x86_64''"
| "architecture_name Aarch64 = ''aarch64''"
| "architecture_name Arm = ''arm''"
| "architecture_name Riscv64 = ''riscv64''"
| "architecture_name X86 = ''x86''"

record ElfMetadata =
  elf_class :: string
  elf_endianness :: Endianness
  elf_type :: string
  elf_machine :: string
  elf_entry_point :: string
  elf_build_id :: "string option"
  elf_interpreter :: "string option"
  elf_needed_libraries :: "string list option"
  elf_linkage :: "Linkage option"
  elf_stripped :: "bool option"

record Kernel =
  k_id :: string
  k_name :: string
  k_display_name :: string
  k_version :: string
  k_architecture :: Architecture
  k_path :: string
  k_url :: string
  k_filename :: string
  k_size_bytes :: u64
  k_sha256 :: string
  k_format :: string
  k_mime_type :: string
  k_elf :: "ElfMetadata option"
  k_modified_at :: string

record BinaryFile =
  bf_name :: string
  bf_path :: string
  bf_url :: string
  bf_filename :: string
  bf_size_bytes :: u64
  bf_sha256 :: string
  bf_mime_type :: string
  bf_executable :: bool
  bf_mode :: "string option"
  bf_permissions :: "string option"
  bf_format :: "string option"
  bf_elf :: "ElfMetadata option"
  bf_modified_at :: string

record BinaryPackage =
  bp_id :: string
  bp_name :: string
  bp_display_name :: string
  bp_description :: "string option"
  bp_version :: string
  bp_architecture :: Architecture
  bp_files :: "BinaryFile list"

record FilesystemMetadata =
  fs_filesystem_type :: string
  fs_uuid :: string
  fs_block_size :: u64
  fs_block_count :: u64
  fs_free_blocks :: u64
  fs_inode_count :: u64
  fs_free_inodes :: u64
  fs_features :: "string list"

record DistributionImage =
  di_id :: string
  di_name :: string
  di_display_name :: string
  di_description :: string
  di_variant :: string
  di_path :: string
  di_url :: string
  di_filename :: string
  di_format :: string
  di_filesystem :: FilesystemMetadata
  di_size_bytes :: u64
  di_sha256 :: string
  di_capabilities :: "string list"
  di_mime_type :: string
  di_modified_at :: string

record BootConfiguration =
  bc_root_device :: string
  bc_kernel_args :: "string list"

record DistributionRequirements =
  dr_min_memory_mb :: u64
  dr_min_vcpus :: u32

record Distribution =
  d_id :: string
  d_name :: string
  d_display_name :: string
  d_description :: string
  d_distribution :: string
  d_version :: string
  d_codename :: string
  d_architecture :: Architecture
  d_vendor :: string
  d_homepage :: string
  d_default_kernel :: string
  d_supported_kernels :: "string list"
  d_boot :: BootConfiguration
  d_requirements :: DistributionRequirements
  d_images :: "DistributionImage list"

datatype RegistryTypeLanguage = Typescript | Rust

record RegistryTypeFile =
  rt_language :: RegistryTypeLanguage
  rt_path :: string
  rt_url :: string
  rt_filename :: string
  rt_size_bytes :: u64
  rt_sha256 :: string
  rt_mime_type :: string
  rt_modified_at :: string

record RegistryTypePackage =
  rp_id :: string
  rp_name :: string
  rp_display_name :: string
  rp_description :: "string option"
  rp_format :: string
  rp_schema_version :: u32
  rp_files :: "RegistryTypeFile list"

record RegistryMetadata =
  rm_name :: string
  rm_version :: string
  rm_description :: string
  rm_base_url :: string
  rm_updated_at :: string

record TaumaruRegistry =
  reg_schema_version :: u32
  reg_registry :: RegistryMetadata
  reg_kernels :: "Kernel list"
  reg_binaries :: "BinaryPackage list"
  reg_distributions :: "Distribution list"
  reg_types :: "RegistryTypePackage list"

section \<open>MicroVMs\<close>

record CreateMicroVmRequest =
  cr_name :: string
  cr_distribution_id :: string
  cr_image_id :: string
  cr_disk_size_bytes :: u64
  cr_vcpu_count :: u32
  cr_memory_bytes :: u64
  cr_expose_on_lan :: bool
  cr_lan_address :: "ipv4 option"
  cr_volume_path :: "path option"

record SshConnectionInfo =
  ssh_user :: string
  ssh_port :: u16
  ssh_address :: ip_addr
  ssh_private_key_path :: path
  ssh_public_key_path :: path

record NetworkConfiguration =
  nc_mode :: NetworkMode
  nc_guest_address :: ip_addr
  nc_prefix_length :: u8
  nc_gateway :: "ip_addr option"
  nc_tap_name :: string
  nc_bridge_name :: "string option"
  nc_uplink_name :: "string option"
  nc_lan_address :: "ip_addr option"

datatype NetworkResource = Tap | TapAddress | HostRoute | ProxyArpEntry | Bridge
  | BridgeUplinkAttachment | BridgeTapAttachment | Forwarding | ForwardRule | Nat | IptablesNat
  | FirecrackerInterface | DhcpLease

fun NetworkResource_as_str :: "NetworkResource \<Rightarrow> string" where
  "NetworkResource_as_str Tap = ''tap''"
| "NetworkResource_as_str TapAddress = ''tap_address''"
| "NetworkResource_as_str HostRoute = ''host_route''"
| "NetworkResource_as_str ProxyArpEntry = ''proxy_arp_entry''"
| "NetworkResource_as_str Bridge = ''bridge''"
| "NetworkResource_as_str BridgeUplinkAttachment = ''bridge_uplink_attachment''"
| "NetworkResource_as_str BridgeTapAttachment = ''bridge_tap_attachment''"
| "NetworkResource_as_str Forwarding = ''forwarding''"
| "NetworkResource_as_str ForwardRule = ''forward_rule''"
| "NetworkResource_as_str Nat = ''nat''"
| "NetworkResource_as_str IptablesNat = ''iptables_nat''"
| "NetworkResource_as_str FirecrackerInterface = ''firecracker_interface''"
| "NetworkResource_as_str DhcpLease = ''dhcp_lease''"

definition NetworkResource_parse :: "string \<Rightarrow> NetworkResource option" where
  "NetworkResource_parse v =
     (if v = ''tap'' then Some Tap
      else if v = ''tap_address'' then Some TapAddress
      else if v = ''host_route'' then Some HostRoute
      else if v = ''proxy_arp_entry'' then Some ProxyArpEntry
      else if v = ''bridge'' then Some Bridge
      else if v = ''bridge_uplink_attachment'' then Some BridgeUplinkAttachment
      else if v = ''bridge_tap_attachment'' then Some BridgeTapAttachment
      else if v = ''forwarding'' then Some Forwarding
      else if v = ''forward_rule'' then Some ForwardRule
      else if v = ''nat'' then Some Nat
      else if v = ''iptables_nat'' then Some IptablesNat
      else if v = ''firecracker_interface'' then Some FirecrackerInterface
      else if v = ''dhcp_lease'' then Some DhcpLease
      else None)"

lemma NetworkResource_parse_as_str [simp]:
  "NetworkResource_parse (NetworkResource_as_str r) = Some r"
  by (cases r) (simp_all add: NetworkResource_parse_def)

record MicroVmCreationResult =
  mcr_name :: string
  mcr_state :: MicroVmState
  mcr_distribution_id :: string
  mcr_image_id :: string
  mcr_volume_path :: path
  mcr_rootfs_path :: path
  mcr_socket_path :: path
  mcr_vcpu_count :: u32
  mcr_memory_bytes :: u64
  mcr_disk_size_bytes :: u64
  mcr_network :: NetworkConfiguration
  mcr_ssh :: SshConnectionInfo

record MicroVmStartResult =
  msr_name :: string
  msr_state :: MicroVmState
  msr_volume_path :: path
  msr_rootfs_path :: path
  msr_socket_path :: path
  msr_process_id :: u32
  msr_network :: NetworkConfiguration
  msr_ssh :: SshConnectionInfo

record MicroVmStopResult =
  mst_name :: string
  mst_state :: MicroVmState
  mst_socket_path :: path
  mst_forced :: bool

record MicroVmDeleteResult =
  mdr_name :: string

record UpdateMicroVmRequest =
  ur_name :: string
  ur_disk_size_bytes :: "u64 option"
  ur_memory_bytes :: "u64 option"
  ur_vcpu_count :: "u32 option"

record MicroVmUpdateResult =
  mur_name :: string
  mur_state :: MicroVmState
  mur_distribution_id :: string
  mur_image_id :: string
  mur_volume_path :: path
  mur_rootfs_path :: path
  mur_vcpu_count :: u32
  mur_memory_bytes :: u64
  mur_disk_size_bytes :: u64
  mur_disk_resized :: bool

record MicroVmSummary =
  mvs_name :: string
  mvs_state :: MicroVmState
  mvs_vcpu_count :: u32
  mvs_memory_bytes :: u64
  mvs_disk_size_bytes :: u64
  mvs_distribution_id :: string
  mvs_image_id :: string
  mvs_network_mode :: "NetworkMode option"
  mvs_guest_address :: "ip_addr option"
  mvs_lan_address :: "ip_addr option"

record RunningMicroVm =
  run_name :: string
  run_ssh :: SshConnectionInfo

record MicroVmRecord =
  vm_id :: int
  vm_name :: string
  vm_distribution_id :: string
  vm_image_id :: string
  vm_kernel_id :: string
  vm_firecracker_package_id :: string
  vm_firectl_package_id :: string
  vm_disk_size_bytes :: u64
  vm_memory_bytes :: u64
  vm_memory_effective_mib :: u64
  vm_vcpu_count :: u32
  vm_volume_path :: path
  vm_rootfs_path :: path
  vm_socket_path :: path
  vm_expose_on_lan :: bool
  vm_created_at :: int

record PersistedNetworkResource =
  pnr_resource :: NetworkResource
  pnr_identity :: string
  pnr_fingerprint :: string
  pnr_ownership :: string
  pnr_adapter_handle :: "string option"
  pnr_last_observed :: string

record PersistedNetwork =
  pn_config :: NetworkConfiguration
  pn_host_address :: "ip_addr option"
  pn_guest_mac :: string
  pn_dhcp_lease_reference :: "string option"
  pn_desired_boot_parameters :: string
  pn_resources :: "PersistedNetworkResource list"
  pn_uplink_cidr :: "string option"
  pn_proxy_arp_enabled_by_sdk :: bool
  pn_bridge_created_by_sdk :: bool
  pn_uplink_attached_by_sdk :: bool
  pn_forwarding_enabled_by_sdk :: bool
  pn_nat_table_created_by_sdk :: bool
  pn_nat_chain_created_by_sdk :: bool
  pn_host_route_created_by_sdk :: bool
  pn_proxy_arp_entry_created_by_sdk :: bool
  pn_host_address_specs :: "string list"
  pn_default_route_specs :: "string list list"

record PersistedCredential =
  pc_private_key_path :: path
  pc_public_key_path :: path
  pc_guest_authorized_keys_path :: string
  pc_key_type :: string
  pc_ssh_user :: string
  pc_ssh_port :: u16
  pc_public_key_fingerprint :: string
  pc_file_mode :: string

record PersistedRuntime =
  rt_firecracker_path :: path
  rt_firectl_path :: path
  rt_socket_path :: path
  rt_process_id :: "u32 option"
  rt_process_state :: string

text \<open>The creation stages and their progress events.\<close>

datatype CreationStage = Validation | PrerequisiteResolution | VolumePreparation | CredentialSetup
  | NetworkConfigurationStage | Finalization

fun CreationStage_as_str :: "CreationStage \<Rightarrow> string" where
  "CreationStage_as_str Validation = ''validation''"
| "CreationStage_as_str PrerequisiteResolution = ''prerequisite_resolution''"
| "CreationStage_as_str VolumePreparation = ''volume_preparation''"
| "CreationStage_as_str CredentialSetup = ''credential_setup''"
| "CreationStage_as_str NetworkConfigurationStage = ''network_configuration''"
| "CreationStage_as_str Finalization = ''finalization''"

definition CreationStage_parse :: "string \<Rightarrow> CreationStage option" where
  "CreationStage_parse v =
     (if v = ''validation'' then Some Validation
      else if v = ''prerequisite_resolution'' then Some PrerequisiteResolution
      else if v = ''volume_preparation'' then Some VolumePreparation
      else if v = ''credential_setup'' then Some CredentialSetup
      else if v = ''network_configuration'' then Some NetworkConfigurationStage
      else if v = ''finalization'' then Some Finalization
      else None)"

datatype CreationOutcome = Completed | AlreadyConfigured | Failed CreationStage

datatype CreationEventPhase = Started | InProgress | Finished

record CreationProgress =
  cp_stage :: CreationStage
  cp_completed_steps :: u64
  cp_total_steps :: u64
  cp_overall_percent :: u64
  cp_phase :: CreationEventPhase
  cp_bytes_completed :: "u64 option"
  cp_expected_bytes :: "u64 option"
  cp_outcome :: "CreationOutcome option"

section \<open>Autostart policies\<close>

record AutostartPolicy =
  ap_name :: string
  ap_enabled :: bool
  ap_max_start_attempts :: u32

record AutostartSettings =
  as_enabled :: bool
  as_max_start_attempts :: u32

record AutostartPolicyUpdate =
  au_enabled :: "bool option"
  au_max_start_attempts :: "u32 option"

record AutostartDeleteResult =
  ad_name :: string
  ad_removed :: bool

datatype AutostartResult = AutostartStarted MicroVmStartResult | AutostartPaused
  | AutostartFailed SdkError

record AutostartOutcome =
  ao_name :: string
  ao_attempts :: u32
  ao_result :: AutostartResult

end
