(* ===== verification/Request_Validation.thy ===== *)
theory Request_Validation
  imports Domain
begin

text \<open>
  Request validation, src/crates/sdk/src/domain/config.rs: VM names, registry identifiers, sizes,
  the rounding of memory to MiB and the normalisation of volume paths. The theorems say exactly
  which names and identifiers pass, that an accepted name is one plain path component (so the
  default volume \<open>home/vms/name\<close> stays below the home directory), that a normalised volume path
  is absolute without \<open>.\<close> and \<open>..\<close> and that normalising is idempotent, and the bounds an accepted
  request satisfies.
\<close>

definition BYTES_PER_MIB :: u64 where
  "BYTES_PER_MIB = 1024 * 1024"

definition I64_MAX :: u64 where
  "I64_MAX = 9223372036854775807"

record ValidatedCreateRequest =
  vr_request :: CreateMicroVmRequest
  vr_volume_path :: path
  vr_memory_effective_mib :: u64

definition name_char :: "nat \<Rightarrow> char \<Rightarrow> bool" where
  "name_char index c \<longleftrightarrow>
     (if index = 0 then is_ascii_alphanumeric c
      else is_ascii_alphanumeric c \<or> c = CHR ''-'' \<or> c = CHR ''_'')"

definition validate_vm_name :: "string \<Rightarrow> unit result" where
  "validate_vm_name name =
     (let valid_length = (1 \<le> length name \<and> length name \<le> 64);
          valid_chars = list_all (\<lambda>(i, c). name_char i c) (enumerate 0 name)
      in if \<not> list_all is_ascii name \<or> \<not> valid_length \<or> \<not> valid_chars
         then Inl (InvalidRequest ''name'' (''must be 1-64 ASCII characters, start with a letter or digit, and contain only letters, digits, '-' or '_'' @ [CHR 0x27]))
         else Inr ())"

definition validate_identifier :: "string \<Rightarrow> string \<Rightarrow> unit result" where
  "validate_identifier v field =
     (if v = [] \<or> \<not> list_all is_ascii v \<or> v = ''.'' \<or> v = ''..''
         \<or> CHR ''/'' \<in> set v \<or> CHR 0x5C \<in> set v
         \<or> list_ex (\<lambda>c. is_ascii_control c \<or> is_ascii_whitespace c) v
      then Inl (InvalidRequest field ''must be a non-empty safe registry identifier'')
      else Inr ())"

definition validate_positive :: "'a::len word \<Rightarrow> string \<Rightarrow> unit result" where
  "validate_positive v field =
     (if v = 0 then Inl (InvalidRequest field ''must be greater than zero'') else Inr ())"

text \<open>One step of the component loop of \<open>normalize_volume_path\<close>.\<close>

definition normalize_step :: "component \<Rightarrow> path \<Rightarrow> path" where
  "normalize_step c normalized =
     (case c of
        RootDir \<Rightarrow> path_join normalized [RootDir]
      | CurDir \<Rightarrow> normalized
      | ParentDir \<Rightarrow> if normalized \<noteq> [RootDir] then path_pop normalized else normalized
      | Normal part \<Rightarrow> path_join normalized [Normal part])"

definition normalize_volume_path :: "path \<Rightarrow> path result" where
  "normalize_volume_path p =
     (if \<not> is_absolute p
      then Inl (InvalidRequest ''volume_path'' ''must be an absolute directory path'')
      else let normalized = fold normalize_step p []
           in if normalized = []
              then Inl (InvalidRequest ''volume_path'' ''must resolve to a directory'')
              else Inr normalized)"

definition minimum_memory_bytes :: "u64 \<Rightarrow> u64 result" where
  "minimum_memory_bytes min_memory_mb =
     ok_or (checked_mul min_memory_mb BYTES_PER_MIB)
       (InvalidMetadata ''distribution requirements'' ''minimum memory exceeds the supported range'')"

definition validate :: "CreateMicroVmRequest \<Rightarrow> path \<Rightarrow> ValidatedCreateRequest result" where
  "validate r home =
     bindR (validate_vm_name (cr_name r)) (\<lambda>_.
     bindR (validate_identifier (cr_distribution_id r) ''distribution_id'') (\<lambda>_.
     bindR (validate_identifier (cr_image_id r) ''image_id'') (\<lambda>_.
     if \<not> cr_expose_on_lan r \<and> cr_lan_address r \<noteq> None
     then Inl (InvalidRequest ''lan_address'' ''an explicit LAN address requires LAN exposure'')
     else
     bindR (validate_positive (cr_disk_size_bytes r) ''disk_size_bytes'') (\<lambda>_.
     bindR (validate_positive (cr_vcpu_count r) ''vcpu_count'') (\<lambda>_.
     bindR (validate_positive (cr_memory_bytes r) ''memory_bytes'') (\<lambda>_.
     if cr_disk_size_bytes r > I64_MAX
     then Inl (InvalidRequest ''disk_size_bytes'' ''value exceeds the SQLite INTEGER range'')
     else if cr_memory_bytes r > I64_MAX
     then Inl (InvalidRequest ''memory_bytes'' ''value exceeds the SQLite INTEGER range'')
     else
     bindR (ok_or (checked_add (cr_memory_bytes r) (BYTES_PER_MIB - 1))
             (InvalidRequest ''memory_bytes'' ''value cannot be converted to MiB'')) (\<lambda>rounded.
     let memory_effective_mib = rounded div BYTES_PER_MIB in
     if memory_effective_mib = 0 \<or> memory_effective_mib > I64_MAX
     then Inl (InvalidRequest ''memory_bytes'' ''value cannot be represented as a Firecracker MiB value'')
     else
     bindR (case cr_volume_path r of
              Some p \<Rightarrow> normalize_volume_path p
            | None \<Rightarrow> Inr (path_join (path_join home (components ''vms'')) (components (cr_name r))))
      (\<lambda>volume_path.
     if volume_path = []
     then Inl (InvalidRequest ''volume_path'' ''path must not be empty'')
     else Inr \<lparr>vr_request = r, vr_volume_path = volume_path,
               vr_memory_effective_mib = memory_effective_mib\<rparr>))))))))"

section \<open>Names and identifiers\<close>

lemma list_all_enumerate:
  "list_all (\<lambda>(i, c). P i c) (enumerate n xs) \<longleftrightarrow> (\<forall>i < length xs. P (n + i) (xs ! i))"
proof (induction xs arbitrary: n)
  case Nil
  then show ?case by simp
next
  case (Cons x xs)
  have "(\<forall>i < length (x # xs). P (n + i) ((x # xs) ! i))
      \<longleftrightarrow> P n x \<and> (\<forall>i < length xs. P (Suc n + i) (xs ! i))"
    by (auto simp: less_Suc_eq_0_disj nth_Cons split: nat.splits)
  with Cons show ?case by simp
qed

lemma name_char_plain: "name_char i c \<Longrightarrow> is_ascii c \<and> c \<noteq> CHR ''/'' \<and> c \<noteq> CHR ''.''"
  by (auto simp: name_char_def is_ascii_alphanumeric_def is_ascii_digit_def is_ascii_def
      split: if_splits)

lemma validate_vm_name_Inr:
  "validate_vm_name name = Inr () \<longleftrightarrow>
     0 < length name \<and> length name \<le> 64 \<and> (\<forall>i < length name. name_char i (name ! i))"
proof -
  have "(\<forall>i < length name. name_char i (name ! i)) \<Longrightarrow> list_all is_ascii name"
    using name_char_plain by (fastforce simp: list_all_length)
  then show ?thesis
    by (auto simp: validate_vm_name_def Let_def list_all_enumerate Suc_le_eq)
qed

lemma valid_name_plain: "validate_vm_name name = Inr () \<Longrightarrow> plain_name name"
proof -
  assume "validate_vm_name name = Inr ()"
  then have ne: "name \<noteq> []" and ok: "\<forall>i < length name. name_char i (name ! i)"
    by (auto simp: validate_vm_name_Inr)
  have "CHR ''/'' \<notin> set name \<and> CHR ''.'' \<notin> set name"
    using ok name_char_plain by (metis in_set_conv_nth)
  then show ?thesis using ne by (auto simp: plain_name_def)
qed

lemma valid_identifier_plain: "validate_identifier v field = Inr () \<Longrightarrow> plain_name v"
  by (auto simp: validate_identifier_def plain_name_def split: if_splits)

section \<open>Volume paths\<close>

lemma path_pop_normal:
  assumes "list_all is_Normal q" and "q \<noteq> []"
  shows "path_pop (RootDir # q) = RootDir # butlast q"
proof -
  from assms have "is_Normal (last q)" by (simp add: list_all_iff)
  then show ?thesis using assms(2) by (auto simp: path_pop_def is_Normal_def)
qed

lemma normalize_step_normal:
  assumes "normal_absolute p" and "c \<noteq> RootDir"
  shows "normal_absolute (normalize_step c p)"
proof -
  from assms(1) obtain q where p: "p = RootDir # q" and q: "list_all is_Normal q"
    by (auto simp: normal_absolute_def)
  from q have "list_all is_Normal (butlast q)" by (auto simp: list_all_iff dest: in_set_butlastD)
  with p q assms(2) show ?thesis
    by (cases c)
      (auto simp: normal_absolute_def normalize_step_def path_join_def is_absolute_def
        path_pop_normal is_Normal_def)
qed

lemma normalize_fold_normal:
  "normal_absolute p \<Longrightarrow> RootDir \<notin> set cs \<Longrightarrow> normal_absolute (fold normalize_step cs p)"
  by (induction cs arbitrary: p) (auto simp: normalize_step_normal)

lemma normalize_fold_names:
  "p \<noteq> [] \<Longrightarrow> list_all is_Normal cs \<Longrightarrow> fold normalize_step cs p = p @ cs"
  by (induction cs arbitrary: p)
    (auto simp: normalize_step_def path_join_def is_absolute_def is_Normal_def
      split: component.splits)

lemma normalize_step_return:
  "normal_absolute p \<Longrightarrow> normalize_step ParentDir (normalize_step (Normal n) p) = p"
  by (auto simp: normal_absolute_def normalize_step_def path_join_def is_absolute_def path_pop_def)

text \<open>The components of a path as \<open>Path::components\<close> yields them: the root only in front.\<close>

definition path_wf :: "path \<Rightarrow> bool" where
  "path_wf p \<longleftrightarrow> RootDir \<notin> set (tl p)"

lemma piece_component_no_root: "RootDir \<notin> set (piece_component s)"
  by (simp add: piece_component_def)

lemma concat_pieces_no_root: "RootDir \<notin> set (concat (map piece_component ps))"
  using piece_component_no_root by auto

lemma components_wf: "path_wf (components s)"
proof (cases s)
  case Nil
  then show ?thesis by (simp add: path_wf_def components_def)
next
  case (Cons c cs)
  have tl_sub: "set (tl xs) \<subseteq> set xs" for xs :: path by (cases xs) auto
  show ?thesis
  proof (cases "c = CHR ''/''")
    case True
    with Cons show ?thesis using concat_pieces_no_root
      by (simp add: path_wf_def components_def)
  next
    case False
    obtain p ps where ps: "split_on CHR ''/'' s = p # ps" by (meson list.exhaust split_on_nonempty)
    let ?xs = "(if p = ''.'' then [CurDir] else piece_component p) @ concat (map piece_component ps)"
    from Cons False ps have "components s = ?xs" by (simp add: components_def)
    moreover have "RootDir \<notin> set ?xs"
      using piece_component_no_root [of p] concat_pieces_no_root [of ps] by auto
    ultimately show ?thesis using tl_sub [of ?xs] by (auto simp: path_wf_def)
  qed
qed

lemma normalize_volume_path_Inr:
  assumes "normalize_volume_path p = Inr q"
  obtains cs where "p = RootDir # cs" and "q = fold normalize_step cs [RootDir]"
proof -
  from assms have abs: "is_absolute p" and q: "q = fold normalize_step p []"
    by (auto simp: normalize_volume_path_def Let_def split: if_splits)
  from abs obtain cs where p: "p = RootDir # cs"
    by (auto simp: is_absolute_def split: list.splits component.splits)
  with q have "q = fold normalize_step cs [RootDir]"
    by (simp add: normalize_step_def path_join_def is_absolute_def)
  with p that show ?thesis by blast
qed

lemma normal_absolute_root [simp]: "normal_absolute [RootDir]"
  by (simp add: normal_absolute_def)

lemma normalize_volume_path_normal:
  assumes "path_wf p" and "normalize_volume_path p = Inr q"
  shows "normal_absolute q"
proof -
  from assms(2) obtain cs where "p = RootDir # cs" and "q = fold normalize_step cs [RootDir]"
    by (rule normalize_volume_path_Inr)
  with assms(1) show ?thesis by (auto simp: path_wf_def intro: normalize_fold_normal)
qed

lemma normalize_volume_path_id:
  assumes "normal_absolute q"
  shows "normalize_volume_path q = Inr q"
proof -
  from assms obtain cs where q: "q = RootDir # cs" and "list_all is_Normal cs"
    by (auto simp: normal_absolute_def)
  then have "fold normalize_step q [] = q"
    by (simp add: normalize_step_def path_join_def is_absolute_def normalize_fold_names)
  with q show ?thesis by (simp add: normalize_volume_path_def is_absolute_def)
qed

section \<open>Sizes\<close>

lemma unat_BYTES_PER_MIB [simp]: "unat BYTES_PER_MIB = 1048576"
  by (simp add: BYTES_PER_MIB_def)

lemma unat_I64_MAX [simp]: "unat I64_MAX = 9223372036854775807"
  by (simp add: I64_MAX_def)

lemma effective_mib_bounds:
  assumes "checked_add m (BYTES_PER_MIB - 1) = Some rounded"
  defines "mib \<equiv> unat (rounded div BYTES_PER_MIB)"
  shows "unat m \<le> mib * 1048576" and "mib * 1048576 < unat m + 1048576"
proof -
  from assms(1) have r: "unat rounded = unat m + 1048575"
    by (auto dest!: checked_add_Some simp: BYTES_PER_MIB_def)
  have mib: "mib = unat rounded div 1048576"
    by (simp add: mib_def unat_div_distrib)
  from r mib show "unat m \<le> mib * 1048576" by simp
  from r mib show "mib * 1048576 < unat m + 1048576" by simp
qed

lemma validate_positive_Inr [simp]: "validate_positive v f = Inr () \<longleftrightarrow> 0 < unat v"
  by (auto simp: validate_positive_def unat_gt_0)

lemma validate_Inr:
  assumes "validate r home = Inr v"
  obtains rounded where "validate_vm_name (cr_name r) = Inr ()"
    and "validate_identifier (cr_distribution_id r) ''distribution_id'' = Inr ()"
    and "validate_identifier (cr_image_id r) ''image_id'' = Inr ()"
    and "cr_lan_address r = None \<or> cr_expose_on_lan r"
    and "0 < unat (cr_disk_size_bytes r)" and "0 < unat (cr_vcpu_count r)"
    and "0 < unat (cr_memory_bytes r)"
    and "cr_disk_size_bytes r \<le> I64_MAX" and "cr_memory_bytes r \<le> I64_MAX"
    and "checked_add (cr_memory_bytes r) (BYTES_PER_MIB - 1) = Some rounded"
    and "vr_memory_effective_mib v = rounded div BYTES_PER_MIB"
    and "vr_memory_effective_mib v \<noteq> 0"
    and "vr_request v = r"
    and "(case cr_volume_path r of Some p \<Rightarrow> normalize_volume_path p
          | None \<Rightarrow> Inr (path_join (path_join home (components ''vms'')) (components (cr_name r))))
         = Inr (vr_volume_path v)"
  using assms unfolding validate_def
  by (auto simp: bindR_Inr Let_def not_less split: if_splits)

section \<open>Properties\<close>

definition sample_request :: CreateMicroVmRequest where
  "sample_request =
     \<lparr>cr_name = ''vm_01'', cr_distribution_id = ''ubuntu-24.04'', cr_image_id = ''base'',
      cr_disk_size_bytes = 4096, cr_vcpu_count = 2, cr_memory_bytes = 1048577,
      cr_expose_on_lan = False, cr_lan_address = None, cr_volume_path = None\<rparr>"

definition sample_home :: path where
  "sample_home = [RootDir, Normal ''srv'']"

definition sample_validated :: ValidatedCreateRequest where
  "sample_validated =
     \<lparr>vr_request = sample_request,
      vr_volume_path = [RootDir, Normal ''srv'', Normal ''vms'', Normal ''vm_01''],
      vr_memory_effective_mib = 2\<rparr>"

lemma sample_name_valid: "validate_vm_name ''vm_01'' = Inr ()"
  by code_simp

lemma sample_ids_valid:
  "validate_identifier ''ubuntu-24.04'' ''distribution_id'' = Inr ()"
  "validate_identifier ''base'' ''image_id'' = Inr ()"
  by code_simp+

lemma sample_volume:
  "path_join (path_join sample_home (components ''vms'')) (components ''vm_01'')
     = [RootDir, Normal ''srv'', Normal ''vms'', Normal ''vm_01'']"
  by code_simp

lemma sample_memory:
  "checked_add 1048577 (BYTES_PER_MIB - 1) = Some 2097152"
  "(2097152 :: u64) div BYTES_PER_MIB = 2"
  by (simp_all add: checked_add_def BYTES_PER_MIB_def)

lemma sample_validates: "validate sample_request sample_home = Inr sample_validated"
  by (simp add: validate_def sample_request_def sample_validated_def sample_name_valid
      sample_ids_valid sample_volume sample_memory ok_or_def validate_positive_def I64_MAX_def)

text \<open>(C32) An accepted creation request gets a volume directory that is an absolute path without
  \<open>.\<close> and \<open>..\<close>; when the caller names no volume it is exactly \<open>home/vms/name\<close>, so a VM name
  can never lead out of the managed directory.\<close>

theorem validate_volume_safe:
  assumes "validate r home = Inr v" and "normal_absolute home"
    and "\<forall>p. cr_volume_path r = Some p \<longrightarrow> path_wf p"
  shows "normal_absolute (vr_volume_path v) \<and>
    (cr_volume_path r = None \<longrightarrow>
       vr_volume_path v = home @ [Normal ''vms'', Normal (cr_name r)])"
proof -
  from assms(1) have name: "validate_vm_name (cr_name r) = Inr ()"
    and vol: "(case cr_volume_path r of Some p \<Rightarrow> normalize_volume_path p
        | None \<Rightarrow> Inr (path_join (path_join home (components ''vms'')) (components (cr_name r))))
       = Inr (vr_volume_path v)"
    by (auto elim: validate_Inr)
  show ?thesis
  proof (cases "cr_volume_path r")
    case None
    from assms(2) have "home \<noteq> []" by (auto simp: normal_absolute_def)
    then have "path_join (path_join home (components ''vms'')) (components (cr_name r))
        = home @ [Normal ''vms'', Normal (cr_name r)]"
      using valid_name_plain [OF name] by (simp add: path_join_plain_name plain_name_def)
    with vol None have "vr_volume_path v = home @ [Normal ''vms'', Normal (cr_name r)]" by simp
    with assms(2) show ?thesis by (auto simp: normal_absolute_def is_Normal_def)
  next
    case (Some p)
    with vol assms(3) show ?thesis by (auto intro: normalize_volume_path_normal)
  qed
qed

theorem validate_volume_safe_witness:
  "normal_absolute (vr_volume_path sample_validated) \<and>
   vr_volume_path sample_validated = sample_home @ [Normal ''vms'', Normal ''vm_01'']"
  using validate_volume_safe [OF sample_validates]
  by (simp add: sample_request_def sample_home_def normal_absolute_code is_Normal_def)

text \<open>(C33) The numbers of an accepted request: disk, memory and vCPUs are positive, disk and memory
  fit SQLite's signed 64-bit integers, the effective MiB value is the memory rounded up to whole
  MiB without overflow, and an explicit LAN address comes with LAN exposure.\<close>

theorem validate_bounds:
  assumes "validate r home = Inr v"
  shows "0 < unat (cr_disk_size_bytes r) \<and> unat (cr_disk_size_bytes r) < 2 ^ 63 \<and>
    0 < unat (cr_memory_bytes r) \<and> unat (cr_memory_bytes r) < 2 ^ 63 \<and>
    0 < unat (cr_vcpu_count r) \<and>
    unat (cr_memory_bytes r) \<le> unat (vr_memory_effective_mib v) * 2 ^ 20 \<and>
    unat (vr_memory_effective_mib v) * 2 ^ 20 < unat (cr_memory_bytes r) + 2 ^ 20 \<and>
    (cr_lan_address r = None \<or> cr_expose_on_lan r)"
  using assms
proof (rule validate_Inr)
  fix rounded
  assume "checked_add (cr_memory_bytes r) (BYTES_PER_MIB - 1) = Some rounded"
    and mib: "vr_memory_effective_mib v = rounded div BYTES_PER_MIB"
    and le: "cr_disk_size_bytes r \<le> I64_MAX" "cr_memory_bytes r \<le> I64_MAX"
    and pos: "0 < unat (cr_disk_size_bytes r)" "0 < unat (cr_vcpu_count r)"
      "0 < unat (cr_memory_bytes r)"
    and lan: "cr_lan_address r = None \<or> cr_expose_on_lan r"
  note mem = effective_mib_bounds [OF this(1)]
  from le have "unat (cr_disk_size_bytes r) < 2 ^ 63" "unat (cr_memory_bytes r) < 2 ^ 63"
    by (auto simp: word_le_nat_alt)
  with pos lan mem show ?thesis by (simp add: mib)
qed

theorem validate_bounds_witness:
  "unat (cr_memory_bytes sample_request) \<le> unat (vr_memory_effective_mib sample_validated) * 2 ^ 20
   \<and> unat (vr_memory_effective_mib sample_validated) * 2 ^ 20
       < unat (cr_memory_bytes sample_request) + 2 ^ 20"
  using validate_bounds [OF sample_validates] by blast

text \<open>Normalising a volume path given as text yields an absolute path of plain names, and
  normalising that again changes nothing.\<close>

lemma normalize_volume_path_idempotent:
  assumes "normalize_volume_path (components s) = Inr q"
  shows "normal_absolute q \<and> normalize_volume_path q = Inr q"
  using normalize_volume_path_normal [OF components_wf assms] normalize_volume_path_id by blast

end
