(* ===== verification/Registry.thy ===== *)
theory Registry
  imports Domain
begin

text \<open>
  Validation of the artifacts registry, src/crates/sdk/src/adapters/registry/taumaru.rs
  (\<open>validate_manifest\<close> and its helpers) and src/crates/sdk/src/domain/artifact.rs
  (\<open>is_valid_sha256\<close>, \<open>validate_registry_path\<close>). The URL parser belongs to another crate: it is the
  parameter \<open>url_scheme\<close>, the scheme of a URL that parses, \<open>None\<close> for one that does not. The
  \<open>HashSet\<close>s of identifiers already seen are lists used through membership only.

  The theorems say what a manifest the client accepts guarantees to the code that uses it:
  identifiers are unique and are single path components, every kernel a distribution names exists,
  and every registry path stays below the directory it is joined to.
\<close>

definition SUPPORTED_SCHEMA_VERSION :: u32 where
  "SUPPORTED_SCHEMA_VERSION = 1"

definition is_valid_sha256 :: "string \<Rightarrow> bool" where
  "is_valid_sha256 v \<longleftrightarrow>
     length v = 64 \<and>
     list_all (\<lambda>c. is_ascii_hexdigit c \<and> \<not> (65 \<le> byte c \<and> byte c \<le> 90)) v"

definition validate_registry_path :: "string \<Rightarrow> bool" where
  "validate_registry_path v =
     (if v = [] \<or> CHR 0x5C \<in> set v
         \<or> list_ex (\<lambda>p. p = [] \<or> p = ''.'' \<or> p = ''..'') (split_on CHR ''/'' v)
      then False
      else if is_absolute (components v) then False
      else list_all is_Normal (components v))"

definition validate_required_text :: "string \<Rightarrow> string \<Rightarrow> string \<Rightarrow> unit result" where
  "validate_required_text v artifact field =
     (if str_trim v = [] then Inl (invalid_metadata artifact (field @ '' must not be empty''))
      else Inr ())"

definition validate_id :: "string \<Rightarrow> string \<Rightarrow> unit result" where
  "validate_id i kind =
     (if i = [] \<or> CHR ''/'' \<in> set i \<or> CHR 0x5C \<in> set i \<or> i = ''.'' \<or> i = ''..''
      then Inl (invalid_metadata i (kind @ '' identifier is empty or unsafe''))
      else Inr ())"

fun validate_id_set_from :: "string list \<Rightarrow> string list \<Rightarrow> string \<Rightarrow> unit result" where
  "validate_id_set_from seen [] kind = Inr ()"
| "validate_id_set_from seen (i # ids) kind =
     bindR (validate_id i kind) (\<lambda>_.
     if i \<in> set seen
     then Inl (invalid_metadata kind (''duplicate registry identifier '' @ i))
     else validate_id_set_from (i # seen) ids kind)"

definition validate_id_set :: "string list \<Rightarrow> string \<Rightarrow> unit result" where
  "validate_id_set ids kind = validate_id_set_from [] ids kind"

definition validate_url :: "(string \<Rightarrow> string option) \<Rightarrow> string \<Rightarrow> string \<Rightarrow> unit result" where
  "validate_url url_scheme url artifact =
     (case url_scheme url of
        None \<Rightarrow> Inl (InvalidUrl url)
      | Some scheme \<Rightarrow>
          if scheme \<noteq> ''http'' \<and> scheme \<noteq> ''https''
          then Inl (invalid_metadata artifact ''URL scheme must be HTTP or HTTPS'')
          else Inr ())"

definition validate_common_file ::
  "(string \<Rightarrow> string option) \<Rightarrow> string \<Rightarrow> string \<Rightarrow> string \<Rightarrow> string \<Rightarrow> u64 \<Rightarrow> string \<Rightarrow> unit result" where
  "validate_common_file url_scheme artifact p url filename size_bytes sha256 =
     (if \<not> validate_registry_path p
      then Inl (invalid_metadata artifact ''registry path is not a safe relative path'')
      else
      bindR (validate_url url_scheme url artifact) (\<lambda>_.
      if filename = [] \<or> CHR ''/'' \<in> set filename \<or> CHR 0x5C \<in> set filename
         \<or> filename = ''.'' \<or> filename = ''..''
      then Inl (invalid_metadata artifact ''filename is not a single safe path component'')
      else if \<not> is_valid_sha256 sha256
      then Inl (invalid_metadata artifact ''SHA-256 must be 64 lowercase hexadecimal characters'')
      else Inr ()))"

definition validate_kernel :: "(string \<Rightarrow> string option) \<Rightarrow> Kernel \<Rightarrow> unit result" where
  "validate_kernel url_scheme k =
     bindR (validate_id (k_id k) ''kernel'') (\<lambda>_.
     bindR (validate_required_text (k_name k) (k_id k) ''name'') (\<lambda>_.
     bindR (validate_required_text (k_display_name k) (k_id k) ''display_name'') (\<lambda>_.
     bindR (validate_required_text (k_version k) (k_id k) ''version'') (\<lambda>_.
     bindR (validate_required_text (k_format k) (k_id k) ''format'') (\<lambda>_.
     bindR (validate_required_text (k_mime_type k) (k_id k) ''mime_type'') (\<lambda>_.
     bindR (validate_required_text (k_modified_at k) (k_id k) ''modified_at'') (\<lambda>_.
     validate_common_file url_scheme (k_id k) (k_path k) (k_url k) (k_filename k)
       (k_size_bytes k) (k_sha256 k))))))))"

definition validate_binary_file ::
  "(string \<Rightarrow> string option) \<Rightarrow> BinaryPackage \<Rightarrow> BinaryFile \<Rightarrow> unit result" where
  "validate_binary_file url_scheme b f =
     (let artifact = bp_id b @ ''/'' @ bf_name f in
      bindR (validate_required_text (bf_mime_type f) artifact ''mime_type'') (\<lambda>_.
      bindR (validate_required_text (bf_modified_at f) artifact ''modified_at'') (\<lambda>_.
      bindR (validate_common_file url_scheme artifact (bf_path f) (bf_url f) (bf_filename f)
               (bf_size_bytes f) (bf_sha256 f)) (\<lambda>_.
      case bf_mode f of
        Some mode \<Rightarrow>
          if mode = [] \<or> \<not> list_all (\<lambda>c. 48 \<le> byte c \<and> byte c \<le> 55) mode
          then Inl (invalid_metadata artifact ''binary mode is not octal'')
          else Inr ()
      | None \<Rightarrow> Inr ()))))"

fun validate_binary_files ::
  "(string \<Rightarrow> string option) \<Rightarrow> BinaryPackage \<Rightarrow> string list \<Rightarrow> BinaryFile list \<Rightarrow> unit result" where
  "validate_binary_files url_scheme b names [] = Inr ()"
| "validate_binary_files url_scheme b names (f # fs) =
     bindR (validate_id (bf_name f) ''binary component'') (\<lambda>_.
     if bf_name f \<in> set names
     then Inl (invalid_metadata (bp_id b) (''duplicate binary component '' @ bf_name f))
     else
     bindR (validate_binary_file url_scheme b f) (\<lambda>_.
     validate_binary_files url_scheme b (bf_name f # names) fs))"

definition validate_binary :: "(string \<Rightarrow> string option) \<Rightarrow> BinaryPackage \<Rightarrow> unit result" where
  "validate_binary url_scheme b =
     bindR (validate_id (bp_id b) ''binary package'') (\<lambda>_.
     bindR (validate_required_text (bp_name b) (bp_id b) ''name'') (\<lambda>_.
     bindR (validate_required_text (bp_display_name b) (bp_id b) ''display_name'') (\<lambda>_.
     bindR (validate_required_text (bp_version b) (bp_id b) ''version'') (\<lambda>_.
     bindR (validate_binary_files url_scheme b [] (bp_files b)) (\<lambda>_.
     if bp_files b = []
     then Inl (invalid_metadata (bp_id b) ''binary package has no files'')
     else Inr ())))))"

definition validate_image ::
  "(string \<Rightarrow> string option) \<Rightarrow> Distribution \<Rightarrow> DistributionImage \<Rightarrow> unit result" where
  "validate_image url_scheme d i =
     bindR (validate_id (di_id i) ''distribution image'') (\<lambda>_.
     let artifact = d_id d @ ''/'' @ di_id i in
     bindR (validate_required_text (di_name i) artifact ''name'') (\<lambda>_.
     bindR (validate_required_text (di_display_name i) artifact ''display_name'') (\<lambda>_.
     bindR (validate_required_text (di_description i) artifact ''description'') (\<lambda>_.
     bindR (validate_required_text (di_variant i) artifact ''variant'') (\<lambda>_.
     bindR (validate_required_text (di_format i) artifact ''format'') (\<lambda>_.
     if di_format i \<noteq> ''ext4''
     then Inl (invalid_metadata artifact ''distribution images must use the ext4 format'')
     else
     bindR (validate_required_text (fs_filesystem_type (di_filesystem i)) artifact ''filesystem.type'') (\<lambda>_.
     if fs_filesystem_type (di_filesystem i) \<noteq> ''ext4''
     then Inl (invalid_metadata artifact ''distribution images must declare an ext4 filesystem'')
     else
     bindR (validate_required_text (fs_uuid (di_filesystem i)) artifact ''filesystem.uuid'') (\<lambda>_.
     bindR (validate_required_text (di_mime_type i) artifact ''mime_type'') (\<lambda>_.
     bindR (validate_required_text (di_modified_at i) artifact ''modified_at'') (\<lambda>_.
     validate_common_file url_scheme artifact (di_path i) (di_url i) (di_filename i)
       (di_size_bytes i) (di_sha256 i)))))))))))"

fun validate_supported_kernels ::
  "Distribution \<Rightarrow> string list \<Rightarrow> string list \<Rightarrow> string list \<Rightarrow> unit result" where
  "validate_supported_kernels d kernel_ids supported [] = Inr ()"
| "validate_supported_kernels d kernel_ids supported (k # ks) =
     (if k \<notin> set kernel_ids
      then Inl (invalid_metadata (d_id d) (''supported kernel '' @ k @ '' is absent''))
      else if k \<in> set supported
      then Inl (invalid_metadata (d_id d) (''duplicate supported kernel '' @ k))
      else validate_supported_kernels d kernel_ids (k # supported) ks)"

fun validate_images ::
  "(string \<Rightarrow> string option) \<Rightarrow> Distribution \<Rightarrow> string list \<Rightarrow> DistributionImage list \<Rightarrow> unit result" where
  "validate_images url_scheme d image_ids [] = Inr ()"
| "validate_images url_scheme d image_ids (i # is) =
     (if di_id i \<in> set image_ids
      then Inl (invalid_metadata (d_id d) (''duplicate distribution image '' @ di_id i))
      else bindR (validate_image url_scheme d i) (\<lambda>_.
           validate_images url_scheme d (di_id i # image_ids) is))"

definition validate_distribution ::
  "(string \<Rightarrow> string option) \<Rightarrow> Distribution \<Rightarrow> string list \<Rightarrow> unit result" where
  "validate_distribution url_scheme d kernel_ids =
     bindR (validate_id (d_id d) ''distribution'') (\<lambda>_.
     bindR (validate_required_text (d_name d) (d_id d) ''name'') (\<lambda>_.
     bindR (validate_required_text (d_display_name d) (d_id d) ''display_name'') (\<lambda>_.
     bindR (validate_required_text (d_description d) (d_id d) ''description'') (\<lambda>_.
     bindR (validate_required_text (d_distribution d) (d_id d) ''distribution'') (\<lambda>_.
     bindR (validate_required_text (d_version d) (d_id d) ''version'') (\<lambda>_.
     bindR (validate_required_text (d_codename d) (d_id d) ''codename'') (\<lambda>_.
     bindR (validate_required_text (d_vendor d) (d_id d) ''vendor'') (\<lambda>_.
     bindR (validate_required_text (d_homepage d) (d_id d) ''homepage'') (\<lambda>_.
     bindR (validate_required_text (bc_root_device (d_boot d)) (d_id d) ''boot.root_device'') (\<lambda>_.
     if dr_min_vcpus (d_requirements d) = 0
     then Inl (invalid_metadata (d_id d) ''requirements.min_vcpus must be greater than zero'')
     else if d_default_kernel d \<notin> set kernel_ids
     then Inl (invalid_metadata (d_id d) (''default kernel '' @ d_default_kernel d @ '' is absent''))
     else
     bindR (validate_supported_kernels d kernel_ids [] (d_supported_kernels d)) (\<lambda>_.
     bindR (validate_images url_scheme d [] (d_images d)) (\<lambda>_.
     if d_images d = []
     then Inl (invalid_metadata (d_id d) ''distribution has no images'')
     else Inr ()))))))))))))"

definition validate_type_file :: "(string \<Rightarrow> string option) \<Rightarrow> RegistryTypeFile \<Rightarrow> unit result" where
  "validate_type_file url_scheme f =
     bindR (validate_required_text (rt_filename f) ''registry type'' ''filename'') (\<lambda>_.
     bindR (validate_required_text (rt_modified_at f) ''registry type'' ''modified_at'') (\<lambda>_.
     validate_common_file url_scheme (''registry type '' @ rt_filename f) (rt_path f) (rt_url f)
       (rt_filename f) (rt_size_bytes f) (rt_sha256 f)))"

definition validate_manifest :: "(string \<Rightarrow> string option) \<Rightarrow> TaumaruRegistry \<Rightarrow> unit result" where
  "validate_manifest url_scheme m =
     (if reg_schema_version m \<noteq> SUPPORTED_SCHEMA_VERSION
      then Inl (UnsupportedSchema (reg_schema_version m) SUPPORTED_SCHEMA_VERSION)
      else
      bindR (validate_required_text (rm_name (reg_registry m)) ''registry'' ''name'') (\<lambda>_.
      bindR (validate_required_text (rm_version (reg_registry m)) ''registry'' ''version'') (\<lambda>_.
      bindR (validate_required_text (rm_updated_at (reg_registry m)) ''registry'' ''updated_at'') (\<lambda>_.
      bindR (validate_url url_scheme (rm_base_url (reg_registry m)) ''registry'') (\<lambda>_.
      bindR (validate_id_set (map k_id (reg_kernels m)) ''kernel'') (\<lambda>_.
      bindR (validate_id_set (map bp_id (reg_binaries m)) ''binary package'') (\<lambda>_.
      bindR (validate_id_set (map d_id (reg_distributions m)) ''distribution'') (\<lambda>_.
      bindR (forR (reg_kernels m) (validate_kernel url_scheme)) (\<lambda>_.
      bindR (forR (reg_binaries m) (validate_binary url_scheme)) (\<lambda>_.
      bindR (forR (reg_distributions m)
               (\<lambda>d. validate_distribution url_scheme d (map k_id (reg_kernels m)))) (\<lambda>_.
      forR (reg_types m) (\<lambda>t. forR (rp_files t) (validate_type_file url_scheme)))))))))))))"

section \<open>What acceptance means\<close>

lemma validate_id_plain: "validate_id i kind = Inr () \<Longrightarrow> plain_name i"
  by (auto simp: validate_id_def plain_name_def split: if_splits)

lemma validate_id_set_from_Inr:
  "validate_id_set_from seen ids kind = Inr () \<Longrightarrow>
     distinct ids \<and> set ids \<inter> set seen = {} \<and> list_all plain_name ids"
  by (induction seen ids kind rule: validate_id_set_from.induct)
    (auto simp: bindR_Inr dest: validate_id_plain split: if_splits)

lemma validate_supported_kernels_Inr:
  "validate_supported_kernels d kernel_ids supported ks = Inr () \<Longrightarrow>
     distinct ks \<and> set ks \<inter> set supported = {} \<and> set ks \<subseteq> set kernel_ids"
  by (induction d kernel_ids supported ks rule: validate_supported_kernels.induct)
    (auto split: if_splits)

lemma validate_images_Inr:
  "validate_images url_scheme d image_ids is = Inr () \<Longrightarrow>
     distinct (map di_id is) \<and> set (map di_id is) \<inter> set image_ids = {} \<and>
     (\<forall>i \<in> set is. validate_image url_scheme d i = Inr ())"
  by (induction url_scheme d image_ids "is" rule: validate_images.induct)
    (auto simp: bindR_Inr split: if_splits)

lemma validate_binary_files_Inr:
  "validate_binary_files url_scheme b names fs = Inr () \<Longrightarrow>
     distinct (map bf_name fs) \<and> set (map bf_name fs) \<inter> set names = {} \<and>
     (\<forall>f \<in> set fs. validate_binary_file url_scheme b f = Inr ())"
  by (induction url_scheme b names fs rule: validate_binary_files.induct)
    (auto simp: bindR_Inr split: if_splits)

lemma registry_path_normal:
  assumes "validate_registry_path p"
  shows "components p \<noteq> [] \<and> list_all is_Normal (components p)"
proof -
  from assms have p: "p \<noteq> []" "list_all is_Normal (components p)"
    and pieces: "[] \<notin> set (split_on CHR ''/'' p)" "''.'' \<notin> set (split_on CHR ''/'' p)"
    by (auto simp: validate_registry_path_def list_ex_iff split: if_splits)
  from p(1) obtain c cs where cs: "p = c # cs" by (cases p) auto
  obtain q qs where q: "split_on CHR ''/'' p = q # qs" by (meson list.exhaust split_on_nonempty)
  with pieces have "piece_component q \<noteq> []" by (auto simp: piece_component_def)
  with cs q have "components p \<noteq> []" by (simp add: components_def del: split_on.simps)
  with p show ?thesis by simp
qed

lemma registry_path_below:
  assumes "validate_registry_path p" and "normal_absolute base"
  shows "normal_absolute (path_join base (components p)) \<and>
    path_starts_with (path_join base (components p)) base"
proof -
  from registry_path_normal [OF assms(1)] obtain c cs where
    p: "components p = c # cs" "is_Normal c" "list_all is_Normal cs" by (cases "components p") auto
  from assms(2) obtain q where "base = RootDir # q" "list_all is_Normal q"
    by (auto simp: normal_absolute_def)
  with p show ?thesis
    by (cases c) (auto simp: path_join_def is_absolute_def is_Normal_def path_starts_with_def
        normal_absolute_def)
qed

definition safe_file :: "string \<Rightarrow> string \<Rightarrow> string \<Rightarrow> bool" where
  "safe_file p filename sha256 \<longleftrightarrow>
     validate_registry_path p \<and> plain_name filename \<and> is_valid_sha256 sha256"

lemma validate_common_file_safe:
  "validate_common_file us artifact p url filename sz sha = Inr () \<Longrightarrow> safe_file p filename sha"
  by (auto simp: validate_common_file_def safe_file_def plain_name_def bindR_Inr split: if_splits)

lemma validate_kernel_safe:
  "validate_kernel us k = Inr () \<Longrightarrow> safe_file (k_path k) (k_filename k) (k_sha256 k)"
  by (auto simp: validate_kernel_def bindR_Inr dest: validate_common_file_safe)

lemma validate_binary_file_safe:
  "validate_binary_file us b f = Inr () \<Longrightarrow> safe_file (bf_path f) (bf_filename f) (bf_sha256 f)"
  by (auto simp: validate_binary_file_def bindR_Inr Let_def dest: validate_common_file_safe)

lemma validate_image_safe:
  "validate_image us d i = Inr () \<Longrightarrow>
     safe_file (di_path i) (di_filename i) (di_sha256 i) \<and> plain_name (di_id i)"
  by (auto simp: validate_image_def bindR_Inr Let_def
      dest: validate_common_file_safe validate_id_plain split: if_splits)

lemma validate_binary_Inr:
  "validate_binary us b = Inr () \<Longrightarrow>
     distinct (map bf_name (bp_files b)) \<and> bp_files b \<noteq> [] \<and>
     (\<forall>f \<in> set (bp_files b). safe_file (bf_path f) (bf_filename f) (bf_sha256 f))"
  by (auto simp: validate_binary_def bindR_Inr
      dest!: validate_binary_files_Inr intro: validate_binary_file_safe split: if_splits)

lemma validate_distribution_Inr:
  "validate_distribution us d kernel_ids = Inr () \<Longrightarrow>
     0 < unat (dr_min_vcpus (d_requirements d)) \<and> d_default_kernel d \<in> set kernel_ids \<and>
     set (d_supported_kernels d) \<subseteq> set kernel_ids \<and> d_images d \<noteq> [] \<and>
     distinct (map di_id (d_images d)) \<and>
     (\<forall>i \<in> set (d_images d). safe_file (di_path i) (di_filename i) (di_sha256 i) \<and> plain_name (di_id i))"
  by (auto simp: validate_distribution_def bindR_Inr unat_gt_0
      dest!: validate_supported_kernels_Inr validate_images_Inr dest: validate_image_safe
      split: if_splits)

lemma validate_type_file_safe:
  "validate_type_file us f = Inr () \<Longrightarrow> safe_file (rt_path f) (rt_filename f) (rt_sha256 f)"
  by (auto simp: validate_type_file_def bindR_Inr dest: validate_common_file_safe)

lemma validate_manifest_Inr:
  assumes "validate_manifest us m = Inr ()"
  shows "reg_schema_version m = SUPPORTED_SCHEMA_VERSION"
    and "validate_id_set (map k_id (reg_kernels m)) ''kernel'' = Inr ()"
    and "validate_id_set (map bp_id (reg_binaries m)) ''binary package'' = Inr ()"
    and "validate_id_set (map d_id (reg_distributions m)) ''distribution'' = Inr ()"
    and "\<forall>k \<in> set (reg_kernels m). validate_kernel us k = Inr ()"
    and "\<forall>b \<in> set (reg_binaries m). validate_binary us b = Inr ()"
    and "\<forall>d \<in> set (reg_distributions m). validate_distribution us d (map k_id (reg_kernels m)) = Inr ()"
    and "\<forall>t \<in> set (reg_types m). \<forall>f \<in> set (rp_files t). validate_type_file us f = Inr ()"
  using assms unfolding validate_manifest_def
  by (auto simp: bindR_Inr forR_Inr split: if_splits)

lemma validate_id_set_Inr:
  "validate_id_set ids kind = Inr () \<Longrightarrow> distinct ids \<and> list_all plain_name ids"
  by (auto simp: validate_id_set_def dest: validate_id_set_from_Inr)

text \<open>The registry paths of every file a manifest declares.\<close>

definition manifest_paths :: "TaumaruRegistry \<Rightarrow> string list" where
  "manifest_paths m =
     map k_path (reg_kernels m)
     @ concat (map (\<lambda>b. map bf_path (bp_files b)) (reg_binaries m))
     @ concat (map (\<lambda>d. map di_path (d_images d)) (reg_distributions m))
     @ concat (map (\<lambda>t. map rt_path (rp_files t)) (reg_types m))"

section \<open>Properties\<close>

definition sample_sha :: string where
  "sample_sha = replicate 64 (CHR ''a'')"

definition sample_kernel :: Kernel where
  "sample_kernel =
     \<lparr>k_id = ''linux-6'', k_name = ''linux'', k_display_name = ''Linux'', k_version = ''6.1'',
      k_architecture = X86_64, k_path = ''kernels/linux/vmlinux'', k_url = ''https://a/k'',
      k_filename = ''vmlinux'', k_size_bytes = 7, k_sha256 = sample_sha, k_format = ''elf'',
      k_mime_type = ''application/octet-stream'', k_elf = None, k_modified_at = ''now''\<rparr>"

definition sample_image :: DistributionImage where
  "sample_image =
     \<lparr>di_id = ''base'', di_name = ''base'', di_display_name = ''Base'', di_description = ''d'',
      di_variant = ''v'', di_path = ''images/base.ext4'', di_url = ''https://a/i'',
      di_filename = ''base.ext4'', di_format = ''ext4'',
      di_filesystem = \<lparr>fs_filesystem_type = ''ext4'', fs_uuid = ''u'', fs_block_size = 4096,
        fs_block_count = 1, fs_free_blocks = 0, fs_inode_count = 1, fs_free_inodes = 0,
        fs_features = []\<rparr>,
      di_size_bytes = 4096, di_sha256 = sample_sha, di_capabilities = [],
      di_mime_type = ''application/octet-stream'', di_modified_at = ''now''\<rparr>"

definition sample_distribution :: Distribution where
  "sample_distribution =
     \<lparr>d_id = ''ubuntu'', d_name = ''ubuntu'', d_display_name = ''Ubuntu'', d_description = ''d'',
      d_distribution = ''ubuntu'', d_version = ''24.04'', d_codename = ''noble'',
      d_architecture = X86_64, d_vendor = ''v'', d_homepage = ''h'', d_default_kernel = ''linux-6'',
      d_supported_kernels = [''linux-6''],
      d_boot = \<lparr>bc_root_device = ''/dev/vda'', bc_kernel_args = []\<rparr>,
      d_requirements = \<lparr>dr_min_memory_mb = 128, dr_min_vcpus = 1\<rparr>,
      d_images = [sample_image]\<rparr>"

definition sample_manifest :: TaumaruRegistry where
  "sample_manifest =
     \<lparr>reg_schema_version = 1,
      reg_registry = \<lparr>rm_name = ''r'', rm_version = ''1'', rm_description = [],
        rm_base_url = ''https://a'', rm_updated_at = ''now''\<rparr>,
      reg_kernels = [sample_kernel], reg_binaries = [],
      reg_distributions = [sample_distribution], reg_types = []\<rparr>"

lemma sample_manifest_valid: "validate_manifest (\<lambda>_. Some ''https'') sample_manifest = Inr ()"
  by code_simp

text \<open>(C34) What the creation code may rely on after a manifest was accepted: identifiers of kernels,
  packages and distributions are pairwise distinct single path components, and every kernel a
  distribution defaults to or supports is one of the manifest's kernels, with at least one image
  and at least one vCPU required.\<close>

theorem validate_manifest_references:
  assumes "validate_manifest us m = Inr ()"
  shows "distinct (map k_id (reg_kernels m)) \<and> distinct (map bp_id (reg_binaries m)) \<and>
    distinct (map d_id (reg_distributions m)) \<and>
    list_all plain_name (map k_id (reg_kernels m) @ map bp_id (reg_binaries m)
      @ map d_id (reg_distributions m)) \<and>
    (\<forall>d \<in> set (reg_distributions m).
       d_default_kernel d \<in> k_id ` set (reg_kernels m) \<and>
       set (d_supported_kernels d) \<subseteq> k_id ` set (reg_kernels m) \<and>
       distinct (map di_id (d_images d)) \<and> d_images d \<noteq> [] \<and>
       0 < unat (dr_min_vcpus (d_requirements d)))"
proof -
  note parts = validate_manifest_Inr [OF assms]
  note ids = parts(2-4) [THEN validate_id_set_Inr]
  have "\<forall>d \<in> set (reg_distributions m).
       d_default_kernel d \<in> k_id ` set (reg_kernels m) \<and>
       set (d_supported_kernels d) \<subseteq> k_id ` set (reg_kernels m) \<and>
       distinct (map di_id (d_images d)) \<and> d_images d \<noteq> [] \<and>
       0 < unat (dr_min_vcpus (d_requirements d))"
    using parts(7) validate_distribution_Inr by fastforce
  with ids show ?thesis by simp
qed

theorem validate_manifest_references_witness:
  "\<exists>d \<in> set (reg_distributions sample_manifest).
     d_default_kernel d \<in> k_id ` set (reg_kernels sample_manifest) \<and> d_images d \<noteq> []"
  using validate_manifest_references [OF sample_manifest_valid]
  by (auto simp: sample_manifest_def)

text \<open>(C35) No file an accepted manifest declares can be placed outside the directory its registry
  path is joined to: the joined path stays absolute, free of \<open>.\<close> and \<open>..\<close>, and below that base.\<close>

theorem validate_manifest_paths_safe:
  assumes "validate_manifest us m = Inr ()" and "p \<in> set (manifest_paths m)"
    and "normal_absolute base"
  shows "normal_absolute (path_join base (components p)) \<and>
    path_starts_with (path_join base (components p)) base"
proof -
  note parts = validate_manifest_Inr [OF assms(1)]
  have "validate_registry_path p"
    using assms(2) parts(5-8) validate_kernel_safe validate_binary_Inr validate_distribution_Inr
      validate_type_file_safe
    by (fastforce simp: manifest_paths_def safe_file_def)
  then show ?thesis using assms(3) by (rule registry_path_below)
qed

theorem validate_manifest_paths_safe_witness:
  "path_starts_with (path_join [RootDir, Normal ''srv''] (components ''images/base.ext4''))
     [RootDir, Normal ''srv'']"
  using validate_manifest_paths_safe
    [OF sample_manifest_valid, of "''images/base.ext4''" "[RootDir, Normal ''srv'']"]
  by (simp add: manifest_paths_def sample_manifest_def sample_distribution_def sample_image_def
      normal_absolute_code is_Normal_def)

end
