(* ===== verification/Net_Addresses.thy ===== *)
theory Net_Addresses
  imports Domain
begin

text \<open>
  The address arithmetic of the Linux network adapter,
  src/crates/sdk/src/adapters/network/linux.rs: the private /30 pool (\<open>allocate_subnet\<close>,
  \<open>private_subnet_conflicts\<close>, \<open>select_private_subnet\<close>), the kernel boot parameter, the LAN
  candidates of the uplink subnet, and the text form of IPv4 addresses that the standard library
  prints and parses. Addresses are 32-bit words and all arithmetic is the wrapping or saturating
  arithmetic of the code.

  The theorems give each routine its meaning: a conflict is an overlap of address ranges,
  allocation is first fit over the whole pool and fails only when the pool is full, every
  automatic LAN candidate is a usable host address of the uplink subnet.
\<close>

section \<open>IPv4 text\<close>

definition ipv4_octets :: "ipv4 \<Rightarrow> nat list" where
  "ipv4_octets a =
     (let n = unat a in [n div 2 ^ 24, n div 2 ^ 16 mod 256, n div 2 ^ 8 mod 256, n mod 256])"

definition ipv4_of_octets :: "nat \<Rightarrow> nat \<Rightarrow> nat \<Rightarrow> nat \<Rightarrow> ipv4" where
  "ipv4_of_octets a b c d = word_of_nat (a * 2 ^ 24 + b * 2 ^ 16 + c * 2 ^ 8 + d)"

definition show_ipv4 :: "ipv4 \<Rightarrow> string" where
  "show_ipv4 a = join_with ''.'' (map show_nat (ipv4_octets a))"

text \<open>An octet of \<open>Ipv4Addr::from_str\<close>: one to three digits, no leading zero, at most 255.\<close>

definition parse_octet :: "string \<Rightarrow> nat option" where
  "parse_octet s =
     (if s = [] \<or> 3 < length s \<or> (hd s = CHR ''0'' \<and> 1 < length s) then None
      else case parse_digits 0 s of
             None \<Rightarrow> None
           | Some n \<Rightarrow> if n \<le> 255 then Some n else None)"

definition parse_ipv4 :: "string \<Rightarrow> ipv4 option" where
  "parse_ipv4 s =
     (case split_on CHR ''.'' s of
        [a, b, c, d] \<Rightarrow>
          (case (parse_octet a, parse_octet b, parse_octet c, parse_octet d) of
             (Some a', Some b', Some c', Some d') \<Rightarrow> Some (ipv4_of_octets a' b' c' d')
           | _ \<Rightarrow> None)
      | _ \<Rightarrow> None)"

section \<open>Masks\<close>

text \<open>\<open>if prefix == 0 { 0 } else { u32::MAX << (32 - prefix) }\<close>, a pattern of several routines.\<close>

definition net_mask :: "nat \<Rightarrow> u32" where
  "net_mask pfx = (if pfx = 0 then 0 else push_bit (32 - pfx) (- 1))"

section \<open>The private pool\<close>

definition PRIVATE_POOL_START :: u32 where
  "PRIVATE_POOL_START = push_bit 24 172 OR push_bit 16 30"

definition PRIVATE_POOL_END :: u32 where
  "PRIVATE_POOL_END = push_bit 24 172 OR push_bit 16 31 OR 0xff00"

text \<open>An address in use: its owner, the address and the prefix length as text.\<close>

type_synonym used_address = "string \<times> ip_addr \<times> string"

definition effective_prefix :: "string \<Rightarrow> nat" where
  "effective_prefix pfx =
     min (case parse_unsigned 255 pfx of None \<Rightarrow> 32 | Some p \<Rightarrow> p) 32"

definition private_subnet_conflicts :: "u32 \<Rightarrow> used_address list \<Rightarrow> bool" where
  "private_subnet_conflicts network_base used =
     list_ex (\<lambda>(owner, address, pfx).
       case address of
         V6 _ \<Rightarrow> False
       | V4 a \<Rightarrow>
           let p = effective_prefix pfx in
           if p \<le> 30 then (a AND net_mask p) = (network_base AND net_mask p)
           else (a AND NOT 3) = network_base) used"

function allocate_subnet_from :: "u32 \<Rightarrow> used_address list \<Rightarrow> (ipv4 \<times> ipv4 \<times> ipv4) option" where
  "allocate_subnet_from base used =
     (if base \<le> PRIVATE_POOL_END
      then if \<not> private_subnet_conflicts base used then Some (base, base + 1, base + 2)
           else allocate_subnet_from (saturating_add base 4) used
      else None)"
  by pat_completeness auto
termination
  by (relation "measure (\<lambda>(base, used). 2 ^ 32 - unat base)")
    (auto simp: PRIVATE_POOL_END_def word_le_nat_alt saturating_add_def unat_word_ariths)

declare allocate_subnet_from.simps [simp del]

definition allocate_subnet :: "used_address list \<Rightarrow> (ipv4 \<times> ipv4 \<times> ipv4) option" where
  "allocate_subnet used = allocate_subnet_from PRIVATE_POOL_START used"

definition private_guest_network :: "ipv4 \<Rightarrow> ipv4" where
  "private_guest_network guest = guest AND NOT 3"

record NetworkRequest =
  nr_vm_name :: string
  nr_mode :: NetworkMode
  nr_guest_mac :: string
  nr_lan_address_override :: "ipv4 option"
  nr_guest_address_override :: "ipv4 option"
  nr_prefix_length_override :: "u8 option"
  nr_gateway_override :: "ipv4 option"
  nr_exact_network_values :: bool

definition select_private_subnet ::
  "used_address list \<Rightarrow> NetworkRequest \<Rightarrow> (ipv4 \<times> ipv4 \<times> ipv4) result" where
  "select_private_subnet used request =
     (if \<not> nr_exact_network_values request
      then ok_or (allocate_subnet used)
             (Network (NetworkMode_as_str (nr_mode request)) ''allocate private /30''
                ''172.30.0.0/16''
                ''the private address pool is exhausted or overlaps persisted state'')
      else case (nr_guest_address_override request, nr_prefix_length_override request) of
        (Some guest, Some p) \<Rightarrow>
          if p \<noteq> 30
          then Inl (InvalidRequest ''network_override''
                 ''exact IPv4 restore requires a guest address and /30 prefix'')
          else
          let network_base = guest AND NOT 3;
              expected_gateway = saturating_add network_base 1;
              expected_guest = saturating_add network_base 2;
              gateway = (case nr_gateway_override request of None \<Rightarrow> expected_gateway | Some g \<Rightarrow> g);
              conflicts = private_subnet_conflicts network_base used
          in if guest \<noteq> expected_guest \<or> gateway \<noteq> expected_gateway \<or> conflicts
             then Inl (SnapshotNetworkConflict ''guest/gateway IPv4 subnet''
                    (show_ipv4 guest @ ''/30 via '' @
                     (case nr_gateway_override request of
                        None \<Rightarrow> ''(none)'' | Some g \<Rightarrow> show_ipv4 g)))
             else Inr (network_base, expected_gateway, guest)
      | _ \<Rightarrow> Inl (InvalidRequest ''network_override''
               ''exact IPv4 restore requires a guest address and /30 prefix''))"

text \<open>\<open>checked_shl\<close> returns \<open>None\<close> for a shift of 32 or more; \<open>32 - prefix_length\<close> on \<open>u8\<close>.\<close>

definition guest_boot_parameters :: "ipv4 \<Rightarrow> ipv4 option \<Rightarrow> u8 \<Rightarrow> string" where
  "guest_boot_parameters guest gateway prefix_length =
     (let shift = unat (32 - prefix_length);
          netmask = (if shift < 32 then push_bit shift (- 1) else 0) :: u32
      in ''ip='' @ show_ipv4 guest @ ''::''
         @ (case gateway of None \<Rightarrow> [] | Some g \<Rightarrow> show_ipv4 g)
         @ '':'' @ show_ipv4 netmask @ ''::eth0:off'')"

section \<open>LAN candidates\<close>

record UplinkIdentity =
  ui_interface :: string
  ui_address :: ipv4
  ui_prefix_length :: u8
  ui_gateway :: "ipv4 option"
  ui_cidr :: string

definition parse_uplink_cidr :: "string \<Rightarrow> (u32 \<times> nat) result" where
  "parse_uplink_cidr cidr =
     (let err = (\<lambda>reason. Network (NetworkMode_as_str Lan) ''parse uplink subnet'' cidr reason) in
      case split_once CHR ''/'' cidr of
        None \<Rightarrow> Inl (err ''the uplink CIDR is not valid'')
      | Some (address, pfx) \<Rightarrow>
          bindR (ok_or (parse_ipv4 address) (err ''the uplink address is not valid IPv4'')) (\<lambda>a.
          bindR (ok_or (parse_unsigned 255 pfx) (err ''the uplink prefix is not valid'')) (\<lambda>p.
          if 30 < p then Inl (err ''the uplink subnet leaves no usable host address'')
          else Inr (a AND net_mask p, p))))"

definition lan_candidate_in_subnet :: "ipv4 \<Rightarrow> u32 \<Rightarrow> nat \<Rightarrow> bool" where
  "lan_candidate_in_subnet candidate network pfx \<longleftrightarrow> (candidate AND net_mask pfx) = network"

definition validate_lan_candidate ::
  "ipv4 \<Rightarrow> u32 \<Rightarrow> nat \<Rightarrow> ipv4 \<Rightarrow> ipv4 option \<Rightarrow> unit result" where
  "validate_lan_candidate candidate network pfx host gateway =
     (let mask = net_mask pfx; broadcast = network OR NOT mask
      in if (candidate AND mask) \<noteq> network \<or> candidate = network \<or> candidate = broadcast
            \<or> candidate = host \<or> Some candidate = gateway
         then Inl (Network (NetworkMode_as_str Lan) ''validate LAN address'' (show_ipv4 candidate)
                ''the LAN address is outside the uplink subnet or reserved'')
         else Inr ())"

definition lan_address_in_use :: "ipv4 \<Rightarrow> used_address list \<Rightarrow> bool" where
  "lan_address_in_use candidate used =
     list_ex (\<lambda>(owner, address, pfx). case address of V4 v \<Rightarrow> v = candidate | V6 _ \<Rightarrow> False) used"

function lan_candidates_down ::
  "u32 \<Rightarrow> u32 \<Rightarrow> u32 \<Rightarrow> u32 \<Rightarrow> u32 option \<Rightarrow> ipv4 list" where
  "lan_candidates_down v low stop host gateway =
     (if low \<le> v \<and> stop \<le> v
      then (if v \<noteq> host \<and> Some v \<noteq> gateway then [v] else [])
           @ (if v = low then [] else lan_candidates_down (v - 1) low stop host gateway)
      else [])"
  by pat_completeness auto
termination
proof (relation "measure (\<lambda>(v, low, stop, host, gateway). unat v)", goal_cases)
  case (2 v low stop host gateway)
  then have "v \<noteq> 0" by (metis word_le_0_iff)
  then show ?case by (simp add: unat_minus_one unat_gt_0)
qed simp

declare lan_candidates_down.simps [simp del]

definition automatic_lan_candidates :: "u32 \<Rightarrow> nat \<Rightarrow> ipv4 \<Rightarrow> ipv4 option \<Rightarrow> ipv4 list" where
  "automatic_lan_candidates network pfx host gateway =
     (let broadcast = network OR NOT (net_mask pfx);
          low = saturating_add network 2;
          stop = max (saturating_sub broadcast 200) low
      in lan_candidates_down (saturating_sub broadcast 1) low stop host gateway)"

section \<open>The text form round trips\<close>

lemma compose_octets:
  "x = 256 * b3 + b2 \<Longrightarrow> y = 256 * x + b1 \<Longrightarrow> n = 256 * y + b0 \<Longrightarrow>
     b3 * 2 ^ 24 + b2 * 2 ^ 16 + b1 * 2 ^ 8 + b0 = (n :: nat)"
  by simp

lemma ipv4_of_octets_octets:
  "ipv4_octets a = [b3, b2, b1, b0] \<Longrightarrow> ipv4_of_octets b3 b2 b1 b0 = a"
proof -
  assume "ipv4_octets a = [b3, b2, b1, b0]"
  then have o: "b3 = unat a div 2 ^ 24" "b2 = unat a div 2 ^ 16 mod 256"
    "b1 = unat a div 2 ^ 8 mod 256" "b0 = unat a mod 256"
    by (auto simp: ipv4_octets_def Let_def)
  let ?n = "unat a"
  have "?n div 2 ^ 24 = ?n div 2 ^ 16 div 256" "?n div 2 ^ 16 = ?n div 2 ^ 8 div 256"
    by (simp_all add: div_mult2_eq [symmetric])
  then have "?n div 2 ^ 16 = 256 * b3 + b2" "?n div 2 ^ 8 = 256 * (?n div 2 ^ 16) + b1"
    unfolding o by (metis mult_div_mod_eq)+
  moreover have "?n = 256 * (?n div 2 ^ 8) + b0" unfolding o by simp
  ultimately have "b3 * 2 ^ 24 + b2 * 2 ^ 16 + b1 * 2 ^ 8 + b0 = ?n"
    by (intro compose_octets)
  then show ?thesis by (simp add: ipv4_of_octets_def)
qed

lemma octets_bound: "n \<in> set (ipv4_octets a) \<Longrightarrow> n < 256"
proof -
  have "unat a < 2 ^ LENGTH(32)" by (rule unsigned_less)
  then have "unat a div 2 ^ 24 < 256" by simp
  then show "n \<in> set (ipv4_octets a) \<Longrightarrow> n < 256" by (auto simp: ipv4_octets_def Let_def)
qed

lemma show_nat_small: "n < 1000 \<Longrightarrow> length (show_nat n) \<le> 3"
  by (simp add: show_nat.simps [of n] show_nat.simps [of "n div 10"] show_nat.simps [of "n div 10 div 10"])

lemma hd_show_nat_zero: "hd (show_nat n) = CHR ''0'' \<Longrightarrow> n = 0"
proof (induction n rule: show_nat.induct)
  case (1 n)
  show ?case
  proof (cases "n < 10")
    case True
    with 1(2) have "digit_char n = CHR ''0''" by (simp add: show_nat.simps [of n])
    then have "byte (digit_char n) = byte CHR ''0''" by (rule arg_cong)
    with True show ?thesis by simp
  next
    case False
    with 1 show ?thesis by (simp add: show_nat.simps [of n])
  qed
qed

lemma parse_octet_show_nat: "n < 256 \<Longrightarrow> parse_octet (show_nat n) = Some n"
proof -
  assume n: "n < 256"
  have "hd (show_nat n) = CHR ''0'' \<Longrightarrow> length (show_nat n) = 1"
    by (drule hd_show_nat_zero) (simp add: show_nat.simps [of 0])
  then have "\<not> (hd (show_nat n) = CHR ''0'' \<and> 1 < length (show_nat n))" by auto
  moreover have "\<not> 3 < length (show_nat n)" using n show_nat_small [of n] by simp
  ultimately show ?thesis using n by (simp add: parse_octet_def)
qed

lemma dot_not_digit: "CHR ''.'' \<notin> set (show_nat n)"
  using show_nat_digits [of "CHR ''.''" n] by (auto simp: is_ascii_digit_def)

lemma slash_not_digit: "CHR ''/'' \<notin> set (show_nat n)"
  using show_nat_digits [of "CHR ''/''" n] by (auto simp: is_ascii_digit_def)

lemma parse_show_ipv4: "parse_ipv4 (show_ipv4 a) = Some a"
proof -
  obtain b3 b2 b1 b0 where o: "ipv4_octets a = [b3, b2, b1, b0]"
    by (simp add: ipv4_octets_def Let_def)
  have "b3 < 256" "b2 < 256" "b1 < 256" "b0 < 256" using octets_bound [of _ a] o by auto
  then show ?thesis
    using ipv4_of_octets_octets [OF o]
    by (simp add: parse_ipv4_def show_ipv4_def o split_on_append split_on_free dot_not_digit
        parse_octet_show_nat)
qed

section \<open>Masks as ranges of addresses\<close>

lemma net_mask_bit: "p \<le> 32 \<Longrightarrow> bit (net_mask p) i \<longleftrightarrow> 32 - p \<le> i \<and> i < 32"
  by (auto simp: net_mask_def bit_simps)

lemma not3_net_mask: "(NOT 3 :: u32) = net_mask 30"
  by (simp add: net_mask_def mask_eq_exp_minus_1)

lemma net_mask_and: "p \<le> 32 \<Longrightarrow> q \<le> 32 \<Longrightarrow> net_mask p AND net_mask q = net_mask (min p q)"
  by (rule bit_eqI) (auto simp: net_mask_bit bit_and_iff)

lemma net_mask_coarser:
  assumes "p \<le> q" "q \<le> 32" "a AND net_mask q = b AND net_mask q"
  shows "a AND net_mask p = b AND net_mask p"
proof -
  have "x AND net_mask p = (x AND net_mask q) AND net_mask p" for x
    using assms(1,2) by (simp add: and.assoc net_mask_and min_absorb2)
  with assms(3) show ?thesis by metis
qed

lemma not_net_mask: "p \<le> 32 \<Longrightarrow> NOT (net_mask p) = mask (32 - p)"
  by (rule bit_eqI) (auto simp: net_mask_bit bit_not_iff bit_mask_iff)

lemma unat_and_net_mask:
  assumes "p \<le> 32"
  shows "unat (a AND net_mask p) = unat a div 2 ^ (32 - p) * 2 ^ (32 - p)"
proof -
  have "a AND net_mask p = push_bit (32 - p) (drop_bit (32 - p) a)"
    by (rule bit_eqI) (use assms in \<open>auto simp: net_mask_bit bit_simps\<close>)
  also have "unat \<dots> = unat a div 2 ^ (32 - p) * 2 ^ (32 - p)"
  proof -
    have "unat a < 2 ^ LENGTH(32)" by (rule unsigned_less)
    moreover from this have "unat a div 2 ^ (32 - p) * 2 ^ (32 - p) < 2 ^ LENGTH(32)"
      by (rule le_less_trans [OF div_times_less_eq_dividend])
    ultimately show ?thesis
      by (simp only: unsigned_push_bit_eq unsigned_drop_bit_eq)
        (simp add: push_bit_eq_mult drop_bit_eq_div take_bit_eq_mod)
  qed
  finally show ?thesis .
qed

section \<open>Conflicts\<close>

definition in_net :: "u32 \<Rightarrow> u32 \<Rightarrow> nat \<Rightarrow> bool" where
  "in_net x a p \<longleftrightarrow> (x AND net_mask p) = (a AND net_mask p)"

lemma effective_prefix_le: "effective_prefix s \<le> 32"
  by (simp add: effective_prefix_def)

lemma in_net_refl [simp]: "in_net a a p"
  by (simp add: in_net_def)

lemma in_net_coarser: "p \<le> q \<Longrightarrow> q \<le> 32 \<Longrightarrow> in_net x a q \<Longrightarrow> in_net x a p"
  unfolding in_net_def by (rule net_mask_coarser)

lemma in_net_sym: "in_net x a p \<Longrightarrow> in_net a x p"
  by (simp add: in_net_def)

lemma in_net_trans: "in_net x a p \<Longrightarrow> in_net a b p \<Longrightarrow> in_net x b p"
  by (simp add: in_net_def)

lemma in_net_min_overlap:
  assumes "p \<le> 32" "q \<le> 32"
  shows "in_net a b (min p q) \<longleftrightarrow> (\<exists>x. in_net x b q \<and> in_net x a p)"
proof
  assume *: "in_net a b (min p q)"
  show "\<exists>x. in_net x b q \<and> in_net x a p"
  proof (cases "p \<le> q")
    case True
    with * have "in_net b a p" by (simp add: in_net_sym min_absorb1)
    then show ?thesis by (intro exI [of _ b]) simp
  next
    case False
    with * have "in_net a b q" by (simp add: min_absorb2)
    then show ?thesis by (intro exI [of _ a]) simp
  qed
next
  assume "\<exists>x. in_net x b q \<and> in_net x a p"
  then obtain x where "in_net x b q" "in_net x a p" by blast
  then have "in_net x b (min p q)" "in_net x a (min p q)"
    using assms by (auto intro: in_net_coarser [rotated 2])
  then show "in_net a b (min p q)" by (blast intro: in_net_trans in_net_sym)
qed

definition used_net :: "used_address list \<Rightarrow> u32 \<Rightarrow> bool" where
  "used_net used x \<longleftrightarrow>
     (\<exists>owner a pfx. (owner, V4 a, pfx) \<in> set used \<and> in_net x a (effective_prefix pfx))"

lemma conflict_test:
  assumes "base AND NOT 3 = base" and "p \<le> 32"
  shows "(if p \<le> 30 then (a AND net_mask p) = (base AND net_mask p) else (a AND NOT 3) = base)
    \<longleftrightarrow> in_net a base (min p 30)"
  using assms unfolding not3_net_mask in_net_def min_def by auto

lemma list_ex_v4:
  "list_ex (\<lambda>(owner, address, pfx). case address of V6 _ \<Rightarrow> False | V4 a \<Rightarrow> P a pfx) used
     \<longleftrightarrow> (\<exists>owner a pfx. (owner, V4 a, pfx) \<in> set used \<and> P a pfx)"
proof (induction used)
  case Nil
  then show ?case by simp
next
  case (Cons e used)
  obtain owner address pfx where "e = (owner, address, pfx)" by (cases e) auto
  with Cons show ?case by (cases address) auto
qed

lemma private_subnet_conflicts_overlap:
  assumes "base AND NOT 3 = base"
  shows "private_subnet_conflicts base used \<longleftrightarrow> (\<exists>x. in_net x base 30 \<and> used_net used x)"
proof -
  have "private_subnet_conflicts base used \<longleftrightarrow>
    (\<exists>owner a pfx. (owner, V4 a, pfx) \<in> set used \<and> in_net a base (min (effective_prefix pfx) 30))"
    unfolding private_subnet_conflicts_def Let_def conflict_test [OF assms effective_prefix_le]
      list_ex_v4 ..
  then show ?thesis
    by (simp add: in_net_min_overlap effective_prefix_le used_net_def) blast
qed

section \<open>Allocation\<close>

lemma pool_bounds [simp]:
  "unat PRIVATE_POOL_START = 2887647232" "unat PRIVATE_POOL_END = 2887778048"
  by (simp_all add: PRIVATE_POOL_START_def PRIVATE_POOL_END_def)

definition pool_base :: "nat \<Rightarrow> u32" where
  "pool_base k = PRIVATE_POOL_START + word_of_nat (4 * k)"

definition POOL_SIZE :: nat where
  "POOL_SIZE = 32705"

lemma unat_pool_base: "k \<le> POOL_SIZE \<Longrightarrow> unat (pool_base k) = 2887647232 + 4 * k"
  by (simp add: pool_base_def POOL_SIZE_def unat_word_ariths unat_of_nat take_bit_eq_mod)

lemma pool_base_step:
  "k < POOL_SIZE \<Longrightarrow> saturating_add (pool_base k) 4 = pool_base (Suc k)"
  by (rule word_unat_eq_iff [THEN iffD2])
    (simp add: unat_saturating_add unat_pool_base POOL_SIZE_def)

lemma pool_base_in: "k \<le> POOL_SIZE \<Longrightarrow> pool_base k \<le> PRIVATE_POOL_END \<longleftrightarrow> k < POOL_SIZE"
  by (auto simp: word_le_nat_alt unat_pool_base POOL_SIZE_def)

lemma pool_base_aligned: "k \<le> POOL_SIZE \<Longrightarrow> pool_base k AND NOT 3 = pool_base k"
  unfolding not3_net_mask
  by (rule word_unat_eq_iff [THEN iffD2]) (simp add: unat_and_net_mask unat_pool_base)

text \<open>First fit: the loop started at base number \<open>k\<close> finds the first free base from there on.\<close>

lemma allocate_from_find:
  assumes "k \<le> POOL_SIZE"
  shows "allocate_subnet_from (pool_base k) used =
    map_option (\<lambda>j. (pool_base j, pool_base j + 1, pool_base j + 2))
      (find (\<lambda>j. \<not> private_subnet_conflicts (pool_base j) used) [k..<POOL_SIZE])"
  using assms
proof (induction "POOL_SIZE - k" arbitrary: k)
  case 0
  then show ?case by (simp add: allocate_subnet_from.simps pool_base_in)
next
  case (Suc n)
  then have k: "k < POOL_SIZE" by simp
  with Suc(1) [of "Suc k"] Suc(2) have IH: "allocate_subnet_from (pool_base (Suc k)) used =
    map_option (\<lambda>j. (pool_base j, pool_base j + 1, pool_base j + 2))
      (find (\<lambda>j. \<not> private_subnet_conflicts (pool_base j) used) [Suc k..<POOL_SIZE])" by simp
  show ?case
    using k IH
    by (simp add: allocate_subnet_from.simps [of "pool_base k"] pool_base_in pool_base_step
        upt_conv_Cons [OF k])
qed

lemma allocate_subnet_find:
  "allocate_subnet used =
    map_option (\<lambda>j. (pool_base j, pool_base j + 1, pool_base j + 2))
      (find (\<lambda>j. \<not> private_subnet_conflicts (pool_base j) used) [0..<POOL_SIZE])"
proof -
  have "PRIVATE_POOL_START = pool_base 0" by (simp add: pool_base_def)
  then show ?thesis using allocate_from_find [of 0 used] by (simp add: allocate_subnet_def)
qed

section \<open>LAN candidates\<close>

lemma word_le_pred:
  fixes v c :: u32
  assumes "v \<noteq> 0"
  shows "c \<le> v \<longleftrightarrow> c = v \<or> c \<le> v - 1"
proof -
  from assms have "unat (v - 1) = unat v - 1" and "0 < unat v"
    by (auto simp: unat_minus_one unat_gt_0)
  then show ?thesis unfolding word_le_nat_alt word_unat_eq_iff by linarith
qed

lemma set_lan_candidates_down:
  "set (lan_candidates_down v low stop host gateway)
     = {c. low \<le> c \<and> stop \<le> c \<and> c \<le> v \<and> c \<noteq> host \<and> Some c \<noteq> gateway}"
proof (induction v low stop host gateway rule: lan_candidates_down.induct)
  case (1 v low stop host gateway)
  show ?case
  proof (cases "low \<le> v \<and> stop \<le> v")
    case False
    then show ?thesis by (auto simp: lan_candidates_down.simps [of v])
  next
    case True
    show ?thesis
    proof (cases "v = low")
      case eq: True
      with True show ?thesis by (subst lan_candidates_down.simps) auto
    next
      case neq: False
      with True have "v \<noteq> 0" by (metis word_le_0_iff)
      note step = word_le_pred [OF this]
      have "set (lan_candidates_down (v - 1) low stop host gateway)
         = {c. low \<le> c \<and> stop \<le> c \<and> c \<le> v - 1 \<and> c \<noteq> host \<and> Some c \<noteq> gateway}"
        using 1 True neq by blast
      moreover have "set (lan_candidates_down v low stop host gateway)
          = (if v \<noteq> host \<and> Some v \<noteq> gateway then {v} else {})
            \<union> set (lan_candidates_down (v - 1) low stop host gateway)"
        using True neq by (subst lan_candidates_down.simps) auto
      ultimately show ?thesis using True step by auto
    qed
  qed
qed

lemma unat_aligned:
  assumes "p \<le> 32" and "network AND net_mask p = network"
  shows "unat network = unat network div 2 ^ (32 - p) * 2 ^ (32 - p)"
  using unat_and_net_mask [OF assms(1), of network] assms(2) by simp

lemma aligned_room:
  assumes "p \<le> 32" and "network AND net_mask p = network"
  shows "unat network + 2 ^ (32 - p) \<le> 2 ^ 32"
proof -
  let ?k = "2 ^ (32 - p) :: nat"
  have pow: "(2 :: nat) ^ 32 = 2 ^ p * ?k" using assms(1) by (simp flip: power_add)
  have "unat network < 2 ^ LENGTH(32)" by (rule unsigned_less)
  then have "unat network < 2 ^ p * ?k" using pow by simp
  then have "unat network div ?k < 2 ^ p" by (rule less_mult_imp_div_less)
  then have "Suc (unat network div ?k) * ?k \<le> 2 ^ p * ?k"
    by (intro mult_right_mono) auto
  then show ?thesis using unat_aligned [OF assms] pow by simp
qed

lemma unat_broadcast:
  assumes "p \<le> 32" and "network AND net_mask p = network"
  shows "Suc (unat (network OR NOT (net_mask p))) = unat network + 2 ^ (32 - p)"
proof -
  have "\<not> bit network i \<or> \<not> bit (NOT (net_mask p)) i" for i
  proof -
    have "bit network i \<Longrightarrow> bit (net_mask p) i" using assms(2) by (metis bit_and_iff)
    then show ?thesis by (auto simp: bit_not_iff)
  qed
  then have "network OR NOT (net_mask p) = network + NOT (net_mask p)"
    by (simp add: disjunctive_add)
  also have "\<dots> = network + mask (32 - p)" using assms(1) by (simp add: not_net_mask)
  finally have sum: "network OR NOT (net_mask p) = network + mask (32 - p)" .
  have k: "(0 :: nat) < 2 ^ (32 - p)" by simp
  have m: "unat (mask (32 - p) :: u32) = 2 ^ (32 - p) - 1"
  proof -
    have "unat (mask (32 - p) :: u32) = unat (take_bit (32 - p) (- 1 :: u32))" by simp
    also have "\<dots> = mask (min (32 - p) 32)"
      by (simp only: unsigned_take_bit_eq unsigned_minus_1_eq_mask take_bit_of_mask) simp
    finally show ?thesis by (simp add: mask_eq_exp_minus_1)
  qed
  have "unat network + unat (mask (32 - p) :: u32) < 2 ^ LENGTH(32)"
    using aligned_room [OF assms] k by (simp add: m)
  then have "unat (network + mask (32 - p)) = unat network + unat (mask (32 - p) :: u32)"
    by (simp only: unat_word_ariths mod_less)
  then show ?thesis unfolding sum using m k by simp
qed

lemma in_subnet_range:
  assumes "p \<le> 32" and "network AND net_mask p = network"
  shows "c AND net_mask p = network \<longleftrightarrow>
    unat network \<le> unat c \<and> unat c < unat network + 2 ^ (32 - p)"
proof -
  let ?k = "2 ^ (32 - p) :: nat"
  have k: "0 < ?k" by simp
  note n = unat_aligned [OF assms]
  have "c AND net_mask p = network \<longleftrightarrow> unat c div ?k * ?k = unat network div ?k * ?k"
    using n unat_and_net_mask [OF assms(1), of c] by (simp add: word_unat_eq_iff)
  also have "\<dots> \<longleftrightarrow> unat c div ?k = unat network div ?k" by simp
  also have "\<dots> \<longleftrightarrow> unat network div ?k * ?k \<le> unat c \<and> unat c < unat network div ?k * ?k + ?k"
    by (metis add.commute div_nat_eqI dividend_less_div_times div_times_less_eq_dividend k mult.commute mult_Suc)
  also have "\<dots> \<longleftrightarrow> unat network \<le> unat c \<and> unat c < unat network + ?k"
    using n by simp
  finally show ?thesis .
qed

lemma automatic_candidates_iff:
  assumes "p \<le> 30" and "network AND net_mask p = network"
  shows "c \<in> set (automatic_lan_candidates network p host gateway) \<longleftrightarrow>
    validate_lan_candidate c network p host gateway = Inr () \<and>
    unat network + 2 \<le> unat c \<and> unat (network OR NOT (net_mask p)) - 200 \<le> unat c"
proof -
  define b where "b = network OR NOT (net_mask p)"
  from assms(1) have p: "p \<le> 32" by simp
  have four: "4 \<le> (2 :: nat) ^ (32 - p)"
    using assms(1) power_increasing [of 2 "32 - p" "2 :: nat"] by simp
  have b: "Suc (unat b) = unat network + 2 ^ (32 - p)"
    using unat_broadcast [OF p assms(2)] by (simp add: b_def)
  have low: "unat (saturating_add network 2) = unat network + 2"
    using aligned_room [OF p assms(2)] four by (simp add: unat_saturating_add)
  have "c \<in> set (automatic_lan_candidates network p host gateway) \<longleftrightarrow>
      unat network + 2 \<le> unat c \<and> unat b - 200 \<le> unat c \<and> unat c \<le> unat b - 1 \<and>
      c \<noteq> host \<and> Some c \<noteq> gateway"
    unfolding automatic_lan_candidates_def Let_def set_lan_candidates_down b_def [symmetric]
    by (auto simp: word_le_nat_alt low unat_saturating_sub max_def)
  moreover have "validate_lan_candidate c network p host gateway = Inr () \<longleftrightarrow>
      c AND net_mask p = network \<and> unat c \<noteq> unat network \<and> unat c \<noteq> unat b \<and>
      c \<noteq> host \<and> Some c \<noteq> gateway"
    unfolding validate_lan_candidate_def Let_def b_def [symmetric] by (auto simp: word_unat_eq_iff)
  moreover have "c AND net_mask p = network \<longleftrightarrow> unat network \<le> unat c \<and> unat c < Suc (unat b)"
    using in_subnet_range [OF p assms(2)] b by simp
  ultimately show ?thesis using b four unfolding b_def [symmetric] by linarith
qed

lemma parse_uplink_cidr_aligned:
  "parse_uplink_cidr cidr = Inr (network, p) \<Longrightarrow> p \<le> 30 \<and> network AND net_mask p = network"
  by (auto simp: parse_uplink_cidr_def Let_def bindR_Inr split: option.splits if_splits prod.splits)

section \<open>Properties\<close>

text \<open>(C36) The allocator's conflict test is exact: an aligned /30 is refused precisely when one of its
  four addresses lies in a network already in use, where an entry whose prefix length is missing
  or unreadable counts as a single address and prefixes beyond 32 as 32.\<close>

theorem private_subnet_conflicts_exact:
  assumes "base AND NOT 3 = base"
  shows "private_subnet_conflicts base used \<longleftrightarrow> (\<exists>x. in_net x base 30 \<and> used_net used x)"
  using assms by (rule private_subnet_conflicts_overlap)

theorem private_subnet_conflicts_exact_witness:
  "private_subnet_conflicts 8 [(''a'', V4 10, ''29'')]
     \<longleftrightarrow> (\<exists>x. in_net x 8 30 \<and> used_net [(''a'', V4 10, ''29'')] x)"
  by (rule private_subnet_conflicts_exact) simp


lemma find_upt_Some:
  "find P [0..<n] = Some j \<longleftrightarrow> j < n \<and> P j \<and> (\<forall>i < j. \<not> P i)"
  unfolding find_Some_iff by (auto intro: exI [of _ j])



lemma and_not3_idem: "(a AND NOT 3) AND NOT 3 = (a AND NOT 3 :: u32)"
  by (simp add: and.assoc)

lemma saturating_add_aligned:
  assumes "base AND NOT 3 = (base :: u32)" "unat n \<le> 3"
  shows "saturating_add base n = base + n"
proof -
  from assms(1) have "base AND net_mask 30 = base" unfolding not3_net_mask .
  then have "unat base + 2 ^ (32 - 30) \<le> 2 ^ 32" by (intro aligned_room) simp_all
  with assms(2) show ?thesis by (simp add: saturating_add_def)
qed

lemma allocate_subnet_Some:
  assumes "allocate_subnet used = Some (network, gateway, guest)"
  shows "network AND NOT 3 = network" "gateway = network + 1" "guest = network + 2"
    "\<not> private_subnet_conflicts network used"
proof -
  from assms obtain k where "k < POOL_SIZE" "\<not> private_subnet_conflicts (pool_base k) used"
    "network = pool_base k" "gateway = network + 1" "guest = network + 2"
    by (auto simp: allocate_subnet_find find_upt_Some)
  then show "network AND NOT 3 = network" "gateway = network + 1" "guest = network + 2"
    "\<not> private_subnet_conflicts network used"
    using pool_base_aligned [of k] by simp_all
qed

lemma select_exact_Inr:
  assumes "select_private_subnet used request = Inr (network, gateway, guest)"
    "nr_exact_network_values request"
  shows "network AND NOT 3 = network" "gateway = network + 1" "guest = network + 2"
    "\<not> private_subnet_conflicts network used"
    "nr_guest_address_override request = Some guest" "nr_prefix_length_override request = Some 30"
    "nr_gateway_override request \<in> {None, Some gateway}"
proof -
  from assms obtain g where g: "nr_guest_address_override request = Some g"
    "nr_prefix_length_override request = Some 30"
    by (auto simp: select_private_subnet_def Let_def split: option.splits if_splits)
  define base where "base = (g AND NOT 3)"
  have eq: "select_private_subnet used request =
    (if g \<noteq> saturating_add base 2
        \<or> (case nr_gateway_override request of None \<Rightarrow> saturating_add base 1 | Some g \<Rightarrow> g)
            \<noteq> saturating_add base 1
        \<or> private_subnet_conflicts base used
     then Inl (SnapshotNetworkConflict ''guest/gateway IPv4 subnet''
            (show_ipv4 g @ ''/30 via '' @
             (case nr_gateway_override request of None \<Rightarrow> ''(none)'' | Some g \<Rightarrow> show_ipv4 g)))
     else Inr (base, saturating_add base 1, g))"
    unfolding select_private_subnet_def Let_def g base_def using assms(2) by simp
  with assms(1) have h: "network = base" "gateway = saturating_add base 1" "guest = g"
    "guest = saturating_add base 2" "\<not> private_subnet_conflicts base used"
    "nr_gateway_override request \<in> {None, Some gateway}"
    by (auto split: if_splits option.splits)
  have al: "network AND NOT 3 = network" unfolding h(1) base_def by (rule and_not3_idem)
  show "network AND NOT 3 = network" by (rule al)
  show "gateway = network + 1" using h(1,2) saturating_add_aligned [OF al, of 1] by simp
  show "guest = network + 2" using h(1,4) saturating_add_aligned [OF al, of 2] by simp
  show "\<not> private_subnet_conflicts network used" using h by simp
  show "nr_guest_address_override request = Some guest" using g h by simp
  show "nr_prefix_length_override request = Some 30" by (rule g)
  show "nr_gateway_override request \<in> {None, Some gateway}" by (rule h)
qed

lemma select_private_subnet_Inr:
  assumes "select_private_subnet used request = Inr (network, gateway, guest)"
  shows "network AND NOT 3 = network" "gateway = network + 1" "guest = network + 2"
    "\<not> private_subnet_conflicts network used"
    "nr_exact_network_values request \<Longrightarrow> nr_guest_address_override request = Some guest"
    "nr_exact_network_values request \<Longrightarrow> nr_prefix_length_override request = Some 30"
    "nr_exact_network_values request \<Longrightarrow> nr_gateway_override request \<in> {None, Some gateway}"
proof -
  have alloc: "allocate_subnet used = Some (network, gateway, guest)" if "\<not> nr_exact_network_values request"
    using assms that by (simp add: select_private_subnet_def)
  note exact = select_exact_Inr [OF assms] and auto = allocate_subnet_Some [OF alloc]
  show "network AND NOT 3 = network" using exact(1) auto(1) by blast
  show "gateway = network + 1" using exact(2) auto(2) by blast
  show "guest = network + 2" using exact(3) auto(3) by blast
  show "\<not> private_subnet_conflicts network used" using exact(4) auto(4) by blast
  show "nr_exact_network_values request \<Longrightarrow> nr_guest_address_override request = Some guest"
    by (rule exact)
  show "nr_exact_network_values request \<Longrightarrow> nr_prefix_length_override request = Some 30"
    by (rule exact)
  show "nr_exact_network_values request \<Longrightarrow> nr_gateway_override request \<in> {None, Some gateway}"
    by (rule exact)
qed

text \<open>(C38) Whatever way a private subnet is chosen, automatically or from the exact values of a restored
  snapshot, the result is an aligned /30 that overlaps no network in use, the gateway is its first
  and the guest its second host address. Of exact values the guest address and a prefix length of 30 are
  required and returned unchanged, and a gateway that was requested is the one that is returned.\<close>

theorem select_private_subnet_free:
  assumes "select_private_subnet used request = Inr (network, gateway, guest)"
  shows "network AND NOT 3 = network \<and> gateway = network + 1 \<and> guest = network + 2
    \<and> \<not> (\<exists>x. in_net x network 30 \<and> used_net used x)
    \<and> (nr_exact_network_values request \<longrightarrow>
         nr_guest_address_override request = Some guest
         \<and> nr_prefix_length_override request = Some 30
         \<and> nr_gateway_override request \<in> {None, Some gateway})"
  using select_private_subnet_Inr [OF assms]
    private_subnet_conflicts_overlap [OF select_private_subnet_Inr(1) [OF assms], of used]
  by blast

definition sample_exact_request :: NetworkRequest where
  "sample_exact_request = \<lparr>nr_vm_name = ''a'', nr_mode = HostOnly, nr_guest_mac = [],
     nr_lan_address_override = None, nr_guest_address_override = Some 2,
     nr_prefix_length_override = Some 30, nr_gateway_override = None,
     nr_exact_network_values = True\<rparr>"

theorem select_private_subnet_free_witness:
  "select_private_subnet [] (sample_exact_request\<lparr>nr_gateway_override := Some 1\<rparr>) = Inr (0, 1, 2)
    \<and> (0 :: ipv4) AND NOT 3 = 0 \<and> \<not> (\<exists>x. in_net x 0 30 \<and> used_net [] x)"
proof -
  have *: "select_private_subnet [] (sample_exact_request\<lparr>nr_gateway_override := Some 1\<rparr>) = Inr (0, 1, 2)"
    by (simp add: select_private_subnet_def sample_exact_request_def Let_def saturating_add_def
        private_subnet_conflicts_def)
  show ?thesis using * select_private_subnet_free [OF *] by blast
qed

text \<open>(C39) On an uplink whose subnet was accepted, the automatic LAN candidates are exactly the addresses
  the validation accepts that lie at or above the subnet's third address and within the last two
  hundred below its broadcast address: never the network or broadcast address, the host or its
  gateway, and no such address is left out.\<close>

theorem automatic_lan_candidates_exact:
  assumes "parse_uplink_cidr cidr = Inr (network, p)"
  shows "c \<in> set (automatic_lan_candidates network p host gateway) \<longleftrightarrow>
    validate_lan_candidate c network p host gateway = Inr () \<and>
    unat network + 2 \<le> unat c \<and> unat (network OR NOT (net_mask p)) - 200 \<le> unat c"
proof -
  from parse_uplink_cidr_aligned [OF assms] show ?thesis
    by (intro automatic_candidates_iff) simp_all
qed

theorem automatic_lan_candidates_exact_witness:
  "parse_uplink_cidr ''0.0.0.4/30'' = Inr (4, 30) \<and>
   (6 \<in> set (automatic_lan_candidates 4 30 5 None) \<longleftrightarrow>
    validate_lan_candidate 6 4 30 5 None = Inr () \<and>
    unat (4 :: ipv4) + 2 \<le> unat (6 :: ipv4) \<and>
    unat ((4 :: ipv4) OR NOT (net_mask 30)) - 200 \<le> unat (6 :: ipv4))"
proof -
  have *: "parse_uplink_cidr ''0.0.0.4/30'' = Inr (4, 30)"
    by (simp add: parse_uplink_cidr_def Let_def parse_ipv4_def parse_octet_def digit_value_def
        is_ascii_digit_def ipv4_of_octets_def parse_unsigned_def net_mask_def mask_eq_exp_minus_1)
  show ?thesis using * automatic_lan_candidates_exact [OF *, of 6 5 None] by blast
qed

lemma slash_not_in_ipv4: "CHR ''/'' \<notin> set (show_ipv4 a)"
  by (simp add: show_ipv4_def ipv4_octets_def Let_def slash_not_digit)

text \<open>(C40) The textual uplink identity round trips: the CIDR that the adapter writes for an address and a
  prefix length of at most 30 is read back as the network address of that subnet and the prefix.\<close>

theorem parse_uplink_cidr_round_trip:
  assumes "p \<le> 30"
  shows "parse_uplink_cidr (show_ipv4 a @ ''/'' @ show_nat p) = Inr (a AND net_mask p, p)"
  using assms
  by (simp add: parse_uplink_cidr_def Let_def split_once_append slash_not_in_ipv4 parse_show_ipv4)

theorem parse_uplink_cidr_round_trip_witness:
  "parse_uplink_cidr (show_ipv4 10 @ ''/'' @ show_nat 24) = Inr (10 AND net_mask 24, 24)"
  by (rule parse_uplink_cidr_round_trip) simp

end
