(* ===== verification/Linux_Commands.thy ===== *)
theory Linux_Commands
  imports Net_Addresses
begin

text \<open>
  Host commands of the Linux network adapter, src/crates/sdk/src/adapters/network/linux.rs: running
  \<open>ip\<close>, \<open>sysctl\<close>, \<open>iptables\<close>, \<open>arping\<close> and \<open>ping\<close>, the errors built from their output, the
  inspection of links, sysctls and iptables rules, the rule specifications of a VM, and the
  primitives that add and delete them.

  The programs of the host are not part of the repository, so \<open>std::process::Command\<close> is the
  parameter \<open>spawn\<close> of every definition: given a program and its arguments it changes the world
  and either cannot be started (a text) or ends with an exit status, standard output and standard
  error. Nothing is assumed of it here, so the theorems of this theory hold whatever the commands
  do. Command output is ASCII text.
\<close>

record cmd_output =
  co_success :: bool
  co_status :: string
  co_stdout :: string
  co_stderr :: string

type_synonym 'w cmd = "string \<Rightarrow> string list \<Rightarrow> (string, 'w, cmd_output) io"

section \<open>Running commands\<close>

definition SDK_OWNERSHIP :: string where
  "SDK_OWNERSHIP = ''sdk:taumaru''"

definition PRIVILEGE_HINT :: string where
  "PRIVILEGE_HINT = ''the operation requires elevated network privileges (CAP_NET_ADMIN); run as root or grant the capability''"

definition command_stderr :: "cmd_output \<Rightarrow> string" where
  "command_stderr output = str_trim (co_stderr output)"

definition is_privilege_denied :: "string \<Rightarrow> bool" where
  "is_privilege_denied text =
     (let normalized = to_lowercase text
      in str_contains normalized ''operation not permitted''
         \<or> str_contains normalized ''permission denied'')"

definition trim_end :: "string \<Rightarrow> string" where
  "trim_end s = rev (dropWhile is_whitespace (rev s))"

definition output_failure_reason :: "cmd_output \<Rightarrow> string" where
  "output_failure_reason output =
     (let stderr = command_stderr output;
          truncated = (if 500 < length stderr then trim_end (take 500 stderr) @ ''...'' else stderr);
          flattened = join_with '' '' (split_whitespace truncated)
      in ''command exited with '' @ co_status output
         @ (if stderr \<noteq> [] then '': '' @ flattened else [])
         @ (if is_privilege_denied stderr then ''; '' @ PRIVILEGE_HINT else []))"

definition host_command_error :: "string \<Rightarrow> string list \<Rightarrow> cmd_output \<Rightarrow> SdkError" where
  "host_command_error program arguments output =
     (let command = (if arguments = [] then program else program @ '' '' @ join_with '' '' arguments)
      in HostCommand program (command @ '' '' @ output_failure_reason output))"

definition command_output :: "'w cmd \<Rightarrow> string \<Rightarrow> string list \<Rightarrow> ('w, cmd_output) sdk_io" where
  "command_output spawn program arguments w =
     (case spawn program arguments w of
        (Inl reason, w') \<Rightarrow> (Inl (HostCommand program reason), w')
      | (Inr output, w') \<Rightarrow> (Inr output, w'))"

definition run_command :: "'w cmd \<Rightarrow> string \<Rightarrow> string list \<Rightarrow> ('w, unit) sdk_io" where
  "run_command spawn program arguments =
     bindE (command_output spawn program arguments) (\<lambda>output.
     if co_success output then returnE ()
     else throwE (host_command_error program arguments output))"

definition run_ip :: "'w cmd \<Rightarrow> string list \<Rightarrow> ('w, unit) sdk_io" where
  "run_ip spawn arguments = run_command spawn ''ip'' arguments"

section \<open>Links\<close>

definition is_link_missing :: "cmd_output \<Rightarrow> bool" where
  "is_link_missing output =
     (let stderr = command_stderr output
      in str_contains stderr ''does not exist'' \<and> \<not> is_privilege_denied stderr)"

definition is_device_missing :: "cmd_output \<Rightarrow> bool" where
  "is_device_missing output =
     (let stderr = command_stderr output
      in str_contains stderr ''Cannot find device'' \<and> \<not> is_privilege_denied stderr)"

definition primary_device_is_missing :: "SdkError \<Rightarrow> bool" where
  "primary_device_is_missing error =
     (case error of
        HostCommand program reason \<Rightarrow>
          str_contains reason ''Cannot find device'' \<and> \<not> is_privilege_denied reason
      | _ \<Rightarrow> False)"

definition link_output :: "'w cmd \<Rightarrow> string \<Rightarrow> ('w, string option) sdk_io" where
  "link_output spawn name =
     bindE (command_output spawn ''ip'' [''-d'', ''link'', ''show'', ''dev'', name]) (\<lambda>output.
     if co_success output then returnE (Some (co_stdout output))
     else if is_link_missing output then returnE None
     else throwE (host_command_error ''ip'' [''-d'', ''link'', ''show'', ''dev'', name] output))"

definition link_exists :: "'w cmd \<Rightarrow> string \<Rightarrow> ('w, bool) sdk_io" where
  "link_exists spawn name = bindE (link_output spawn name) (\<lambda>x. returnE (x \<noteq> None))"

definition tap_line :: "string \<Rightarrow> bool" where
  "tap_line line =
     (let l = str_trim_start line
      in prefix ''tun '' l \<or> prefix ''tap '' l \<or> str_contains l '' tun '')"

definition link_is_tap :: "'w cmd \<Rightarrow> string \<Rightarrow> ('w, bool) sdk_io" where
  "link_is_tap spawn name =
     bindE (link_output spawn name) (\<lambda>x.
     returnE (case x of None \<Rightarrow> False | Some output \<Rightarrow> list_ex tap_line (str_lines output)))"

definition delete_link_if_present :: "'w cmd \<Rightarrow> string \<Rightarrow> ('w, unit) sdk_io" where
  "delete_link_if_present spawn name =
     bindE (link_exists spawn name) (\<lambda>present.
     if \<not> present then returnE ()
     else bindE (attemptE (run_ip spawn [''link'', ''delete'', ''dev'', name])) (\<lambda>r.
     case r of
       Inr _ \<Rightarrow> returnE ()
     | Inl primary \<Rightarrow>
         bindE (link_exists spawn name) (\<lambda>still.
         if \<not> still then returnE () else throwE primary)))"

section \<open>Sysctls\<close>

definition forwarding_enabled :: "'w cmd \<Rightarrow> ('w, bool) sdk_io" where
  "forwarding_enabled spawn =
     bindE (command_output spawn ''sysctl'' [''-n'', ''net.ipv4.ip_forward'']) (\<lambda>output.
     if \<not> co_success output
     then throwE (Network (NetworkMode_as_str HostOnly) ''inspect IPv4 forwarding''
            ''net.ipv4.ip_forward'' (''sysctl exited with '' @ co_status output))
     else returnE (str_trim (co_stdout output) = ''1''))"

definition proxy_arp_enabled :: "'w cmd \<Rightarrow> string \<Rightarrow> ('w, bool) sdk_io" where
  "proxy_arp_enabled spawn uplink =
     (let key = ''net.ipv4.conf.'' @ uplink @ ''.proxy_arp'' in
      bindE (command_output spawn ''sysctl'' [''-n'', key]) (\<lambda>output.
      if \<not> co_success output then throwE (host_command_error ''sysctl'' [''-n'', key] output)
      else returnE (str_trim (co_stdout output) = ''1'')))"

section \<open>iptables\<close>

definition iptables_comment :: "string \<Rightarrow> string \<Rightarrow> string" where
  "iptables_comment tap scope = SDK_OWNERSHIP @ '':'' @ tap @ '':'' @ scope"

definition rule_absent :: "string \<Rightarrow> bool" where
  "rule_absent stderr \<longleftrightarrow>
     str_contains stderr ''No chain/target/match by that name''
     \<or> str_contains stderr ''Bad rule'' \<or> str_contains stderr ''No such''"

definition iptables_check :: "'w cmd \<Rightarrow> string list \<Rightarrow> ('w, bool) sdk_io" where
  "iptables_check spawn arguments =
     bindE (command_output spawn ''iptables'' arguments) (\<lambda>output.
     if co_success output then returnE True
     else if rule_absent (command_stderr output) then returnE False
     else throwE (host_command_error ''iptables'' arguments output))"

definition iptables_rule_exists :: "'w cmd \<Rightarrow> string list \<Rightarrow> ('w, bool) sdk_io" where
  "iptables_rule_exists spawn spec = iptables_check spawn (''-C'' # spec)"

definition nat_check_arguments :: "string list \<Rightarrow> string list" where
  "nat_check_arguments chain_and_rule = [''-t'', ''nat'', ''-C''] @ chain_and_rule"

definition nat_delete_arguments :: "string list \<Rightarrow> string list" where
  "nat_delete_arguments chain_and_rule = [''-t'', ''nat'', ''-D''] @ chain_and_rule"

definition iptables_nat_rule_exists :: "'w cmd \<Rightarrow> string list \<Rightarrow> ('w, bool) sdk_io" where
  "iptables_nat_rule_exists spawn chain_and_rule =
     iptables_check spawn (nat_check_arguments chain_and_rule)"

text \<open>The specifications are never empty; \<open>spec[0]\<close> is the chain.\<close>

definition iptables_add_rule :: "'w cmd \<Rightarrow> string list \<Rightarrow> ('w, unit) sdk_io" where
  "iptables_add_rule spawn spec =
     bindE (iptables_rule_exists spawn spec) (\<lambda>present.
     if present then returnE ()
     else run_command spawn ''iptables'' ([''-I'', hd spec, ''1''] @ tl spec))"

definition iptables_nat_insert_rule :: "'w cmd \<Rightarrow> string list \<Rightarrow> ('w, unit) sdk_io" where
  "iptables_nat_insert_rule spawn spec =
     bindE (iptables_nat_rule_exists spawn spec) (\<lambda>present.
     if present then returnE ()
     else run_command spawn ''iptables'' ([''-t'', ''nat'', ''-I'', hd spec, ''1''] @ tl spec))"

definition iptables_delete_rule :: "'w cmd \<Rightarrow> string list \<Rightarrow> ('w, unit) sdk_io" where
  "iptables_delete_rule spawn spec =
     bindE (iptables_rule_exists spawn spec) (\<lambda>present.
     if \<not> present then returnE () else run_command spawn ''iptables'' (''-D'' # spec))"

definition run_iptables_spec :: "'w cmd \<Rightarrow> string list \<Rightarrow> ('w, unit) sdk_io" where
  "run_iptables_spec spawn spec =
     (if spec \<noteq> [] \<and> hd spec = ''POSTROUTING''
      then run_command spawn ''iptables'' ([''-t'', ''nat'', ''-I'', ''POSTROUTING'', ''1''] @ tl spec)
      else iptables_add_rule spawn spec)"

definition delete_iptables_spec :: "'w cmd \<Rightarrow> string list \<Rightarrow> ('w, unit) sdk_io" where
  "delete_iptables_spec spawn spec =
     (if spec \<noteq> [] \<and> hd spec = ''POSTROUTING''
      then bindE (iptables_nat_rule_exists spawn spec) (\<lambda>present.
           if \<not> present then returnE ()
           else run_command spawn ''iptables'' (nat_delete_arguments spec))
      else iptables_delete_rule spawn spec)"

section \<open>The rules of a VM\<close>

definition host_only_nat_spec :: "string \<Rightarrow> ipv4 \<Rightarrow> string list" where
  "host_only_nat_spec tap private_network =
     [''POSTROUTING'', ''-s'', show_ipv4 private_network @ ''/30'', ''!'', ''-o'', tap, ''-j'',
      ''MASQUERADE'', ''-m'', ''comment'', ''--comment'', iptables_comment tap ''nat'']"

definition host_only_forward_specs :: "string \<Rightarrow> ipv4 \<Rightarrow> string list list" where
  "host_only_forward_specs tap private_guest =
     [[''FORWARD'', ''-i'', tap, ''-j'', ''ACCEPT'', ''-m'', ''comment'', ''--comment'',
       iptables_comment tap ''forward-out''],
      [''FORWARD'', ''-o'', tap, ''-d'', show_ipv4 private_guest @ ''/32'', ''-m'', ''conntrack'',
       ''--ctstate'', ''RELATED,ESTABLISHED'', ''-j'', ''ACCEPT'', ''-m'', ''comment'', ''--comment'',
       iptables_comment tap ''forward-in'']]"

definition routed_forward_specs :: "string \<Rightarrow> string \<Rightarrow> ipv4 \<Rightarrow> ipv4 \<Rightarrow> string list list" where
  "routed_forward_specs uplink tap private_guest lan =
     [[''FORWARD'', ''-i'', tap, ''-o'', uplink, ''-j'', ''ACCEPT'', ''-m'', ''comment'',
       ''--comment'', iptables_comment tap ''forward-out''],
      [''FORWARD'', ''-i'', uplink, ''-o'', tap, ''-d'', show_ipv4 private_guest @ ''/32'',
       ''-m'', ''conntrack'', ''--ctstate'', ''RELATED,ESTABLISHED'', ''-j'', ''ACCEPT'', ''-m'',
       ''comment'', ''--comment'', iptables_comment tap ''forward-in-private''],
      [''FORWARD'', ''-i'', uplink, ''-o'', tap, ''-d'', show_ipv4 lan @ ''/32'', ''-j'', ''ACCEPT'',
       ''-m'', ''comment'', ''--comment'', iptables_comment tap ''forward-in-lan'']]"

definition routed_nat_spec :: "string \<Rightarrow> string \<Rightarrow> ipv4 \<Rightarrow> string list" where
  "routed_nat_spec uplink tap private_network =
     [''POSTROUTING'', ''-s'', show_ipv4 private_network @ ''/30'', ''-o'', uplink, ''-j'',
      ''MASQUERADE'', ''-m'', ''comment'', ''--comment'', iptables_comment tap ''nat'']"

end
