(* ===== verification/Linux_Network.thy ===== *)
theory Linux_Network
  imports Linux_Commands
begin

text \<open>
  The Linux network controller, src/crates/sdk/src/adapters/network/linux.rs: discovery of live
  addresses and of the uplink, selection of a LAN address, creation, reconciliation and clean-up
  of the host resources of a VM. The closures of the code that fill the vectors \<open>applied\<close> and
  \<open>skipped\<close> run on a \<open>net\<close> state, the world together with the two vectors, which keep what was
  pushed before an error. SHA-256 is a parameter, as \<open>spawn\<close> is.
\<close>

type_synonym 'w net = "'w \<times> NetworkResource list \<times> NetworkResource list"

definition on_host :: "('w, 'a) sdk_io \<Rightarrow> ('w net, 'a) sdk_io" where
  "on_host m = (\<lambda>(w, applied, skipped). case m w of (r, w') \<Rightarrow> (r, (w', applied, skipped)))"

definition push_applied :: "NetworkResource \<Rightarrow> ('w net, unit) sdk_io" where
  "push_applied r = (\<lambda>(w, applied, skipped). (Inr (), (w, applied @ [r], skipped)))"

definition push_skipped :: "NetworkResource \<Rightarrow> ('w net, unit) sdk_io" where
  "push_skipped r = (\<lambda>(w, applied, skipped). (Inr (), (w, applied, skipped @ [r])))"

definition get_applied :: "('w net, NetworkResource list) sdk_io" where
  "get_applied = (\<lambda>(w, applied, skipped). (Inr applied, (w, applied, skipped)))"

definition with_vectors ::
  "('w net, 'a) sdk_io \<Rightarrow> ('w, (SdkError + 'a) \<times> NetworkResource list \<times> NetworkResource list) sdk_io" where
  "with_vectors m = (\<lambda>w. case m (w, [], []) of (r, (w', applied, skipped)) \<Rightarrow>
     (Inr (r, applied, skipped), w'))"

record NetworkOutcome =
  no_persisted :: PersistedNetwork
  no_applied :: "NetworkResource list"
  no_skipped :: "NetworkResource list"

section \<open>Names and resources\<close>

definition tap_name :: "(string \<Rightarrow> u8 list) \<Rightarrow> string \<Rightarrow> string" where
  "tap_name sha256 name =
     (let digest = sha256 name
      in ''tm-'' @ show_hex2 (digest ! 0) @ show_hex2 (digest ! 1) @ show_hex2 (digest ! 2)
         @ show_hex2 (digest ! 3))"

definition guest_mac :: "(string \<Rightarrow> u8 list) \<Rightarrow> string \<Rightarrow> string" where
  "guest_mac sha256 name =
     (let digest = sha256 name
      in ''02:fc:'' @ show_hex2 (digest ! 0) @ '':'' @ show_hex2 (digest ! 1) @ '':''
         @ show_hex2 (digest ! 2) @ '':'' @ show_hex2 (digest ! 3))"

definition resource :: "NetworkResource \<Rightarrow> string \<Rightarrow> string \<Rightarrow> PersistedNetworkResource" where
  "resource r identity fingerprint =
     \<lparr>pnr_resource = r, pnr_identity = identity, pnr_fingerprint = fingerprint,
      pnr_ownership = SDK_OWNERSHIP, pnr_adapter_handle = None, pnr_last_observed = ''desired''\<rparr>"

section \<open>Reading the host\<close>

definition position :: "string \<Rightarrow> string list \<Rightarrow> nat option" where
  "position x fs =
     (let pre = takeWhile (\<lambda>y. y \<noteq> x) fs
      in if length pre < length fs then Some (length pre) else None)"

definition get :: "'a list \<Rightarrow> nat \<Rightarrow> 'a option" where
  "get xs i = (if i < length xs then Some (xs ! i) else None)"

text \<open>The field after the first field that equals \<open>x\<close>.\<close>

definition field_after :: "string \<Rightarrow> string list \<Rightarrow> string option" where
  "field_after x fs =
     (case position x fs of None \<Rightarrow> None | Some i \<Rightarrow> get fs (i + 1))"

definition trim_end_colon :: "string \<Rightarrow> string" where
  "trim_end_colon s = rev (dropWhile (\<lambda>c. c = CHR '':'') (rev s))"

definition live_address_of_line :: "string \<Rightarrow> used_address option" where
  "live_address_of_line line =
     (let fs = split_whitespace line in
      case field_after ''inet'' fs of
        None \<Rightarrow> None
      | Some address_with_prefix \<Rightarrow>
          (case split_once CHR ''/'' address_with_prefix of
             None \<Rightarrow> None
           | Some (address, pfx) \<Rightarrow>
               (case parse_ipv4 address of
                  None \<Rightarrow> None
                | Some a \<Rightarrow>
                    let interface = (case get fs 1 of
                          None \<Rightarrow> ''unknown'' | Some f \<Rightarrow> trim_end_colon f)
                    in Some (''live:'' @ interface, V4 a, pfx))))"

definition live_route_of_line :: "string \<Rightarrow> used_address option" where
  "live_route_of_line line =
     (case split_whitespace line of
        [] \<Rightarrow> None
      | route # _ \<Rightarrow>
          (case split_once CHR ''/'' route of
             None \<Rightarrow> None
           | Some (network, pfx) \<Rightarrow>
               (case parse_ipv4 network of
                  None \<Rightarrow> None
                | Some a \<Rightarrow> Some (''live-route'', V4 a, pfx))))"

definition live_ipv4_addresses :: "'w cmd \<Rightarrow> ('w, used_address list) sdk_io" where
  "live_ipv4_addresses spawn =
     bindE (command_output spawn ''ip'' [''-4'', ''-o'', ''addr'', ''show'']) (\<lambda>address_output.
     if \<not> co_success address_output
     then throwE (Network (NetworkMode_as_str HostOnly) ''inspect live IPv4 addresses''
            ''host interfaces'' (''ip exited with '' @ co_status address_output))
     else
     bindE (command_output spawn ''ip'' [''-4'', ''route'', ''show'']) (\<lambda>route_output.
     if \<not> co_success route_output
     then throwE (Network (NetworkMode_as_str HostOnly) ''inspect live IPv4 routes''
            ''host routes'' (''ip exited with '' @ co_status route_output))
     else returnE (List.map_filter live_address_of_line (str_lines (co_stdout address_output))
            @ List.map_filter live_route_of_line (str_lines (co_stdout route_output)))))"

definition detect_default_uplink :: "'w cmd \<Rightarrow> ('w, string) sdk_io" where
  "detect_default_uplink spawn =
     bindE (command_output spawn ''ip'' [''route'', ''show'', ''default'']) (\<lambda>output.
     let fs = concat (map split_whitespace (str_lines (co_stdout output))) in
     case position ''dev'' fs of
       None \<Rightarrow> throwE (Network (NetworkMode_as_str Lan) ''detect default uplink'' ''default route''
                 ''the host has no default-route device'')
     | Some index \<Rightarrow>
         (case get fs (index + 1) of
            None \<Rightarrow> throwE (Network (NetworkMode_as_str Lan) ''detect default uplink''
                      ''default route'' ''the default route has no device name'')
          | Some uplink \<Rightarrow>
              if uplink = [] \<or> 15 < length uplink
              then throwE (Network (NetworkMode_as_str Lan) ''validate default uplink'' uplink
                     ''the interface name is not valid for Linux networking'')
              else returnE uplink))"

definition is_loopback :: "ipv4 \<Rightarrow> bool" where
  "is_loopback a \<longleftrightarrow> hd (ipv4_octets a) = 127"

definition is_link_local :: "ipv4 \<Rightarrow> bool" where
  "is_link_local a \<longleftrightarrow> ipv4_octets a ! 0 = 169 \<and> ipv4_octets a ! 1 = 254"

definition uplink_address_of_line :: "string \<Rightarrow> (ipv4 \<times> u8 \<times> string) option" where
  "uplink_address_of_line line =
     (case field_after ''inet'' (split_whitespace line) of
        None \<Rightarrow> None
      | Some spec \<Rightarrow>
          if str_contains spec ''/scope link'' \<or> spec = ''127.0.0.1/8'' then None
          else (case split_once CHR ''/'' spec of
                  None \<Rightarrow> None
                | Some (address, pfx) \<Rightarrow>
                    (case (parse_ipv4 address, parse_unsigned 255 pfx) of
                       (Some a, Some p) \<Rightarrow>
                         if \<not> is_loopback a \<and> \<not> is_link_local a
                         then Some (a, word_of_nat p, show_ipv4 a @ ''/'' @ show_nat p)
                         else None
                     | _ \<Rightarrow> None)))"

definition default_gateway_of_line :: "string \<Rightarrow> ipv4 option" where
  "default_gateway_of_line line =
     (case field_after ''via'' (split_whitespace line) of
        None \<Rightarrow> None
      | Some gateway \<Rightarrow> parse_ipv4 gateway)"

text \<open>The first line that yields a value.\<close>

fun first_some :: "('a \<Rightarrow> 'b option) \<Rightarrow> 'a list \<Rightarrow> 'b option" where
  "first_some f [] = None"
| "first_some f (x # xs) = (case f x of None \<Rightarrow> first_some f xs | Some y \<Rightarrow> Some y)"

definition default_gateway_for_uplink :: "'w cmd \<Rightarrow> string \<Rightarrow> ('w, ipv4 option) sdk_io" where
  "default_gateway_for_uplink spawn uplink =
     (let arguments = [''-4'', ''route'', ''show'', ''default'', ''dev'', uplink] in
      bindE (command_output spawn ''ip'' arguments) (\<lambda>output.
      if \<not> co_success output then throwE (host_command_error ''ip'' arguments output)
      else returnE (first_some default_gateway_of_line (str_lines (co_stdout output)))))"

definition detect_uplink_identity :: "'w cmd \<Rightarrow> ('w, UplinkIdentity) sdk_io" where
  "detect_uplink_identity spawn =
     bindE (detect_default_uplink spawn) (\<lambda>uplink.
     let arguments = [''-o'', ''-4'', ''addr'', ''show'', ''dev'', uplink] in
     bindE (command_output spawn ''ip'' arguments) (\<lambda>output.
     if \<not> co_success output then throwE (host_command_error ''ip'' arguments output)
     else case first_some uplink_address_of_line (str_lines (co_stdout output)) of
       None \<Rightarrow> throwE (Network (NetworkMode_as_str Lan) ''detect uplink address'' uplink
                 ''the uplink has no global IPv4 address'')
     | Some (address, prefix_length, cidr) \<Rightarrow>
         bindE (default_gateway_for_uplink spawn uplink) (\<lambda>gateway.
         returnE \<lparr>ui_interface = uplink, ui_address = address, ui_prefix_length = prefix_length,
                  ui_gateway = gateway, ui_cidr = cidr\<rparr>)))"

section \<open>Choosing a LAN address\<close>

definition probe_lan_candidate :: "'w cmd \<Rightarrow> string \<Rightarrow> ipv4 \<Rightarrow> ('w, unit) sdk_io" where
  "probe_lan_candidate spawn interface candidate =
     (let address = show_ipv4 candidate;
          in_use = Network (NetworkMode_as_str Lan) ''probe LAN address'' address
                     ''the LAN address appears to be in use'';
          ping = bindE (command_output spawn ''ping'' [''-c'', ''1'', ''-W'', ''1'', address])
                   (\<lambda>output. if co_success output then throwE in_use else returnE ())
      in bindE (attemptE (command_output spawn ''arping''
                 [''-D'', ''-I'', interface, ''-c'', ''2'', ''-w'', ''2'', address])) (\<lambda>arping.
         case arping of
           Inr output \<Rightarrow>
             if co_success output then returnE ()
             else let stderr = command_stderr output
                  in if \<not> is_privilege_denied stderr \<and> \<not> str_contains stderr ''not found''
                     then throwE in_use
                     else ping
         | Inl _ \<Rightarrow> ping))"

datatype LanOfferSource = ExplicitOverride | PreviousAssignment | AutomaticSearch

record LanAddressOffer =
  lo_address :: ipv4
  lo_source :: LanOfferSource
  lo_uplink_cidr :: string

fun search_lan_candidates ::
  "'w cmd \<Rightarrow> UplinkIdentity \<Rightarrow> used_address list \<Rightarrow> ipv4 list \<Rightarrow> ('w, LanAddressOffer) sdk_io" where
  "search_lan_candidates spawn uplink used [] =
     throwE (Network (NetworkMode_as_str Lan) ''allocate LAN address'' (ui_cidr uplink)
       ''no apparently free LAN address exists in the uplink subnet'')"
| "search_lan_candidates spawn uplink used (candidate # candidates) =
     (if lan_address_in_use candidate used then search_lan_candidates spawn uplink used candidates
      else bindE (attemptE (probe_lan_candidate spawn (ui_interface uplink) candidate)) (\<lambda>r.
      case r of
        Inr _ \<Rightarrow> returnE \<lparr>lo_address = candidate, lo_source = AutomaticSearch,
                          lo_uplink_cidr = ui_cidr uplink\<rparr>
      | Inl _ \<Rightarrow> search_lan_candidates spawn uplink used candidates))"

definition select_lan_offer ::
  "'w cmd \<Rightarrow> UplinkIdentity \<Rightarrow> ipv4 option \<Rightarrow> ipv4 option \<Rightarrow> used_address list
     \<Rightarrow> ('w, LanAddressOffer) sdk_io" where
  "select_lan_offer spawn uplink lan_override previous used =
     bindE (liftE (parse_uplink_cidr (ui_cidr uplink))) (\<lambda>(network, pfx).
     let host = ui_address uplink; gateway = ui_gateway uplink;
         automatic = search_lan_candidates spawn uplink used
                       (automatic_lan_candidates network pfx host gateway)
     in case lan_override of
       Some candidate \<Rightarrow>
         bindE (liftE (validate_lan_candidate candidate network pfx host gateway)) (\<lambda>_.
         if lan_address_in_use candidate used
         then throwE (Network (NetworkMode_as_str Lan) ''allocate LAN address''
                (show_ipv4 candidate) ''the LAN address is already used by another VM'')
         else bindE (probe_lan_candidate spawn (ui_interface uplink) candidate) (\<lambda>_.
         returnE \<lparr>lo_address = candidate, lo_source = ExplicitOverride,
                  lo_uplink_cidr = ui_cidr uplink\<rparr>))
     | None \<Rightarrow>
         (case previous of
            Some candidate \<Rightarrow>
              if lan_candidate_in_subnet candidate network pfx
                 \<and> \<not> lan_address_in_use candidate used
              then bindE (attemptE (probe_lan_candidate spawn (ui_interface uplink) candidate)) (\<lambda>r.
                   case r of
                     Inr _ \<Rightarrow> returnE \<lparr>lo_address = candidate, lo_source = PreviousAssignment,
                                       lo_uplink_cidr = ui_cidr uplink\<rparr>
                   | Inl _ \<Rightarrow> automatic)
              else automatic
          | None \<Rightarrow> automatic))"

section \<open>Creating resources\<close>

definition ensure_tap :: "'w cmd \<Rightarrow> string \<Rightarrow> NetworkMode \<Rightarrow> ('w net, unit) sdk_io" where
  "ensure_tap spawn tap mode =
     bindE (on_host (link_exists spawn tap)) (\<lambda>present.
     if present
     then throwE (Network (NetworkMode_as_str mode) ''claim TAP interface'' tap
            ''an unowned interface with the deterministic name already exists'')
     else bindE (on_host (run_ip spawn [''tuntap'', ''add'', ''dev'', tap, ''mode'', ''tap''])) (\<lambda>_.
     bindE (push_applied Tap) (\<lambda>_.
     on_host (run_ip spawn [''link'', ''set'', ''dev'', tap, ''up'']))))"

definition ensure_tap_address :: "'w cmd \<Rightarrow> string \<Rightarrow> ipv4 \<Rightarrow> ('w net, unit) sdk_io" where
  "ensure_tap_address spawn tap gateway =
     bindE (on_host (run_ip spawn [''addr'', ''add'', show_ipv4 gateway @ ''/30'', ''dev'', tap])) (\<lambda>_.
     push_applied TapAddress)"

definition ensure_forwarding :: "'w cmd \<Rightarrow> ('w net, unit) sdk_io" where
  "ensure_forwarding spawn =
     bindE (on_host (forwarding_enabled spawn)) (\<lambda>enabled.
     whenE (\<not> enabled)
       (bindE (on_host (run_command spawn ''sysctl'' [''-w'', ''net.ipv4.ip_forward=1''])) (\<lambda>_.
        push_applied Forwarding)))"

definition ensure_proxy_arp :: "'w cmd \<Rightarrow> string \<Rightarrow> ('w net, unit) sdk_io" where
  "ensure_proxy_arp spawn uplink =
     bindE (on_host (proxy_arp_enabled spawn uplink)) (\<lambda>enabled.
     whenE (\<not> enabled)
       (bindE (on_host (run_command spawn ''sysctl''
                 [''-w'', ''net.ipv4.conf.'' @ uplink @ ''.proxy_arp=1''])) (\<lambda>_.
        push_applied Forwarding)))"

definition ensure_routed_host ::
  "'w cmd \<Rightarrow> UplinkIdentity \<Rightarrow> string \<Rightarrow> ipv4 \<Rightarrow> ipv4 \<Rightarrow> ('w net, unit) sdk_io" where
  "ensure_routed_host spawn uplink tap lan gateway =
     bindE (on_host (run_command spawn ''ip'' [''-4'', ''addr'', ''flush'', ''dev'', tap])) (\<lambda>_.
     bindE (on_host (run_ip spawn [''addr'', ''add'', show_ipv4 gateway @ ''/30'', ''dev'', tap])) (\<lambda>_.
     bindE (push_applied TapAddress) (\<lambda>_.
     bindE (on_host (run_ip spawn [''route'', ''replace'', show_ipv4 lan @ ''/32'', ''dev'', tap])) (\<lambda>_.
     bindE (push_applied HostRoute) (\<lambda>_.
     bindE (on_host (run_ip spawn
              [''neigh'', ''replace'', ''proxy'', show_ipv4 lan, ''dev'', ui_interface uplink])) (\<lambda>_.
     push_applied ProxyArpEntry))))))"

definition add_forward_rules :: "'w cmd \<Rightarrow> string list list \<Rightarrow> ('w net, unit) sdk_io" where
  "add_forward_rules spawn specs =
     forE specs (\<lambda>spec.
       bindE (on_host (run_iptables_spec spawn spec)) (\<lambda>_. push_applied ForwardRule))"

definition ensure_iptables_host_only ::
  "'w cmd \<Rightarrow> string \<Rightarrow> ipv4 \<Rightarrow> ipv4 \<Rightarrow> ('w net, unit) sdk_io" where
  "ensure_iptables_host_only spawn tap private_network private_guest =
     bindE (add_forward_rules spawn (host_only_forward_specs tap private_guest)) (\<lambda>_.
     bindE (on_host (run_iptables_spec spawn (host_only_nat_spec tap private_network))) (\<lambda>_.
     push_applied IptablesNat))"

definition ensure_iptables_routed ::
  "'w cmd \<Rightarrow> string \<Rightarrow> string \<Rightarrow> ipv4 \<Rightarrow> ipv4 \<Rightarrow> ipv4 \<Rightarrow> ('w net, unit) sdk_io" where
  "ensure_iptables_routed spawn uplink tap private_network private_guest lan =
     bindE (add_forward_rules spawn (routed_forward_specs uplink tap private_guest lan)) (\<lambda>_.
     bindE (on_host (run_iptables_spec spawn (routed_nat_spec uplink tap private_network))) (\<lambda>_.
     push_applied IptablesNat))"

section \<open>Cleaning up\<close>

text \<open>Steps whose failures are collected: each guarded step adds the text of its error.\<close>

fun collect_failures :: "(bool \<times> ('w, unit) sdk_io) list \<Rightarrow> 'w \<Rightarrow> message list \<times> 'w" where
  "collect_failures [] w = ([], w)"
| "collect_failures ((guard, step) # steps) w =
     (if guard
      then (case step w of
              (Inl error, w') \<Rightarrow>
                (case collect_failures steps w' of (fs, w'') \<Rightarrow> (Shown error # fs, w''))
            | (Inr _, w') \<Rightarrow> collect_failures steps w')
      else collect_failures steps w)"

definition disable_forwarding :: "'w cmd \<Rightarrow> ('w, unit) sdk_io" where
  "disable_forwarding spawn = run_command spawn ''sysctl'' [''-w'', ''net.ipv4.ip_forward=0'']"

definition cleanup_host_only_attempt ::
  "'w cmd \<Rightarrow> string \<Rightarrow> ipv4 \<Rightarrow> ipv4 \<Rightarrow> NetworkResource list \<Rightarrow> bool \<Rightarrow> 'w \<Rightarrow> message list \<times> 'w" where
  "cleanup_host_only_attempt spawn tap private_network private_guest applied forwarding_was_enabled =
     collect_failures
       (map (\<lambda>spec. (ForwardRule \<in> set applied, delete_iptables_spec spawn spec))
          (host_only_forward_specs tap private_guest)
        @ [(IptablesNat \<in> set applied,
             delete_iptables_spec spawn (host_only_nat_spec tap private_network)),
           (Tap \<in> set applied, delete_link_if_present spawn tap),
           (Forwarding \<in> set applied \<and> \<not> forwarding_was_enabled, disable_forwarding spawn)])"

definition cleanup_reconciled_host_only ::
  "'w cmd \<Rightarrow> string \<Rightarrow> ipv4 \<Rightarrow> ipv4 \<Rightarrow> ipv4 \<Rightarrow> bool \<Rightarrow> NetworkResource list \<Rightarrow> bool
     \<Rightarrow> 'w \<Rightarrow> message list \<times> 'w" where
  "cleanup_reconciled_host_only spawn tap gateway private_network private_guest tap_existed applied
       forwarding_was_enabled =
     collect_failures
       (map (\<lambda>spec. (ForwardRule \<in> set applied, delete_iptables_spec spawn spec))
          (host_only_forward_specs tap private_guest)
        @ [(IptablesNat \<in> set applied,
             delete_iptables_spec spawn (host_only_nat_spec tap private_network)),
           (TapAddress \<in> set applied,
             run_ip spawn [''addr'', ''del'', show_ipv4 gateway @ ''/30'', ''dev'', tap]),
           (\<not> tap_existed \<and> Tap \<in> set applied, delete_link_if_present spawn tap),
           (Forwarding \<in> set applied \<and> \<not> forwarding_was_enabled, disable_forwarding spawn)])"

record RoutedCleanup =
  rc_uplink :: string
  rc_tap :: string
  rc_lan :: ipv4
  rc_private_network :: ipv4
  rc_private_guest :: ipv4
  rc_applied :: "NetworkResource list"
  rc_forwarding_was_enabled :: bool
  rc_proxy_was_enabled :: bool

definition cleanup_routed_rules ::
  "'w cmd \<Rightarrow> string \<Rightarrow> string \<Rightarrow> ipv4 \<Rightarrow> ipv4 \<Rightarrow> ipv4 \<Rightarrow> ('w, unit) sdk_io" where
  "cleanup_routed_rules spawn uplink tap lan private_network private_guest =
     bindE (forE (routed_forward_specs uplink tap private_guest lan) (delete_iptables_spec spawn))
       (\<lambda>_. delete_iptables_spec spawn (routed_nat_spec uplink tap private_network))"

definition rules_owned :: "RoutedCleanup \<Rightarrow> bool" where
  "rules_owned state \<longleftrightarrow>
     IptablesNat \<in> set (rc_applied state) \<or> ForwardRule \<in> set (rc_applied state)"

definition routed_sysctl_steps :: "'w cmd \<Rightarrow> RoutedCleanup \<Rightarrow> (bool \<times> ('w, unit) sdk_io) list" where
  "routed_sysctl_steps spawn state =
     [(Tap \<in> set (rc_applied state), delete_link_if_present spawn (rc_tap state)),
      (Forwarding \<in> set (rc_applied state) \<and> \<not> rc_forwarding_was_enabled state,
        disable_forwarding spawn),
      (\<not> rc_proxy_was_enabled state \<and> Forwarding \<in> set (rc_applied state),
        run_command spawn ''sysctl'' [''net.ipv4.conf.'' @ rc_uplink state @ ''.proxy_arp=0''])]"

definition cleanup_routed :: "'w cmd \<Rightarrow> RoutedCleanup \<Rightarrow> 'w \<Rightarrow> message list \<times> 'w" where
  "cleanup_routed spawn state =
     collect_failures
       ([(rules_owned state,
           cleanup_routed_rules spawn (rc_uplink state) (rc_tap state) (rc_lan state)
             (rc_private_network state) (rc_private_guest state)),
         (ProxyArpEntry \<in> set (rc_applied state),
           run_ip spawn [''neigh'', ''del'', ''proxy'', show_ipv4 (rc_lan state), ''dev'',
             rc_uplink state]),
         (HostRoute \<in> set (rc_applied state),
           run_ip spawn [''route'', ''del'', show_ipv4 (rc_lan state) @ ''/32'', ''dev'',
             rc_tap state])]
        @ routed_sysctl_steps spawn state)"

definition cleanup_routed_attempt ::
  "'w cmd \<Rightarrow> string \<Rightarrow> string \<Rightarrow> ipv4 \<Rightarrow> ipv4 \<Rightarrow> ipv4 \<Rightarrow> NetworkResource list \<Rightarrow> bool \<Rightarrow> bool
     \<Rightarrow> 'w \<Rightarrow> message list \<times> 'w" where
  "cleanup_routed_attempt spawn uplink tap lan private_network private_guest applied
       forwarding_was_enabled proxy_was_enabled =
     cleanup_routed spawn
       \<lparr>rc_uplink = uplink, rc_tap = tap, rc_lan = lan, rc_private_network = private_network,
        rc_private_guest = private_guest, rc_applied = applied,
        rc_forwarding_was_enabled = forwarding_was_enabled,
        rc_proxy_was_enabled = proxy_was_enabled\<rparr>"

text \<open>The two deletions that count an absent item as done share their shape: query, look for the
  item in the output, delete it, and ask again when the deletion failed.\<close>

definition delete_if_listed ::
  "'w cmd \<Rightarrow> string list \<Rightarrow> (string \<Rightarrow> bool) \<Rightarrow> string list \<Rightarrow> ('w, unit) sdk_io" where
  "delete_if_listed spawn query listed deletion =
     (let present = (\<lambda>output. list_ex listed (str_lines (co_stdout output))) in
      bindE (command_output spawn ''ip'' query) (\<lambda>output.
      if \<not> co_success output
      then if is_device_missing output then returnE ()
           else throwE (host_command_error ''ip'' query output)
      else if \<not> present output then returnE ()
      else bindE (attemptE (run_ip spawn deletion)) (\<lambda>r.
      case r of
        Inr _ \<Rightarrow> returnE ()
      | Inl primary \<Rightarrow>
          if primary_device_is_missing primary then returnE ()
          else bindE (command_output spawn ''ip'' query) (\<lambda>output'.
          if is_device_missing output' then returnE ()
          else if co_success output' \<and> \<not> present output' then returnE ()
          else throwE primary))))"

definition delete_host_route_if_present :: "'w cmd \<Rightarrow> string \<Rightarrow> ipv4 \<Rightarrow> ('w, unit) sdk_io" where
  "delete_host_route_if_present spawn tap lan =
     delete_if_listed spawn [''-4'', ''route'', ''show'', show_ipv4 lan @ ''/32'', ''dev'', tap]
       (\<lambda>line. str_contains line (show_ipv4 lan @ ''/32'') \<and> str_contains line tap)
       [''route'', ''del'', show_ipv4 lan @ ''/32'', ''dev'', tap]"

definition delete_proxy_entry_if_present :: "'w cmd \<Rightarrow> string \<Rightarrow> ipv4 \<Rightarrow> ('w, unit) sdk_io" where
  "delete_proxy_entry_if_present spawn uplink lan =
     delete_if_listed spawn [''neigh'', ''show'', ''proxy'', ''dev'', uplink]
       (\<lambda>line. str_contains line (show_ipv4 lan))
       [''neigh'', ''del'', ''proxy'', show_ipv4 lan, ''dev'', uplink]"

definition cleanup_routed_for_delete :: "'w cmd \<Rightarrow> RoutedCleanup \<Rightarrow> 'w \<Rightarrow> message list \<times> 'w" where
  "cleanup_routed_for_delete spawn state =
     collect_failures
       ([(rules_owned state,
           cleanup_routed_rules spawn (rc_uplink state) (rc_tap state) (rc_lan state)
             (rc_private_network state) (rc_private_guest state)),
         (ProxyArpEntry \<in> set (rc_applied state),
           delete_proxy_entry_if_present spawn (rc_uplink state) (rc_lan state)),
         (HostRoute \<in> set (rc_applied state),
           delete_host_route_if_present spawn (rc_tap state) (rc_lan state))]
        @ routed_sysctl_steps spawn state)"

text \<open>\<open>cleanup\<close> and \<open>cleanup_for_delete\<close> differ in the routed step and in the text of the error.\<close>

definition finish_cleanup :: "string \<Rightarrow> ('w \<Rightarrow> message list \<times> 'w) \<Rightarrow> ('w, unit) sdk_io" where
  "finish_cleanup primary m w =
     (case m w of (failures, w') \<Rightarrow>
        (if failures = [] then Inr () else Inl (Cleanup (Text primary) failures), w'))"

definition cleanup_network ::
  "string \<Rightarrow> ('w cmd \<Rightarrow> RoutedCleanup \<Rightarrow> 'w \<Rightarrow> message list \<times> 'w) \<Rightarrow> 'w cmd \<Rightarrow> PersistedNetwork
     \<Rightarrow> ('w, unit) sdk_io" where
  "cleanup_network primary routed spawn network =
     (let config = pn_config network; tap = nc_tap_name config in
      case nc_mode config of
        HostOnly \<Rightarrow>
          finish_cleanup primary (collect_failures
            [(True, delete_link_if_present spawn tap),
             (pn_forwarding_enabled_by_sdk network, disable_forwarding spawn)])
      | Lan \<Rightarrow>
          (case (nc_lan_address config, nc_guest_address config) of
             (Some (V4 lan), V4 private_guest) \<Rightarrow>
               finish_cleanup primary (routed spawn
                 \<lparr>rc_uplink = (case nc_uplink_name config of None \<Rightarrow> [] | Some u \<Rightarrow> u),
                  rc_tap = tap, rc_lan = lan,
                  rc_private_network = private_guest_network private_guest,
                  rc_private_guest = private_guest,
                  rc_applied = map pnr_resource (pn_resources network),
                  rc_forwarding_was_enabled = (\<not> pn_forwarding_enabled_by_sdk network),
                  rc_proxy_was_enabled = (\<not> pn_proxy_arp_enabled_by_sdk network)\<rparr>)
           | (Some (V4 _), _) \<Rightarrow>
               throwE (Cleanup (Text primary) [Text ''routed LAN network has no private guest address''])
           | _ \<Rightarrow>
               throwE (Cleanup (Text primary) [Text ''routed LAN network has no committed LAN address''])))"

definition cleanup :: "'w cmd \<Rightarrow> PersistedNetwork \<Rightarrow> ('w, unit) sdk_io" where
  "cleanup = cleanup_network ''network rollback failed'' cleanup_routed"

definition cleanup_for_delete :: "'w cmd \<Rightarrow> PersistedNetwork \<Rightarrow> ('w, unit) sdk_io" where
  "cleanup_for_delete = cleanup_network ''network cleanup failed'' cleanup_routed_for_delete"

section \<open>Reconciling resources\<close>

definition reconcile_tap :: "'w cmd \<Rightarrow> string \<Rightarrow> ('w net, unit) sdk_io" where
  "reconcile_tap spawn tap =
     bindE (on_host (link_exists spawn tap)) (\<lambda>present.
     if present
     then bindE (on_host (link_is_tap spawn tap)) (\<lambda>is_tap.
          if \<not> is_tap
          then throwE (Network (NetworkMode_as_str HostOnly) ''validate persisted TAP interface'' tap
                 ''the persisted interface name is owned by a non-TAP device'')
          else push_skipped Tap)
     else bindE (on_host (run_ip spawn [''tuntap'', ''add'', ''dev'', tap, ''mode'', ''tap''])) (\<lambda>_.
          bindE (push_applied Tap) (\<lambda>_.
          on_host (run_ip spawn [''link'', ''set'', ''dev'', tap, ''up'']))))"

text \<open>\<open>fields.windows(2)\<close> filtered by the first of the pair.\<close>

fun inet_fields :: "string list \<Rightarrow> string list" where
  "inet_fields (a # b # fs) = (if a = ''inet'' then [b] else []) @ inet_fields (b # fs)"
| "inet_fields _ = []"

definition reconcile_tap_address :: "'w cmd \<Rightarrow> string \<Rightarrow> ipv4 \<Rightarrow> ('w net, unit) sdk_io" where
  "reconcile_tap_address spawn tap gateway =
     bindE (on_host (command_output spawn ''ip'' [''-4'', ''addr'', ''show'', ''dev'', tap])) (\<lambda>output.
     if \<not> co_success output
     then throwE (Network (NetworkMode_as_str HostOnly) ''inspect persisted TAP address'' tap
            (''interface is unavailable (ip exited with '' @ co_status output @ '')''))
     else
     let desired = show_ipv4 gateway @ ''/30'';
         addresses = inet_fields (split_whitespace (co_stdout output))
     in if desired \<in> set addresses then push_skipped TapAddress
        else if addresses \<noteq> []
        then throwE (Network (NetworkMode_as_str HostOnly) ''validate persisted TAP address ownership''
               tap (''the TAP has a conflicting IPv4 address: '' @ join_with '', '' addresses))
        else bindE (on_host (run_ip spawn [''addr'', ''add'', desired, ''dev'', tap])) (\<lambda>_.
             push_applied TapAddress))"

definition reconcile_forwarding :: "'w cmd \<Rightarrow> ('w net, unit) sdk_io" where
  "reconcile_forwarding spawn =
     bindE (on_host (command_output spawn ''sysctl'' [''-n'', ''net.ipv4.ip_forward''])) (\<lambda>output.
     if str_trim (co_stdout output) = ''1'' then push_skipped Forwarding
     else bindE (on_host (run_command spawn ''sysctl'' [''-w'', ''net.ipv4.ip_forward=1''])) (\<lambda>_.
          push_applied Forwarding))"

definition reconcile_rules :: "'w cmd \<Rightarrow> string list list \<Rightarrow> ('w net, unit) sdk_io" where
  "reconcile_rules spawn specs =
     forE specs (\<lambda>spec.
       bindE (on_host (iptables_rule_exists spawn spec)) (\<lambda>present.
       if present then push_skipped ForwardRule
       else bindE (on_host (run_iptables_spec spawn spec)) (\<lambda>_. push_applied ForwardRule)))"

definition reconcile_nat_rule :: "'w cmd \<Rightarrow> string list \<Rightarrow> ('w net, unit) sdk_io" where
  "reconcile_nat_rule spawn nat_rule =
     bindE (on_host (iptables_nat_rule_exists spawn nat_rule)) (\<lambda>present.
     if present then push_skipped IptablesNat
     else bindE (on_host (iptables_nat_insert_rule spawn nat_rule)) (\<lambda>_.
          push_applied IptablesNat))"

definition reconcile_forward_rules :: "'w cmd \<Rightarrow> string \<Rightarrow> ipv4 \<Rightarrow> ('w net, unit) sdk_io" where
  "reconcile_forward_rules spawn tap private_guest =
     reconcile_rules spawn (host_only_forward_specs tap private_guest)"

definition reconcile_iptables_nat :: "'w cmd \<Rightarrow> string \<Rightarrow> ipv4 \<Rightarrow> ('w net, unit) sdk_io" where
  "reconcile_iptables_nat spawn tap private_network =
     reconcile_nat_rule spawn (host_only_nat_spec tap private_network)"

definition reconcile_iptables_routed ::
  "'w cmd \<Rightarrow> string \<Rightarrow> string \<Rightarrow> ipv4 \<Rightarrow> ipv4 \<Rightarrow> ipv4 \<Rightarrow> ('w net, unit) sdk_io" where
  "reconcile_iptables_routed spawn uplink tap private_network private_guest lan =
     bindE (reconcile_rules spawn (routed_forward_specs uplink tap private_guest lan)) (\<lambda>_.
     reconcile_nat_rule spawn (routed_nat_spec uplink tap private_network))"

definition reconcile_host_route :: "'w cmd \<Rightarrow> string \<Rightarrow> ipv4 \<Rightarrow> ('w net, unit) sdk_io" where
  "reconcile_host_route spawn tap lan =
     (let query = [''-4'', ''route'', ''show'', show_ipv4 lan @ ''/32'', ''dev'', tap] in
      bindE (on_host (command_output spawn ''ip'' query)) (\<lambda>output.
      if \<not> co_success output then throwE (host_command_error ''ip'' query output)
      else if list_ex (\<lambda>line. str_contains line (show_ipv4 lan @ ''/32'') \<and> str_contains line tap)
             (str_lines (co_stdout output))
      then push_skipped HostRoute
      else bindE (on_host (run_ip spawn
                    [''route'', ''replace'', show_ipv4 lan @ ''/32'', ''dev'', tap])) (\<lambda>_.
           push_applied HostRoute)))"

definition reconcile_proxy_entry :: "'w cmd \<Rightarrow> string \<Rightarrow> ipv4 \<Rightarrow> ('w net, unit) sdk_io" where
  "reconcile_proxy_entry spawn uplink lan =
     (let query = [''neigh'', ''show'', ''proxy'', ''dev'', uplink] in
      bindE (on_host (command_output spawn ''ip'' query)) (\<lambda>output.
      if \<not> co_success output then throwE (host_command_error ''ip'' query output)
      else if list_ex (\<lambda>line. str_contains line (show_ipv4 lan)) (str_lines (co_stdout output))
      then push_skipped ProxyArpEntry
      else bindE (on_host (run_ip spawn
                    [''neigh'', ''replace'', ''proxy'', show_ipv4 lan, ''dev'', uplink])) (\<lambda>_.
           push_applied ProxyArpEntry)))"

definition reconcile_proxy_arp :: "'w cmd \<Rightarrow> string \<Rightarrow> ('w net, unit) sdk_io" where
  "reconcile_proxy_arp spawn uplink =
     bindE (on_host (proxy_arp_enabled spawn uplink)) (\<lambda>enabled.
     if enabled then push_skipped Forwarding else ensure_proxy_arp spawn uplink)"

end
