(* ===== verification/Linux_Controller.thy ===== *)
theory Linux_Controller
  imports Linux_Network
begin

text \<open>
  The operations of \<open>LinuxNetworkController\<close>, src/crates/sdk/src/adapters/network/linux.rs:
  \<open>create_host_only\<close>, \<open>create_lan\<close>, the two reconciliations and \<open>configure\<close>, with the rollback of a
  failed attempt.
\<close>

definition desired_boot :: "NetworkRequest \<Rightarrow> ipv4 \<Rightarrow> ipv4 option \<Rightarrow> string" where
  "desired_boot request guest guest_gateway =
     guest_boot_parameters guest guest_gateway
       (case nr_prefix_length_override request of None \<Rightarrow> 30 | Some p \<Rightarrow> p)"

definition guest_gateway_of :: "NetworkRequest \<Rightarrow> ipv4 \<Rightarrow> ipv4 option" where
  "guest_gateway_of request gateway =
     (if nr_exact_network_values request then nr_gateway_override request else Some gateway)"

definition host_only_resources :: "string \<Rightarrow> ipv4 \<Rightarrow> string \<Rightarrow> PersistedNetworkResource list" where
  "host_only_resources tap gateway mac =
     [resource Tap tap tap,
      resource TapAddress (tap @ '':'' @ show_ipv4 gateway @ ''/30'')
        (tap @ '':'' @ show_ipv4 gateway @ ''/30''),
      resource Forwarding ''net.ipv4.ip_forward'' ''net.ipv4.ip_forward=1'',
      resource ForwardRule (tap @ '':forward'') (SDK_OWNERSHIP @ '':'' @ tap @ '':forward''),
      resource IptablesNat tap (SDK_OWNERSHIP @ '':'' @ tap @ '':nat''),
      resource FirecrackerInterface (tap @ '':'' @ mac) (''tap='' @ tap @ '',mac='' @ mac)]"

definition lan_resources ::
  "string \<Rightarrow> string \<Rightarrow> ipv4 \<Rightarrow> ipv4 \<Rightarrow> string \<Rightarrow> PersistedNetworkResource list" where
  "lan_resources tap uplink lan gateway mac =
     [resource Tap tap tap,
      resource TapAddress (tap @ '':'' @ show_ipv4 gateway @ ''/30'')
        (tap @ '':'' @ show_ipv4 gateway @ ''/30''),
      resource HostRoute (tap @ '':'' @ show_ipv4 lan) (tap @ '':'' @ show_ipv4 lan),
      resource ProxyArpEntry (uplink @ '':'' @ show_ipv4 lan) (uplink @ '':'' @ show_ipv4 lan),
      resource Forwarding ''net.ipv4.ip_forward'' ''net.ipv4.ip_forward=1'',
      resource ForwardRule (tap @ '':forward'') (SDK_OWNERSHIP @ '':'' @ tap @ '':forward''),
      resource IptablesNat tap (SDK_OWNERSHIP @ '':'' @ tap),
      resource FirecrackerInterface (tap @ '':'' @ mac) (''tap='' @ tap @ '',mac='' @ mac)]"

definition network_record ::
  "NetworkConfiguration \<Rightarrow> NetworkRequest \<Rightarrow> ipv4 \<Rightarrow> ipv4 \<Rightarrow> PersistedNetworkResource list
     \<Rightarrow> PersistedNetwork" where
  "network_record config request guest gateway resources =
     \<lparr>pn_config = config, pn_host_address = Some (V4 gateway), pn_guest_mac = nr_guest_mac request,
      pn_dhcp_lease_reference = None,
      pn_desired_boot_parameters = desired_boot request guest (guest_gateway_of request gateway),
      pn_resources = resources, pn_uplink_cidr = None, pn_proxy_arp_enabled_by_sdk = False,
      pn_bridge_created_by_sdk = False, pn_uplink_attached_by_sdk = False,
      pn_forwarding_enabled_by_sdk = False, pn_nat_table_created_by_sdk = False,
      pn_nat_chain_created_by_sdk = False, pn_host_route_created_by_sdk = False,
      pn_proxy_arp_entry_created_by_sdk = False, pn_host_address_specs = [],
      pn_default_route_specs = []\<rparr>"

text \<open>After a failed attempt: run the clean-up and report its failures with the primary error.\<close>

definition rollback :: "SdkError \<Rightarrow> ('w \<Rightarrow> message list \<times> 'w) \<Rightarrow> ('w, 'a) sdk_io" where
  "rollback primary m w =
     (case m w of (failures, w') \<Rightarrow> (Inl (with_cleanup_failures primary failures), w'))"

definition create_host_only ::
  "(string \<Rightarrow> u8 list) \<Rightarrow> 'w cmd \<Rightarrow> NetworkRequest \<Rightarrow> used_address list
     \<Rightarrow> ('w, NetworkOutcome) sdk_io" where
  "create_host_only sha256 spawn request used_addresses =
     bindE (live_ipv4_addresses spawn) (\<lambda>live.
     bindE (liftE (select_private_subnet (used_addresses @ live) request))
       (\<lambda>(private_network, gateway, guest).
     let tap = tap_name sha256 (nr_vm_name request);
         config = \<lparr>nc_mode = HostOnly, nc_guest_address = V4 guest,
           nc_prefix_length = (case nr_prefix_length_override request of None \<Rightarrow> 30 | Some p \<Rightarrow> p),
           nc_gateway = map_option V4 (guest_gateway_of request gateway), nc_tap_name = tap,
           nc_bridge_name = None, nc_uplink_name = None, nc_lan_address = None\<rparr>
     in
     bindE (forwarding_enabled spawn) (\<lambda>forwarding_was_enabled.
     bindE (with_vectors
       (bindE (ensure_tap spawn tap HostOnly) (\<lambda>_.
        bindE (ensure_tap_address spawn tap gateway) (\<lambda>_.
        bindE (ensure_forwarding spawn) (\<lambda>_.
        bindE (ensure_iptables_host_only spawn tap private_network guest) (\<lambda>_.
        push_applied FirecrackerInterface))))))
      (\<lambda>(result, applied, skipped).
     case result of
       Inr _ \<Rightarrow> returnE
         \<lparr>no_persisted = (network_record config request guest gateway
              (host_only_resources tap gateway (nr_guest_mac request)))
            \<lparr>pn_forwarding_enabled_by_sdk := \<not> forwarding_was_enabled\<rparr>,
          no_applied = applied, no_skipped = []\<rparr>
     | Inl primary \<Rightarrow> rollback primary
         (cleanup_host_only_attempt spawn tap private_network guest applied
            forwarding_was_enabled)))))"

definition create_lan ::
  "(string \<Rightarrow> u8 list) \<Rightarrow> 'w cmd \<Rightarrow> NetworkRequest \<Rightarrow> used_address list
     \<Rightarrow> ('w, NetworkOutcome) sdk_io" where
  "create_lan sha256 spawn request used_lan_addresses =
     bindE (detect_uplink_identity spawn) (\<lambda>uplink.
     bindE (live_ipv4_addresses spawn) (\<lambda>occupied.
     bindE (liftE (select_private_subnet occupied request)) (\<lambda>(network_base, gateway, guest).
     let tap = tap_name sha256 (nr_vm_name request) in
     bindE (select_lan_offer spawn uplink (nr_lan_address_override request) None
              used_lan_addresses) (\<lambda>offer.
     let lan = lo_address offer;
         config = \<lparr>nc_mode = Lan, nc_guest_address = V4 guest,
           nc_prefix_length = (case nr_prefix_length_override request of None \<Rightarrow> 30 | Some p \<Rightarrow> p),
           nc_gateway = map_option V4 (guest_gateway_of request gateway), nc_tap_name = tap,
           nc_bridge_name = None, nc_uplink_name = Some (ui_interface uplink),
           nc_lan_address = Some (V4 lan)\<rparr>
     in
     bindE (forwarding_enabled spawn) (\<lambda>forwarding_was_enabled.
     bindE (proxy_arp_enabled spawn (ui_interface uplink)) (\<lambda>proxy_was_enabled.
     bindE (with_vectors
       (bindE (ensure_tap spawn tap Lan) (\<lambda>_.
        bindE (ensure_routed_host spawn uplink tap lan gateway) (\<lambda>_.
        bindE (ensure_forwarding spawn) (\<lambda>_.
        bindE (ensure_proxy_arp spawn (ui_interface uplink)) (\<lambda>_.
        bindE (ensure_iptables_routed spawn (ui_interface uplink) tap network_base guest lan) (\<lambda>_.
        push_applied FirecrackerInterface)))))))
      (\<lambda>(result, applied, skipped).
     case result of
       Inr _ \<Rightarrow> returnE
         \<lparr>no_persisted = (network_record config request guest gateway
              (lan_resources tap (ui_interface uplink) lan gateway (nr_guest_mac request)))
            \<lparr>pn_uplink_cidr := Some (lo_uplink_cidr offer),
             pn_proxy_arp_enabled_by_sdk := \<not> proxy_was_enabled,
             pn_forwarding_enabled_by_sdk := \<not> forwarding_was_enabled,
             pn_host_route_created_by_sdk := True, pn_proxy_arp_entry_created_by_sdk := True\<rparr>,
          no_applied = applied, no_skipped = []\<rparr>
     | Inl primary \<Rightarrow> rollback primary
         (cleanup_routed_attempt spawn (ui_interface uplink) tap lan network_base guest applied
            forwarding_was_enabled proxy_was_enabled))))))))"

section \<open>Reconciliation\<close>

definition network_error :: "NetworkMode \<Rightarrow> string \<Rightarrow> string \<Rightarrow> string \<Rightarrow> SdkError" where
  "network_error mode operation target reason =
     Network (NetworkMode_as_str mode) operation target reason"

definition reconcile_host_only ::
  "'w cmd \<Rightarrow> PersistedNetwork
     \<Rightarrow> ('w, PersistedNetwork \<times> NetworkResource list \<times> NetworkResource list) sdk_io" where
  "reconcile_host_only spawn network =
     (let config = pn_config network; tap = nc_tap_name config in
      case pn_host_address network of
        Some (V4 gateway) \<Rightarrow>
          if nc_prefix_length config \<noteq> 30
          then throwE (network_error HostOnly ''validate persisted host prefix'' tap
                 ''host-only network must use a /30 prefix'')
          else (case nc_guest_address config of
            V6 _ \<Rightarrow> throwE (network_error HostOnly ''validate persisted guest address'' tap
                      ''host-only network has no IPv4 guest address'')
          | V4 guest \<Rightarrow>
              let private_network = private_guest_network guest in
              bindE (link_exists spawn tap) (\<lambda>tap_existed.
              bindE (forwarding_enabled spawn) (\<lambda>forwarding_was_enabled.
              bindE (with_vectors
                (bindE (reconcile_tap spawn tap) (\<lambda>_.
                 bindE (reconcile_tap_address spawn tap gateway) (\<lambda>_.
                 bindE (reconcile_forwarding spawn) (\<lambda>_.
                 bindE (reconcile_forward_rules spawn tap guest) (\<lambda>_.
                 bindE (reconcile_iptables_nat spawn tap private_network) (\<lambda>_.
                 push_skipped FirecrackerInterface)))))))
               (\<lambda>(result, applied, skipped).
              case result of
                Inr _ \<Rightarrow> returnE
                  (if Forwarding \<in> set applied
                   then network\<lparr>pn_forwarding_enabled_by_sdk := True\<rparr> else network,
                   applied, skipped)
              | Inl primary \<Rightarrow> rollback primary
                  (cleanup_reconciled_host_only spawn tap gateway private_network guest tap_existed
                     applied forwarding_was_enabled)))))
      | _ \<Rightarrow> throwE (network_error HostOnly ''validate persisted host address'' tap
               ''host-only network has no persisted IPv4 gateway''))"

definition record_reconciled :: "NetworkResource list \<Rightarrow> PersistedNetwork \<Rightarrow> PersistedNetwork" where
  "record_reconciled applied network =
     (let n1 = (if Forwarding \<in> set applied
                then network\<lparr>pn_forwarding_enabled_by_sdk := True\<rparr> else network);
          n2 = (if ProxyArpEntry \<in> set applied
                then n1\<lparr>pn_proxy_arp_entry_created_by_sdk := True\<rparr> else n1)
      in if HostRoute \<in> set applied then n2\<lparr>pn_host_route_created_by_sdk := True\<rparr> else n2)"

definition reconcile_lan ::
  "'w cmd \<Rightarrow> PersistedNetwork \<Rightarrow> string
     \<Rightarrow> ('w, PersistedNetwork \<times> NetworkResource list \<times> NetworkResource list) sdk_io" where
  "reconcile_lan spawn network name =
     (let config = pn_config network; tap = nc_tap_name config in
      case nc_lan_address config of
        Some (V4 lan) \<Rightarrow>
       (case nc_uplink_name config of
          None \<Rightarrow> throwE (network_error Lan ''load persisted uplink'' name
                    ''LAN network has no uplink name'')
        | Some uplink \<Rightarrow>
       (case pn_host_address network of
          Some (V4 gateway) \<Rightarrow>
       (case nc_guest_address config of
          V6 _ \<Rightarrow> throwE (network_error Lan ''validate persisted guest address'' tap
                    ''routed LAN network has no IPv4 guest address'')
        | V4 private_guest \<Rightarrow>
          if nc_prefix_length config \<noteq> 30
          then throwE (network_error Lan ''validate persisted host prefix'' tap
                 ''routed LAN network must use a /30 prefix'')
          else
          bindE (link_exists spawn tap) (\<lambda>tap_existed.
          bindE (forwarding_enabled spawn) (\<lambda>forwarding_was_enabled.
          bindE (proxy_arp_enabled spawn uplink) (\<lambda>proxy_was_enabled.
          let private_network = private_guest_network private_guest in
          bindE (with_vectors
            (bindE (reconcile_tap spawn tap) (\<lambda>_.
             bindE (reconcile_tap_address spawn tap gateway) (\<lambda>_.
             bindE (reconcile_host_route spawn tap lan) (\<lambda>_.
             bindE (reconcile_proxy_entry spawn uplink lan) (\<lambda>_.
             bindE (reconcile_forwarding spawn) (\<lambda>_.
             bindE (reconcile_proxy_arp spawn uplink) (\<lambda>_.
             bindE (reconcile_iptables_routed spawn uplink tap private_network private_guest lan) (\<lambda>_.
             push_skipped FirecrackerInterface)))))))))
           (\<lambda>(result, applied, skipped).
          case result of
            Inr _ \<Rightarrow> returnE (record_reconciled applied network, applied, skipped)
          | Inl primary \<Rightarrow> rollback primary
              (cleanup_routed_attempt spawn uplink tap lan private_network private_guest applied
                 forwarding_was_enabled proxy_was_enabled))))))
        | _ \<Rightarrow> throwE (network_error Lan ''validate persisted host address'' tap
                 ''routed LAN network has no persisted gateway'')))
      | _ \<Rightarrow> throwE (network_error Lan ''load persisted LAN address'' name
               ''LAN network has no committed LAN address''))"

definition reconcile ::
  "'w cmd \<Rightarrow> NetworkRequest \<Rightarrow> PersistedNetwork \<Rightarrow> ('w, NetworkOutcome) sdk_io" where
  "reconcile spawn request network =
     (if nr_mode request \<noteq> nc_mode (pn_config network) \<or> nr_guest_mac request \<noteq> pn_guest_mac network
      then throwE (Network (NetworkMode_as_str (nr_mode request))
             ''validate persisted network identity'' (nr_vm_name request)
             ''persisted network mode or MAC does not match the request'')
      else bindE (case nr_mode request of
                    HostOnly \<Rightarrow> reconcile_host_only spawn network
                  | Lan \<Rightarrow> reconcile_lan spawn network (nr_vm_name request))
             (\<lambda>(updated, applied, skipped).
             returnE \<lparr>no_persisted = updated, no_applied = applied, no_skipped = skipped\<rparr>))"

definition configure ::
  "(string \<Rightarrow> u8 list) \<Rightarrow> 'w cmd \<Rightarrow> NetworkRequest \<Rightarrow> PersistedNetwork option \<Rightarrow> used_address list
     \<Rightarrow> used_address list \<Rightarrow> ('w, NetworkOutcome) sdk_io" where
  "configure sha256 spawn request existing used_addresses used_lan_addresses =
     (case existing of
        Some network \<Rightarrow> reconcile spawn request network
      | None \<Rightarrow>
          (case nr_mode request of
             HostOnly \<Rightarrow> create_host_only sha256 spawn request used_addresses
           | Lan \<Rightarrow> create_lan sha256 spawn request used_lan_addresses))"

end
