(* ===== verification/Command_Effects.thy ===== *)
theory Command_Effects
  imports Linux_Controller
begin

text \<open>
  Reasoning about what a network operation does to the world from what its commands do. The locale
  \<open>command_effect\<close> is the interface: commands that satisfy \<open>A\<close>, run by \<open>spawn\<close>, change the world only
  along the reflexive and transitive relation \<open>R\<close>. Its lemmas, collected in \<open>effect_intros\<close>, lift
  this to the combinators and to every routine of the adapter that runs such commands. It is
  interpreted for the log of issued commands (Net\_Safety) and for the state of the firewall
  (Net\_Firewall).
\<close>

named_theorems effect_intros \<open>effects of the routines from the effects of their commands\<close>

type_synonym command = "string \<times> string list"

definition net_rel :: "('w \<Rightarrow> 'w \<Rightarrow> bool) \<Rightarrow> 'w net \<Rightarrow> 'w net \<Rightarrow> bool" where
  "net_rel R x y \<longleftrightarrow> R (fst x) (fst y)"

lemma net_rel_refl [simp, intro]: "reflp R \<Longrightarrow> reflp (net_rel R)"
  by (auto simp: reflp_def net_rel_def)

lemma net_rel_trans [simp, intro]: "transp R \<Longrightarrow> transp (net_rel R)"
  by (auto intro!: transpI dest: transpD simp: net_rel_def)

definition keepsB :: "('w \<Rightarrow> 'w \<Rightarrow> bool) \<Rightarrow> ('w \<Rightarrow> message list \<times> 'w) \<Rightarrow> bool" where
  "keepsB R m \<longleftrightarrow> (\<forall>w fs w'. m w = (fs, w') \<longrightarrow> R w w')"

text \<open>The commands that may inspect or remove a rule.\<close>

definition rule_commands :: "string list \<Rightarrow> command list" where
  "rule_commands spec =
     (if spec \<noteq> [] \<and> hd spec = ''POSTROUTING''
      then [(''iptables'', nat_check_arguments spec), (''iptables'', nat_delete_arguments spec)]
      else [(''iptables'', ''-C'' # spec), (''iptables'', ''-D'' # spec)])"

locale command_effect =
  fixes R :: "'w \<Rightarrow> 'w \<Rightarrow> bool" and spawn :: "'w cmd" and A :: "command \<Rightarrow> bool"
  assumes refl: "reflp R" and trans: "transp R"
    and step: "A (program, arguments) \<Longrightarrow> spawn program arguments w = (r, w') \<Longrightarrow> R w w'"
begin

abbreviation effect :: "('w, 'a) sdk_io \<Rightarrow> bool" where
  "effect m \<equiv> keepsE R m"

abbreviation net_effect :: "('w net, 'a) sdk_io \<Rightarrow> bool" where
  "net_effect m \<equiv> keepsE (net_rel R) m"

lemma R_refl [simp]: "R w w"
  using refl by (simp add: reflp_def)

lemma R_step: "R x y \<Longrightarrow> R y z \<Longrightarrow> R x z"
  using trans by (rule transpD)

lemma effect_return [effect_intros]: "effect (returnE x)" "effect (throwE e)" "effect (liftE r)"
  by (auto intro: keepsE_return keepsE_throw keepsE_lift refl)

lemma net_effect_return [effect_intros]: "net_effect (returnE x)" "net_effect (throwE e)"
  "net_effect (push_applied res)" "net_effect (push_skipped res)"
  by (auto intro: keepsE_return keepsE_throw refl simp: keepsE_def push_applied_def
      push_skipped_def net_rel_def)

lemma effect_bind [effect_intros]:
  "effect m \<Longrightarrow> (\<And>x. effect (f x)) \<Longrightarrow> effect (bindE m f)"
  by (rule keepsE_bind) (auto intro: trans)

lemma net_effect_bind [effect_intros]:
  "net_effect m \<Longrightarrow> (\<And>x. net_effect (f x)) \<Longrightarrow> net_effect (bindE m f)"
  by (rule keepsE_bind) (auto intro: trans)

lemma effect_attempt [effect_intros]: "effect m \<Longrightarrow> effect (attemptE m)"
  by (rule keepsE_attempt)

lemma net_effect_when [effect_intros]: "net_effect m \<Longrightarrow> net_effect (whenE b m)"
  by (rule keepsE_when) (auto intro: refl)

lemma effect_for: "(\<And>x. x \<in> set xs \<Longrightarrow> effect (f x)) \<Longrightarrow> effect (forE xs f)"
  by (rule keepsE_for) (auto intro: refl trans)

lemma net_effect_for: "(\<And>x. x \<in> set xs \<Longrightarrow> net_effect (f x)) \<Longrightarrow> net_effect (forE xs f)"
  by (rule keepsE_for) (auto intro: refl trans)

lemma net_effect_on_host [effect_intros]: "effect m \<Longrightarrow> net_effect (on_host m)"
  by (auto simp: keepsE_def on_host_def net_rel_def split: prod.splits)

lemma effect_with_vectors [effect_intros]: "net_effect m \<Longrightarrow> effect (with_vectors m)"
  unfolding keepsE_def with_vectors_def net_rel_def by (fastforce split: prod.splits)

lemma effect_command_output [effect_intros]:
  "A (program, arguments) \<Longrightarrow> effect (command_output spawn program arguments)"
  by (auto simp: keepsE_def command_output_def split: prod.splits sum.splits dest: step)

lemma effect_snd: "effect m \<Longrightarrow> R w (snd (m w))"
  by (cases "m w") (auto dest: keepsED)

lemma collect_failures_effect:
  "list_all (\<lambda>(g, m). g \<longrightarrow> effect m) steps \<Longrightarrow> R w (snd (collect_failures steps w))"
proof (induction steps arbitrary: w)
  case Nil
  then show ?case by simp
next
  case (Cons st steps)
  obtain g m where st: "st = (g, m)" by (cases st) blast
  have IH: "R x (snd (collect_failures steps x))" for x using Cons by simp
  show ?case
  proof (cases g)
    case True
    with Cons.prems st have "R w (snd (m w))" by (simp add: effect_snd)
    then show ?thesis using True st IH [of "snd (m w)"]
      by (auto split: prod.splits sum.splits intro: R_step)
  qed (use IH st in simp)
qed

lemma batch_collect:
  "list_all (\<lambda>(g, m). g \<longrightarrow> effect m) steps \<Longrightarrow> keepsB R (collect_failures steps)"
  unfolding keepsB_def using collect_failures_effect by (metis snd_conv)

lemma effect_finish [effect_intros]: "keepsB R m \<Longrightarrow> effect (finish_cleanup p m)"
  unfolding keepsE_def finish_cleanup_def keepsB_def by (auto split: prod.splits)

lemma effect_rollback [effect_intros]: "keepsB R m \<Longrightarrow> effect (rollback p m)"
  unfolding keepsE_def rollback_def keepsB_def by (auto split: prod.splits)

lemma effect_run_command [effect_intros]:
  "A (program, arguments) \<Longrightarrow> effect (run_command spawn program arguments)"
  unfolding run_command_def by (auto intro!: effect_intros)

lemma effect_run_ip [effect_intros]: "A (''ip'', arguments) \<Longrightarrow> effect (run_ip spawn arguments)"
  unfolding run_ip_def by (auto intro!: effect_intros)

lemma effect_link_output [effect_intros]:
  "A (''ip'', [''-d'', ''link'', ''show'', ''dev'', name]) \<Longrightarrow> effect (link_output spawn name)"
  unfolding link_output_def by (auto intro!: effect_intros)

lemma effect_link_exists [effect_intros]:
  "A (''ip'', [''-d'', ''link'', ''show'', ''dev'', name]) \<Longrightarrow> effect (link_exists spawn name)"
  unfolding link_exists_def by (auto intro!: effect_intros)

lemma effect_link_is_tap [effect_intros]:
  "A (''ip'', [''-d'', ''link'', ''show'', ''dev'', name]) \<Longrightarrow> effect (link_is_tap spawn name)"
  unfolding link_is_tap_def by (auto intro!: effect_intros)

lemma effect_delete_link [effect_intros]:
  "A (''ip'', [''-d'', ''link'', ''show'', ''dev'', name]) \<Longrightarrow>
   A (''ip'', [''link'', ''delete'', ''dev'', name]) \<Longrightarrow>
   effect (delete_link_if_present spawn name)"
  unfolding delete_link_if_present_def by (auto intro!: effect_intros split: sum.splits)

lemma effect_sysctls [effect_intros]:
  "A (''sysctl'', [''-n'', ''net.ipv4.ip_forward'']) \<Longrightarrow> effect (forwarding_enabled spawn)"
  "A (''sysctl'', [''-n'', ''net.ipv4.conf.'' @ uplink @ ''.proxy_arp'']) \<Longrightarrow>
     effect (proxy_arp_enabled spawn uplink)"
  "A (''sysctl'', [''-w'', ''net.ipv4.ip_forward=0'']) \<Longrightarrow> effect (disable_forwarding spawn)"
  unfolding forwarding_enabled_def proxy_arp_enabled_def disable_forwarding_def Let_def
  by (auto intro!: effect_intros)

lemma effect_iptables_check [effect_intros]:
  "A (''iptables'', arguments) \<Longrightarrow> effect (iptables_check spawn arguments)"
  unfolding iptables_check_def by (auto intro!: effect_intros)

lemma effect_delete_iptables_spec [effect_intros]:
  "list_all A (rule_commands spec) \<Longrightarrow> effect (delete_iptables_spec spawn spec)"
  unfolding delete_iptables_spec_def iptables_delete_rule_def iptables_rule_exists_def
    iptables_nat_rule_exists_def rule_commands_def
  by (cases "spec \<noteq> [] \<and> hd spec = ''POSTROUTING''") (auto simp add: effect_intros)

lemma effect_delete_if_listed [effect_intros]:
  "A (''ip'', query) \<Longrightarrow> A (''ip'', deletion) \<Longrightarrow>
   effect (delete_if_listed spawn query listed deletion)"
  unfolding delete_if_listed_def Let_def by (auto intro!: effect_intros split: sum.splits)

lemma effect_cleanup_routed_rules [effect_intros]:
  assumes "list_all A (concat (map rule_commands (routed_forward_specs uplink tap guest lan
      @ [routed_nat_spec uplink tap network])))"
  shows "effect (cleanup_routed_rules spawn uplink tap lan network guest)"
  unfolding cleanup_routed_rules_def using assms
  by (intro effect_bind effect_for effect_delete_iptables_spec) (auto simp: list_all_iff)

end

end
