(* ===== verification/Net_Safety.thy ===== *)
theory Net_Safety
  imports Command_Effects
begin

text \<open>
  What the network controller does to the host, whatever the host's programs answer. The commands
  an operation issues are recorded by running it on a world that carries a log: \<open>logged spawn\<close> runs
  \<open>spawn\<close> and appends the command. \<open>issues A m\<close> says that every command \<open>m\<close> adds to the log satisfies
  \<open>A\<close>; it is the interface \<open>command_effect\<close> interpreted for logs. The theorem bounds the commands of a deletion; for a
  configuration, a \<open>footprint\<close> is what the network of one VM occupies on the host, \<open>vm_commands\<close> the exact commands that
  change it, and the lemmas show that a configuration works on one footprint that the request or the record plans.
\<close>

definition logged :: "'w cmd \<Rightarrow> ('w \<times> command list) cmd" where
  "logged spawn program arguments = (\<lambda>(w, log).
     case spawn program arguments w of (r, w') \<Rightarrow> (r, (w', log @ [(program, arguments)])))"

definition extends_by :: "(command \<Rightarrow> bool) \<Rightarrow> 'w \<times> command list \<Rightarrow> 'w \<times> command list \<Rightarrow> bool" where
  "extends_by A x y \<longleftrightarrow> (\<exists>cs. snd y = snd x @ cs \<and> list_all A cs)"

interpretation log: command_effect "extends_by A" "logged spawn" A
  for A :: "command \<Rightarrow> bool" and spawn :: "'w cmd"
proof unfold_locales
  show "reflp (extends_by A)" by (rule reflpI) (simp add: extends_by_def)
  show "transp (extends_by A)" by (rule transpI) (fastforce simp: extends_by_def)
  show "\<And>program arguments w r w'. A (program, arguments) \<Longrightarrow>
      logged spawn program arguments w = (r, w') \<Longrightarrow> extends_by A w w'"
    by (auto simp: logged_def extends_by_def split: prod.splits)
qed

abbreviation issues :: "(command \<Rightarrow> bool) \<Rightarrow> (SdkError, 'w \<times> command list, 'a) io \<Rightarrow> bool" where
  "issues A m \<equiv> keepsE (extends_by A) m"

abbreviation net_issues :: "(command \<Rightarrow> bool) \<Rightarrow> (('w \<times> command list) net, 'a) sdk_io \<Rightarrow> bool" where
  "net_issues A m \<equiv> keepsE (net_rel (extends_by A)) m"

abbreviation batch_issues ::
  "(command \<Rightarrow> bool) \<Rightarrow> ('w \<times> command list \<Rightarrow> message list \<times> 'w \<times> command list) \<Rightarrow> bool" where
  "batch_issues A m \<equiv> keepsB (extends_by A) m"

section \<open>Deleting a network\<close>

definition host_only_delete_command :: "PersistedNetwork \<Rightarrow> command \<Rightarrow> bool" where
  "host_only_delete_command network c \<longleftrightarrow>
     c = (''ip'', [''-d'', ''link'', ''show'', ''dev'', nc_tap_name (pn_config network)])
     \<or> c = (''ip'', [''link'', ''delete'', ''dev'', nc_tap_name (pn_config network)])
     \<or> pn_forwarding_enabled_by_sdk network
        \<and> c = (''sysctl'', [''-w'', ''net.ipv4.ip_forward=0''])"

definition lan_delete_command :: "PersistedNetwork \<Rightarrow> ipv4 \<Rightarrow> ipv4 \<Rightarrow> string \<Rightarrow> command \<Rightarrow> bool" where
  "lan_delete_command network lan guest uplink c \<longleftrightarrow>
     (let tap = nc_tap_name (pn_config network); owned = map pnr_resource (pn_resources network) in
      host_only_delete_command network c
      \<or> (ForwardRule \<in> set owned \<or> IptablesNat \<in> set owned)
         \<and> c \<in> set (concat (map rule_commands (routed_forward_specs uplink tap guest lan
                 @ [routed_nat_spec uplink tap (private_guest_network guest)])))
      \<or> ProxyArpEntry \<in> set owned
         \<and> c \<in> {(''ip'', [''neigh'', ''show'', ''proxy'', ''dev'', uplink]),
                (''ip'', [''neigh'', ''del'', ''proxy'', show_ipv4 lan, ''dev'', uplink])}
      \<or> HostRoute \<in> set owned
         \<and> c \<in> {(''ip'', [''-4'', ''route'', ''show'', show_ipv4 lan @ ''/32'', ''dev'', tap]),
                (''ip'', [''route'', ''del'', show_ipv4 lan @ ''/32'', ''dev'', tap])}
      \<or> pn_proxy_arp_enabled_by_sdk network
         \<and> c = (''sysctl'', [''net.ipv4.conf.'' @ uplink @ ''.proxy_arp=0'']))"

definition owned_command :: "PersistedNetwork \<Rightarrow> command \<Rightarrow> bool" where
  "owned_command network =
     (case (nc_mode (pn_config network), nc_lan_address (pn_config network),
            nc_guest_address (pn_config network)) of
        (HostOnly, _, _) \<Rightarrow> host_only_delete_command network
      | (Lan, Some (V4 lan), V4 guest) \<Rightarrow>
          lan_delete_command network lan guest
            (case nc_uplink_name (pn_config network) of None \<Rightarrow> [] | Some u \<Rightarrow> u)
      | _ \<Rightarrow> (\<lambda>_. False))"

lemma batch_cleanup_routed_for_delete:
  assumes "pn_config network = config" "nc_mode config = Lan" "nc_lan_address config = Some (V4 lan)"
    "nc_guest_address config = V4 guest"
  defines "uplink \<equiv> (case nc_uplink_name config of None \<Rightarrow> [] | Some u \<Rightarrow> u)"
  shows "batch_issues (lan_delete_command network lan guest uplink)
    (cleanup_routed_for_delete (logged spawn)
       \<lparr>rc_uplink = uplink, rc_tap = nc_tap_name config, rc_lan = lan,
        rc_private_network = private_guest_network guest, rc_private_guest = guest,
        rc_applied = map pnr_resource (pn_resources network),
        rc_forwarding_was_enabled = (\<not> pn_forwarding_enabled_by_sdk network),
        rc_proxy_was_enabled = (\<not> pn_proxy_arp_enabled_by_sdk network)\<rparr>)"
proof -
  let ?A = "lan_delete_command network lan guest uplink"
  have rules: "list_all ?A (concat (map rule_commands (routed_forward_specs uplink (nc_tap_name config)
      guest lan @ [routed_nat_spec uplink (nc_tap_name config) (private_guest_network guest)])))"
    if "IptablesNat \<in> set (map pnr_resource (pn_resources network))
      \<or> ForwardRule \<in> set (map pnr_resource (pn_resources network))"
    using that unfolding list_all_iff lan_delete_command_def Let_def assms(1) by blast
  show ?thesis
    unfolding cleanup_routed_for_delete_def routed_sysctl_steps_def
      delete_host_route_if_present_def delete_proxy_entry_if_present_def
    by (intro log.batch_collect)
      (use rules in \<open>simp add: rules_owned_def effect_intros lan_delete_command_def
        host_only_delete_command_def assms(1) del: append_Cons\<close>)
qed

lemma cleanup_for_delete_issues:
  "issues (owned_command network) (cleanup_for_delete (logged spawn) network)"
proof (cases "nc_mode (pn_config network)")
  case HostOnly
  then show ?thesis
    unfolding cleanup_for_delete_def cleanup_network_def Let_def
    by (simp add: owned_command_def log.effect_finish log.batch_collect effect_intros
        host_only_delete_command_def del: collect_failures.simps)
next
  case Lan
  show ?thesis
  proof (cases "nc_lan_address (pn_config network)")
    case None
    with Lan show ?thesis
      by (simp add: cleanup_for_delete_def cleanup_network_def Let_def effect_intros)
  next
    case (Some a)
    with Lan show ?thesis
      by (cases a; cases "nc_guest_address (pn_config network)")
       (simp_all add: cleanup_for_delete_def cleanup_network_def Let_def effect_intros
          owned_command_def batch_cleanup_routed_for_delete)
  qed
qed


section \<open>Configuring a network\<close>

text \<open>The commands that only read the host, with the arguments the adapter passes.\<close>

definition query_command :: "command \<Rightarrow> bool" where
  "query_command c \<longleftrightarrow> (\<exists>x y. c \<in>
     {(''ip'', [''-4'', ''-o'', ''addr'', ''show'']), (''ip'', [''-4'', ''route'', ''show'']),
      (''ip'', [''route'', ''show'', ''default'']), (''ip'', [''-d'', ''link'', ''show'', ''dev'', x]),
      (''ip'', [''-4'', ''addr'', ''show'', ''dev'', x]), (''ip'', [''-o'', ''-4'', ''addr'', ''show'', ''dev'', x]),
      (''ip'', [''-4'', ''route'', ''show'', x, ''dev'', y]), (''ip'', [''neigh'', ''show'', ''proxy'', ''dev'', x]),
      (''sysctl'', [''-n'', ''net.ipv4.ip_forward'']),
      (''sysctl'', [''-n'', ''net.ipv4.conf.'' @ x @ ''.proxy_arp'']),
      (''arping'', [''-D'', ''-I'', x, ''-c'', ''2'', ''-w'', ''2'', y]),
      (''ping'', [''-c'', ''1'', ''-W'', ''1'', x])})"

text \<open>What a VM's network occupies on the host: its TAP, the host address on it, the private /30 with the guest
  address, and for a LAN network the uplink and the LAN address.\<close>

record footprint =
  fp_tap :: string
  fp_gateway :: ipv4
  fp_network :: ipv4
  fp_guest :: ipv4
  fp_lan :: "(string \<times> ipv4) option"

definition fp_rules :: "footprint \<Rightarrow> string list list" where
  "fp_rules fp =
     (case fp_lan fp of
        None \<Rightarrow> host_only_forward_specs (fp_tap fp) (fp_guest fp) @ [host_only_nat_spec (fp_tap fp) (fp_network fp)]
      | Some (uplink, lan) \<Rightarrow> routed_forward_specs uplink (fp_tap fp) (fp_guest fp) lan
          @ [routed_nat_spec uplink (fp_tap fp) (fp_network fp)])"

definition insert_command :: "string list \<Rightarrow> command" where
  "insert_command spec =
     (''iptables'', (if hd spec = ''POSTROUTING'' then [''-t'', ''nat''] else []) @ [''-I'', hd spec, ''1''] @ tl spec)"

text \<open>All commands that change the host on behalf of a network: its TAP and the address on it, the forwarding switch,
  its own rules, and for a LAN network the route to its LAN address, the proxy neighbour entry of that address
  and the proxy ARP switch of the uplink.\<close>

definition vm_commands :: "footprint \<Rightarrow> command list" where
  "vm_commands fp =
     (let tap = fp_tap fp; address = show_ipv4 (fp_gateway fp) @ ''/30'' in
      [(''ip'', [''tuntap'', ''add'', ''dev'', tap, ''mode'', ''tap'']),
       (''ip'', [''link'', ''set'', ''dev'', tap, ''up'']), (''ip'', [''link'', ''delete'', ''dev'', tap]),
       (''ip'', [''-4'', ''addr'', ''flush'', ''dev'', tap]),
       (''ip'', [''addr'', ''add'', address, ''dev'', tap]), (''ip'', [''addr'', ''del'', address, ''dev'', tap]),
       (''sysctl'', [''-w'', ''net.ipv4.ip_forward=1'']), (''sysctl'', [''-w'', ''net.ipv4.ip_forward=0''])]
      @ map insert_command (fp_rules fp) @ concat (map rule_commands (fp_rules fp))
      @ (case fp_lan fp of
           None \<Rightarrow> []
         | Some (uplink, lan) \<Rightarrow>
             [(''ip'', [''route'', ''replace'', show_ipv4 lan @ ''/32'', ''dev'', tap]),
              (''ip'', [''route'', ''del'', show_ipv4 lan @ ''/32'', ''dev'', tap]),
              (''ip'', [''neigh'', ''replace'', ''proxy'', show_ipv4 lan, ''dev'', uplink]),
              (''ip'', [''neigh'', ''del'', ''proxy'', show_ipv4 lan, ''dev'', uplink]),
              (''sysctl'', [''-w'', ''net.ipv4.conf.'' @ uplink @ ''.proxy_arp=1'']),
              (''sysctl'', [''net.ipv4.conf.'' @ uplink @ ''.proxy_arp=0''])]))"

definition configure_command :: "footprint \<Rightarrow> command \<Rightarrow> bool" where
  "configure_command fp c \<longleftrightarrow> query_command c \<or> c \<in> set (vm_commands fp)"

lemma query_commands [simp]:
  "query_command (''ip'', [''-4'', ''-o'', ''addr'', ''show''])" "query_command (''ip'', [''-4'', ''route'', ''show''])"
  "query_command (''ip'', [''route'', ''show'', ''default''])" "query_command (''ip'', [''-d'', ''link'', ''show'', ''dev'', x])"
  "query_command (''ip'', [''-4'', ''addr'', ''show'', ''dev'', x])" "query_command (''ip'', [''-o'', ''-4'', ''addr'', ''show'', ''dev'', x])"
  "query_command (''ip'', [''-4'', ''route'', ''show'', x, ''dev'', y])" "query_command (''ip'', [''neigh'', ''show'', ''proxy'', ''dev'', x])"
  "query_command (''sysctl'', [''-n'', ''net.ipv4.ip_forward''])"
  "query_command (''sysctl'', [''-n'', ''net.ipv4.conf.'' @ x @ ''.proxy_arp''])"
  "query_command (''arping'', [''-D'', ''-I'', x, ''-c'', ''2'', ''-w'', ''2'', y])"
  "query_command (''ping'', [''-c'', ''1'', ''-W'', ''1'', x])"
  by (auto simp: query_command_def)

lemmas query_simps [simp] = query_commands(10) [simplified]

lemma configure_query [simp]: "query_command c \<Longrightarrow> configure_command fp c"
  by (simp add: configure_command_def)

lemma configure_tap_commands:
  assumes "tap = fp_tap fp"
  shows "configure_command fp (''ip'', [''tuntap'', ''add'', ''dev'', tap, ''mode'', ''tap''])"
    "configure_command fp (''ip'', [''link'', ''set'', ''dev'', tap, ''up''])"
    "configure_command fp (''ip'', [''link'', ''delete'', ''dev'', tap])"
    "configure_command fp (''ip'', [''-4'', ''addr'', ''flush'', ''dev'', tap])"
    "gateway = fp_gateway fp \<Longrightarrow> configure_command fp (''ip'', [''addr'', ''add'', show_ipv4 gateway @ ''/30'', ''dev'', tap])"
    "gateway = fp_gateway fp \<Longrightarrow> configure_command fp (''ip'', [''addr'', ''del'', show_ipv4 gateway @ ''/30'', ''dev'', tap])"
    "fp_lan fp = Some (uplink, lan) \<Longrightarrow> configure_command fp (''ip'', [''route'', ''replace'', show_ipv4 lan @ ''/32'', ''dev'', tap])"
    "fp_lan fp = Some (uplink, lan) \<Longrightarrow> configure_command fp (''ip'', [''route'', ''del'', show_ipv4 lan @ ''/32'', ''dev'', tap])"
  using assms by (simp_all add: configure_command_def vm_commands_def Let_def)

lemma configure_lan_commands:
  assumes "fp_lan fp = Some (uplink, lan)"
  shows "configure_command fp (''ip'', [''neigh'', ''replace'', ''proxy'', show_ipv4 lan, ''dev'', uplink])"
    "configure_command fp (''ip'', [''neigh'', ''del'', ''proxy'', show_ipv4 lan, ''dev'', uplink])"
    "configure_command fp (''sysctl'', [''-w'', ''net.ipv4.conf.'' @ uplink @ ''.proxy_arp=1''])"
    "configure_command fp (''sysctl'', [''net.ipv4.conf.'' @ uplink @ ''.proxy_arp=0''])"
  using assms by (simp_all add: configure_command_def vm_commands_def Let_def)

lemma configure_forwarding [simp]:
  "configure_command fp (''sysctl'', [''-w'', ''net.ipv4.ip_forward=1''])"
  "configure_command fp (''sysctl'', [''-w'', ''net.ipv4.ip_forward=0''])"
  by (simp_all add: configure_command_def vm_commands_def Let_def)

text \<open>The rules that carry the ownership comment of a TAP.\<close>

definition rule_of :: "string \<Rightarrow> string list \<Rightarrow> bool" where
  "rule_of tap spec \<longleftrightarrow> spec \<noteq> [] \<and> (\<exists>scope. iptables_comment tap scope \<in> set (tl spec))"

lemma rules_of_tap [simp]:
  "spec \<in> set (host_only_forward_specs tap guest) \<Longrightarrow> rule_of tap spec"
  "rule_of tap (host_only_nat_spec tap network)"
  "spec \<in> set (routed_forward_specs uplink tap guest lan) \<Longrightarrow> rule_of tap spec"
  "rule_of tap (routed_nat_spec uplink tap network)"
  by (auto simp: rule_of_def host_only_forward_specs_def host_only_nat_spec_def
      routed_forward_specs_def routed_nat_spec_def)

lemma all_rules_of_tap [simp]:
  "list_all (rule_of tap) (host_only_forward_specs tap guest)"
  "list_all (rule_of tap) (routed_forward_specs uplink tap guest lan)"
  by (simp_all add: list_all_iff)

lemma fp_rule_commands:
  assumes "spec \<in> set (fp_rules fp)"
  shows "configure_command fp (insert_command spec)" "list_all (configure_command fp) (rule_commands spec)"
    "configure_command fp (''iptables'', (if hd spec = ''POSTROUTING'' then nat_check_arguments spec else ''-C'' # spec))"
    and "spec \<noteq> []"
proof -
  show "spec \<noteq> []"
    using assms by (auto simp: fp_rules_def host_only_forward_specs_def host_only_nat_spec_def routed_forward_specs_def
        routed_nat_spec_def split: option.splits)
  show "configure_command fp (insert_command spec)"
    using assms by (simp add: configure_command_def vm_commands_def Let_def)
  have "set (rule_commands spec) \<subseteq> set (vm_commands fp)"
    using assms unfolding vm_commands_def Let_def set_append set_concat set_map by blast
  then show all: "list_all (configure_command fp) (rule_commands spec)"
    unfolding list_all_iff configure_command_def by blast
  show "configure_command fp (''iptables'', (if hd spec = ''POSTROUTING'' then nat_check_arguments spec else ''-C'' # spec))"
    using all \<open>spec \<noteq> []\<close> by (simp add: rule_commands_def split: if_splits)
qed

lemma fp_forward_rules:
  "fp_lan fp = None \<Longrightarrow> tap = fp_tap fp \<Longrightarrow> guest = fp_guest fp \<Longrightarrow>
     set (host_only_forward_specs tap guest) \<subseteq> set (fp_rules fp)"
  "fp_lan fp = None \<Longrightarrow> tap = fp_tap fp \<Longrightarrow> network = fp_network fp \<Longrightarrow> host_only_nat_spec tap network \<in> set (fp_rules fp)"
  "fp_lan fp = Some (uplink, lan) \<Longrightarrow> tap = fp_tap fp \<Longrightarrow> guest = fp_guest fp \<Longrightarrow>
     set (routed_forward_specs uplink tap guest lan) \<subseteq> set (fp_rules fp)"
  "fp_lan fp = Some (uplink, lan) \<Longrightarrow> tap = fp_tap fp \<Longrightarrow> network = fp_network fp \<Longrightarrow>
     routed_nat_spec uplink tap network \<in> set (fp_rules fp)"
  by (auto simp: fp_rules_def)

lemma spec_chains:
  "spec \<in> set (host_only_forward_specs tap guest) \<Longrightarrow> hd spec = ''FORWARD''"
  "spec \<in> set (routed_forward_specs uplink tap guest lan) \<Longrightarrow> hd spec = ''FORWARD''"
  "hd (host_only_nat_spec tap network) = ''POSTROUTING''" "hd (routed_nat_spec uplink tap network) = ''POSTROUTING''"
  by (auto simp: host_only_forward_specs_def host_only_nat_spec_def routed_forward_specs_def routed_nat_spec_def)

lemma keepsE_if: "(b \<Longrightarrow> keepsE R m) \<Longrightarrow> (\<not> b \<Longrightarrow> keepsE R n) \<Longrightarrow> keepsE R (if b then m else n)"
  by simp

lemma issues_rule [effect_intros]:
  assumes "spec \<in> set (fp_rules fp)"
  shows "hd spec = ''FORWARD'' \<Longrightarrow> issues (configure_command fp) (iptables_rule_exists (logged spawn) spec)"
    "hd spec = ''POSTROUTING'' \<Longrightarrow> issues (configure_command fp) (iptables_nat_rule_exists (logged spawn) spec)"
    "issues (configure_command fp) (run_iptables_spec (logged spawn) spec)"
    "hd spec = ''POSTROUTING'' \<Longrightarrow> issues (configure_command fp) (iptables_nat_insert_rule (logged spawn) spec)"
    "issues (configure_command fp) (delete_iptables_spec (logged spawn) spec)"
proof -
  note commands = fp_rule_commands [OF assms]
  have inserts: "hd spec = ''POSTROUTING'' \<Longrightarrow> configure_command fp (''iptables'', [''-t'', ''nat'', ''-I'', ''POSTROUTING'', ''1''] @ tl spec)"
    "hd spec \<noteq> ''POSTROUTING'' \<Longrightarrow> configure_command fp (''iptables'', [''-I'', hd spec, ''1''] @ tl spec)"
    using commands(1) by (simp_all add: insert_command_def)
  have check: "issues (configure_command fp) (iptables_rule_exists (logged spawn) spec)" if "hd spec \<noteq> ''POSTROUTING''"
    unfolding iptables_rule_exists_def by (rule log.effect_iptables_check) (use commands(3) that in simp)
  then show "issues (configure_command fp) (iptables_rule_exists (logged spawn) spec)" if "hd spec = ''FORWARD''"
    using that by simp
  show nat_check: "issues (configure_command fp) (iptables_nat_rule_exists (logged spawn) spec)" if "hd spec = ''POSTROUTING''"
    unfolding iptables_nat_rule_exists_def by (rule log.effect_iptables_check) (use commands(3) that in simp)
  show "issues (configure_command fp) (run_iptables_spec (logged spawn) spec)"
  proof (cases "hd spec = ''POSTROUTING''")
    case True
    with commands(4) show ?thesis
      unfolding run_iptables_spec_def by (simp only: simp_thms if_True) (rule log.effect_run_command, rule inserts(1) [OF True])
  next
    case False
    then show ?thesis
      unfolding run_iptables_spec_def iptables_add_rule_def
      by (simp only: simp_thms if_False) (intro log.effect_bind check log.effect_return log.effect_run_command inserts(2) keepsE_if)
  qed
  show "issues (configure_command fp) (iptables_nat_insert_rule (logged spawn) spec)" if chain: "hd spec = ''POSTROUTING''"
    unfolding iptables_nat_insert_rule_def chain
    by (intro log.effect_bind nat_check log.effect_return log.effect_run_command inserts(1) keepsE_if chain)
  show "issues (configure_command fp) (delete_iptables_spec (logged spawn) spec)"
    by (rule log.effect_delete_iptables_spec [OF commands(2)])
qed

lemmas configure_defs = ensure_tap_def ensure_tap_address_def ensure_forwarding_def
  ensure_proxy_arp_def ensure_routed_host_def ensure_iptables_host_only_def
  ensure_iptables_routed_def reconcile_tap_def reconcile_tap_address_def reconcile_forwarding_def
  reconcile_forward_rules_def reconcile_iptables_nat_def reconcile_iptables_routed_def
  reconcile_host_route_def reconcile_proxy_entry_def reconcile_proxy_arp_def reconcile_nat_rule_def

lemma net_issues_rules [effect_intros]:
  "set specs \<subseteq> set (fp_rules fp) \<Longrightarrow> (\<And>spec. spec \<in> set specs \<Longrightarrow> hd spec = ''FORWARD'') \<Longrightarrow>
     net_issues (configure_command fp) (add_forward_rules (logged spawn) specs)"
  "set specs \<subseteq> set (fp_rules fp) \<Longrightarrow> (\<And>spec. spec \<in> set specs \<Longrightarrow> hd spec = ''FORWARD'') \<Longrightarrow>
     net_issues (configure_command fp) (reconcile_rules (logged spawn) specs)"
  unfolding add_forward_rules_def reconcile_rules_def
  by (auto intro!: effect_intros log.net_effect_for)

lemma net_issues_tap [effect_intros]:
  assumes "tap = fp_tap fp"
  shows "net_issues (configure_command fp) (ensure_tap (logged spawn) tap mode)"
    "gateway = fp_gateway fp \<Longrightarrow> net_issues (configure_command fp) (ensure_tap_address (logged spawn) tap gateway)"
    "net_issues (configure_command fp) (reconcile_tap (logged spawn) tap)"
    "gateway = fp_gateway fp \<Longrightarrow> net_issues (configure_command fp) (reconcile_tap_address (logged spawn) tap gateway)"
  unfolding configure_defs Let_def by (auto intro!: effect_intros configure_tap_commands assms)

lemma net_issues_forwarding [effect_intros]:
  "net_issues (configure_command fp) (ensure_forwarding (logged spawn))"
  "net_issues (configure_command fp) (reconcile_forwarding (logged spawn))"
  unfolding configure_defs by (auto intro!: effect_intros)

lemma net_issues_host_only [effect_intros]:
  assumes "fp_lan fp = None" "tap = fp_tap fp"
  shows "guest = fp_guest fp \<Longrightarrow> network = fp_network fp \<Longrightarrow>
      net_issues (configure_command fp) (ensure_iptables_host_only (logged spawn) tap network guest)"
    "guest = fp_guest fp \<Longrightarrow> net_issues (configure_command fp) (reconcile_forward_rules (logged spawn) tap guest)"
    "network = fp_network fp \<Longrightarrow> net_issues (configure_command fp) (reconcile_iptables_nat (logged spawn) tap network)"
  unfolding configure_defs using fp_forward_rules(1,2) [OF assms]
  by (auto intro!: effect_intros simp: spec_chains)

lemma net_issues_lan [effect_intros]:
  assumes "fp_lan fp = Some (uplink, lan)"
  shows "net_issues (configure_command fp) (ensure_proxy_arp (logged spawn) uplink)"
    "net_issues (configure_command fp) (reconcile_proxy_arp (logged spawn) uplink)"
    "net_issues (configure_command fp) (reconcile_proxy_entry (logged spawn) uplink lan)"
    "tap = fp_tap fp \<Longrightarrow> net_issues (configure_command fp) (reconcile_host_route (logged spawn) tap lan)"
    "tap = fp_tap fp \<Longrightarrow> guest = fp_guest fp \<Longrightarrow> network = fp_network fp \<Longrightarrow>
      net_issues (configure_command fp) (ensure_iptables_routed (logged spawn) uplink tap network guest lan)"
    "tap = fp_tap fp \<Longrightarrow> guest = fp_guest fp \<Longrightarrow> network = fp_network fp \<Longrightarrow>
      net_issues (configure_command fp) (reconcile_iptables_routed (logged spawn) uplink tap network guest lan)"
  unfolding configure_defs Let_def using fp_forward_rules(3,4) [OF assms]
  by (auto intro!: effect_intros configure_tap_commands(7,8) [OF _ assms] configure_tap_commands(1-6) configure_lan_commands [OF assms]
      configure_lan_commands(3,4) [OF assms, simplified] simp: spec_chains)

lemma net_issues_routed_host [effect_intros]:
  assumes "fp_lan fp = Some (ui_interface identity, lan)" "tap = fp_tap fp" "gateway = fp_gateway fp"
  shows "net_issues (configure_command fp) (ensure_routed_host (logged spawn) identity tap lan gateway)"
  unfolding ensure_routed_host_def
  by (intro effect_intros configure_tap_commands(1-6) [OF assms(2)] configure_tap_commands(7,8) [OF assms(2,1)] configure_lan_commands [OF assms(1)] assms(3))

text \<open>Commands of the discovery only read the host.\<close>

lemma issues_queries [effect_intros]:
  "issues query_command (live_ipv4_addresses (logged spawn))"
  "issues query_command (detect_default_uplink (logged spawn))"
  "issues query_command (default_gateway_for_uplink (logged spawn) uplink)"
  "issues query_command (probe_lan_candidate (logged spawn) interface candidate)"
  unfolding live_ipv4_addresses_def detect_default_uplink_def default_gateway_for_uplink_def
    probe_lan_candidate_def Let_def
  by (auto intro!: effect_intros split: option.splits sum.splits)

lemma issues_detect_uplink_identity [effect_intros]:
  "issues query_command (detect_uplink_identity (logged spawn))"
  unfolding detect_uplink_identity_def Let_def
  by (auto intro!: effect_intros split: option.splits)

lemma issues_search [effect_intros]:
  "issues query_command (search_lan_candidates (logged spawn) uplink used candidates)"
proof (induction candidates)
  case Nil
  show ?case unfolding search_lan_candidates.simps by (rule log.effect_return)
next
  case (Cons c cs)
  then show ?case by (auto intro!: effect_intros split: sum.splits)
qed

lemma issues_select_lan_offer [effect_intros]:
  "issues query_command (select_lan_offer (logged spawn) uplink lan_override previous used)"
  unfolding select_lan_offer_def Let_def
  by (auto intro!: effect_intros split: option.splits sum.splits)

lemma batch_host_only:
  assumes "fp_lan fp = None" "tap = fp_tap fp" "network = fp_network fp" "guest = fp_guest fp"
  shows "batch_issues (configure_command fp) (cleanup_host_only_attempt (logged spawn) tap network guest applied was_enabled)"
    "gateway = fp_gateway fp \<Longrightarrow> batch_issues (configure_command fp)
       (cleanup_reconciled_host_only (logged spawn) tap gateway network guest existed applied was_enabled)"
proof -
  note rules = fp_forward_rules(1) [OF assms(1,2,4)] fp_forward_rules(2) [OF assms(1-3)]
  have deletes: "list_all (\<lambda>(g, m). g \<longrightarrow> issues (configure_command fp) m)
      (map (\<lambda>spec. (b, delete_iptables_spec (logged spawn) spec)) (host_only_forward_specs tap guest))" for b
    using issues_rule(5) rules(1) by (fastforce simp: list_all_iff)
  show "batch_issues (configure_command fp) (cleanup_host_only_attempt (logged spawn) tap network guest applied was_enabled)"
    unfolding cleanup_host_only_attempt_def
    by (rule log.batch_collect) (auto simp: deletes intro!: effect_intros rules(2) configure_tap_commands(3) [OF assms(2)])
  show "batch_issues (configure_command fp)
       (cleanup_reconciled_host_only (logged spawn) tap gateway network guest existed applied was_enabled)" if "gateway = fp_gateway fp"
    unfolding cleanup_reconciled_host_only_def
    by (rule log.batch_collect)
      (auto simp: deletes intro!: effect_intros rules(2) configure_tap_commands(3) [OF assms(2)] configure_tap_commands(6) [OF assms(2) that])
qed

lemma batch_routed:
  assumes "fp_lan fp = Some (uplink, lan)" "tap = fp_tap fp" "network = fp_network fp" "guest = fp_guest fp"
  shows "batch_issues (configure_command fp) (cleanup_routed_attempt (logged spawn) uplink tap lan network
     guest applied was_enabled proxy_was)"
proof -
  note rules = fp_forward_rules(3) [OF assms(1,2,4)] fp_forward_rules(4) [OF assms(1-3)]
  have "issues (configure_command fp) (cleanup_routed_rules (logged spawn) uplink tap lan network guest)"
    unfolding cleanup_routed_rules_def
    by (intro log.effect_bind log.effect_for issues_rule(5) rules(2)) (use rules(1) in blast)
  then show ?thesis
    unfolding cleanup_routed_attempt_def cleanup_routed_def routed_sysctl_steps_def
    by (intro log.batch_collect)
      (simp add: effect_intros configure_tap_commands(3) [OF assms(2)] configure_tap_commands(8) [OF assms(2,1)]
        configure_lan_commands [OF assms(1)] configure_lan_commands [OF assms(1), simplified])
qed

text \<open>An operation that inspects the host and then works on one footprint.\<close>

definition one_footprint :: "(footprint \<Rightarrow> bool) \<Rightarrow> (SdkError, 'w \<times> command list, 'a) io \<Rightarrow> bool" where
  "one_footprint P m \<longleftrightarrow> (\<forall>x r y. m x = (r, y) \<longrightarrow>
     extends_by query_command x y \<or> (\<exists>fp. P fp \<and> extends_by (configure_command fp) x y))"

lemma extends_query: "extends_by query_command x y \<Longrightarrow> extends_by (configure_command fp) x y"
  by (auto simp: extends_by_def list_all_iff configure_command_def)

lemma extends_by_trans: "extends_by A x y \<Longrightarrow> extends_by A y z \<Longrightarrow> extends_by A x z"
  using log.trans by (rule transpD)

lemma one_footprint_query: "issues query_command m \<Longrightarrow> one_footprint P m"
  by (auto simp: one_footprint_def dest: keepsED)

lemma one_footprint_issues: "P fp \<Longrightarrow> issues (configure_command fp) m \<Longrightarrow> one_footprint P m"
  by (auto simp: one_footprint_def dest: keepsED)

lemma one_footprint_bind:
  assumes m: "issues query_command m" and f: "\<And>v x y. m x = (Inr v, y) \<Longrightarrow> one_footprint P (f v)"
  shows "one_footprint P (bindE m f)"
  unfolding one_footprint_def
proof (intro allI impI)
  fix x r z
  assume run: "bindE m f x = (r, z)"
  obtain q y where y: "m x = (q, y)" by (cases "m x") blast
  have pre: "extends_by query_command x y" by (rule keepsED [OF m y])
  show "extends_by query_command x z \<or> (\<exists>fp. P fp \<and> extends_by (configure_command fp) x z)"
  proof (cases q)
    case (Inl e)
    with run y pre show ?thesis by (simp add: bindE_def)
  next
    case (Inr v)
    with run y have rest: "f v y = (r, z)" by (simp add: bindE_def)
    from f [OF y [unfolded Inr]] rest have "extends_by query_command y z \<or> (\<exists>fp. P fp \<and> extends_by (configure_command fp) y z)"
      unfolding one_footprint_def by blast
    then show ?thesis using pre extends_query extends_by_trans by metis
  qed
qed

lemma one_footprint_after:
  assumes "one_footprint P m"
  shows "one_footprint P (bindE m (\<lambda>v. returnE (g v)))"
  using assms unfolding one_footprint_def bindE_def returnE_def by (fastforce split: prod.splits sum.splits)

text \<open>The footprint of a network: for a new one the TAP of the VM's name, an aligned private /30 with its two
  host addresses, and a LAN address exactly in LAN mode, all with the values the request demands; for an
  existing one what its record says.\<close>

definition planned_footprint ::
  "(string \<Rightarrow> u8 list) \<Rightarrow> NetworkRequest \<Rightarrow> PersistedNetwork option \<Rightarrow> footprint \<Rightarrow> bool" where
  "planned_footprint sha256 request existing fp \<longleftrightarrow>
     (case existing of
        None \<Rightarrow>
          fp_tap fp = tap_name sha256 (nr_vm_name request)
          \<and> fp_network fp AND NOT 3 = fp_network fp \<and> fp_gateway fp = fp_network fp + 1 \<and> fp_guest fp = fp_network fp + 2
          \<and> (nr_exact_network_values request \<longrightarrow> nr_guest_address_override request = Some (fp_guest fp))
          \<and> (case fp_lan fp of
               None \<Rightarrow> nr_mode request = HostOnly
             | Some (uplink, lan) \<Rightarrow> nr_mode request = Lan \<and> nr_lan_address_override request \<in> {None, Some lan})
      | Some network \<Rightarrow>
          fp_tap fp = nc_tap_name (pn_config network)
          \<and> pn_host_address network = Some (V4 (fp_gateway fp))
          \<and> nc_guest_address (pn_config network) = V4 (fp_guest fp)
          \<and> fp_network fp = private_guest_network (fp_guest fp)
          \<and> (case fp_lan fp of
               None \<Rightarrow> nc_mode (pn_config network) = HostOnly
             | Some (uplink, lan) \<Rightarrow> nc_mode (pn_config network) = Lan
                 \<and> nc_uplink_name (pn_config network) = Some uplink \<and> nc_lan_address (pn_config network) = Some (V4 lan)))"

lemma issues_lift: "issues A (liftE r)"
  by (rule log.effect_return)

lemma create_host_only_footprint:
  assumes "nr_mode request = HostOnly"
  shows "one_footprint (planned_footprint sha256 request None) (create_host_only sha256 (logged spawn) request used)"
  unfolding create_host_only_def
proof (intro one_footprint_bind issues_queries issues_lift, goal_cases)
  case (1 live x y subnet x' y')
  obtain network gateway guest where subnet: "subnet = (network, gateway, guest)" by (cases subnet)
  with 1(2) have select: "select_private_subnet (used @ live) request = Inr (network, gateway, guest)" by (simp add: liftE_def)
  let ?fp = "\<lparr>fp_tap = tap_name sha256 (nr_vm_name request), fp_gateway = gateway, fp_network = network, fp_guest = guest, fp_lan = None\<rparr>"
  have "planned_footprint sha256 request None ?fp"
    using select_private_subnet_Inr [OF select] assms by (simp add: planned_footprint_def)
  then show ?case
    by (rule one_footprint_issues) (auto simp: subnet Let_def intro!: effect_intros batch_host_only split: sum.splits)
qed

lemma select_lan_offer_override:
  assumes "select_lan_offer spawn uplink (Some a) previous used x = (Inr offer, y)"
  shows "lo_address offer = a"
  using assms by (auto simp: select_lan_offer_def Let_def bindE_Inr returnE_def split: prod.splits if_splits)

lemma create_lan_footprint:
  assumes "nr_mode request = Lan"
  shows "one_footprint (planned_footprint sha256 request None) (create_lan sha256 (logged spawn) request used)"
  unfolding create_lan_def
proof (intro one_footprint_bind issues_queries issues_detect_uplink_identity issues_lift, goal_cases)
  case (1 uplink x y live x1 y1 subnet x2 y2)
  obtain network gateway guest where subnet: "subnet = (network, gateway, guest)" by (cases subnet)
  with 1(3) have select: "select_private_subnet live request = Inr (network, gateway, guest)" by (simp add: liftE_def)
  show ?case
    unfolding subnet prod.case Let_def
  proof (rule one_footprint_bind [OF issues_select_lan_offer], goal_cases)
    case (1 offer x3 y3)
    then have offer: "select_lan_offer (logged spawn) uplink (nr_lan_address_override request) None used x3 = (Inr offer, y3)" by simp
    let ?fp = "\<lparr>fp_tap = tap_name sha256 (nr_vm_name request), fp_gateway = gateway, fp_network = network, fp_guest = guest,
      fp_lan = Some (ui_interface uplink, lo_address offer)\<rparr>"
    have "nr_lan_address_override request \<in> {None, Some (lo_address offer)}"
      using offer by (cases "nr_lan_address_override request") (auto dest: select_lan_offer_override)
    then have planned: "planned_footprint sha256 request None ?fp"
      using select_private_subnet_Inr [OF select] assms by (simp add: planned_footprint_def)
    from planned show ?case
      by (rule one_footprint_issues) (auto intro!: effect_intros batch_routed split: sum.splits)
  qed
qed

lemma reconcile_host_only_footprint:
  assumes "nc_mode (pn_config network) = HostOnly"
  shows "one_footprint (planned_footprint sha256 request (Some network)) (reconcile_host_only (logged spawn) network)"
proof (cases "\<exists>gateway guest. pn_host_address network = Some (V4 gateway) \<and> nc_guest_address (pn_config network) = V4 guest")
  case True
  then obtain gateway guest where parts: "pn_host_address network = Some (V4 gateway)" "nc_guest_address (pn_config network) = V4 guest"
    by blast
  let ?fp = "\<lparr>fp_tap = nc_tap_name (pn_config network), fp_gateway = gateway, fp_network = private_guest_network guest,
    fp_guest = guest, fp_lan = None\<rparr>"
  have "planned_footprint sha256 request (Some network) ?fp" using parts assms by (simp add: planned_footprint_def)
  then show ?thesis
    by (rule one_footprint_issues)
      (auto simp: reconcile_host_only_def Let_def parts intro!: effect_intros batch_host_only split: sum.splits)
next
  case False
  then show ?thesis
    by (intro one_footprint_query)
      (auto simp: reconcile_host_only_def Let_def intro!: effect_intros split: option.splits ip_addr.splits)
qed

lemma reconcile_lan_footprint:
  assumes "nc_mode (pn_config network) = Lan"
  shows "one_footprint (planned_footprint sha256 request (Some network)) (reconcile_lan (logged spawn) network name)"
proof (cases "\<exists>gateway guest uplink lan. pn_host_address network = Some (V4 gateway) \<and> nc_guest_address (pn_config network) = V4 guest
    \<and> nc_uplink_name (pn_config network) = Some uplink \<and> nc_lan_address (pn_config network) = Some (V4 lan)")
  case True
  then obtain gateway guest uplink lan where parts: "pn_host_address network = Some (V4 gateway)"
    "nc_guest_address (pn_config network) = V4 guest" "nc_uplink_name (pn_config network) = Some uplink"
    "nc_lan_address (pn_config network) = Some (V4 lan)" by blast
  let ?fp = "\<lparr>fp_tap = nc_tap_name (pn_config network), fp_gateway = gateway, fp_network = private_guest_network guest,
    fp_guest = guest, fp_lan = Some (uplink, lan)\<rparr>"
  have "planned_footprint sha256 request (Some network) ?fp" using parts assms by (simp add: planned_footprint_def)
  then show ?thesis
    by (rule one_footprint_issues)
      (auto simp: reconcile_lan_def Let_def parts intro!: effect_intros batch_routed split: sum.splits)
next
  case False
  then show ?thesis
    by (intro one_footprint_query)
      (auto simp: reconcile_lan_def Let_def intro!: effect_intros split: option.splits ip_addr.splits)
qed

lemma reconcile_footprint:
  "one_footprint (planned_footprint sha256 request (Some network)) (reconcile (logged spawn) request network)"
proof (cases "nr_mode request \<noteq> nc_mode (pn_config network) \<or> nr_guest_mac request \<noteq> pn_guest_mac network")
  case True
  then show ?thesis by (simp add: reconcile_def one_footprint_query log.effect_return)
next
  case False
  then have eq: "reconcile (logged spawn) request network =
    bindE (case nr_mode request of HostOnly \<Rightarrow> reconcile_host_only (logged spawn) network
       | Lan \<Rightarrow> reconcile_lan (logged spawn) network (nr_vm_name request))
      (\<lambda>v. returnE (case v of (updated, applied, skipped) \<Rightarrow>
         \<lparr>no_persisted = updated, no_applied = applied, no_skipped = skipped\<rparr>))"
    by (simp add: reconcile_def case_prod_unfold)
  show ?thesis
    unfolding eq
    by (rule one_footprint_after)
      (use False reconcile_host_only_footprint reconcile_lan_footprint in \<open>auto split: NetworkMode.splits\<close>)
qed

lemma configure_footprint:
  "one_footprint (planned_footprint sha256 request existing) (configure sha256 (logged spawn) request existing used used_lan)"
  unfolding configure_def using reconcile_footprint create_host_only_footprint create_lan_footprint
  by (auto split: option.splits NetworkMode.splits)

section \<open>Properties\<close>

lemma issues_log:
  "issues A m \<Longrightarrow> m (w, log) = (r, (w', log')) \<Longrightarrow> \<exists>cs. log' = log @ cs \<and> list_all A cs"
  by (drule (1) keepsED) (simp add: extends_by_def)

text \<open>A host on which no program can be started.\<close>

definition no_programs :: "unit cmd" where
  "no_programs program arguments w = (Inl ''not found'', w)"

definition sample_config :: NetworkConfiguration where
  "sample_config = \<lparr>nc_mode = HostOnly, nc_guest_address = V4 2, nc_prefix_length = 30,
     nc_gateway = Some (V4 1), nc_tap_name = ''tm-00000000'', nc_bridge_name = None,
     nc_uplink_name = None, nc_lan_address = None\<rparr>"

definition sample_network :: PersistedNetwork where
  "sample_network = network_record sample_config sample_exact_request 2 1
     (host_only_resources ''tm-00000000'' 1 [])"

definition sample_link_query :: command where
  "sample_link_query = (''ip'', [''-d'', ''link'', ''show'', ''dev'', ''tm-00000000''])"

definition sample_delete_failure :: SdkError where
  "sample_delete_failure =
     Cleanup (Text ''network cleanup failed'') [Shown (HostCommand ''ip'' ''not found'')]"

lemma sample_delete_run:
  "cleanup_for_delete (logged no_programs) sample_network ((), [])
     = (Inl sample_delete_failure, ((), [sample_link_query]))"
  by (simp add: cleanup_for_delete_def cleanup_network_def Let_def sample_network_def
      network_record_def sample_config_def finish_cleanup_def delete_link_if_present_def
      link_exists_def link_output_def command_output_def logged_def no_programs_def bindE_def
      sample_delete_failure_def sample_link_query_def)

text \<open>(C19) Deleting a VM's network only ever runs commands on what the network record says the VM owns,
  whatever the host's programs answer: the link commands name its TAP, rules are checked and
  deleted only when rules are recorded and only those with its addresses and comment, the proxy
  neighbour and host route commands name its LAN address and need the recorded resource, and a
  host-wide switch is turned off only when the record says the SDK turned it on.\<close>

theorem cleanup_for_delete_only_owned:
  assumes "cleanup_for_delete (logged spawn) network (w, log) = (r, (w', log'))"
  shows "\<exists>cs. log' = log @ cs \<and> list_all (owned_command network) cs"
  by (rule issues_log [OF cleanup_for_delete_issues assms])

theorem cleanup_for_delete_only_owned_witness:
  "cleanup_for_delete (logged no_programs) sample_network ((), [])
     = (Inl sample_delete_failure, ((), [sample_link_query]))
   \<and> (\<exists>cs. [sample_link_query] = [] @ cs \<and> list_all (owned_command sample_network) cs)"
  using sample_delete_run cleanup_for_delete_only_owned [OF sample_delete_run] by blast

end
