(* ===== verification/Net_Firewall.thy ===== *)
theory Net_Firewall
  imports Net_Safety
begin

text \<open>
  What the network controller does to the firewall of a host whose \<open>iptables\<close> behaves as
  documented. The documented behaviour is \<open>firewall_laws\<close>; the locale \<open>firewall_host\<close> carries it, and
  its lemmas give the effect of each rule routine on the rules of the two tables: a created network has
  its rules installed. The theorems: configuring works on the footprint of one network, a creation that
  fails, and whose clean-up does not fail, leaves the firewall exactly as it found it, and the rules of a
  host-only network outlive its deletion.
\<close>

section \<open>The firewall\<close>

lemma tripleE_False [simp]: "tripleE (\<lambda>w. False) m Q E"
  by (simp add: tripleE_def)

definition exit_ok :: "string + cmd_output \<Rightarrow> bool" where
  "exit_ok r \<longleftrightarrow> (case r of Inr output \<Rightarrow> co_success output | Inl _ \<Rightarrow> False)"

definition exit_absent :: "string + cmd_output \<Rightarrow> bool" where
  "exit_absent r \<longleftrightarrow> (case r of
     Inr output \<Rightarrow> \<not> co_success output \<and> rule_absent (command_stderr output) | Inl _ \<Rightarrow> False)"

type_synonym rules = "string list list"

text \<open>What \<open>iptables\<close> is documented to do with the arguments the adapter passes: \<open>-C\<close> checks for a
  rule without changing anything, \<open>-I chain 1\<close> puts a rule in front when it succeeds, \<open>-D\<close> deletes
  the first such rule when it succeeds; other programs leave the rules alone. The rules of the
  two tables are read from the world by \<open>filt\<close> and \<open>natt\<close>.\<close>

definition firewall_laws :: "'w cmd \<Rightarrow> ('w \<Rightarrow> rules) \<Rightarrow> ('w \<Rightarrow> rules) \<Rightarrow> bool" where
  "firewall_laws spawn filt natt \<longleftrightarrow> (\<forall>program arguments w r w'.
     spawn program arguments w = (r, w') \<longrightarrow>
       (program \<noteq> ''iptables'' \<longrightarrow> filt w' = filt w \<and> natt w' = natt w) \<and>
       (program = ''iptables'' \<longrightarrow>
          (\<forall>spec. arguments = ''-C'' # spec \<longrightarrow> filt w' = filt w \<and> natt w' = natt w \<and>
             (exit_ok r \<longrightarrow> spec \<in> set (filt w)) \<and> (exit_absent r \<longrightarrow> spec \<notin> set (filt w))) \<and>
          (\<forall>chain spec. arguments = ''-I'' # chain # ''1'' # spec \<longrightarrow> natt w' = natt w \<and>
             filt w' = (if exit_ok r then (chain # spec) # filt w else filt w)) \<and>
          (\<forall>spec. arguments = ''-D'' # spec \<longrightarrow> natt w' = natt w \<and>
             filt w' = (if exit_ok r then remove1 spec (filt w) else filt w)) \<and>
          (\<forall>spec. arguments = ''-t'' # ''nat'' # ''-C'' # spec \<longrightarrow> filt w' = filt w \<and> natt w' = natt w \<and>
             (exit_ok r \<longrightarrow> spec \<in> set (natt w)) \<and> (exit_absent r \<longrightarrow> spec \<notin> set (natt w))) \<and>
          (\<forall>chain spec. arguments = ''-t'' # ''nat'' # ''-I'' # chain # ''1'' # spec \<longrightarrow>
             filt w' = filt w \<and> natt w' = (if exit_ok r then (chain # spec) # natt w else natt w)) \<and>
          (\<forall>spec. arguments = ''-t'' # ''nat'' # ''-D'' # spec \<longrightarrow> filt w' = filt w \<and>
             natt w' = (if exit_ok r then remove1 spec (natt w) else natt w))))"

definition fw :: "('w \<Rightarrow> rules) \<Rightarrow> ('w \<Rightarrow> rules) \<Rightarrow> rules \<Rightarrow> rules \<Rightarrow> 'w \<Rightarrow> bool" where
  "fw filt natt F N w \<longleftrightarrow> filt w = F \<and> natt w = N"

lemma law_cases:
  assumes "firewall_laws spawn filt natt" "spawn program arguments w = (r, w')"
  shows "program \<noteq> ''iptables'' \<Longrightarrow> filt w' = filt w \<and> natt w' = natt w"
    and "program = ''iptables'' \<Longrightarrow> arguments = ''-C'' # spec \<Longrightarrow>
      filt w' = filt w \<and> natt w' = natt w \<and> (exit_ok r \<longrightarrow> spec \<in> set (filt w))
      \<and> (exit_absent r \<longrightarrow> spec \<notin> set (filt w))"
    and "program = ''iptables'' \<Longrightarrow> arguments = ''-I'' # chain # ''1'' # spec \<Longrightarrow>
      natt w' = natt w \<and> filt w' = (if exit_ok r then (chain # spec) # filt w else filt w)"
    and "program = ''iptables'' \<Longrightarrow> arguments = ''-D'' # spec \<Longrightarrow>
      natt w' = natt w \<and> filt w' = (if exit_ok r then remove1 spec (filt w) else filt w)"
    and "program = ''iptables'' \<Longrightarrow> arguments = ''-t'' # ''nat'' # ''-C'' # spec \<Longrightarrow>
      filt w' = filt w \<and> natt w' = natt w \<and> (exit_ok r \<longrightarrow> spec \<in> set (natt w))
      \<and> (exit_absent r \<longrightarrow> spec \<notin> set (natt w))"
    and "program = ''iptables'' \<Longrightarrow> arguments = ''-t'' # ''nat'' # ''-I'' # chain # ''1'' # spec \<Longrightarrow>
      filt w' = filt w \<and> natt w' = (if exit_ok r then (chain # spec) # natt w else natt w)"
    and "program = ''iptables'' \<Longrightarrow> arguments = ''-t'' # ''nat'' # ''-D'' # spec \<Longrightarrow>
      filt w' = filt w \<and> natt w' = (if exit_ok r then remove1 spec (natt w) else natt w)"
  using assms unfolding firewall_laws_def by metis+

lemma command_output_triple:
  assumes "\<And>w r w'. P w \<Longrightarrow> spawn program arguments w = (r, w') \<Longrightarrow> Q w'"
  shows "tripleE P (command_output spawn program arguments) (\<lambda>_. Q) (\<lambda>_. Q)"
  unfolding tripleE_def command_output_def by (auto split: prod.splits sum.splits dest: assms)

lemma run_command_triple:
  assumes "\<And>w r w'. P w \<Longrightarrow> spawn program arguments w = (r, w') \<Longrightarrow> if exit_ok r then Q w' else E w'"
  shows "tripleE P (run_command spawn program arguments) (\<lambda>_. Q) (\<lambda>_. E)"
  unfolding tripleE_def run_command_def bindE_def command_output_def
  by (auto split: prod.splits sum.splits dest: assms simp: exit_ok_def)

lemma iptables_check_triple:
  assumes "\<And>w r w'. P w \<Longrightarrow> spawn ''iptables'' arguments w = (r, w') \<Longrightarrow>
    E w' \<and> (exit_ok r \<longrightarrow> Q True w') \<and> (exit_absent r \<longrightarrow> Q False w')"
  shows "tripleE P (iptables_check spawn arguments) Q (\<lambda>_. E)"
  unfolding tripleE_def iptables_check_def bindE_def command_output_def
  by (auto split: prod.splits sum.splits dest: assms simp: exit_ok_def exit_absent_def)

locale firewall_host =
  fixes spawn :: "'w cmd" and filt natt :: "'w \<Rightarrow> rules"
  assumes laws: "firewall_laws spawn filt natt"
begin

abbreviation FW :: "rules \<Rightarrow> rules \<Rightarrow> 'w \<Rightarrow> bool" where
  "FW \<equiv> fw filt natt"

lemma fw_command_output:
  "program \<noteq> ''iptables'' \<Longrightarrow>
   tripleE (FW F N) (command_output spawn program arguments) (\<lambda>_. FW F N) (\<lambda>_. FW F N)"
  by (rule command_output_triple) (auto simp: fw_def dest: law_cases(1) [OF laws])

lemma fw_run_command:
  "program \<noteq> ''iptables'' \<Longrightarrow>
   tripleE (FW F N) (run_command spawn program arguments) (\<lambda>_. FW F N) (\<lambda>_. FW F N)"
  by (rule run_command_triple) (auto simp: fw_def dest: law_cases(1) [OF laws])

lemma fw_rule_exists:
  "tripleE (FW F N) (iptables_rule_exists spawn spec)
     (\<lambda>present w. FW F N w \<and> (present \<longleftrightarrow> spec \<in> set F)) (\<lambda>_. FW F N)"
  unfolding iptables_rule_exists_def
  by (rule iptables_check_triple) (auto simp: fw_def dest!: law_cases(2) [OF laws _ refl refl])

lemma fw_nat_rule_exists:
  "tripleE (FW F N) (iptables_nat_rule_exists spawn spec)
     (\<lambda>present w. FW F N w \<and> (present \<longleftrightarrow> spec \<in> set N)) (\<lambda>_. FW F N)"
  unfolding iptables_nat_rule_exists_def nat_check_arguments_def append_Cons append_Nil
  by (rule iptables_check_triple) (auto simp: fw_def dest!: law_cases(5) [OF laws _ refl refl])

lemma fw_insert:
  "tripleE (FW F N) (run_command spawn ''iptables'' (''-I'' # chain # ''1'' # spec))
     (\<lambda>_. FW ((chain # spec) # F) N) (\<lambda>_. FW F N)"
  by (rule run_command_triple) (auto simp: fw_def dest!: law_cases(3) [OF laws _ refl refl])

lemma fw_delete:
  "tripleE (FW F N) (run_command spawn ''iptables'' (''-D'' # spec))
     (\<lambda>_. FW (remove1 spec F) N) (\<lambda>_. FW F N)"
  by (rule run_command_triple) (auto simp: fw_def dest!: law_cases(4) [OF laws _ refl refl])

lemma fw_nat_insert:
  "tripleE (FW F N) (run_command spawn ''iptables'' (''-t'' # ''nat'' # ''-I'' # chain # ''1'' # spec))
     (\<lambda>_. FW F ((chain # spec) # N)) (\<lambda>_. FW F N)"
  by (rule run_command_triple) (auto simp: fw_def dest!: law_cases(6) [OF laws _ refl refl])

lemma fw_nat_delete:
  "tripleE (FW F N) (run_command spawn ''iptables'' (''-t'' # ''nat'' # ''-D'' # spec))
     (\<lambda>_. FW F (remove1 spec N)) (\<lambda>_. FW F N)"
  by (rule run_command_triple) (auto simp: fw_def dest!: law_cases(7) [OF laws _ refl refl])

lemma fw_run_forward_spec:
  assumes "spec \<noteq> []" "hd spec \<noteq> ''POSTROUTING''"
  shows "tripleE (FW F N) (run_iptables_spec spawn spec)
     (\<lambda>_. FW (if spec \<in> set F then F else spec # F) N) (\<lambda>_. FW F N)"
proof -
  have eq: "run_iptables_spec spawn spec = bindE (iptables_rule_exists spawn spec) (\<lambda>present.
     if present then returnE ()
     else run_command spawn ''iptables'' (''-I'' # hd spec # ''1'' # tl spec))"
    using assms by (simp add: run_iptables_spec_def iptables_add_rule_def cong: if_cong)
  show ?thesis
    unfolding eq
  proof (rule tripleE_bind [OF fw_rule_exists])
    fix present
    show "tripleE (\<lambda>w. FW F N w \<and> (present \<longleftrightarrow> spec \<in> set F))
      (if present then returnE ()
       else run_command spawn ''iptables'' (''-I'' # hd spec # ''1'' # tl spec))
      (\<lambda>_. FW (if spec \<in> set F then F else spec # F) N) (\<lambda>_. FW F N)"
      using assms
      by (cases present)
        (auto intro!: tripleE_return intro: tripleE_conseq [OF fw_insert [of F N "hd spec" "tl spec"]])
  qed
qed

lemma fw_run_nat_spec:
  assumes "spec \<noteq> []" "hd spec = ''POSTROUTING''"
  shows "tripleE (FW F N) (run_iptables_spec spawn spec) (\<lambda>_. FW F (spec # N)) (\<lambda>_. FW F N)"
  using assms fw_nat_insert [of F N "''POSTROUTING''" "tl spec"]
  by (cases spec) (simp_all add: run_iptables_spec_def)

lemma fw_delete_forward_spec:
  assumes "spec \<noteq> []" "hd spec \<noteq> ''POSTROUTING''"
  shows "tripleE (FW F N) (delete_iptables_spec spawn spec) (\<lambda>_. FW (remove1 spec F) N) (\<lambda>_. FW F N)"
proof -
  have eq: "delete_iptables_spec spawn spec = bindE (iptables_rule_exists spawn spec) (\<lambda>present.
     if \<not> present then returnE () else run_command spawn ''iptables'' (''-D'' # spec))"
    using assms by (simp add: delete_iptables_spec_def iptables_delete_rule_def)
  show ?thesis
    unfolding eq
  proof (rule tripleE_bind [OF fw_rule_exists])
    fix present
    show "tripleE (\<lambda>w. FW F N w \<and> (present \<longleftrightarrow> spec \<in> set F))
      (if \<not> present then returnE () else run_command spawn ''iptables'' (''-D'' # spec))
      (\<lambda>_. FW (remove1 spec F) N) (\<lambda>_. FW F N)"
      by (cases present)
        (auto intro!: tripleE_return simp: remove1_idem intro: tripleE_conseq [OF fw_delete])
  qed
qed

lemma fw_delete_nat_spec:
  assumes "spec \<noteq> []" "hd spec = ''POSTROUTING''"
  shows "tripleE (FW F N) (delete_iptables_spec spawn spec) (\<lambda>_. FW F (remove1 spec N)) (\<lambda>_. FW F N)"
proof -
  have eq: "delete_iptables_spec spawn spec = bindE (iptables_nat_rule_exists spawn spec) (\<lambda>present.
     if \<not> present then returnE ()
     else run_command spawn ''iptables'' (''-t'' # ''nat'' # ''-D'' # spec))"
    using assms by (simp add: delete_iptables_spec_def nat_delete_arguments_def cong: if_cong)
  show ?thesis
    unfolding eq
  proof (rule tripleE_bind [OF fw_nat_rule_exists])
    fix present
    show "tripleE (\<lambda>w. FW F N w \<and> (present \<longleftrightarrow> spec \<in> set N))
      (if \<not> present then returnE () else run_command spawn ''iptables'' (''-t'' # ''nat'' # ''-D'' # spec))
      (\<lambda>_. FW F (remove1 spec N)) (\<lambda>_. FW F N)"
      by (cases present)
        (auto intro!: tripleE_return simp: remove1_idem intro: tripleE_conseq [OF fw_nat_delete])
  qed
qed

end

text \<open>No rule of the table carries the ownership comment of the TAP device.\<close>

definition fresh_tap :: "string \<Rightarrow> rules \<Rightarrow> bool" where
  "fresh_tap tap rs \<longleftrightarrow> (\<forall>spec \<in> set rs. \<not> rule_of tap spec)"

text \<open>An attempt in progress: the rules it has added so far stand in front of those it found, and each
  kind of rule it added is recorded among the applied resources.\<close>

definition added :: "('w \<Rightarrow> rules) \<Rightarrow> ('w \<Rightarrow> rules) \<Rightarrow> rules \<Rightarrow> string list \<Rightarrow> rules \<Rightarrow> rules
    \<Rightarrow> 'w net \<Rightarrow> bool" where
  "added filt natt specs nspec F N = (\<lambda>(w, applied, skipped).
     \<exists>A B. fw filt natt (A @ F) (B @ N) w \<and> distinct A \<and> set A \<subseteq> set specs \<and> (B = [] \<or> B = [nspec])
       \<and> (A \<noteq> [] \<longrightarrow> ForwardRule \<in> set applied) \<and> (B \<noteq> [] \<longrightarrow> IptablesNat \<in> set applied))"

lemma addedI:
  "fw filt natt (A @ F) (B @ N) w \<Longrightarrow> distinct A \<Longrightarrow> set A \<subseteq> set specs \<Longrightarrow> B = [] \<or> B = [nspec] \<Longrightarrow>
   (A \<noteq> [] \<Longrightarrow> ForwardRule \<in> set a) \<Longrightarrow> (B \<noteq> [] \<Longrightarrow> IptablesNat \<in> set a) \<Longrightarrow>
   added filt natt specs nspec F N (w, a, s)"
  unfolding added_def by blast

definition same_rules :: "('w \<Rightarrow> rules) \<Rightarrow> ('w \<Rightarrow> rules) \<Rightarrow> 'w \<Rightarrow> 'w \<Rightarrow> bool" where
  "same_rules filt natt w w' \<longleftrightarrow> filt w' = filt w \<and> natt w' = natt w"

sublocale firewall_host \<subseteq> quiet: command_effect "same_rules filt natt" spawn
    "\<lambda>(program, arguments). program \<noteq> ''iptables''"
proof unfold_locales
  show "reflp (same_rules filt natt)" by (rule reflpI) (simp add: same_rules_def)
  show "transp (same_rules filt natt)" by (rule transpI) (simp add: same_rules_def)
qed (use law_cases(1) [OF laws] in \<open>auto simp: same_rules_def\<close>)

context firewall_host
begin

abbreviation net_fw :: "rules \<Rightarrow> rules \<Rightarrow> 'w net \<Rightarrow> bool" where
  "net_fw F N \<equiv> (\<lambda>(w, applied, skipped). fw filt natt F N w)"

lemma quiet_triple:
  "keepsE (net_rel (same_rules filt natt)) m \<Longrightarrow>
   tripleE (net_fw F N) m (\<lambda>_. net_fw F N) (\<lambda>_. net_fw F N)"
  unfolding tripleE_def keepsE_def net_rel_def same_rules_def fw_def
  by (fastforce split: prod.splits sum.splits)

lemma on_host_triple:
  "tripleE P m Q E \<Longrightarrow>
   tripleE (\<lambda>(w, a, s). P w \<and> C a s) (on_host m) (\<lambda>x (w, a, s). Q x w \<and> C a s) (\<lambda>e (w, a, s). E e w \<and> C a s)"
  unfolding tripleE_def on_host_def by (fastforce split: prod.splits sum.splits)

lemma quiet_ensure:
  "keepsE (net_rel (same_rules filt natt)) (ensure_tap spawn tap mode)"
  "keepsE (net_rel (same_rules filt natt)) (ensure_tap_address spawn tap gateway)"
  "keepsE (net_rel (same_rules filt natt)) (ensure_forwarding spawn)"
  "keepsE (net_rel (same_rules filt natt)) (ensure_proxy_arp spawn uplink)"
  "keepsE (net_rel (same_rules filt natt)) (ensure_routed_host spawn identity tap lan gateway)"
  unfolding configure_defs by (auto intro!: effect_intros)

lemma add_forward_rules_triple:
  assumes "distinct specs" "set specs \<inter> set F = {}"
    "\<And>spec. spec \<in> set specs \<Longrightarrow> spec \<noteq> [] \<and> hd spec \<noteq> ''POSTROUTING''"
  shows "tripleE (net_fw F N) (add_forward_rules spawn specs)
    (\<lambda>_ (w, a, s). FW (rev specs @ F) N w \<and> (specs \<noteq> [] \<longrightarrow> ForwardRule \<in> set a))
    (\<lambda>_. added filt natt specs nspec F N)"
proof -
  let ?I = "\<lambda>dn. \<lambda>(w, a, s). FW (rev dn @ F) N w \<and> (dn \<noteq> [] \<longrightarrow> ForwardRule \<in> set a)"
  have body: "tripleE (?I dn) (bindE (on_host (run_iptables_spec spawn x)) (\<lambda>_. push_applied ForwardRule))
      (\<lambda>_. ?I (dn @ [x])) (\<lambda>_. added filt natt specs nspec F N)"
    if eq: "specs = dn @ x # rest" for dn x rest
  proof (rule tripleE_bind)
    have x: "x \<noteq> []" "hd x \<noteq> ''POSTROUTING''" "x \<notin> set (rev dn @ F)"
      using assms eq by auto
    from on_host_triple [OF fw_run_forward_spec [OF x(1,2), of "rev dn @ F" N]]
    show "tripleE (?I dn) (on_host (run_iptables_spec spawn x))
      (\<lambda>_ (w, a, s). FW (x # rev dn @ F) N w \<and> (dn \<noteq> [] \<longrightarrow> ForwardRule \<in> set a))
      (\<lambda>_. added filt natt specs nspec F N)"
    proof (rule tripleE_conseq)
      fix e :: SdkError and st :: "'w net"
      assume "case st of (w, a, s) \<Rightarrow> FW (rev dn @ F) N w \<and> (dn \<noteq> [] \<longrightarrow> ForwardRule \<in> set a)"
      then show "added filt natt specs nspec F N st"
        using assms(1) eq by (cases st) (auto intro!: addedI [where A = "rev dn" and B = "[]"])
    qed (use x(3) in auto)
    show "tripleE (\<lambda>(w, a, s). FW (x # rev dn @ F) N w \<and> (dn \<noteq> [] \<longrightarrow> ForwardRule \<in> set a))
      (push_applied ForwardRule) (\<lambda>_. ?I (dn @ [x])) (\<lambda>_. added filt natt specs nspec F N)" for u
      by (auto simp: tripleE_def push_applied_def)
  qed
  have "tripleE (?I []) (add_forward_rules spawn specs) (\<lambda>_. ?I specs)
      (\<lambda>_. added filt natt specs nspec F N)"
    unfolding add_forward_rules_def by (rule tripleE_for [OF body])
  then show ?thesis by (rule tripleE_conseq) auto
qed

definition install :: "rules \<Rightarrow> string list \<Rightarrow> ('w net, unit) sdk_io" where
  "install specs nspec =
     bindE (add_forward_rules spawn specs) (\<lambda>_.
     bindE (on_host (run_iptables_spec spawn nspec)) (\<lambda>_. push_applied IptablesNat))"

lemma install_triple:
  assumes "distinct specs" "specs \<noteq> []" "set specs \<inter> set F = {}"
    "\<And>spec. spec \<in> set specs \<Longrightarrow> spec \<noteq> [] \<and> hd spec \<noteq> ''POSTROUTING''"
    "nspec \<noteq> []" "hd nspec = ''POSTROUTING''"
  shows "tripleE (net_fw F N) (install specs nspec)
    (\<lambda>_. net_fw (rev specs @ F) (nspec # N)) (\<lambda>_. added filt natt specs nspec F N)"
  unfolding install_def
proof (rule tripleE_bind [OF add_forward_rules_triple [OF assms(1,3,4)]])
  fix u
  show "tripleE (\<lambda>(w, a, s). FW (rev specs @ F) N w \<and> (specs \<noteq> [] \<longrightarrow> ForwardRule \<in> set a))
    (bindE (on_host (run_iptables_spec spawn nspec)) (\<lambda>_. push_applied IptablesNat))
    (\<lambda>_. net_fw (rev specs @ F) (nspec # N)) (\<lambda>_. added filt natt specs nspec F N)"
  proof (rule tripleE_bind)
    from on_host_triple [OF fw_run_nat_spec [OF assms(5,6), of "rev specs @ F" N]]
    show "tripleE (\<lambda>(w, a, s). FW (rev specs @ F) N w \<and> (specs \<noteq> [] \<longrightarrow> ForwardRule \<in> set a))
      (on_host (run_iptables_spec spawn nspec)) (\<lambda>_. net_fw (rev specs @ F) (nspec # N))
      (\<lambda>_. added filt natt specs nspec F N)"
    proof (rule tripleE_conseq)
      fix e :: SdkError and st :: "'w net"
      assume "case st of (w, a, s) \<Rightarrow>
        FW (rev specs @ F) N w \<and> (specs \<noteq> [] \<longrightarrow> ForwardRule \<in> set a)"
      then show "added filt natt specs nspec F N st"
        using assms(1) by (cases st) (auto intro!: addedI [where A = "rev specs" and B = "[]"])
    qed auto
  qed (auto simp: tripleE_def push_applied_def)
qed

lemma net_fw_added: "net_fw F N st \<Longrightarrow> added filt natt specs nspec F N st"
  by (cases st) (auto intro!: addedI [where A = "[]" and B = "[]"])

lemma quiet_before:
  assumes "keepsE (net_rel (same_rules filt natt)) m"
    and "\<And>x. tripleE (net_fw F N) (f x) Q (\<lambda>_. added filt natt specs nspec F N)"
  shows "tripleE (net_fw F N) (bindE m f) Q (\<lambda>_. added filt natt specs nspec F N)"
proof (rule tripleE_bind)
  show "tripleE (net_fw F N) m (\<lambda>_. net_fw F N) (\<lambda>_. added filt natt specs nspec F N)"
    by (rule tripleE_conseq [OF quiet_triple [OF assms(1)]]) (auto intro: net_fw_added)
qed (rule assms(2))

section \<open>Undoing an attempt\<close>

definition batchT :: "('w \<Rightarrow> bool) \<Rightarrow> ('w \<Rightarrow> message list \<times> 'w) \<Rightarrow> ('w \<Rightarrow> bool) \<Rightarrow> bool" where
  "batchT P m Q \<longleftrightarrow> (\<forall>w w'. P w \<longrightarrow> m w = ([], w') \<longrightarrow> Q w')"

lemma collect_failures_skip: "collect_failures ((False, m) # steps) = collect_failures steps"
  by (rule ext) simp

lemma batchT_cons:
  assumes "g \<Longrightarrow> tripleE P m (\<lambda>_. P') (\<lambda>_ _. True)" "\<And>w. \<not> g \<Longrightarrow> P w \<Longrightarrow> P' w"
    "batchT P' (collect_failures steps) Q"
  shows "batchT P (collect_failures ((g, m) # steps)) Q"
proof -
  have "Q w'" if w: "P w" "collect_failures ((g, m) # steps) w = ([], w')" for w w'
  proof (cases g)
    case True
    obtain r w1 where m: "m w = (r, w1)" by (cases "m w") blast
    with w(2) True obtain u where r: "r = Inr u" and rest: "collect_failures steps w1 = ([], w')"
      by (cases r) (auto split: prod.splits)
    have "P' w1" using tripleE_Inr [OF assms(1) [OF True] w(1)] m r by blast
    with rest assms(3) show ?thesis unfolding batchT_def by blast
  next
    case False
    with w have "P' w" "collect_failures steps w = ([], w')" using assms(2) by simp_all
    with assms(3) show ?thesis unfolding batchT_def by blast
  qed
  then show ?thesis unfolding batchT_def by blast
qed

lemma batchT_quiet:
  "keepsB (same_rules filt natt) m \<Longrightarrow> batchT (FW F N) m (FW F N)"
  unfolding batchT_def keepsB_def same_rules_def fw_def by metis

lemma fw_delete_added:
  assumes "spec \<noteq> []" "hd spec \<noteq> ''POSTROUTING''" "spec \<notin> set F"
  shows "tripleE (FW (A @ F) N) (delete_iptables_spec spawn spec)
    (\<lambda>_. FW (remove1 spec A @ F) N) (\<lambda>_. FW (A @ F) N)"
proof -
  have "remove1 spec (A @ F) = remove1 spec A @ F"
    using assms(3) by (auto simp: remove1_append remove1_idem)
  then show ?thesis using fw_delete_forward_spec [OF assms(1,2), of "A @ F" N] by simp
qed

lemma fw_delete_added_nat:
  assumes "nspec \<noteq> []" "hd nspec = ''POSTROUTING''" "nspec \<notin> set N" "B = [] \<or> B = [nspec]"
  shows "tripleE (FW F (B @ N)) (delete_iptables_spec spawn nspec) (\<lambda>_. FW F N) (\<lambda>_ _. True)"
proof -
  have "remove1 nspec (B @ N) = N" using assms(3,4) by (auto simp: remove1_idem)
  with fw_delete_nat_spec [OF assms(1,2), of F "B @ N"] show ?thesis
    by (auto intro: tripleE_conseq)
qed

lemma fold_remove1_empty:
  "distinct A \<Longrightarrow> set A \<subseteq> set specs \<Longrightarrow> fold remove1 specs A = []"
proof (induction specs arbitrary: A)
  case (Cons spec specs)
  then have "set (remove1 spec A) \<subseteq> set specs" by (auto simp: set_remove1_eq)
  with Cons show ?case by (simp add: distinct_remove1)
qed simp

lemma batchT_delete_specs:
  assumes "\<And>spec. spec \<in> set specs \<Longrightarrow> spec \<noteq> [] \<and> hd spec \<noteq> ''POSTROUTING'' \<and> spec \<notin> set F"
    and "batchT (FW (fold remove1 specs A @ F) N) (collect_failures steps) Q"
  shows "batchT (FW (A @ F) N)
    (collect_failures (map (\<lambda>spec. (True, delete_iptables_spec spawn spec)) specs @ steps)) Q"
  using assms
proof (induction specs arbitrary: A)
  case Nil
  then show ?case by simp
next
  case (Cons spec specs)
  have "tripleE (FW (A @ F) N) (delete_iptables_spec spawn spec)
      (\<lambda>_. FW (remove1 spec A @ F) N) (\<lambda>_ _. True)"
    using fw_delete_added [of spec F A N] Cons.prems(1) [of spec] by (auto intro: tripleE_conseq)
  moreover have "batchT (FW (remove1 spec A @ F) N) (collect_failures
      (map (\<lambda>spec. (True, delete_iptables_spec spawn spec)) specs @ steps)) Q"
    using Cons by simp
  ultimately show ?case
    by (simp del: collect_failures.simps) (rule batchT_cons, simp_all)
qed

lemma with_vectors_triple:
  "tripleE (\<lambda>(w, a, s). P w) m Q E \<Longrightarrow>
   tripleE P (with_vectors m)
     (\<lambda>(r, a, s) w. case r of Inr x \<Rightarrow> Q x (w, a, s) | Inl e \<Rightarrow> E e (w, a, s)) E'"
  unfolding tripleE_def with_vectors_def by (fastforce split: prod.splits sum.splits)

lemma quiet_host_triple:
  "keepsE (same_rules filt natt) m \<Longrightarrow> tripleE (FW F N) m (\<lambda>_. FW F N) (\<lambda>_. FW F N)"
  unfolding tripleE_def keepsE_def same_rules_def fw_def by (fastforce split: prod.splits sum.splits)

lemma quiet_queries:
  "keepsE (same_rules filt natt) (live_ipv4_addresses spawn)"
  "keepsE (same_rules filt natt) (forwarding_enabled spawn)"
  "keepsE (same_rules filt natt) (proxy_arp_enabled spawn uplink)"
  "keepsE (same_rules filt natt) (delete_link_if_present spawn tap)"
  "keepsE (same_rules filt natt) (disable_forwarding spawn)"
  unfolding live_ipv4_addresses_def by (auto intro!: effect_intros)

lemma rollback_triple:
  "batchT P m Q \<Longrightarrow> tripleE P (rollback primary m) R (\<lambda>e w. (\<nexists>p fs. e = Cleanup p fs) \<longrightarrow> Q w)"
  unfolding tripleE_def rollback_def batchT_def with_cleanup_failures_def
  by (auto split: prod.splits if_splits)

lemma undo_host_only:
  assumes fresh: "set (host_only_forward_specs tap guest) \<inter> set F = {}"
    "host_only_nat_spec tap network \<notin> set N"
  shows "batchT
    (\<lambda>w. added filt natt (host_only_forward_specs tap guest) (host_only_nat_spec tap network) F N
      (w, applied, skipped))
    (cleanup_host_only_attempt spawn tap network guest applied was_enabled) (FW F N)"
proof -
  let ?specs = "host_only_forward_specs tap guest" and ?nspec = "host_only_nat_spec tap network"
  let ?rest = "[(Tap \<in> set applied, delete_link_if_present spawn tap),
     (Forwarding \<in> set applied \<and> \<not> was_enabled, disable_forwarding spawn)]"
  have heads: "spec \<noteq> [] \<and> hd spec \<noteq> ''POSTROUTING'' \<and> spec \<notin> set F" if "spec \<in> set ?specs" for spec
    using that fresh by (auto simp: host_only_forward_specs_def)
  have nspec: "?nspec \<noteq> []" "hd ?nspec = ''POSTROUTING''"
    by (simp_all add: host_only_nat_spec_def)
  have rest: "batchT (FW F N) (collect_failures ?rest) (FW F N)"
    by (rule batchT_quiet, rule quiet.batch_collect) (simp add: quiet_queries)
  have natdel: "batchT (FW F (B @ N)) (collect_failures
      ((IptablesNat \<in> set applied, delete_iptables_spec spawn ?nspec) # ?rest)) (FW F N)"
    if "B = [] \<or> B = [?nspec]" "B \<noteq> [] \<longrightarrow> IptablesNat \<in> set applied" for B
    by (rule batchT_cons [OF fw_delete_added_nat [OF nspec fresh(2) that(1)]])
      (use that rest in auto)
  have "batchT (FW (A @ F) (B @ N))
      (cleanup_host_only_attempt spawn tap network guest applied was_enabled) (FW F N)"
    if AB: "distinct A" "set A \<subseteq> set ?specs" "B = [] \<or> B = [?nspec]"
      "A \<noteq> [] \<longrightarrow> ForwardRule \<in> set applied" "B \<noteq> [] \<longrightarrow> IptablesNat \<in> set applied" for A B
  proof (cases "ForwardRule \<in> set applied")
    case True
    show ?thesis
      using batchT_delete_specs [where specs = ?specs and A = A and N = "B @ N", OF heads]
        natdel [OF AB(3,5)]
      by (simp add: cleanup_host_only_attempt_def True fold_remove1_empty [OF AB(1,2)]
          del: collect_failures.simps)
  next
    case False
    then have "A = []" using AB by blast
    with natdel [OF AB(3,5)] False show ?thesis
      by (simp add: cleanup_host_only_attempt_def host_only_forward_specs_def collect_failures_skip
          del: collect_failures.simps)
  qed
  then show ?thesis unfolding batchT_def added_def by fast
qed

lemma fresh_tap_specs:
  "fresh_tap tap F \<Longrightarrow> list_all (rule_of tap) specs \<Longrightarrow> set specs \<inter> set F = {}"
  by (auto simp: fresh_tap_def list_all_iff)

lemma fresh_tap_nat: "fresh_tap tap N \<Longrightarrow> rule_of tap spec \<Longrightarrow> spec \<notin> set N"
  by (auto simp: fresh_tap_def)

lemma quiet_bind:
  "keepsE (same_rules filt natt) m \<Longrightarrow> (\<And>x. tripleE (FW F N) (f x) Q E) \<Longrightarrow>
   (\<And>e w. FW F N w \<Longrightarrow> E e w) \<Longrightarrow> tripleE (FW F N) (bindE m f) Q E"
  by (rule tripleE_bind [where R = "\<lambda>_. FW F N"])
    (auto intro: tripleE_conseq [OF quiet_host_triple [of m F N]])

lemma lift_bind:
  "(\<And>x. r = Inr x \<Longrightarrow> tripleE P (f x) Q E) \<Longrightarrow> (\<And>e w. P w \<Longrightarrow> E e w) \<Longrightarrow>
   tripleE P (bindE (liftE r) f) Q E"
  by (cases r) (auto simp: tripleE_def bindE_def)

text \<open>An attempt with its rollback.\<close>

lemma attempt_triple:
  assumes "tripleE (net_fw F N) m (\<lambda>_. net_fw F' N') (\<lambda>_. added filt natt specs nspec F N)"
    and "\<And>applied skipped. batchT (\<lambda>w. added filt natt specs nspec F N (w, applied, skipped))
      (undo applied) (FW F N)"
  shows "tripleE (FW F N)
    (bindE (with_vectors m) (\<lambda>(result, applied, skipped).
       case result of Inr x \<Rightarrow> returnE (out x applied skipped) | Inl primary \<Rightarrow> rollback primary (undo applied)))
    (\<lambda>y w. (\<exists>x applied skipped. y = out x applied skipped) \<and> FW F' N' w)
    (\<lambda>e w. (\<nexists>p fs. e = Cleanup p fs) \<longrightarrow> FW F N w)"
proof (rule tripleE_bind [OF with_vectors_triple [OF assms(1)]])
  fix x :: "(SdkError + 'a) \<times> NetworkResource list \<times> NetworkResource list"
  obtain r a s where x: "x = (r, a, s)" by (cases x)
  show "tripleE ((\<lambda>(r, a, s) w. case r of Inl e \<Rightarrow> added filt natt specs nspec F N (w, a, s)
        | Inr x \<Rightarrow> net_fw F' N' (w, a, s)) x)
     (case x of (result, applied, skipped) \<Rightarrow>
        case result of Inr x \<Rightarrow> returnE (out x applied skipped) | Inl primary \<Rightarrow> rollback primary (undo applied))
     (\<lambda>y w. (\<exists>x applied skipped. y = out x applied skipped) \<and> FW F' N' w)
     (\<lambda>e w. (\<nexists>p fs. e = Cleanup p fs) \<longrightarrow> FW F N w)"
    using rollback_triple [OF assms(2) [of a s]]
    by (cases r) (auto simp: x intro!: tripleE_return)
qed

lemma host_only_specs_facts:
  "distinct (host_only_forward_specs tap guest)" "host_only_forward_specs tap guest \<noteq> []"
  "spec \<in> set (host_only_forward_specs tap guest) \<Longrightarrow> spec \<noteq> [] \<and> hd spec \<noteq> ''POSTROUTING''"
  "host_only_nat_spec tap network \<noteq> []" "hd (host_only_nat_spec tap network) = ''POSTROUTING''"
  by (auto simp: host_only_forward_specs_def host_only_nat_spec_def)

lemma push_applied_fw: "tripleE (net_fw F N) (push_applied r) (\<lambda>_. net_fw F N) E"
  by (auto simp: tripleE_def push_applied_def)

lemma host_only_closure:
  assumes "fresh_tap tap F"
  shows "tripleE (net_fw F N)
    (bindE (ensure_tap spawn tap HostOnly) (\<lambda>_.
     bindE (ensure_tap_address spawn tap gateway) (\<lambda>_.
     bindE (ensure_forwarding spawn) (\<lambda>_.
     bindE (ensure_iptables_host_only spawn tap network guest) (\<lambda>_.
     push_applied FirecrackerInterface)))))
    (\<lambda>_. net_fw (rev (host_only_forward_specs tap guest) @ F) (host_only_nat_spec tap network # N))
    (\<lambda>_. added filt natt (host_only_forward_specs tap guest) (host_only_nat_spec tap network) F N)"
proof -
  have "ensure_iptables_host_only spawn tap network guest
      = install (host_only_forward_specs tap guest) (host_only_nat_spec tap network)"
    by (simp add: ensure_iptables_host_only_def install_def)
  moreover have "set (host_only_forward_specs tap guest) \<inter> set F = {}"
    using assms by (rule fresh_tap_specs) simp
  then have "tripleE (net_fw F N)
      (install (host_only_forward_specs tap guest) (host_only_nat_spec tap network))
      (\<lambda>_. net_fw (rev (host_only_forward_specs tap guest) @ F) (host_only_nat_spec tap network # N))
      (\<lambda>_. added filt natt (host_only_forward_specs tap guest) (host_only_nat_spec tap network) F N)"
    by (intro install_triple host_only_specs_facts)
  ultimately have "tripleE (net_fw F N) (ensure_iptables_host_only spawn tap network guest)
    (\<lambda>_. net_fw (rev (host_only_forward_specs tap guest) @ F) (host_only_nat_spec tap network # N))
    (\<lambda>_. added filt natt (host_only_forward_specs tap guest) (host_only_nat_spec tap network) F N)"
    by simp
  from tripleE_bind [OF this push_applied_fw] show ?thesis
    by (intro quiet_before [OF quiet_ensure(1)] quiet_before [OF quiet_ensure(2)]
        quiet_before [OF quiet_ensure(3)])
qed

definition host_only_installed :: "string \<Rightarrow> rules \<Rightarrow> rules \<Rightarrow> NetworkOutcome \<Rightarrow> 'w \<Rightarrow> bool" where
  "host_only_installed tap F N out w \<longleftrightarrow>
     nc_mode (pn_config (no_persisted out)) = HostOnly \<and> nc_tap_name (pn_config (no_persisted out)) = tap
     \<and> (\<exists>guest network. nc_guest_address (pn_config (no_persisted out)) = V4 guest
          \<and> guest = network + 2 \<and> network AND NOT 3 = network
          \<and> FW (rev (host_only_forward_specs tap guest) @ F) (host_only_nat_spec tap network # N) w)"

lemma create_host_only_triple:
  assumes "fresh_tap (tap_name sha256 (nr_vm_name request)) F"
    "fresh_tap (tap_name sha256 (nr_vm_name request)) N"
  shows "tripleE (FW F N) (create_host_only sha256 spawn request used)
    (host_only_installed (tap_name sha256 (nr_vm_name request)) F N)
    (\<lambda>e w. (\<nexists>p fs. e = Cleanup p fs) \<longrightarrow> FW F N w)"
  unfolding create_host_only_def Let_def
proof (intro quiet_bind [OF quiet_queries(1)] lift_bind, goal_cases)
  case (1 live x)
  obtain network gateway guest where x: "x = (network, gateway, guest)" by (cases x)
  let ?tap = "tap_name sha256 (nr_vm_name request)"
  have "set (host_only_forward_specs ?tap guest) \<inter> set F = {}"
    using assms(1) by (rule fresh_tap_specs) simp
  moreover have "host_only_nat_spec ?tap network \<notin> set N"
    using assms(2) by (rule fresh_tap_nat) simp
  ultimately have undo: "batchT (\<lambda>w. added filt natt (host_only_forward_specs ?tap guest)
      (host_only_nat_spec ?tap network) F N (w, applied, skipped))
      (cleanup_host_only_attempt spawn ?tap network guest applied was) (FW F N)" for applied skipped was
    by (rule undo_host_only)
  show ?case
    unfolding x prod.case
  proof (intro quiet_bind [OF quiet_queries(2)] tripleE_conseq
      [OF attempt_triple [OF host_only_closure [OF assms(1)] undo]], goal_cases)
    case (2 was y w)
    show ?case
      using 1 2 select_private_subnet_Inr [of "used @ live" request network gateway guest] x
      by (fastforce simp: host_only_installed_def network_record_def)
  qed auto
qed auto

section \<open>Routed networks\<close>

lemma routed_specs_facts:
  "distinct (routed_forward_specs uplink tap guest lan)" "routed_forward_specs uplink tap guest lan \<noteq> []"
  "spec \<in> set (routed_forward_specs uplink tap guest lan) \<Longrightarrow> spec \<noteq> [] \<and> hd spec \<noteq> ''POSTROUTING''"
  "routed_nat_spec uplink tap network \<noteq> []" "hd (routed_nat_spec uplink tap network) = ''POSTROUTING''"
  by (auto simp: routed_forward_specs_def routed_nat_spec_def iptables_comment_def)

lemma delete_specs_triple:
  assumes "\<And>spec. spec \<in> set specs \<Longrightarrow> spec \<noteq> [] \<and> hd spec \<noteq> ''POSTROUTING'' \<and> spec \<notin> set F"
  shows "tripleE (FW (A @ F) N) (forE specs (delete_iptables_spec spawn))
    (\<lambda>_. FW (fold remove1 specs A @ F) N) (\<lambda>_ _. True)"
proof -
  have "tripleE (FW (fold remove1 [] A @ F) N) (forE specs (delete_iptables_spec spawn))
    (\<lambda>_. FW (fold remove1 specs A @ F) N) (\<lambda>_ _. True)"
  proof (rule tripleE_for [where I = "\<lambda>dn. FW (fold remove1 dn A @ F) N"])
    fix dn x rest
    assume "specs = dn @ x # rest"
    then have "x \<noteq> [] \<and> hd x \<noteq> ''POSTROUTING'' \<and> x \<notin> set F" using assms by simp
    then show "tripleE (FW (fold remove1 dn A @ F) N) (delete_iptables_spec spawn x)
      (\<lambda>_. FW (fold remove1 (dn @ [x]) A @ F) N) (\<lambda>_ _. True)"
      using fw_delete_added [of x F "fold remove1 dn A" N] by (auto intro: tripleE_conseq)
  qed
  then show ?thesis by simp
qed

lemma cleanup_routed_rules_triple:
  assumes fresh: "set (routed_forward_specs uplink tap guest lan) \<inter> set F = {}"
      "routed_nat_spec uplink tap network \<notin> set N"
    and AB: "distinct A" "set A \<subseteq> set (routed_forward_specs uplink tap guest lan)"
      "B = [] \<or> B = [routed_nat_spec uplink tap network]"
  shows "tripleE (FW (A @ F) (B @ N)) (cleanup_routed_rules spawn uplink tap lan network guest)
    (\<lambda>_. FW F N) (\<lambda>_ _. True)"
  unfolding cleanup_routed_rules_def
proof (rule tripleE_bind [OF delete_specs_triple])
  show "tripleE (FW (fold remove1 (routed_forward_specs uplink tap guest lan) A @ F) (B @ N))
    (delete_iptables_spec spawn (routed_nat_spec uplink tap network)) (\<lambda>_. FW F N) (\<lambda>_ _. True)" for u
    using fw_delete_added_nat [OF routed_specs_facts(4,5) fresh(2) AB(3)]
    by (simp add: fold_remove1_empty [OF AB(1,2)])
qed (use fresh routed_specs_facts(3) in auto)

lemma undo_routed:
  assumes fresh: "set (routed_forward_specs uplink tap guest lan) \<inter> set F = {}"
    "routed_nat_spec uplink tap network \<notin> set N"
  shows "batchT
    (\<lambda>w. added filt natt (routed_forward_specs uplink tap guest lan) (routed_nat_spec uplink tap network)
      F N (w, applied, skipped))
    (cleanup_routed_attempt spawn uplink tap lan network guest applied was_enabled proxy_was) (FW F N)"
proof -
  let ?specs = "routed_forward_specs uplink tap guest lan" and ?nspec = "routed_nat_spec uplink tap network"
  have "batchT (FW (A @ F) (B @ N))
      (cleanup_routed_attempt spawn uplink tap lan network guest applied was_enabled proxy_was) (FW F N)"
    if AB: "distinct A" "set A \<subseteq> set ?specs" "B = [] \<or> B = [?nspec]"
      "A \<noteq> [] \<longrightarrow> ForwardRule \<in> set applied" "B \<noteq> [] \<longrightarrow> IptablesNat \<in> set applied" for A B
    unfolding cleanup_routed_attempt_def cleanup_routed_def append_Cons append_Nil rules_owned_def
      RoutedCleanup.simps
  proof (rule batchT_cons [OF cleanup_routed_rules_triple [OF fresh AB(1,2,3)]])
    show "FW F N w" if "\<not> (IptablesNat \<in> set applied \<or> ForwardRule \<in> set applied)"
      "FW (A @ F) (B @ N) w" for w
      using that AB(4,5) by auto
    show "batchT (FW F N) (collect_failures
       ((ProxyArpEntry \<in> set applied,
          run_ip spawn [''neigh'', ''del'', ''proxy'', show_ipv4 lan, ''dev'', uplink])
        # (HostRoute \<in> set applied, run_ip spawn [''route'', ''del'', show_ipv4 lan @ ''/32'', ''dev'', tap])
        # routed_sysctl_steps spawn \<lparr>rc_uplink = uplink, rc_tap = tap, rc_lan = lan,
            rc_private_network = network, rc_private_guest = guest, rc_applied = applied,
            rc_forwarding_was_enabled = was_enabled, rc_proxy_was_enabled = proxy_was\<rparr>)) (FW F N)"
      by (rule batchT_quiet, rule quiet.batch_collect)
        (simp add: routed_sysctl_steps_def effect_intros)
  qed
  then show ?thesis unfolding batchT_def added_def by fast
qed

lemma routed_closure:
  assumes "fresh_tap tap F"
  shows "tripleE (net_fw F N)
    (bindE (ensure_tap spawn tap Lan) (\<lambda>_.
     bindE (ensure_routed_host spawn identity tap lan gateway) (\<lambda>_.
     bindE (ensure_forwarding spawn) (\<lambda>_.
     bindE (ensure_proxy_arp spawn uplink) (\<lambda>_.
     bindE (ensure_iptables_routed spawn uplink tap network guest lan) (\<lambda>_.
     push_applied FirecrackerInterface))))))
    (\<lambda>_. net_fw (rev (routed_forward_specs uplink tap guest lan) @ F) (routed_nat_spec uplink tap network # N))
    (\<lambda>_. added filt natt (routed_forward_specs uplink tap guest lan) (routed_nat_spec uplink tap network) F N)"
proof -
  have eq: "ensure_iptables_routed spawn uplink tap network guest lan
      = install (routed_forward_specs uplink tap guest lan) (routed_nat_spec uplink tap network)"
    by (simp add: ensure_iptables_routed_def install_def)
  have "set (routed_forward_specs uplink tap guest lan) \<inter> set F = {}"
    using assms by (rule fresh_tap_specs) simp
  then have "tripleE (net_fw F N) (ensure_iptables_routed spawn uplink tap network guest lan)
    (\<lambda>_. net_fw (rev (routed_forward_specs uplink tap guest lan) @ F) (routed_nat_spec uplink tap network # N))
    (\<lambda>_. added filt natt (routed_forward_specs uplink tap guest lan) (routed_nat_spec uplink tap network) F N)"
    unfolding eq by (intro install_triple routed_specs_facts)
  from tripleE_bind [OF this push_applied_fw] show ?thesis
    by (intro quiet_before [OF quiet_ensure(1)] quiet_before [OF quiet_ensure(5)]
        quiet_before [OF quiet_ensure(3)] quiet_before [OF quiet_ensure(4)])
qed

lemma quiet_probe: "keepsE (same_rules filt natt) (probe_lan_candidate spawn interface candidate)"
  unfolding probe_lan_candidate_def Let_def
  by (auto intro!: effect_intros split: option.splits sum.splits)

lemma quiet_search:
  "keepsE (same_rules filt natt) (search_lan_candidates spawn uplink used candidates)"
proof (induction candidates)
  case Nil
  show ?case unfolding search_lan_candidates.simps by (rule quiet.effect_return)
next
  case (Cons c cs)
  then show ?case by (auto intro!: effect_intros quiet_probe split: sum.splits)
qed

lemma quiet_lan_queries:
  "keepsE (same_rules filt natt) (detect_uplink_identity spawn)"
  "keepsE (same_rules filt natt) (select_lan_offer spawn uplink lan_override previous used)"
  unfolding detect_uplink_identity_def detect_default_uplink_def default_gateway_for_uplink_def
    select_lan_offer_def Let_def
  by (auto intro!: effect_intros quiet_probe quiet_search split: option.splits sum.splits)

definition routed_installed :: "rules \<Rightarrow> rules \<Rightarrow> NetworkOutcome \<Rightarrow> 'w \<Rightarrow> bool" where
  "routed_installed F N out w \<longleftrightarrow>
     (\<exists>guest network lan uplink. nc_guest_address (pn_config (no_persisted out)) = V4 guest
        \<and> nc_lan_address (pn_config (no_persisted out)) = Some (V4 lan)
        \<and> nc_uplink_name (pn_config (no_persisted out)) = Some uplink
        \<and> guest = network + 2 \<and> network AND NOT 3 = network
        \<and> FW (rev (routed_forward_specs uplink (nc_tap_name (pn_config (no_persisted out))) guest lan) @ F)
             (routed_nat_spec uplink (nc_tap_name (pn_config (no_persisted out))) network # N) w)"

lemma create_lan_triple:
  assumes "fresh_tap (tap_name sha256 (nr_vm_name request)) F"
    "fresh_tap (tap_name sha256 (nr_vm_name request)) N"
  shows "tripleE (FW F N) (create_lan sha256 spawn request used) (routed_installed F N)
    (\<lambda>e w. (\<nexists>p fs. e = Cleanup p fs) \<longrightarrow> FW F N w)"
  unfolding create_lan_def Let_def
proof (intro quiet_bind [OF quiet_lan_queries(1)] quiet_bind [OF quiet_queries(1)] lift_bind, goal_cases)
  case (1 uplink live x)
  obtain network gateway guest where x: "x = (network, gateway, guest)" by (cases x)
  let ?tap = "tap_name sha256 (nr_vm_name request)"
  have fresh: "set (routed_forward_specs (ui_interface uplink) ?tap guest lan) \<inter> set F = {}" for lan
    using assms(1) by (rule fresh_tap_specs) simp
  have "routed_nat_spec (ui_interface uplink) ?tap network \<notin> set N"
    using assms(2) by (rule fresh_tap_nat) simp
  note undo = undo_routed [OF fresh this]
  show ?case
    unfolding x prod.case
  proof (intro quiet_bind [OF quiet_lan_queries(2)] quiet_bind [OF quiet_queries(2)]
      quiet_bind [OF quiet_queries(3)] tripleE_conseq
      [OF attempt_triple [OF routed_closure [OF assms(1)] undo]], goal_cases)
    case (2 offer was proxy y w)
    show ?case
      using 1 2 select_private_subnet_Inr [of live request network gateway guest] x
      by (fastforce simp: routed_installed_def network_record_def)
  qed auto
qed auto

end

text \<open>Deleting a host-only network leaves both tables alone.\<close>

context firewall_host
begin

lemma quiet_delete_host_only:
  assumes "nc_mode (pn_config network) = HostOnly"
  shows "keepsE (same_rules filt natt) (cleanup_for_delete spawn network)"
  unfolding cleanup_for_delete_def cleanup_network_def Let_def
  by (simp add: assms quiet.effect_finish quiet.batch_collect quiet_queries del: collect_failures.simps)

end

section \<open>A host with a firewall\<close>

text \<open>A host that starts without devices and keeps the rules of both tables; \<open>nat_ok\<close> says whether it accepts new
  NAT rules. It behaves as documented, with and without a log of its commands; where NAT rules are refused, a
  creation fails half way.\<close>

definition answer :: "bool \<Rightarrow> string \<Rightarrow> string \<Rightarrow> 'e + cmd_output" where
  "answer ok out err =
     Inr \<lparr>co_success = ok, co_status = (if ok then ''exit status: 0'' else ''exit status: 1''),
          co_stdout = out, co_stderr = err\<rparr>"

definition rule_host :: "bool \<Rightarrow> (rules \<times> rules) cmd" where
  "rule_host nat_ok program arguments = (\<lambda>(F, N).
     if program = ''iptables'' then
       if take 1 arguments = [''-C'']
       then (if drop 1 arguments \<in> set F then answer True [] [] else answer False [] ''Bad rule'', (F, N))
       else if take 1 arguments = [''-I''] \<and> 3 \<le> length arguments
       then (answer True [] [], ((arguments ! 1) # drop 3 arguments) # F, N)
       else if take 1 arguments = [''-D'']
       then (answer True [] [], remove1 (drop 1 arguments) F, N)
       else if take 3 arguments = [''-t'', ''nat'', ''-C'']
       then (if drop 3 arguments \<in> set N then answer True [] [] else answer False [] ''Bad rule'', (F, N))
       else if take 3 arguments = [''-t'', ''nat'', ''-I''] \<and> 5 \<le> length arguments \<and> nat_ok
       then (answer True [] [], F, ((arguments ! 3) # drop 5 arguments) # N)
       else if take 3 arguments = [''-t'', ''nat'', ''-D'']
       then (answer True [] [], F, remove1 (drop 3 arguments) N)
       else (answer False [] ''unsupported'', (F, N))
     else if take 3 arguments = [''-d'', ''link'', ''show'']
     then (answer False [] ''Device does not exist.'', (F, N))
     else (answer True (if program = ''sysctl'' then ''1'' else []) [], (F, N)))"

lemma answer_exit [simp]:
  "exit_ok (answer ok out err) \<longleftrightarrow> ok" "exit_absent (answer True out err) \<longleftrightarrow> False"
  by (simp_all add: answer_def exit_ok_def exit_absent_def)

lemma rule_host_other: "program \<noteq> ''iptables'' \<Longrightarrow> snd (rule_host nat_ok program arguments w) = w"
  by (simp add: rule_host_def split: prod.splits)

lemma rule_host_iptables:
  "rule_host nat_ok ''iptables'' (''-C'' # spec) (F, N)
     = (if spec \<in> set F then answer True [] [] else answer False [] ''Bad rule'', (F, N))"
  "rule_host nat_ok ''iptables'' (''-I'' # chain # ''1'' # spec) (F, N)
     = (answer True [] [], ((chain # spec) # F, N))"
  "rule_host nat_ok ''iptables'' (''-D'' # spec) (F, N) = (answer True [] [], (remove1 spec F, N))"
  "rule_host nat_ok ''iptables'' (''-t'' # ''nat'' # ''-C'' # spec) (F, N)
     = (if spec \<in> set N then answer True [] [] else answer False [] ''Bad rule'', (F, N))"
  "rule_host nat_ok ''iptables'' (''-t'' # ''nat'' # ''-I'' # chain # ''1'' # spec) (F, N)
     = (if nat_ok then (answer True [] [], (F, (chain # spec) # N)) else (answer False [] ''unsupported'', (F, N)))"
  "rule_host nat_ok ''iptables'' (''-t'' # ''nat'' # ''-D'' # spec) (F, N)
     = (answer True [] [], (F, remove1 spec N))"
  by (simp_all add: rule_host_def)

lemma rule_host_laws: "firewall_laws (rule_host nat_ok) fst snd"
  unfolding firewall_laws_def
proof (intro allI impI conjI, goal_cases)
  case (1 program arguments w r w')
  then show ?case using rule_host_other [of program nat_ok arguments w] by simp
next
  case (2 program arguments w r w')
  then show ?case using rule_host_other [of program nat_ok arguments w] by simp
qed (auto simp: rule_host_iptables split: if_splits)

lemma logged_laws:
  assumes "firewall_laws spawn filt natt"
  shows "firewall_laws (logged spawn) (filt \<circ> fst) (natt \<circ> fst)"
  unfolding firewall_laws_def
proof (intro allI impI, goal_cases)
  case (1 program arguments w r w')
  then have "spawn program arguments (fst w) = (r, fst w')"
    by (auto simp: logged_def split: prod.splits)
  with assms [unfolded firewall_laws_def, rule_format, of program arguments "fst w" r "fst w'"]
  show ?case by (simp add: comp_def)
qed

interpretation ruled: firewall_host "logged (rule_host nat_ok)" "fst \<circ> fst" "snd \<circ> fst" for nat_ok
  by unfold_locales (rule logged_laws [OF rule_host_laws])

definition zero_digest :: "string \<Rightarrow> u8 list" where
  "zero_digest s = [0, 0, 0, 0]"

lemma ruled_output:
  "program \<noteq> ''iptables'' \<Longrightarrow> take 3 arguments \<noteq> [''-d'', ''link'', ''show''] \<Longrightarrow>
   command_output (logged (rule_host nat_ok)) program arguments (w, log)
     = (answer True (if program = ''sysctl'' then ''1'' else []) [], (w, log @ [(program, arguments)]))"
  by (cases w) (simp add: logged_def command_output_def rule_host_def answer_def)

lemma ruled_queries:
  "live_ipv4_addresses (logged (rule_host nat_ok)) (w, log)
     = (Inr [], (w, log @ [(''ip'', [''-4'', ''-o'', ''addr'', ''show'']), (''ip'', [''-4'', ''route'', ''show''])]))"
  "forwarding_enabled (logged (rule_host nat_ok)) (w, log)
     = (Inr True, (w, log @ [(''sysctl'', [''-n'', ''net.ipv4.ip_forward''])]))"
  by (simp_all add: live_ipv4_addresses_def forwarding_enabled_def bindE_def ruled_output
      answer_def str_lines_def map_filter_simps str_trim_def is_whitespace_def)

lemma link_missing_text: "is_link_missing \<lparr>co_success = False, co_status = st, co_stdout = [],
    co_stderr = ''Device does not exist.''\<rparr>"
  by (simp add: is_link_missing_def command_stderr_def str_trim_def is_whitespace_def
      is_privilege_denied_def str_contains_def to_lowercase_def ascii_lower_def)

lemma ruled_link_exists:
  "link_exists (logged (rule_host nat_ok)) tap (w, log)
     = (Inr False, (w, log @ [(''ip'', [''-d'', ''link'', ''show'', ''dev'', tap])]))"
  by (cases w) (simp add: link_exists_def link_output_def bindE_def logged_def command_output_def
      rule_host_def answer_def link_missing_text)

lemma ruled_run_ip:
  "take 3 arguments \<noteq> [''-d'', ''link'', ''show''] \<Longrightarrow>
   run_ip (logged (rule_host nat_ok)) arguments (w, log) = (Inr (), (w, log @ [(''ip'', arguments)]))"
  by (simp add: run_ip_def run_command_def bindE_def ruled_output answer_def)

lemma bad_rule_text: "rule_absent (command_stderr \<lparr>co_success = False, co_status = st, co_stdout = [],
    co_stderr = ''Bad rule''\<rparr>)"
  by (simp add: rule_absent_def command_stderr_def str_trim_def is_whitespace_def str_contains_def)

lemma ruled_rule_exists:
  "iptables_rule_exists (logged (rule_host nat_ok)) spec ((F, N), log)
     = (Inr (spec \<in> set F), ((F, N), log @ [(''iptables'', ''-C'' # spec)]))"
  by (simp add: iptables_rule_exists_def iptables_check_def bindE_def logged_def command_output_def
      rule_host_iptables answer_def bad_rule_text)

lemma ruled_run_forward:
  "spec \<noteq> [] \<Longrightarrow> hd spec \<noteq> ''POSTROUTING'' \<Longrightarrow> spec \<notin> set F \<Longrightarrow>
   run_iptables_spec (logged (rule_host nat_ok)) spec ((F, N), log)
     = (Inr (), ((spec # F, N), log @ [(''iptables'', ''-C'' # spec), insert_command spec]))"
  by (simp add: run_iptables_spec_def iptables_add_rule_def bindE_def ruled_rule_exists insert_command_def
      run_command_def logged_def command_output_def rule_host_iptables answer_def)

lemma ruled_run_nat:
  "run_iptables_spec (logged (rule_host True)) (''POSTROUTING'' # spec) ((F, N), log)
     = (Inr (), ((F, (''POSTROUTING'' # spec) # N), log @ [insert_command (''POSTROUTING'' # spec)]))"
  by (simp add: run_iptables_spec_def bindE_def run_command_def logged_def command_output_def insert_command_def
      rule_host_iptables answer_def)

lemma ruled_refuse_nat:
  "\<exists>reason. \<forall>F N log. run_iptables_spec (logged (rule_host False)) (''POSTROUTING'' # spec) ((F, N), log)
     = (Inl (HostCommand ''iptables'' reason), ((F, N), log @ [insert_command (''POSTROUTING'' # spec)]))"
  by (simp add: run_iptables_spec_def bindE_def run_command_def logged_def command_output_def insert_command_def
      rule_host_iptables answer_def host_command_error_def Let_def)

lemma ruled_delete_forward:
  "spec \<noteq> [] \<Longrightarrow> hd spec \<noteq> ''POSTROUTING'' \<Longrightarrow>
   delete_iptables_spec (logged (rule_host nat_ok)) spec ((F, N), log)
     = (Inr (), ((remove1 spec F, N),
          log @ (''iptables'', ''-C'' # spec) # (if spec \<in> set F then [(''iptables'', ''-D'' # spec)] else [])))"
  by (simp add: delete_iptables_spec_def iptables_delete_rule_def bindE_def ruled_rule_exists
      run_command_def logged_def command_output_def rule_host_iptables answer_def remove1_idem)

lemma ruled_delete_link:
  "delete_link_if_present (logged (rule_host nat_ok)) tap (w, log)
     = (Inr (), (w, log @ [(''ip'', [''-d'', ''link'', ''show'', ''dev'', tap])]))"
  by (simp add: delete_link_if_present_def bindE_def ruled_link_exists)

lemma sample_select: "select_private_subnet [] sample_exact_request = Inr (0, 1, 2)"
  by (simp add: select_private_subnet_def sample_exact_request_def Let_def saturating_add_def
      private_subnet_conflicts_def)

lemma no_nat_run:
  "\<exists>reason w'. create_host_only zero_digest (logged (rule_host False)) sample_exact_request [] (([], []), [])
     = (Inl (HostCommand ''iptables'' reason), w')"
proof -
  let ?tap = "tap_name zero_digest (nr_vm_name sample_exact_request)"
  obtain s1 s2 where specs: "host_only_forward_specs ?tap 2 = [s1, s2]" "s1 \<noteq> []" "s2 \<noteq> []" "s1 \<noteq> s2"
    "hd s1 \<noteq> ''POSTROUTING''" "hd s2 \<noteq> ''POSTROUTING''"
    by (simp add: host_only_forward_specs_def)
  obtain n where n: "host_only_nat_spec ?tap 0 = ''POSTROUTING'' # n" by (simp add: host_only_nat_spec_def)
  obtain reason where r: "run_iptables_spec (logged (rule_host False)) (''POSTROUTING'' # n) ((F, N), log)
      = (Inl (HostCommand ''iptables'' reason), ((F, N), log @ [insert_command (''POSTROUTING'' # n)]))" for F N log
    using ruled_refuse_nat [of n] by blast
  show ?thesis
    using specs n r
    by (simp add: create_host_only_def bindE_def ruled_queries sample_select Let_def with_vectors_def
        ensure_tap_def ensure_tap_address_def ensure_forwarding_def ensure_iptables_host_only_def
        add_forward_rules_def on_host_def push_applied_def ruled_link_exists ruled_run_ip whenE_def
        ruled_run_forward rollback_def cleanup_host_only_attempt_def ruled_delete_forward
        ruled_delete_link with_cleanup_failures_def)
qed

lemma nat_run:
  "\<exists>out w' log'. create_host_only zero_digest (logged (rule_host True)) sample_exact_request [] (([], []), [])
     = (Inr out, (w', log'))
     \<and> (''ip'', [''tuntap'', ''add'', ''dev'', tap_name zero_digest ''a'', ''mode'', ''tap'']) \<in> set log'"
proof -
  let ?tap = "tap_name zero_digest (nr_vm_name sample_exact_request)"
  obtain s1 s2 where specs: "host_only_forward_specs ?tap 2 = [s1, s2]" "s1 \<noteq> []" "s2 \<noteq> []" "s1 \<noteq> s2"
    "hd s1 \<noteq> ''POSTROUTING''" "hd s2 \<noteq> ''POSTROUTING''"
    by (simp add: host_only_forward_specs_def)
  obtain n where n: "host_only_nat_spec ?tap 0 = ''POSTROUTING'' # n" by (simp add: host_only_nat_spec_def)
  have name: "nr_vm_name sample_exact_request = ''a''" by (simp add: sample_exact_request_def)
  show ?thesis
    using specs n
    by (simp add: create_host_only_def bindE_def ruled_queries sample_select Let_def with_vectors_def
        ensure_tap_def ensure_tap_address_def ensure_forwarding_def ensure_iptables_host_only_def
        add_forward_rules_def on_host_def push_applied_def ruled_link_exists ruled_run_ip whenE_def
        ruled_run_forward ruled_run_nat name)
qed

lemma fresh_tap_Nil [simp]: "fresh_tap tap []"
  by (simp add: fresh_tap_def)

section \<open>Properties\<close>

text \<open>(C20) Configuring a network, new or existing, works on one footprint, whatever the host's programs answer and
  also when the attempt fails and is rolled back. Every command it runs either only reads the host or is one of
  the commands of that footprint: creating, raising, flushing and deleting the VM's own TAP, adding and deleting
  the one host address with prefix 30 on it, the checks, insertions and deletions of exactly the VM's own rules,
  the host-wide forwarding switch, and for a LAN network the host route to its LAN address, the proxy
  neighbour entry of that address on the uplink and the proxy ARP switch of the uplink. For a new network the
  footprint is the TAP derived from the VM's name, an aligned private /30 with its first address for the host
  and its second for the guest (the requested one when exact values are requested), and a LAN address exactly in
  LAN mode (the requested one if given); for an existing network it is what the record says.\<close>

theorem configure_only_own_tap:
  assumes "configure sha256 (logged spawn) request existing used used_lan (w, log) = (r, (w', log'))"
  shows "\<exists>cs. log' = log @ cs
    \<and> (list_all query_command cs
       \<or> (\<exists>fp. planned_footprint sha256 request existing fp
             \<and> list_all (\<lambda>c. query_command c \<or> c \<in> set (vm_commands fp)) cs))"
proof -
  have "extends_by query_command (w, log) (w', log')
    \<or> (\<exists>fp. planned_footprint sha256 request existing fp \<and> extends_by (configure_command fp) (w, log) (w', log'))"
    using configure_footprint assms unfolding one_footprint_def by blast
  then show ?thesis unfolding extends_by_def configure_command_def by auto
qed

theorem configure_only_own_tap_witness:
  "\<exists>out w' log'. configure zero_digest (logged (rule_host True)) sample_exact_request None [] [] (([], []), [])
       = (Inr out, (w', log'))
     \<and> (''ip'', [''tuntap'', ''add'', ''dev'', tap_name zero_digest ''a'', ''mode'', ''tap'']) \<in> set log'
     \<and> (\<exists>fp. planned_footprint zero_digest sample_exact_request None fp
          \<and> list_all (\<lambda>c. query_command c \<or> c \<in> set (vm_commands fp)) log')"
proof -
  obtain out w' log' where
    run: "configure zero_digest (logged (rule_host True)) sample_exact_request None [] [] (([], []), [])
      = (Inr out, (w', log'))"
    and tap: "(''ip'', [''tuntap'', ''add'', ''dev'', tap_name zero_digest ''a'', ''mode'', ''tap'']) \<in> set log'"
    using nat_run by (auto simp: configure_def sample_exact_request_def)
  have "\<not> query_command (''ip'', [''tuntap'', ''add'', ''dev'', tap_name zero_digest ''a'', ''mode'', ''tap''])"
    by (simp add: query_command_def)
  with tap have "\<not> list_all query_command log'" by (auto simp: list_all_iff)
  with configure_only_own_tap [OF run] run tap show ?thesis by auto
qed



text \<open>(C22) A creation attempt of either kind that fails leaves the firewall exactly as it was, provided
  the host's \<open>iptables\<close> behaves as documented, no rule of this VM's TAP device existed before, and
  the clean-up itself did not fail (which the adapter reports with a distinct error).\<close>

theorem create_failure_restores_firewall:
  assumes "firewall_laws spawn filt natt"
    and "fresh_tap (tap_name sha256 (nr_vm_name request)) (filt w)"
    and "fresh_tap (tap_name sha256 (nr_vm_name request)) (natt w)"
    and "configure sha256 spawn request None used used_lan w = (Inl e, w')"
    and "\<nexists>p fs. e = Cleanup p fs"
  shows "filt w' = filt w \<and> natt w' = natt w"
proof -
  from assms(1) have host: "firewall_host spawn filt natt" by (rule firewall_host.intro)
  have pre: "fw filt natt (filt w) (natt w) w" by (simp add: fw_def)
  have "fw filt natt (filt w) (natt w) w'"
    using assms(4,5)
      tripleE_Inl [OF firewall_host.create_host_only_triple [OF host assms(2,3)] pre]
      tripleE_Inl [OF firewall_host.create_lan_triple [OF host assms(2,3)] pre]
    by (cases "nr_mode request") (auto simp: configure_def)
  then show ?thesis by (simp add: fw_def)
qed

theorem create_failure_restores_firewall_witness:
  "\<exists>e w' log'. configure zero_digest (logged (rule_host False)) sample_exact_request None [] [] (([], []), [])
       = (Inl e, (w', log'))
     \<and> fst w' = [] \<and> snd w' = []"
proof -
  obtain reason w' log' where
    run: "configure zero_digest (logged (rule_host False)) sample_exact_request None [] [] (([], []), [])
      = (Inl (HostCommand ''iptables'' reason), (w', log'))"
    using no_nat_run by (fastforce simp: configure_def sample_exact_request_def)
  have "(fst \<circ> fst) (w', log') = (fst \<circ> fst) ((([], []), []) :: (rules \<times> rules) \<times> command list)
    \<and> (snd \<circ> fst) (w', log') = (snd \<circ> fst) ((([], []), []) :: (rules \<times> rules) \<times> command list)"
    by (rule create_failure_restores_firewall [OF logged_laws [OF rule_host_laws] _ _ run]) simp_all
  with run show ?thesis by auto
qed

end
