(* ===== verification/Artifact_Rows.thy ===== *)
theory Artifact_Rows
  imports Domain
begin

text \<open>
  The data of the artifact inventory: the values that the repository exchanges with the manager
  (src/crates/sdk/src/domain/artifact.rs, src/crates/sdk/src/ports/repository.rs) and the rows of the
  tables that src/crates/sdk/migrations/0001_artifact_inventory.sql creates. As in Repository, paths and
  flags are stored as values, enumerations as their text, numbers as SQLite's signed integers, and the
  time stamps, which are never read, are left out. The code binds the text \<open>to_string_lossy\<close> of the relative and the
  absolute path of a download and compares such texts: the values here are the paths after that
  conversion, which is the identity on UTF-8 paths and is defined in Path_Text.
\<close>

section \<open>Values\<close>

datatype ArtifactKind = KernelKind | BinaryKind | DistributionImageKind

record FileIntegrity =
  fi_size_bytes :: u64
  fi_sha256 :: string

record DownloadSpec =
  sp_artifact_kind :: ArtifactKind
  sp_artifact_id :: string
  sp_member_name :: "string option"
  sp_artifact_key :: string
  sp_registry_path :: string
  sp_registry_url :: string
  sp_filename :: string
  sp_expected_size :: u64
  sp_expected_sha256 :: string
  sp_executable :: bool
  sp_mode :: "string option"
  sp_relative_path :: path
  sp_absolute_path :: path

record InstalledBinary =
  ib_package_id :: string
  ib_component_name :: string
  ib_version :: string
  ib_architecture :: Architecture
  ib_path :: path
  ib_size_bytes :: u64
  ib_sha256 :: string
  ib_executable :: bool

record LocalArtifact =
  la_path :: path
  la_size_bytes :: u64
  la_sha256 :: string

datatype InventoryState = Missing | Incomplete | Complete

record PruneReferences =
  pr_kernels :: "string set"
  pr_images :: "(string \<times> string) set"

definition kernel_referenced :: "PruneReferences \<Rightarrow> string \<Rightarrow> bool" where
  "kernel_referenced refs kernel_id \<longleftrightarrow> kernel_id \<in> pr_kernels refs"

definition image_referenced :: "PruneReferences \<Rightarrow> string \<Rightarrow> string \<Rightarrow> bool" where
  "image_referenced refs distribution_id image_id \<longleftrightarrow> (distribution_id, image_id) \<in> pr_images refs"

record PrunableKernel =
  pk_registry_id :: string
  pk_absolute_path :: path
  pk_size_bytes :: u64

record PrunableImage =
  pm_distribution_id :: string
  pm_image_id :: string
  pm_absolute_path :: path
  pm_size_bytes :: u64

record OrphanArtifactDownload =
  oa_artifact_key :: string
  oa_artifact_type :: string
  oa_absolute_path :: path
  oa_size_bytes :: u64

datatype OrphanIdentity = OrphanKernel string | OrphanImage string string

definition strip_prefix :: "string \<Rightarrow> string \<Rightarrow> string option" where
  "strip_prefix p s = (if take (length p) s = p then Some (drop (length p) s) else None)"

lemma strip_prefix_append [simp]: "strip_prefix p (p @ s) = Some s"
  by (simp add: strip_prefix_def)

lemma strip_prefix_SomeD: "strip_prefix p s = Some r \<Longrightarrow> s = p @ r"
  by (auto simp: strip_prefix_def split: if_splits) (metis append_take_drop_id)

definition parse_identity :: "OrphanArtifactDownload \<Rightarrow> OrphanIdentity option" where
  "parse_identity orphan =
     (if oa_artifact_type orphan = ''kernel'' then
        Option.bind (strip_prefix ''kernel:'' (oa_artifact_key orphan)) (\<lambda>kernel_id.
        if kernel_id = [] then None else Some (OrphanKernel kernel_id))
      else if oa_artifact_type orphan = ''distribution_image'' then
        Option.bind (strip_prefix ''distribution_image:'' (oa_artifact_key orphan)) (\<lambda>rest.
        Option.bind (split_once CHR '':'' rest) (\<lambda>(distribution_id, image_id).
        if distribution_id = [] \<or> image_id = [] then None
        else Some (OrphanImage distribution_id image_id)))
      else None)"

fun artifact_type_name :: "ArtifactKind \<Rightarrow> string" where
  "artifact_type_name KernelKind = ''kernel''"
| "artifact_type_name BinaryKind = ''binary''"
| "artifact_type_name DistributionImageKind = ''distribution_image''"

definition parse_architecture :: "string \<Rightarrow> Architecture result" where
  "parse_architecture v =
     (if v = ''x86_64'' then Inr X86_64
      else if v = ''aarch64'' then Inr Aarch64
      else if v = ''arm'' then Inr Arm
      else if v = ''riscv64'' then Inr Riscv64
      else if v = ''x86'' then Inr X86
      else Inl (invalid_metadata v ''unsupported architecture in local inventory''))"

lemma parse_architecture_name [simp]: "parse_architecture (architecture_name a) = Inr a"
  by (cases a) (simp_all add: parse_architecture_def)

fun endianness_name :: "Endianness \<Rightarrow> string" where
  "endianness_name Little = ''little''"
| "endianness_name Big = ''big''"

fun linkage_name :: "Linkage \<Rightarrow> string" where
  "linkage_name Static = ''static''"
| "linkage_name Dynamic = ''dynamic''"

section \<open>Rows\<close>

record DownloadRow =
  dl_id :: int
  dl_artifact_key :: string
  dl_artifact_type :: string
  dl_registry_path :: string
  dl_registry_url :: string
  dl_filename :: string
  dl_relative_path :: path
  dl_absolute_path :: path
  dl_expected_size_bytes :: int
  dl_expected_sha256 :: string
  dl_actual_size_bytes :: int
  dl_actual_sha256 :: string
  dl_verification_status :: string

record KernelRow =
  kr_id :: int
  kr_registry_id :: string
  kr_download_id :: "int option"
  kr_name :: string
  kr_display_name :: string
  kr_version :: string
  kr_architecture :: string
  kr_registry_path :: string
  kr_registry_url :: string
  kr_filename :: string
  kr_size_bytes :: int
  kr_sha256 :: string
  kr_format :: string
  kr_mime_type :: string
  kr_modified_at :: string

record BinaryPackageRow =
  pa_id :: int
  pa_registry_id :: string
  pa_name :: string
  pa_display_name :: string
  pa_description :: "string option"
  pa_version :: string
  pa_architecture :: string

record BinaryFileRow =
  bi_id :: int
  bi_binary_package_id :: int
  bi_download_id :: int
  bi_component_name :: string
  bi_registry_path :: string
  bi_registry_url :: string
  bi_filename :: string
  bi_size_bytes :: int
  bi_sha256 :: string
  bi_mime_type :: string
  bi_executable :: bool
  bi_mode :: "string option"
  bi_permissions :: "string option"
  bi_format :: "string option"
  bi_modified_at :: string

record DistributionRow =
  ds_id :: int
  ds_registry_id :: string
  ds_name :: string
  ds_display_name :: string
  ds_description :: string
  ds_distribution :: string
  ds_version :: string
  ds_codename :: string
  ds_architecture :: string
  ds_vendor :: string
  ds_homepage :: string
  ds_default_kernel_registry_id :: string
  ds_root_device :: string
  ds_min_memory_mb :: int
  ds_min_vcpus :: int

record DistributionImageRow =
  im_id :: int
  im_distribution_id :: int
  im_download_id :: int
  im_registry_id :: string
  im_name :: string
  im_display_name :: string
  im_description :: string
  im_variant :: string
  im_format :: string
  im_registry_path :: string
  im_registry_url :: string
  im_filename :: string
  im_size_bytes :: int
  im_sha256 :: string
  im_mime_type :: string
  im_modified_at :: string

record ElfRow =
  el_download_id :: int
  el_class :: string
  el_endianness :: string
  el_elf_type :: string
  el_machine :: string
  el_entry_point :: string
  el_build_id :: "string option"
  el_interpreter :: "string option"
  el_linkage :: "string option"
  el_stripped :: "bool option"

record FilesystemRow =
  fr_distribution_image_id :: int
  fr_filesystem_type :: string
  fr_uuid :: string
  fr_block_size :: int
  fr_block_count :: int
  fr_free_blocks :: int
  fr_inode_count :: int
  fr_free_inodes :: int

text \<open>The tables of ordered texts of an owner: boot arguments, libraries, features, capabilities.\<close>

record TextRow =
  tx_owner :: int
  tx_position :: int
  tx_text :: string

record DistributionKernelRow =
  dk_distribution_id :: int
  dk_kernel_id :: int
  dk_is_default :: bool

record artifact_db =
  ad_downloads :: "DownloadRow list"
  ad_kernels :: "KernelRow list"
  ad_packages :: "BinaryPackageRow list"
  ad_files :: "BinaryFileRow list"
  ad_distributions :: "DistributionRow list"
  ad_boot_args :: "TextRow list"
  ad_images :: "DistributionImageRow list"
  ad_distribution_kernels :: "DistributionKernelRow list"
  ad_elf :: "ElfRow list"
  ad_elf_libraries :: "TextRow list"
  ad_filesystems :: "FilesystemRow list"
  ad_features :: "TextRow list"
  ad_capabilities :: "TextRow list"
  ad_next_download :: int
  ad_next_kernel :: int
  ad_next_package :: int
  ad_next_file :: int
  ad_next_distribution :: int
  ad_next_image :: int

definition empty_artifacts :: artifact_db where
  "empty_artifacts =
     \<lparr>ad_downloads = [], ad_kernels = [], ad_packages = [], ad_files = [], ad_distributions = [],
      ad_boot_args = [], ad_images = [], ad_distribution_kernels = [], ad_elf = [], ad_elf_libraries = [],
      ad_filesystems = [], ad_features = [], ad_capabilities = [], ad_next_download = 1,
      ad_next_kernel = 1, ad_next_package = 1, ad_next_file = 1, ad_next_distribution = 1,
      ad_next_image = 1\<rparr>"

end
