(* ===== verification/Repository.thy ===== *)
theory Repository
  imports Artifact_Rows "HOL-Library.List_Lexorder" "HOL-Library.Char_ord"
begin

text \<open>
  The MicroVM inventory of src/crates/sdk/src/adapters/persistence/sqlite.rs (the
  \<open>MicroVmRepository\<close> implementation) on the tables that src/crates/sdk/migrations creates. A table
  is the list of its rows in insertion order; statements are functions on the tables that check
  the constraints of the schema (uniqueness, foreign keys, the \<open>CHECK\<close> clauses, \<open>ON DELETE
  CASCADE\<close>) and leave the database unchanged when one fails, as does a transaction that is not
  committed. Numbers are stored as SQLite's signed integers and converted back with the checks of
  the code; enumerations are stored as their text. Addresses, paths and the JSON columns are
  stored as values, flags as booleans; the \<open>updated_at\<close> columns, which are never read, are left out.
  The code binds the text \<open>to_string_lossy\<close> of a path and reads \<open>PathBuf::from\<close> of it: the values here are
  the paths after that conversion, which is the identity on UTF-8 paths and is defined in Path_Text.
  The clock is the argument \<open>now\<close>, which may be an error.
\<close>

section \<open>Rows\<close>

record MicroVmRow =
  mr_id :: int
  mr_name :: string
  mr_distribution_id :: string
  mr_image_id :: string
  mr_kernel_id :: string
  mr_firecracker_package_id :: string
  mr_firectl_package_id :: string
  mr_disk_size_bytes :: int
  mr_memory_requested_bytes :: int
  mr_memory_effective_mib :: int
  mr_vcpu_count :: int
  mr_volume_path :: path
  mr_rootfs_path :: path
  mr_socket_path :: path
  mr_expose_on_lan :: bool
  mr_created_at :: int

text \<open>A network row: the columns that are encoded, and the remaining columns as one value.\<close>

record NetworkColumns =
  nx_gateway_ip :: "ip_addr option"
  nx_host_ip :: "ip_addr option"
  nx_uplink_name :: "string option"
  nx_dhcp_lease_reference :: "string option"
  nx_desired_boot_parameters :: string
  nx_bridge_created_by_sdk :: bool
  nx_uplink_attached_by_sdk :: bool
  nx_forwarding_enabled_by_sdk :: bool
  nx_nat_table_created_by_sdk :: bool
  nx_nat_chain_created_by_sdk :: bool
  nx_host_address_specs :: "string list"
  nx_default_route_specs :: "string list list"
  nx_lan_ip :: "ip_addr option"
  nx_uplink_cidr :: "string option"
  nx_proxy_arp_enabled_by_sdk :: bool
  nx_host_route_created_by_sdk :: bool
  nx_proxy_arp_entry_created_by_sdk :: bool

record NetworkRow =
  nw_microvm_id :: int
  nw_mode :: string
  nw_guest_ip :: ip_addr
  nw_prefix_length :: int
  nw_tap_name :: string
  nw_guest_mac :: string
  nw_bridge_id :: "int option"
  nw_columns :: NetworkColumns

record ResourceRow =
  rs_microvm_id :: int
  rs_resource_kind :: string
  rs_resource_identity :: string
  rs_desired_fingerprint :: string
  rs_ownership :: string
  rs_adapter_handle :: "string option"
  rs_last_observed :: string

record CredentialRow =
  cd_microvm_id :: int
  cd_private_key_path :: path
  cd_public_key_path :: path
  cd_guest_authorized_keys_path :: string
  cd_key_type :: string
  cd_ssh_user :: string
  cd_ssh_port :: int
  cd_public_key_fingerprint :: string
  cd_file_mode :: string

record RuntimeRow =
  rr_microvm_id :: int
  rr_firecracker_path :: path
  rr_firectl_path :: path
  rr_socket_path :: path
  rr_process_id :: "int option"
  rr_process_state :: string

record AutostartRow =
  ar_microvm_id :: int
  ar_enabled :: bool
  ar_max_start_attempts :: int

record BridgeRow =
  br_id :: int
  br_bridge_name :: string
  br_uplink_name :: string
  br_ownership :: string
  br_reference_count :: int

record RestoreJournal =
  rj_operation_id :: string
  rj_vm_name :: string
  rj_staging_path :: path
  rj_volume_path :: path
  rj_volume_created :: bool
  rj_kernel_path :: path
  rj_kernel_created :: bool
  rj_network :: "PersistedNetwork option"
  rj_progress_state :: string

text \<open>The provenance of a restored VM, and its row in \<open>vm_snapshot_metadata\<close>.\<close>

record RestoredSnapshotMetadata =
  rm_distribution_name :: string
  rm_distribution_version :: string
  rm_root_device :: string
  rm_kernel_args :: "string list"
  rm_image_sha256 :: string
  rm_guest_architecture :: string

record SnapshotMetadataRow =
  sm_microvm_id :: int
  sm_distribution_name :: string
  sm_distribution_version :: string
  sm_root_device :: string
  sm_kernel_args :: "string list"
  sm_image_sha256 :: string
  sm_guest_architecture :: string

record db =
  db_microvms :: "MicroVmRow list"
  db_networks :: "NetworkRow list"
  db_resources :: "ResourceRow list"
  db_credentials :: "CredentialRow list"
  db_runtimes :: "RuntimeRow list"
  db_autostart :: "AutostartRow list"
  db_snapshot_metadata :: "SnapshotMetadataRow list"
  db_bridges :: "BridgeRow list"
  db_journals :: "(int \<times> RestoreJournal) list"
  db_next_vm :: int
  db_next_bridge :: int
  db_artifacts :: artifact_db

record StoredMicroVm =
  st_record :: MicroVmRecord
  st_network :: "PersistedNetwork option"
  st_credential :: "PersistedCredential option"
  st_runtime :: "PersistedRuntime option"

section \<open>Integers\<close>

definition show_int :: "int \<Rightarrow> string" where
  "show_int i = (if i < 0 then CHR ''-'' # show_nat (nat (- i)) else show_nat (nat i))"

definition to_sqlite_integer :: "u64 \<Rightarrow> string \<Rightarrow> int result" where
  "to_sqlite_integer v context =
     (if unat v < 2 ^ 63 then Inr (int (unat v))
      else Inl (invalid_metadata context ''value exceeds SQLite INTEGER''))"

definition from_sqlite_integer :: "int \<Rightarrow> string \<Rightarrow> u64 result" where
  "from_sqlite_integer v context =
     (if 0 \<le> v \<and> v < 2 ^ 64 then Inr (word_of_int v)
      else Inl (Migration (''negative '' @ context @ '' stored in SQLite'')))"

text \<open>\<open>u32::try_from\<close>, \<open>u16::try_from\<close> and \<open>u8::try_from\<close> on a stored integer.\<close>

definition try_word :: "int \<Rightarrow> string \<Rightarrow> 'a::len word result" where
  "try_word v reason =
     (if 0 \<le> v \<and> v < 2 ^ LENGTH('a) then Inr (word_of_int v) else Inl (Migration reason))"

section \<open>Reading rows\<close>

definition record_from_row :: "MicroVmRow \<Rightarrow> MicroVmRecord result" where
  "record_from_row row =
     bindR (from_sqlite_integer (mr_disk_size_bytes row) ''VM disk size'') (\<lambda>disk.
     bindR (from_sqlite_integer (mr_memory_requested_bytes row) ''VM memory'') (\<lambda>memory.
     bindR (from_sqlite_integer (mr_memory_effective_mib row) ''VM effective memory'') (\<lambda>mib.
     bindR (try_word (mr_vcpu_count row) ''persisted vCPU count is invalid'') (\<lambda>vcpus.
     Inr \<lparr>vm_id = mr_id row, vm_name = mr_name row, vm_distribution_id = mr_distribution_id row,
          vm_image_id = mr_image_id row, vm_kernel_id = mr_kernel_id row,
          vm_firecracker_package_id = mr_firecracker_package_id row,
          vm_firectl_package_id = mr_firectl_package_id row, vm_disk_size_bytes = disk,
          vm_memory_bytes = memory, vm_memory_effective_mib = mib, vm_vcpu_count = vcpus,
          vm_volume_path = mr_volume_path row, vm_rootfs_path = mr_rootfs_path row,
          vm_socket_path = mr_socket_path row, vm_expose_on_lan = mr_expose_on_lan row,
          vm_created_at = mr_created_at row\<rparr>))))"

fun mapR :: "('a \<Rightarrow> 'e + 'b) \<Rightarrow> 'a list \<Rightarrow> 'e + 'b list" where
  "mapR f [] = Inr []"
| "mapR f (x # xs) = bindR (f x) (\<lambda>y. bindR (mapR f xs) (\<lambda>ys. Inr (y # ys)))"

definition resource_from_row :: "ResourceRow \<Rightarrow> PersistedNetworkResource result" where
  "resource_from_row row =
     bindR (ok_or (NetworkResource_parse (rs_resource_kind row))
             (Migration (''unknown persisted network resource '' @ rs_resource_kind row))) (\<lambda>r.
     Inr \<lparr>pnr_resource = r, pnr_identity = rs_resource_identity row,
          pnr_fingerprint = rs_desired_fingerprint row, pnr_ownership = rs_ownership row,
          pnr_adapter_handle = rs_adapter_handle row, pnr_last_observed = rs_last_observed row\<rparr>)"

definition bridge_name_of :: "db \<Rightarrow> int option \<Rightarrow> string option" where
  "bridge_name_of db b =
     (case b of None \<Rightarrow> None
      | Some i \<Rightarrow> map_option br_bridge_name (find (\<lambda>r. br_id r = i) (db_bridges db)))"

definition network_from_row :: "db \<Rightarrow> NetworkRow \<Rightarrow> PersistedNetwork result" where
  "network_from_row db row =
     (let c = nw_columns row in
      bindR (ok_or (NetworkMode_parse (nw_mode row))
              (Migration (''unknown persisted network mode '' @ nw_mode row))) (\<lambda>mode.
      bindR (try_word (nw_prefix_length row) ''persisted network prefix is invalid'') (\<lambda>pfx.
      bindR (mapR resource_from_row
              (filter (\<lambda>r. rs_microvm_id r = nw_microvm_id row) (db_resources db))) (\<lambda>resources.
      Inr \<lparr>pn_config = \<lparr>nc_mode = mode, nc_guest_address = nw_guest_ip row, nc_prefix_length = pfx,
             nc_gateway = nx_gateway_ip c, nc_tap_name = nw_tap_name row,
             nc_bridge_name = bridge_name_of db (nw_bridge_id row),
             nc_uplink_name = nx_uplink_name c, nc_lan_address = nx_lan_ip c\<rparr>,
           pn_host_address = nx_host_ip c, pn_guest_mac = nw_guest_mac row,
           pn_dhcp_lease_reference = nx_dhcp_lease_reference c,
           pn_desired_boot_parameters = nx_desired_boot_parameters c, pn_resources = resources,
           pn_uplink_cidr = nx_uplink_cidr c,
           pn_proxy_arp_enabled_by_sdk = nx_proxy_arp_enabled_by_sdk c,
           pn_bridge_created_by_sdk = nx_bridge_created_by_sdk c,
           pn_uplink_attached_by_sdk = nx_uplink_attached_by_sdk c,
           pn_forwarding_enabled_by_sdk = nx_forwarding_enabled_by_sdk c,
           pn_nat_table_created_by_sdk = nx_nat_table_created_by_sdk c,
           pn_nat_chain_created_by_sdk = nx_nat_chain_created_by_sdk c,
           pn_host_route_created_by_sdk = nx_host_route_created_by_sdk c,
           pn_proxy_arp_entry_created_by_sdk = nx_proxy_arp_entry_created_by_sdk c,
           pn_host_address_specs = nx_host_address_specs c,
           pn_default_route_specs = nx_default_route_specs c\<rparr>))))"

text \<open>\<open>query_row\<close> with \<open>optional\<close> on a unique column, then the conversion of the row.\<close>

definition load_row :: "('r \<Rightarrow> bool) \<Rightarrow> ('r \<Rightarrow> 'a result) \<Rightarrow> 'r list \<Rightarrow> 'a option result" where
  "load_row P f rows =
     (case find P rows of None \<Rightarrow> Inr None | Some row \<Rightarrow> bindR (f row) (\<lambda>x. Inr (Some x)))"

definition load_network_record :: "db \<Rightarrow> int \<Rightarrow> PersistedNetwork option result" where
  "load_network_record db i =
     load_row (\<lambda>r. nw_microvm_id r = i) (network_from_row db) (db_networks db)"

definition credential_from_row :: "CredentialRow \<Rightarrow> PersistedCredential result" where
  "credential_from_row row =
     bindR (try_word (cd_ssh_port row) ''persisted SSH port is invalid'') (\<lambda>port.
     Inr \<lparr>pc_private_key_path = cd_private_key_path row, pc_public_key_path = cd_public_key_path row,
          pc_guest_authorized_keys_path = cd_guest_authorized_keys_path row,
          pc_key_type = cd_key_type row, pc_ssh_user = cd_ssh_user row, pc_ssh_port = port,
          pc_public_key_fingerprint = cd_public_key_fingerprint row,
          pc_file_mode = cd_file_mode row\<rparr>)"

definition load_credential_record :: "db \<Rightarrow> int \<Rightarrow> PersistedCredential option result" where
  "load_credential_record db i =
     load_row (\<lambda>r. cd_microvm_id r = i) credential_from_row (db_credentials db)"

definition runtime_from_row :: "RuntimeRow \<Rightarrow> PersistedRuntime result" where
  "runtime_from_row row =
     bindR (case rr_process_id row of
              None \<Rightarrow> Inr None
            | Some v \<Rightarrow> bindR (try_word v ''persisted process ID is invalid'') (\<lambda>p. Inr (Some p))) (\<lambda>pid.
     Inr \<lparr>rt_firecracker_path = rr_firecracker_path row, rt_firectl_path = rr_firectl_path row,
          rt_socket_path = rr_socket_path row, rt_process_id = pid,
          rt_process_state = rr_process_state row\<rparr>)"

definition load_runtime_record :: "db \<Rightarrow> int \<Rightarrow> PersistedRuntime option result" where
  "load_runtime_record db i =
     load_row (\<lambda>r. rr_microvm_id r = i) runtime_from_row (db_runtimes db)"

definition stored_from_row :: "db \<Rightarrow> MicroVmRow \<Rightarrow> StoredMicroVm result" where
  "stored_from_row db row =
     bindR (record_from_row row) (\<lambda>rec.
     bindR (load_network_record db (vm_id rec)) (\<lambda>network.
     bindR (load_credential_record db (vm_id rec)) (\<lambda>credential.
     bindR (load_runtime_record db (vm_id rec)) (\<lambda>runtime.
     Inr \<lparr>st_record = rec, st_network = network, st_credential = credential,
          st_runtime = runtime\<rparr>))))"

definition find_microvm :: "string \<Rightarrow> db \<Rightarrow> StoredMicroVm option result" where
  "find_microvm name db =
     load_row (\<lambda>r. mr_name r = name) (stored_from_row db) (db_microvms db)"

definition list_stored_microvms :: "db \<Rightarrow> StoredMicroVm list result" where
  "list_stored_microvms db =
     mapR (\<lambda>name. bindR (find_microvm name db) (\<lambda>x.
       ok_or x (Migration (''inventory row for '' @ name @ '' disappeared during bulk listing''))))
       (sort (map mr_name (db_microvms db)))"

definition find_volume_owner :: "path \<Rightarrow> db \<Rightarrow> string option" where
  "find_volume_owner volume db =
     map_option mr_name (find (\<lambda>r. mr_volume_path r = volume) (db_microvms db))"

text \<open>The join of VMs and their networks, filtered by mode.\<close>

definition join_networks :: "db \<Rightarrow> (MicroVmRow \<times> NetworkRow) list" where
  "join_networks db =
     concat (map (\<lambda>m. map (Pair m) (filter (\<lambda>n. nw_microvm_id n = mr_id m) (db_networks db)))
       (db_microvms db))"

definition list_host_only_networks :: "db \<Rightarrow> (string \<times> ip_addr \<times> string) list" where
  "list_host_only_networks db =
     map (\<lambda>(m, n). (mr_name m, nw_guest_ip n, nw_tap_name n))
       (filter (\<lambda>(m, n). nw_mode n = ''host_only'') (join_networks db))"

definition list_lan_addresses :: "db \<Rightarrow> (string \<times> ip_addr \<times> string) list" where
  "list_lan_addresses db =
     List.map_filter (\<lambda>(m, n). if nw_mode n = ''lan''
       then map_option (\<lambda>a. (mr_name m, a, nw_tap_name n)) (nx_lan_ip (nw_columns n)) else None)
       (join_networks db)"

section \<open>Statements\<close>

definition constraint :: "bool \<Rightarrow> string \<Rightarrow> unit result" where
  "constraint ok text = (if ok then Inr () else Inl (Sqlite text))"

definition vm_exists :: "int \<Rightarrow> db \<Rightarrow> bool" where
  "vm_exists i db = list_ex (\<lambda>r. mr_id r = i) (db_microvms db)"

text \<open>\<open>INSERT ... ON CONFLICT(key) DO UPDATE\<close>: replace the row with the key, or append.\<close>

definition upsert :: "('r \<Rightarrow> 'k) \<Rightarrow> 'r \<Rightarrow> 'r list \<Rightarrow> 'r list" where
  "upsert key row rows =
     (if list_ex (\<lambda>r. key r = key row) rows
      then map (\<lambda>r. if key r = key row then row else r) rows
      else rows @ [row])"

text \<open>A change of the database that may be refused: the result and the next database.\<close>

definition run_update :: "('d \<Rightarrow> ('a \<times> 'd) result) \<Rightarrow> ('d, 'a) sdk_io" where
  "run_update f db = (case f db of Inl e \<Rightarrow> (Inl e, db) | Inr (x, db') \<Rightarrow> (Inr x, db'))"

definition microvm_row :: "MicroVmRecord \<Rightarrow> int \<Rightarrow> MicroVmRow result" where
  "microvm_row rec i =
     bindR (to_sqlite_integer (vm_disk_size_bytes rec) ''VM disk size'') (\<lambda>disk.
     bindR (to_sqlite_integer (vm_memory_bytes rec) ''VM memory'') (\<lambda>memory.
     bindR (to_sqlite_integer (vm_memory_effective_mib rec) ''VM effective memory'') (\<lambda>mib.
     Inr \<lparr>mr_id = i, mr_name = vm_name rec, mr_distribution_id = vm_distribution_id rec,
          mr_image_id = vm_image_id rec, mr_kernel_id = vm_kernel_id rec,
          mr_firecracker_package_id = vm_firecracker_package_id rec,
          mr_firectl_package_id = vm_firectl_package_id rec, mr_disk_size_bytes = disk,
          mr_memory_requested_bytes = memory, mr_memory_effective_mib = mib,
          mr_vcpu_count = int (unat (vm_vcpu_count rec)), mr_volume_path = vm_volume_path rec,
          mr_rootfs_path = vm_rootfs_path rec, mr_socket_path = vm_socket_path rec,
          mr_expose_on_lan = vm_expose_on_lan rec, mr_created_at = vm_created_at rec\<rparr>)))"

definition check_microvm_row :: "MicroVmRow \<Rightarrow> db \<Rightarrow> unit result" where
  "check_microvm_row row db =
     (let rows = db_microvms db in
      bindR (constraint (0 < mr_disk_size_bytes row \<and> 0 < mr_memory_requested_bytes row
               \<and> 0 < mr_memory_effective_mib row \<and> 0 < mr_vcpu_count row)
               ''CHECK constraint failed'') (\<lambda>_.
      bindR (constraint (\<not> list_ex (\<lambda>r. mr_name r = mr_name row) rows)
               ''UNIQUE constraint failed: microvms.name'') (\<lambda>_.
      bindR (constraint (\<not> list_ex (\<lambda>r. mr_volume_path r = mr_volume_path row) rows)
               ''UNIQUE constraint failed: microvms.volume_path'') (\<lambda>_.
      bindR (constraint (\<not> list_ex (\<lambda>r. mr_rootfs_path r = mr_rootfs_path row) rows)
               ''UNIQUE constraint failed: microvms.rootfs_path'') (\<lambda>_.
      constraint (\<not> list_ex (\<lambda>r. mr_socket_path r = mr_socket_path row) rows)
               ''UNIQUE constraint failed: microvms.socket_path'')))))"

definition insert_microvm_stmt :: "MicroVmRecord \<Rightarrow> db \<Rightarrow> (int \<times> db) result" where
  "insert_microvm_stmt rec db =
     bindR (microvm_row rec (db_next_vm db)) (\<lambda>row.
     bindR (check_microvm_row row db) (\<lambda>_.
     Inr (db_next_vm db,
          db\<lparr>db_microvms := db_microvms db @ [row], db_next_vm := db_next_vm db + 1\<rparr>)))"

definition insert_microvm :: "MicroVmRecord \<Rightarrow> (db, int) sdk_io" where
  "insert_microvm rec = run_update (insert_microvm_stmt rec)"

definition credential_row :: "int \<Rightarrow> PersistedCredential \<Rightarrow> CredentialRow" where
  "credential_row i c =
     \<lparr>cd_microvm_id = i, cd_private_key_path = pc_private_key_path c,
      cd_public_key_path = pc_public_key_path c,
      cd_guest_authorized_keys_path = pc_guest_authorized_keys_path c, cd_key_type = pc_key_type c,
      cd_ssh_user = pc_ssh_user c, cd_ssh_port = int (unat (pc_ssh_port c)),
      cd_public_key_fingerprint = pc_public_key_fingerprint c, cd_file_mode = pc_file_mode c\<rparr>"

definition persist_credential_stmt :: "int \<Rightarrow> PersistedCredential \<Rightarrow> db \<Rightarrow> (unit \<times> db) result" where
  "persist_credential_stmt i credential db =
     (let row = credential_row i credential;
          others = filter (\<lambda>r. cd_microvm_id r \<noteq> i) (db_credentials db) in
      bindR (constraint (cd_key_type row = ''ed25519'' \<and> cd_ssh_user row = ''root''
               \<and> cd_ssh_port row = 22) ''CHECK constraint failed'') (\<lambda>_.
      bindR (constraint (\<not> list_ex (\<lambda>r. cd_private_key_path r = cd_private_key_path row) others)
               ''UNIQUE constraint failed: vm_credentials.private_key_path'') (\<lambda>_.
      bindR (constraint (\<not> list_ex (\<lambda>r. cd_public_key_path r = cd_public_key_path row) others)
               ''UNIQUE constraint failed: vm_credentials.public_key_path'') (\<lambda>_.
      bindR (constraint (vm_exists i db) ''FOREIGN KEY constraint failed'') (\<lambda>_.
      Inr ((), db\<lparr>db_credentials := upsert cd_microvm_id row (db_credentials db)\<rparr>))))))"

definition persist_credential :: "int \<Rightarrow> PersistedCredential \<Rightarrow> (db, unit) sdk_io" where
  "persist_credential i credential = run_update (persist_credential_stmt i credential)"

definition runtime_row :: "int \<Rightarrow> PersistedRuntime \<Rightarrow> RuntimeRow" where
  "runtime_row i r =
     \<lparr>rr_microvm_id = i, rr_firecracker_path = rt_firecracker_path r,
      rr_firectl_path = rt_firectl_path r, rr_socket_path = rt_socket_path r,
      rr_process_id = map_option (\<lambda>p. int (unat p)) (rt_process_id r),
      rr_process_state = rt_process_state r\<rparr>"

definition persist_runtime_stmt ::
  "int result \<Rightarrow> int \<Rightarrow> PersistedRuntime \<Rightarrow> db \<Rightarrow> (unit \<times> db) result" where
  "persist_runtime_stmt now i runtime db =
     bindR now (\<lambda>_.
     bindR (constraint (rt_process_state runtime \<in> {''stopped'', ''starting'', ''running''})
              ''CHECK constraint failed'') (\<lambda>_.
     bindR (constraint (vm_exists i db) ''FOREIGN KEY constraint failed'') (\<lambda>_.
     Inr ((), db\<lparr>db_runtimes := upsert rr_microvm_id (runtime_row i runtime) (db_runtimes db)\<rparr>))))"

definition persist_runtime :: "int result \<Rightarrow> int \<Rightarrow> PersistedRuntime \<Rightarrow> (db, unit) sdk_io" where
  "persist_runtime now i runtime = run_update (persist_runtime_stmt now i runtime)"

definition update_microvm_resources_stmt ::
  "int result \<Rightarrow> int \<Rightarrow> u64 \<Rightarrow> u64 \<Rightarrow> u64 \<Rightarrow> u32 \<Rightarrow> db \<Rightarrow> (unit \<times> db) result" where
  "update_microvm_resources_stmt now i disk memory mib vcpus db =
     bindR (to_sqlite_integer disk ''VM disk size'') (\<lambda>disk'.
     bindR (to_sqlite_integer memory ''VM memory'') (\<lambda>memory'.
     bindR (to_sqlite_integer mib ''VM effective memory'') (\<lambda>mib'.
     bindR now (\<lambda>_.
     if \<not> vm_exists i db then Inl (NotFound ''MicroVM'' (show_int i))
     else
     bindR (constraint (0 < disk' \<and> 0 < memory' \<and> 0 < mib' \<and> 0 < vcpus)
              ''CHECK constraint failed'') (\<lambda>_.
     Inr ((), db\<lparr>db_microvms := map (\<lambda>r. if mr_id r = i
         then r\<lparr>mr_disk_size_bytes := disk', mr_memory_requested_bytes := memory',
                mr_memory_effective_mib := mib', mr_vcpu_count := int (unat vcpus)\<rparr> else r)
         (db_microvms db)\<rparr>))))))"

definition update_microvm_resources :: "int result \<Rightarrow> int \<Rightarrow> u64 \<Rightarrow> u64 \<Rightarrow> u64 \<Rightarrow> u32 \<Rightarrow> (db, unit) sdk_io" where
  "update_microvm_resources now i disk memory mib vcpus = run_update (update_microvm_resources_stmt now i disk memory mib vcpus)"

section \<open>Networks and bridges\<close>

definition recount_bridges :: "db \<Rightarrow> db" where
  "recount_bridges db = db\<lparr>db_bridges := map (\<lambda>b. b\<lparr>br_reference_count :=
      int (length (filter (\<lambda>n. nw_bridge_id n = Some (br_id b)) (db_networks db)))\<rparr>) (db_bridges db)\<rparr>"

definition sdk_owned :: "BridgeRow \<Rightarrow> bool" where
  "sdk_owned b \<longleftrightarrow> br_ownership b = ''sdk:taumaru''"

definition bridge_for_network ::
  "int result \<Rightarrow> PersistedNetwork \<Rightarrow> db \<Rightarrow> (int option \<times> db) result" where
  "bridge_for_network now network db =
     (let mode = NetworkMode_as_str (nc_mode (pn_config network)) in
      case (nc_bridge_name (pn_config network), nc_uplink_name (pn_config network)) of
        (Some bridge, Some uplink) \<Rightarrow>
          (case find (\<lambda>b. br_bridge_name b = bridge \<and> br_uplink_name b = uplink) (db_bridges db) of
             Some b \<Rightarrow>
               if sdk_owned b then Inr (Some (br_id b), db)
               else Inl (Network mode ''persist bridge ownership'' bridge
                      (''bridge is owned by '' @ br_ownership b))
           | None \<Rightarrow>
               bindR now (\<lambda>_.
               bindR (constraint (\<not> list_ex (\<lambda>b. br_bridge_name b = bridge) (db_bridges db))
                        ''UNIQUE constraint failed: network_bridges.bridge_name'') (\<lambda>_.
               Inr (Some (db_next_bridge db),
                    db\<lparr>db_bridges := db_bridges db @ [\<lparr>br_id = db_next_bridge db,
                          br_bridge_name = bridge, br_uplink_name = uplink,
                          br_ownership = ''sdk:taumaru'', br_reference_count = 0\<rparr>],
                       db_next_bridge := db_next_bridge db + 1\<rparr>))))
      | (None, Some _) \<Rightarrow>
          if nc_mode (pn_config network) = Lan then Inr (None, db)
          else Inl (Network mode ''persist network configuration'' ''bridge/uplink''
                 ''LAN configuration must include both bridge and uplink'')
      | (None, None) \<Rightarrow> Inr (None, db)
      | _ \<Rightarrow> Inl (Network mode ''persist network configuration'' ''bridge/uplink''
               ''LAN configuration must include both bridge and uplink''))"

definition network_row :: "int \<Rightarrow> int option \<Rightarrow> PersistedNetwork \<Rightarrow> NetworkRow" where
  "network_row i bridge n =
     \<lparr>nw_microvm_id = i, nw_mode = NetworkMode_as_str (nc_mode (pn_config n)),
      nw_guest_ip = nc_guest_address (pn_config n),
      nw_prefix_length = int (unat (nc_prefix_length (pn_config n))),
      nw_tap_name = nc_tap_name (pn_config n), nw_guest_mac = pn_guest_mac n,
      nw_bridge_id = bridge,
      nw_columns = \<lparr>nx_gateway_ip = nc_gateway (pn_config n), nx_host_ip = pn_host_address n,
        nx_uplink_name = nc_uplink_name (pn_config n),
        nx_dhcp_lease_reference = pn_dhcp_lease_reference n,
        nx_desired_boot_parameters = pn_desired_boot_parameters n,
        nx_bridge_created_by_sdk = pn_bridge_created_by_sdk n,
        nx_uplink_attached_by_sdk = pn_uplink_attached_by_sdk n,
        nx_forwarding_enabled_by_sdk = pn_forwarding_enabled_by_sdk n,
        nx_nat_table_created_by_sdk = pn_nat_table_created_by_sdk n,
        nx_nat_chain_created_by_sdk = pn_nat_chain_created_by_sdk n,
        nx_host_address_specs = pn_host_address_specs n,
        nx_default_route_specs = pn_default_route_specs n,
        nx_lan_ip = nc_lan_address (pn_config n), nx_uplink_cidr = pn_uplink_cidr n,
        nx_proxy_arp_enabled_by_sdk = pn_proxy_arp_enabled_by_sdk n,
        nx_host_route_created_by_sdk = pn_host_route_created_by_sdk n,
        nx_proxy_arp_entry_created_by_sdk = pn_proxy_arp_entry_created_by_sdk n\<rparr>\<rparr>"

definition resource_row :: "int \<Rightarrow> PersistedNetworkResource \<Rightarrow> ResourceRow" where
  "resource_row i r =
     \<lparr>rs_microvm_id = i, rs_resource_kind = NetworkResource_as_str (pnr_resource r),
      rs_resource_identity = pnr_identity r, rs_desired_fingerprint = pnr_fingerprint r,
      rs_ownership = pnr_ownership r, rs_adapter_handle = pnr_adapter_handle r,
      rs_last_observed = pnr_last_observed r\<rparr>"

definition persist_network_transaction ::
  "int result \<Rightarrow> int \<Rightarrow> PersistedNetwork \<Rightarrow> db \<Rightarrow> (unit \<times> db) result" where
  "persist_network_transaction now i network db =
     (let previous_bridge = Option.bind (find (\<lambda>r. nw_microvm_id r = i) (db_networks db)) nw_bridge_id in
      bindR (bridge_for_network now network db) (\<lambda>(bridge, db1).
      let row = network_row i bridge network;
          others = filter (\<lambda>r. nw_microvm_id r \<noteq> i) (db_networks db1) in
      bindR now (\<lambda>_.
      bindR (constraint (nw_prefix_length row \<le> 128) ''CHECK constraint failed'') (\<lambda>_.
      bindR (constraint (\<not> list_ex (\<lambda>r. nw_tap_name r = nw_tap_name row) others)
               ''UNIQUE constraint failed: vm_networks.tap_name'') (\<lambda>_.
      bindR (constraint (\<not> list_ex (\<lambda>r. nw_guest_mac r = nw_guest_mac row) others)
               ''UNIQUE constraint failed: vm_networks.guest_mac'') (\<lambda>_.
      bindR (constraint (vm_exists i db1) ''FOREIGN KEY constraint failed'') (\<lambda>_.
      bindR (constraint (distinct (map pnr_resource (pn_resources network)))
               ''UNIQUE constraint failed: vm_network_resources.microvm_id, vm_network_resources.resource_kind'') (\<lambda>_.
      let db2 = recount_bridges (db1\<lparr>db_networks := upsert nw_microvm_id row (db_networks db1),
            db_resources := filter (\<lambda>r. rs_microvm_id r \<noteq> i) (db_resources db1)
              @ map (resource_row i) (pn_resources network)\<rparr>);
          db3 = (if previous_bridge \<noteq> None \<and> previous_bridge \<noteq> bridge
                 then db2\<lparr>db_bridges := filter (\<lambda>b. \<not> (Some (br_id b) = previous_bridge
                        \<and> br_reference_count b = 0 \<and> sdk_owned b)) (db_bridges db2)\<rparr>
                 else db2)
      in Inr ((), db3)))))))))"

definition persist_network :: "int result \<Rightarrow> int \<Rightarrow> PersistedNetwork \<Rightarrow> (db, unit) sdk_io" where
  "persist_network now i network = run_update (persist_network_transaction now i network)"

definition update_network :: "int result \<Rightarrow> int \<Rightarrow> PersistedNetwork \<Rightarrow> (db, unit) sdk_io" where
  "update_network now i network = persist_network now i network"

text \<open>Deleting a VM row removes the rows of every table that references it.\<close>

definition cascade :: "int \<Rightarrow> db \<Rightarrow> db" where
  "cascade i db = db\<lparr>db_microvms := filter (\<lambda>r. mr_id r \<noteq> i) (db_microvms db),
     db_networks := filter (\<lambda>r. nw_microvm_id r \<noteq> i) (db_networks db),
     db_resources := filter (\<lambda>r. rs_microvm_id r \<noteq> i) (db_resources db),
     db_credentials := filter (\<lambda>r. cd_microvm_id r \<noteq> i) (db_credentials db),
     db_runtimes := filter (\<lambda>r. rr_microvm_id r \<noteq> i) (db_runtimes db),
     db_autostart := filter (\<lambda>r. ar_microvm_id r \<noteq> i) (db_autostart db),
     db_snapshot_metadata := filter (\<lambda>r. sm_microvm_id r \<noteq> i) (db_snapshot_metadata db)\<rparr>"

definition delete_microvm_stmt ::
  "int result \<Rightarrow> int \<Rightarrow> db \<Rightarrow> (unit \<times> db) result" where
  "delete_microvm_stmt now i db =
     bindR now (\<lambda>_.
     let db1 = recount_bridges (cascade i db)
     in Inr ((), db1\<lparr>db_bridges := filter (\<lambda>b. \<not> (br_reference_count b = 0 \<and> sdk_owned b))
          (db_bridges db1)\<rparr>))"

definition delete_microvm :: "int result \<Rightarrow> int \<Rightarrow> (db, unit) sdk_io" where
  "delete_microvm now i = run_update (delete_microvm_stmt now i)"

definition bridge_is_managed :: "string \<Rightarrow> string \<Rightarrow> db \<Rightarrow> bool" where
  "bridge_is_managed bridge uplink db =
     list_ex (\<lambda>b. br_bridge_name b = bridge \<and> br_uplink_name b = uplink \<and> sdk_owned b) (db_bridges db)"

definition bridge_has_other_references :: "int \<Rightarrow> string \<Rightarrow> string \<Rightarrow> db \<Rightarrow> bool" where
  "bridge_has_other_references i bridge uplink db =
     list_ex (\<lambda>n. nw_microvm_id n \<noteq> i \<and> list_ex (\<lambda>b. nw_bridge_id n = Some (br_id b)
        \<and> br_bridge_name b = bridge \<and> br_uplink_name b = uplink \<and> sdk_owned b) (db_bridges db))
       (db_networks db)"

definition load_network :: "int \<Rightarrow> db \<Rightarrow> NetworkConfiguration result" where
  "load_network i db =
     bindR (load_network_record db i) (\<lambda>n.
     ok_or (map_option pn_config n)
       (Migration (''network record is missing for VM '' @ show_int i)))"

section \<open>Autostart policies\<close>

definition autostart_policy_from_row :: "MicroVmRow \<times> AutostartRow \<Rightarrow> AutostartPolicy result" where
  "autostart_policy_from_row = (\<lambda>(m, a).
     bindR (try_word (ar_max_start_attempts a)
             (''invalid persisted autostart attempts for '' @ mr_name m @ '': ''
                @ show_int (ar_max_start_attempts a))) (\<lambda>attempts.
     Inr \<lparr>ap_name = mr_name m, ap_enabled = ar_enabled a, ap_max_start_attempts = attempts\<rparr>))"

definition join_autostart :: "db \<Rightarrow> (MicroVmRow \<times> AutostartRow) list" where
  "join_autostart db =
     concat (map (\<lambda>m. map (Pair m) (filter (\<lambda>a. ar_microvm_id a = mr_id m) (db_autostart db)))
       (db_microvms db))"

definition find_autostart_policy :: "string \<Rightarrow> db \<Rightarrow> AutostartPolicy option result" where
  "find_autostart_policy name db =
     load_row (\<lambda>(m, a). mr_name m = name) autostart_policy_from_row (join_autostart db)"

definition list_autostart_policies :: "db \<Rightarrow> AutostartPolicy list result" where
  "list_autostart_policies db =
     mapR autostart_policy_from_row (sort_key (\<lambda>(m, a). mr_name m) (join_autostart db))"

definition attempts_ok :: "AutostartSettings \<Rightarrow> bool" where
  "attempts_ok s \<longleftrightarrow> 1 \<le> as_max_start_attempts s \<and> as_max_start_attempts s \<le> 10"

definition autostart_row :: "int \<Rightarrow> AutostartSettings \<Rightarrow> AutostartRow" where
  "autostart_row i s = \<lparr>ar_microvm_id = i, ar_enabled = as_enabled s,
     ar_max_start_attempts = int (unat (as_max_start_attempts s))\<rparr>"

definition insert_autostart_policy_stmt ::
  "int result \<Rightarrow> int \<Rightarrow> AutostartSettings \<Rightarrow> db \<Rightarrow> (unit \<times> db) result" where
  "insert_autostart_policy_stmt now i settings db =
     bindR now (\<lambda>_.
     bindR (constraint (attempts_ok settings) ''CHECK constraint failed'') (\<lambda>_.
     bindR (constraint (\<not> list_ex (\<lambda>r. ar_microvm_id r = i) (db_autostart db))
              ''UNIQUE constraint failed: vm_autostart.microvm_id'') (\<lambda>_.
     bindR (constraint (vm_exists i db) ''FOREIGN KEY constraint failed'') (\<lambda>_.
     Inr ((), db\<lparr>db_autostart := db_autostart db @ [autostart_row i settings]\<rparr>)))))"

definition insert_autostart_policy :: "int result \<Rightarrow> int \<Rightarrow> AutostartSettings \<Rightarrow> (db, unit) sdk_io" where
  "insert_autostart_policy now i settings = run_update (insert_autostart_policy_stmt now i settings)"

definition update_autostart_policy_stmt ::
  "int result \<Rightarrow> int \<Rightarrow> AutostartSettings \<Rightarrow> db \<Rightarrow> (unit \<times> db) result" where
  "update_autostart_policy_stmt now i settings db =
     bindR now (\<lambda>_.
     bindR (constraint (attempts_ok settings \<or> \<not> list_ex (\<lambda>r. ar_microvm_id r = i) (db_autostart db))
              ''CHECK constraint failed'') (\<lambda>_.
     Inr ((), db\<lparr>db_autostart := map (\<lambda>r. if ar_microvm_id r = i then autostart_row i settings else r)
       (db_autostart db)\<rparr>)))"

definition update_autostart_policy :: "int result \<Rightarrow> int \<Rightarrow> AutostartSettings \<Rightarrow> (db, unit) sdk_io" where
  "update_autostart_policy now i settings = run_update (update_autostart_policy_stmt now i settings)"

definition delete_autostart_policy :: "int \<Rightarrow> (db, bool) sdk_io" where
  "delete_autostart_policy i db =
     (Inr (list_ex (\<lambda>r. ar_microvm_id r = i) (db_autostart db)),
      db\<lparr>db_autostart := filter (\<lambda>r. ar_microvm_id r \<noteq> i) (db_autostart db)\<rparr>)"

section \<open>The restore journal\<close>

definition record_restore_journal_stmt ::
  "int result \<Rightarrow> RestoreJournal \<Rightarrow> db \<Rightarrow> (unit \<times> db) result" where
  "record_restore_journal_stmt now journal db =
     bindR now (\<lambda>t.
     Inr ((), db\<lparr>db_journals :=
       upsert (\<lambda>(t, j). rj_operation_id j) (t, journal) (db_journals db)\<rparr>))"

definition record_restore_journal :: "int result \<Rightarrow> RestoreJournal \<Rightarrow> (db, unit) sdk_io" where
  "record_restore_journal now journal = run_update (record_restore_journal_stmt now journal)"

definition list_restore_journals :: "string \<Rightarrow> db \<Rightarrow> RestoreJournal list" where
  "list_restore_journals name db =
     map snd (sort_key fst (filter (\<lambda>(t, j). rj_vm_name j = name) (db_journals db)))"

definition delete_restore_journal :: "string \<Rightarrow> (db, unit) sdk_io" where
  "delete_restore_journal operation db =
     (Inr (), db\<lparr>db_journals := filter (\<lambda>(t, j). rj_operation_id j \<noteq> operation) (db_journals db)\<rparr>)"

section \<open>The rows of a restored VM\<close>

text \<open>\<open>INSERT\<close> without \<open>ON CONFLICT\<close>: refused when the VM has a row, which it then appends.\<close>

definition insert_credential_stmt :: "int \<Rightarrow> PersistedCredential \<Rightarrow> db \<Rightarrow> (unit \<times> db) result" where
  "insert_credential_stmt i credential db =
     bindR (constraint (\<not> list_ex (\<lambda>r. cd_microvm_id r = i) (db_credentials db))
              ''UNIQUE constraint failed: vm_credentials.microvm_id'') (\<lambda>_.
     persist_credential_stmt i credential db)"

definition restored_runtime :: "PersistedRuntime \<Rightarrow> PersistedRuntime" where
  "restored_runtime runtime = runtime\<lparr>rt_process_id := None, rt_process_state := ''stopped''\<rparr>"

definition insert_runtime_stmt ::
  "int result \<Rightarrow> int \<Rightarrow> PersistedRuntime \<Rightarrow> db \<Rightarrow> (unit \<times> db) result" where
  "insert_runtime_stmt now i runtime db =
     bindR (constraint (\<not> list_ex (\<lambda>r. rr_microvm_id r = i) (db_runtimes db))
              ''UNIQUE constraint failed: vm_runtime.microvm_id'') (\<lambda>_.
     persist_runtime_stmt now i (restored_runtime runtime) db)"

definition snapshot_metadata_row :: "int \<Rightarrow> RestoredSnapshotMetadata \<Rightarrow> SnapshotMetadataRow" where
  "snapshot_metadata_row i m =
     \<lparr>sm_microvm_id = i, sm_distribution_name = rm_distribution_name m,
      sm_distribution_version = rm_distribution_version m, sm_root_device = rm_root_device m,
      sm_kernel_args = rm_kernel_args m, sm_image_sha256 = rm_image_sha256 m,
      sm_guest_architecture = rm_guest_architecture m\<rparr>"

definition insert_snapshot_metadata_stmt ::
  "int \<Rightarrow> RestoredSnapshotMetadata \<Rightarrow> db \<Rightarrow> (unit \<times> db) result" where
  "insert_snapshot_metadata_stmt i metadata db =
     bindR (constraint (\<not> list_ex (\<lambda>r. sm_microvm_id r = i) (db_snapshot_metadata db))
              ''UNIQUE constraint failed: vm_snapshot_metadata.microvm_id'') (\<lambda>_.
     bindR (constraint (vm_exists i db) ''FOREIGN KEY constraint failed'') (\<lambda>_.
     Inr ((), db\<lparr>db_snapshot_metadata := db_snapshot_metadata db @ [snapshot_metadata_row i metadata]\<rparr>)))"

section \<open>Completeness of a stored VM\<close>

definition is_complete :: "StoredMicroVm \<Rightarrow> bool" where
  "is_complete s \<longleftrightarrow> st_network s \<noteq> None \<and> st_credential s \<noteq> None \<and> st_runtime s \<noteq> None"

definition require_complete :: "string \<Rightarrow> StoredMicroVm \<Rightarrow> unit result" where
  "require_complete operation s =
     (if is_complete s then Inr ()
      else Inl (LifecycleConflict (vm_name (st_record s)) ''creation incomplete'' operation))"

definition require_full ::
  "string \<Rightarrow> StoredMicroVm \<Rightarrow> (PersistedNetwork \<times> PersistedCredential \<times> PersistedRuntime) result" where
  "require_full operation s =
     bindR (require_complete operation s) (\<lambda>_.
     case (st_network s, st_credential s, st_runtime s) of
       (Some n, Some c, Some r) \<Rightarrow> Inr (n, c, r)
     | _ \<Rightarrow> Inl (LifecycleConflict (vm_name (st_record s)) ''creation incomplete'' operation))"

end
