(* ===== verification/Path_Text.thy ===== *)
theory Path_Text
  imports Repository
begin

text \<open>
  The text of a path in the database. The code binds \<open>Path::to_string_lossy\<close> of a path to a statement
  (src/crates/sdk/src/adapters/persistence/sqlite.rs) and reads \<open>PathBuf::from\<close> of the text back. On Unix a path is a string of
  bytes; the lossy conversion keeps valid UTF-8 and replaces every maximal invalid part of a character by
  U+FFFD. A separator is never part of such a character, so the conversion works on each component. The rows
  of Repository and Artifact_Rows hold paths after this conversion.
\<close>

section \<open>UTF-8\<close>

definition utf8_tail :: "char \<Rightarrow> bool" where
  "utf8_tail c \<longleftrightarrow> 128 \<le> byte c \<and> byte c < 192"

text \<open>The second byte of a sequence of three or four bytes: overlong forms and surrogates are excluded.\<close>

definition utf8_three :: "char \<Rightarrow> char \<Rightarrow> bool" where
  "utf8_three a b \<longleftrightarrow> 224 \<le> byte a \<and> byte a < 240 \<and> utf8_tail b
     \<and> (byte a = 224 \<longrightarrow> 160 \<le> byte b) \<and> (byte a = 237 \<longrightarrow> byte b < 160)"

definition utf8_four :: "char \<Rightarrow> char \<Rightarrow> bool" where
  "utf8_four a b \<longleftrightarrow> 240 \<le> byte a \<and> byte a < 245 \<and> utf8_tail b
     \<and> (byte a = 240 \<longrightarrow> 144 \<le> byte b) \<and> (byte a = 244 \<longrightarrow> byte b < 144)"

fun utf8_valid :: "string \<Rightarrow> bool" where
  "utf8_valid [] = True"
| "utf8_valid (a # as) =
     (if byte a < 128 then utf8_valid as
      else case as of
        [] \<Rightarrow> False
      | b # bs \<Rightarrow>
          if 194 \<le> byte a \<and> byte a < 224 \<and> utf8_tail b then utf8_valid bs
          else case bs of
            [] \<Rightarrow> False
          | c # cs \<Rightarrow>
              if utf8_three a b \<and> utf8_tail c then utf8_valid cs
              else case cs of
                [] \<Rightarrow> False
              | d # ds \<Rightarrow> utf8_four a b \<and> utf8_tail c \<and> utf8_tail d \<and> utf8_valid ds)"

text \<open>\<open>String::from_utf8_lossy\<close>.\<close>

definition replacement_character :: string where
  "replacement_character = [CHR 0xEF, CHR 0xBF, CHR 0xBD]"

fun from_utf8_lossy :: "string \<Rightarrow> string" where
  "from_utf8_lossy [] = []"
| "from_utf8_lossy (a # as) =
     (if byte a < 128 then a # from_utf8_lossy as
      else case as of
        [] \<Rightarrow> replacement_character
      | b # bs \<Rightarrow>
          if 194 \<le> byte a \<and> byte a < 224 \<and> utf8_tail b then a # b # from_utf8_lossy bs
          else if utf8_three a b \<or> utf8_four a b then
            (case bs of
               [] \<Rightarrow> replacement_character
             | c # cs \<Rightarrow>
                 if \<not> utf8_tail c then replacement_character @ from_utf8_lossy bs
                 else if utf8_three a b then a # b # c # from_utf8_lossy cs
                 else (case cs of
                         [] \<Rightarrow> replacement_character
                       | d # ds \<Rightarrow>
                           if utf8_tail d then a # b # c # d # from_utf8_lossy ds
                           else replacement_character @ from_utf8_lossy cs))
          else replacement_character @ from_utf8_lossy as)"

lemma utf8_lead:
  "utf8_three a b \<Longrightarrow> 224 \<le> byte a \<and> byte a < 240" "utf8_four a b \<Longrightarrow> 240 \<le> byte a"
  by (simp_all add: utf8_three_def utf8_four_def)

text \<open>The conversion keeps valid text as it is and always yields valid text.\<close>

lemma utf8_valid_sequence:
  "byte a < 128 \<Longrightarrow> utf8_valid (a # s) = utf8_valid s"
  "194 \<le> byte a \<Longrightarrow> byte a < 224 \<Longrightarrow> utf8_tail b \<Longrightarrow> utf8_valid (a # b # s) = utf8_valid s"
  "utf8_three a b \<Longrightarrow> utf8_tail c \<Longrightarrow> utf8_valid (a # b # c # s) = utf8_valid s"
  "utf8_four a b \<Longrightarrow> utf8_tail c \<Longrightarrow> utf8_tail d \<Longrightarrow> utf8_valid (a # b # c # d # s) = utf8_valid s"
  by (subst utf8_valid.simps, use utf8_lead [of a b] in auto)+

declare utf8_valid.simps(2) [simp del] from_utf8_lossy.simps(2) [simp del]

lemma from_utf8_lossy_valid: "utf8_valid s \<Longrightarrow> from_utf8_lossy s = s"
proof (induction s rule: from_utf8_lossy.induct)
  case (2 a as)
  from "2.prems" show ?case
    by (subst from_utf8_lossy.simps, subst (asm) utf8_valid.simps)
      (use "2.IH" in \<open>auto split: list.splits if_splits\<close>)
qed simp

lemma utf8_valid_replacement [simp]:
  "utf8_valid (replacement_character @ s) = utf8_valid s" "utf8_valid replacement_character"
proof -
  have "utf8_three (CHR 0xEF) (CHR 0xBF)" "utf8_tail (CHR 0xBD)" by (simp_all add: utf8_three_def utf8_tail_def)
  then show "utf8_valid (replacement_character @ s) = utf8_valid s" "utf8_valid replacement_character"
    by (simp_all add: replacement_character_def utf8_valid_sequence)
qed

lemma utf8_valid_from_utf8_lossy: "utf8_valid (from_utf8_lossy s)"
proof (induction s rule: from_utf8_lossy.induct)
  case (2 a as)
  then show ?case
    by (subst from_utf8_lossy.simps) (auto simp: utf8_valid_sequence split: list.splits)
qed simp

lemma utf8_valid_ascii: "list_all is_ascii s \<Longrightarrow> utf8_valid s"
  by (induction s) (auto simp: is_ascii_def utf8_valid_sequence)

section \<open>Stored paths\<close>

fun lossy_component :: "component \<Rightarrow> component" where
  "lossy_component (Normal name) = Normal (from_utf8_lossy name)"
| "lossy_component c = c"

fun utf8_component :: "component \<Rightarrow> bool" where
  "utf8_component (Normal name) = utf8_valid name"
| "utf8_component c = True"

definition to_string_lossy :: "path \<Rightarrow> path" where
  "to_string_lossy p = map lossy_component p"

definition utf8_path :: "path \<Rightarrow> bool" where
  "utf8_path p = list_all utf8_component p"

lemma to_string_lossy_utf8: "utf8_path p \<Longrightarrow> to_string_lossy p = p"
proof -
  have "utf8_component c \<Longrightarrow> lossy_component c = c" for c by (cases c) (simp_all add: from_utf8_lossy_valid)
  then show "utf8_path p \<Longrightarrow> to_string_lossy p = p" by (auto simp: utf8_path_def to_string_lossy_def list_all_iff intro: map_idI)
qed

lemma utf8_path_lossy: "utf8_path (to_string_lossy p)"
proof -
  have "utf8_component (lossy_component c)" for c by (cases c) (simp_all add: utf8_valid_from_utf8_lossy)
  then show ?thesis by (simp add: utf8_path_def to_string_lossy_def list_all_iff)
qed

text \<open>The values that a creation binds to its statements.\<close>

definition bound_record :: "MicroVmRecord \<Rightarrow> MicroVmRecord" where
  "bound_record rec = rec\<lparr>vm_volume_path := to_string_lossy (vm_volume_path rec),
     vm_rootfs_path := to_string_lossy (vm_rootfs_path rec),
     vm_socket_path := to_string_lossy (vm_socket_path rec)\<rparr>"

definition bound_credential :: "PersistedCredential \<Rightarrow> PersistedCredential" where
  "bound_credential c = c\<lparr>pc_private_key_path := to_string_lossy (pc_private_key_path c),
     pc_public_key_path := to_string_lossy (pc_public_key_path c)\<rparr>"

definition bound_runtime :: "PersistedRuntime \<Rightarrow> PersistedRuntime" where
  "bound_runtime r = r\<lparr>rt_firecracker_path := to_string_lossy (rt_firecracker_path r),
     rt_firectl_path := to_string_lossy (rt_firectl_path r),
     rt_socket_path := to_string_lossy (rt_socket_path r)\<rparr>"

definition utf8_record :: "MicroVmRecord \<Rightarrow> bool" where
  "utf8_record rec \<longleftrightarrow> utf8_path (vm_volume_path rec) \<and> utf8_path (vm_rootfs_path rec) \<and> utf8_path (vm_socket_path rec)"

definition utf8_credential :: "PersistedCredential \<Rightarrow> bool" where
  "utf8_credential c \<longleftrightarrow> utf8_path (pc_private_key_path c) \<and> utf8_path (pc_public_key_path c)"

definition utf8_runtime :: "PersistedRuntime \<Rightarrow> bool" where
  "utf8_runtime r \<longleftrightarrow> utf8_path (rt_firecracker_path r) \<and> utf8_path (rt_firectl_path r) \<and> utf8_path (rt_socket_path r)"

lemma bound_utf8:
  "utf8_record rec \<Longrightarrow> bound_record rec = rec" "utf8_credential c \<Longrightarrow> bound_credential c = c"
  "utf8_runtime r \<Longrightarrow> bound_runtime r = r"
  by (simp_all add: bound_record_def utf8_record_def bound_credential_def utf8_credential_def bound_runtime_def
      utf8_runtime_def to_string_lossy_utf8)

lemma vm_name_bound [simp]: "vm_name (bound_record rec) = vm_name rec"
  by (simp add: bound_record_def)

end
