(* ===== verification/Artifact_Repository.thy ===== *)
theory Artifact_Repository
  imports Registry Repository
begin

text \<open>
  The \<open>ArtifactRepository\<close> implementation of src/crates/sdk/src/adapters/persistence/sqlite.rs on the
  tables of Artifact_Rows. A statement is a function from the tables to an error or a value and the next
  tables; a transaction is a sequence of statements, and \<open>run_update\<close> keeps the tables when one of them
  fails. The statements check the constraints of the schema: uniqueness, \<open>REFERENCES\<close> with \<open>ON DELETE
  RESTRICT\<close> and \<open>ON DELETE CASCADE\<close>, and the \<open>CHECK\<close> clauses that the values of the statement do not
  always satisfy.
\<close>

section \<open>Statements and transactions\<close>

type_synonym ('d, 'a) stmt = "'d \<Rightarrow> ('a \<times> 'd) result"

definition bindS :: "('d, 'a) stmt \<Rightarrow> ('a \<Rightarrow> ('d, 'b) stmt) \<Rightarrow> ('d, 'b) stmt" where
  "bindS m f = (\<lambda>d. bindR (m d) (\<lambda>(x, d'). f x d'))"

definition returnS :: "'a \<Rightarrow> ('d, 'a) stmt" where
  "returnS x = (\<lambda>d. Inr (x, d))"

definition liftS :: "'a result \<Rightarrow> ('d, 'a) stmt" where
  "liftS r = (\<lambda>d. bindR r (\<lambda>x. Inr (x, d)))"

definition queryS :: "('d \<Rightarrow> 'a) \<Rightarrow> ('d, 'a) stmt" where
  "queryS f = (\<lambda>d. Inr (f d, d))"

definition executeS :: "('d \<Rightarrow> 'd) \<Rightarrow> ('d, unit) stmt" where
  "executeS f = (\<lambda>d. Inr ((), f d))"

fun forS :: "'a list \<Rightarrow> ('a \<Rightarrow> ('d, unit) stmt) \<Rightarrow> ('d, unit) stmt" where
  "forS [] f = returnS ()"
| "forS (x # xs) f = bindS (f x) (\<lambda>_. forS xs f)"

lemma bindS_Inr: "bindS m f d = Inr (y, d') \<longleftrightarrow> (\<exists>x d1. m d = Inr (x, d1) \<and> f x d1 = Inr (y, d'))"
  by (auto simp: bindS_def bindR_Inr)

lemma stmt_apply [simp]:
  "returnS x d = Inr (x, d)" "queryS g d = Inr (g d, d)" "executeS h d = Inr ((), h d)"
  by (simp_all add: returnS_def queryS_def executeS_def)

lemma liftS_Inr [simp]: "liftS r d = Inr (x, d') \<longleftrightarrow> r = Inr x \<and> d' = d"
  by (auto simp: liftS_def bindR_Inr)

text \<open>The key of the row that an \<open>ON CONFLICT ... DO UPDATE\<close> updates, or the next key.\<close>

definition row_id :: "('r \<Rightarrow> 'k) \<Rightarrow> ('r \<Rightarrow> int) \<Rightarrow> 'k \<Rightarrow> int \<Rightarrow> 'r list \<Rightarrow> int" where
  "row_id key ident k next rows =
     (case find (\<lambda>r. key r = k) rows of Some r \<Rightarrow> ident r | None \<Rightarrow> next)"

definition advance_id :: "('r \<Rightarrow> 'k) \<Rightarrow> 'k \<Rightarrow> int \<Rightarrow> 'r list \<Rightarrow> int" where
  "advance_id key k next rows = (if list_ex (\<lambda>r. key r = k) rows then next else next + 1)"

definition foreign_key :: "bool \<Rightarrow> unit result" where
  "foreign_key ok = constraint ok ''FOREIGN KEY constraint failed''"

definition unique :: "('r \<Rightarrow> bool) \<Rightarrow> 'r list \<Rightarrow> string \<Rightarrow> unit result" where
  "unique clash rows column = constraint (\<not> list_ex clash rows) (''UNIQUE constraint failed: '' @ column)"

definition download_exists :: "int \<Rightarrow> artifact_db \<Rightarrow> bool" where
  "download_exists i a = list_ex (\<lambda>r. dl_id r = i) (ad_downloads a)"

section \<open>Downloads\<close>

definition download_row :: "DownloadSpec \<Rightarrow> FileIntegrity \<Rightarrow> int \<Rightarrow> int \<Rightarrow> int \<Rightarrow> DownloadRow" where
  "download_row spec integrity i expected actual =
     \<lparr>dl_id = i, dl_artifact_key = sp_artifact_key spec,
      dl_artifact_type = artifact_type_name (sp_artifact_kind spec), dl_registry_path = sp_registry_path spec,
      dl_registry_url = sp_registry_url spec, dl_filename = sp_filename spec,
      dl_relative_path = sp_relative_path spec, dl_absolute_path = sp_absolute_path spec,
      dl_expected_size_bytes = expected, dl_expected_sha256 = sp_expected_sha256 spec,
      dl_actual_size_bytes = actual, dl_actual_sha256 = fi_sha256 integrity,
      dl_verification_status = ''verified''\<rparr>"

definition persist_download ::
  "int result \<Rightarrow> DownloadSpec \<Rightarrow> FileIntegrity \<Rightarrow> (artifact_db, int) stmt" where
  "persist_download now spec integrity =
     bindS (liftS now) (\<lambda>_.
     bindS (liftS (to_sqlite_integer (sp_expected_size spec) (sp_artifact_key spec))) (\<lambda>expected.
     bindS (liftS (to_sqlite_integer (fi_size_bytes integrity) (sp_artifact_key spec))) (\<lambda>actual a.
     let key = sp_artifact_key spec;
         i = row_id dl_artifact_key dl_id key (ad_next_download a) (ad_downloads a);
         others = filter (\<lambda>r. dl_artifact_key r \<noteq> key) (ad_downloads a);
         row = download_row spec integrity i expected actual in
     bindR (constraint (is_valid_sha256 (dl_expected_sha256 row) \<and> is_valid_sha256 (dl_actual_sha256 row))
              ''CHECK constraint failed'') (\<lambda>_.
     bindR (unique (\<lambda>r. dl_relative_path r = dl_relative_path row) others ''downloads.relative_path'') (\<lambda>_.
     bindR (unique (\<lambda>r. dl_absolute_path r = dl_absolute_path row) others ''downloads.absolute_path'') (\<lambda>_.
     Inr (i, a\<lparr>ad_downloads := upsert dl_artifact_key row (ad_downloads a),
               ad_next_download := advance_id dl_artifact_key key (ad_next_download a) (ad_downloads a)\<rparr>)))))))"

text \<open>\<open>DELETE FROM downloads WHERE ...\<close>: refused while a member refers to the row; the ELF metadata goes
  with it.\<close>

definition delete_downloads :: "(DownloadRow \<Rightarrow> bool) \<Rightarrow> (artifact_db, unit) stmt" where
  "delete_downloads gone a =
     (let ids = map dl_id (filter gone (ad_downloads a)) in
      bindR (foreign_key (\<not> list_ex (\<lambda>k. case kr_download_id k of None \<Rightarrow> False | Some i \<Rightarrow> i \<in> set ids) (ad_kernels a)
               \<and> \<not> list_ex (\<lambda>f. bi_download_id f \<in> set ids) (ad_files a)
               \<and> \<not> list_ex (\<lambda>m. im_download_id m \<in> set ids) (ad_images a))) (\<lambda>_.
      Inr ((), a\<lparr>ad_downloads := filter (\<lambda>r. \<not> gone r) (ad_downloads a),
                 ad_elf := filter (\<lambda>r. el_download_id r \<notin> set ids) (ad_elf a),
                 ad_elf_libraries := filter (\<lambda>r. tx_owner r \<notin> set ids) (ad_elf_libraries a)\<rparr>)))"

section \<open>Texts of an owner\<close>

definition insert_text ::
  "int \<Rightarrow> bool \<Rightarrow> string \<Rightarrow> nat \<times> string \<Rightarrow> (TextRow list, unit) stmt" where
  "insert_text i owner_exists what entry rows =
     (case entry of (position, text) \<Rightarrow>
      if 2 ^ 63 \<le> position then Inl (Migration (what @ '' position exceeds SQLite INTEGER''))
      else bindR (unique (\<lambda>r. tx_owner r = i \<and> tx_position r = int position) rows what) (\<lambda>_.
           bindR (foreign_key owner_exists) (\<lambda>_.
           Inr ((), rows @ [\<lparr>tx_owner = i, tx_position = int position, tx_text = text\<rparr>]))))"

definition replace_texts ::
  "int \<Rightarrow> bool \<Rightarrow> string \<Rightarrow> string list \<Rightarrow> TextRow list \<Rightarrow> TextRow list result" where
  "replace_texts i owner_exists what texts rows =
     bindR (forS (enumerate 0 texts) (insert_text i owner_exists what) (filter (\<lambda>r. tx_owner r \<noteq> i) rows))
       (\<lambda>(_, rows'). Inr rows')"

definition replace_boot_args :: "int \<Rightarrow> string list \<Rightarrow> (artifact_db, unit) stmt" where
  "replace_boot_args i arguments a =
     bindR (replace_texts i (list_ex (\<lambda>r. ds_id r = i) (ad_distributions a)) ''boot argument'' arguments (ad_boot_args a))
       (\<lambda>rows. Inr ((), a\<lparr>ad_boot_args := rows\<rparr>))"

definition replace_capabilities :: "int \<Rightarrow> string list \<Rightarrow> (artifact_db, unit) stmt" where
  "replace_capabilities i capabilities a =
     bindR (replace_texts i (list_ex (\<lambda>r. im_id r = i) (ad_images a)) ''image capability'' capabilities (ad_capabilities a))
       (\<lambda>rows. Inr ((), a\<lparr>ad_capabilities := rows\<rparr>))"

definition filesystem_row :: "int \<Rightarrow> FilesystemMetadata \<Rightarrow> int \<Rightarrow> int \<Rightarrow> int \<Rightarrow> int \<Rightarrow> int \<Rightarrow> FilesystemRow" where
  "filesystem_row i filesystem block_size block_count free_blocks inode_count free_inodes =
     \<lparr>fr_distribution_image_id = i, fr_filesystem_type = fs_filesystem_type filesystem,
      fr_uuid = fs_uuid filesystem, fr_block_size = block_size, fr_block_count = block_count,
      fr_free_blocks = free_blocks, fr_inode_count = inode_count, fr_free_inodes = free_inodes\<rparr>"

definition replace_filesystem :: "int \<Rightarrow> FilesystemMetadata \<Rightarrow> (artifact_db, unit) stmt" where
  "replace_filesystem i filesystem a =
     bindR (to_sqlite_integer (fs_block_size filesystem) (show_int i)) (\<lambda>block_size.
     bindR (to_sqlite_integer (fs_block_count filesystem) (show_int i)) (\<lambda>block_count.
     bindR (to_sqlite_integer (fs_free_blocks filesystem) (show_int i)) (\<lambda>free_blocks.
     bindR (to_sqlite_integer (fs_inode_count filesystem) (show_int i)) (\<lambda>inode_count.
     bindR (to_sqlite_integer (fs_free_inodes filesystem) (show_int i)) (\<lambda>free_inodes.
     bindR (foreign_key (list_ex (\<lambda>r. im_id r = i) (ad_images a))) (\<lambda>_.
     bindR (replace_texts i True ''filesystem feature'' (fs_features filesystem) (ad_features a)) (\<lambda>rows.
     Inr ((), a\<lparr>ad_filesystems := filter (\<lambda>r. fr_distribution_image_id r \<noteq> i) (ad_filesystems a) @
            [filesystem_row i filesystem block_size block_count free_blocks inode_count free_inodes],
          ad_features := rows\<rparr>))))))))"

definition elf_row :: "int \<Rightarrow> ElfMetadata \<Rightarrow> ElfRow" where
  "elf_row i m =
     \<lparr>el_download_id = i, el_class = elf_class m, el_endianness = endianness_name (elf_endianness m),
      el_elf_type = elf_type m, el_machine = elf_machine m, el_entry_point = elf_entry_point m,
      el_build_id = elf_build_id m, el_interpreter = elf_interpreter m,
      el_linkage = map_option linkage_name (elf_linkage m), el_stripped = elf_stripped m\<rparr>"

definition persist_elf :: "int \<Rightarrow> ElfMetadata option \<Rightarrow> (artifact_db, unit) stmt" where
  "persist_elf i metadata a =
     (let a1 = a\<lparr>ad_elf := filter (\<lambda>r. el_download_id r \<noteq> i) (ad_elf a),
                ad_elf_libraries := filter (\<lambda>r. tx_owner r \<noteq> i) (ad_elf_libraries a)\<rparr> in
      case metadata of
        None \<Rightarrow> Inr ((), a1)
      | Some m \<Rightarrow>
          bindR (foreign_key (download_exists i a)) (\<lambda>_.
          bindR (replace_texts i True ''ELF library''
                  (case elf_needed_libraries m of None \<Rightarrow> [] | Some libraries \<Rightarrow> libraries) (ad_elf_libraries a1)) (\<lambda>rows.
          Inr ((), a1\<lparr>ad_elf := ad_elf a1 @ [elf_row i m], ad_elf_libraries := rows\<rparr>))))"

section \<open>Kernels\<close>

definition kernel_row :: "int \<Rightarrow> int option \<Rightarrow> Kernel \<Rightarrow> int \<Rightarrow> KernelRow" where
  "kernel_row i download kern size_bytes =
     \<lparr>kr_id = i, kr_registry_id = k_id kern, kr_download_id = download, kr_name = k_name kern,
      kr_display_name = k_display_name kern, kr_version = k_version kern,
      kr_architecture = architecture_name (k_architecture kern), kr_registry_path = k_path kern,
      kr_registry_url = k_url kern, kr_filename = k_filename kern, kr_size_bytes = size_bytes,
      kr_sha256 = k_sha256 kern, kr_format = k_format kern, kr_mime_type = k_mime_type kern,
      kr_modified_at = k_modified_at kern\<rparr>"

definition upsert_kernel :: "int option \<Rightarrow> Kernel \<Rightarrow> int \<Rightarrow> (artifact_db, unit) stmt" where
  "upsert_kernel download kern size_bytes a =
     (let key = k_id kern;
          row = kernel_row (row_id kr_registry_id kr_id key (ad_next_kernel a) (ad_kernels a)) download kern size_bytes;
          others = filter (\<lambda>r. kr_registry_id r \<noteq> key) (ad_kernels a) in
      bindR (unique (\<lambda>r. download \<noteq> None \<and> kr_download_id r = download) others ''kernels.download_id'') (\<lambda>_.
      bindR (foreign_key (case download of None \<Rightarrow> True | Some d \<Rightarrow> download_exists d a)) (\<lambda>_.
      Inr ((), a\<lparr>ad_kernels := upsert kr_registry_id row (ad_kernels a),
                 ad_next_kernel := advance_id kr_registry_id key (ad_next_kernel a) (ad_kernels a)\<rparr>))))"

definition persist_kernel_transaction ::
  "int result \<Rightarrow> Kernel \<Rightarrow> DownloadSpec \<Rightarrow> FileIntegrity \<Rightarrow> (artifact_db, unit) stmt" where
  "persist_kernel_transaction now kern spec integrity =
     bindS (persist_download now spec integrity) (\<lambda>download_id.
     bindS (liftS now) (\<lambda>_.
     bindS (liftS (to_sqlite_integer (k_size_bytes kern) (sp_artifact_key spec))) (\<lambda>size_bytes.
     bindS (upsert_kernel (Some download_id) kern size_bytes) (\<lambda>_.
     persist_elf download_id (k_elf kern)))))"

text \<open>A kernel that a distribution names is recorded without a download; a download it has is kept.\<close>

definition ensure_kernel_reference :: "Kernel \<Rightarrow> (artifact_db, unit) stmt" where
  "ensure_kernel_reference kern =
     bindS (liftS (to_sqlite_integer (k_size_bytes kern) (k_id kern))) (\<lambda>size_bytes.
     bindS (queryS (\<lambda>a. case find (\<lambda>r. kr_registry_id r = k_id kern) (ad_kernels a) of
              None \<Rightarrow> None | Some r \<Rightarrow> kr_download_id r)) (\<lambda>download.
     upsert_kernel download kern size_bytes))"

text \<open>\<open>DELETE FROM kernels WHERE id\<close>, with the rows that name the kernel.\<close>

definition delete_kernel_row :: "int \<Rightarrow> artifact_db \<Rightarrow> artifact_db" where
  "delete_kernel_row i a =
     a\<lparr>ad_distribution_kernels := filter (\<lambda>r. dk_kernel_id r \<noteq> i) (ad_distribution_kernels a),
       ad_kernels := filter (\<lambda>r. kr_id r \<noteq> i) (ad_kernels a)\<rparr>"

section \<open>Binary packages\<close>

definition package_row :: "BinaryPackage \<Rightarrow> int \<Rightarrow> BinaryPackageRow" where
  "package_row package i =
     \<lparr>pa_id = i, pa_registry_id = bp_id package, pa_name = bp_name package,
      pa_display_name = bp_display_name package, pa_description = bp_description package,
      pa_version = bp_version package, pa_architecture = architecture_name (bp_architecture package)\<rparr>"

definition upsert_package :: "BinaryPackage \<Rightarrow> (artifact_db, int) stmt" where
  "upsert_package package a =
     (let key = bp_id package;
          i = row_id pa_registry_id pa_id key (ad_next_package a) (ad_packages a);
          row = package_row package i in
      Inr (i, a\<lparr>ad_packages := upsert pa_registry_id row (ad_packages a),
                ad_next_package := advance_id pa_registry_id key (ad_next_package a) (ad_packages a)\<rparr>))"

definition file_key :: "BinaryFileRow \<Rightarrow> int \<times> string" where
  "file_key r = (bi_binary_package_id r, bi_component_name r)"

definition file_row :: "int \<Rightarrow> int \<Rightarrow> BinaryFile \<Rightarrow> int \<Rightarrow> int \<Rightarrow> BinaryFileRow" where
  "file_row package_id download_id file size_bytes i =
     \<lparr>bi_id = i, bi_binary_package_id = package_id, bi_download_id = download_id,
      bi_component_name = bf_name file, bi_registry_path = bf_path file, bi_registry_url = bf_url file,
      bi_filename = bf_filename file, bi_size_bytes = size_bytes, bi_sha256 = bf_sha256 file,
      bi_mime_type = bf_mime_type file, bi_executable = bf_executable file, bi_mode = bf_mode file,
      bi_permissions = bf_permissions file, bi_format = bf_format file, bi_modified_at = bf_modified_at file\<rparr>"

definition upsert_file :: "int \<Rightarrow> int \<Rightarrow> BinaryFile \<Rightarrow> int \<Rightarrow> (artifact_db, unit) stmt" where
  "upsert_file package_id download_id file size_bytes a =
     (let key = (package_id, bf_name file);
          row = file_row package_id download_id file size_bytes (row_id file_key bi_id key (ad_next_file a) (ad_files a));
          others = filter (\<lambda>r. file_key r \<noteq> key) (ad_files a) in
      bindR (unique (\<lambda>r. bi_download_id r = download_id) others ''binary_files.download_id'') (\<lambda>_.
      bindR (foreign_key (download_exists download_id a \<and> list_ex (\<lambda>r. pa_id r = package_id) (ad_packages a))) (\<lambda>_.
      Inr ((), a\<lparr>ad_files := upsert file_key row (ad_files a),
                 ad_next_file := advance_id file_key key (ad_next_file a) (ad_files a)\<rparr>))))"

definition persist_binary_file_transaction ::
  "int result \<Rightarrow> BinaryPackage \<Rightarrow> BinaryFile \<Rightarrow> DownloadSpec \<Rightarrow> FileIntegrity \<Rightarrow> (artifact_db, unit) stmt" where
  "persist_binary_file_transaction now package file spec integrity =
     bindS (liftS now) (\<lambda>_.
     bindS (upsert_package package) (\<lambda>package_id.
     bindS (persist_download now spec integrity) (\<lambda>download_id.
     bindS (liftS (to_sqlite_integer (bf_size_bytes file) (sp_artifact_key spec))) (\<lambda>size_bytes.
     bindS (upsert_file package_id download_id file size_bytes) (\<lambda>_.
     persist_elf download_id (bf_elf file))))))"

section \<open>Distributions\<close>

definition distribution_row :: "Distribution \<Rightarrow> int \<Rightarrow> int \<Rightarrow> DistributionRow" where
  "distribution_row distribution memory i =
     \<lparr>ds_id = i, ds_registry_id = d_id distribution, ds_name = d_name distribution,
      ds_display_name = d_display_name distribution, ds_description = d_description distribution,
      ds_distribution = d_distribution distribution, ds_version = d_version distribution,
      ds_codename = d_codename distribution, ds_architecture = architecture_name (d_architecture distribution),
      ds_vendor = d_vendor distribution, ds_homepage = d_homepage distribution,
      ds_default_kernel_registry_id = d_default_kernel distribution,
      ds_root_device = bc_root_device (d_boot distribution), ds_min_memory_mb = memory,
      ds_min_vcpus = int (unat (dr_min_vcpus (d_requirements distribution)))\<rparr>"

definition upsert_distribution :: "Distribution \<Rightarrow> (artifact_db, int) stmt" where
  "upsert_distribution distribution =
     bindS (liftS (to_sqlite_integer (dr_min_memory_mb (d_requirements distribution)) (d_id distribution))) (\<lambda>memory a.
     let key = d_id distribution;
         i = row_id ds_registry_id ds_id key (ad_next_distribution a) (ad_distributions a);
         row = distribution_row distribution memory i in
     bindR (constraint (0 < ds_min_vcpus row) ''CHECK constraint failed'') (\<lambda>_.
     Inr (i, a\<lparr>ad_distributions := upsert ds_registry_id row (ad_distributions a),
               ad_next_distribution := advance_id ds_registry_id key (ad_next_distribution a) (ad_distributions a)\<rparr>)))"

definition insert_distribution_kernel :: "int \<Rightarrow> int \<Rightarrow> bool \<Rightarrow> (artifact_db, unit) stmt" where
  "insert_distribution_kernel distribution_id kernel_id is_default a =
     bindR (unique (\<lambda>r. dk_distribution_id r = distribution_id \<and> dk_kernel_id r = kernel_id)
              (ad_distribution_kernels a) ''distribution_kernels.distribution_id, distribution_kernels.kernel_id'') (\<lambda>_.
     bindR (unique (\<lambda>r. is_default \<and> dk_is_default r \<and> dk_distribution_id r = distribution_id)
              (ad_distribution_kernels a) ''distribution_kernels.distribution_id'') (\<lambda>_.
     bindR (foreign_key (list_ex (\<lambda>r. ds_id r = distribution_id) (ad_distributions a)
              \<and> list_ex (\<lambda>r. kr_id r = kernel_id) (ad_kernels a))) (\<lambda>_.
     Inr ((), a\<lparr>ad_distribution_kernels := ad_distribution_kernels a @
       [\<lparr>dk_distribution_id = distribution_id, dk_kernel_id = kernel_id, dk_is_default = is_default\<rparr>]\<rparr>))))"

text \<open>The kernel of the manifest with an ID, recorded and linked to the distribution.\<close>

definition link_kernel :: "int \<Rightarrow> Kernel \<Rightarrow> bool \<Rightarrow> (artifact_db, unit) stmt" where
  "link_kernel distribution_id kern is_default =
     bindS (ensure_kernel_reference kern) (\<lambda>_.
     bindS (queryS (\<lambda>a. find (\<lambda>r. kr_registry_id r = k_id kern) (ad_kernels a))) (\<lambda>found.
     bindS (liftS (ok_or found (Sqlite ''Query returned no rows''))) (\<lambda>row.
     insert_distribution_kernel distribution_id (kr_id row) is_default)))"

definition persist_kernel_references ::
  "int \<Rightarrow> Distribution \<Rightarrow> Kernel list \<Rightarrow> (artifact_db, unit) stmt" where
  "persist_kernel_references distribution_id distribution kernels =
     bindS (executeS (\<lambda>a. a\<lparr>ad_distribution_kernels :=
              filter (\<lambda>r. dk_distribution_id r \<noteq> distribution_id) (ad_distribution_kernels a)\<rparr>)) (\<lambda>_.
     bindS (forS (d_supported_kernels distribution) (\<lambda>kernel_id.
       bindS (liftS (ok_or (find (\<lambda>k. k_id k = kernel_id) kernels)
               (invalid_metadata (d_id distribution)
                 (''supported kernel '' @ kernel_id @ '' is absent from the manifest'')))) (\<lambda>kern.
       link_kernel distribution_id kern (k_id kern = d_default_kernel distribution)))) (\<lambda>_.
     if d_default_kernel distribution \<in> set (d_supported_kernels distribution) then returnS ()
     else bindS (liftS (ok_or (find (\<lambda>k. k_id k = d_default_kernel distribution) kernels)
                 (invalid_metadata (d_id distribution)
                   (''default kernel '' @ d_default_kernel distribution @ '' is absent from the manifest'')))) (\<lambda>kern.
          link_kernel distribution_id kern True)))"

definition image_key :: "DistributionImageRow \<Rightarrow> int \<times> string" where
  "image_key r = (im_distribution_id r, im_registry_id r)"

definition image_row :: "int \<Rightarrow> int \<Rightarrow> DistributionImage \<Rightarrow> int \<Rightarrow> int \<Rightarrow> DistributionImageRow" where
  "image_row distribution_id download_id img size_bytes i =
     \<lparr>im_id = i, im_distribution_id = distribution_id, im_download_id = download_id,
      im_registry_id = di_id img, im_name = di_name img, im_display_name = di_display_name img,
      im_description = di_description img, im_variant = di_variant img, im_format = di_format img,
      im_registry_path = di_path img, im_registry_url = di_url img, im_filename = di_filename img,
      im_size_bytes = size_bytes, im_sha256 = di_sha256 img, im_mime_type = di_mime_type img,
      im_modified_at = di_modified_at img\<rparr>"

definition upsert_image :: "int \<Rightarrow> int \<Rightarrow> DistributionImage \<Rightarrow> int \<Rightarrow> (artifact_db, int) stmt" where
  "upsert_image distribution_id download_id img size_bytes a =
     (let key = (distribution_id, di_id img);
          i = row_id image_key im_id key (ad_next_image a) (ad_images a);
          row = image_row distribution_id download_id img size_bytes i;
          others = filter (\<lambda>r. image_key r \<noteq> key) (ad_images a) in
      bindR (unique (\<lambda>r. im_download_id r = download_id) others ''distribution_images.download_id'') (\<lambda>_.
      bindR (foreign_key (download_exists download_id a
               \<and> list_ex (\<lambda>r. ds_id r = distribution_id) (ad_distributions a))) (\<lambda>_.
      Inr (i, a\<lparr>ad_images := upsert image_key row (ad_images a),
                ad_next_image := advance_id image_key key (ad_next_image a) (ad_images a)\<rparr>))))"

definition persist_distribution_image_transaction ::
  "int result \<Rightarrow> Distribution \<Rightarrow> DistributionImage \<Rightarrow> Kernel list \<Rightarrow> DownloadSpec \<Rightarrow> FileIntegrity
     \<Rightarrow> (artifact_db, unit) stmt" where
  "persist_distribution_image_transaction now distribution img kernels spec integrity =
     bindS (liftS now) (\<lambda>_.
     bindS (upsert_distribution distribution) (\<lambda>distribution_id.
     bindS (replace_boot_args distribution_id (bc_kernel_args (d_boot distribution))) (\<lambda>_.
     bindS (persist_kernel_references distribution_id distribution kernels) (\<lambda>_.
     bindS (persist_download now spec integrity) (\<lambda>download_id.
     bindS (liftS (to_sqlite_integer (di_size_bytes img) (sp_artifact_key spec))) (\<lambda>size_bytes.
     bindS (upsert_image distribution_id download_id img size_bytes) (\<lambda>image_id.
     bindS (replace_filesystem image_id (di_filesystem img)) (\<lambda>_.
     replace_capabilities image_id (di_capabilities img)))))))))"

text \<open>\<open>DELETE FROM distribution_images WHERE id\<close>, with the tables that cascade.\<close>

definition delete_image_row :: "int \<Rightarrow> artifact_db \<Rightarrow> artifact_db" where
  "delete_image_row i a =
     a\<lparr>ad_images := filter (\<lambda>r. im_id r \<noteq> i) (ad_images a),
       ad_filesystems := filter (\<lambda>r. fr_distribution_image_id r \<noteq> i) (ad_filesystems a),
       ad_features := filter (\<lambda>r. tx_owner r \<noteq> i) (ad_features a),
       ad_capabilities := filter (\<lambda>r. tx_owner r \<noteq> i) (ad_capabilities a)\<rparr>"

section \<open>Queries\<close>

definition find_kernel_row :: "string \<Rightarrow> artifact_db \<Rightarrow> KernelRow option" where
  "find_kernel_row kernel_id a = find (\<lambda>r. kr_registry_id r = kernel_id) (ad_kernels a)"

text \<open>The joins of members with their parents and downloads: the rows in the order of the member table.\<close>

definition find_download :: "int \<Rightarrow> artifact_db \<Rightarrow> DownloadRow option" where
  "find_download i a = find (\<lambda>r. dl_id r = i) (ad_downloads a)"

definition package_of :: "BinaryFileRow \<Rightarrow> artifact_db \<Rightarrow> BinaryPackageRow option" where
  "package_of f a = find (\<lambda>p. pa_id p = bi_binary_package_id f) (ad_packages a)"

definition distribution_of :: "DistributionImageRow \<Rightarrow> artifact_db \<Rightarrow> DistributionRow option" where
  "distribution_of m a = find (\<lambda>d. ds_id d = im_distribution_id m) (ad_distributions a)"

definition find_file_row :: "string \<Rightarrow> string \<Rightarrow> artifact_db \<Rightarrow> BinaryFileRow option" where
  "find_file_row package component a =
     find (\<lambda>f. map_option pa_registry_id (package_of f a) = Some package \<and> bi_component_name f = component) (ad_files a)"

definition find_image_row :: "string \<Rightarrow> string \<Rightarrow> artifact_db \<Rightarrow> DistributionImageRow option" where
  "find_image_row distribution img a =
     find (\<lambda>m. map_option ds_registry_id (distribution_of m a) = Some distribution \<and> im_registry_id m = img)
       (ad_images a)"

definition member_name :: "string \<Rightarrow> DownloadSpec \<Rightarrow> string result" where
  "member_name kind spec =
     ok_or (sp_member_name spec) (invalid_metadata (sp_artifact_key spec) (kind @ '' is missing''))"

definition member_relation_exists :: "DownloadSpec \<Rightarrow> int \<Rightarrow> artifact_db \<Rightarrow> bool result" where
  "member_relation_exists spec download_id a =
     (case sp_artifact_kind spec of
        KernelKind \<Rightarrow>
          Inr (list_ex (\<lambda>r. kr_registry_id r = sp_artifact_id spec \<and> kr_download_id r = Some download_id) (ad_kernels a))
      | BinaryKind \<Rightarrow>
          bindR (member_name ''binary component'' spec) (\<lambda>component.
          Inr (list_ex (\<lambda>f. map_option pa_registry_id (package_of f a) = Some (sp_artifact_id spec)
                 \<and> bi_component_name f = component \<and> bi_download_id f = download_id) (ad_files a)))
      | DistributionImageKind \<Rightarrow>
          bindR (member_name ''distribution image'' spec) (\<lambda>img.
          Inr (list_ex (\<lambda>m. map_option ds_registry_id (distribution_of m a) = Some (sp_artifact_id spec)
                 \<and> im_registry_id m = img \<and> im_download_id m = download_id) (ad_images a))))"

text \<open>\<open>u64::try_from\<close> on a stored size.\<close>

definition stored_size :: "int \<Rightarrow> string \<Rightarrow> u64 result" where
  "stored_size v reason = (if 0 \<le> v \<and> v < 2 ^ 64 then Inr (word_of_int v) else Inl (Migration reason))"

definition inspect_member :: "DownloadSpec \<Rightarrow> FileIntegrity option \<Rightarrow> artifact_db \<Rightarrow> InventoryState result" where
  "inspect_member spec integrity a =
     (case find (\<lambda>r. dl_artifact_key r = sp_artifact_key spec) (ad_downloads a) of
        None \<Rightarrow> Inr Missing
      | Some row \<Rightarrow>
          bindR (stored_size (dl_expected_size_bytes row)
                  (''negative expected size stored for '' @ sp_artifact_key spec)) (\<lambda>expected_size.
          bindR (stored_size (dl_actual_size_bytes row)
                  (''negative actual size stored for '' @ sp_artifact_key spec)) (\<lambda>actual_size.
          let inventory_match = (dl_artifact_type row = artifact_type_name (sp_artifact_kind spec)
                \<and> dl_registry_path row = sp_registry_path spec \<and> dl_registry_url row = sp_registry_url spec
                \<and> dl_filename row = sp_filename spec \<and> dl_relative_path row = sp_relative_path spec
                \<and> dl_absolute_path row = sp_absolute_path spec \<and> expected_size = sp_expected_size spec
                \<and> dl_expected_sha256 row = sp_expected_sha256 spec \<and> actual_size = expected_size
                \<and> dl_actual_sha256 row = dl_expected_sha256 row \<and> dl_verification_status row = ''verified'');
              physical_match = (inventory_match \<and> (case integrity of None \<Rightarrow> True | Some v \<Rightarrow>
                fi_size_bytes v = sp_expected_size spec \<and> fi_sha256 v = sp_expected_sha256 spec
                \<and> fi_size_bytes v = expected_size \<and> fi_sha256 v = dl_expected_sha256 row
                \<and> actual_size = fi_size_bytes v \<and> dl_actual_sha256 row = fi_sha256 v)) in
          if \<not> physical_match then Inr Missing
          else bindR (member_relation_exists spec (dl_id row) a) (\<lambda>related.
               Inr (if related then Complete else Incomplete)))))"

definition local_artifact_from_row :: "DownloadRow option \<Rightarrow> string \<Rightarrow> string \<Rightarrow> LocalArtifact result" where
  "local_artifact_from_row row kind i =
     (case row of
        None \<Rightarrow> Inl (NotFound kind i)
      | Some d \<Rightarrow>
          bindR (stored_size (dl_actual_size_bytes d) (''negative '' @ kind @ '' size in inventory'')) (\<lambda>actual.
          bindR (stored_size (dl_expected_size_bytes d) (''negative '' @ kind @ '' expected size in inventory'')) (\<lambda>expected.
          if dl_verification_status d \<noteq> ''verified'' \<or> actual \<noteq> expected \<or> dl_actual_sha256 d \<noteq> dl_expected_sha256 d
          then Inl (ArtifactPrerequisite kind i (dl_absolute_path d) (Text ''the local inventory entry is stale''))
          else Inr \<lparr>la_path = dl_absolute_path d, la_size_bytes = actual, la_sha256 = dl_actual_sha256 d\<rparr>)))"

definition resolve_kernel :: "string \<Rightarrow> artifact_db \<Rightarrow> LocalArtifact result" where
  "resolve_kernel kernel_id a =
     local_artifact_from_row
       (Option.bind (find_kernel_row kernel_id a) (\<lambda>k. Option.bind (kr_download_id k) (\<lambda>i. find_download i a)))
       ''kernel'' kernel_id"

definition resolve_distribution_image :: "string \<Rightarrow> string \<Rightarrow> artifact_db \<Rightarrow> LocalArtifact result" where
  "resolve_distribution_image distribution_id image_id a =
     local_artifact_from_row
       (Option.bind (find_image_row distribution_id image_id a) (\<lambda>m. find_download (im_download_id m) a))
       ''distribution image'' image_id"

text \<open>A joined row of \<open>binary_packages\<close>, \<open>binary_files\<close> and \<open>downloads\<close> as an installed binary.\<close>

definition installed_from_row ::
  "BinaryPackageRow \<Rightarrow> BinaryFileRow \<Rightarrow> DownloadRow \<Rightarrow> InstalledBinary result" where
  "installed_from_row p f d =
     bindR (stored_size (dl_actual_size_bytes d) ''negative binary size in inventory'') (\<lambda>actual.
     bindR (stored_size (dl_expected_size_bytes d) ''negative expected binary size in inventory'') (\<lambda>expected.
     if dl_verification_status d \<noteq> ''verified'' \<or> actual \<noteq> expected \<or> dl_actual_sha256 d \<noteq> dl_expected_sha256 d
     then Inl (StaleBinary (pa_registry_id p) (bi_component_name f) (dl_absolute_path d))
     else bindR (parse_architecture (pa_architecture p)) (\<lambda>arch.
          Inr \<lparr>ib_package_id = pa_registry_id p, ib_component_name = bi_component_name f, ib_version = pa_version p,
               ib_architecture = arch, ib_path = dl_absolute_path d, ib_size_bytes = actual,
               ib_sha256 = dl_actual_sha256 d, ib_executable = bi_executable f\<rparr>)))"

definition join_binaries :: "artifact_db \<Rightarrow> (BinaryPackageRow \<times> BinaryFileRow \<times> DownloadRow) list" where
  "join_binaries a =
     List.map_filter (\<lambda>f. Option.bind (package_of f a) (\<lambda>p.
       map_option (\<lambda>d. (p, f, d)) (find_download (bi_download_id f) a))) (ad_files a)"

definition resolve_binary_row :: "string \<Rightarrow> string \<Rightarrow> artifact_db \<Rightarrow> InstalledBinary result" where
  "resolve_binary_row package_id component_name a =
     (case find (\<lambda>(p, f, d). pa_registry_id p = package_id \<and> bi_component_name f = component_name) (join_binaries a) of
        None \<Rightarrow> Inl (NotFound ''binary'' (package_id @ ''/'' @ component_name))
      | Some (p, f, d) \<Rightarrow> installed_from_row p f d)"

definition list_installed_binaries :: "artifact_db \<Rightarrow> InstalledBinary list result" where
  "list_installed_binaries a =
     mapR (\<lambda>(p, f, d). installed_from_row p f d)
       (sort_key (\<lambda>(p, f, d). pa_registry_id p) (sort_key (\<lambda>(p, f, d). bi_component_name f) (join_binaries a)))"

definition join_images :: "artifact_db \<Rightarrow> (DistributionRow \<times> DistributionImageRow \<times> DownloadRow) list" where
  "join_images a =
     List.map_filter (\<lambda>m. Option.bind (distribution_of m a) (\<lambda>s.
       map_option (\<lambda>d. (s, m, d)) (find_download (im_download_id m) a))) (ad_images a)"

definition list_ready_distribution_images :: "artifact_db \<Rightarrow> (string \<times> string) list" where
  "list_ready_distribution_images a =
     map (\<lambda>(s, m, d). (ds_registry_id s, im_registry_id m))
       (filter (\<lambda>(s, m, d). dl_verification_status d = ''verified''
          \<and> dl_actual_size_bytes d = dl_expected_size_bytes d \<and> dl_actual_sha256 d = dl_expected_sha256 d) (join_images a))"

text \<open>\<open>u64::try_from(size).unwrap_or(0)\<close>.\<close>

definition size_or_zero :: "int \<Rightarrow> u64" where
  "size_or_zero v = (if 0 \<le> v \<and> v < 2 ^ 64 then word_of_int v else 0)"

definition list_prunable_kernels :: "artifact_db \<Rightarrow> PrunableKernel list" where
  "list_prunable_kernels a =
     sort_key pk_registry_id (List.map_filter (\<lambda>k. Option.bind (kr_download_id k) (\<lambda>i.
       map_option (\<lambda>d. \<lparr>pk_registry_id = kr_registry_id k, pk_absolute_path = dl_absolute_path d,
           pk_size_bytes = size_or_zero (dl_actual_size_bytes d)\<rparr>) (find_download i a))) (ad_kernels a))"

definition list_prunable_images :: "artifact_db \<Rightarrow> PrunableImage list" where
  "list_prunable_images a =
     sort_key pm_distribution_id (sort_key pm_image_id
       (map (\<lambda>(s, m, d). \<lparr>pm_distribution_id = ds_registry_id s, pm_image_id = im_registry_id m,
           pm_absolute_path = dl_absolute_path d, pm_size_bytes = size_or_zero (dl_actual_size_bytes d)\<rparr>)
         (join_images a)))"

definition member_count :: "int \<Rightarrow> artifact_db \<Rightarrow> nat" where
  "member_count i a =
     length (filter (\<lambda>k. kr_download_id k = Some i) (ad_kernels a))
       + length (filter (\<lambda>m. im_download_id m = i) (ad_images a))"

definition is_orphan_type :: "string \<Rightarrow> bool" where
  "is_orphan_type t \<longleftrightarrow> t = ''kernel'' \<or> t = ''distribution_image''"

definition list_orphan_artifact_downloads :: "artifact_db \<Rightarrow> OrphanArtifactDownload list" where
  "list_orphan_artifact_downloads a =
     sort_key oa_artifact_key
       (map (\<lambda>d. \<lparr>oa_artifact_key = dl_artifact_key d, oa_artifact_type = dl_artifact_type d,
           oa_absolute_path = dl_absolute_path d, oa_size_bytes = size_or_zero (dl_actual_size_bytes d)\<rparr>)
         (filter (\<lambda>d. is_orphan_type (dl_artifact_type d) \<and> member_count (dl_id d) a = 0) (ad_downloads a)))"

section \<open>Removal\<close>

definition remove_kernel_rows :: "int \<Rightarrow> int \<Rightarrow> (artifact_db, unit) stmt" where
  "remove_kernel_rows kernel_row_id download_id =
     bindS (executeS (delete_kernel_row kernel_row_id)) (\<lambda>_. delete_downloads (\<lambda>d. dl_id d = download_id))"

definition remove_image_rows :: "int \<Rightarrow> int \<Rightarrow> (artifact_db, unit) stmt" where
  "remove_image_rows image_row_id download_id =
     bindS (executeS (delete_image_row image_row_id)) (\<lambda>_. delete_downloads (\<lambda>d. dl_id d = download_id))"

definition remove_member_transaction :: "DownloadSpec \<Rightarrow> (artifact_db, unit) stmt" where
  "remove_member_transaction spec =
     (let by_key = delete_downloads (\<lambda>d. dl_artifact_key d = sp_artifact_key spec) in
      case sp_artifact_kind spec of
        KernelKind \<Rightarrow>
          bindS (queryS (find_kernel_row (sp_artifact_id spec))) (\<lambda>kern.
          case Option.bind kern (\<lambda>k. map_option (Pair (kr_id k)) (kr_download_id k)) of
            Some (kernel_id, download_id) \<Rightarrow> remove_kernel_rows kernel_id download_id
          | None \<Rightarrow> by_key)
      | BinaryKind \<Rightarrow>
          bindS (liftS (member_name ''binary component'' spec)) (\<lambda>component.
          bindS (queryS (find_file_row (sp_artifact_id spec) component)) (\<lambda>file.
          case file of
            Some f \<Rightarrow>
              bindS (executeS (\<lambda>a. a\<lparr>ad_files := filter (\<lambda>r. bi_id r \<noteq> bi_id f) (ad_files a)\<rparr>)) (\<lambda>_.
              delete_downloads (\<lambda>d. dl_id d = bi_download_id f))
          | None \<Rightarrow> by_key))
      | DistributionImageKind \<Rightarrow>
          bindS (liftS (member_name ''distribution image'' spec)) (\<lambda>img.
          bindS (queryS (find_image_row (sp_artifact_id spec) img)) (\<lambda>row.
          case row of
            Some m \<Rightarrow> remove_image_rows (im_id m) (im_download_id m)
          | None \<Rightarrow> by_key)))"

section \<open>The operations of the repository\<close>

definition on_artifacts :: "(artifact_db, 'a) stmt \<Rightarrow> (db, 'a) sdk_io" where
  "on_artifacts m =
     run_update (\<lambda>db. bindR (m (db_artifacts db)) (\<lambda>(x, a). Inr (x, db\<lparr>db_artifacts := a\<rparr>)))"

definition remove_member :: "DownloadSpec \<Rightarrow> (db, unit) sdk_io" where
  "remove_member spec = on_artifacts (remove_member_transaction spec)"

definition persist_kernel ::
  "int result \<Rightarrow> Kernel \<Rightarrow> DownloadSpec \<Rightarrow> FileIntegrity \<Rightarrow> (db, unit) sdk_io" where
  "persist_kernel now kern spec integrity = on_artifacts (persist_kernel_transaction now kern spec integrity)"

definition persist_binary_file ::
  "int result \<Rightarrow> BinaryPackage \<Rightarrow> BinaryFile \<Rightarrow> DownloadSpec \<Rightarrow> FileIntegrity \<Rightarrow> (db, unit) sdk_io" where
  "persist_binary_file now package file spec integrity =
     on_artifacts (persist_binary_file_transaction now package file spec integrity)"

definition persist_distribution_image ::
  "int result \<Rightarrow> Distribution \<Rightarrow> DistributionImage \<Rightarrow> Kernel list \<Rightarrow> DownloadSpec \<Rightarrow> FileIntegrity
     \<Rightarrow> (db, unit) sdk_io" where
  "persist_distribution_image now distribution img kernels spec integrity =
     on_artifacts (persist_distribution_image_transaction now distribution img kernels spec integrity)"

definition kernel_is_referenced :: "string \<Rightarrow> db \<Rightarrow> bool" where
  "kernel_is_referenced kernel_id db = list_ex (\<lambda>m. mr_kernel_id m = kernel_id) (db_microvms db)"

definition image_is_referenced :: "string \<Rightarrow> string \<Rightarrow> db \<Rightarrow> bool" where
  "image_is_referenced distribution_id image_id db =
     list_ex (\<lambda>m. mr_distribution_id m = distribution_id \<and> mr_image_id m = image_id) (db_microvms db)"

definition list_prune_references :: "db \<Rightarrow> PruneReferences" where
  "list_prune_references db =
     \<lparr>pr_kernels = set (map mr_kernel_id (db_microvms db)),
      pr_images = set (map (\<lambda>m. (mr_distribution_id m, mr_image_id m)) (db_microvms db))\<rparr>"

text \<open>A transaction that reports whether it removed its rows.\<close>

definition removing :: "(artifact_db, unit) stmt \<Rightarrow> (db, bool) sdk_io" where
  "removing m = on_artifacts (bindS m (\<lambda>_. returnS True))"

definition delete_kernel_if_unreferenced :: "string \<Rightarrow> (db, bool) sdk_io" where
  "delete_kernel_if_unreferenced kernel_id db =
     (if kernel_is_referenced kernel_id db then (Inr False, db)
      else case Option.bind (find_kernel_row kernel_id (db_artifacts db))
                  (\<lambda>k. map_option (Pair (kr_id k)) (kr_download_id k)) of
             None \<Rightarrow> (Inr False, db)
           | Some (kernel_row_id, download_id) \<Rightarrow> removing (remove_kernel_rows kernel_row_id download_id) db)"

definition delete_image_if_unreferenced :: "string \<Rightarrow> string \<Rightarrow> (db, bool) sdk_io" where
  "delete_image_if_unreferenced distribution_id image_id db =
     (if image_is_referenced distribution_id image_id db then (Inr False, db)
      else case find_image_row distribution_id image_id (db_artifacts db) of
             None \<Rightarrow> (Inr False, db)
           | Some m \<Rightarrow> removing (remove_image_rows (im_id m) (im_download_id m)) db)"

fun identity_is_referenced :: "OrphanIdentity \<Rightarrow> db \<Rightarrow> bool" where
  "identity_is_referenced (OrphanKernel kernel_id) db = kernel_is_referenced kernel_id db"
| "identity_is_referenced (OrphanImage distribution_id image_id) db =
     image_is_referenced distribution_id image_id db"

definition delete_orphan_download_if_unreferenced :: "string \<Rightarrow> (db, bool) sdk_io" where
  "delete_orphan_download_if_unreferenced artifact_key db =
     (case find (\<lambda>d. dl_artifact_key d = artifact_key \<and> is_orphan_type (dl_artifact_type d))
             (ad_downloads (db_artifacts db)) of
        None \<Rightarrow> (Inr False, db)
      | Some d \<Rightarrow>
          if member_count (dl_id d) (db_artifacts db) \<noteq> 0 then (Inr False, db)
          else case parse_identity \<lparr>oa_artifact_key = artifact_key, oa_artifact_type = dl_artifact_type d,
                      oa_absolute_path = dl_absolute_path d, oa_size_bytes = 0\<rparr> of
                 None \<Rightarrow> (Inr False, db)
               | Some identity \<Rightarrow>
                   if identity_is_referenced identity db then (Inr False, db)
                   else removing (delete_downloads (\<lambda>r. dl_id r = dl_id d)) db)"

section \<open>Restored VMs\<close>

record SnapshotStoredMetadata =
  ss_distribution_name :: string
  ss_distribution_version :: string
  ss_root_device :: string
  ss_kernel_args :: "string list"
  ss_image_sha256 :: string
  ss_guest_architecture :: string
  ss_kernel :: Kernel

record RestoredMicroVmCommit =
  rc_record :: MicroVmRecord
  rc_network :: PersistedNetwork
  rc_credential :: PersistedCredential
  rc_runtime :: PersistedRuntime
  rc_kernel :: Kernel
  rc_kernel_spec :: DownloadSpec
  rc_kernel_integrity :: FileIntegrity
  rc_snapshot_metadata :: RestoredSnapshotMetadata
  rc_operation_id :: string

text \<open>\<open>INSERT OR IGNORE\<close> skips a row that would violate a uniqueness constraint; a foreign key is still
  checked.\<close>

definition insert_or_ignore_distribution_kernel :: "int \<Rightarrow> int \<Rightarrow> (artifact_db, unit) stmt" where
  "insert_or_ignore_distribution_kernel distribution_id kernel_id a =
     (if list_ex (\<lambda>r. dk_distribution_id r = distribution_id \<and> (dk_kernel_id r = kernel_id \<or> dk_is_default r))
           (ad_distribution_kernels a)
      then Inr ((), a)
      else insert_distribution_kernel distribution_id kernel_id True a)"

text \<open>The kernel of a snapshot: its download and its row, and its link to the distribution when that is in the
  inventory.\<close>

definition restored_kernel_transaction ::
  "int result \<Rightarrow> Kernel \<Rightarrow> DownloadSpec \<Rightarrow> FileIntegrity \<Rightarrow> string \<Rightarrow> (artifact_db, unit) stmt" where
  "restored_kernel_transaction now kern spec integrity distribution =
     bindS (persist_kernel_transaction now kern spec integrity) (\<lambda>_.
     bindS (queryS (find_kernel_row (k_id kern))) (\<lambda>found.
     bindS (liftS (ok_or found (Sqlite ''Query returned no rows''))) (\<lambda>kernel_row.
     bindS (queryS (\<lambda>a. find (\<lambda>d. ds_registry_id d = distribution) (ad_distributions a))) (\<lambda>row.
     case row of
       None \<Rightarrow> returnS ()
     | Some d \<Rightarrow> insert_or_ignore_distribution_kernel (ds_id d) (kr_id kernel_row)))))"

definition in_artifacts :: "(artifact_db, 'a) stmt \<Rightarrow> (db, 'a) stmt" where
  "in_artifacts m = (\<lambda>db. bindR (m (db_artifacts db)) (\<lambda>(x, a). Inr (x, db\<lparr>db_artifacts := a\<rparr>)))"

definition commit_restored_transaction :: "int result \<Rightarrow> RestoredMicroVmCommit \<Rightarrow> (db, int) stmt" where
  "commit_restored_transaction now commit =
     bindS (liftS now) (\<lambda>_.
     bindS (insert_microvm_stmt (rc_record commit)) (\<lambda>vm_id.
     bindS (persist_network_transaction now vm_id (rc_network commit)) (\<lambda>_.
     bindS (insert_credential_stmt vm_id (rc_credential commit)) (\<lambda>_.
     bindS (insert_runtime_stmt now vm_id (rc_runtime commit)) (\<lambda>_.
     bindS (in_artifacts (restored_kernel_transaction now (rc_kernel commit) (rc_kernel_spec commit)
              (rc_kernel_integrity commit) (vm_distribution_id (rc_record commit)))) (\<lambda>_.
     bindS (insert_snapshot_metadata_stmt vm_id (rc_snapshot_metadata commit)) (\<lambda>_.
     bindS (executeS (\<lambda>db. db\<lparr>db_journals :=
              filter (\<lambda>(t, j). rj_operation_id j \<noteq> rc_operation_id commit) (db_journals db)\<rparr>)) (\<lambda>_.
     returnS vm_id))))))))"

definition commit_restored_microvm :: "int result \<Rightarrow> RestoredMicroVmCommit \<Rightarrow> (db, int) sdk_io" where
  "commit_restored_microvm now commit = run_update (commit_restored_transaction now commit)"

definition kernel_from_row :: "KernelRow \<Rightarrow> Kernel result" where
  "kernel_from_row k =
     bindR (stored_size (kr_size_bytes k) ''negative kernel size in inventory'') (\<lambda>size_bytes.
     bindR (parse_architecture (kr_architecture k)) (\<lambda>arch.
     Inr \<lparr>k_id = kr_registry_id k, k_name = kr_name k, k_display_name = kr_display_name k,
          k_version = kr_version k, k_architecture = arch, k_path = kr_registry_path k,
          k_url = kr_registry_url k, k_filename = kr_filename k, k_size_bytes = size_bytes,
          k_sha256 = kr_sha256 k, k_format = kr_format k, k_mime_type = kr_mime_type k, k_elf = None,
          k_modified_at = kr_modified_at k\<rparr>))"

text \<open>\<open>COALESCE\<close>.\<close>

definition coalesce :: "'a option \<Rightarrow> 'a option \<Rightarrow> 'a option" where
  "coalesce a b = (case a of None \<Rightarrow> b | Some _ \<Rightarrow> a)"

definition incomplete_snapshot_metadata :: "string \<Rightarrow> SdkError" where
  "incomplete_snapshot_metadata name =
     invalid_metadata name ''stored distribution, image, or boot provenance is incomplete''"

text \<open>The provenance of a VM: that of its restoration, or that of the artifacts it was created from.\<close>

definition snapshot_metadata :: "string \<Rightarrow> db \<Rightarrow> SnapshotStoredMetadata result" where
  "snapshot_metadata name db =
     (let a = db_artifacts db in
      case Option.bind (find (\<lambda>m. mr_name m = name) (db_microvms db))
             (\<lambda>m. map_option (Pair m) (find_kernel_row (mr_kernel_id m) a)) of
        None \<Rightarrow> Inl (invalid_metadata name
                 ''stored VM provenance or embedded kernel inventory is incomplete'')
      | Some (m, k) \<Rightarrow>
          let d = find (\<lambda>d. ds_registry_id d = mr_distribution_id m) (ad_distributions a);
              img = Option.bind d (\<lambda>d. find (\<lambda>r. im_distribution_id r = ds_id d \<and> im_registry_id r = mr_image_id m)
                     (ad_images a));
              sm = find (\<lambda>r. sm_microvm_id r = mr_id m) (db_snapshot_metadata db);
              required = (\<lambda>v. ok_or v (incomplete_snapshot_metadata name)) in
          bindR (required (coalesce (map_option sm_distribution_name sm) (map_option ds_display_name d))) (\<lambda>dn.
          bindR (required (coalesce (map_option sm_distribution_version sm) (map_option ds_version d))) (\<lambda>dv.
          bindR (required (coalesce (map_option sm_root_device sm) (map_option ds_root_device d))) (\<lambda>root.
          bindR (required (coalesce (map_option sm_image_sha256 sm) (map_option im_sha256 img))) (\<lambda>sha.
          bindR (kernel_from_row k) (\<lambda>kern.
          Inr \<lparr>ss_distribution_name = dn, ss_distribution_version = dv, ss_root_device = root,
               ss_kernel_args = (case sm of
                   Some s \<Rightarrow> sm_kernel_args s
                 | None \<Rightarrow> map tx_text (sort_key tx_position
                     (filter (\<lambda>r. Some (tx_owner r) = map_option ds_id d) (ad_boot_args a)))),
               ss_image_sha256 = sha,
               ss_guest_architecture = (case sm of Some s \<Rightarrow> sm_guest_architecture s | None \<Rightarrow> kr_architecture k),
               ss_kernel = kern\<rparr>))))))"

end
