(* ===== verification/Inventory.thy ===== *)
theory Inventory
  imports Artifact_Repository
begin

text \<open>
  The correctness of the MicroVM inventory of Repository: the schema invariant \<open>inventory_ok\<close>
  (unique names, paths, TAPs and addresses, every dependent row with its VM, every bridge with its
  true reference count, every stored integer and enumeration readable), its preservation by every
  statement of the repository, and the contract that the SDK relies on: each statement changes the
  stored value of one VM and no other. The contract is the locale \<open>vm_store\<close>, whose clients are
  proved once and which the SQLite model interprets.
\<close>

section \<open>Tables\<close>

lemma find_append: "find P (xs @ ys) = (case find P xs of None \<Rightarrow> find P ys | Some x \<Rightarrow> Some x)"
  by (induction xs) auto

lemma find_SomeD: "find P xs = Some x \<Longrightarrow> x \<in> set xs \<and> P x"
  by (auto simp: find_Some_iff)

lemma find_key_distinct:
  "distinct (map f xs) \<Longrightarrow> x \<in> set xs \<Longrightarrow> find (\<lambda>r. f r = f x) xs = Some x"
  by (induction xs) auto

lemma find_key_None: "k \<notin> f ` set xs \<Longrightarrow> find (\<lambda>r. f r = k) xs = None"
  by (induction xs) auto

lemma find_key_map:
  "(\<And>r. r \<in> set xs \<Longrightarrow> f (g r) = f r) \<Longrightarrow> find (\<lambda>r. f r = k) (map g xs) = map_option g (find (\<lambda>r. f r = k) xs)"
  by (induction xs) auto

lemma find_cong_set: "(\<And>x. x \<in> set xs \<Longrightarrow> P x = Q x) \<Longrightarrow> find P xs = find Q xs"
  by (induction xs) auto

lemma find_filter_keep:
  "(\<And>r. P r \<Longrightarrow> Q r) \<Longrightarrow> find P (filter Q xs) = find P xs"
  by (induction xs) auto

lemma find_filter_drop:
  "(\<And>r. r \<in> set xs \<Longrightarrow> P r \<Longrightarrow> \<not> Q r) \<Longrightarrow> find P (filter Q xs) = None"
  by (auto simp: find_None_iff)

lemma list_ex_find: "list_ex P xs \<longleftrightarrow> find P xs \<noteq> None"
  by (induction xs) auto

lemma find_upsert:
  "find (\<lambda>r. key r = k) (upsert key row xs) =
     (if k = key row then Some row else find (\<lambda>r. key r = k) xs)"
proof (cases "list_ex (\<lambda>r. key r = key row) xs")
  case True
  have "find (\<lambda>r. key r = k) (map (\<lambda>r. if key r = key row then row else r) xs)
      = map_option (\<lambda>r. if key r = key row then row else r) (find (\<lambda>r. key r = k) xs)"
    by (rule find_key_map) simp
  with True show ?thesis
    by (auto simp: upsert_def list_ex_find dest: find_SomeD split: option.splits intro!: option.map_ident_strong)
next
  case False
  then show ?thesis by (auto simp: upsert_def list_ex_find find_append split: option.splits)
qed

lemma set_upsert_subset: "set (upsert key row xs) \<subseteq> insert row (set xs)"
  by (auto simp: upsert_def)

lemma row_in_upsert: "row \<in> set (upsert key row xs)"
  by (auto simp: upsert_def list_ex_iff image_iff)

lemma in_upsert:
  "r \<in> set (upsert key row xs) \<longleftrightarrow> r = row \<or> r \<in> set xs \<and> key r \<noteq> key row"
  by (auto simp: upsert_def list_ex_iff image_iff)

lemma distinct_upsert_key: "distinct (map key xs) \<Longrightarrow> distinct (map key (upsert key row xs))"
proof (cases "list_ex (\<lambda>r. key r = key row) xs")
  case True
  have "map key (map (\<lambda>r. if key r = key row then row else r) xs) = map key xs" by simp
  then show "distinct (map key xs) \<Longrightarrow> ?thesis" using True by (simp only: upsert_def if_True)
qed (auto simp: upsert_def list_ex_iff)

lemma distinct_upsert_column:
  assumes "distinct (map key xs)" "distinct (map f xs)"
    and "\<not> list_ex (\<lambda>r. f r = f row) (filter (\<lambda>r. key r \<noteq> key row) xs)"
  shows "distinct (map f (upsert key row xs))"
  using assms
proof (induction xs)
  case Nil
  then show ?case by (simp add: upsert_def)
next
  case (Cons x xs)
  show ?case
  proof (cases "key x = key row")
    case True
    with Cons.prems have "\<And>r. r \<in> set xs \<Longrightarrow> key r \<noteq> key row" by (metis distinct.simps(2) image_eqI list.simps(9) set_map)
    with Cons.prems True show ?thesis by (auto simp: upsert_def list_ex_iff cong: map_cong)
  next
    case False
    with Cons have "distinct (map f (upsert key row xs))" by auto
    moreover from False Cons.prems have "f x \<notin> f ` set (upsert key row xs)"
      by (auto simp: in_upsert image_iff)
    moreover from False have "upsert key row (x # xs) = x # upsert key row xs"
      by (auto simp: upsert_def)
    ultimately show ?thesis by simp
  qed
qed

lemma distinct_map_filterI: "distinct (map f xs) \<Longrightarrow> distinct (map f (filter P xs))"
  by (induction xs) auto

lemma distinct_map_keep: "(\<And>r. r \<in> set xs \<Longrightarrow> f (g r) = f r) \<Longrightarrow> map f (map g xs) = map f xs"
  by simp

lemma mapR_Inr: "mapR f xs = Inr ys \<longleftrightarrow> list_all2 (\<lambda>x y. f x = Inr y) xs ys"
  by (induction xs arbitrary: ys) (auto simp: bindR_Inr list_all2_Cons1)

lemma mapR_map: "mapR f (map g xs) = mapR (\<lambda>x. f (g x)) xs"
  by (induction xs) auto

lemma mapR_all_Inr: "(\<And>x. x \<in> set xs \<Longrightarrow> f x = Inr (g x)) \<Longrightarrow> mapR f xs = Inr (map g xs)"
  by (induction xs) auto

lemma mapR_total: "(\<And>x. x \<in> set xs \<Longrightarrow> \<exists>y. f x = Inr y) \<Longrightarrow> \<exists>ys. mapR f xs = Inr ys"
  by (induction xs) force+

section \<open>The schema invariant\<close>

text \<open>What a row must satisfy to be read back: the ranges that the \<open>CHECK\<close> clauses and the
  conversions on writing guarantee.\<close>

definition stored_u64 :: "int \<Rightarrow> bool" where
  "stored_u64 v \<longleftrightarrow> 0 < v \<and> v < 2 ^ 63"

definition microvm_row_ok :: "MicroVmRow \<Rightarrow> bool" where
  "microvm_row_ok r \<longleftrightarrow> stored_u64 (mr_disk_size_bytes r) \<and> stored_u64 (mr_memory_requested_bytes r)
     \<and> stored_u64 (mr_memory_effective_mib r) \<and> 0 < mr_vcpu_count r \<and> mr_vcpu_count r < 2 ^ 32"

definition network_row_ok :: "NetworkRow \<Rightarrow> bool" where
  "network_row_ok r \<longleftrightarrow> NetworkMode_parse (nw_mode r) \<noteq> None
     \<and> 0 \<le> nw_prefix_length r \<and> nw_prefix_length r \<le> 128"

definition resource_row_ok :: "ResourceRow \<Rightarrow> bool" where
  "resource_row_ok r \<longleftrightarrow> NetworkResource_parse (rs_resource_kind r) \<noteq> None"

definition credential_row_ok :: "CredentialRow \<Rightarrow> bool" where
  "credential_row_ok r \<longleftrightarrow> cd_key_type r = ''ed25519'' \<and> cd_ssh_user r = ''root'' \<and> cd_ssh_port r = 22"

definition runtime_row_ok :: "RuntimeRow \<Rightarrow> bool" where
  "runtime_row_ok r \<longleftrightarrow> rr_process_state r \<in> {''stopped'', ''starting'', ''running''}
     \<and> (case rr_process_id r of None \<Rightarrow> True | Some v \<Rightarrow> 0 \<le> v \<and> v < 2 ^ 32)"

definition autostart_row_ok :: "AutostartRow \<Rightarrow> bool" where
  "autostart_row_ok r \<longleftrightarrow> 1 \<le> ar_max_start_attempts r \<and> ar_max_start_attempts r \<le> 10"

abbreviation vm_ids :: "db \<Rightarrow> int set" where
  "vm_ids db \<equiv> mr_id ` set (db_microvms db)"

definition microvms_ok :: "MicroVmRow list \<Rightarrow> int \<Rightarrow> bool" where
  "microvms_ok rows next_id \<longleftrightarrow>
     distinct (map mr_id rows) \<and> distinct (map mr_name rows) \<and> distinct (map mr_volume_path rows)
     \<and> distinct (map mr_rootfs_path rows) \<and> distinct (map mr_socket_path rows)
     \<and> (\<forall>r \<in> set rows. mr_id r < next_id \<and> microvm_row_ok r)"

text \<open>A table keyed by the VM it belongs to.\<close>

definition owned_rows :: "('r \<Rightarrow> int) \<Rightarrow> ('r \<Rightarrow> bool) \<Rightarrow> int set \<Rightarrow> 'r list \<Rightarrow> bool" where
  "owned_rows key ok ids rows \<longleftrightarrow>
     distinct (map key rows) \<and> (\<forall>r \<in> set rows. key r \<in> ids \<and> ok r)"

definition networks_ok :: "int set \<Rightarrow> int set \<Rightarrow> NetworkRow list \<Rightarrow> bool" where
  "networks_ok ids bridge_ids rows \<longleftrightarrow>
     owned_rows nw_microvm_id network_row_ok ids rows
     \<and> distinct (map nw_tap_name rows) \<and> distinct (map nw_guest_mac rows)
     \<and> (\<forall>r \<in> set rows. \<forall>b. nw_bridge_id r = Some b \<longrightarrow> b \<in> bridge_ids)"

definition resources_ok :: "int set \<Rightarrow> ResourceRow list \<Rightarrow> bool" where
  "resources_ok ids rows \<longleftrightarrow>
     distinct (map (\<lambda>r. (rs_microvm_id r, rs_resource_kind r)) rows)
     \<and> (\<forall>r \<in> set rows. rs_microvm_id r \<in> ids \<and> resource_row_ok r)"

definition credentials_ok :: "int set \<Rightarrow> CredentialRow list \<Rightarrow> bool" where
  "credentials_ok ids rows \<longleftrightarrow>
     owned_rows cd_microvm_id credential_row_ok ids rows
     \<and> distinct (map cd_private_key_path rows) \<and> distinct (map cd_public_key_path rows)"

definition bridge_references :: "NetworkRow list \<Rightarrow> int \<Rightarrow> int" where
  "bridge_references rows b = int (length (filter (\<lambda>n. nw_bridge_id n = Some b) rows))"

definition bridges_ok :: "NetworkRow list \<Rightarrow> BridgeRow list \<Rightarrow> int \<Rightarrow> bool" where
  "bridges_ok networks rows next_id \<longleftrightarrow>
     distinct (map br_id rows) \<and> distinct (map br_bridge_name rows)
     \<and> (\<forall>b \<in> set rows. br_id b < next_id \<and> br_reference_count b = bridge_references networks (br_id b))"

definition inventory_ok :: "db \<Rightarrow> bool" where
  "inventory_ok db \<longleftrightarrow>
     microvms_ok (db_microvms db) (db_next_vm db)
     \<and> networks_ok (vm_ids db) (br_id ` set (db_bridges db)) (db_networks db)
     \<and> resources_ok (vm_ids db) (db_resources db)
     \<and> credentials_ok (vm_ids db) (db_credentials db)
     \<and> owned_rows rr_microvm_id runtime_row_ok (vm_ids db) (db_runtimes db)
     \<and> owned_rows ar_microvm_id autostart_row_ok (vm_ids db) (db_autostart db)
     \<and> owned_rows sm_microvm_id (\<lambda>_. True) (vm_ids db) (db_snapshot_metadata db)
     \<and> bridges_ok (db_networks db) (db_bridges db) (db_next_bridge db)
     \<and> distinct (map (\<lambda>(t, j). rj_operation_id j) (db_journals db))"

lemma owned_rows_mono: "owned_rows key ok ids rows \<Longrightarrow> ids \<subseteq> ids' \<Longrightarrow> owned_rows key ok ids' rows"
  by (auto simp: owned_rows_def)

lemma networks_ok_mono:
  "networks_ok ids bs rows \<Longrightarrow> ids \<subseteq> ids' \<Longrightarrow> bs \<subseteq> bs' \<Longrightarrow> networks_ok ids' bs' rows"
  unfolding networks_ok_def by (blast intro: owned_rows_mono)

lemma resources_ok_mono: "resources_ok ids rows \<Longrightarrow> ids \<subseteq> ids' \<Longrightarrow> resources_ok ids' rows"
  by (auto simp: resources_ok_def)

lemma credentials_ok_mono: "credentials_ok ids rows \<Longrightarrow> ids \<subseteq> ids' \<Longrightarrow> credentials_ok ids' rows"
  unfolding credentials_ok_def by (blast intro: owned_rows_mono)

lemmas table_mono = owned_rows_mono networks_ok_mono resources_ok_mono credentials_ok_mono

lemma owned_rows_upsert:
  "owned_rows key ok ids rows \<Longrightarrow> key row \<in> ids \<Longrightarrow> ok row \<Longrightarrow> owned_rows key ok ids (upsert key row rows)"
  by (auto simp: owned_rows_def distinct_upsert_key in_upsert)

lemma owned_rows_delete:
  "owned_rows key ok ids rows \<Longrightarrow> owned_rows key ok (ids - {i}) (filter (\<lambda>r. key r \<noteq> i) rows)"
  by (auto simp: owned_rows_def distinct_map_filterI)

lemma vm_exists_iff: "vm_exists i db \<longleftrightarrow> i \<in> vm_ids db"
  by (auto simp: vm_exists_def list_ex_iff)

lemma constraint_Inr [simp]: "constraint ok text = Inr u \<longleftrightarrow> ok"
  by (simp add: constraint_def)

lemma run_update_cases:
  "run_update f db = (r, db') \<longleftrightarrow>
     (\<exists>e. f db = Inl e \<and> r = Inl e \<and> db' = db) \<or> (\<exists>x. f db = Inr (x, db') \<and> r = Inr x)"
  by (auto simp: run_update_def split: sum.splits)

text \<open>Every update runs in one statement or one transaction: a refused one changes nothing.\<close>

lemma run_update_error: "run_update f db = (Inl e, db') \<Longrightarrow> db' = db"
  by (auto simp: run_update_cases)

lemma run_update_keeps:
  "(\<And>x db1. f db = Inr (x, db1) \<Longrightarrow> P db1) \<Longrightarrow> P db \<Longrightarrow> run_update f db = (r, db') \<Longrightarrow> P db'"
  by (auto simp: run_update_cases)

lemma to_sqlite_integer_Inr:
  "to_sqlite_integer v c = Inr x \<longleftrightarrow> uint v < 2 ^ 63 \<and> x = uint v"
proof -
  have "uint v < 2 ^ 63 \<longleftrightarrow> int (unat v) < int (2 ^ 63)" by simp
  then have "uint v < 2 ^ 63 \<longleftrightarrow> unat v < 2 ^ 63" by (simp only: of_nat_less_iff)
  then show ?thesis by (auto simp: to_sqlite_integer_def)
qed

section \<open>Every statement preserves the invariant\<close>

lemma insert_microvm_stmt_ok:
  assumes ok: "inventory_ok db" and stmt: "insert_microvm_stmt rec db = Inr (i, db')"
  shows "inventory_ok db'"
proof -
  from stmt obtain row where row: "microvm_row rec (db_next_vm db) = Inr row"
    and fresh: "check_microvm_row row db = Inr ()" and i: "i = db_next_vm db"
    and db': "db' = db\<lparr>db_microvms := db_microvms db @ [row], db_next_vm := db_next_vm db + 1\<rparr>"
    by (auto simp: insert_microvm_stmt_def bindR_Inr)
  from row have "mr_id row = db_next_vm db" and "mr_vcpu_count row = int (unat (vm_vcpu_count rec))"
    and "mr_disk_size_bytes row < 2 ^ 63" "mr_memory_requested_bytes row < 2 ^ 63"
    "mr_memory_effective_mib row < 2 ^ 63"
    by (auto simp: microvm_row_def bindR_Inr to_sqlite_integer_Inr)
  moreover have "int (unat (vm_vcpu_count rec)) < 2 ^ 32"
    using unsigned_less [of "vm_vcpu_count rec"] by simp
  ultimately have "microvm_row_ok row" and "mr_id row = db_next_vm db"
    using fresh by (auto simp: microvm_row_ok_def stored_u64_def check_microvm_row_def Let_def bindR_Inr)
  with ok fresh have "microvms_ok (db_microvms db') (db_next_vm db')"
    by (auto simp: db' inventory_ok_def microvms_ok_def check_microvm_row_def Let_def bindR_Inr list_ex_iff)
  with ok show ?thesis
    by (simp add: inventory_ok_def db') (blast intro: table_mono)
qed

lemma persist_credential_stmt_ok:
  assumes ok: "inventory_ok db" and stmt: "persist_credential_stmt i c db = Inr (u, db')"
  shows "inventory_ok db'"
proof -
  let ?row = "credential_row i c"
  from stmt have exists: "i \<in> vm_ids db" and row: "credential_row_ok ?row"
    and unique: "\<not> list_ex (\<lambda>r. cd_private_key_path r = cd_private_key_path ?row)
        (filter (\<lambda>r. cd_microvm_id r \<noteq> i) (db_credentials db))"
      "\<not> list_ex (\<lambda>r. cd_public_key_path r = cd_public_key_path ?row)
        (filter (\<lambda>r. cd_microvm_id r \<noteq> i) (db_credentials db))"
    and db': "db' = db\<lparr>db_credentials := upsert cd_microvm_id ?row (db_credentials db)\<rparr>"
    by (auto simp: persist_credential_stmt_def Let_def bindR_Inr vm_exists_iff credential_row_ok_def)
  have key: "cd_microvm_id ?row = i" by (simp add: credential_row_def)
  have "credentials_ok (vm_ids db) (upsert cd_microvm_id ?row (db_credentials db))"
    using ok exists row unique key
    by (auto simp: inventory_ok_def credentials_ok_def owned_rows_def distinct_upsert_key in_upsert
        intro!: distinct_upsert_column)
  with ok show ?thesis by (simp add: inventory_ok_def db')
qed

lemma persist_runtime_stmt_ok:
  assumes ok: "inventory_ok db" and stmt: "persist_runtime_stmt now i runtime db = Inr (u, db')"
  shows "inventory_ok db'"
proof -
  let ?row = "runtime_row i runtime"
  have pid: "int (unat (p :: u32)) < 2 ^ 32" for p using unsigned_less [of p] by simp
  from stmt have exists: "i \<in> vm_ids db" and row: "runtime_row_ok ?row"
    and db': "db' = db\<lparr>db_runtimes := upsert rr_microvm_id ?row (db_runtimes db)\<rparr>"
    by (auto simp: persist_runtime_stmt_def bindR_Inr vm_exists_iff runtime_row_ok_def runtime_row_def
        split: option.splits) (use pid in auto)
  have "rr_microvm_id ?row = i" by (simp add: runtime_row_def)
  with exists row ok show ?thesis by (simp add: inventory_ok_def db' owned_rows_upsert)
qed

lemma update_microvm_resources_stmt_ok:
  assumes ok: "inventory_ok db"
    and stmt: "update_microvm_resources_stmt now i disk memory mib vcpus db = Inr (u, db')"
  shows "inventory_ok db'"
proof -
  let ?f = "\<lambda>r. if mr_id r = i
         then r\<lparr>mr_disk_size_bytes := uint disk, mr_memory_requested_bytes := uint memory,
                mr_memory_effective_mib := uint mib, mr_vcpu_count := uint vcpus\<rparr> else r"
  have cpu: "uint vcpus < 2 ^ 32" using uint_bounded [of vcpus] by simp
  from stmt
  have db': "db' = db\<lparr>db_microvms := map ?f (db_microvms db)\<rparr>"
    and row: "stored_u64 (uint disk)" "stored_u64 (uint memory)" "stored_u64 (uint mib)" "0 < uint vcpus"
    by (auto simp: update_microvm_resources_stmt_def bindR_Inr to_sqlite_integer_Inr stored_u64_def word_less_def split: if_splits)
  have keep: "mr_id (?f r) = mr_id r" "mr_name (?f r) = mr_name r" "mr_volume_path (?f r) = mr_volume_path r"
    "mr_rootfs_path (?f r) = mr_rootfs_path r" "mr_socket_path (?f r) = mr_socket_path r" for r by simp_all
  have "microvms_ok (map ?f (db_microvms db)) (db_next_vm db)"
    using ok row cpu
    by (auto simp: inventory_ok_def microvms_ok_def microvm_row_ok_def comp_def keep cong: if_cong)
  then have "microvms_ok (db_microvms db') (db_next_vm db')" by (simp add: db')
  moreover have "db_microvms db' = map ?f (db_microvms db)" by (simp add: db')
  then have ids: "vm_ids db' = vm_ids db" by (simp only: set_map image_image keep)
  ultimately show ?thesis
    using ok unfolding inventory_ok_def ids by (simp add: db')
qed

lemma recount_bridges_ok:
  assumes "networks_ok ids (br_id ` set (db_bridges db)) (db_networks db)"
    and "distinct (map br_id (db_bridges db))" "distinct (map br_bridge_name (db_bridges db))"
    and "\<forall>b \<in> set (db_bridges db). br_id b < db_next_bridge db"
  shows "bridges_ok (db_networks db) (db_bridges (recount_bridges db)) (db_next_bridge db)"
  using assms by (auto simp: bridges_ok_def recount_bridges_def comp_def bridge_references_def)

lemma recount_bridges_simps [simp]:
  "db_microvms (recount_bridges db) = db_microvms db" "db_networks (recount_bridges db) = db_networks db"
  "db_resources (recount_bridges db) = db_resources db" "db_credentials (recount_bridges db) = db_credentials db"
  "db_runtimes (recount_bridges db) = db_runtimes db" "db_autostart (recount_bridges db) = db_autostart db"
  "db_snapshot_metadata (recount_bridges db) = db_snapshot_metadata db"
  "db_journals (recount_bridges db) = db_journals db" "db_next_vm (recount_bridges db) = db_next_vm db"
  "db_next_bridge (recount_bridges db) = db_next_bridge db"
  by (simp_all add: recount_bridges_def)

lemma recount_bridges_ids: "br_id ` set (db_bridges (recount_bridges db)) = br_id ` set (db_bridges db)"
  by (simp add: recount_bridges_def image_image)

lemma recount_bridges_find:
  "map_option br_bridge_name (find (\<lambda>r. br_id r = i) (db_bridges (recount_bridges db)))
     = map_option br_bridge_name (find (\<lambda>r. br_id r = i) (db_bridges db))"
  by (simp add: recount_bridges_def find_key_map option.map_comp comp_def)

text \<open>Removing bridges without references keeps every remaining reference valid.\<close>

lemma no_references_iff: "bridge_references rows b = 0 \<longleftrightarrow> (\<forall>n \<in> set rows. nw_bridge_id n \<noteq> Some b)"
  by (auto simp: bridge_references_def filter_empty_conv)

lemma drop_unreferenced_ok:
  assumes "networks_ok ids (br_id ` set bs) ns" "bridges_ok ns bs k"
    and "\<And>b. b \<in> set bs \<Longrightarrow> \<not> keep b \<Longrightarrow> br_reference_count b = 0"
  shows "networks_ok ids (br_id ` set (filter keep bs)) ns" "bridges_ok ns (filter keep bs) k"
proof -
  have "b \<in> br_id ` set (filter keep bs)" if "n \<in> set ns" "nw_bridge_id n = Some b" for n b
  proof -
    from assms(1) that obtain r where r: "r \<in> set bs" "br_id r = b"
      by (auto simp: networks_ok_def)
    with that assms(2) have "br_reference_count r \<noteq> 0"
      by (auto simp: bridges_ok_def no_references_iff)
    with assms(3) r show ?thesis by auto
  qed
  with assms(1) show "networks_ok ids (br_id ` set (filter keep bs)) ns"
    by (auto simp: networks_ok_def)
  show "bridges_ok ns (filter keep bs) k"
    using assms(2) by (auto simp: bridges_ok_def distinct_map_filterI)
qed

lemma next_bridge_changes [simp]: "db\<lparr>db_bridges := xs, db_next_bridge := db_next_bridge db + 1\<rparr> \<noteq> db"
proof
  assume "db\<lparr>db_bridges := xs, db_next_bridge := db_next_bridge db + 1\<rparr> = db"
  from arg_cong [OF this, of db_next_bridge] show False by simp
qed

definition adds_bridges :: "db \<Rightarrow> db \<Rightarrow> bool" where
  "adds_bridges db db1 \<longleftrightarrow>
     (\<exists>new k. db1 = db\<lparr>db_bridges := db_bridges db @ new, db_next_bridge := k\<rparr>
        \<and> (\<forall>b \<in> set new. br_id b \<notin> br_id ` set (db_bridges db)))"

lemma adds_bridges_refl: "adds_bridges db db"
  unfolding adds_bridges_def by (intro exI [of _ "[]"] exI [of _ "db_next_bridge db"]) simp

lemma bridge_for_network_ok:
  assumes ok: "inventory_ok db" and run: "bridge_for_network now network db = Inr (bridge, db1)"
  shows "inventory_ok db1 \<and> (\<forall>b. bridge = Some b \<longrightarrow> b \<in> br_id ` set (db_bridges db1))
    \<and> adds_bridges db db1 \<and> bridge_name_of db1 bridge = nc_bridge_name (pn_config network)"
proof (cases "db1 = db")
  case True
  with run have "\<forall>b. bridge = Some b \<longrightarrow> b \<in> br_id ` set (db_bridges db)"
    and "bridge_name_of db bridge = nc_bridge_name (pn_config network)"
    using ok
    by (auto simp: bridge_for_network_def Let_def bindR_Inr bridge_name_of_def inventory_ok_def bridges_ok_def
        find_key_distinct dest!: find_SomeD split: option.splits if_splits)
  then show ?thesis using ok True adds_bridges_refl by auto
next
  case False
  let ?new = "\<lambda>n u. \<lparr>br_id = db_next_bridge db, br_bridge_name = n, br_uplink_name = u,
     br_ownership = ''sdk:taumaru'', br_reference_count = 0\<rparr>"
  from False run obtain n u where names: "nc_bridge_name (pn_config network) = Some n"
      and unique: "\<not> list_ex (\<lambda>b. br_bridge_name b = n) (db_bridges db)"
      and bridge: "bridge = Some (db_next_bridge db)"
      and db1: "db1 = db\<lparr>db_bridges := db_bridges db @ [?new n u], db_next_bridge := db_next_bridge db + 1\<rparr>"
    by (auto simp: bridge_for_network_def Let_def bindR_Inr split: option.splits if_splits)
  from ok have fresh: "db_next_bridge db \<notin> br_id ` set (db_bridges db)"
    by (auto simp: inventory_ok_def bridges_ok_def)
  with ok have "bridge_references (db_networks db) (db_next_bridge db) = 0"
    unfolding no_references_iff by (auto simp: inventory_ok_def networks_ok_def)
  with ok unique fresh have "bridges_ok (db_networks db) (db_bridges db1) (db_next_bridge db1)"
    by (auto simp: inventory_ok_def bridges_ok_def db1 list_ex_iff)
  moreover have "networks_ok (vm_ids db) (br_id ` set (db_bridges db1)) (db_networks db)"
    using ok by (auto simp: inventory_ok_def db1 intro: networks_ok_mono)
  ultimately have "inventory_ok db1" using ok by (simp add: inventory_ok_def db1)
  moreover have "bridge_name_of db1 bridge = Some n"
    by (simp add: bridge_name_of_def bridge db1 find_append find_key_None [OF fresh])
  moreover have "adds_bridges db db1"
    unfolding adds_bridges_def using fresh db1
    by (intro exI [of _ "[?new n u]"] exI [of _ "db_next_bridge db + 1"]) simp
  ultimately show ?thesis by (auto simp: bridge db1 names)
qed

lemma resources_ok_replace:
  assumes "resources_ok ids rows" "i \<in> ids" "distinct (map pnr_resource rs)"
  shows "resources_ok ids (filter (\<lambda>r. rs_microvm_id r \<noteq> i) rows @ map (resource_row i) rs)"
proof -
  have inj: "NetworkResource_as_str a = NetworkResource_as_str b \<Longrightarrow> a = b" for a b
    by (metis NetworkResource_parse_as_str option.inject)
  have "distinct (map (\<lambda>r. (i, NetworkResource_as_str (pnr_resource r))) rs)"
    using assms(3) by (induction rs) (auto dest: inj)
  with assms(1,2) show ?thesis
    by (auto simp: resources_ok_def resource_row_ok_def resource_row_def comp_def intro: distinct_map_filterI)
qed

lemma networks_ok_upsert:
  assumes "networks_ok ids bs rows" "nw_microvm_id row \<in> ids" "network_row_ok row"
    and "\<not> list_ex (\<lambda>r. nw_tap_name r = nw_tap_name row) (filter (\<lambda>r. nw_microvm_id r \<noteq> nw_microvm_id row) rows)"
    and "\<not> list_ex (\<lambda>r. nw_guest_mac r = nw_guest_mac row) (filter (\<lambda>r. nw_microvm_id r \<noteq> nw_microvm_id row) rows)"
    and "\<forall>b. nw_bridge_id row = Some b \<longrightarrow> b \<in> bs"
  shows "networks_ok ids bs (upsert nw_microvm_id row rows)"
  using assms unfolding networks_ok_def owned_rows_def
  by (auto simp: distinct_upsert_key distinct_upsert_column in_upsert)

text \<open>The shape of a successful network transaction.\<close>

lemma persist_network_transactionE:
  assumes "persist_network_transaction now i network db = Inr (u, db')"
  obtains bridge db1 keep where
    "\<And>b. \<not> keep b \<Longrightarrow> br_reference_count b = 0"
    "bridge_for_network now network db = Inr (bridge, db1)"
    "network_row_ok (network_row i bridge network)"
    "\<not> list_ex (\<lambda>r. nw_tap_name r = nw_tap_name (network_row i bridge network))
       (filter (\<lambda>r. nw_microvm_id r \<noteq> i) (db_networks db1))"
    "\<not> list_ex (\<lambda>r. nw_guest_mac r = nw_guest_mac (network_row i bridge network))
       (filter (\<lambda>r. nw_microvm_id r \<noteq> i) (db_networks db1))"
    "i \<in> vm_ids db1" "distinct (map pnr_resource (pn_resources network))"
    "db' = (let db2 = recount_bridges (db1\<lparr>db_networks := upsert nw_microvm_id (network_row i bridge network) (db_networks db1),
            db_resources := filter (\<lambda>r. rs_microvm_id r \<noteq> i) (db_resources db1)
              @ map (resource_row i) (pn_resources network)\<rparr>)
        in db2\<lparr>db_bridges := filter keep (db_bridges db2)\<rparr>)"
proof -
  let ?prev = "Option.bind (find (\<lambda>r. nw_microvm_id r = i) (db_networks db)) nw_bridge_id"
  from assms obtain bridge db1 where *: "bridge_for_network now network db = Inr (bridge, db1)"
    and rest: "nw_prefix_length (network_row i bridge network) \<le> 128"
    "\<not> list_ex (\<lambda>r. nw_tap_name r = nw_tap_name (network_row i bridge network))
       (filter (\<lambda>r. nw_microvm_id r \<noteq> i) (db_networks db1))"
    "\<not> list_ex (\<lambda>r. nw_guest_mac r = nw_guest_mac (network_row i bridge network))
       (filter (\<lambda>r. nw_microvm_id r \<noteq> i) (db_networks db1))"
    "i \<in> vm_ids db1" "distinct (map pnr_resource (pn_resources network))"
    and db': "db' = (let db2 = recount_bridges (db1\<lparr>db_networks := upsert nw_microvm_id (network_row i bridge network) (db_networks db1),
            db_resources := filter (\<lambda>r. rs_microvm_id r \<noteq> i) (db_resources db1)
              @ map (resource_row i) (pn_resources network)\<rparr>)
        in if ?prev \<noteq> None \<and> ?prev \<noteq> bridge
           then db2\<lparr>db_bridges := filter (\<lambda>b. \<not> (Some (br_id b) = ?prev \<and> br_reference_count b = 0 \<and> sdk_owned b))
                  (db_bridges db2)\<rparr> else db2)"
    by (auto simp: persist_network_transaction_def Let_def bindR_Inr vm_exists_iff split: prod.splits)
  have row: "network_row_ok (network_row i bridge network)"
    using rest(1) by (auto simp: network_row_ok_def network_row_def)
  show thesis
  proof (cases "?prev \<noteq> None \<and> ?prev \<noteq> bridge")
    case True
    show thesis
      by (rule that [OF _ * row rest(2-5), of "\<lambda>b. \<not> (Some (br_id b) = ?prev \<and> br_reference_count b = 0 \<and> sdk_owned b)"])
        (use True db' in \<open>simp_all add: Let_def\<close>)
  next
    case False
    show thesis
      by (rule that [OF _ * row rest(2-5), of "\<lambda>_. True"]) (use False db' in \<open>auto simp: Let_def\<close>)
  qed
qed

lemma persist_network_transaction_ok:
  assumes ok: "inventory_ok db" and stmt: "persist_network_transaction now i network db = Inr (u, db')"
  shows "inventory_ok db'"
  using stmt
proof (rule persist_network_transactionE)
  fix bridge and db1 :: db and keep
  let ?row = "network_row i bridge network"
  let ?ns = "upsert nw_microvm_id ?row (db_networks db1)"
  let ?rs = "filter (\<lambda>r. rs_microvm_id r \<noteq> i) (db_resources db1) @ map (resource_row i) (pn_resources network)"
  let ?db2 = "recount_bridges (db1\<lparr>db_networks := ?ns, db_resources := ?rs\<rparr>)"
  assume keep: "\<And>b. \<not> keep b \<Longrightarrow> br_reference_count b = 0"
    and bridge: "bridge_for_network now network db = Inr (bridge, db1)"
    and row: "network_row_ok ?row" "i \<in> vm_ids db1"
      "\<not> list_ex (\<lambda>r. nw_tap_name r = nw_tap_name ?row) (filter (\<lambda>r. nw_microvm_id r \<noteq> i) (db_networks db1))"
      "\<not> list_ex (\<lambda>r. nw_guest_mac r = nw_guest_mac ?row) (filter (\<lambda>r. nw_microvm_id r \<noteq> i) (db_networks db1))"
    and res: "distinct (map pnr_resource (pn_resources network))"
    and db': "db' = (let db2 = ?db2 in
      db2\<lparr>db_bridges := filter keep (db_bridges db2)\<rparr>)"
  note ok1 = bridge_for_network_ok [OF ok bridge]
  have nets: "networks_ok (vm_ids db1) (br_id ` set (db_bridges ?db2)) ?ns"
    unfolding recount_bridges_ids
    by (rule networks_ok_upsert) (use ok1 row in \<open>auto simp: inventory_ok_def network_row_def\<close>)
  have bridges: "bridges_ok ?ns (db_bridges ?db2) (db_next_bridge ?db2)"
    using recount_bridges_ok [of "vm_ids db1" "db1\<lparr>db_networks := ?ns, db_resources := ?rs\<rparr>"] nets ok1
    by (simp add: inventory_ok_def bridges_ok_def recount_bridges_ids)
  have "resources_ok (vm_ids db1) ?rs"
    using ok1 row(2) res by (intro resources_ok_replace) (auto simp: inventory_ok_def)
  with ok1 drop_unreferenced_ok [OF nets bridges, of keep] keep
  show "inventory_ok db'" by (simp add: inventory_ok_def db' Let_def)
qed

lemma cascade_simps [simp]:
  "db_bridges (cascade i db) = db_bridges db" "db_journals (cascade i db) = db_journals db"
  "db_next_vm (cascade i db) = db_next_vm db" "db_next_bridge (cascade i db) = db_next_bridge db"
  by (simp_all add: cascade_def)

lemma vm_ids_cascade: "vm_ids (cascade i db) = vm_ids db - {i}"
  by (auto simp: cascade_def)

lemma delete_microvm_stmt_ok:
  assumes ok: "inventory_ok db" and stmt: "delete_microvm_stmt now i db = Inr (u, db')"
  shows "inventory_ok db'"
proof -
  let ?db1 = "recount_bridges (cascade i db)"
  let ?keep = "\<lambda>b. \<not> (br_reference_count b = 0 \<and> sdk_owned b)"
  from stmt have db': "db' = ?db1\<lparr>db_bridges := filter ?keep (db_bridges ?db1)\<rparr>"
    by (auto simp: delete_microvm_stmt_def Let_def bindR_Inr)
  have nets: "networks_ok (vm_ids (cascade i db)) (br_id ` set (db_bridges ?db1)) (db_networks (cascade i db))"
    using ok owned_rows_delete [of nw_microvm_id network_row_ok "vm_ids db" "db_networks db" i]
    unfolding recount_bridges_ids vm_ids_cascade
    by (auto simp: inventory_ok_def networks_ok_def cascade_def distinct_map_filterI)
  have "bridges_ok (db_networks (cascade i db)) (db_bridges ?db1) (db_next_bridge ?db1)"
    using recount_bridges_ok [of "vm_ids (cascade i db)" "cascade i db"] nets ok
    by (simp add: inventory_ok_def bridges_ok_def recount_bridges_ids)
  note bridges = drop_unreferenced_ok [OF nets this, of ?keep]
  have "microvms_ok (db_microvms db') (db_next_vm db')"
    using ok by (auto simp: db' cascade_def inventory_ok_def microvms_ok_def distinct_map_filterI)
  moreover have "vm_ids db' = vm_ids db - {i}" by (simp add: db' vm_ids_cascade)
  moreover have "resources_ok (vm_ids db - {i}) (db_resources db')"
    using ok by (auto simp: db' cascade_def inventory_ok_def resources_ok_def distinct_map_filterI)
  moreover have "credentials_ok (vm_ids db - {i}) (db_credentials db')"
    "owned_rows rr_microvm_id runtime_row_ok (vm_ids db - {i}) (db_runtimes db')"
    "owned_rows ar_microvm_id autostart_row_ok (vm_ids db - {i}) (db_autostart db')"
    "owned_rows sm_microvm_id (\<lambda>_. True) (vm_ids db - {i}) (db_snapshot_metadata db')"
    using ok
    by (auto simp: db' cascade_def inventory_ok_def credentials_ok_def distinct_map_filterI owned_rows_delete)
  ultimately show ?thesis
    using ok bridges by (simp add: inventory_ok_def db' vm_ids_cascade)
qed

lemma ar_microvm_id_autostart_row [simp]: "ar_microvm_id (autostart_row i settings) = i"
  by (simp add: autostart_row_def)

lemma autostart_row_ok: "attempts_ok settings \<Longrightarrow> autostart_row_ok (autostart_row i settings)"
  using word_of_int_uint by (simp add: attempts_ok_def autostart_row_ok_def autostart_row_def word_le_def)

lemma insert_autostart_policy_stmt_ok:
  "inventory_ok db \<Longrightarrow> insert_autostart_policy_stmt now i settings db = Inr (u, db') \<Longrightarrow> inventory_ok db'"
  by (auto simp: insert_autostart_policy_stmt_def bindR_Inr vm_exists_iff inventory_ok_def owned_rows_def
      autostart_row_ok list_ex_iff) blast

lemma update_autostart_policy_stmt_ok:
  assumes ok: "inventory_ok db" and stmt: "update_autostart_policy_stmt now i settings db = Inr (u, db')"
  shows "inventory_ok db'"
proof -
  let ?f = "\<lambda>r. if ar_microvm_id r = i then autostart_row i settings else r"
  from stmt have ok': "attempts_ok settings \<or> \<not> list_ex (\<lambda>r. ar_microvm_id r = i) (db_autostart db)"
    and db': "db' = db\<lparr>db_autostart := map ?f (db_autostart db)\<rparr>"
    by (auto simp: update_autostart_policy_stmt_def bindR_Inr)
  have key: "ar_microvm_id (?f r) = ar_microvm_id r" for r by (simp add: autostart_row_def)
  have "owned_rows ar_microvm_id autostart_row_ok (vm_ids db) (map ?f (db_autostart db))"
    using ok ok' autostart_row_ok [of settings i]
    by (auto simp: inventory_ok_def owned_rows_def comp_def key list_ex_iff cong: if_cong)
  with ok show ?thesis by (simp add: inventory_ok_def db')
qed

lemma delete_autostart_policy_ok:
  "inventory_ok db \<Longrightarrow> delete_autostart_policy i db = (r, db') \<Longrightarrow> inventory_ok db'"
  by (auto simp: delete_autostart_policy_def inventory_ok_def owned_rows_def distinct_map_filterI)

lemma record_restore_journal_stmt_ok:
  "inventory_ok db \<Longrightarrow> record_restore_journal_stmt now j db = Inr (u, db') \<Longrightarrow> inventory_ok db'"
  by (auto simp: record_restore_journal_stmt_def bindR_Inr inventory_ok_def distinct_upsert_key)

lemma delete_restore_journal_ok:
  "inventory_ok db \<Longrightarrow> delete_restore_journal operation db = (r, db') \<Longrightarrow> inventory_ok db'"
  by (auto simp: delete_restore_journal_def inventory_ok_def distinct_map_filterI)

section \<open>The repository as a state machine\<close>

definition empty_db :: db where
  "empty_db = \<lparr>db_microvms = [], db_networks = [], db_resources = [], db_credentials = [],
     db_runtimes = [], db_autostart = [], db_snapshot_metadata = [], db_bridges = [], db_journals = [], db_next_vm = 1,
     db_next_bridge = 1, db_artifacts = empty_artifacts\<rparr>"

text \<open>One call of the repository, with any arguments, whether it succeeds or fails.\<close>

inductive repository_step :: "db \<Rightarrow> db \<Rightarrow> bool" where
  insert: "insert_microvm rec db = (r, db') \<Longrightarrow> repository_step db db'"
| network: "persist_network now i network db = (r', db') \<Longrightarrow> repository_step db db'"
| update_network: "update_network now i network db = (r', db') \<Longrightarrow> repository_step db db'"
| credential: "persist_credential i credential db = (r', db') \<Longrightarrow> repository_step db db'"
| runtime: "persist_runtime now i runtime db = (r', db') \<Longrightarrow> repository_step db db'"
| resources: "update_microvm_resources now i disk memory mib vcpus db = (r', db') \<Longrightarrow> repository_step db db'"
| delete: "delete_microvm now i db = (r', db') \<Longrightarrow> repository_step db db'"
| insert_autostart: "insert_autostart_policy now i settings db = (r', db') \<Longrightarrow> repository_step db db'"
| update_autostart: "update_autostart_policy now i settings db = (r', db') \<Longrightarrow> repository_step db db'"
| delete_autostart: "delete_autostart_policy i db = (rb, db') \<Longrightarrow> repository_step db db'"
| record_journal: "record_restore_journal now journal db = (r', db') \<Longrightarrow> repository_step db db'"
| delete_journal: "delete_restore_journal operation db = (r', db') \<Longrightarrow> repository_step db db'"
| commit_restored: "commit_restored_microvm now commit db = (r, db') \<Longrightarrow> repository_step db db'"
| kernel: "persist_kernel now kern spec integrity db = (r', db') \<Longrightarrow> repository_step db db'"
| binary: "persist_binary_file now package file spec integrity db = (r', db') \<Longrightarrow> repository_step db db'"
| img: "persist_distribution_image now distribution img kernels spec integrity db = (r', db') \<Longrightarrow> repository_step db db'"
| remove_member: "remove_member spec db = (r', db') \<Longrightarrow> repository_step db db'"
| delete_kernel: "delete_kernel_if_unreferenced kernel_id db = (rb', db') \<Longrightarrow> repository_step db db'"
| delete_image: "delete_image_if_unreferenced distribution_id image_id db = (rb', db') \<Longrightarrow> repository_step db db'"
| delete_orphan: "delete_orphan_download_if_unreferenced artifact_key db = (rb', db') \<Longrightarrow> repository_step db db'"

inductive repository_reachable :: "db \<Rightarrow> bool" where
  start: "repository_reachable empty_db"
| step: "repository_reachable db \<Longrightarrow> repository_step db db' \<Longrightarrow> repository_reachable db'"

lemmas stmt_ok = insert_microvm_stmt_ok persist_network_transaction_ok persist_credential_stmt_ok
  persist_runtime_stmt_ok update_microvm_resources_stmt_ok delete_microvm_stmt_ok
  insert_autostart_policy_stmt_ok update_autostart_policy_stmt_ok record_restore_journal_stmt_ok

lemmas update_defs = insert_microvm_def persist_network_def update_network_def persist_credential_def
  persist_runtime_def update_microvm_resources_def delete_microvm_def insert_autostart_policy_def
  update_autostart_policy_def record_restore_journal_def commit_restored_microvm_def

text \<open>The calls on the artifact tables change those tables only.\<close>

lemma on_artifacts_shape: "on_artifacts m db = (r, db') \<Longrightarrow> \<exists>a. db' = db\<lparr>db_artifacts := a\<rparr>"
  by (auto simp: on_artifacts_def run_update_def bindR_Inr split: sum.splits prod.splits intro: exI [of _ "db_artifacts db"])

lemmas artifact_calls = persist_kernel_def persist_binary_file_def persist_distribution_image_def remove_member_def
  delete_kernel_if_unreferenced_def delete_image_if_unreferenced_def delete_orphan_download_if_unreferenced_def
  removing_def

lemma artifact_calls_shape:
  "persist_kernel now kern spec integrity db = (r, db') \<Longrightarrow> \<exists>a. db' = db\<lparr>db_artifacts := a\<rparr>"
  "persist_binary_file now package file spec integrity db = (r, db') \<Longrightarrow> \<exists>a. db' = db\<lparr>db_artifacts := a\<rparr>"
  "persist_distribution_image now distribution img kernels spec integrity db = (r, db') \<Longrightarrow> \<exists>a. db' = db\<lparr>db_artifacts := a\<rparr>"
  "remove_member spec db = (r, db') \<Longrightarrow> \<exists>a. db' = db\<lparr>db_artifacts := a\<rparr>"
  "delete_kernel_if_unreferenced kernel_id db = (rb, db') \<Longrightarrow> \<exists>a. db' = db\<lparr>db_artifacts := a\<rparr>"
  "delete_image_if_unreferenced distribution_id image_id db = (rb, db') \<Longrightarrow> \<exists>a. db' = db\<lparr>db_artifacts := a\<rparr>"
  "delete_orphan_download_if_unreferenced artifact_key db = (rb, db') \<Longrightarrow> \<exists>a. db' = db\<lparr>db_artifacts := a\<rparr>"
  by (auto simp: artifact_calls dest: on_artifacts_shape intro: exI [of _ "db_artifacts db"]
      split: if_splits option.splits prod.splits)

lemma inventory_ok_artifacts [simp]: "inventory_ok (db\<lparr>db_artifacts := a\<rparr>) = inventory_ok db"
  by (simp add: inventory_ok_def)

lemma artifacts_changed_ok: "\<exists>a. db' = db\<lparr>db_artifacts := a\<rparr> \<Longrightarrow> inventory_ok db \<Longrightarrow> inventory_ok db'"
  by auto

text \<open>The transaction of a restoration, statement by statement.\<close>

lemma in_artifacts_Inr:
  "in_artifacts m db = Inr (x, db') \<longleftrightarrow> (\<exists>a. m (db_artifacts db) = Inr (x, a) \<and> db' = db\<lparr>db_artifacts := a\<rparr>)"
  by (auto simp: in_artifacts_def bindR_Inr)

lemma insert_credential_stmt_Inr:
  "insert_credential_stmt i c db = Inr (u, db') \<Longrightarrow> persist_credential_stmt i c db = Inr (u, db')"
  by (auto simp: insert_credential_stmt_def bindR_Inr)

lemma insert_runtime_stmt_Inr:
  "insert_runtime_stmt now i r db = Inr (u, db') \<Longrightarrow> persist_runtime_stmt now i (restored_runtime r) db = Inr (u, db')"
  by (auto simp: insert_runtime_stmt_def bindR_Inr)

lemma insert_snapshot_metadata_stmt_ok:
  "inventory_ok db \<Longrightarrow> insert_snapshot_metadata_stmt i m db = Inr (u, db') \<Longrightarrow> inventory_ok db'"
  by (auto simp: insert_snapshot_metadata_stmt_def bindR_Inr vm_exists_iff inventory_ok_def owned_rows_def
      snapshot_metadata_row_def list_ex_iff) blast

lemma inventory_ok_journals:
  "inventory_ok db \<Longrightarrow> inventory_ok (db\<lparr>db_journals := filter P (db_journals db)\<rparr>)"
  by (auto simp: inventory_ok_def distinct_map_filterI)

lemma commit_restored_transaction_steps:
  assumes "commit_restored_transaction now commit db = Inr (i, db')"
  obtains db1 db2 db3 db4 db5 a where "insert_microvm_stmt (rc_record commit) db = Inr (i, db1)"
    "persist_network_transaction now i (rc_network commit) db1 = Inr ((), db2)"
    "persist_credential_stmt i (rc_credential commit) db2 = Inr ((), db3)"
    "persist_runtime_stmt now i (restored_runtime (rc_runtime commit)) db3 = Inr ((), db4)"
    "restored_kernel_transaction now (rc_kernel commit) (rc_kernel_spec commit) (rc_kernel_integrity commit)
       (vm_distribution_id (rc_record commit)) (db_artifacts db4) = Inr ((), a)"
    "insert_snapshot_metadata_stmt i (rc_snapshot_metadata commit) (db4\<lparr>db_artifacts := a\<rparr>) = Inr ((), db5)"
    "db' = db5\<lparr>db_journals := filter (\<lambda>(t, j). rj_operation_id j \<noteq> rc_operation_id commit) (db_journals db5)\<rparr>"
  using assms
  by (auto simp: commit_restored_transaction_def bindS_Inr in_artifacts_Inr
      dest!: insert_credential_stmt_Inr insert_runtime_stmt_Inr)

lemma commit_restored_transaction_ok:
  assumes "inventory_ok db" and "commit_restored_transaction now commit db = Inr (i, db')"
  shows "inventory_ok db'"
  using assms(2)
proof (rule commit_restored_transaction_steps)
  fix db1 db2 db3 db4 db5 a
  assume ins: "insert_microvm_stmt (rc_record commit) db = Inr (i, db1)"
    and net: "persist_network_transaction now i (rc_network commit) db1 = Inr ((), db2)"
    and cred: "persist_credential_stmt i (rc_credential commit) db2 = Inr ((), db3)"
    and rt: "persist_runtime_stmt now i (restored_runtime (rc_runtime commit)) db3 = Inr ((), db4)"
    and meta: "insert_snapshot_metadata_stmt i (rc_snapshot_metadata commit) (db4\<lparr>db_artifacts := a\<rparr>) = Inr ((), db5)"
    and db': "db' = db5\<lparr>db_journals := filter (\<lambda>(t, j). rj_operation_id j \<noteq> rc_operation_id commit) (db_journals db5)\<rparr>"
  have "inventory_ok (db4\<lparr>db_artifacts := a\<rparr>)"
    using persist_runtime_stmt_ok [OF persist_credential_stmt_ok [OF persist_network_transaction_ok
      [OF insert_microvm_stmt_ok [OF assms(1) ins] net] cred] rt] by simp
  from insert_snapshot_metadata_stmt_ok [OF this meta] show ?thesis
    unfolding db' by (rule inventory_ok_journals)
qed

lemma repository_step_ok: "repository_step db db' \<Longrightarrow> inventory_ok db \<Longrightarrow> inventory_ok db'"
  by (induction rule: repository_step.induct)
    (auto simp: update_defs run_update_cases
      intro: stmt_ok commit_restored_transaction_ok delete_autostart_policy_ok delete_restore_journal_ok
        artifact_calls_shape [THEN artifacts_changed_ok])

lemma reachable_inventory_ok: "repository_reachable db \<Longrightarrow> inventory_ok db"
proof (induction rule: repository_reachable.induct)
  case start
  show ?case
    by (simp add: empty_db_def inventory_ok_def microvms_ok_def networks_ok_def resources_ok_def
        credentials_ok_def owned_rows_def bridges_ok_def)
qed (rule repository_step_ok)

section \<open>Reading the inventory\<close>

lemma from_sqlite_integer_ok: "stored_u64 v \<Longrightarrow> from_sqlite_integer v c = Inr (word_of_int v)"
  by (simp add: stored_u64_def from_sqlite_integer_def)

lemma try_word_uint [simp]: "try_word (uint (v :: 'a::len word)) reason = Inr v"
  using uint_bounded [of v] by (simp add: try_word_def)

lemma record_from_row_ok: "microvm_row_ok row \<Longrightarrow> \<exists>rec. record_from_row row = Inr rec \<and> vm_id rec = mr_id row
    \<and> vm_name rec = mr_name row"
  by (simp add: record_from_row_def microvm_row_ok_def from_sqlite_integer_ok try_word_def)

lemma network_from_row_ok:
  assumes "network_row_ok row" "\<forall>r \<in> set (db_resources db). resource_row_ok r"
  shows "\<exists>n. network_from_row db row = Inr n"
proof -
  have "\<exists>rs. mapR resource_from_row (filter (\<lambda>r. rs_microvm_id r = nw_microvm_id row) (db_resources db)) = Inr rs"
    by (rule mapR_total) (use assms(2) in \<open>auto simp: resource_from_row_def resource_row_ok_def\<close>)
  with assms(1) show ?thesis
    by (auto simp: network_from_row_def Let_def network_row_ok_def try_word_def)
qed

lemma credential_from_row_ok: "credential_row_ok row \<Longrightarrow> \<exists>c. credential_from_row row = Inr c"
  by (simp add: credential_from_row_def credential_row_ok_def try_word_def)

lemma runtime_from_row_ok: "runtime_row_ok row \<Longrightarrow> \<exists>r. runtime_from_row row = Inr r"
  by (auto simp: runtime_from_row_def runtime_row_ok_def try_word_def split: option.splits)

lemma load_row_total:
  assumes "\<And>r. r \<in> set rows \<Longrightarrow> \<exists>x. f r = Inr x"
  shows "\<exists>x. load_row P f rows = Inr x"
  using assms by (fastforce simp: load_row_def split: option.splits dest: find_SomeD)

lemma load_network_record_ok: "inventory_ok db \<Longrightarrow> \<exists>n. load_network_record db i = Inr n"
  unfolding load_network_record_def inventory_ok_def networks_ok_def owned_rows_def resources_ok_def
  by (intro load_row_total network_from_row_ok) auto

lemma load_credential_record_ok: "inventory_ok db \<Longrightarrow> \<exists>n. load_credential_record db i = Inr n"
  unfolding load_credential_record_def inventory_ok_def credentials_ok_def owned_rows_def
  by (intro load_row_total credential_from_row_ok) auto

lemma load_runtime_record_ok: "inventory_ok db \<Longrightarrow> \<exists>n. load_runtime_record db i = Inr n"
  unfolding load_runtime_record_def inventory_ok_def owned_rows_def
  by (intro load_row_total runtime_from_row_ok) auto

text \<open>The value of a row in a consistent database, and the inventory as a map from names.\<close>

definition stored_of :: "db \<Rightarrow> MicroVmRow \<Rightarrow> StoredMicroVm" where
  "stored_of db row = \<lparr>st_record = projr (record_from_row row),
     st_network = projr (load_network_record db (mr_id row)),
     st_credential = projr (load_credential_record db (mr_id row)),
     st_runtime = projr (load_runtime_record db (mr_id row))\<rparr>"

definition view :: "db \<Rightarrow> string \<Rightarrow> StoredMicroVm option" where
  "view db name = map_option (stored_of db) (find (\<lambda>r. mr_name r = name) (db_microvms db))"

lemma microvm_rows_ok: "inventory_ok db \<Longrightarrow> row \<in> set (db_microvms db) \<Longrightarrow> microvm_row_ok row"
  by (simp add: inventory_ok_def microvms_ok_def)

lemma stored_from_row_ok:
  assumes "inventory_ok db" "row \<in> set (db_microvms db)"
  shows "stored_from_row db row = Inr (stored_of db row)"
    and "vm_id (st_record (stored_of db row)) = mr_id row"
    and "vm_name (st_record (stored_of db row)) = mr_name row"
  using record_from_row_ok [OF microvm_rows_ok [OF assms]]
    load_network_record_ok [OF assms(1), of "mr_id row"]
    load_credential_record_ok [OF assms(1), of "mr_id row"] load_runtime_record_ok [OF assms(1), of "mr_id row"]
  by (auto simp: stored_from_row_def stored_of_def)

lemma find_microvm_view: "inventory_ok db \<Longrightarrow> find_microvm name db = Inr (view db name)"
  by (auto simp: find_microvm_def load_row_def view_def stored_from_row_ok dest!: find_SomeD split: option.splits)

lemma view_SomeE:
  assumes "inventory_ok db" "view db name = Some s"
  obtains row where "row \<in> set (db_microvms db)" "find (\<lambda>r. mr_name r = name) (db_microvms db) = Some row"
    "s = stored_of db row" "mr_name row = name" "vm_name (st_record s) = name" "vm_id (st_record s) = mr_id row"
  using assms by (auto simp: view_def stored_from_row_ok dest: find_SomeD)

lemma view_None: "view db name = None \<longleftrightarrow> name \<notin> mr_name ` set (db_microvms db)"
  by (auto simp: view_def find_None_iff)

lemma view_unique_id:
  assumes ok: "inventory_ok db" and a: "view db a = Some x" and b: "view db b = Some y"
    and id: "vm_id (st_record x) = vm_id (st_record y)"
  shows "a = b"
proof -
  from ok a obtain r where r: "r \<in> set (db_microvms db)" "mr_name r = a" "vm_id (st_record x) = mr_id r"
    by (rule view_SomeE)
  from ok b obtain q where q: "q \<in> set (db_microvms db)" "mr_name q = b" "vm_id (st_record y) = mr_id q"
    by (rule view_SomeE)
  from ok have "inj_on mr_id (set (db_microvms db))"
    by (simp add: inventory_ok_def microvms_ok_def distinct_map)
  with r q id show ?thesis by (metis inj_onD)
qed

end
