(* ===== verification/Artifact_Store.thy ===== *)
theory Artifact_Store
  imports Inventory
begin

text \<open>
  The correctness of the artifact inventory: the schema invariant \<open>artifacts_ok\<close> (unique keys, paths and
  downloads, every reference to an existing row, verified downloads only), its preservation by every
  statement and by every call of the repository, what a persisted artifact resolves to, and what the
  removals leave untouched.
\<close>

section \<open>The schema invariant\<close>

text \<open>A table with an integer key below the next one and a second unique column.\<close>

definition key_table :: "('r \<Rightarrow> int) \<Rightarrow> ('r \<Rightarrow> 'k) \<Rightarrow> int \<Rightarrow> 'r list \<Rightarrow> bool" where
  "key_table ident key next rows \<longleftrightarrow>
     distinct (map ident rows) \<and> distinct (map key rows) \<and> (\<forall>r \<in> set rows. ident r < next)"

text \<open>A column that refers to the keys of another table.\<close>

definition refers :: "('r \<Rightarrow> int) \<Rightarrow> 'r list \<Rightarrow> int set \<Rightarrow> bool" where
  "refers f rows ids \<longleftrightarrow> (\<forall>r \<in> set rows. f r \<in> ids)"

text \<open>A table of ordered texts.\<close>

definition texts_ok :: "TextRow list \<Rightarrow> int set \<Rightarrow> bool" where
  "texts_ok rows ids \<longleftrightarrow> refers tx_owner rows ids \<and> distinct (map (\<lambda>r. (tx_owner r, tx_position r)) rows)"

definition sqlite_size :: "int \<Rightarrow> bool" where
  "sqlite_size v \<longleftrightarrow> 0 \<le> v \<and> v < 2 ^ 63"

definition download_row_ok :: "DownloadRow \<Rightarrow> bool" where
  "download_row_ok d \<longleftrightarrow> sqlite_size (dl_expected_size_bytes d) \<and> sqlite_size (dl_actual_size_bytes d)
     \<and> is_valid_sha256 (dl_expected_sha256 d) \<and> is_valid_sha256 (dl_actual_sha256 d)
     \<and> dl_verification_status d = ''verified'' \<and> dl_artifact_type d \<in> range artifact_type_name"

abbreviation download_ids :: "artifact_db \<Rightarrow> int set" where
  "download_ids a \<equiv> dl_id ` set (ad_downloads a)"

definition downloads_ok :: "artifact_db \<Rightarrow> bool" where
  "downloads_ok a \<longleftrightarrow> key_table dl_id dl_artifact_key (ad_next_download a) (ad_downloads a)
     \<and> distinct (map dl_relative_path (ad_downloads a)) \<and> distinct (map dl_absolute_path (ad_downloads a))
     \<and> (\<forall>d \<in> set (ad_downloads a). download_row_ok d)"

definition kernels_ok :: "artifact_db \<Rightarrow> bool" where
  "kernels_ok a \<longleftrightarrow> key_table kr_id kr_registry_id (ad_next_kernel a) (ad_kernels a)
     \<and> (\<forall>k \<in> set (ad_kernels a). \<forall>i. kr_download_id k = Some i \<longrightarrow> i \<in> download_ids a)
     \<and> (\<forall>k \<in> set (ad_kernels a). \<forall>k' \<in> set (ad_kernels a). \<forall>i.
          kr_download_id k = Some i \<longrightarrow> kr_download_id k' = Some i \<longrightarrow> k = k')"

definition binaries_ok :: "artifact_db \<Rightarrow> bool" where
  "binaries_ok a \<longleftrightarrow> key_table pa_id pa_registry_id (ad_next_package a) (ad_packages a)
     \<and> key_table bi_id file_key (ad_next_file a) (ad_files a) \<and> distinct (map bi_download_id (ad_files a))
     \<and> refers bi_download_id (ad_files a) (download_ids a)
     \<and> refers bi_binary_package_id (ad_files a) (pa_id ` set (ad_packages a))"

definition images_ok :: "artifact_db \<Rightarrow> bool" where
  "images_ok a \<longleftrightarrow> key_table ds_id ds_registry_id (ad_next_distribution a) (ad_distributions a)
     \<and> key_table im_id image_key (ad_next_image a) (ad_images a) \<and> distinct (map im_download_id (ad_images a))
     \<and> refers im_download_id (ad_images a) (download_ids a)
     \<and> refers im_distribution_id (ad_images a) (ds_id ` set (ad_distributions a))"

definition links_ok :: "artifact_db \<Rightarrow> bool" where
  "links_ok a \<longleftrightarrow> refers dk_distribution_id (ad_distribution_kernels a) (ds_id ` set (ad_distributions a))
     \<and> refers dk_kernel_id (ad_distribution_kernels a) (kr_id ` set (ad_kernels a))
     \<and> distinct (map (\<lambda>r. (dk_distribution_id r, dk_kernel_id r)) (ad_distribution_kernels a))
     \<and> distinct (map dk_distribution_id (filter dk_is_default (ad_distribution_kernels a)))"

definition details_ok :: "artifact_db \<Rightarrow> bool" where
  "details_ok a \<longleftrightarrow> distinct (map el_download_id (ad_elf a)) \<and> refers el_download_id (ad_elf a) (download_ids a)
     \<and> texts_ok (ad_elf_libraries a) (el_download_id ` set (ad_elf a))
     \<and> texts_ok (ad_boot_args a) (ds_id ` set (ad_distributions a))
     \<and> distinct (map fr_distribution_image_id (ad_filesystems a))
     \<and> refers fr_distribution_image_id (ad_filesystems a) (im_id ` set (ad_images a))
     \<and> texts_ok (ad_features a) (fr_distribution_image_id ` set (ad_filesystems a))
     \<and> texts_ok (ad_capabilities a) (im_id ` set (ad_images a))"

definition artifacts_ok :: "artifact_db \<Rightarrow> bool" where
  "artifacts_ok a \<longleftrightarrow> downloads_ok a \<and> kernels_ok a \<and> binaries_ok a \<and> images_ok a \<and> links_ok a \<and> details_ok a"

lemmas artifacts_ok_defs = artifacts_ok_def downloads_ok_def kernels_ok_def binaries_ok_def images_ok_def links_ok_def
  details_ok_def

section \<open>Generic facts on tables\<close>

lemma row_id_fresh_or_same:
  assumes "key_table ident key next rows" and "r \<in> set rows"
  shows "ident r = row_id key ident k next rows \<longleftrightarrow> key r = k"
proof (cases "find (\<lambda>r. key r = k) rows")
  case None
  with assms show ?thesis by (auto simp: row_id_def key_table_def) (auto simp: find_None_iff)
next
  case (Some x)
  then have "x \<in> set rows" "key x = k" by (auto dest: find_SomeD)
  with assms Some show ?thesis by (auto simp: row_id_def key_table_def distinct_map dest: inj_onD)
qed

lemma row_id_bound: "key_table ident key next rows \<Longrightarrow> row_id key ident k next rows < advance_id key k next rows"
  by (auto simp: row_id_def advance_id_def key_table_def list_ex_iff find_None_iff dest: find_SomeD split: option.splits)

lemma advance_id_le: "next \<le> advance_id key k next rows"
  by (simp add: advance_id_def)

lemma key_table_upsert:
  assumes ok: "key_table ident key next rows" and row: "ident row = row_id key ident (key row) next rows"
  shows "key_table ident key (advance_id key (key row) next rows) (upsert key row rows)"
proof -
  have "\<forall>r \<in> set rows. key r \<noteq> key row \<longrightarrow> ident r \<noteq> ident row"
    using row_id_fresh_or_same [OF ok, of _ "key row"] row by auto
  with ok have "distinct (map ident (upsert key row rows))"
    by (auto simp: key_table_def list_ex_iff intro!: distinct_upsert_column)
  moreover have "ident r < advance_id key (key row) next rows" if "r \<in> set (upsert key row rows)" for r
    using that row row_id_bound [OF ok, of "key row"] ok advance_id_le [of "next" key "key row" rows]
    by (fastforce simp: in_upsert key_table_def)
  ultimately show ?thesis using ok by (simp add: key_table_def distinct_upsert_key)
qed

lemma key_table_filter: "key_table ident key next rows \<Longrightarrow> key_table ident key next (filter P rows)"
  by (simp add: key_table_def distinct_map_filterI)

text \<open>An upsert keeps the keys that were there.\<close>

lemma upsert_idents:
  assumes "key_table ident key next rows" and "ident row = row_id key ident (key row) next rows"
  shows "ident ` set (upsert key row rows) = insert (ident row) (ident ` set rows)"
proof -
  have "ident r \<in> insert (ident row) (ident ` {r \<in> set rows. key r \<noteq> key row})" if "r \<in> set rows" for r
    using that assms row_id_fresh_or_same [OF assms(1) that, of "key row"] by auto
  then show ?thesis by (fastforce simp: in_upsert image_iff)
qed

lemma refers_mono: "refers f rows ids \<Longrightarrow> ids \<subseteq> ids' \<Longrightarrow> refers f rows ids'"
  by (auto simp: refers_def)

lemma refers_filter: "refers f rows ids \<Longrightarrow> refers f (filter P rows) ids"
  by (auto simp: refers_def)

lemma refers_upsert: "refers f rows ids \<Longrightarrow> f row \<in> ids \<Longrightarrow> refers f (upsert key row rows) ids"
  by (auto simp: refers_def in_upsert)

lemma texts_ok_mono: "texts_ok rows ids \<Longrightarrow> ids \<subseteq> ids' \<Longrightarrow> texts_ok rows ids'"
  by (auto simp: texts_ok_def intro: refers_mono)

lemma texts_ok_filter:
  "texts_ok rows ids \<Longrightarrow> (\<And>r. r \<in> set rows \<Longrightarrow> P r \<Longrightarrow> tx_owner r \<in> ids \<Longrightarrow> tx_owner r \<in> ids') \<Longrightarrow> texts_ok (filter P rows) ids'"
  by (auto simp: texts_ok_def refers_def distinct_map_filterI)

lemma insert_text_ok:
  "texts_ok rows ids \<Longrightarrow> (e \<Longrightarrow> i \<in> ids) \<Longrightarrow> insert_text i e what entry rows = Inr (u, rows') \<Longrightarrow> texts_ok rows' ids"
  by (cases entry) (auto simp: insert_text_def unique_def constraint_def foreign_key_def bindR_Inr texts_ok_def refers_def
      list_ex_iff split: if_splits; blast)

section \<open>Invariants of statements\<close>

definition keepsS :: "('d \<Rightarrow> bool) \<Rightarrow> ('d, 'a) stmt \<Rightarrow> bool" where
  "keepsS I m \<longleftrightarrow> (\<forall>d x d'. I d \<longrightarrow> m d = Inr (x, d') \<longrightarrow> I d')"

lemma keepsSI: "(\<And>d x d'. I d \<Longrightarrow> m d = Inr (x, d') \<Longrightarrow> I d') \<Longrightarrow> keepsS I m"
  by (auto simp: keepsS_def)

lemma keepsSD: "keepsS I m \<Longrightarrow> I d \<Longrightarrow> m d = Inr (x, d') \<Longrightarrow> I d'"
  by (auto simp: keepsS_def)

lemma keepsS_bind: "keepsS I m \<Longrightarrow> (\<And>x. keepsS I (f x)) \<Longrightarrow> keepsS I (bindS m f)"
  unfolding keepsS_def bindS_Inr by blast

lemma keepsS_simple: "keepsS I (liftS r)" "keepsS I (returnS x)" "keepsS I (queryS f)"
  by (auto simp: keepsS_def)

lemma keepsS_for: "(\<And>x. keepsS I (f x)) \<Longrightarrow> keepsS I (forS xs f)"
  by (induction xs) (auto intro: keepsS_bind keepsS_simple)

lemma replace_texts_ok:
  assumes "texts_ok rows ids" "e \<Longrightarrow> i \<in> ids" "replace_texts i e what texts rows = Inr rows'"
  shows "texts_ok rows' ids"
proof -
  have "keepsS (\<lambda>rows. texts_ok rows ids) (forS (enumerate 0 texts) (insert_text i e what))"
    by (rule keepsS_for) (auto intro: keepsSI insert_text_ok [OF _ assms(2)])
  from keepsSD [OF this texts_ok_filter [OF assms(1)]] assms(3) show ?thesis
    by (auto simp: replace_texts_def bindR_Inr)
qed

lemmas keepsS_intros = keepsS_bind keepsS_simple keepsS_for

lemmas stmt_simps = unique_def constraint_def foreign_key_def bindR_Inr Let_def list_ex_iff

lemma to_sqlite_Inr: "to_sqlite_integer v context = Inr x \<longleftrightarrow> sqlite_size (uint v) \<and> x = uint v"
proof -
  have "unat v < 2 ^ 63 \<longleftrightarrow> uint v < 2 ^ 63" by (simp add: uint_nat del: of_nat_unat)
  then show ?thesis by (auto simp: to_sqlite_integer_def sqlite_size_def)
qed

lemma row_parts [simp]:
  "dl_id (download_row spec integrity i e c) = i" "dl_artifact_key (download_row spec integrity i e c) = sp_artifact_key spec"
  "dl_absolute_path (download_row spec integrity i e c) = sp_absolute_path spec"
  "dl_relative_path (download_row spec integrity i e c) = sp_relative_path spec"
  "pa_id (package_row package i) = i" "pa_registry_id (package_row package i) = bp_id package"
  "bi_id (file_row package_id download_id file n i) = i"
  "file_key (file_row package_id download_id file n i) = (package_id, bf_name file)"
  "bi_download_id (file_row package_id download_id file n i) = download_id"
  "bi_binary_package_id (file_row package_id download_id file n i) = package_id"
  "ds_id (distribution_row distribution m i) = i" "ds_registry_id (distribution_row distribution m i) = d_id distribution"
  "im_id (image_row distribution_id download_id img n i) = i"
  "image_key (image_row distribution_id download_id img n i) = (distribution_id, di_id img)"
  "im_download_id (image_row distribution_id download_id img n i) = download_id"
  "im_distribution_id (image_row distribution_id download_id img n i) = distribution_id"
  "kr_id (kernel_row i download kern n) = i" "kr_registry_id (kernel_row i download kern n) = k_id kern"
  "kr_download_id (kernel_row i download kern n) = download"
  by (simp_all add: download_row_def package_row_def file_row_def file_key_def distribution_row_def image_row_def
      image_key_def kernel_row_def)

lemma persist_download_Inr:
  assumes "persist_download now spec integrity a = Inr (i, a')"
  defines "row \<equiv> download_row spec integrity i (uint (sp_expected_size spec)) (uint (fi_size_bytes integrity))"
  shows "i = row_id dl_artifact_key dl_id (sp_artifact_key spec) (ad_next_download a) (ad_downloads a)"
    and "download_row_ok row"
    and "\<forall>r \<in> set (ad_downloads a). dl_artifact_key r \<noteq> sp_artifact_key spec \<longrightarrow>
       dl_relative_path r \<noteq> sp_relative_path spec \<and> dl_absolute_path r \<noteq> sp_absolute_path spec"
    and "a' = a\<lparr>ad_downloads := upsert dl_artifact_key row (ad_downloads a),
       ad_next_download := advance_id dl_artifact_key (sp_artifact_key spec) (ad_next_download a) (ad_downloads a)\<rparr>"
  using assms(1)
  by (auto simp: persist_download_def bindS_Inr stmt_simps to_sqlite_Inr row_def download_row_ok_def
      split: if_splits) (simp_all add: download_row_def)

lemma keeps_persist_download: "keepsS artifacts_ok (persist_download now spec integrity)"
proof (rule keepsSI)
  fix a i a'
  assume ok: "artifacts_ok a" and run: "persist_download now spec integrity a = Inr (i, a')"
  note row = persist_download_Inr [OF run]
  let ?row = "download_row spec integrity i (uint (sp_expected_size spec)) (uint (fi_size_bytes integrity))"
  have table: "key_table dl_id dl_artifact_key (ad_next_download a) (ad_downloads a)"
    using ok by (simp add: artifacts_ok_def downloads_ok_def)
  have "downloads_ok a'"
    using ok row key_table_upsert [OF table, of ?row]
    by (auto simp: artifacts_ok_def downloads_ok_def in_upsert key_table_def list_ex_iff intro!: distinct_upsert_column)
  moreover have "download_ids a' = insert i (download_ids a)"
    using upsert_idents [OF table, of ?row] row by simp
  ultimately show "artifacts_ok a'"
    using ok by (auto simp: artifacts_ok_defs row(4) intro: refers_mono)
qed

lemma keeps_delete_downloads: "keepsS artifacts_ok (delete_downloads gone)"
proof (rule keepsSI)
  fix a u a'
  assume ok: "artifacts_ok a" and run: "delete_downloads gone a = Inr (u, a')"
  let ?ids = "dl_id ` {d \<in> set (ad_downloads a). gone d}"
  have free: "\<forall>k \<in> set (ad_kernels a). \<forall>i. kr_download_id k = Some i \<longrightarrow> i \<notin> ?ids"
    "\<forall>f \<in> set (ad_files a). bi_download_id f \<notin> ?ids" "\<forall>m \<in> set (ad_images a). im_download_id m \<notin> ?ids"
    and a': "a' = a\<lparr>ad_downloads := filter (\<lambda>r. \<not> gone r) (ad_downloads a),
       ad_elf := filter (\<lambda>r. el_download_id r \<notin> ?ids) (ad_elf a),
       ad_elf_libraries := filter (\<lambda>r. tx_owner r \<notin> ?ids) (ad_elf_libraries a)\<rparr>"
    using run by (auto simp: delete_downloads_def stmt_simps split: if_splits option.splits)
  have ids: "i \<in> download_ids a'" if "i \<in> download_ids a" "i \<notin> ?ids" for i
    using that by (auto simp: a')
  have "downloads_ok a'"
    using ok by (auto simp: a' artifacts_ok_def downloads_ok_def key_table_filter distinct_map_filterI)
  moreover have "kernels_ok a'" "binaries_ok a'" "images_ok a'" "links_ok a'"
    using ok free ids unfolding artifacts_ok_defs refers_def by (simp_all add: a')
  moreover have "details_ok a'"
    using ok ids by (auto simp: a' artifacts_ok_def details_ok_def refers_def distinct_map_filterI intro!: texts_ok_filter)
  ultimately show "artifacts_ok a'" by (simp add: artifacts_ok_def)
qed

lemma keeps_texts:
  "keepsS artifacts_ok (replace_boot_args i arguments)"
  "keepsS artifacts_ok (replace_capabilities i capabilities)"
proof -
  have boot: "texts_ok rows (ds_id ` set (ad_distributions a))" if "artifacts_ok a"
    "replace_texts i (list_ex (\<lambda>r. ds_id r = i) (ad_distributions a)) what arguments (ad_boot_args a) = Inr rows" for a rows what
    using that by (intro replace_texts_ok [OF _ _ that(2)]) (auto simp: artifacts_ok_def details_ok_def list_ex_iff)
  have caps: "texts_ok rows (im_id ` set (ad_images a))" if "artifacts_ok a"
    "replace_texts i (list_ex (\<lambda>r. im_id r = i) (ad_images a)) what capabilities (ad_capabilities a) = Inr rows" for a rows what
    using that by (intro replace_texts_ok [OF _ _ that(2)]) (auto simp: artifacts_ok_def details_ok_def list_ex_iff)
  have put: "artifacts_ok (a\<lparr>ad_boot_args := rows\<rparr>)"
    if "artifacts_ok a" "texts_ok rows (ds_id ` set (ad_distributions a))" for a rows
    using that by (simp add: artifacts_ok_defs)
  have put': "artifacts_ok (a\<lparr>ad_capabilities := rows\<rparr>)"
    if "artifacts_ok a" "texts_ok rows (im_id ` set (ad_images a))" for a rows
    using that by (simp add: artifacts_ok_defs)
  show "keepsS artifacts_ok (replace_boot_args i arguments)"
    by (rule keepsSI) (auto simp: replace_boot_args_def bindR_Inr intro: put boot)
  show "keepsS artifacts_ok (replace_capabilities i capabilities)"
    by (rule keepsSI) (auto simp: replace_capabilities_def bindR_Inr intro: put' caps)
qed

lemma keeps_replace_filesystem: "keepsS artifacts_ok (replace_filesystem i filesystem)"
proof (rule keepsSI)
  fix a u a'
  assume ok: "artifacts_ok a" and run: "replace_filesystem i filesystem a = Inr (u, a')"
  let ?row = "filesystem_row i filesystem (uint (fs_block_size filesystem)) (uint (fs_block_count filesystem))
      (uint (fs_free_blocks filesystem)) (uint (fs_inode_count filesystem)) (uint (fs_free_inodes filesystem))"
  from run obtain rows where exists: "i \<in> im_id ` set (ad_images a)" and rows: "replace_texts i True ''filesystem feature'' (fs_features filesystem) (ad_features a) = Inr rows"
    and a': "a' = a\<lparr>ad_filesystems := filter (\<lambda>r. fr_distribution_image_id r \<noteq> i) (ad_filesystems a) @ [?row],
       ad_features := rows\<rparr>"
    by (auto simp: replace_filesystem_def stmt_simps to_sqlite_Inr split: if_splits)
  have row: "fr_distribution_image_id ?row = i" by (simp add: filesystem_row_def)
  have "texts_ok rows (insert i (fr_distribution_image_id ` set (ad_filesystems a)))"
    using ok by (intro replace_texts_ok [OF _ _ rows])
      (auto simp: artifacts_ok_def details_ok_def intro: texts_ok_mono)
  moreover have "insert i (fr_distribution_image_id ` set (ad_filesystems a)) \<subseteq> fr_distribution_image_id ` set (ad_filesystems a')"
    using row by (auto simp: a')
  ultimately show "artifacts_ok a'"
    using ok exists row by (auto simp: artifacts_ok_defs a' refers_def distinct_map_filterI intro: texts_ok_mono)
qed

lemma keeps_persist_elf: "keepsS artifacts_ok (persist_elf i metadata)"
proof (rule keepsSI)
  fix a u a'
  assume ok: "artifacts_ok a" and run: "persist_elf i metadata a = Inr (u, a')"
  let ?elf = "filter (\<lambda>r. el_download_id r \<noteq> i) (ad_elf a)" and ?libs = "filter (\<lambda>r. tx_owner r \<noteq> i) (ad_elf_libraries a)"
  have libs: "texts_ok ?libs (el_download_id ` set ?elf)"
    using ok by (auto simp: artifacts_ok_def details_ok_def intro!: texts_ok_filter)
  show "artifacts_ok a'"
  proof (cases metadata)
    case None
    with run have "a' = a\<lparr>ad_elf := ?elf, ad_elf_libraries := ?libs\<rparr>" by (simp add: persist_elf_def)
    with ok libs show ?thesis by (auto simp: artifacts_ok_defs distinct_map_filterI refers_filter)
  next
    case (Some m)
    with run obtain rows texts where exists: "i \<in> download_ids a" and rows: "replace_texts i True ''ELF library'' texts ?libs = Inr rows"
      and a': "a' = a\<lparr>ad_elf := ?elf @ [elf_row i m], ad_elf_libraries := rows\<rparr>"
      by (auto simp: persist_elf_def download_exists_def stmt_simps split: if_splits)
    have row: "el_download_id (elf_row i m) = i" by (simp add: elf_row_def)
    have "texts_ok rows (insert i (el_download_id ` set ?elf))"
      by (rule replace_texts_ok [OF _ _ rows]) (auto intro: texts_ok_mono [OF libs])
    then show ?thesis
      using ok exists row by (auto simp: artifacts_ok_defs a' refers_def distinct_map_filterI)
  qed
qed

lemma keeps_upsert_kernel: "keepsS artifacts_ok (upsert_kernel download kern n)"
proof (rule keepsSI)
  fix a u a'
  assume ok: "artifacts_ok a" and run: "upsert_kernel download kern n a = Inr (u, a')"
  let ?row = "kernel_row (row_id kr_registry_id kr_id (k_id kern) (ad_next_kernel a) (ad_kernels a)) download kern n"
  have table: "key_table kr_id kr_registry_id (ad_next_kernel a) (ad_kernels a)"
    using ok by (simp add: artifacts_ok_def kernels_ok_def)
  have a': "a' = a\<lparr>ad_kernels := upsert kr_registry_id ?row (ad_kernels a),
      ad_next_kernel := advance_id kr_registry_id (k_id kern) (ad_next_kernel a) (ad_kernels a)\<rparr>"
    and free: "\<forall>i. download = Some i \<longrightarrow> i \<in> download_ids a
      \<and> (\<forall>r \<in> set (ad_kernels a). kr_registry_id r \<noteq> k_id kern \<longrightarrow> kr_download_id r \<noteq> Some i)"
    using run by (auto simp: upsert_kernel_def download_exists_def stmt_simps split: if_splits option.splits)
  have "kr_id ` set (ad_kernels a') = insert (kr_id ?row) (kr_id ` set (ad_kernels a))"
    using upsert_idents [OF table, of ?row] by (simp add: a')
  moreover have "kernels_ok a'"
    using ok free key_table_upsert [OF table, of ?row]
    by (auto simp: a' artifacts_ok_def kernels_ok_def in_upsert)
  ultimately show "artifacts_ok a'"
    using ok by (auto simp: artifacts_ok_def downloads_ok_def binaries_ok_def images_ok_def links_ok_def details_ok_def a'
        intro: refers_mono)
qed

lemma keeps_upsert_package: "keepsS artifacts_ok (upsert_package package)"
proof (rule keepsSI)
  fix a i a'
  assume ok: "artifacts_ok a" and run: "upsert_package package a = Inr (i, a')"
  have table: "key_table pa_id pa_registry_id (ad_next_package a) (ad_packages a)"
    using ok by (simp add: artifacts_ok_def binaries_ok_def)
  let ?row = "package_row package (row_id pa_registry_id pa_id (bp_id package) (ad_next_package a) (ad_packages a))"
  from run have "a' = a\<lparr>ad_packages := upsert pa_registry_id ?row (ad_packages a),
      ad_next_package := advance_id pa_registry_id (bp_id package) (ad_next_package a) (ad_packages a)\<rparr>"
    by (auto simp: upsert_package_def Let_def)
  with ok key_table_upsert [OF table, of ?row] upsert_idents [OF table, of ?row] show "artifacts_ok a'"
    by (auto simp: artifacts_ok_defs intro: refers_mono)
qed

lemma keeps_upsert_distribution: "keepsS artifacts_ok (upsert_distribution distribution)"
proof (rule keepsSI)
  fix a i a'
  assume ok: "artifacts_ok a" and run: "upsert_distribution distribution a = Inr (i, a')"
  have table: "key_table ds_id ds_registry_id (ad_next_distribution a) (ad_distributions a)"
    using ok by (simp add: artifacts_ok_def images_ok_def)
  let ?row = "distribution_row distribution (uint (dr_min_memory_mb (d_requirements distribution)))
      (row_id ds_registry_id ds_id (d_id distribution) (ad_next_distribution a) (ad_distributions a))"
  from run have "a' = a\<lparr>ad_distributions := upsert ds_registry_id ?row (ad_distributions a),
      ad_next_distribution := advance_id ds_registry_id (d_id distribution) (ad_next_distribution a) (ad_distributions a)\<rparr>"
    by (auto simp: upsert_distribution_def bindS_Inr stmt_simps to_sqlite_Inr split: if_splits)
  with ok key_table_upsert [OF table, of ?row] upsert_idents [OF table, of ?row] show "artifacts_ok a'"
    by (auto simp: artifacts_ok_defs intro: refers_mono texts_ok_mono)
qed

lemma keeps_upsert_file: "keepsS artifacts_ok (upsert_file package_id download_id file n)"
proof (rule keepsSI)
  fix a u a'
  assume ok: "artifacts_ok a" and run: "upsert_file package_id download_id file n a = Inr (u, a')"
  have table: "key_table bi_id file_key (ad_next_file a) (ad_files a)"
    using ok by (simp add: artifacts_ok_def binaries_ok_def)
  let ?key = "(package_id, bf_name file)"
  let ?row = "file_row package_id download_id file n (row_id file_key bi_id ?key (ad_next_file a) (ad_files a))"
  have a': "a' = a\<lparr>ad_files := upsert file_key ?row (ad_files a),
      ad_next_file := advance_id file_key ?key (ad_next_file a) (ad_files a)\<rparr>"
    and exists: "download_id \<in> download_ids a" "package_id \<in> pa_id ` set (ad_packages a)"
    and free: "\<not> list_ex (\<lambda>r. bi_download_id r = bi_download_id ?row) (filter (\<lambda>r. file_key r \<noteq> file_key ?row) (ad_files a))"
    using run by (auto simp: upsert_file_def download_exists_def stmt_simps split: if_splits)
  have "distinct (map bi_download_id (upsert file_key ?row (ad_files a)))"
    using ok table by (intro distinct_upsert_column [OF _ _ free]) (simp_all add: key_table_def artifacts_ok_def binaries_ok_def)
  with ok exists key_table_upsert [OF table, of ?row] show "artifacts_ok a'"
    by (auto simp: artifacts_ok_defs a' intro: refers_upsert)
qed

lemma keeps_upsert_image: "keepsS artifacts_ok (upsert_image distribution_id download_id img n)"
proof (rule keepsSI)
  fix a i a'
  assume ok: "artifacts_ok a" and run: "upsert_image distribution_id download_id img n a = Inr (i, a')"
  have table: "key_table im_id image_key (ad_next_image a) (ad_images a)"
    using ok by (simp add: artifacts_ok_def images_ok_def)
  let ?key = "(distribution_id, di_id img)"
  let ?row = "image_row distribution_id download_id img n (row_id image_key im_id ?key (ad_next_image a) (ad_images a))"
  have a': "a' = a\<lparr>ad_images := upsert image_key ?row (ad_images a),
      ad_next_image := advance_id image_key ?key (ad_next_image a) (ad_images a)\<rparr>"
    and exists: "download_id \<in> download_ids a" "distribution_id \<in> ds_id ` set (ad_distributions a)"
    and free: "\<not> list_ex (\<lambda>r. im_download_id r = im_download_id ?row) (filter (\<lambda>r. image_key r \<noteq> image_key ?row) (ad_images a))"
    using run by (auto simp: upsert_image_def download_exists_def stmt_simps split: if_splits)
  have "distinct (map im_download_id (upsert image_key ?row (ad_images a)))"
    using ok table by (intro distinct_upsert_column [OF _ _ free]) (simp_all add: key_table_def artifacts_ok_def images_ok_def)
  with ok exists key_table_upsert [OF table, of ?row] upsert_idents [OF table, of ?row] show "artifacts_ok a'"
    by (auto simp: artifacts_ok_defs a' intro: refers_upsert refers_mono texts_ok_mono)
qed

lemma keeps_insert_distribution_kernel: "keepsS artifacts_ok (insert_distribution_kernel d k def)"
  by (rule keepsSI) (auto simp: insert_distribution_kernel_def stmt_simps artifacts_ok_defs refers_def split: if_splits)

lemma distinct_map_filter_filter: "distinct (map f (filter P xs)) \<Longrightarrow> distinct (map f (filter P (filter Q xs)))"
  by (induction xs) auto

lemma keepsS_execute: "(\<And>a. I a \<Longrightarrow> I (f a)) \<Longrightarrow> keepsS I (executeS f)"
  by (auto simp: keepsS_def)

lemma links_ok_filter:
  assumes "links_ok a" "ad_distribution_kernels a' = filter P (ad_distribution_kernels a)"
    "ad_distributions a' = ad_distributions a"
    "\<And>r. r \<in> set (ad_distribution_kernels a') \<Longrightarrow> dk_kernel_id r \<in> kr_id ` set (ad_kernels a) \<Longrightarrow> dk_kernel_id r \<in> kr_id ` set (ad_kernels a')"
  shows "links_ok a'"
  using assms unfolding links_ok_def refers_def
  by (simp add: distinct_map_filterI distinct_map_filter_filter del: filter_filter)

lemma keeps_delete_kernel: "keepsS artifacts_ok (executeS (delete_kernel_row i))"
proof (rule keepsS_execute)
  fix a assume ok: "artifacts_ok a"
  let ?a = "delete_kernel_row i a"
  have "links_ok ?a"
    by (rule links_ok_filter [of a _ "\<lambda>r. dk_kernel_id r \<noteq> i"]) (use ok in \<open>auto simp: artifacts_ok_def delete_kernel_row_def\<close>)
  moreover have "kernels_ok ?a"
    using ok by (auto simp: delete_kernel_row_def artifacts_ok_def kernels_ok_def key_table_filter)
  ultimately show "artifacts_ok ?a"
    using ok by (simp add: artifacts_ok_def downloads_ok_def binaries_ok_def images_ok_def details_ok_def delete_kernel_row_def)
qed

lemma keeps_delete_image: "keepsS artifacts_ok (executeS (delete_image_row i))"
proof (rule keepsS_execute)
  fix a assume ok: "artifacts_ok a"
  let ?a = "delete_image_row i a"
  have "details_ok a" using ok by (simp add: artifacts_ok_def)
  then have "details_ok ?a"
    unfolding details_ok_def delete_image_row_def refers_def
    by (auto simp: distinct_map_filterI intro!: texts_ok_filter)
  moreover have "images_ok ?a"
    using ok by (simp add: delete_image_row_def artifacts_ok_def images_ok_def key_table_filter distinct_map_filterI refers_filter)
  ultimately show "artifacts_ok ?a"
    using ok by (simp add: artifacts_ok_def downloads_ok_def binaries_ok_def kernels_ok_def links_ok_def delete_image_row_def)
qed

lemma keeps_delete_file: "keepsS artifacts_ok (executeS (\<lambda>a. a\<lparr>ad_files := filter P (ad_files a)\<rparr>))"
  by (rule keepsS_execute) (simp add: artifacts_ok_defs key_table_filter refers_filter distinct_map_filterI)

lemma keeps_delete_links:
  "keepsS artifacts_ok (executeS (\<lambda>a. a\<lparr>ad_distribution_kernels := filter P (ad_distribution_kernels a)\<rparr>))"
proof (rule keepsS_execute)
  fix a assume ok: "artifacts_ok a"
  let ?a = "a\<lparr>ad_distribution_kernels := filter P (ad_distribution_kernels a)\<rparr>"
  have "links_ok ?a" by (rule links_ok_filter [of a _ P]) (use ok in \<open>auto simp: artifacts_ok_def\<close>)
  then show "artifacts_ok ?a"
    using ok by (simp add: artifacts_ok_def downloads_ok_def binaries_ok_def kernels_ok_def images_ok_def details_ok_def)
qed

lemmas keeps_statements = keeps_persist_download keeps_delete_downloads keeps_texts keeps_replace_filesystem
  keeps_persist_elf keeps_upsert_kernel keeps_upsert_package keeps_upsert_distribution keeps_upsert_file
  keeps_upsert_image keeps_insert_distribution_kernel keeps_delete_kernel keeps_delete_image keeps_delete_file
  keeps_delete_links

section \<open>Transactions\<close>

lemma keeps_link_kernel: "keepsS artifacts_ok (link_kernel i kern def)"
  unfolding link_kernel_def ensure_kernel_reference_def by (intro keepsS_intros keeps_statements)

lemma keeps_persist_transactions:
  "keepsS artifacts_ok (persist_kernel_transaction now kern spec integrity)"
  "keepsS artifacts_ok (persist_binary_file_transaction now package file spec integrity)"
  "keepsS artifacts_ok (persist_kernel_references i distribution kernels)"
  "keepsS artifacts_ok (persist_distribution_image_transaction now distribution img kernels spec integrity)"
proof -
  show references: "keepsS artifacts_ok (persist_kernel_references i distribution kernels)" for i
    unfolding persist_kernel_references_def
    by (auto intro!: keepsS_intros keeps_statements keeps_link_kernel)
  show "keepsS artifacts_ok (persist_kernel_transaction now kern spec integrity)"
    "keepsS artifacts_ok (persist_binary_file_transaction now package file spec integrity)"
    "keepsS artifacts_ok (persist_distribution_image_transaction now distribution img kernels spec integrity)"
    unfolding persist_kernel_transaction_def persist_binary_file_transaction_def persist_distribution_image_transaction_def
    by (intro keepsS_intros keeps_statements references)+
qed

lemma keeps_restored_kernel:
  "keepsS artifacts_ok (restored_kernel_transaction now kern spec integrity distribution)"
proof -
  have "keepsS artifacts_ok (insert_or_ignore_distribution_kernel d k)" for d k
    using keeps_insert_distribution_kernel [of d k True]
    by (auto simp: insert_or_ignore_distribution_kernel_def keepsS_def split: if_splits)
  then show ?thesis
    unfolding restored_kernel_transaction_def
    by (auto intro!: keepsS_intros keeps_persist_transactions split: option.splits)
qed

lemma keeps_remove_rows:
  "keepsS artifacts_ok (remove_kernel_rows i d)" "keepsS artifacts_ok (remove_image_rows i d)"
  unfolding remove_kernel_rows_def remove_image_rows_def by (intro keepsS_intros keeps_statements)+

lemma keeps_remove_member: "keepsS artifacts_ok (remove_member_transaction spec)"
  unfolding remove_member_transaction_def Let_def
  by (auto intro!: keepsS_intros keeps_statements keeps_remove_rows split: ArtifactKind.splits option.splits)

lemma on_artifacts_ok:
  "keepsS artifacts_ok m \<Longrightarrow> artifacts_ok (db_artifacts db) \<Longrightarrow> on_artifacts m db = (r, db') \<Longrightarrow> artifacts_ok (db_artifacts db')"
  by (auto simp: on_artifacts_def run_update_def bindR_Inr split: sum.splits prod.splits dest: keepsSD)

lemma removing_ok:
  "keepsS artifacts_ok m \<Longrightarrow> artifacts_ok (db_artifacts db) \<Longrightarrow> removing m db = (r, db') \<Longrightarrow> artifacts_ok (db_artifacts db')"
  unfolding removing_def by (rule on_artifacts_ok [OF keepsS_bind]) (auto intro: keepsS_simple)

lemma artifact_calls_ok:
  assumes "artifacts_ok (db_artifacts db)"
  shows "persist_kernel now kern spec integrity db = (r, db') \<Longrightarrow> artifacts_ok (db_artifacts db')"
    "persist_binary_file now package file spec integrity db = (r, db') \<Longrightarrow> artifacts_ok (db_artifacts db')"
    "persist_distribution_image now distribution img kernels spec integrity db = (r, db') \<Longrightarrow> artifacts_ok (db_artifacts db')"
    "remove_member spec db = (r, db') \<Longrightarrow> artifacts_ok (db_artifacts db')"
    "delete_kernel_if_unreferenced kernel_id db = (rb, db') \<Longrightarrow> artifacts_ok (db_artifacts db')"
    "delete_image_if_unreferenced distribution_id image_id db = (rb, db') \<Longrightarrow> artifacts_ok (db_artifacts db')"
    "delete_orphan_download_if_unreferenced artifact_key db = (rb, db') \<Longrightarrow> artifacts_ok (db_artifacts db')"
  using assms
  by (auto simp: persist_kernel_def persist_binary_file_def persist_distribution_image_def remove_member_def
      delete_kernel_if_unreferenced_def delete_image_if_unreferenced_def delete_orphan_download_if_unreferenced_def
      elim: on_artifacts_ok [OF keeps_persist_transactions(1)] on_artifacts_ok [OF keeps_persist_transactions(2)]
        on_artifacts_ok [OF keeps_persist_transactions(4)] on_artifacts_ok [OF keeps_remove_member]
        removing_ok [OF keeps_remove_rows(1)] removing_ok [OF keeps_remove_rows(2)] removing_ok [OF keeps_delete_downloads]
      split: if_splits option.splits prod.splits)

section \<open>Reachable databases\<close>

text \<open>The calls on the MicroVM tables leave the artifact tables as they are.\<close>

lemma recount_bridges_artifacts [simp]: "db_artifacts (recount_bridges db) = db_artifacts db"
  by (simp add: recount_bridges_def Let_def)

lemma bridge_for_network_artifacts:
  "bridge_for_network now network db = Inr (b, db') \<Longrightarrow> db_artifacts db' = db_artifacts db"
  by (auto simp: bridge_for_network_def bindR_Inr Let_def split: option.splits if_splits)

lemma persist_network_artifacts:
  "persist_network_transaction now i network db = Inr (u, db') \<Longrightarrow> db_artifacts db' = db_artifacts db"
  by (auto simp: persist_network_transaction_def bindR_Inr Let_def constraint_def split: prod.splits if_splits
      dest!: bridge_for_network_artifacts)

lemma delete_microvm_artifacts: "delete_microvm_stmt now i db = Inr (u, db') \<Longrightarrow> db_artifacts db' = db_artifacts db"
  by (auto simp: delete_microvm_stmt_def cascade_def bindR_Inr Let_def split: option.splits if_splits)

lemma microvm_calls_artifacts:
  "insert_microvm_stmt rec db = Inr (i, db') \<Longrightarrow> db_artifacts db' = db_artifacts db"
  "persist_credential_stmt i credential db = Inr (u, db') \<Longrightarrow> db_artifacts db' = db_artifacts db"
  "persist_runtime_stmt now i runtime db = Inr (u, db') \<Longrightarrow> db_artifacts db' = db_artifacts db"
  "update_microvm_resources_stmt now i disk memory mib vcpus db = Inr (u, db') \<Longrightarrow> db_artifacts db' = db_artifacts db"
  "insert_autostart_policy_stmt now i settings db = Inr (u, db') \<Longrightarrow> db_artifacts db' = db_artifacts db"
  "update_autostart_policy_stmt now i settings db = Inr (u, db') \<Longrightarrow> db_artifacts db' = db_artifacts db"
  "record_restore_journal_stmt now journal db = Inr (u, db') \<Longrightarrow> db_artifacts db' = db_artifacts db"
  "delete_autostart_policy i db = (rb, db') \<Longrightarrow> db_artifacts db' = db_artifacts db"
  "delete_restore_journal operation db = (r, db') \<Longrightarrow> db_artifacts db' = db_artifacts db"
  by (auto simp: insert_microvm_stmt_def persist_credential_stmt_def persist_runtime_stmt_def
      update_microvm_resources_stmt_def insert_autostart_policy_stmt_def update_autostart_policy_stmt_def record_restore_journal_stmt_def delete_autostart_policy_def
      delete_restore_journal_def bindR_Inr Let_def split: if_splits)

lemma commit_restored_artifacts:
  assumes "commit_restored_transaction now commit db = Inr (i, db')"
  obtains a where "restored_kernel_transaction now (rc_kernel commit) (rc_kernel_spec commit) (rc_kernel_integrity commit)
      (vm_distribution_id (rc_record commit)) (db_artifacts db) = Inr ((), a)" "db_artifacts db' = a"
  using assms
proof (rule commit_restored_transaction_steps)
  fix db1 db2 db3 db4 db5 a
  assume "insert_microvm_stmt (rc_record commit) db = Inr (i, db1)"
    "persist_network_transaction now i (rc_network commit) db1 = Inr ((), db2)"
    "persist_credential_stmt i (rc_credential commit) db2 = Inr ((), db3)"
    "persist_runtime_stmt now i (restored_runtime (rc_runtime commit)) db3 = Inr ((), db4)"
  then have same: "db_artifacts db4 = db_artifacts db"
    using microvm_calls_artifacts(1-3) persist_network_artifacts by metis
  assume "insert_snapshot_metadata_stmt i (rc_snapshot_metadata commit) (db4\<lparr>db_artifacts := a\<rparr>) = Inr ((), db5)"
    "db' = db5\<lparr>db_journals := filter (\<lambda>(t, j). rj_operation_id j \<noteq> rc_operation_id commit) (db_journals db5)\<rparr>"
  then have "db_artifacts db' = a" by (auto simp: insert_snapshot_metadata_stmt_def bindR_Inr)
  moreover assume "restored_kernel_transaction now (rc_kernel commit) (rc_kernel_spec commit) (rc_kernel_integrity commit)
      (vm_distribution_id (rc_record commit)) (db_artifacts db4) = Inr ((), a)"
  ultimately show thesis using that same by simp
qed

lemma commit_restored_artifacts_ok:
  assumes "commit_restored_transaction now commit db = Inr (i, db')" "artifacts_ok (db_artifacts db)"
  shows "artifacts_ok (db_artifacts db')"
  using assms(1) by (rule commit_restored_artifacts) (use keepsSD [OF keeps_restored_kernel assms(2)] in blast)

lemma artifacts_ok_cong: "db_artifacts db' = db_artifacts db \<Longrightarrow> artifacts_ok (db_artifacts db) \<Longrightarrow> artifacts_ok (db_artifacts db')"
  by simp

lemma repository_step_artifacts:
  "repository_step db db' \<Longrightarrow> artifacts_ok (db_artifacts db) \<Longrightarrow> artifacts_ok (db_artifacts db')"
  by (induction rule: repository_step.induct)
    (auto simp: update_defs run_update_cases
      intro: persist_network_artifacts [THEN artifacts_ok_cong] delete_microvm_artifacts [THEN artifacts_ok_cong]
        microvm_calls_artifacts [THEN artifacts_ok_cong] artifact_calls_ok commit_restored_artifacts_ok)

lemma empty_artifacts_ok: "artifacts_ok empty_artifacts"
  by (simp add: artifacts_ok_defs empty_artifacts_def key_table_def refers_def texts_ok_def)

lemma reachable_artifacts_ok: "repository_reachable db \<Longrightarrow> artifacts_ok (db_artifacts db)"
  by (induction rule: repository_reachable.induct)
    (auto simp: empty_db_def empty_artifacts_ok intro: repository_step_artifacts)

section \<open>What a persisted artifact resolves to\<close>

lemma stored_size_uint [simp]: "stored_size (uint (v :: u64)) reason = Inr v"
  using uint_bounded [of v] by (simp add: stored_size_def)

lemma find_upsert_skip:
  assumes "\<not> P row" and "\<And>r. r \<in> set rows \<Longrightarrow> key r = key row \<Longrightarrow> \<not> P r"
  shows "find P (upsert key row rows) = find P rows"
proof -
  have "find P (map (\<lambda>r. if key r = key row then row else r) rows) = find P rows"
    using assms by (induction rows) auto
  with assms(1) show ?thesis by (simp add: upsert_def find_append split: option.splits)
qed

lemma find_download_upsert:
  assumes "downloads_ok a" and "persist_download now spec integrity a = Inr (i, a')"
  shows "find_download j a' = (if j = i
    then Some (download_row spec integrity i (uint (sp_expected_size spec)) (uint (fi_size_bytes integrity)))
    else find_download j a)"
proof -
  note row = persist_download_Inr [OF assms(2)]
  let ?row = "download_row spec integrity i (uint (sp_expected_size spec)) (uint (fi_size_bytes integrity))"
  have table: "key_table dl_id dl_artifact_key (ad_next_download a) (ad_downloads a)"
    using assms(1) by (simp add: downloads_ok_def)
  have table': "key_table dl_id dl_artifact_key (advance_id dl_artifact_key (sp_artifact_key spec) (ad_next_download a) (ad_downloads a))
      (upsert dl_artifact_key ?row (ad_downloads a))"
    using key_table_upsert [OF table, of ?row] row(1) by simp
  show ?thesis
  proof (cases "j = i")
    case True
    with find_key_distinct [of dl_id "upsert dl_artifact_key ?row (ad_downloads a)" ?row] table' show ?thesis
      by (simp add: find_download_def row(4) row_in_upsert key_table_def)
  next
    case False
    have "find (\<lambda>r. dl_id r = j) (upsert dl_artifact_key ?row (ad_downloads a)) = find (\<lambda>r. dl_id r = j) (ad_downloads a)"
      by (rule find_upsert_skip) (use row_id_fresh_or_same [OF table, of _ "sp_artifact_key spec"] row(1) False in auto)
    with False show ?thesis by (simp add: find_download_def row(4))
  qed
qed

lemma persist_elf_frame:
  "persist_elf i metadata a = Inr (u, a') \<Longrightarrow> ad_downloads a' = ad_downloads a \<and> ad_kernels a' = ad_kernels a
    \<and> ad_packages a' = ad_packages a \<and> ad_files a' = ad_files a \<and> ad_distributions a' = ad_distributions a
    \<and> ad_images a' = ad_images a"
  by (auto simp: persist_elf_def bindR_Inr Let_def split: option.splits)

text \<open>The downloads of the members, as maps.\<close>

definition kernel_download :: "string \<Rightarrow> artifact_db \<Rightarrow> DownloadRow option" where
  "kernel_download name a = Option.bind (find_kernel_row name a) (\<lambda>k. Option.bind (kr_download_id k) (\<lambda>i. find_download i a))"

definition image_download :: "string \<Rightarrow> string \<Rightarrow> artifact_db \<Rightarrow> DownloadRow option" where
  "image_download d m a = Option.bind (find_image_row d m a) (\<lambda>r. find_download (im_download_id r) a)"

lemma resolve_downloads:
  "resolve_kernel name a = local_artifact_from_row (kernel_download name a) ''kernel'' name"
  "resolve_distribution_image d m a = local_artifact_from_row (image_download d m a) ''distribution image'' m"
  by (simp_all add: resolve_kernel_def kernel_download_def resolve_distribution_image_def image_download_def)

text \<open>The artifact that a spec and a matching file stand for.\<close>

definition spec_artifact :: "DownloadSpec \<Rightarrow> LocalArtifact" where
  "spec_artifact spec = \<lparr>la_path = sp_absolute_path spec, la_size_bytes = sp_expected_size spec,
     la_sha256 = sp_expected_sha256 spec\<rparr>"

definition spec_integrity :: "DownloadSpec \<Rightarrow> FileIntegrity" where
  "spec_integrity spec = \<lparr>fi_size_bytes = sp_expected_size spec, fi_sha256 = sp_expected_sha256 spec\<rparr>"

definition spec_download :: "DownloadSpec \<Rightarrow> int \<Rightarrow> DownloadRow" where
  "spec_download spec i =
     download_row spec (spec_integrity spec) i (uint (sp_expected_size spec)) (uint (sp_expected_size spec))"

lemma local_artifact_None [simp]: "local_artifact_from_row None kind name = Inl (NotFound kind name)"
  by (simp add: local_artifact_from_row_def)

lemma spec_download [simp]:
  "local_artifact_from_row (Some (spec_download spec i)) kind name = Inr (spec_artifact spec)"
  "dl_artifact_key (spec_download spec i) = sp_artifact_key spec"
  by (simp_all add: local_artifact_from_row_def spec_download_def download_row_def spec_integrity_def spec_artifact_def)

lemma upsert_kernel_Inr:
  assumes "upsert_kernel download kern n a = Inr (u, a')"
  shows "find_kernel_row name a' = (if name = k_id kern
      then Some (kernel_row (row_id kr_registry_id kr_id (k_id kern) (ad_next_kernel a) (ad_kernels a)) download kern n)
      else find_kernel_row name a)"
    and "ad_downloads a' = ad_downloads a"
    and "k \<in> set (ad_kernels a) \<Longrightarrow> kr_registry_id k \<noteq> k_id kern \<Longrightarrow> download = Some i \<Longrightarrow> kr_download_id k \<noteq> Some i"
  using assms by (auto simp: upsert_kernel_def stmt_simps find_kernel_row_def find_upsert split: if_splits)

lemma inspect_spec:
  assumes "downloads_ok a" and "find_download i a
    = Some (download_row spec (spec_integrity spec) i (uint (sp_expected_size spec)) (uint (sp_expected_size spec)))"
    and "member_relation_exists spec i a = Inr True" and "integrity \<in> {None, Some (spec_integrity spec)}"
  shows "inspect_member spec integrity a = Inr Complete"
proof -
  let ?row = "download_row spec (spec_integrity spec) i (uint (sp_expected_size spec)) (uint (sp_expected_size spec))"
  have "?row \<in> set (ad_downloads a)" using assms(2) by (auto simp: find_download_def dest: find_SomeD)
  with assms(1) find_key_distinct [of dl_artifact_key "ad_downloads a" ?row]
  have "find (\<lambda>r. dl_artifact_key r = sp_artifact_key spec) (ad_downloads a) = Some ?row"
    by (simp add: downloads_ok_def key_table_def)
  with assms(3,4) show ?thesis
    by (auto simp: inspect_member_def download_row_def spec_integrity_def Let_def)
qed

lemma persist_kernel_transaction_resolves:
  assumes ok: "artifacts_ok a" and run: "persist_kernel_transaction now kern spec (spec_integrity spec) a = Inr (u, a')"
    and kind: "sp_artifact_kind spec = KernelKind" "sp_artifact_id spec = k_id kern"
  shows "\<exists>i. kernel_download (k_id kern) a' = Some (spec_download spec i)"
    and "integrity \<in> {None, Some (spec_integrity spec)} \<Longrightarrow> inspect_member spec integrity a' = Inr Complete"
    and "name \<noteq> k_id kern \<Longrightarrow> kernel_download name a' = kernel_download name a"
proof -
  from run obtain i a1 n a2 where run1: "persist_download now spec (spec_integrity spec) a = Inr (i, a1)"
    and run2: "upsert_kernel (Some i) kern n a1 = Inr ((), a2)" and run3: "persist_elf i (k_elf kern) a2 = Inr ((), a')"
    by (auto simp: persist_kernel_transaction_def bindS_Inr)
  have ok1: "artifacts_ok a1" and ok2: "artifacts_ok a2" and ok': "artifacts_ok a'"
    using ok run1 run2 run3 keeps_persist_download keeps_upsert_kernel keeps_persist_elf by (blast dest: keepsSD)+
  have downloads: "find_download j a' = (if j = i
      then Some (download_row spec (spec_integrity spec) i (uint (sp_expected_size spec)) (uint (sp_expected_size spec)))
      else find_download j a)" for j
    using find_download_upsert [OF _ run1, of j] ok upsert_kernel_Inr(2) [OF run2] persist_elf_frame [OF run3]
    by (simp add: find_download_def artifacts_ok_def spec_integrity_def)
  have kernels: "find_kernel_row name a' = (if name = k_id kern
      then Some (kernel_row (row_id kr_registry_id kr_id (k_id kern) (ad_next_kernel a1) (ad_kernels a1)) (Some i) kern n)
      else find_kernel_row name a1)" for name
    using upsert_kernel_Inr(1) [OF run2] persist_elf_frame [OF run3] by (simp add: find_kernel_row_def)
  have same: "ad_kernels a1 = ad_kernels a" using persist_download_Inr(4) [OF run1] by simp
  show "\<exists>i. kernel_download (k_id kern) a' = Some (spec_download spec i)"
    using downloads [of i] kernels by (auto simp: kernel_download_def spec_download_def)
  have "member_relation_exists spec i a' = Inr True"
    using kernels [of "k_id kern"] kind by (auto simp: member_relation_exists_def find_kernel_row_def list_ex_iff dest: find_SomeD intro: bexI)
  then show "inspect_member spec integrity a' = Inr Complete" if "integrity \<in> {None, Some (spec_integrity spec)}"
    using inspect_spec [OF _ _ _ that] ok' downloads [of i] by (simp add: artifacts_ok_def)
  show "kernel_download name a' = kernel_download name a" if other: "name \<noteq> k_id kern"
  proof -
    have "kr_download_id k \<noteq> Some i" if "find_kernel_row name a = Some k" for k
      using that other upsert_kernel_Inr(3) [OF run2, of k i] same by (auto simp: find_kernel_row_def dest: find_SomeD)
    then show ?thesis
      using other kernels same downloads
      by (cases "find_kernel_row name a") (auto simp: kernel_download_def find_kernel_row_def split: Option.bind_splits)
  qed
qed

text \<open>The lookup of an image by the keys of its tables.\<close>

definition distribution_key :: "string \<Rightarrow> artifact_db \<Rightarrow> int option" where
  "distribution_key distribution a = map_option ds_id (find (\<lambda>s. ds_registry_id s = distribution) (ad_distributions a))"

lemma distribution_of_key:
  assumes "images_ok a"
  shows "map_option ds_registry_id (distribution_of m a) = Some distribution
    \<longleftrightarrow> distribution_key distribution a = Some (im_distribution_id m)"
proof -
  have ids: "distinct (map ds_id (ad_distributions a))" and keys: "distinct (map ds_registry_id (ad_distributions a))"
    using assms by (simp_all add: images_ok_def key_table_def)
  show ?thesis
  proof
    assume "map_option ds_registry_id (distribution_of m a) = Some distribution"
    then obtain s where "s \<in> set (ad_distributions a)" "ds_id s = im_distribution_id m" "ds_registry_id s = distribution"
      by (auto simp: distribution_of_def dest: find_SomeD)
    with find_key_distinct [OF keys] show "distribution_key distribution a = Some (im_distribution_id m)"
      by (auto simp: distribution_key_def)
  next
    assume "distribution_key distribution a = Some (im_distribution_id m)"
    then obtain s where "s \<in> set (ad_distributions a)" "ds_id s = im_distribution_id m" "ds_registry_id s = distribution"
      by (auto simp: distribution_key_def dest: find_SomeD)
    with find_key_distinct [OF ids, of s] show "map_option ds_registry_id (distribution_of m a) = Some distribution"
      by (simp add: distribution_of_def)
  qed
qed

lemma distribution_key_inj:
  assumes "images_ok a" "distribution_key d a = Some i" "distribution_key d' a = Some i"
  shows "d = d'"
  using assms by (auto simp: distribution_key_def images_ok_def key_table_def distinct_map dest!: find_SomeD dest: inj_onD)

lemma find_image_row_key:
  assumes "images_ok a"
  shows "find_image_row distribution img a = (case distribution_key distribution a of None \<Rightarrow> None
    | Some i \<Rightarrow> find (\<lambda>m. image_key m = (i, img)) (ad_images a))"
  unfolding find_image_row_def distribution_of_key [OF assms]
  by (auto simp: find_None_iff image_key_def split: option.splits intro!: arg_cong [of _ _ "\<lambda>P. find P (ad_images a)"])

abbreviation image_tables :: "artifact_db \<Rightarrow> DownloadRow list \<times> DistributionRow list \<times> DistributionImageRow list" where
  "image_tables a \<equiv> (ad_downloads a, ad_distributions a, ad_images a)"

lemma keeps_image_tables:
  "keepsS (\<lambda>a. image_tables a = t) (replace_boot_args i arguments)"
  "keepsS (\<lambda>a. image_tables a = t) (replace_capabilities i capabilities)"
  "keepsS (\<lambda>a. image_tables a = t) (replace_filesystem i filesystem)"
  "keepsS (\<lambda>a. image_tables a = t) (upsert_kernel download kern n)"
  "keepsS (\<lambda>a. image_tables a = t) (insert_distribution_kernel d k def)"
  "keepsS (\<lambda>a. image_tables a = t) (executeS (\<lambda>a. a\<lparr>ad_distribution_kernels := filter P (ad_distribution_kernels a)\<rparr>))"
  by (auto intro!: keepsSI simp: replace_boot_args_def replace_capabilities_def replace_filesystem_def upsert_kernel_def
      insert_distribution_kernel_def bindR_Inr Let_def)

lemma keeps_image_tables_references: "keepsS (\<lambda>a. image_tables a = t) (persist_kernel_references i distribution kernels)"
  unfolding persist_kernel_references_def link_kernel_def ensure_kernel_reference_def
  by (auto intro!: keepsS_intros keeps_image_tables)

lemma upsert_distribution_Inr:
  assumes ok: "images_ok a" and run: "upsert_distribution distribution a = Inr (i, a')"
  shows "distribution_key name a' = (if name = d_id distribution then Some i else distribution_key name a)"
    and "distribution_key (d_id distribution) a = Some i \<or> distribution_key (d_id distribution) a = None \<and> (\<forall>m \<in> set (ad_images a). im_distribution_id m \<noteq> i)"
    and "ad_downloads a' = ad_downloads a" "ad_images a' = ad_images a"
proof -
  have table: "key_table ds_id ds_registry_id (ad_next_distribution a) (ad_distributions a)"
    using ok by (simp add: images_ok_def)
  let ?row = "distribution_row distribution (uint (dr_min_memory_mb (d_requirements distribution)))
      (row_id ds_registry_id ds_id (d_id distribution) (ad_next_distribution a) (ad_distributions a))"
  from run have a': "a' = a\<lparr>ad_distributions := upsert ds_registry_id ?row (ad_distributions a),
      ad_next_distribution := advance_id ds_registry_id (d_id distribution) (ad_next_distribution a) (ad_distributions a)\<rparr>"
    and i: "i = row_id ds_registry_id ds_id (d_id distribution) (ad_next_distribution a) (ad_distributions a)"
    by (auto simp: upsert_distribution_def bindS_Inr stmt_simps to_sqlite_Inr split: if_splits)
  show "distribution_key name a' = (if name = d_id distribution then Some i else distribution_key name a)"
    by (simp add: distribution_key_def a' find_upsert i)
  show "ad_downloads a' = ad_downloads a" "ad_images a' = ad_images a" by (simp_all add: a')
  show "distribution_key (d_id distribution) a = Some i
    \<or> distribution_key (d_id distribution) a = None \<and> (\<forall>m \<in> set (ad_images a). im_distribution_id m \<noteq> i)"
  proof (cases "find (\<lambda>s. ds_registry_id s = d_id distribution) (ad_distributions a)")
    case None
    then have "i = ad_next_distribution a" by (simp add: i row_id_def)
    with ok None show ?thesis by (fastforce simp: distribution_key_def images_ok_def refers_def key_table_def)
  next
    case (Some s)
    then show ?thesis by (simp add: distribution_key_def i row_id_def)
  qed
qed

lemma upsert_image_Inr:
  assumes "upsert_image distribution_id download_id img n a = Inr (i, a')"
  shows "find (\<lambda>m. image_key m = k) (ad_images a') = (if k = (distribution_id, di_id img)
      then Some (image_row distribution_id download_id img n i) else find (\<lambda>m. image_key m = k) (ad_images a))"
    and "ad_downloads a' = ad_downloads a" "ad_distributions a' = ad_distributions a"
    and "m \<in> set (ad_images a) \<Longrightarrow> image_key m \<noteq> (distribution_id, di_id img) \<Longrightarrow> im_download_id m \<noteq> download_id"
  using assms by (auto simp: upsert_image_def stmt_simps find_upsert split: if_splits)

text \<open>The tables after an image was persisted: the keys of the distributions, the rows of the images and the
  downloads.\<close>

lemma persist_image_transaction_effect:
  assumes ok: "artifacts_ok a"
    and run: "persist_distribution_image_transaction now distribution img kernels spec (spec_integrity spec) a = Inr (u, a')"
  obtains i j n l where "\<And>d. distribution_key d a' = (if d = d_id distribution then Some i else distribution_key d a)"
    "distribution_key (d_id distribution) a = Some i
      \<or> distribution_key (d_id distribution) a = None \<and> (\<forall>m \<in> set (ad_images a). im_distribution_id m \<noteq> i)"
    "\<And>k. find (\<lambda>m. image_key m = k) (ad_images a') = (if k = (i, di_id img)
      then Some (image_row i j img n l) else find (\<lambda>m. image_key m = k) (ad_images a))"
    "\<And>x. find_download x a' = (if x = j
      then Some (download_row spec (spec_integrity spec) j (uint (sp_expected_size spec)) (uint (sp_expected_size spec)))
      else find_download x a)"
    "\<And>m. m \<in> set (ad_images a) \<Longrightarrow> image_key m \<noteq> (i, di_id img) \<Longrightarrow> im_download_id m \<noteq> j"
proof -
  from run obtain i a1 a2 a3 j a4 n l a5 a6 where run1: "upsert_distribution distribution a = Inr (i, a1)"
    and boot: "replace_boot_args i (bc_kernel_args (d_boot distribution)) a1 = Inr ((), a2)"
    and refs: "persist_kernel_references i distribution kernels a2 = Inr ((), a3)"
    and run2: "persist_download now spec (spec_integrity spec) a3 = Inr (j, a4)"
    and run3: "upsert_image i j img n a4 = Inr (l, a5)"
    and fs: "replace_filesystem l (di_filesystem img) a5 = Inr ((), a6)"
    and caps: "replace_capabilities l (di_capabilities img) a6 = Inr ((), a')"
    by (auto simp: persist_distribution_image_transaction_def bindS_Inr)
  have ok1: "artifacts_ok a1" using keeps_upsert_distribution [THEN keepsSD, OF ok run1] .
  have ok3: "artifacts_ok a3"
    using keeps_persist_transactions(3) [THEN keepsSD, OF keeps_texts(1) [THEN keepsSD, OF ok1 boot] refs] .
  have t3: "image_tables a3 = image_tables a1"
    using keepsSD [OF keeps_image_tables(1) _ boot] keepsSD [OF keeps_image_tables_references _ refs] by simp
  have t': "image_tables a' = image_tables a5"
    using keepsSD [OF keeps_image_tables(3) _ fs] keepsSD [OF keeps_image_tables(2) _ caps] by simp
  have t4: "ad_distributions a4 = ad_distributions a3" "ad_images a4 = ad_images a3"
    using persist_download_Inr(4) [OF run2] by simp_all
  have images: "images_ok a" "downloads_ok a3" using ok ok3 by (simp_all add: artifacts_ok_def)
  note distribution = upsert_distribution_Inr [OF images(1) run1] and image = upsert_image_Inr [OF run3]
  show thesis
  proof (rule that [of i j n l])
    show "distribution_key d a' = (if d = d_id distribution then Some i else distribution_key d a)" for d
      using distribution(1) [of d] t' t3 t4 image(3) by (simp add: distribution_key_def)
    show "find_download x a' = (if x = j
      then Some (download_row spec (spec_integrity spec) j (uint (sp_expected_size spec)) (uint (sp_expected_size spec)))
      else find_download x a)" for x
      using find_download_upsert [OF images(2) run2, of x] t' t3 image(2) distribution(3)
      by (simp add: find_download_def spec_integrity_def)
  qed (use image t' t3 t4 distribution in simp_all)
qed

lemma persist_image_transaction_resolves:
  assumes ok: "artifacts_ok a"
    and run: "persist_distribution_image_transaction now distribution img kernels spec (spec_integrity spec) a = Inr (u, a')"
  shows "\<exists>i. image_download (d_id distribution) (di_id img) a' = Some (spec_download spec i)"
    and "sp_artifact_kind spec = DistributionImageKind \<Longrightarrow> sp_artifact_id spec = d_id distribution \<Longrightarrow>
      sp_member_name spec = Some (di_id img) \<Longrightarrow> integrity \<in> {None, Some (spec_integrity spec)} \<Longrightarrow>
      inspect_member spec integrity a' = Inr Complete"
    and "(d, m) \<noteq> (d_id distribution, di_id img) \<Longrightarrow> image_download d m a' = image_download d m a"
proof -
  obtain i j n l
    where key: "\<And>d. distribution_key d a' = (if d = d_id distribution then Some i else distribution_key d a)"
    and fresh: "distribution_key (d_id distribution) a = Some i
      \<or> distribution_key (d_id distribution) a = None \<and> (\<forall>m \<in> set (ad_images a). im_distribution_id m \<noteq> i)"
    and rows: "\<And>k. find (\<lambda>m. image_key m = k) (ad_images a') = (if k = (i, di_id img)
      then Some (image_row i j img n l) else find (\<lambda>m. image_key m = k) (ad_images a))"
    and downloads: "\<And>x. find_download x a' = (if x = j
      then Some (download_row spec (spec_integrity spec) j (uint (sp_expected_size spec)) (uint (sp_expected_size spec)))
      else find_download x a)"
    and free: "\<And>m. m \<in> set (ad_images a) \<Longrightarrow> image_key m \<noteq> (i, di_id img) \<Longrightarrow> im_download_id m \<noteq> j"
    by (rule persist_image_transaction_effect [OF ok run]) (rule that; assumption)
  have ok': "artifacts_ok a'" using keeps_persist_transactions(4) [THEN keepsSD, OF ok run] .
  have images: "images_ok a" "images_ok a'" "downloads_ok a'" using ok ok' by (simp_all add: artifacts_ok_def)
  have found: "find_image_row (d_id distribution) (di_id img) a' = Some (image_row i j img n l)"
    using key rows by (simp add: find_image_row_key [OF images(2)])
  show "\<exists>i. image_download (d_id distribution) (di_id img) a' = Some (spec_download spec i)"
    using found downloads [of j] by (auto simp: image_download_def spec_download_def)
  show "inspect_member spec integrity a' = Inr Complete" if "sp_artifact_kind spec = DistributionImageKind"
    "sp_artifact_id spec = d_id distribution" "sp_member_name spec = Some (di_id img)" "integrity \<in> {None, Some (spec_integrity spec)}"
  proof (rule inspect_spec [OF images(3) _ _ that(4)])
    show "member_relation_exists spec j a' = Inr True"
      using found that find_SomeD [OF found [unfolded find_image_row_def]]
      by (auto simp: member_relation_exists_def member_name_def list_ex_iff image_row_def intro!: bexI [of _ "image_row i j img n l"])
  qed (use downloads [of j] in simp)
  show "image_download d m a' = image_download d m a"
    if other: "(d, m) \<noteq> (d_id distribution, di_id img)"
  proof -
    have keys: "x \<noteq> i" if "distribution_key d a = Some x" "d \<noteq> d_id distribution" for x
    proof
      assume "x = i"
      with that have "distribution_key d a' = Some i" "distribution_key (d_id distribution) a' = Some i" by (simp_all add: key)
      then show False using distribution_key_inj [OF images(2)] that(2) by blast
    qed
    have "find_image_row d m a' = find_image_row d m a"
    proof (cases "d = d_id distribution")
      case True
      have "find (\<lambda>x. image_key x = (i, m)) (ad_images a) = None" if "\<forall>m \<in> set (ad_images a). im_distribution_id m \<noteq> i"
        using that by (auto simp: find_None_iff image_key_def)
      with True other fresh show ?thesis
        by (auto simp: find_image_row_key [OF images(1)] find_image_row_key [OF images(2)] key rows)
    next
      case False
      with keys show ?thesis
        by (auto simp: find_image_row_key [OF images(1)] find_image_row_key [OF images(2)] key rows split: option.splits)
    qed
    moreover have "im_download_id x \<noteq> j" if "find_image_row d m a = Some x" for x
    proof (rule free)
      show "x \<in> set (ad_images a)" using that by (auto simp: find_image_row_def dest: find_SomeD)
      show "image_key x \<noteq> (i, di_id img)"
        using that other keys fresh by (auto simp: find_image_row_key [OF images(1)] split: option.splits dest: find_SomeD)
    qed
    ultimately show ?thesis
      using downloads by (cases "find_image_row d m a") (auto simp: image_download_def)
  qed
qed

section \<open>What the removals leave\<close>

lemma find_filter: "find P (filter Q xs) = find (\<lambda>x. Q x \<and> P x) xs"
  by (induction xs) auto

lemma find_filter_key: "find (\<lambda>r. f r = j) (filter (\<lambda>r. f r \<noteq> i) xs) = (if j = i then None else find (\<lambda>r. f r = j) xs)"
  by (induction xs) auto

lemma map_filter_cong: "(\<And>x. x \<in> set xs \<Longrightarrow> f x = g x) \<Longrightarrow> List.map_filter f xs = List.map_filter g xs"
  by (induction xs) (auto simp: List.map_filter_simps split: option.splits)

lemma find_download_None: "find_download i a = None \<longleftrightarrow> i \<notin> download_ids a"
  by (auto simp: find_download_def find_None_iff)

lemma delete_downloads_Inr:
  assumes "delete_downloads (\<lambda>d. dl_id d = i) a = Inr (u, a')"
  shows "find_download j a' = (if j = i then None else find_download j a)"
    and "ad_kernels a' = ad_kernels a" "ad_files a' = ad_files a" "ad_packages a' = ad_packages a"
    and "ad_images a' = ad_images a" "ad_distributions a' = ad_distributions a"
    and "find_download i a \<noteq> None \<Longrightarrow> k \<in> set (ad_kernels a) \<Longrightarrow> kr_download_id k \<noteq> Some i"
    and "find_download i a \<noteq> None \<Longrightarrow> f \<in> set (ad_files a) \<Longrightarrow> bi_download_id f \<noteq> i"
    and "find_download i a \<noteq> None \<Longrightarrow> m \<in> set (ad_images a) \<Longrightarrow> im_download_id m \<noteq> i"
  using assms
  by (auto simp: delete_downloads_def find_download_def stmt_simps find_filter_key find_None_iff split: if_splits option.splits)

lemma member_downloads:
  assumes "artifacts_ok a"
  shows "k \<in> set (ad_kernels a) \<Longrightarrow> kr_download_id k = Some i \<Longrightarrow> find_download i a \<noteq> None"
    and "f \<in> set (ad_files a) \<Longrightarrow> find_download (bi_download_id f) a \<noteq> None"
    and "m \<in> set (ad_images a) \<Longrightarrow> find_download (im_download_id m) a \<noteq> None"
  using assms
  unfolding artifacts_ok_def kernels_ok_def binaries_ok_def images_ok_def refers_def find_download_None by blast+

lemma join_binaries_cong:
  assumes "ad_files a' = ad_files a" "ad_packages a' = ad_packages a"
    and "\<And>f. f \<in> set (ad_files a) \<Longrightarrow> find_download (bi_download_id f) a' = find_download (bi_download_id f) a"
  shows "join_binaries a' = join_binaries a"
  unfolding join_binaries_def package_of_def assms(1,2) by (rule map_filter_cong) (simp add: assms(3))

lemma find_image_rowD:
  assumes "images_ok a" "find_image_row d m a = Some r"
  shows "r \<in> set (ad_images a)" "im_registry_id r = m" "distribution_key d a = Some (im_distribution_id r)"
  using find_SomeD [OF assms(2) [unfolded find_image_row_def]] distribution_of_key [OF assms(1), of r d] by blast+

lemma find_image_row_filter:
  assumes "images_ok a" "m \<in> set (ad_images a)"
    and "a' = delete_image_row (im_id m) a"
  shows "find_image_row d x a' = (if distribution_key d a = Some (im_distribution_id m) \<and> im_registry_id m = x then None
    else find_image_row d x a)"
proof -
  have ok': "images_ok a'"
    using assms by (simp add: delete_image_row_def images_ok_def key_table_filter distinct_map_filterI refers_filter)
  have "distribution_key d a' = distribution_key d a" by (simp add: distribution_key_def assms(3) delete_image_row_def)
  moreover have "find (\<lambda>r. image_key r = k) (ad_images a') = (if k = image_key m then None else find (\<lambda>r. image_key r = k) (ad_images a))" for k
  proof -
    have "im_id r \<noteq> im_id m \<longleftrightarrow> image_key r \<noteq> image_key m" if "r \<in> set (ad_images a)" for r
      using that assms(1,2) by (auto simp: images_ok_def key_table_def distinct_map dest: inj_onD)
    then have "filter (\<lambda>r. im_id r \<noteq> im_id m) (ad_images a) = filter (\<lambda>r. image_key r \<noteq> image_key m) (ad_images a)"
      by (auto intro: filter_cong)
    then show ?thesis by (simp add: assms(3) delete_image_row_def find_filter_key)
  qed
  ultimately show ?thesis
    by (auto simp: find_image_row_key [OF ok'] find_image_row_key [OF assms(1)] image_key_def split: option.splits)
qed

text \<open>The changes of the maps by the three removals.\<close>

lemma remove_kernel_rows_maps:
  assumes ok: "artifacts_ok a" and k: "find_kernel_row name a = Some k" "kr_download_id k = Some i"
    and run: "remove_kernel_rows (kr_id k) i a = Inr (u, a')"
  shows "kernel_download n a' = (if n = name then None else kernel_download n a)"
    and "image_download d m a' = image_download d m a" "join_binaries a' = join_binaries a"
proof -
  from k(1) have k_in: "k \<in> set (ad_kernels a)" "kr_registry_id k = name" by (auto simp: find_kernel_row_def dest: find_SomeD)
  let ?a = "delete_kernel_row (kr_id k) a"
  from run have del: "delete_downloads (\<lambda>d. dl_id d = i) ?a = Inr ((), a')"
    by (auto simp: remove_kernel_rows_def bindS_Inr)
  have there: "find_download i ?a \<noteq> None"
    using member_downloads(1) [OF ok k_in(1) k(2)] by (simp add: delete_kernel_row_def find_download_def)
  note after = delete_downloads_Inr [OF del]
  note free = after(7-9) [OF there]
  have same: "find_download j a' = (if j = i then None else find_download j a)" for j
    using after(1) [of j] by (simp add: delete_kernel_row_def find_download_def)
  have "kr_id r \<noteq> kr_id k \<longleftrightarrow> kr_registry_id r \<noteq> name" if "r \<in> set (ad_kernels a)" for r
    using that ok k_in by (auto simp: artifacts_ok_def kernels_ok_def key_table_def distinct_map dest: inj_onD)
  then have "filter (\<lambda>r. kr_id r \<noteq> kr_id k) (ad_kernels a) = filter (\<lambda>r. kr_registry_id r \<noteq> name) (ad_kernels a)"
    by (auto intro: filter_cong)
  with after(2) have kernels: "find_kernel_row n a' = (if n = name then None else find_kernel_row n a)" for n
    by (simp add: find_kernel_row_def delete_kernel_row_def find_filter_key)
  have "kr_download_id r \<noteq> Some i" if "find_kernel_row n a = Some r" "n \<noteq> name" for r n
  proof -
    have r: "r \<in> set (ad_kernels a)" "kr_registry_id r = n" using that(1) by (auto simp: find_kernel_row_def dest: find_SomeD)
    with ok k_in k(2) that(2) show ?thesis by (auto simp: artifacts_ok_def kernels_ok_def)
  qed
  then show "kernel_download n a' = (if n = name then None else kernel_download n a)"
    using kernels same by (cases "find_kernel_row n a") (auto simp: kernel_download_def split: Option.bind_splits)
  have "find_image_row d m a' = find_image_row d m a"
    using after(5,6) by (simp add: find_image_row_def distribution_of_def delete_kernel_row_def)
  then show "image_download d m a' = image_download d m a"
    using same free(3) by (cases "find_image_row d m a")
      (auto simp: image_download_def find_image_row_def delete_kernel_row_def dest: find_SomeD)
  show "join_binaries a' = join_binaries a"
    by (rule join_binaries_cong) (use after(3,4) same free(2) in \<open>auto simp: delete_kernel_row_def\<close>)
qed

lemma remove_image_rows_maps:
  assumes ok: "artifacts_ok a" and row: "find_image_row dist img a = Some r"
    and run: "remove_image_rows (im_id r) (im_download_id r) a = Inr (u, a')"
  shows "image_download d m a' = (if d = dist \<and> m = img then None else image_download d m a)"
    and "kernel_download n a' = kernel_download n a" "join_binaries a' = join_binaries a"
proof -
  have images: "images_ok a" using ok by (simp add: artifacts_ok_def)
  note r = find_image_rowD [OF images row]
  let ?a = "delete_image_row (im_id r) a" and ?i = "im_download_id r"
  from run have del: "delete_downloads (\<lambda>d. dl_id d = ?i) ?a = Inr ((), a')"
    by (auto simp: remove_image_rows_def bindS_Inr)
  have there: "find_download ?i ?a \<noteq> None"
    using member_downloads(3) [OF ok r(1)] by (simp add: delete_image_row_def find_download_def)
  note after = delete_downloads_Inr [OF del]
  note free = after(7-9) [OF there]
  have same: "find_download j a' = (if j = ?i then None else find_download j a)" for j
    using after(1) [of j] by (simp add: delete_image_row_def find_download_def)
  have "find_image_row d m a' = find_image_row d m ?a" for d m
    using after(5,6) by (simp add: find_image_row_def distribution_of_def)
  moreover have "distribution_key d a = Some (im_distribution_id r) \<longleftrightarrow> d = dist" for d
    using r(3) distribution_key_inj [OF images] by blast
  ultimately have images': "find_image_row d m a' = (if d = dist \<and> m = img then None else find_image_row d m a)" for d m
    using r(2) by (auto simp: find_image_row_filter [OF images r(1) refl])
  have "im_download_id x \<noteq> ?i" if "find_image_row d m a = Some x" "\<not> (d = dist \<and> m = img)" for x d m
  proof
    assume eq: "im_download_id x = ?i"
    note x = find_image_rowD [OF images that(1)]
    with eq r(1) images have "x = r" by (auto simp: images_ok_def distinct_map dest: inj_onD)
    with that(2) x r(2) distribution_key_inj [OF images r(3), of d] show False by auto
  qed
  then show "image_download d m a' = (if d = dist \<and> m = img then None else image_download d m a)"
    using images' same by (cases "find_image_row d m a") (auto simp: image_download_def)
  have "kr_download_id k \<noteq> Some ?i" if "find_kernel_row n a = Some k" for k n
    using that free(1) by (auto simp: find_kernel_row_def delete_image_row_def dest: find_SomeD)
  then show "kernel_download n a' = kernel_download n a"
    using after(2) same by (cases "find_kernel_row n a")
      (auto simp: kernel_download_def find_kernel_row_def delete_image_row_def split: Option.bind_splits)
  show "join_binaries a' = join_binaries a"
    by (rule join_binaries_cong) (use after(3,4) same free(2) in \<open>auto simp: delete_image_row_def\<close>)
qed

lemma delete_download_maps:
  assumes "find_download i a \<noteq> None" and run: "delete_downloads (\<lambda>d. dl_id d = i) a = Inr (u, a')"
  shows "kernel_download n a' = kernel_download n a" "image_download d m a' = image_download d m a"
    and "join_binaries a' = join_binaries a"
proof -
  note after = delete_downloads_Inr [OF run]
  note free = after(7-9) [OF assms(1)]
  have "find_image_row d m a' = find_image_row d m a" "find_kernel_row n a' = find_kernel_row n a"
    using after(2,5,6) by (simp_all add: find_image_row_def distribution_of_def find_kernel_row_def)
  then show "image_download d m a' = image_download d m a" "kernel_download n a' = kernel_download n a"
    using after(1) free(1,3)
    by (cases "find_image_row d m a"; cases "find_kernel_row n a";
        auto simp: image_download_def kernel_download_def find_image_row_def find_kernel_row_def
          split: Option.bind_splits dest: find_SomeD)+
  show "join_binaries a' = join_binaries a"
    by (rule join_binaries_cong) (use after free(2) in auto)
qed

end
