(* ===== verification/Artifact_Contract.thy ===== *)
theory Artifact_Contract
  imports Artifact_Store
begin

text \<open>
  What the SDK relies on from the artifact part of the repository: a consistent store in every reachable
  database, and that a persisted artifact resolves to the file that was verified until it is removed. The
  first part is a store with one kernel, two runtime binaries and one image, produced by the repository.
\<close>

section \<open>A store with one artifact of each kind\<close>

definition demo_digest :: string where
  "demo_digest = replicate 64 CHR ''0''"

definition demo_spec :: "ArtifactKind \<Rightarrow> string \<Rightarrow> string option \<Rightarrow> string \<Rightarrow> string \<Rightarrow> DownloadSpec" where
  "demo_spec kind i member key file =
     \<lparr>sp_artifact_kind = kind, sp_artifact_id = i, sp_member_name = member, sp_artifact_key = key,
      sp_registry_path = file, sp_registry_url = [], sp_filename = file, sp_expected_size = 0,
      sp_expected_sha256 = demo_digest, sp_executable = False, sp_mode = None,
      sp_relative_path = [Normal file], sp_absolute_path = [RootDir, Normal ''h'', Normal file]\<rparr>"

definition demo_kernel :: Kernel where
  "demo_kernel =
     \<lparr>k_id = ''k'', k_name = ''k'', k_display_name = ''K'', k_version = ''1'', k_architecture = X86_64,
      k_path = ''k'', k_url = [], k_filename = ''k'', k_size_bytes = 0, k_sha256 = demo_digest, k_format = ''elf'',
      k_mime_type = [], k_elf = None, k_modified_at = []\<rparr>"

definition demo_file :: "string \<Rightarrow> BinaryFile" where
  "demo_file name =
     \<lparr>bf_name = name, bf_path = name, bf_url = [], bf_filename = name, bf_size_bytes = 0, bf_sha256 = demo_digest,
      bf_mime_type = [], bf_executable = True, bf_mode = None, bf_permissions = None, bf_format = None, bf_elf = None,
      bf_modified_at = []\<rparr>"

definition demo_package :: "string \<Rightarrow> string \<Rightarrow> BinaryPackage" where
  "demo_package i component =
     \<lparr>bp_id = i, bp_name = i, bp_display_name = i, bp_description = None, bp_version = ''1'',
      bp_architecture = X86_64, bp_files = [demo_file component]\<rparr>"

definition demo_image :: DistributionImage where
  "demo_image =
     \<lparr>di_id = ''12'', di_name = ''12'', di_display_name = ''12'', di_description = [], di_variant = [], di_path = ''img'',
      di_url = [], di_filename = ''img'', di_format = ''ext4'',
      di_filesystem = \<lparr>fs_filesystem_type = ''ext4'', fs_uuid = [], fs_block_size = 0, fs_block_count = 0,
        fs_free_blocks = 0, fs_inode_count = 0, fs_free_inodes = 0, fs_features = [''64bit'']\<rparr>,
      di_size_bytes = 0, di_sha256 = demo_digest, di_capabilities = [''ssh''], di_mime_type = [], di_modified_at = []\<rparr>"

definition demo_distribution :: Distribution where
  "demo_distribution =
     \<lparr>d_id = ''debian'', d_name = ''debian'', d_display_name = ''Debian'', d_description = [],
      d_distribution = ''debian'', d_version = ''12'', d_codename = ''bookworm'', d_architecture = X86_64,
      d_vendor = [], d_homepage = [], d_default_kernel = ''k'', d_supported_kernels = [''k''],
      d_boot = \<lparr>bc_root_device = ''/dev/vda'', bc_kernel_args = [''quiet'']\<rparr>,
      d_requirements = \<lparr>dr_min_memory_mb = 128, dr_min_vcpus = 1\<rparr>, d_images = [demo_image]\<rparr>"

abbreviation "demo_kernel_spec \<equiv> demo_spec KernelKind ''k'' None ''kernel:k'' ''k''"
abbreviation "demo_fc_spec \<equiv> demo_spec BinaryKind ''fc'' (Some ''firecracker'') ''binary:fc:firecracker'' ''firecracker''"
abbreviation "demo_fctl_spec \<equiv> demo_spec BinaryKind ''fctl'' (Some ''firectl'') ''binary:fctl:firectl'' ''firectl''"
abbreviation "demo_image_spec \<equiv> demo_spec DistributionImageKind ''debian'' (Some ''12'') ''distribution_image:debian:12'' ''img''"

definition demo_download :: "int \<Rightarrow> DownloadSpec \<Rightarrow> DownloadRow" where
  "demo_download i spec = download_row spec (spec_integrity spec) i 0 0"

definition demo_artifacts :: artifact_db where
  "demo_artifacts = empty_artifacts
     \<lparr>ad_downloads := [demo_download 1 demo_kernel_spec, demo_download 2 demo_fc_spec, demo_download 3 demo_fctl_spec,
        demo_download 4 demo_image_spec],
      ad_kernels := [kernel_row 1 (Some 1) demo_kernel 0],
      ad_packages := [package_row (demo_package ''fc'' ''firecracker'') 1, package_row (demo_package ''fctl'' ''firectl'') 2],
      ad_files := [file_row 1 2 (demo_file ''firecracker'') 0 1, file_row 2 3 (demo_file ''firectl'') 0 2],
      ad_distributions := [distribution_row demo_distribution 128 1],
      ad_boot_args := [\<lparr>tx_owner = 1, tx_position = 0, tx_text = ''quiet''\<rparr>],
      ad_images := [image_row 1 4 demo_image 0 1],
      ad_distribution_kernels := [\<lparr>dk_distribution_id = 1, dk_kernel_id = 1, dk_is_default = True\<rparr>],
      ad_filesystems := [filesystem_row 1 (di_filesystem demo_image) 0 0 0 0 0],
      ad_features := [\<lparr>tx_owner = 1, tx_position = 0, tx_text = ''64bit''\<rparr>],
      ad_capabilities := [\<lparr>tx_owner = 1, tx_position = 0, tx_text = ''ssh''\<rparr>],
      ad_next_download := 5, ad_next_kernel := 2, ad_next_package := 3, ad_next_file := 3, ad_next_distribution := 2,
      ad_next_image := 2\<rparr>"

lemma demo_digest_valid: "is_valid_sha256 demo_digest"
  by code_simp

lemmas artifact_run = bindS_def liftS_def returnS_def queryS_def executeS_def persist_kernel_transaction_def
  persist_binary_file_transaction_def persist_distribution_image_transaction_def persist_download_def upsert_kernel_def
  upsert_package_def upsert_file_def upsert_distribution_def upsert_image_def replace_boot_args_def
  replace_capabilities_def replace_filesystem_def replace_texts_def insert_text_def persist_elf_def
  persist_kernel_references_def link_kernel_def ensure_kernel_reference_def insert_distribution_kernel_def
  download_exists_def row_id_def advance_id_def unique_def constraint_def foreign_key_def upsert_def Let_def
  to_sqlite_integer_def

lemma demo_spec_parts [simp]:
  "sp_artifact_key (demo_spec kind i member key file) = key" "sp_expected_size (demo_spec kind i member key file) = 0"
  "sp_expected_sha256 (demo_spec kind i member key file) = demo_digest"
  "sp_relative_path (demo_spec kind i member key file) = [Normal file]"
  "sp_absolute_path (demo_spec kind i member key file) = [RootDir, Normal ''h'', Normal file]"
  "sp_artifact_kind (demo_spec kind i member key file) = kind" "sp_artifact_id (demo_spec kind i member key file) = i"
  "sp_member_name (demo_spec kind i member key file) = member"
  by (simp_all add: demo_spec_def)

lemma demo_download_parts [simp]:
  "dl_id (demo_download i spec) = i" "dl_artifact_key (demo_download i spec) = sp_artifact_key spec"
  "dl_relative_path (demo_download i spec) = sp_relative_path spec"
  "dl_absolute_path (demo_download i spec) = sp_absolute_path spec"
  "dl_expected_sha256 (demo_download i spec) = sp_expected_sha256 spec"
  "dl_actual_sha256 (demo_download i spec) = sp_expected_sha256 spec"
  by (simp_all add: demo_download_def download_row_def spec_integrity_def)

lemma download_row_sha:
  "dl_expected_sha256 (download_row spec integrity i e c) = sp_expected_sha256 spec"
  "dl_actual_sha256 (download_row spec integrity i e c) = fi_sha256 integrity"
  by (simp_all add: download_row_def)

lemma demo_download_fold:
  "download_row (demo_spec kind i member key file) \<lparr>fi_size_bytes = 0, fi_sha256 = demo_digest\<rparr> n 0 0
    = demo_download n (demo_spec kind i member key file)"
  by (simp add: demo_download_def spec_integrity_def)

lemma demo_member_parts [simp]:
  "k_id demo_kernel = ''k''" "k_size_bytes demo_kernel = 0" "k_elf demo_kernel = None"
  "bp_id (demo_package i component) = i" "bp_architecture (demo_package i component) = X86_64"
  "bp_version (demo_package i component) = ''1''" "bp_files (demo_package i component) = [demo_file component]"
  "bf_name (demo_file name) = name" "bf_size_bytes (demo_file name) = 0" "bf_elf (demo_file name) = None"
  "bf_executable (demo_file name) = True"
  "di_id demo_image = ''12''" "di_size_bytes demo_image = 0" "di_capabilities demo_image = [''ssh'']"
  "fs_features (di_filesystem demo_image) = [''64bit'']" "fs_block_size (di_filesystem demo_image) = 0"
  "fs_block_count (di_filesystem demo_image) = 0" "fs_free_blocks (di_filesystem demo_image) = 0"
  "fs_inode_count (di_filesystem demo_image) = 0" "fs_free_inodes (di_filesystem demo_image) = 0"
  "d_id demo_distribution = ''debian''" "bc_kernel_args (d_boot demo_distribution) = [''quiet'']"
  "d_supported_kernels demo_distribution = [''k'']" "d_default_kernel demo_distribution = ''k''"
  "dr_min_memory_mb (d_requirements demo_distribution) = 128" "dr_min_vcpus (d_requirements demo_distribution) = 1"
  by (simp_all add: demo_kernel_def demo_package_def demo_file_def demo_image_def demo_distribution_def)

lemma ds_min_vcpus_row [simp]:
  "ds_min_vcpus (distribution_row distribution m i) = int (unat (dr_min_vcpus (d_requirements distribution)))"
  by (simp add: distribution_row_def)

text \<open>The store that persisting the four artifacts, one after the other, produces.\<close>

definition demo_artifacts1 :: artifact_db where
  "demo_artifacts1 = empty_artifacts
     \<lparr>ad_downloads := [demo_download 1 demo_kernel_spec], ad_kernels := [kernel_row 1 (Some 1) demo_kernel 0],
      ad_next_download := 2, ad_next_kernel := 2\<rparr>"

definition demo_artifacts2 :: artifact_db where
  "demo_artifacts2 = demo_artifacts1
     \<lparr>ad_downloads := [demo_download 1 demo_kernel_spec, demo_download 2 demo_fc_spec],
      ad_packages := [package_row (demo_package ''fc'' ''firecracker'') 1],
      ad_files := [file_row 1 2 (demo_file ''firecracker'') 0 1],
      ad_next_download := 3, ad_next_package := 2, ad_next_file := 2\<rparr>"

definition demo_artifacts3 :: artifact_db where
  "demo_artifacts3 = demo_artifacts2
     \<lparr>ad_downloads := [demo_download 1 demo_kernel_spec, demo_download 2 demo_fc_spec, demo_download 3 demo_fctl_spec],
      ad_packages := [package_row (demo_package ''fc'' ''firecracker'') 1, package_row (demo_package ''fctl'' ''firectl'') 2],
      ad_files := [file_row 1 2 (demo_file ''firecracker'') 0 1, file_row 2 3 (demo_file ''firectl'') 0 2],
      ad_next_download := 4, ad_next_package := 3, ad_next_file := 3\<rparr>"

lemmas demo_artifact_tables = demo_artifacts_def demo_artifacts3_def demo_artifacts2_def demo_artifacts1_def empty_artifacts_def

lemma demo_persist_steps:
  "persist_kernel_transaction (Inr 1) demo_kernel demo_kernel_spec (spec_integrity demo_kernel_spec) empty_artifacts
    = Inr ((), demo_artifacts1)"
  "persist_binary_file_transaction (Inr 1) (demo_package ''fc'' ''firecracker'') (demo_file ''firecracker'') demo_fc_spec
     (spec_integrity demo_fc_spec) demo_artifacts1 = Inr ((), demo_artifacts2)"
  "persist_binary_file_transaction (Inr 1) (demo_package ''fctl'' ''firectl'') (demo_file ''firectl'') demo_fctl_spec
     (spec_integrity demo_fctl_spec) demo_artifacts2 = Inr ((), demo_artifacts3)"
  by (simp_all add: artifact_run demo_artifact_tables demo_digest_valid spec_integrity_def demo_download_fold download_row_sha)

lemma demo_persist_image:
  "persist_distribution_image_transaction (Inr 1) demo_distribution demo_image [demo_kernel] demo_image_spec
     (spec_integrity demo_image_spec) demo_artifacts3 = Inr ((), demo_artifacts)"
  by (simp add: artifact_run demo_artifact_tables demo_digest_valid spec_integrity_def demo_download_fold download_row_sha)

definition demo_store :: db where
  "demo_store = empty_db\<lparr>db_artifacts := demo_artifacts\<rparr>"

lemma on_artifacts_run: "m (db_artifacts db) = Inr (x, a) \<Longrightarrow> on_artifacts m db = (Inr x, db\<lparr>db_artifacts := a\<rparr>)"
  by (simp add: on_artifacts_def run_update_def)

lemma demo_calls:
  "persist_kernel (Inr 1) demo_kernel demo_kernel_spec (spec_integrity demo_kernel_spec) empty_db
    = (Inr (), empty_db\<lparr>db_artifacts := demo_artifacts1\<rparr>)"
  "persist_binary_file (Inr 1) (demo_package ''fc'' ''firecracker'') (demo_file ''firecracker'') demo_fc_spec
     (spec_integrity demo_fc_spec) (empty_db\<lparr>db_artifacts := demo_artifacts1\<rparr>)
    = (Inr (), empty_db\<lparr>db_artifacts := demo_artifacts2\<rparr>)"
  "persist_binary_file (Inr 1) (demo_package ''fctl'' ''firectl'') (demo_file ''firectl'') demo_fctl_spec
     (spec_integrity demo_fctl_spec) (empty_db\<lparr>db_artifacts := demo_artifacts2\<rparr>)
    = (Inr (), empty_db\<lparr>db_artifacts := demo_artifacts3\<rparr>)"
  "persist_distribution_image (Inr 1) demo_distribution demo_image [demo_kernel] demo_image_spec
     (spec_integrity demo_image_spec) (empty_db\<lparr>db_artifacts := demo_artifacts3\<rparr>) = (Inr (), demo_store)"
proof -
  have "db_artifacts empty_db = empty_artifacts" by (simp add: empty_db_def)
  then show "persist_kernel (Inr 1) demo_kernel demo_kernel_spec (spec_integrity demo_kernel_spec) empty_db
    = (Inr (), empty_db\<lparr>db_artifacts := demo_artifacts1\<rparr>)"
    unfolding persist_kernel_def by (simp add: on_artifacts_run demo_persist_steps)
qed (simp_all add: persist_binary_file_def persist_distribution_image_def on_artifacts_run demo_persist_steps
    demo_persist_image demo_store_def)

lemma demo_store_reachable: "repository_reachable demo_store"
  by (rule repository_reachable.step [OF _ repository_step.img [OF demo_calls(4)]],
      rule repository_reachable.step [OF _ repository_step.binary [OF demo_calls(3)]],
      rule repository_reachable.step [OF _ repository_step.binary [OF demo_calls(2)]],
      rule repository_reachable.step [OF _ repository_step.kernel [OF demo_calls(1)]],
      rule repository_reachable.start)

section \<open>Properties\<close>

lemma on_artifacts_Inr:
  "on_artifacts m db = (Inr x, db') \<longleftrightarrow> (\<exists>a. m (db_artifacts db) = Inr (x, a) \<and> db' = db\<lparr>db_artifacts := a\<rparr>)"
  by (auto simp: on_artifacts_def run_update_def bindR_Inr split: sum.splits prod.splits)

lemma key_download:
  assumes "downloads_ok a" "find_download i a = Some d" "dl_artifact_key d = key"
  shows "find (\<lambda>r. dl_artifact_key r = key) (ad_downloads a) = Some d"
  using find_key_distinct [of dl_artifact_key "ad_downloads a" d] assms
  by (auto simp: downloads_ok_def key_table_def find_download_def dest: find_SomeD)

text \<open>Removing the download of a member whose key is that of the spec leaves no row with the key.\<close>

lemma delete_downloads_key:
  assumes "downloads_ok a" "find_download i a = Some d" "delete_downloads (\<lambda>d. dl_id d = i) a = Inr (u, a')"
  shows "find (\<lambda>r. dl_artifact_key r = dl_artifact_key d) (ad_downloads a') = None"
proof -
  have d: "d \<in> set (ad_downloads a)" "dl_id d = i" using assms(2) by (auto simp: find_download_def dest: find_SomeD)
  have "ad_downloads a' = filter (\<lambda>r. dl_id r \<noteq> i) (ad_downloads a)"
    using assms(3) by (auto simp: delete_downloads_def stmt_simps split: if_splits)
  with d assms(1) show ?thesis
    by (auto simp: find_None_iff downloads_ok_def key_table_def distinct_map dest: inj_onD)
qed

lemma remove_kernel_member:
  assumes ok: "artifacts_ok a" and spec: "sp_artifact_kind spec = KernelKind" "sp_artifact_id spec = name"
    and d: "kernel_download name a = Some d" "dl_artifact_key d = sp_artifact_key spec"
    and run: "remove_member_transaction spec a = Inr (u, a')"
  shows "kernel_download n a' = (if n = name then None else kernel_download n a)"
    and "inspect_member spec integrity a' = Inr Missing"
proof -
  from d(1) obtain k i where k: "find_kernel_row name a = Some k" "kr_download_id k = Some i" "find_download i a = Some d"
    by (auto simp: kernel_download_def split: Option.bind_splits)
  with run spec have remove: "remove_kernel_rows (kr_id k) i a = Inr ((), a')"
    by (auto simp: remove_member_transaction_def bindS_Inr)
  show "kernel_download n a' = (if n = name then None else kernel_download n a)"
    by (rule remove_kernel_rows_maps(1) [OF ok k(1,2) remove])
  have "downloads_ok (delete_kernel_row (kr_id k) a)" "find_download i (delete_kernel_row (kr_id k) a) = Some d"
    using ok k(3) by (simp_all add: artifacts_ok_def downloads_ok_def delete_kernel_row_def find_download_def)
  from delete_downloads_key [OF this] remove d(2) show "inspect_member spec integrity a' = Inr Missing"
    by (auto simp: remove_kernel_rows_def bindS_Inr inspect_member_def)
qed

lemma remove_image_member:
  assumes ok: "artifacts_ok a" and spec: "sp_artifact_kind spec = DistributionImageKind" "sp_artifact_id spec = dist"
      "sp_member_name spec = Some img"
    and d: "image_download dist img a = Some d" "dl_artifact_key d = sp_artifact_key spec"
    and run: "remove_member_transaction spec a = Inr (u, a')"
  shows "image_download x m a' = (if x = dist \<and> m = img then None else image_download x m a)"
    and "inspect_member spec integrity a' = Inr Missing"
proof -
  from d(1) obtain r where r: "find_image_row dist img a = Some r" "find_download (im_download_id r) a = Some d"
    by (auto simp: image_download_def split: Option.bind_splits)
  with run spec have remove: "remove_image_rows (im_id r) (im_download_id r) a = Inr ((), a')"
    by (auto simp: remove_member_transaction_def bindS_Inr member_name_def)
  show "image_download x m a' = (if x = dist \<and> m = img then None else image_download x m a)"
    by (rule remove_image_rows_maps(1) [OF ok r(1) remove])
  have "downloads_ok (delete_image_row (im_id r) a)" "find_download (im_download_id r) (delete_image_row (im_id r) a) = Some d"
    using ok r(2) by (simp_all add: artifacts_ok_def downloads_ok_def delete_image_row_def find_download_def)
  from delete_downloads_key [OF this] remove d(2) show "inspect_member spec integrity a' = Inr Missing"
    by (auto simp: remove_image_rows_def bindS_Inr inspect_member_def)
qed

text \<open>(C17) A kernel whose file was verified and persisted is found by its identifier with the recorded path, size
  and digest, is reported complete whether or not its file is hashed again, and leaves every other kernel as
  it was; after a successful removal it is not found, is reported missing, and the other kernels are still as
  they were.\<close>
theorem persist_kernel_round_trip:
  assumes "repository_reachable db" and "persist_kernel now kern spec (spec_integrity spec) db = (Inr (), db1)"
    and "sp_artifact_kind spec = KernelKind" "sp_artifact_id spec = k_id kern"
    and "remove_member spec db1 = (Inr (), db2)"
  shows "resolve_kernel (k_id kern) (db_artifacts db1) = Inr (spec_artifact spec)
    \<and> inspect_member spec None (db_artifacts db1) = Inr Complete
    \<and> inspect_member spec (Some (spec_integrity spec)) (db_artifacts db1) = Inr Complete
    \<and> resolve_kernel (k_id kern) (db_artifacts db2) = Inl (NotFound ''kernel'' (k_id kern))
    \<and> inspect_member spec None (db_artifacts db2) = Inr Missing
    \<and> (\<forall>other. other \<noteq> k_id kern \<longrightarrow> resolve_kernel other (db_artifacts db1) = resolve_kernel other (db_artifacts db)
         \<and> resolve_kernel other (db_artifacts db2) = resolve_kernel other (db_artifacts db))"
proof -
  have ok: "artifacts_ok (db_artifacts db)" by (rule reachable_artifacts_ok [OF assms(1)])
  from assms(2) have run: "persist_kernel_transaction now kern spec (spec_integrity spec) (db_artifacts db) = Inr ((), db_artifacts db1)"
    by (auto simp: persist_kernel_def on_artifacts_Inr)
  from assms(5) have gone: "remove_member_transaction spec (db_artifacts db1) = Inr ((), db_artifacts db2)"
    by (auto simp: remove_member_def on_artifacts_Inr)
  note stored = persist_kernel_transaction_resolves [OF ok run assms(3,4)]
  obtain i where i: "kernel_download (k_id kern) (db_artifacts db1) = Some (spec_download spec i)" using stored(1) by blast
  have ok1: "artifacts_ok (db_artifacts db1)" using keeps_persist_transactions(1) [THEN keepsSD, OF ok run] .
  note removed = remove_kernel_member [OF ok1 assms(3,4) i spec_download(2) gone]
  show ?thesis
    using stored i removed by (simp add: resolve_downloads)
qed

theorem persist_kernel_round_trip_witness:
  "\<exists>db1 db2. persist_kernel (Inr 1) demo_kernel demo_kernel_spec (spec_integrity demo_kernel_spec) empty_db = (Inr (), db1)
    \<and> remove_member demo_kernel_spec db1 = (Inr (), db2)
    \<and> resolve_kernel ''k'' (db_artifacts db1) = Inr \<lparr>la_path = [RootDir, Normal ''h'', Normal ''k''], la_size_bytes = 0,
        la_sha256 = demo_digest\<rparr>
    \<and> resolve_kernel ''k'' (db_artifacts db2) = Inl (NotFound ''kernel'' ''k'')"
proof -
  obtain db2 where gone: "remove_member demo_kernel_spec (empty_db\<lparr>db_artifacts := demo_artifacts1\<rparr>) = (Inr (), db2)"
    by (auto simp: remove_member_def on_artifacts_Inr remove_member_transaction_def bindS_Inr find_kernel_row_def
        remove_kernel_rows_def delete_kernel_row_def delete_downloads_def foreign_key_def constraint_def demo_artifacts1_def empty_artifacts_def)
  from persist_kernel_round_trip [OF repository_reachable.start demo_calls(1) _ _ gone] gone demo_calls(1) show ?thesis
    by (auto simp: spec_artifact_def)
qed

text \<open>(C18) An image whose file was verified and persisted with its distribution is found under the identifiers of
  both with the recorded path, size and digest, is reported complete, and leaves every other image as it
  was; after a successful removal it is not found, is reported missing, and the other images are still as
  they were.\<close>
theorem persist_image_round_trip:
  assumes "repository_reachable db"
    and "persist_distribution_image now distribution img kernels spec (spec_integrity spec) db = (Inr (), db1)"
    and "sp_artifact_kind spec = DistributionImageKind" "sp_artifact_id spec = d_id distribution" "sp_member_name spec = Some (di_id img)"
    and "remove_member spec db1 = (Inr (), db2)"
  shows "resolve_distribution_image (d_id distribution) (di_id img) (db_artifacts db1) = Inr (spec_artifact spec)
    \<and> inspect_member spec None (db_artifacts db1) = Inr Complete
    \<and> inspect_member spec (Some (spec_integrity spec)) (db_artifacts db1) = Inr Complete
    \<and> resolve_distribution_image (d_id distribution) (di_id img) (db_artifacts db2) = Inl (NotFound ''distribution image'' (di_id img))
    \<and> inspect_member spec None (db_artifacts db2) = Inr Missing
    \<and> (\<forall>d m. (d, m) \<noteq> (d_id distribution, di_id img) \<longrightarrow>
         resolve_distribution_image d m (db_artifacts db1) = resolve_distribution_image d m (db_artifacts db)
         \<and> resolve_distribution_image d m (db_artifacts db2) = resolve_distribution_image d m (db_artifacts db))"
proof -
  have ok: "artifacts_ok (db_artifacts db)" by (rule reachable_artifacts_ok [OF assms(1)])
  from assms(2) have run: "persist_distribution_image_transaction now distribution img kernels spec (spec_integrity spec) (db_artifacts db)
      = Inr ((), db_artifacts db1)"
    by (auto simp: persist_distribution_image_def on_artifacts_Inr)
  from assms(6) have gone: "remove_member_transaction spec (db_artifacts db1) = Inr ((), db_artifacts db2)"
    by (auto simp: remove_member_def on_artifacts_Inr)
  note stored = persist_image_transaction_resolves [OF ok run]
  obtain i where i: "image_download (d_id distribution) (di_id img) (db_artifacts db1) = Some (spec_download spec i)" using stored(1) by blast
  have ok1: "artifacts_ok (db_artifacts db1)" using keeps_persist_transactions(4) [THEN keepsSD, OF ok run] .
  note removed = remove_image_member [OF ok1 assms(3-5) i spec_download(2) gone]
  show ?thesis
    using stored(2) [OF assms(3-5)] stored(3) i removed by (auto simp: resolve_downloads)
qed

theorem persist_image_round_trip_witness:
  "\<exists>db2. remove_member demo_image_spec demo_store = (Inr (), db2)
    \<and> resolve_distribution_image ''debian'' ''12'' (db_artifacts demo_store) = Inr \<lparr>la_path = [RootDir, Normal ''h'', Normal ''img''],
        la_size_bytes = 0, la_sha256 = demo_digest\<rparr>
    \<and> resolve_distribution_image ''debian'' ''12'' (db_artifacts db2) = Inl (NotFound ''distribution image'' ''12'')"
proof -
  have reachable: "repository_reachable (empty_db\<lparr>db_artifacts := demo_artifacts3\<rparr>)"
    by (rule repository_reachable.step [OF _ repository_step.binary [OF demo_calls(3)]],
        rule repository_reachable.step [OF _ repository_step.binary [OF demo_calls(2)]],
        rule repository_reachable.step [OF _ repository_step.kernel [OF demo_calls(1)]],
        rule repository_reachable.start)
  have "\<exists>a. remove_member_transaction demo_image_spec demo_artifacts = Inr ((), a)"
    by (auto simp: artifact_run remove_member_transaction_def find_image_row_def distribution_of_def remove_image_rows_def
        delete_image_row_def delete_downloads_def member_name_def demo_artifacts_def image_row_def kernel_row_def file_row_def
        empty_artifacts_def)
  then obtain db2 where gone: "remove_member demo_image_spec demo_store = (Inr (), db2)"
    by (auto simp: demo_store_def remove_member_def on_artifacts_Inr)
  from persist_image_round_trip [OF reachable demo_calls(4) _ _ _ gone] gone show ?thesis
    by (auto simp: spec_artifact_def)
qed

end
