(* ===== verification/Artifact_Keys.thy ===== *)
theory Artifact_Keys
  imports Artifact_Contract
begin

text \<open>
  The keys of the artifacts. The manager (src/crates/sdk/src/manager.rs, src/crates/sdk/src/manager/restore.rs) builds the download
  spec of a kernel, a binary or an image with a key that names its kind and its identifiers. The theory shows
  that the calls of the repository, when their specs have such keys, record every member under its key.
\<close>

section \<open>Members and their keys\<close>

abbreviation kernel_key :: "string \<Rightarrow> string" where
  "kernel_key n \<equiv> ''kernel:'' @ n"

abbreviation binary_key :: "string \<Rightarrow> string \<Rightarrow> string" where
  "binary_key package component \<equiv> ''binary:'' @ package @ '':'' @ component"

abbreviation distribution_image_key :: "string \<Rightarrow> string \<Rightarrow> string" where
  "distribution_image_key distribution img \<equiv> ''distribution_image:'' @ distribution @ '':'' @ img"

definition download_key :: "int \<Rightarrow> artifact_db \<Rightarrow> string option" where
  "download_key i a = map_option dl_artifact_key (find_download i a)"

definition keyed_rows :: "artifact_db \<Rightarrow> bool" where
  "keyed_rows a \<longleftrightarrow>
     (\<forall>k \<in> set (ad_kernels a). \<forall>i. kr_download_id k = Some i \<longrightarrow> download_key i a = Some (kernel_key (kr_registry_id k)))
     \<and> (\<forall>f \<in> set (ad_files a). \<forall>p \<in> set (ad_packages a). pa_id p = bi_binary_package_id f \<longrightarrow>
          download_key (bi_download_id f) a = Some (binary_key (pa_registry_id p) (bi_component_name f)))
     \<and> (\<forall>m \<in> set (ad_images a). \<forall>s \<in> set (ad_distributions a). ds_id s = im_distribution_id m \<longrightarrow>
          download_key (im_download_id m) a = Some (distribution_image_key (ds_registry_id s) (im_registry_id m)))"

definition stored_ok :: "artifact_db \<Rightarrow> bool" where
  "stored_ok a \<longleftrightarrow> artifacts_ok a \<and> keyed_rows a"

lemma stored_okD: "stored_ok a \<Longrightarrow> artifacts_ok a" "stored_ok a \<Longrightarrow> keyed_rows a"
  by (simp_all add: stored_ok_def)

lemma keyed_rowsD:
  assumes "keyed_rows a"
  shows "k \<in> set (ad_kernels a) \<Longrightarrow> kr_download_id k = Some i \<Longrightarrow> download_key i a = Some (kernel_key (kr_registry_id k))"
    and "f \<in> set (ad_files a) \<Longrightarrow> p \<in> set (ad_packages a) \<Longrightarrow> pa_id p = bi_binary_package_id f \<Longrightarrow>
      download_key (bi_download_id f) a = Some (binary_key (pa_registry_id p) (bi_component_name f))"
    and "m \<in> set (ad_images a) \<Longrightarrow> s \<in> set (ad_distributions a) \<Longrightarrow> ds_id s = im_distribution_id m \<Longrightarrow>
      download_key (im_download_id m) a = Some (distribution_image_key (ds_registry_id s) (im_registry_id m))"
  using assms unfolding keyed_rows_def by blast+

text \<open>Fewer members, with the keys they had.\<close>

lemma keyed_rows_mono:
  assumes "keyed_rows a"
    and "set (ad_kernels a') \<subseteq> set (ad_kernels a)" "set (ad_files a') \<subseteq> set (ad_files a)" "set (ad_packages a') \<subseteq> set (ad_packages a)"
      "set (ad_images a') \<subseteq> set (ad_images a)" "set (ad_distributions a') \<subseteq> set (ad_distributions a)"
    and "\<And>k i. k \<in> set (ad_kernels a') \<Longrightarrow> kr_download_id k = Some i \<Longrightarrow> download_key i a' = download_key i a"
    and "\<And>f. f \<in> set (ad_files a') \<Longrightarrow> download_key (bi_download_id f) a' = download_key (bi_download_id f) a"
    and "\<And>m. m \<in> set (ad_images a') \<Longrightarrow> download_key (im_download_id m) a' = download_key (im_download_id m) a"
  shows "keyed_rows a'"
  unfolding keyed_rows_def
proof (intro conjI ballI allI impI)
  show "download_key i a' = Some (kernel_key (kr_registry_id k))" if "k \<in> set (ad_kernels a')" "kr_download_id k = Some i" for k i
    using keyed_rowsD(1) [OF assms(1), of k i] assms(2,7) that by auto
  show "download_key (bi_download_id f) a' = Some (binary_key (pa_registry_id p) (bi_component_name f))"
    if "f \<in> set (ad_files a')" "p \<in> set (ad_packages a')" "pa_id p = bi_binary_package_id f" for f p
    using keyed_rowsD(2) [OF assms(1), of f p] assms(3,4) assms(8) [OF that(1)] that by auto
  show "download_key (im_download_id m) a' = Some (distribution_image_key (ds_registry_id s) (im_registry_id m))"
    if "m \<in> set (ad_images a')" "s \<in> set (ad_distributions a')" "ds_id s = im_distribution_id m" for m s
    using keyed_rowsD(3) [OF assms(1), of m s] assms(5,6) assms(9) [OF that(1)] that by auto
qed

abbreviation member_tables :: "artifact_db \<Rightarrow> DownloadRow list \<times> KernelRow list \<times> BinaryPackageRow list \<times> BinaryFileRow list
    \<times> DistributionRow list \<times> DistributionImageRow list" where
  "member_tables a \<equiv> (ad_downloads a, ad_kernels a, ad_packages a, ad_files a, ad_distributions a, ad_images a)"

lemma keyed_rows_same: "member_tables a' = member_tables a \<Longrightarrow> keyed_rows a \<Longrightarrow> keyed_rows a'"
  by (rule keyed_rows_mono) (simp_all add: download_key_def find_download_def)

section \<open>Statements\<close>

lemma persist_download_key:
  assumes ok: "artifacts_ok a" and run: "persist_download now spec integrity a = Inr (i, a')"
  shows "download_key i a' = Some (sp_artifact_key spec)"
    and "download_key j a \<noteq> None \<Longrightarrow> download_key j a' = download_key j a"
proof -
  have downloads: "downloads_ok a" using ok by (simp add: artifacts_ok_def)
  note found = find_download_upsert [OF downloads run]
  show "download_key i a' = Some (sp_artifact_key spec)" using found [of i] by (simp add: download_key_def)
  assume "download_key j a \<noteq> None"
  then obtain d where d: "find_download j a = Some d" by (auto simp: download_key_def)
  then have "d \<in> set (ad_downloads a)" "dl_id d = j" by (auto simp: find_download_def dest: find_SomeD)
  with row_id_fresh_or_same [of dl_id dl_artifact_key "ad_next_download a" "ad_downloads a" d "sp_artifact_key spec"] downloads
    persist_download_Inr(1) [OF run]
  have "j = i \<longleftrightarrow> dl_artifact_key d = sp_artifact_key spec" by (auto simp: downloads_ok_def)
  with found [of j] d show "download_key j a' = download_key j a" by (auto simp: download_key_def)
qed

lemma member_key_exists:
  assumes "artifacts_ok a"
  shows "k \<in> set (ad_kernels a) \<Longrightarrow> kr_download_id k = Some i \<Longrightarrow> download_key i a \<noteq> None"
    and "f \<in> set (ad_files a) \<Longrightarrow> download_key (bi_download_id f) a \<noteq> None"
    and "m \<in> set (ad_images a) \<Longrightarrow> download_key (im_download_id m) a \<noteq> None"
  using member_downloads [OF assms] by (auto simp: download_key_def)

lemma stored_persist_download: "keepsS stored_ok (persist_download now spec integrity)"
proof (rule keepsSI)
  fix a i a'
  assume ok: "stored_ok a" and run: "persist_download now spec integrity a = Inr (i, a')"
  note arts = stored_okD(1) [OF ok]
  have same: "ad_kernels a' = ad_kernels a" "ad_files a' = ad_files a" "ad_packages a' = ad_packages a"
    "ad_images a' = ad_images a" "ad_distributions a' = ad_distributions a"
    using persist_download_Inr(4) [OF run] by simp_all
  have "keyed_rows a'"
  proof (rule keyed_rows_mono [OF stored_okD(2) [OF ok]])
    show "download_key i' a' = download_key i' a" if "k \<in> set (ad_kernels a')" "kr_download_id k = Some i'" for k i'
      using persist_download_key(2) [OF arts run] member_key_exists(1) [OF arts] that same by simp
    show "download_key (bi_download_id f) a' = download_key (bi_download_id f) a" if "f \<in> set (ad_files a')" for f
      using persist_download_key(2) [OF arts run] member_key_exists(2) [OF arts] that same by simp
    show "download_key (im_download_id m) a' = download_key (im_download_id m) a" if "m \<in> set (ad_images a')" for m
      using persist_download_key(2) [OF arts run] member_key_exists(3) [OF arts] that same by simp
  qed (simp_all add: same)
  with keepsSD [OF keeps_persist_download arts run] show "stored_ok a'" by (simp add: stored_ok_def)
qed

lemma keepsS_stored:
  assumes "keepsS artifacts_ok m" and "\<And>t. keepsS (\<lambda>a. member_tables a = t) m"
  shows "keepsS stored_ok m"
  using assms keyed_rows_same unfolding keepsS_def stored_ok_def by metis

lemma keeps_member_tables:
  "keepsS (\<lambda>a. member_tables a = t) (replace_boot_args i arguments)"
  "keepsS (\<lambda>a. member_tables a = t) (replace_capabilities i capabilities)"
  "keepsS (\<lambda>a. member_tables a = t) (replace_filesystem i filesystem)"
  "keepsS (\<lambda>a. member_tables a = t) (insert_distribution_kernel d k def)"
  "keepsS (\<lambda>a. member_tables a = t) (executeS (\<lambda>a. a\<lparr>ad_distribution_kernels := filter P (ad_distribution_kernels a)\<rparr>))"
  "keepsS (\<lambda>a. member_tables a = t) (persist_elf i metadata)"
  by (auto intro!: keepsSI simp: replace_boot_args_def replace_capabilities_def replace_filesystem_def persist_elf_def
      insert_distribution_kernel_def bindR_Inr Let_def split: option.splits)

lemmas stored_details = keepsS_stored [OF keeps_texts(1) keeps_member_tables(1)] keepsS_stored [OF keeps_texts(2) keeps_member_tables(2)]
  keepsS_stored [OF keeps_replace_filesystem keeps_member_tables(3)]
  keepsS_stored [OF keeps_insert_distribution_kernel keeps_member_tables(4)]
  keepsS_stored [OF keeps_delete_links keeps_member_tables(5)] keepsS_stored [OF keeps_persist_elf keeps_member_tables(6)]

lemma stored_delete_downloads: "keepsS stored_ok (delete_downloads gone)"
proof (rule keepsSI)
  fix a u a'
  assume ok: "stored_ok a" and run: "delete_downloads gone a = Inr (u, a')"
  let ?ids = "dl_id ` {d \<in> set (ad_downloads a). gone d}"
  have free: "\<forall>k \<in> set (ad_kernels a). \<forall>i. kr_download_id k = Some i \<longrightarrow> i \<notin> ?ids"
    "\<forall>f \<in> set (ad_files a). bi_download_id f \<notin> ?ids" "\<forall>m \<in> set (ad_images a). im_download_id m \<notin> ?ids"
    and a': "ad_downloads a' = filter (\<lambda>r. \<not> gone r) (ad_downloads a)" "ad_kernels a' = ad_kernels a" "ad_files a' = ad_files a"
      "ad_packages a' = ad_packages a" "ad_images a' = ad_images a" "ad_distributions a' = ad_distributions a"
    using run by (auto simp: delete_downloads_def stmt_simps split: if_splits option.splits)
  have key: "download_key i a' = download_key i a" if "i \<notin> ?ids" for i
  proof -
    have "find (\<lambda>r. dl_id r = i) (filter (\<lambda>r. \<not> gone r) (ad_downloads a)) = find (\<lambda>r. dl_id r = i) (ad_downloads a)"
      unfolding find_filter by (rule find_cong_set) (use that in auto)
    then show ?thesis by (simp add: download_key_def find_download_def a')
  qed
  have "keyed_rows a'"
    by (rule keyed_rows_mono [OF stored_okD(2) [OF ok]]) (use free a' in \<open>simp_all add: key del: image_iff\<close>)
  with keepsSD [OF keeps_delete_downloads stored_okD(1) [OF ok] run] show "stored_ok a'" by (simp add: stored_ok_def)
qed

lemma stored_delete_members:
  "keepsS stored_ok (executeS (delete_kernel_row i))" "keepsS stored_ok (executeS (delete_image_row i))"
  "keepsS stored_ok (executeS (\<lambda>a. a\<lparr>ad_files := filter P (ad_files a)\<rparr>))"
proof -
  have keyed: "keyed_rows a \<Longrightarrow> keyed_rows (delete_kernel_row i a)" "keyed_rows a \<Longrightarrow> keyed_rows (delete_image_row i a)"
    "keyed_rows a \<Longrightarrow> keyed_rows (a\<lparr>ad_files := filter P (ad_files a)\<rparr>)" for a
    by (erule keyed_rows_mono; auto simp: delete_kernel_row_def delete_image_row_def download_key_def find_download_def)+
  show "keepsS stored_ok (executeS (delete_kernel_row i))" "keepsS stored_ok (executeS (delete_image_row i))"
    "keepsS stored_ok (executeS (\<lambda>a. a\<lparr>ad_files := filter P (ad_files a)\<rparr>))"
    using keeps_delete_kernel [of i] keeps_delete_image [of i] keeps_delete_file [of P] keyed
    by (auto simp: keepsS_def stored_ok_def)
qed

text \<open>An upsert of a member needs a download with its key.\<close>

lemma stored_upsert_kernel:
  assumes ok: "stored_ok a" and run: "upsert_kernel download kern n a = Inr (u, a')"
    and key: "\<And>d. download = Some d \<Longrightarrow> download_key d a = Some (kernel_key (k_id kern))"
  shows "stored_ok a'"
proof -
  have a': "ad_kernels a' = upsert kr_registry_id (kernel_row (row_id kr_registry_id kr_id (k_id kern) (ad_next_kernel a) (ad_kernels a)) download kern n) (ad_kernels a)"
    "ad_downloads a' = ad_downloads a" "ad_packages a' = ad_packages a" "ad_files a' = ad_files a"
    "ad_distributions a' = ad_distributions a" "ad_images a' = ad_images a"
    using run by (auto simp: upsert_kernel_def stmt_simps split: if_splits option.splits)
  have same: "download_key j a' = download_key j a" for j by (simp add: download_key_def find_download_def a')
  have "keyed_rows a'"
    using stored_okD(2) [OF ok] key unfolding keyed_rows_def same a'(3-6) by (auto simp: a'(1) in_upsert)
  with keepsSD [OF keeps_upsert_kernel stored_okD(1) [OF ok] run] show ?thesis by (simp add: stored_ok_def)
qed

lemma stored_ensure_kernel_reference: "keepsS stored_ok (ensure_kernel_reference kern)"
proof (rule keepsSI)
  fix a u a'
  assume ok: "stored_ok a" and run: "ensure_kernel_reference kern a = Inr (u, a')"
  let ?download = "case find (\<lambda>r. kr_registry_id r = k_id kern) (ad_kernels a) of None \<Rightarrow> None | Some r \<Rightarrow> kr_download_id r"
  from run obtain n where up: "upsert_kernel ?download kern n a = Inr (u, a')"
    by (auto simp: ensure_kernel_reference_def bindS_Inr)
  have "download_key d a = Some (kernel_key (k_id kern))" if "?download = Some d" for d
    using that keyed_rowsD(1) [OF stored_okD(2) [OF ok]] by (auto split: option.splits dest!: find_SomeD)
  with stored_upsert_kernel [OF ok up] show "stored_ok a'" by blast
qed

lemma stored_link_kernel: "keepsS stored_ok (link_kernel i kern def)"
  unfolding link_kernel_def by (intro keepsS_intros stored_ensure_kernel_reference stored_details)

lemma stored_references: "keepsS stored_ok (persist_kernel_references i distribution kernels)"
  unfolding persist_kernel_references_def by (auto intro!: keepsS_intros stored_details stored_link_kernel)

lemma upsert_package_Inr:
  assumes ok: "stored_ok a" and run: "upsert_package package a = Inr (i, a')"
  shows "stored_ok a'" and "\<And>p. p \<in> set (ad_packages a') \<Longrightarrow> pa_id p = i \<Longrightarrow> pa_registry_id p = bp_id package"
proof -
  have arts: "artifacts_ok a" by (rule stored_okD(1) [OF ok])
  have table: "key_table pa_id pa_registry_id (ad_next_package a) (ad_packages a)"
    and refs: "refers bi_binary_package_id (ad_files a) (pa_id ` set (ad_packages a))"
    using arts by (simp_all add: artifacts_ok_def binaries_ok_def)
  let ?row = "package_row package i"
  from run have i: "i = row_id pa_registry_id pa_id (bp_id package) (ad_next_package a) (ad_packages a)"
    and a': "a' = a\<lparr>ad_packages := upsert pa_registry_id ?row (ad_packages a),
      ad_next_package := advance_id pa_registry_id (bp_id package) (ad_next_package a) (ad_packages a)\<rparr>"
    by (auto simp: upsert_package_def Let_def)
  note fresh = row_id_fresh_or_same [OF table, of _ "bp_id package", folded i]
  show "pa_registry_id p = bp_id package" if "p \<in> set (ad_packages a')" "pa_id p = i" for p
  proof (cases "p = ?row")
    case False
    with that show ?thesis using fresh [of p] by (simp add: a' in_upsert)
  qed simp
  have same: "download_key j a' = download_key j a" for j by (simp add: download_key_def find_download_def a')
  have files: "download_key (bi_download_id f) a = Some (binary_key (pa_registry_id p) (bi_component_name f))"
    if f: "f \<in> set (ad_files a)" and p: "p \<in> set (upsert pa_registry_id ?row (ad_packages a))" "pa_id p = bi_binary_package_id f" for f p
  proof -
    from f refs obtain q where q: "q \<in> set (ad_packages a)" "pa_id q = bi_binary_package_id f" by (auto simp: refers_def)
    have "pa_registry_id p = pa_registry_id q"
    proof (cases "p = ?row")
      case True
      with p(2) q fresh [OF q(1)] show ?thesis by simp
    next
      case False
      with p have "p \<in> set (ad_packages a)" by (simp add: in_upsert)
      with p(2) q table show ?thesis by (metis distinct_map inj_on_def key_table_def)
    qed
    with keyed_rowsD(2) [OF stored_okD(2) [OF ok] f q] show ?thesis by simp
  qed
  have "keyed_rows a'"
    using stored_okD(2) [OF ok] files unfolding keyed_rows_def same by (auto simp: a')
  with keepsSD [OF keeps_upsert_package arts run] show "stored_ok a'" by (simp add: stored_ok_def)
qed

lemma upsert_distribution_stored:
  assumes ok: "stored_ok a" and run: "upsert_distribution distribution a = Inr (i, a')"
  shows "stored_ok a'" and "\<And>s. s \<in> set (ad_distributions a') \<Longrightarrow> ds_id s = i \<Longrightarrow> ds_registry_id s = d_id distribution"
proof -
  have arts: "artifacts_ok a" by (rule stored_okD(1) [OF ok])
  have table: "key_table ds_id ds_registry_id (ad_next_distribution a) (ad_distributions a)"
    and refs: "refers im_distribution_id (ad_images a) (ds_id ` set (ad_distributions a))"
    using arts by (simp_all add: artifacts_ok_def images_ok_def)
  let ?row = "distribution_row distribution (uint (dr_min_memory_mb (d_requirements distribution))) i"
  from run have i: "i = row_id ds_registry_id ds_id (d_id distribution) (ad_next_distribution a) (ad_distributions a)"
    and a': "a' = a\<lparr>ad_distributions := upsert ds_registry_id ?row (ad_distributions a),
      ad_next_distribution := advance_id ds_registry_id (d_id distribution) (ad_next_distribution a) (ad_distributions a)\<rparr>"
    by (auto simp: upsert_distribution_def bindS_Inr stmt_simps to_sqlite_Inr split: if_splits)
  note fresh = row_id_fresh_or_same [OF table, of _ "d_id distribution", folded i]
  show "ds_registry_id s = d_id distribution" if "s \<in> set (ad_distributions a')" "ds_id s = i" for s
  proof (cases "s = ?row")
    case False
    with that show ?thesis using fresh [of s] by (simp add: a' in_upsert)
  qed simp
  have same: "download_key j a' = download_key j a" for j by (simp add: download_key_def find_download_def a')
  have images: "download_key (im_download_id m) a = Some (distribution_image_key (ds_registry_id s) (im_registry_id m))"
    if m: "m \<in> set (ad_images a)" and s: "s \<in> set (upsert ds_registry_id ?row (ad_distributions a))" "ds_id s = im_distribution_id m" for m s
  proof -
    from m refs obtain q where q: "q \<in> set (ad_distributions a)" "ds_id q = im_distribution_id m" by (auto simp: refers_def)
    have "ds_registry_id s = ds_registry_id q"
    proof (cases "s = ?row")
      case True
      with s(2) q fresh [OF q(1)] show ?thesis by simp
    next
      case False
      with s have "s \<in> set (ad_distributions a)" by (simp add: in_upsert)
      with s(2) q table show ?thesis by (metis distinct_map inj_on_def key_table_def)
    qed
    with keyed_rowsD(3) [OF stored_okD(2) [OF ok] m q] show ?thesis by simp
  qed
  have "keyed_rows a'"
    using stored_okD(2) [OF ok] images unfolding keyed_rows_def same by (auto simp: a')
  with keepsSD [OF keeps_upsert_distribution arts run] show "stored_ok a'" by (simp add: stored_ok_def)
qed

lemma stored_upsert_file:
  assumes ok: "stored_ok a" and run: "upsert_file package_id download_id file n a = Inr (u, a')"
    and package: "\<And>p. p \<in> set (ad_packages a) \<Longrightarrow> pa_id p = package_id \<Longrightarrow> pa_registry_id p = package"
    and key: "download_key download_id a = Some (binary_key package (bf_name file))"
  shows "stored_ok a'"
proof -
  let ?row = "file_row package_id download_id file n
    (row_id file_key bi_id (package_id, bf_name file) (ad_next_file a) (ad_files a))"
  have a': "ad_files a' = upsert file_key ?row (ad_files a)"
    "ad_downloads a' = ad_downloads a" "ad_kernels a' = ad_kernels a" "ad_packages a' = ad_packages a"
    "ad_distributions a' = ad_distributions a" "ad_images a' = ad_images a"
    using run by (auto simp: upsert_file_def stmt_simps split: if_splits)
  have same: "download_key j a' = download_key j a" for j by (simp add: download_key_def find_download_def a')
  have row: "bi_component_name ?row = bf_name file" by (simp add: file_row_def)
  have "keyed_rows a'"
    using stored_okD(2) [OF ok] key package row unfolding keyed_rows_def same a'(3-6) by (auto simp: a'(1) in_upsert)
  with keepsSD [OF keeps_upsert_file stored_okD(1) [OF ok] run] show ?thesis by (simp add: stored_ok_def)
qed

lemma stored_upsert_image:
  assumes ok: "stored_ok a" and run: "upsert_image distribution_id download_id img n a = Inr (i, a')"
    and distribution: "\<And>s. s \<in> set (ad_distributions a) \<Longrightarrow> ds_id s = distribution_id \<Longrightarrow> ds_registry_id s = distribution"
    and key: "download_key download_id a = Some (distribution_image_key distribution (di_id img))"
  shows "stored_ok a'"
proof -
  let ?row = "image_row distribution_id download_id img n
    (row_id image_key im_id (distribution_id, di_id img) (ad_next_image a) (ad_images a))"
  have a': "ad_images a' = upsert image_key ?row (ad_images a)"
    "ad_downloads a' = ad_downloads a" "ad_kernels a' = ad_kernels a" "ad_packages a' = ad_packages a"
    "ad_distributions a' = ad_distributions a" "ad_files a' = ad_files a"
    using run by (auto simp: upsert_image_def stmt_simps split: if_splits)
  have same: "download_key j a' = download_key j a" for j by (simp add: download_key_def find_download_def a')
  have row: "im_registry_id ?row = di_id img" by (simp add: image_row_def)
  have "keyed_rows a'"
    using stored_okD(2) [OF ok] key distribution row unfolding keyed_rows_def same a'(3-6) by (auto simp: a'(1) in_upsert)
  with keepsSD [OF keeps_upsert_image stored_okD(1) [OF ok] run] show ?thesis by (simp add: stored_ok_def)
qed

section \<open>Transactions\<close>

lemma stored_persist_kernel:
  assumes ok: "stored_ok a" and run: "persist_kernel_transaction now kern spec integrity a = Inr (u, a')"
    and key: "sp_artifact_key spec = kernel_key (k_id kern)"
  shows "stored_ok a'"
proof -
  from run obtain i a1 n a2 where run1: "persist_download now spec integrity a = Inr (i, a1)"
    and run2: "upsert_kernel (Some i) kern n a1 = Inr ((), a2)" and run3: "persist_elf i (k_elf kern) a2 = Inr ((), a')"
    by (auto simp: persist_kernel_transaction_def bindS_Inr)
  have ok1: "stored_ok a1" by (rule keepsSD [OF stored_persist_download ok run1])
  have "stored_ok a2"
    by (rule stored_upsert_kernel [OF ok1 run2]) (use persist_download_key(1) [OF stored_okD(1) [OF ok] run1] key in simp)
  from keepsSD [OF stored_details(6) this run3] show ?thesis .
qed

lemma stored_restored_kernel:
  assumes ok: "stored_ok a" and run: "restored_kernel_transaction now kern spec integrity distribution a = Inr (u, a')"
    and key: "sp_artifact_key spec = kernel_key (k_id kern)"
  shows "stored_ok a'"
proof -
  have link: "keepsS stored_ok (insert_or_ignore_distribution_kernel d k)" for d k
    using stored_details(4) [of d k True] by (auto simp: insert_or_ignore_distribution_kernel_def keepsS_def split: if_splits)
  let ?tail = "bindS (queryS (find_kernel_row (k_id kern))) (\<lambda>found.
     bindS (liftS (ok_or found (Sqlite ''Query returned no rows''))) (\<lambda>kernel_row.
     bindS (queryS (\<lambda>a. find (\<lambda>d. ds_registry_id d = distribution) (ad_distributions a))) (\<lambda>row.
     case row of None \<Rightarrow> returnS () | Some d \<Rightarrow> insert_or_ignore_distribution_kernel (ds_id d) (kr_id kernel_row))))"
  have "keepsS stored_ok ?tail" by (auto intro!: keepsS_intros link split: option.splits)
  moreover from run obtain a1 where kern: "persist_kernel_transaction now kern spec integrity a = Inr ((), a1)"
    and "?tail a1 = Inr (u, a')"
    unfolding restored_kernel_transaction_def bindS_Inr [of "persist_kernel_transaction now kern spec integrity"] by auto
  ultimately show ?thesis
    using stored_persist_kernel [OF ok kern key] unfolding keepsS_def by blast
qed

lemma stored_persist_binary:
  assumes ok: "stored_ok a" and run: "persist_binary_file_transaction now package file spec integrity a = Inr (u, a')"
    and key: "sp_artifact_key spec = binary_key (bp_id package) (bf_name file)"
  shows "stored_ok a'"
proof -
  from run obtain p a1 i a2 n a3 where run1: "upsert_package package a = Inr (p, a1)"
    and run2: "persist_download now spec integrity a1 = Inr (i, a2)"
    and run3: "upsert_file p i file n a2 = Inr ((), a3)" and run4: "persist_elf i (bf_elf file) a3 = Inr ((), a')"
    by (auto simp: persist_binary_file_transaction_def bindS_Inr)
  note package = upsert_package_Inr [OF ok run1]
  have ok2: "stored_ok a2" by (rule keepsSD [OF stored_persist_download package(1) run2])
  have "ad_packages a2 = ad_packages a1" using persist_download_Inr(4) [OF run2] by simp
  with package(2) persist_download_key(1) [OF stored_okD(1) [OF package(1)] run2] key
  have "stored_ok a3" by (intro stored_upsert_file [OF ok2 run3, of "bp_id package"]) simp_all
  from keepsSD [OF stored_details(6) this run4] show ?thesis .
qed

lemma stored_persist_image:
  assumes ok: "stored_ok a"
    and run: "persist_distribution_image_transaction now distribution img kernels spec integrity a = Inr (u, a')"
    and key: "sp_artifact_key spec = distribution_image_key (d_id distribution) (di_id img)"
  shows "stored_ok a'"
proof -
  from run obtain i a1 a2 a3 j a4 n l a5 a6 where run1: "upsert_distribution distribution a = Inr (i, a1)"
    and boot: "replace_boot_args i (bc_kernel_args (d_boot distribution)) a1 = Inr ((), a2)"
    and refs: "persist_kernel_references i distribution kernels a2 = Inr ((), a3)"
    and run2: "persist_download now spec integrity a3 = Inr (j, a4)"
    and run3: "upsert_image i j img n a4 = Inr (l, a5)"
    and fs: "replace_filesystem l (di_filesystem img) a5 = Inr ((), a6)"
    and caps: "replace_capabilities l (di_capabilities img) a6 = Inr ((), a')"
    by (auto simp: persist_distribution_image_transaction_def bindS_Inr)
  note distribution = upsert_distribution_stored [OF ok run1]
  have ok3: "stored_ok a3"
    by (rule keepsSD [OF stored_references keepsSD [OF stored_details(1) distribution(1) boot] refs])
  have "ad_distributions a3 = ad_distributions a1"
    using keepsSD [OF keeps_image_tables(1) _ boot] keepsSD [OF keeps_image_tables_references _ refs] by simp
  then have same: "ad_distributions a4 = ad_distributions a1" using persist_download_Inr(4) [OF run2] by simp
  have ok4: "stored_ok a4" by (rule keepsSD [OF stored_persist_download ok3 run2])
  have "stored_ok a5"
    by (rule stored_upsert_image [OF ok4 run3, of "d_id distribution"])
      (use distribution(2) same persist_download_key(1) [OF stored_okD(1) [OF ok3] run2] key in simp_all)
  from keepsSD [OF stored_details(2) keepsSD [OF stored_details(3) this fs] caps] show ?thesis .
qed

lemma stored_remove_rows:
  "keepsS stored_ok (remove_kernel_rows i d)" "keepsS stored_ok (remove_image_rows i d)"
  unfolding remove_kernel_rows_def remove_image_rows_def
  by (intro keepsS_intros stored_delete_members stored_delete_downloads)+

lemma stored_remove_member: "keepsS stored_ok (remove_member_transaction spec)"
  unfolding remove_member_transaction_def Let_def
  by (auto intro!: keepsS_intros stored_delete_members stored_delete_downloads stored_remove_rows split: ArtifactKind.splits option.splits)

lemma on_artifacts_stored:
  assumes "\<And>x a. m (db_artifacts db) = Inr (x, a) \<Longrightarrow> stored_ok a"
    and "stored_ok (db_artifacts db)" "on_artifacts m db = (r, db')"
  shows "stored_ok (db_artifacts db')"
  using assms by (auto simp: on_artifacts_def run_update_def bindR_Inr split: sum.splits prod.splits)

lemma removing_stored:
  "keepsS stored_ok m \<Longrightarrow> stored_ok (db_artifacts db) \<Longrightarrow> removing m db = (r, db') \<Longrightarrow> stored_ok (db_artifacts db')"
  unfolding removing_def by (rule on_artifacts_stored) (auto dest: keepsSD intro: keepsSD [OF keepsS_bind] keepsS_simple simp: bindS_Inr)

lemma removals_stored:
  assumes "stored_ok (db_artifacts db)"
  shows "remove_member spec db = (r, db') \<Longrightarrow> stored_ok (db_artifacts db')"
    "delete_kernel_if_unreferenced kernel_id db = (rb, db') \<Longrightarrow> stored_ok (db_artifacts db')"
    "delete_image_if_unreferenced distribution_id image_id db = (rb, db') \<Longrightarrow> stored_ok (db_artifacts db')"
    "delete_orphan_download_if_unreferenced artifact_key db = (rb, db') \<Longrightarrow> stored_ok (db_artifacts db')"
  using assms
  by (auto simp: remove_member_def delete_kernel_if_unreferenced_def delete_image_if_unreferenced_def delete_orphan_download_if_unreferenced_def
      elim!: on_artifacts_stored [rotated 2] dest: keepsSD [OF stored_remove_member]
      elim: removing_stored [OF stored_remove_rows(1)] removing_stored [OF stored_remove_rows(2)] removing_stored [OF stored_delete_downloads]
      split: if_splits option.splits prod.splits)

section \<open>Inventories of the SDK\<close>

text \<open>
  The databases that the SDK produces: any sequence of repository calls in which the specs have the keys that the
  manager gives them. A call of the repository that is not listed leaves the artifact tables as they are.
\<close>

inductive keyed_reachable :: "db \<Rightarrow> bool" where
  start: "keyed_reachable empty_db"
| kernel: "keyed_reachable db \<Longrightarrow> sp_artifact_key spec = kernel_key (k_id kern) \<Longrightarrow>
    persist_kernel now kern spec integrity db = (r, db') \<Longrightarrow> keyed_reachable db'"
| binary: "keyed_reachable db \<Longrightarrow> sp_artifact_key spec = binary_key (bp_id package) (bf_name file) \<Longrightarrow>
    persist_binary_file now package file spec integrity db = (r, db') \<Longrightarrow> keyed_reachable db'"
| img: "keyed_reachable db \<Longrightarrow> sp_artifact_key spec = distribution_image_key (d_id distribution) (di_id img) \<Longrightarrow>
    persist_distribution_image now distribution img kernels spec integrity db = (r, db') \<Longrightarrow> keyed_reachable db'"
| restored: "keyed_reachable db \<Longrightarrow> sp_artifact_key (rc_kernel_spec commit) = kernel_key (k_id (rc_kernel commit)) \<Longrightarrow>
    commit_restored_microvm now commit db = (ri, db') \<Longrightarrow> keyed_reachable db'"
| remove_member: "keyed_reachable db \<Longrightarrow> remove_member spec db = (r, db') \<Longrightarrow> keyed_reachable db'"
| delete_kernel: "keyed_reachable db \<Longrightarrow> delete_kernel_if_unreferenced kernel_id db = (rb, db') \<Longrightarrow> keyed_reachable db'"
| delete_image: "keyed_reachable db \<Longrightarrow> delete_image_if_unreferenced distribution_id image_id db = (rb, db') \<Longrightarrow> keyed_reachable db'"
| delete_orphan: "keyed_reachable db \<Longrightarrow> delete_orphan_download_if_unreferenced artifact_key db = (rb, db') \<Longrightarrow> keyed_reachable db'"
| other: "keyed_reachable db \<Longrightarrow> repository_step db db' \<Longrightarrow> db_artifacts db' = db_artifacts db \<Longrightarrow> keyed_reachable db'"

lemma keyed_reachable_repository: "keyed_reachable db \<Longrightarrow> repository_reachable db"
  by (induction rule: keyed_reachable.induct)
    (auto intro: repository_reachable.intros repository_step.intros)

lemma keyed_reachable_stored: "keyed_reachable db \<Longrightarrow> stored_ok (db_artifacts db)"
proof (induction rule: keyed_reachable.induct)
  case start
  have "keyed_rows empty_artifacts" by (simp add: keyed_rows_def empty_artifacts_def)
  then show ?case by (simp add: stored_ok_def empty_db_def empty_artifacts_ok)
next
  case (kernel db spec kern now integrity r db')
  from on_artifacts_stored [OF _ kernel.IH kernel.hyps(3) [unfolded persist_kernel_def]] stored_persist_kernel [OF kernel.IH _ kernel.hyps(2)]
  show ?case by blast
next
  case (binary db spec package bf now integrity r db')
  from on_artifacts_stored [OF _ binary.IH binary.hyps(3) [unfolded persist_binary_file_def]] stored_persist_binary [OF binary.IH _ binary.hyps(2)]
  show ?case by blast
next
  case (img db spec distribution img now kernels integrity r db')
  from on_artifacts_stored [OF _ img.IH img.hyps(3) [unfolded persist_distribution_image_def]] stored_persist_image [OF img.IH _ img.hyps(2)]
  show ?case by blast
next
  case (restored db commit now ri db')
  then consider "db' = db" | i where "commit_restored_transaction now commit db = Inr (i, db')"
    by (auto simp: commit_restored_microvm_def run_update_cases)
  then show ?case
  proof cases
    case 2
    then show ?thesis
      by (rule commit_restored_artifacts) (use stored_restored_kernel [OF restored.IH _ restored.hyps(2)] in blast)
  qed (use restored.IH in simp)
qed (auto intro: removals_stored)

lemma demo_keyed_reachable: "keyed_reachable demo_store"
proof -
  have 1: "keyed_reachable (empty_db\<lparr>db_artifacts := demo_artifacts1\<rparr>)"
    by (rule keyed_reachable.kernel [OF keyed_reachable.start _ demo_calls(1)]) simp
  have 2: "keyed_reachable (empty_db\<lparr>db_artifacts := demo_artifacts2\<rparr>)"
    by (rule keyed_reachable.binary [OF 1 _ demo_calls(2)]) simp
  have 3: "keyed_reachable (empty_db\<lparr>db_artifacts := demo_artifacts3\<rparr>)"
    by (rule keyed_reachable.binary [OF 2 _ demo_calls(3)]) simp
  show ?thesis by (rule keyed_reachable.img [OF 3 _ demo_calls(4)]) simp
qed

end
