(* ===== verification/Inventory_Contract.thy ===== *)
theory Inventory_Contract
  imports Artifact_Contract Path_Text
begin

text \<open>
  The contract between the SDK and the inventory. The abstract state of the inventory is a map
  from VM names to stored VMs; the locale \<open>vm_store\<close> states what each operation of the
  \<open>MicroVmRepository\<close> port does to it and proves the two sequences the SDK builds from them (a
  creation, and the rollback of one). The SQLite model is an interpretation.
\<close>

section \<open>The abstract inventory\<close>

type_synonym inventory = "string \<Rightarrow> StoredMicroVm option"

definition new_vm :: "MicroVmRecord \<Rightarrow> int \<Rightarrow> StoredMicroVm" where
  "new_vm rec i = \<lparr>st_record = rec\<lparr>vm_id := i\<rparr>, st_network = None, st_credential = None,
     st_runtime = None\<rparr>"

definition change_vm :: "int \<Rightarrow> (StoredMicroVm \<Rightarrow> StoredMicroVm) \<Rightarrow> inventory \<Rightarrow> inventory" where
  "change_vm i f m = (\<lambda>name. map_option (\<lambda>s. if vm_id (st_record s) = i then f s else s) (m name))"

definition remove_vm :: "int \<Rightarrow> inventory \<Rightarrow> inventory" where
  "remove_vm i m = (\<lambda>name. Option.bind (m name) (\<lambda>s. if vm_id (st_record s) = i then None else Some s))"

definition set_resources :: "u64 \<Rightarrow> u64 \<Rightarrow> u64 \<Rightarrow> u32 \<Rightarrow> StoredMicroVm \<Rightarrow> StoredMicroVm" where
  "set_resources disk memory mib vcpus s = s\<lparr>st_record := (st_record s)\<lparr>vm_disk_size_bytes := disk,
     vm_memory_bytes := memory, vm_memory_effective_mib := mib, vm_vcpu_count := vcpus\<rparr>\<rparr>"

section \<open>The SQLite statements on the abstract inventory\<close>

text \<open>A database whose VM rows are those of another one up to their values.\<close>

lemma view_change:
  assumes ok: "inventory_ok db"
    and rows: "db_microvms db' = map g (db_microvms db)" "\<And>r. mr_name (g r) = mr_name r"
    and val: "\<And>r. r \<in> set (db_microvms db) \<Longrightarrow>
      stored_of db' (g r) = (if mr_id r = i then f (stored_of db r) else stored_of db r)"
  shows "view db' = change_vm i f (view db)"
proof
  fix name
  have "find (\<lambda>r. mr_name r = name) (db_microvms db') = map_option g (find (\<lambda>r. mr_name r = name) (db_microvms db))"
    unfolding rows(1) by (rule find_key_map) (rule rows(2))
  with ok show "view db' name = change_vm i f (view db) name"
    by (cases "find (\<lambda>r. mr_name r = name) (db_microvms db)")
      (auto simp: view_def change_vm_def val stored_from_row_ok(2) dest!: find_SomeD)
qed

lemma view_change_same:
  assumes "inventory_ok db" "db_microvms db' = db_microvms db"
    and "\<And>r. r \<in> set (db_microvms db) \<Longrightarrow>
      stored_of db' r = (if mr_id r = i then f (stored_of db r) else stored_of db r)"
  shows "view db' = change_vm i f (view db)"
  by (rule view_change [where g = "\<lambda>r. r"]) (use assms in simp_all)

lemma load_row_upsert:
  "load_row (\<lambda>r. key r = j) f (upsert key row rows) =
     (if j = key row then bindR (f row) (\<lambda>x. Inr (Some x)) else load_row (\<lambda>r. key r = j) f rows)"
  by (simp add: load_row_def find_upsert)

lemma load_network_record_cong:
  assumes "find (\<lambda>r. nw_microvm_id r = j) (db_networks db') = find (\<lambda>r. nw_microvm_id r = j) (db_networks db)"
    and "filter (\<lambda>r. rs_microvm_id r = j) (db_resources db') = filter (\<lambda>r. rs_microvm_id r = j) (db_resources db)"
    and "\<And>r. r \<in> set (db_networks db) \<Longrightarrow> nw_microvm_id r = j \<Longrightarrow>
      bridge_name_of db' (nw_bridge_id r) = bridge_name_of db (nw_bridge_id r)"
  shows "load_network_record db' j = load_network_record db j"
  using assms
  by (auto simp: load_network_record_def load_row_def network_from_row_def Let_def dest!: find_SomeD
      split: option.splits)

lemma load_network_record_same:
  assumes "db_networks db' = db_networks db" "db_resources db' = db_resources db" "db_bridges db' = db_bridges db"
  shows "load_network_record db' = load_network_record db"
  by (rule ext, rule load_network_record_cong) (simp_all add: assms bridge_name_of_def split: option.split)

lemma load_credential_record_same:
  "db_credentials db' = db_credentials db \<Longrightarrow> load_credential_record db' = load_credential_record db"
  by (simp add: fun_eq_iff load_credential_record_def)

lemma load_runtime_record_same:
  "db_runtimes db' = db_runtimes db \<Longrightarrow> load_runtime_record db' = load_runtime_record db"
  by (simp add: fun_eq_iff load_runtime_record_def)

lemmas load_same = load_network_record_same load_credential_record_same load_runtime_record_same

lemma persist_credential_view:
  assumes ok: "inventory_ok db" and stmt: "persist_credential_stmt i c db = Inr (u, db')"
  shows "view db' = change_vm i (\<lambda>s. s\<lparr>st_credential := Some c\<rparr>) (view db)"
proof -
  from stmt have db': "db' = db\<lparr>db_credentials := upsert cd_microvm_id (credential_row i c) (db_credentials db)\<rparr>"
    by (auto simp: persist_credential_stmt_def Let_def bindR_Inr)
  have "load_credential_record db' j = (if j = i then Inr (Some c) else load_credential_record db j)" for j
    by (simp add: load_credential_record_def db' load_row_upsert credential_from_row_def) 
      (simp add: credential_row_def)
  moreover have "load_network_record db' = load_network_record db"
    "load_runtime_record db' = load_runtime_record db"
    by (rule load_same; simp add: db')+
  ultimately show ?thesis
    by (intro view_change_same [OF ok]) (simp add: db', simp add: stored_of_def)
qed

lemma persist_runtime_view:
  assumes ok: "inventory_ok db" and stmt: "persist_runtime_stmt now i c db = Inr (u, db')"
  shows "view db' = change_vm i (\<lambda>s. s\<lparr>st_runtime := Some c\<rparr>) (view db)"
proof -
  from stmt have db': "db' = db\<lparr>db_runtimes := upsert rr_microvm_id (runtime_row i c) (db_runtimes db)\<rparr>"
    by (auto simp: persist_runtime_stmt_def bindR_Inr)
  have "runtime_from_row (runtime_row i c) = Inr c"
    by (cases "rt_process_id c") (auto simp: runtime_from_row_def runtime_row_def)
  then have "load_runtime_record db' j = (if j = i then Inr (Some c) else load_runtime_record db j)" for j
    by (simp add: load_runtime_record_def db' load_row_upsert) (simp add: runtime_row_def)
  moreover have "load_network_record db' = load_network_record db"
    "load_credential_record db' = load_credential_record db"
    by (rule load_same; simp add: db')+
  ultimately show ?thesis
    by (intro view_change_same [OF ok]) (simp add: db', simp add: stored_of_def)
qed

lemma update_microvm_resources_view:
  assumes ok: "inventory_ok db"
    and stmt: "update_microvm_resources_stmt now i disk memory mib vcpus db = Inr (u, db')"
  shows "view db' = change_vm i (set_resources disk memory mib vcpus) (view db)"
proof -
  let ?g = "\<lambda>r. if mr_id r = i
         then r\<lparr>mr_disk_size_bytes := uint disk, mr_memory_requested_bytes := uint memory,
                mr_memory_effective_mib := uint mib, mr_vcpu_count := uint vcpus\<rparr> else r"
  from stmt have db': "db' = db\<lparr>db_microvms := map ?g (db_microvms db)\<rparr>"
    and pos: "stored_u64 (uint disk)" "stored_u64 (uint memory)" "stored_u64 (uint mib)"
    by (auto simp: update_microvm_resources_stmt_def bindR_Inr to_sqlite_integer_Inr stored_u64_def split: if_splits)
  have loads: "load_network_record db' = load_network_record db" "load_credential_record db' = load_credential_record db"
    "load_runtime_record db' = load_runtime_record db"
    by (rule load_same; simp add: db')+
  show ?thesis
  proof (rule view_change [OF ok, of _ ?g])
    fix r assume r: "r \<in> set (db_microvms db)"
    from microvm_rows_ok [OF ok r] have "stored_u64 (mr_disk_size_bytes r)" "stored_u64 (mr_memory_requested_bytes r)"
      "stored_u64 (mr_memory_effective_mib r)" "0 \<le> mr_vcpu_count r" "mr_vcpu_count r < 2 ^ 32"
      by (auto simp: microvm_row_ok_def)
    then show "stored_of db' (?g r) = (if mr_id r = i then set_resources disk memory mib vcpus (stored_of db r) else stored_of db r)"
      using pos
      by (auto simp: stored_of_def loads set_resources_def record_from_row_def from_sqlite_integer_ok try_word_def [of "mr_vcpu_count r"])
  qed (simp_all add: db')
qed

lemma from_sqlite_integer_uint [simp]: "from_sqlite_integer (uint v) c = Inr v"
  using uint_bounded [of v] by (simp add: from_sqlite_integer_def)

lemma record_row_round_trip:
  assumes "microvm_row rec i = Inr row"
  shows "record_from_row row = Inr (rec\<lparr>vm_id := i\<rparr>)"
proof -
  from assms obtain a b c where
    "to_sqlite_integer (vm_disk_size_bytes rec) ''VM disk size'' = Inr a"
    "to_sqlite_integer (vm_memory_bytes rec) ''VM memory'' = Inr b"
    "to_sqlite_integer (vm_memory_effective_mib rec) ''VM effective memory'' = Inr c"
    by (auto simp: microvm_row_def bindR_Inr)
  then have "a = uint (vm_disk_size_bytes rec)" "b = uint (vm_memory_bytes rec)"
    "c = uint (vm_memory_effective_mib rec)" by (simp_all add: to_sqlite_integer_Inr)
  with assms \<open>_ = Inr a\<close> \<open>_ = Inr b\<close> \<open>_ = Inr c\<close> show ?thesis
    by (cases rec) (auto simp: microvm_row_def record_from_row_def)
qed

lemma insert_microvm_view:
  assumes ok: "inventory_ok db" and stmt: "insert_microvm_stmt rec db = Inr (i, db')"
  shows "view db' = (view db)(vm_name rec \<mapsto> new_vm rec i)" and "view db (vm_name rec) = None"
    and "\<And>name s. view db name = Some s \<Longrightarrow> vm_id (st_record s) \<noteq> i"
proof -
  from stmt obtain row where row: "microvm_row rec (db_next_vm db) = Inr row"
    and fresh: "check_microvm_row row db = Inr ()" and i: "i = db_next_vm db"
    and db': "db' = db\<lparr>db_microvms := db_microvms db @ [row], db_next_vm := db_next_vm db + 1\<rparr>"
    by (auto simp: insert_microvm_stmt_def bindR_Inr)
  have name: "mr_name row = vm_name rec" "mr_id row = i"
    using row by (auto simp: i microvm_row_def bindR_Inr)
  from fresh name show none: "view db (vm_name rec) = None"
    by (auto simp: view_None check_microvm_row_def Let_def bindR_Inr list_ex_iff)
  have new: "i \<notin> vm_ids db" using ok by (auto simp: i inventory_ok_def microvms_ok_def)
  then show "\<And>name s. view db name = Some s \<Longrightarrow> vm_id (st_record s) \<noteq> i"
    using ok by (auto elim!: view_SomeE)
  have loads: "load_network_record db' = load_network_record db" "load_credential_record db' = load_credential_record db"
    "load_runtime_record db' = load_runtime_record db"
    by (rule load_same; simp add: db')+
  have "load_network_record db i = Inr None" "load_credential_record db i = Inr None"
    "load_runtime_record db i = Inr None"
    using ok new
    by (auto simp: load_network_record_def load_credential_record_def load_runtime_record_def load_row_def
        inventory_ok_def networks_ok_def credentials_ok_def owned_rows_def dest!: find_SomeD split: option.splits)
  moreover have "record_from_row row = Inr (rec\<lparr>vm_id := i\<rparr>)"
    using row i by (simp add: record_row_round_trip)
  ultimately have "stored_of db' row = new_vm rec i"
    by (simp add: stored_of_def loads name new_vm_def)
  moreover have "stored_of db' = stored_of db" by (simp add: fun_eq_iff stored_of_def loads)
  ultimately show "view db' = (view db)(vm_name rec \<mapsto> new_vm rec i)"
    using none by (auto simp: fun_eq_iff view_def db' find_append name split: option.splits)
qed

text \<open>A bridge that a network of a consistent database uses keeps its name when unreferenced bridges
  are dropped.\<close>

lemma find_filter_member:
  assumes "distinct (map f xs)" "k \<in> f ` set (filter P xs)"
  shows "find (\<lambda>r. f r = k) (filter P xs) = find (\<lambda>r. f r = k) xs"
proof -
  from assms(2) obtain r where r: "r \<in> set xs" "P r" "f r = k" by auto
  then have "find (\<lambda>r. f r = k) xs = Some r" using find_key_distinct [OF assms(1), of r] by simp
  moreover have "find (\<lambda>r. f r = k) (filter P xs) = Some r"
    using find_key_distinct [OF distinct_map_filterI [OF assms(1)], of r P] r by simp
  ultimately show ?thesis by simp
qed

lemma filter_other_key: "j \<noteq> i \<Longrightarrow> filter (\<lambda>r. key r \<noteq> i \<and> key r = j) xs = filter (\<lambda>r. key r = j) xs"
  by (induction xs) auto

lemma find_other_key: "j \<noteq> i \<Longrightarrow> find (\<lambda>r. key r = j) (filter (\<lambda>r. key r \<noteq> i) xs) = find (\<lambda>r. key r = j) xs"
  by (induction xs) auto

lemma used_bridge_name:
  assumes ok: "inventory_ok db'" and n: "n \<in> set (db_networks db')"
    and bridges: "db_bridges db' = filter keep (db_bridges (recount_bridges db2))"
    and distinct: "distinct (map br_id (db_bridges db2))"
  shows "bridge_name_of db' (nw_bridge_id n) = bridge_name_of db2 (nw_bridge_id n)"
proof (cases "nw_bridge_id n")
  case (Some b)
  with ok n have "b \<in> br_id ` set (filter keep (db_bridges (recount_bridges db2)))"
    by (auto simp: inventory_ok_def networks_ok_def bridges)
  moreover have "distinct (map br_id (db_bridges (recount_bridges db2)))"
    using distinct by (simp add: recount_bridges_def comp_def)
  ultimately have "find (\<lambda>r. br_id r = b) (db_bridges db') = find (\<lambda>r. br_id r = b) (db_bridges (recount_bridges db2))"
    by (simp only: bridges find_filter_member)
  with Some show ?thesis by (simp add: bridge_name_of_def recount_bridges_find)
qed (simp add: bridge_name_of_def)

lemma adds_bridges_name:
  "adds_bridges db db1 \<Longrightarrow> bridge_name_of db b \<noteq> None \<Longrightarrow> bridge_name_of db1 b = bridge_name_of db b"
  by (auto simp: adds_bridges_def bridge_name_of_def find_append split: option.splits)

lemma known_bridge_name:
  assumes "inventory_ok db" "n \<in> set (db_networks db)" "nw_bridge_id n = Some b"
  shows "bridge_name_of db (Some b) \<noteq> None"
proof -
  from assms have "b \<in> br_id ` set (db_bridges db)" by (auto simp: inventory_ok_def networks_ok_def)
  then show ?thesis by (auto simp: bridge_name_of_def find_None_iff)
qed

lemma network_row_round_trip:
  assumes "bridge_name_of db bridge = nc_bridge_name (pn_config network)"
    and "filter (\<lambda>r. rs_microvm_id r = i) (db_resources db) = map (resource_row i) (pn_resources network)"
  shows "network_from_row db (network_row i bridge network) = Inr network"
proof -
  have "mapR resource_from_row (map (resource_row i) (pn_resources network)) = Inr (pn_resources network)"
    unfolding mapR_map by (subst mapR_all_Inr [where g = "\<lambda>r. r"]) (simp_all add: resource_from_row_def resource_row_def)
  with assms show ?thesis
    by (cases network, cases "pn_config network") (simp add: network_from_row_def network_row_def Let_def)
qed

lemma persist_network_view:
  assumes ok: "inventory_ok db" and stmt: "persist_network_transaction now i network db = Inr (u, db')"
  shows "view db' = change_vm i (\<lambda>s. s\<lparr>st_network := Some network\<rparr>) (view db)"
  using stmt
proof (rule persist_network_transactionE)
  fix bridge and db1 :: db and keep
  let ?row = "network_row i bridge network"
  let ?db2 = "db1\<lparr>db_networks := upsert nw_microvm_id ?row (db_networks db1),
    db_resources := filter (\<lambda>r. rs_microvm_id r \<noteq> i) (db_resources db1) @ map (resource_row i) (pn_resources network)\<rparr>"
  assume bridge: "bridge_for_network now network db = Inr (bridge, db1)"
    and "db' = (let db2 = recount_bridges ?db2 in db2\<lparr>db_bridges := filter keep (db_bridges db2)\<rparr>)"
  then have db': "db' = (recount_bridges ?db2)\<lparr>db_bridges := filter keep (db_bridges (recount_bridges ?db2))\<rparr>"
    by (simp only: Let_def)
  have ok': "inventory_ok db'" by (rule persist_network_transaction_ok [OF ok stmt])
  note ok1 = bridge_for_network_ok [OF ok bridge]
  then obtain new k where db1: "db1 = db\<lparr>db_bridges := db_bridges db @ new, db_next_bridge := k\<rparr>"
    by (auto simp: adds_bridges_def)
  have nets: "db_networks db' = upsert nw_microvm_id ?row (db_networks db)" by (simp add: db' db1)
  have key: "nw_microvm_id ?row = i" by (simp add: network_row_def)
  have names: "bridge_name_of db' (nw_bridge_id n) = bridge_name_of db1 (nw_bridge_id n)"
    if "n \<in> set (db_networks db')" for n
  proof -
    have "bridge_name_of db' (nw_bridge_id n) = bridge_name_of ?db2 (nw_bridge_id n)"
      by (rule used_bridge_name [OF ok' that, where keep = keep])
        (use ok1 in \<open>simp_all add: db' inventory_ok_def bridges_ok_def\<close>)
    then show ?thesis by (simp add: bridge_name_of_def split: option.split)
  qed
  have "load_network_record db' j = (if j = i then Inr (Some network) else load_network_record db j)" for j
  proof (cases "j = i")
    case True
    have "bridge_name_of db' (nw_bridge_id ?row) = nc_bridge_name (pn_config network)"
      using names [of ?row] ok1 by (simp add: nets row_in_upsert) (simp add: network_row_def)
    then have "network_from_row db' ?row = Inr network"
      by (intro network_row_round_trip) (simp_all add: db' network_row_def resource_row_def)
    with True key show ?thesis by (simp add: load_network_record_def nets load_row_upsert)
  next
    case False
    have "load_network_record db' j = load_network_record db j"
    proof (rule load_network_record_cong)
      fix n assume n: "n \<in> set (db_networks db)" "nw_microvm_id n = j"
      with False key have "n \<in> set (db_networks db')" by (simp add: nets in_upsert)
      then have "bridge_name_of db' (nw_bridge_id n) = bridge_name_of db1 (nw_bridge_id n)" by (rule names)
      also have "\<dots> = bridge_name_of db (nw_bridge_id n)"
      proof (cases "nw_bridge_id n")
        case (Some b)
        then show ?thesis using adds_bridges_name known_bridge_name [OF ok n(1) Some] ok1 by simp
      qed (simp add: bridge_name_of_def)
      finally show "bridge_name_of db' (nw_bridge_id n) = bridge_name_of db (nw_bridge_id n)" .
    qed (use False key in \<open>simp_all add: nets find_upsert, simp add: db' db1 resource_row_def filter_empty_conv filter_other_key\<close>)
    with False show ?thesis by simp
  qed
  moreover have "load_credential_record db' = load_credential_record db" "load_runtime_record db' = load_runtime_record db"
    by (rule load_same; simp add: db' db1)+
  ultimately show ?thesis
    by (intro view_change_same [OF ok]) (simp add: db' db1, simp add: stored_of_def)
qed

lemma delete_microvm_view:
  assumes ok: "inventory_ok db" and stmt: "delete_microvm_stmt now i db = Inr (u, db')"
  shows "view db' = remove_vm i (view db)"
proof
  fix name
  let ?keep = "\<lambda>b. \<not> (br_reference_count b = 0 \<and> sdk_owned b)"
  from stmt have db': "db' = (recount_bridges (cascade i db))\<lparr>db_bridges := filter ?keep (db_bridges (recount_bridges (cascade i db)))\<rparr>"
    by (auto simp: delete_microvm_stmt_def Let_def bindR_Inr)
  have ok': "inventory_ok db'" by (rule delete_microvm_stmt_ok [OF ok stmt])
  have stored: "stored_of db' r = stored_of db r" if "mr_id r \<noteq> i" for r
  proof -
    have "load_network_record db' (mr_id r) = load_network_record db (mr_id r)"
    proof (rule load_network_record_cong)
      fix n assume n: "n \<in> set (db_networks db)" "nw_microvm_id n = mr_id r"
      with that have "n \<in> set (db_networks db')" by (simp add: db' cascade_def)
      then have "bridge_name_of db' (nw_bridge_id n) = bridge_name_of (cascade i db) (nw_bridge_id n)"
        by (rule used_bridge_name [OF ok', where keep = ?keep])
          (use ok in \<open>simp_all add: db' inventory_ok_def bridges_ok_def\<close>)
      then show "bridge_name_of db' (nw_bridge_id n) = bridge_name_of db (nw_bridge_id n)"
        by (simp add: bridge_name_of_def cascade_def split: option.split)
    qed (use that in \<open>simp_all add: db' cascade_def find_other_key filter_other_key\<close>)
    moreover have "load_credential_record db' (mr_id r) = load_credential_record db (mr_id r)"
      "load_runtime_record db' (mr_id r) = load_runtime_record db (mr_id r)"
      using that
      by (simp_all add: load_credential_record_def load_runtime_record_def load_row_def db' cascade_def find_other_key)
    ultimately show ?thesis by (simp add: stored_of_def)
  qed
  have rows: "db_microvms db' = filter (\<lambda>r. mr_id r \<noteq> i) (db_microvms db)" by (simp add: db' cascade_def)
  show "view db' name = remove_vm i (view db) name"
  proof (cases "find (\<lambda>r. mr_name r = name) (db_microvms db)")
    case None
    then have "name \<notin> mr_name ` set (db_microvms db')" by (auto simp: rows find_None_iff)
    with None show ?thesis by (simp add: view_def remove_vm_def find_key_None)
  next
    case (Some r)
    then have r: "r \<in> set (db_microvms db)" "mr_name r = name" by (auto dest: find_SomeD)
    have distinct: "distinct (map mr_name (db_microvms db))" using ok by (simp add: inventory_ok_def microvms_ok_def)
    show ?thesis
    proof (cases "mr_id r = i")
      case True
      with distinct r have "name \<notin> mr_name ` set (db_microvms db')" by (auto simp: rows distinct_map inj_on_def)
      with True Some r ok show ?thesis by (simp add: view_def remove_vm_def find_key_None stored_from_row_ok(2))
    next
      case False
      with r have "name \<in> mr_name ` set (db_microvms db')" by (auto simp: rows)
      with distinct have "find (\<lambda>r. mr_name r = name) (db_microvms db') = Some r"
        using Some by (simp add: rows find_filter_member)
      with False Some r ok show ?thesis by (simp add: view_def remove_vm_def stored stored_from_row_ok(2))
    qed
  qed
qed

section \<open>The contract\<close>

text \<open>
  An operation refines a change of the abstract inventory: it keeps the invariant, leaves the state as it
  is when it fails and makes exactly the abstract change when it succeeds.
\<close>

definition refines ::
  "('s \<Rightarrow> bool) \<Rightarrow> ('s \<Rightarrow> inventory) \<Rightarrow> ('s, 'a) sdk_io \<Rightarrow> (inventory \<Rightarrow> inventory) \<Rightarrow> bool" where
  "refines valid contents m f \<longleftrightarrow>
     (\<forall>s r s'. valid s \<longrightarrow> m s = (r, s') \<longrightarrow>
        valid s' \<and> (case r of Inl _ \<Rightarrow> s' = s | Inr _ \<Rightarrow> contents s' = f (contents s)))"

lemma refinesI:
  "(\<And>s r s'. valid s \<Longrightarrow> m s = (r, s') \<Longrightarrow> valid s' \<and> (case r of Inl _ \<Rightarrow> s' = s | Inr _ \<Rightarrow> contents s' = f (contents s))) \<Longrightarrow>
   refines valid contents m f"
  by (auto simp: refines_def)

lemma refines_inv: "refines valid contents m f \<Longrightarrow> valid s \<Longrightarrow> m s = (r, s') \<Longrightarrow> valid s'"
  by (auto simp: refines_def)

lemma refines_Inr: "refines valid contents m f \<Longrightarrow> valid s \<Longrightarrow> m s = (Inr x, s') \<Longrightarrow> contents s' = f (contents s)"
  by (fastforce simp: refines_def)

lemma refines_Inl: "refines valid contents m f \<Longrightarrow> valid s \<Longrightarrow> m s = (Inl e, s') \<Longrightarrow> s' = s"
  by (fastforce simp: refines_def)

locale vm_store =
  fixes valid :: "'s \<Rightarrow> bool"
    and contents :: "'s \<Rightarrow> inventory"
    and insert_vm :: "MicroVmRecord \<Rightarrow> ('s, int) sdk_io"
    and put_network :: "'c \<Rightarrow> int \<Rightarrow> PersistedNetwork \<Rightarrow> ('s, unit) sdk_io"
    and put_credential :: "int \<Rightarrow> PersistedCredential \<Rightarrow> ('s, unit) sdk_io"
    and put_runtime :: "'c \<Rightarrow> int \<Rightarrow> PersistedRuntime \<Rightarrow> ('s, unit) sdk_io"
    and put_resources :: "'c \<Rightarrow> int \<Rightarrow> u64 \<Rightarrow> u64 \<Rightarrow> u64 \<Rightarrow> u32 \<Rightarrow> ('s, unit) sdk_io"
    and delete_vm :: "'c \<Rightarrow> int \<Rightarrow> ('s, unit) sdk_io"
  assumes insert_keeps: "valid s \<Longrightarrow> insert_vm rec s = (r, s') \<Longrightarrow> valid s'"
    and insert_refused: "valid s \<Longrightarrow> insert_vm rec s = (Inl e, s') \<Longrightarrow> s' = s"
    and insert_contents: "valid s \<Longrightarrow> insert_vm rec s = (Inr i, s') \<Longrightarrow>
      contents s' = (contents s)(vm_name rec \<mapsto> new_vm rec i)"
    and insert_fresh_name: "valid s \<Longrightarrow> insert_vm rec s = (Inr i, s') \<Longrightarrow> contents s (vm_name rec) = None"
    and insert_fresh_id: "valid s \<Longrightarrow> insert_vm rec s = (Inr i, s') \<Longrightarrow> contents s name = Some v \<Longrightarrow>
      vm_id (st_record v) \<noteq> i"
    and network_refines: "refines valid contents (put_network c i n) (change_vm i (\<lambda>v. v\<lparr>st_network := Some n\<rparr>))"
    and credential_refines: "refines valid contents (put_credential i k) (change_vm i (\<lambda>v. v\<lparr>st_credential := Some k\<rparr>))"
    and runtime_refines: "refines valid contents (put_runtime c i rt) (change_vm i (\<lambda>v. v\<lparr>st_runtime := Some rt\<rparr>))"
    and resources_refines: "refines valid contents (put_resources c i disk memory mib vcpus) (change_vm i (set_resources disk memory mib vcpus))"
    and delete_refines: "refines valid contents (delete_vm c i) (remove_vm i)"
begin

lemma changed_fresh:
  assumes "\<And>name v. contents s name = Some v \<Longrightarrow> vm_id (st_record v) \<noteq> i"
  shows "change_vm i f ((contents s)(a \<mapsto> v)) = (contents s)(a \<mapsto> (if vm_id (st_record v) = i then f v else v))"
  using assms by (auto simp: change_vm_def fun_eq_iff intro!: option.map_ident_strong)

lemma removed_fresh:
  assumes "\<And>name v. contents s name = Some v \<Longrightarrow> vm_id (st_record v) \<noteq> i"
  shows "remove_vm i (contents s) = contents s"
  using assms by (auto simp: remove_vm_def fun_eq_iff bind_eq_None_conv split: bind_split)

text \<open>A creation: claim the name, then persist the three parts.\<close>

lemma creation_contents:
  assumes s: "valid s" and ins: "insert_vm rec s = (Inr i, s1)" and net: "put_network c i n s1 = (Inr (), s2)"
    and cred: "put_credential i k s2 = (Inr (), s3)" and rt: "put_runtime c' i r s3 = (Inr (), s4)"
  shows "valid s4 \<and> contents s4 = (contents s)(vm_name rec \<mapsto>
    \<lparr>st_record = rec\<lparr>vm_id := i\<rparr>, st_network = Some n, st_credential = Some k, st_runtime = Some r\<rparr>)"
proof -
  have i1: "valid s1" by (rule insert_keeps [OF s ins])
  have i2: "valid s2" by (rule refines_inv [OF network_refines i1 net])
  have i3: "valid s3" by (rule refines_inv [OF credential_refines i2 cred])
  have i4: "valid s4" by (rule refines_inv [OF runtime_refines i3 rt])
  note fresh = insert_fresh_id [OF s ins]
  show ?thesis
    using i4 refines_Inr [OF runtime_refines i3 rt] refines_Inr [OF credential_refines i2 cred]
      refines_Inr [OF network_refines i1 net] insert_contents [OF s ins]
    by (simp add: changed_fresh [OF fresh] new_vm_def)
qed

text \<open>The state differs from another one in the VM with one identifier only.\<close>

definition differs_in :: "int \<Rightarrow> 's \<Rightarrow> 's \<Rightarrow> bool" where
  "differs_in i s s' \<longleftrightarrow> valid s' \<and> remove_vm i (contents s') = remove_vm i (contents s)"

lemma remove_changed:
  assumes "\<And>v. vm_id (st_record (f v)) = vm_id (st_record v)"
  shows "remove_vm i (change_vm i f m) = remove_vm i m"
proof
  fix name
  show "remove_vm i (change_vm i f m) name = remove_vm i m name"
    by (cases "m name") (simp_all add: remove_vm_def change_vm_def assms)
qed

lemma differs_change:
  assumes ref: "refines valid contents m (change_vm i f)" and f: "\<And>v. vm_id (st_record (f v)) = vm_id (st_record v)"
    and s: "differs_in i s0 s" and run: "m s = (r, s')"
  shows "differs_in i s0 s'"
proof (cases r)
  case (Inl e)
  have "valid s" using s by (simp add: differs_in_def)
  from refines_Inl [OF ref this] run Inl s show ?thesis by simp
next
  case (Inr x)
  have "valid s" using s by (simp add: differs_in_def)
  with refines_inv [OF ref this run] refines_Inr [OF ref this] run Inr s remove_changed [of f i, OF f]
  show ?thesis by (simp add: differs_in_def)
qed

lemmas differs_puts =
  differs_change [OF network_refines] differs_change [OF credential_refines] differs_change [OF runtime_refines]

text \<open>The rollback of a creation that failed anywhere after the claim restores the inventory.\<close>

lemma rollback_contents:
  assumes s: "valid s" and ins: "insert_vm rec s = (Inr i, s1)" and net: "put_network c i n s1 = (r2, s2)"
    and cred: "put_credential i k s2 = (r3, s3)" and rt: "put_runtime c' i r s3 = (r4, s4)"
    and del: "delete_vm c'' i s4 = (Inr (), s5)"
  shows "valid s5 \<and> contents s5 = contents s"
proof -
  have i1: "valid s1" by (rule insert_keeps [OF s ins])
  then have d1: "differs_in i s1 s1" by (simp add: differs_in_def)
  have d2: "differs_in i s1 s2" by (rule differs_puts(1) [OF _ d1 net]) simp
  have d3: "differs_in i s1 s3" by (rule differs_puts(2) [OF _ d2 cred]) simp
  have "differs_in i s1 s4" by (rule differs_puts(3) [OF _ d3 rt]) simp
  then have "contents s5 = remove_vm i (contents s1)" "valid s5"
    using refines_Inr [OF delete_refines _ del] refines_inv [OF delete_refines _ del] by (simp_all add: differs_in_def)
  moreover have "remove_vm i (contents s1) = contents s"
    using insert_contents [OF s ins] insert_fresh_name [OF s ins] removed_fresh [OF insert_fresh_id [OF s ins]]
    by (auto simp: fun_eq_iff remove_vm_def new_vm_def)
  ultimately show ?thesis by simp
qed

end

lemma run_update_refines:
  assumes "\<And>db x db'. inventory_ok db \<Longrightarrow> stmt db = Inr (x, db') \<Longrightarrow> inventory_ok db'"
    and "\<And>db x db'. inventory_ok db \<Longrightarrow> stmt db = Inr (x, db') \<Longrightarrow> view db' = f (view db)"
  shows "refines inventory_ok view (run_update stmt) f"
  by (rule refinesI) (auto simp: run_update_cases dest: assms)

interpretation sqlite: vm_store inventory_ok view insert_microvm persist_network persist_credential
  persist_runtime update_microvm_resources delete_microvm
proof (unfold_locales, goal_cases)
  case (1 s rec r s')
  then show ?case by (auto simp: insert_microvm_def run_update_cases intro: insert_microvm_stmt_ok)
next
  case (2 s rec e s')
  then show ?case by (auto simp: insert_microvm_def dest: run_update_error)
next
  case (3 s rec i s')
  then show ?case by (auto simp: insert_microvm_def run_update_cases dest: insert_microvm_view(1))
next
  case (4 s rec i s')
  then show ?case by (auto simp: insert_microvm_def run_update_cases dest: insert_microvm_view(2))
next
  case (5 s rec i s' name v)
  then show ?case by (auto simp: insert_microvm_def run_update_cases dest: insert_microvm_view(3))
qed (unfold update_defs;
  (rule run_update_refines; (elim stmt_ok persist_network_view persist_credential_view persist_runtime_view
    update_microvm_resources_view delete_microvm_view; assumption)))+

section \<open>Properties of the repository\<close>

text \<open>A VM with all its parts, for the concrete instances.\<close>

definition demo_record :: MicroVmRecord where
  "demo_record = \<lparr>vm_id = 0, vm_name = ''web'', vm_distribution_id = ''debian'', vm_image_id = ''12'',
     vm_kernel_id = ''k'', vm_firecracker_package_id = ''fc'', vm_firectl_package_id = ''fctl'',
     vm_disk_size_bytes = 1073741824, vm_memory_bytes = 536870912, vm_memory_effective_mib = 512,
     vm_vcpu_count = 2, vm_volume_path = [RootDir, Normal ''h'', Normal ''v''],
     vm_rootfs_path = [RootDir, Normal ''h'', Normal ''v'', Normal ''rootfs.ext4''],
     vm_socket_path = [RootDir, Normal ''h'', Normal ''v'', Normal ''firecracker.sock''],
     vm_expose_on_lan = False, vm_created_at = 7\<rparr>"

definition demo_network :: PersistedNetwork where
  "demo_network = \<lparr>pn_config = \<lparr>nc_mode = HostOnly, nc_guest_address = V4 2, nc_prefix_length = 30,
       nc_gateway = Some (V4 1), nc_tap_name = ''tm-0'', nc_bridge_name = None, nc_uplink_name = None,
       nc_lan_address = None\<rparr>,
     pn_host_address = Some (V4 1), pn_guest_mac = ''02:fc:00:00:00:00'', pn_dhcp_lease_reference = None,
     pn_desired_boot_parameters = ''ip=dhcp'',
     pn_resources = [\<lparr>pnr_resource = Tap, pnr_identity = ''tm-0'', pnr_fingerprint = ''f'',
       pnr_ownership = ''sdk:taumaru'', pnr_adapter_handle = None, pnr_last_observed = ''present''\<rparr>],
     pn_uplink_cidr = None, pn_proxy_arp_enabled_by_sdk = False, pn_bridge_created_by_sdk = False,
     pn_uplink_attached_by_sdk = False, pn_forwarding_enabled_by_sdk = True,
     pn_nat_table_created_by_sdk = False, pn_nat_chain_created_by_sdk = False,
     pn_host_route_created_by_sdk = False, pn_proxy_arp_entry_created_by_sdk = False,
     pn_host_address_specs = [], pn_default_route_specs = []\<rparr>"

definition demo_credential :: PersistedCredential where
  "demo_credential = \<lparr>pc_private_key_path = [RootDir, Normal ''h'', Normal ''v'', Normal ''ssh'', Normal ''id_ed25519''],
     pc_public_key_path = [RootDir, Normal ''h'', Normal ''v'', Normal ''ssh'', Normal ''id_ed25519.pub''],
     pc_guest_authorized_keys_path = ''/root/.ssh/authorized_keys'', pc_key_type = ''ed25519'',
     pc_ssh_user = ''root'', pc_ssh_port = 22, pc_public_key_fingerprint = ''x'', pc_file_mode = ''0600''\<rparr>"

definition demo_runtime :: PersistedRuntime where
  "demo_runtime = \<lparr>rt_firecracker_path = [RootDir], rt_firectl_path = [RootDir],
     rt_socket_path = [RootDir, Normal ''h'', Normal ''v'', Normal ''firecracker.sock''], rt_process_id = None, rt_process_state = ''stopped''\<rparr>"

definition demo_db :: db where
  "demo_db = snd (insert_microvm demo_record demo_store)"

definition demo_network_db :: db where
  "demo_network_db = snd (persist_network (Inr 1) 1 demo_network demo_db)"

definition demo_credential_db :: db where
  "demo_credential_db = snd (persist_credential 1 demo_credential demo_network_db)"

definition demo_full_db :: db where
  "demo_full_db = snd (persist_runtime (Inr 1) 1 demo_runtime demo_credential_db)"

lemmas run_defs = run_update_def constraint_def Let_def vm_exists_def upsert_def

lemma demo_insert: "insert_microvm demo_record demo_store = (Inr 1, demo_db)"
  and demo_db: "db_microvms demo_db \<noteq> []" "vm_exists 1 demo_db" "db_networks demo_db = []"
    "db_credentials demo_db = []" "db_runtimes demo_db = []" "db_bridges demo_db = []" "db_resources demo_db = []"
    "db_artifacts demo_db = demo_artifacts"
  by (simp_all add: demo_db_def insert_microvm_def insert_microvm_stmt_def microvm_row_def
      check_microvm_row_def demo_record_def demo_store_def empty_db_def to_sqlite_integer_def run_defs)

lemma demo_put_network: "persist_network (Inr 1) 1 demo_network demo_db = (Inr (), demo_network_db)"
  and demo_network_db: "vm_exists 1 demo_network_db" "db_credentials demo_network_db = []" "db_runtimes demo_network_db = []"
  using demo_db
  by (simp_all add: demo_network_db_def persist_network_def persist_network_transaction_def
      bridge_for_network_def demo_network_def network_row_def recount_bridges_def run_defs)

lemma demo_put_credential: "persist_credential 1 demo_credential demo_network_db = (Inr (), demo_credential_db)"
  and demo_credential_db: "vm_exists 1 demo_credential_db" "db_runtimes demo_credential_db = []"
  using demo_network_db
  by (simp_all add: demo_credential_db_def persist_credential_def persist_credential_stmt_def
      demo_credential_def credential_row_def run_defs)

lemma demo_put_runtime: "persist_runtime (Inr 1) 1 demo_runtime demo_credential_db = (Inr (), demo_full_db)"
  using demo_credential_db
  by (simp add: demo_full_db_def persist_runtime_def persist_runtime_stmt_def demo_runtime_def run_defs)

lemmas demo_steps = demo_insert demo_put_network demo_put_credential demo_put_runtime

lemma persist_calls_artifacts:
  "insert_microvm rec db = (ri, db') \<Longrightarrow> db_artifacts db' = db_artifacts db"
  "persist_network now i network db = (r, db') \<Longrightarrow> db_artifacts db' = db_artifacts db"
  "persist_credential i credential db = (r, db') \<Longrightarrow> db_artifacts db' = db_artifacts db"
  "persist_runtime now i runtime db = (r, db') \<Longrightarrow> db_artifacts db' = db_artifacts db"
  by (auto simp: update_defs run_update_cases dest: microvm_calls_artifacts persist_network_artifacts)

lemma demo_full_artifacts [simp]: "db_artifacts demo_full_db = demo_artifacts"
  using demo_steps(2) [THEN persist_calls_artifacts(2)]
    demo_steps(3) [THEN persist_calls_artifacts(3)] demo_steps(4) [THEN persist_calls_artifacts(4)] demo_db
  by simp

lemma demo_reachable: "repository_reachable demo_full_db"
  by (rule repository_reachable.step [OF _ repository_step.runtime [OF demo_put_runtime]],
      rule repository_reachable.step [OF _ repository_step.credential [OF demo_put_credential]],
      rule repository_reachable.step [OF _ repository_step.network [OF demo_put_network]],
      rule repository_reachable.step [OF _ repository_step.insert [OF demo_insert]],
      rule demo_store_reachable)

lemma demo_ok: "inventory_ok demo_store" "inventory_ok demo_full_db"
  by (rule reachable_inventory_ok [OF demo_store_reachable], rule reachable_inventory_ok [OF demo_reachable])

text \<open>(C1) In every database that the writing calls of the repository (creation, update and removal of VMs and their
  parts, the commit of a restored VM, autostart policies, restore journals and artifacts) can produce from
  the empty one, whether they succeed or fail, the names, volumes, root file systems, sockets, TAPs, MAC addresses and key files of
  the VMs are unique, every dependent row belongs to a VM, every bridge a network uses exists and has its
  true reference count, and every stored number and enumeration can be read back.\<close>
theorem repository_consistent: "repository_reachable db \<Longrightarrow> inventory_ok db"
  by (rule reachable_inventory_ok)

theorem repository_consistent_witness:
  "repository_reachable demo_full_db \<and> inventory_ok demo_full_db \<and> demo_full_db \<noteq> demo_store"
proof -
  have "db_runtimes demo_full_db \<noteq> db_runtimes demo_store"
    using demo_credential_db
    by (simp add: demo_full_db_def persist_runtime_def persist_runtime_stmt_def demo_runtime_def run_defs demo_store_def empty_db_def)
  with repository_consistent [OF demo_reachable] demo_reachable show ?thesis by metis
qed

lemma list_stored_microvms_ok:
  assumes ok: "inventory_ok db"
  shows "list_stored_microvms db = Inr (map (\<lambda>name. the (view db name)) (sort (map mr_name (db_microvms db))))"
  unfolding list_stored_microvms_def
proof (rule mapR_all_Inr)
  fix name assume "name \<in> set (sort (map mr_name (db_microvms db)))"
  then obtain s where "view db name = Some s" using view_None [of db name] by auto
  with ok show "bindR (find_microvm name db)
      (\<lambda>x. ok_or x (Migration (''inventory row for '' @ name @ '' disappeared during bulk listing'')))
    = Inr (the (view db name))" by (simp add: find_microvm_view)
qed

text \<open>(C23) Reading a reachable database never fails: looking a name up and listing all VMs return values,
  and the listing has one entry per VM, in the order of the names, each equal to what the lookup of
  that name returns.\<close>
theorem repository_reads_total:
  assumes "repository_reachable db"
  shows "\<exists>vms. list_stored_microvms db = Inr vms
    \<and> map (\<lambda>s. vm_name (st_record s)) vms = sort (map mr_name (db_microvms db))
    \<and> (\<forall>name. \<exists>x. find_microvm name db = Inr x \<and> (\<forall>s. x = Some s \<longleftrightarrow> s \<in> set vms \<and> vm_name (st_record s) = name))"
proof -
  have ok: "inventory_ok db" by (rule reachable_inventory_ok [OF assms])
  let ?names = "sort (map mr_name (db_microvms db))"
  let ?vms = "map (\<lambda>name. the (view db name)) ?names"
  have present: "\<exists>s. view db name = Some s \<and> vm_name (st_record s) = name" if "name \<in> set ?names" for name
  proof -
    from that obtain s where s: "view db name = Some s" using view_None [of db name] by auto
    with ok show ?thesis by (auto elim: view_SomeE)
  qed
  have "map (\<lambda>name. vm_name (st_record (the (view db name)))) ?names = ?names"
  proof (rule map_idI)
    fix a assume "a \<in> set ?names"
    then obtain s where "view db a = Some s" "vm_name (st_record s) = a" using present by blast
    then show "vm_name (st_record (the (view db a))) = a" by simp
  qed
  then have "map (\<lambda>s. vm_name (st_record s)) ?vms = ?names" by (simp only: map_map comp_def)
  moreover have "view db name = Some s \<longleftrightarrow> s \<in> set ?vms \<and> vm_name (st_record s) = name" for name s
  proof
    assume s: "view db name = Some s"
    then have "name \<in> set ?names" using view_None [of db name] by auto
    with s present [of name] show "s \<in> set ?vms \<and> vm_name (st_record s) = name" by force
  next
    assume *: "s \<in> set ?vms \<and> vm_name (st_record s) = name"
    then obtain a where a: "a \<in> set ?names" "s = the (view db a)" by auto
    with present [of a] * show "view db name = Some s" by auto
  qed
  ultimately show ?thesis
    using list_stored_microvms_ok [OF ok] find_microvm_view [OF ok] by auto
qed

theorem repository_reads_total_witness:
  "\<exists>vms. list_stored_microvms demo_full_db = Inr vms
    \<and> map (\<lambda>s. vm_name (st_record s)) vms = sort (map mr_name (db_microvms demo_full_db))
    \<and> (\<forall>name. \<exists>x. find_microvm name demo_full_db = Inr x
        \<and> (\<forall>s. x = Some s \<longleftrightarrow> s \<in> set vms \<and> vm_name (st_record s) = name))"
  by (rule repository_reads_total [OF demo_reachable])

text \<open>(C2) Each writing statement of the SQLite repository implements one change of the abstract inventory, a
  map from names to stored VMs: persisting a network, credential, runtime or new resources replaces that part
  of the VM with the given identifier and nothing else, deleting removes that VM and no other, and a
  statement that fails leaves the database as it was.\<close>
theorem repository_refines_inventory:
  "refines inventory_ok view (persist_network now i network) (change_vm i (\<lambda>s. s\<lparr>st_network := Some network\<rparr>))
   \<and> refines inventory_ok view (persist_credential i credential) (change_vm i (\<lambda>s. s\<lparr>st_credential := Some credential\<rparr>))
   \<and> refines inventory_ok view (persist_runtime now i runtime) (change_vm i (\<lambda>s. s\<lparr>st_runtime := Some runtime\<rparr>))
   \<and> refines inventory_ok view (update_microvm_resources now i disk memory mib vcpus)
        (change_vm i (set_resources disk memory mib vcpus))
   \<and> refines inventory_ok view (delete_microvm now i) (remove_vm i)"
  by (intro conjI sqlite.network_refines sqlite.credential_refines sqlite.runtime_refines
      sqlite.resources_refines sqlite.delete_refines)

text \<open>(C24) A VM that was claimed and whose network, credential and runtime were persisted is read back by
  its name with the identifier the claim returned and the values that were bound to the statements, whose
  paths are converted by \<open>to_string_lossy\<close>. When its paths are UTF-8 it is therefore read back exactly as it
  was written. Every other name reads as before.\<close>
theorem creation_round_trip:
  assumes "inventory_ok db" and "insert_microvm (bound_record rec) db = (Inr i, db1)"
    and "persist_network now i network db1 = (Inr (), db2)"
    and "persist_credential i (bound_credential credential) db2 = (Inr (), db3)"
    and "persist_runtime now' i (bound_runtime runtime) db3 = (Inr (), db4)"
  shows "find_microvm (vm_name rec) db4 = Inr (Some \<lparr>st_record = (bound_record rec)\<lparr>vm_id := i\<rparr>,
      st_network = Some network, st_credential = Some (bound_credential credential),
      st_runtime = Some (bound_runtime runtime)\<rparr>)
    \<and> (utf8_record rec \<and> utf8_credential credential \<and> utf8_runtime runtime \<longrightarrow>
        find_microvm (vm_name rec) db4 = Inr (Some \<lparr>st_record = rec\<lparr>vm_id := i\<rparr>, st_network = Some network,
          st_credential = Some credential, st_runtime = Some runtime\<rparr>))
    \<and> (\<forall>name. name \<noteq> vm_name rec \<longrightarrow> find_microvm name db4 = find_microvm name db)"
proof -
  note made = sqlite.creation_contents [OF assms]
  then have "find_microvm (vm_name rec) db4 = Inr (Some \<lparr>st_record = (bound_record rec)\<lparr>vm_id := i\<rparr>,
      st_network = Some network, st_credential = Some (bound_credential credential),
      st_runtime = Some (bound_runtime runtime)\<rparr>)"
    by (simp add: find_microvm_view)
  moreover have "find_microvm name db4 = find_microvm name db" if "name \<noteq> vm_name rec" for name
    using made that find_microvm_view [OF assms(1)] by (simp add: find_microvm_view)
  ultimately show ?thesis by (simp add: bound_utf8)
qed

lemma demo_utf8: "utf8_record demo_record" "utf8_credential demo_credential" "utf8_runtime demo_runtime"
  by (simp_all add: utf8_record_def utf8_credential_def utf8_runtime_def utf8_path_def demo_record_def
      demo_credential_def demo_runtime_def utf8_valid_ascii is_ascii_def)

theorem creation_round_trip_witness:
  "utf8_record demo_record \<and> utf8_credential demo_credential \<and> utf8_runtime demo_runtime
    \<and> find_microvm ''web'' demo_full_db = Inr (Some \<lparr>st_record = demo_record\<lparr>vm_id := 1\<rparr>, st_network = Some demo_network,
      st_credential = Some demo_credential, st_runtime = Some demo_runtime\<rparr>)"
proof -
  have "vm_name demo_record = ''web''" by (simp add: demo_record_def)
  with creation_round_trip [of _ demo_record _ _ _ _ _ demo_credential _ _ demo_runtime, OF demo_ok(1)]
    demo_steps demo_utf8 show ?thesis by (simp add: bound_utf8)
qed

text \<open>Rolling a creation back restores the inventory: after the claim of a name, any outcome of
  persisting the network, the credential and the runtime, and a successful deletion of the claimed VM,
  every name reads as it did before the claim.\<close>
lemma creation_rollback_restores:
  assumes "inventory_ok db" and "insert_microvm rec db = (Inr i, db1)"
    and "persist_network now i network db1 = (r2, db2)" and "persist_credential i credential db2 = (r3, db3)"
    and "persist_runtime now' i runtime db3 = (r4, db4)" and "delete_microvm now'' i db4 = (Inr (), db5)"
  shows "\<forall>name. find_microvm name db5 = find_microvm name db"
  using sqlite.rollback_contents [OF assms] find_microvm_view [OF assms(1)] find_microvm_view [of db5] by auto

end
