(* ===== verification/Restored_Commit.thy ===== *)
theory Restored_Commit
  imports Inventory_Contract
begin

text \<open>
  The commit of a restored VM, \<open>commit_restored_microvm\<close> of src/crates/sdk/src/adapters/persistence/sqlite.rs: one
  transaction that records the VM with its network, credential and stopped runtime, its kernel and its
  provenance, and removes the journal of the restoration. The theory shows what the repository reads back
  afterwards.
\<close>

section \<open>The inventory after the commit\<close>

text \<open>A restoration makes the four changes of a creation, in one transaction.\<close>

lemma run_update_Inr: "stmt db = Inr (x, db') \<Longrightarrow> run_update stmt db = (Inr x, db')"
  by (simp add: run_update_def)

lemma view_cong:
  assumes "db_microvms db' = db_microvms db" "db_networks db' = db_networks db" "db_resources db' = db_resources db"
    "db_bridges db' = db_bridges db" "db_credentials db' = db_credentials db" "db_runtimes db' = db_runtimes db"
  shows "view db' = view db"
  by (simp add: fun_eq_iff view_def stored_of_def assms load_network_record_same [OF assms(2-4)]
      load_credential_record_same [OF assms(5)] load_runtime_record_same [OF assms(6)] cong: option.map_cong)

lemma commit_restored_view:
  assumes ok: "inventory_ok db" and run: "commit_restored_transaction now commit db = Inr (i, db')"
  shows "view db' = (view db)(vm_name (rc_record commit) \<mapsto> \<lparr>st_record = (rc_record commit)\<lparr>vm_id := i\<rparr>,
    st_network = Some (rc_network commit), st_credential = Some (rc_credential commit),
    st_runtime = Some (restored_runtime (rc_runtime commit))\<rparr>)"
  using run
proof (rule commit_restored_transaction_steps)
  fix db1 db2 db3 db4 db5 a
  assume ins: "insert_microvm_stmt (rc_record commit) db = Inr (i, db1)"
    and net: "persist_network_transaction now i (rc_network commit) db1 = Inr ((), db2)"
    and cred: "persist_credential_stmt i (rc_credential commit) db2 = Inr ((), db3)"
    and rt: "persist_runtime_stmt now i (restored_runtime (rc_runtime commit)) db3 = Inr ((), db4)"
  from sqlite.creation_contents [OF ok, of "rc_record commit" i db1 now "rc_network commit" db2 "rc_credential commit" db3 now
      "restored_runtime (rc_runtime commit)" db4] ins net cred rt
  have "view db4 = (view db)(vm_name (rc_record commit) \<mapsto> \<lparr>st_record = (rc_record commit)\<lparr>vm_id := i\<rparr>,
    st_network = Some (rc_network commit), st_credential = Some (rc_credential commit),
    st_runtime = Some (restored_runtime (rc_runtime commit))\<rparr>)"
    by (simp add: update_defs run_update_Inr)
  moreover assume "insert_snapshot_metadata_stmt i (rc_snapshot_metadata commit) (db4\<lparr>db_artifacts := a\<rparr>) = Inr ((), db5)"
    "db' = db5\<lparr>db_journals := filter (\<lambda>(t, j). rj_operation_id j \<noteq> rc_operation_id commit) (db_journals db5)\<rparr>"
  then have "view db' = view db4"
    by (intro view_cong) (auto simp: insert_snapshot_metadata_stmt_def bindR_Inr)
  ultimately show ?thesis by simp
qed

section \<open>The tables after the commit\<close>

lemma persist_statements_frame:
  "persist_credential_stmt i c db = Inr (u, db') \<Longrightarrow> db_microvms db' = db_microvms db
     \<and> db_snapshot_metadata db' = db_snapshot_metadata db \<and> db_journals db' = db_journals db"
  "persist_runtime_stmt now i r db = Inr (u, db') \<Longrightarrow> db_microvms db' = db_microvms db
     \<and> db_snapshot_metadata db' = db_snapshot_metadata db \<and> db_journals db' = db_journals db"
  by (auto simp: persist_credential_stmt_def persist_runtime_stmt_def bindR_Inr Let_def)

lemma bridge_for_network_frame:
  "bridge_for_network now network db = Inr (b, db') \<Longrightarrow> db_microvms db' = db_microvms db
     \<and> db_snapshot_metadata db' = db_snapshot_metadata db \<and> db_journals db' = db_journals db"
  by (auto simp: bridge_for_network_def bindR_Inr Let_def split: option.splits if_splits)

lemma persist_network_frame:
  "persist_network_transaction now i network db = Inr (u, db') \<Longrightarrow> db_microvms db' = db_microvms db
     \<and> db_snapshot_metadata db' = db_snapshot_metadata db \<and> db_journals db' = db_journals db"
  by (auto simp: persist_network_transaction_def bindR_Inr Let_def constraint_def split: prod.splits if_splits
      dest!: bridge_for_network_frame)

lemma commit_restored_tables:
  assumes ok: "inventory_ok db" and run: "commit_restored_transaction now commit db = Inr (i, db')"
  obtains row where "find (\<lambda>r. mr_name r = vm_name (rc_record commit)) (db_microvms db') = Some row"
    "mr_id row = i" "mr_kernel_id row = vm_kernel_id (rc_record commit)"
    "find (\<lambda>r. sm_microvm_id r = i) (db_snapshot_metadata db') = Some (snapshot_metadata_row i (rc_snapshot_metadata commit))"
    "db_journals db' = filter (\<lambda>(t, j). rj_operation_id j \<noteq> rc_operation_id commit) (db_journals db)"
  using run
proof (rule commit_restored_transaction_steps)
  fix db1 db2 db3 db4 db5 a
  assume ins: "insert_microvm_stmt (rc_record commit) db = Inr (i, db1)"
    and net: "persist_network_transaction now i (rc_network commit) db1 = Inr ((), db2)"
    and cred: "persist_credential_stmt i (rc_credential commit) db2 = Inr ((), db3)"
    and rt: "persist_runtime_stmt now i (restored_runtime (rc_runtime commit)) db3 = Inr ((), db4)"
    and meta: "insert_snapshot_metadata_stmt i (rc_snapshot_metadata commit) (db4\<lparr>db_artifacts := a\<rparr>) = Inr ((), db5)"
    and db': "db' = db5\<lparr>db_journals := filter (\<lambda>(t, j). rj_operation_id j \<noteq> rc_operation_id commit) (db_journals db5)\<rparr>"
  have same: "db_microvms db4 = db_microvms db1" "db_snapshot_metadata db4 = db_snapshot_metadata db1"
    "db_journals db4 = db_journals db1"
    using persist_network_frame [OF net] persist_statements_frame(1) [OF cred] persist_statements_frame(2) [OF rt] by simp_all
  from ins obtain row where row: "microvm_row (rc_record commit) (db_next_vm db) = Inr row"
    and fresh: "check_microvm_row row db = Inr ()" and i: "i = db_next_vm db"
    and db1: "db1 = db\<lparr>db_microvms := db_microvms db @ [row], db_next_vm := db_next_vm db + 1\<rparr>"
    by (auto simp: insert_microvm_stmt_def bindR_Inr)
  have fields: "mr_name row = vm_name (rc_record commit)" "mr_id row = i" "mr_kernel_id row = vm_kernel_id (rc_record commit)"
    using row by (auto simp: i microvm_row_def bindR_Inr)
  have "find (\<lambda>r. mr_name r = mr_name row) (db_microvms db) = None"
    using fresh by (auto simp: check_microvm_row_def Let_def bindR_Inr list_ex_iff find_None_iff)
  then have found: "find (\<lambda>r. mr_name r = vm_name (rc_record commit)) (db_microvms db @ [row]) = Some row"
    by (simp add: find_append fields)
  from meta have db5: "db5 = db4\<lparr>db_artifacts := a,
      db_snapshot_metadata := db_snapshot_metadata db4 @ [snapshot_metadata_row i (rc_snapshot_metadata commit)]\<rparr>"
    and new: "find (\<lambda>r. sm_microvm_id r = i) (db_snapshot_metadata db4) = None"
    by (auto simp: insert_snapshot_metadata_stmt_def bindR_Inr list_ex_iff find_None_iff)
  have "find (\<lambda>r. sm_microvm_id r = i) (db_snapshot_metadata db') = Some (snapshot_metadata_row i (rc_snapshot_metadata commit))"
    using new by (simp add: db' db5 find_append snapshot_metadata_row_def)
  moreover have "db_microvms db' = db_microvms db @ [row]"
    "db_journals db' = filter (\<lambda>(t, j). rj_operation_id j \<noteq> rc_operation_id commit) (db_journals db)"
    using same by (simp_all add: db' db5 db1)
  ultimately show thesis using that found fields by simp
qed

lemma persist_kernel_row:
  assumes "persist_kernel_transaction now kern spec integrity a = Inr (u, a')"
  obtains i d where "find_kernel_row (k_id kern) a' = Some (kernel_row i d kern (uint (k_size_bytes kern)))"
proof -
  from assms obtain d a1 n a2 where size: "to_sqlite_integer (k_size_bytes kern) (sp_artifact_key spec) = Inr n"
    and run2: "upsert_kernel (Some d) kern n a1 = Inr ((), a2)" and run3: "persist_elf d (k_elf kern) a2 = Inr ((), a')"
    by (auto simp: persist_kernel_transaction_def bindS_Inr)
  have "n = uint (k_size_bytes kern)" using size by (simp add: to_sqlite_Inr)
  then show thesis
    using that upsert_kernel_Inr(1) [OF run2, of "k_id kern"] persist_elf_frame [OF run3] by (simp add: find_kernel_row_def)
qed

lemma kernel_row_round_trip: "kernel_from_row (kernel_row i d kern (uint (k_size_bytes kern))) = Inr (kern\<lparr>k_elf := None\<rparr>)"
  by (cases kern) (simp add: kernel_from_row_def kernel_row_def)

lemma restored_kernel_transaction_Inr:
  assumes "restored_kernel_transaction now kern spec integrity distribution a = Inr (u, a')"
  obtains a1 where "persist_kernel_transaction now kern spec integrity a = Inr ((), a1)"
    "ad_kernels a' = ad_kernels a1" "ad_downloads a' = ad_downloads a1"
  using assms
  by (auto simp: restored_kernel_transaction_def bindS_Inr insert_or_ignore_distribution_kernel_def
      insert_distribution_kernel_def bindR_Inr split: option.splits if_splits)

lemma kernel_download_tables:
  "ad_kernels a' = ad_kernels a \<Longrightarrow> ad_downloads a' = ad_downloads a \<Longrightarrow> kernel_download name a' = kernel_download name a"
  by (simp add: kernel_download_def find_kernel_row_def find_download_def)

section \<open>What the repository reads back\<close>

definition restored_vm :: "RestoredMicroVmCommit \<Rightarrow> int \<Rightarrow> StoredMicroVm" where
  "restored_vm commit i = \<lparr>st_record = (rc_record commit)\<lparr>vm_id := i\<rparr>, st_network = Some (rc_network commit),
     st_credential = Some (rc_credential commit), st_runtime = Some (restored_runtime (rc_runtime commit))\<rparr>"

definition restored_metadata :: "RestoredSnapshotMetadata \<Rightarrow> Kernel \<Rightarrow> SnapshotStoredMetadata" where
  "restored_metadata m kern = \<lparr>ss_distribution_name = rm_distribution_name m,
     ss_distribution_version = rm_distribution_version m, ss_root_device = rm_root_device m,
     ss_kernel_args = rm_kernel_args m, ss_image_sha256 = rm_image_sha256 m,
     ss_guest_architecture = rm_guest_architecture m, ss_kernel = kern\<lparr>k_elf := None\<rparr>\<rparr>"

lemma commit_restored_kernel:
  assumes ok: "artifacts_ok (db_artifacts db)" and run: "commit_restored_transaction now commit db = Inr (i, db')"
    and spec: "rc_kernel_integrity commit = spec_integrity (rc_kernel_spec commit)"
      "sp_artifact_kind (rc_kernel_spec commit) = KernelKind" "sp_artifact_id (rc_kernel_spec commit) = k_id (rc_kernel commit)"
  shows "resolve_kernel name (db_artifacts db') = (if name = k_id (rc_kernel commit)
      then Inr (spec_artifact (rc_kernel_spec commit)) else resolve_kernel name (db_artifacts db))"
    and "\<exists>n d. find_kernel_row (k_id (rc_kernel commit)) (db_artifacts db')
      = Some (kernel_row n d (rc_kernel commit) (uint (k_size_bytes (rc_kernel commit))))"
proof -
  obtain a1 where kern: "persist_kernel_transaction now (rc_kernel commit) (rc_kernel_spec commit)
      (spec_integrity (rc_kernel_spec commit)) (db_artifacts db) = Inr ((), a1)"
    and tables: "ad_kernels (db_artifacts db') = ad_kernels a1" "ad_downloads (db_artifacts db') = ad_downloads a1"
    using run spec(1) by (metis commit_restored_artifacts restored_kernel_transaction_Inr)
  note stored = persist_kernel_transaction_resolves [OF ok kern spec(2,3)]
  from stored(1) obtain k where "kernel_download (k_id (rc_kernel commit)) a1 = Some (spec_download (rc_kernel_spec commit) k)"
    by blast
  with stored(3) [of name] show "resolve_kernel name (db_artifacts db') = (if name = k_id (rc_kernel commit)
      then Inr (spec_artifact (rc_kernel_spec commit)) else resolve_kernel name (db_artifacts db))"
    by (simp add: resolve_downloads kernel_download_tables [OF tables])
  from persist_kernel_row [OF kern] show "\<exists>n d. find_kernel_row (k_id (rc_kernel commit)) (db_artifacts db')
      = Some (kernel_row n d (rc_kernel commit) (uint (k_size_bytes (rc_kernel commit))))"
    by (metis find_kernel_row_def tables(1))
qed

lemma commit_restored_metadata:
  assumes ok: "inventory_ok db" and run: "commit_restored_transaction now commit db = Inr (i, db')"
    and kern: "find_kernel_row (vm_kernel_id (rc_record commit)) (db_artifacts db')
      = Some (kernel_row n d (rc_kernel commit) (uint (k_size_bytes (rc_kernel commit))))"
  shows "snapshot_metadata (vm_name (rc_record commit)) db' = Inr (restored_metadata (rc_snapshot_metadata commit) (rc_kernel commit))"
  using ok run
proof (rule commit_restored_tables)
  fix row
  assume "find (\<lambda>r. mr_name r = vm_name (rc_record commit)) (db_microvms db') = Some row"
    "mr_id row = i" "mr_kernel_id row = vm_kernel_id (rc_record commit)"
    "find (\<lambda>r. sm_microvm_id r = i) (db_snapshot_metadata db') = Some (snapshot_metadata_row i (rc_snapshot_metadata commit))"
  with kern show ?thesis
    by (simp add: snapshot_metadata_def Let_def coalesce_def kernel_row_round_trip ok_or_def)
      (simp add: snapshot_metadata_row_def restored_metadata_def)
qed

lemma commit_restored_journals:
  assumes "inventory_ok db" "commit_restored_transaction now commit db = Inr (i, db')"
  shows "list_restore_journals name db' = filter (\<lambda>j. rj_operation_id j \<noteq> rc_operation_id commit) (list_restore_journals name db)"
proof -
  have "db_journals db' = filter (\<lambda>(t, j). rj_operation_id j \<noteq> rc_operation_id commit) (db_journals db)"
    by (rule commit_restored_tables [OF assms])
  then show ?thesis
    by (simp add: list_restore_journals_def filter_map filter_sort comp_def case_prod_beta conj_commute)
qed

lemma commit_restored_reads:
  assumes reach: "repository_reachable db" and run: "commit_restored_microvm now commit db = (r, db')"
    and spec: "rc_kernel_integrity commit = spec_integrity (rc_kernel_spec commit)"
      "sp_artifact_kind (rc_kernel_spec commit) = KernelKind" "sp_artifact_id (rc_kernel_spec commit) = k_id (rc_kernel commit)"
    and named: "vm_kernel_id (rc_record commit) = k_id (rc_kernel commit)"
  shows "case r of Inl e \<Rightarrow> db' = db
    | Inr i \<Rightarrow>
        (\<forall>name. find_microvm name db' = (if name = vm_name (rc_record commit) then Inr (Some (restored_vm commit i))
           else find_microvm name db))
        \<and> snapshot_metadata (vm_name (rc_record commit)) db'
          = Inr (restored_metadata (rc_snapshot_metadata commit) (rc_kernel commit))
        \<and> (\<forall>name. resolve_kernel name (db_artifacts db') = (if name = k_id (rc_kernel commit)
             then Inr (spec_artifact (rc_kernel_spec commit)) else resolve_kernel name (db_artifacts db)))
        \<and> (\<forall>name. list_restore_journals name db'
             = filter (\<lambda>j. rj_operation_id j \<noteq> rc_operation_id commit) (list_restore_journals name db))"
proof (cases r)
  case (Inl e)
  with run show ?thesis by (auto simp: commit_restored_microvm_def dest: run_update_error)
next
  case (Inr i)
  with run have trans: "commit_restored_transaction now commit db = Inr (i, db')"
    by (auto simp: commit_restored_microvm_def run_update_cases)
  have ok: "inventory_ok db" and arts: "artifacts_ok (db_artifacts db)"
    using reach by (rule reachable_inventory_ok, rule reachable_artifacts_ok)
  note kern = commit_restored_kernel [OF arts trans spec]
  from kern(2) named obtain n d where row: "find_kernel_row (vm_kernel_id (rc_record commit)) (db_artifacts db')
      = Some (kernel_row n d (rc_kernel commit) (uint (k_size_bytes (rc_kernel commit))))" by auto
  have "find_microvm name db' = (if name = vm_name (rc_record commit) then Inr (Some (restored_vm commit i))
      else find_microvm name db)" for name
    using commit_restored_view [OF ok trans] find_microvm_view [OF ok] find_microvm_view [OF commit_restored_transaction_ok [OF ok trans]]
    by (simp add: restored_vm_def)
  with Inr commit_restored_metadata [OF ok trans row] kern(1) commit_restored_journals [OF ok trans] show ?thesis by simp
qed

text \<open>The values that the commit binds to its statements.\<close>

definition bound_spec :: "DownloadSpec \<Rightarrow> DownloadSpec" where
  "bound_spec spec = spec\<lparr>sp_relative_path := to_string_lossy (sp_relative_path spec),
     sp_absolute_path := to_string_lossy (sp_absolute_path spec)\<rparr>"

definition bound_commit :: "RestoredMicroVmCommit \<Rightarrow> RestoredMicroVmCommit" where
  "bound_commit commit = commit\<lparr>rc_record := bound_record (rc_record commit), rc_credential := bound_credential (rc_credential commit),
     rc_runtime := bound_runtime (rc_runtime commit), rc_kernel_spec := bound_spec (rc_kernel_spec commit)\<rparr>"

definition utf8_commit :: "RestoredMicroVmCommit \<Rightarrow> bool" where
  "utf8_commit commit \<longleftrightarrow> utf8_record (rc_record commit) \<and> utf8_credential (rc_credential commit) \<and> utf8_runtime (rc_runtime commit)
     \<and> utf8_path (sp_relative_path (rc_kernel_spec commit)) \<and> utf8_path (sp_absolute_path (rc_kernel_spec commit))"

lemma bound_commit_utf8: "utf8_commit commit \<Longrightarrow> bound_commit commit = commit"
  by (simp add: utf8_commit_def bound_commit_def bound_spec_def bound_utf8 to_string_lossy_utf8)

lemma bound_commit_simps [simp]:
  "rc_kernel_integrity (bound_commit commit) = rc_kernel_integrity commit" "rc_kernel (bound_commit commit) = rc_kernel commit"
  "rc_snapshot_metadata (bound_commit commit) = rc_snapshot_metadata commit"
  "rc_operation_id (bound_commit commit) = rc_operation_id commit"
  "vm_name (rc_record (bound_commit commit)) = vm_name (rc_record commit)"
  "vm_kernel_id (rc_record (bound_commit commit)) = vm_kernel_id (rc_record commit)"
  "rc_kernel_spec (bound_commit commit) = bound_spec (rc_kernel_spec commit)"
  "spec_integrity (bound_spec spec) = spec_integrity spec" "sp_artifact_kind (bound_spec spec) = sp_artifact_kind spec"
  "sp_artifact_id (bound_spec spec) = sp_artifact_id spec"
  by (simp_all add: bound_commit_def bound_spec_def bound_record_def spec_integrity_def)

text \<open>(C16) Committing a restored VM is all or nothing. On failure the database is unchanged. On success the VM is read
  back by its name with its record, network, credential and a stopped runtime, its provenance and kernel
  are read back from the snapshot metadata, the kernel resolves to the file of its download spec, and the
  journal of the operation is gone; every other VM name, kernel and journal reads as before. Paths are read
  back as they were bound, converted by \<open>to_string_lossy\<close>, and when they are UTF-8 exactly as they were. The
  kernel file was verified against the spec, which is that of the kernel, and the record names that kernel.\<close>

theorem commit_restored_round_trip:
  assumes "repository_reachable db" and "commit_restored_microvm now (bound_commit commit) db = (r, db')"
    and "rc_kernel_integrity commit = spec_integrity (rc_kernel_spec commit)"
    and "sp_artifact_kind (rc_kernel_spec commit) = KernelKind" and "sp_artifact_id (rc_kernel_spec commit) = k_id (rc_kernel commit)"
    and "vm_kernel_id (rc_record commit) = k_id (rc_kernel commit)"
  shows "case r of Inl e \<Rightarrow> db' = db
    | Inr i \<Rightarrow>
        (\<forall>name. find_microvm name db' = (if name = vm_name (rc_record commit) then Inr (Some (restored_vm (bound_commit commit) i))
           else find_microvm name db))
        \<and> snapshot_metadata (vm_name (rc_record commit)) db'
          = Inr (restored_metadata (rc_snapshot_metadata commit) (rc_kernel commit))
        \<and> (\<forall>name. resolve_kernel name (db_artifacts db') = (if name = k_id (rc_kernel commit)
             then Inr (spec_artifact (bound_spec (rc_kernel_spec commit))) else resolve_kernel name (db_artifacts db)))
        \<and> (\<forall>name. list_restore_journals name db'
             = filter (\<lambda>j. rj_operation_id j \<noteq> rc_operation_id commit) (list_restore_journals name db))
        \<and> (utf8_commit commit \<longrightarrow> restored_vm (bound_commit commit) i = restored_vm commit i
             \<and> bound_spec (rc_kernel_spec commit) = rc_kernel_spec commit)"
proof -
  have "utf8_commit commit \<Longrightarrow> bound_spec (rc_kernel_spec commit) = rc_kernel_spec commit"
    by (metis bound_commit_simps(7) bound_commit_utf8)
  with commit_restored_reads [OF assms(1,2)] assms(3-6) show ?thesis
    by (cases r) (simp_all add: bound_commit_utf8)
qed

text \<open>A restoration on the store of the artifacts, with its journal.\<close>

abbreviation "demo_restored_spec \<equiv> demo_spec KernelKind ''r'' None ''kernel:r'' ''r''"

definition demo_journal :: RestoreJournal where
  "demo_journal = \<lparr>rj_operation_id = ''op'', rj_vm_name = ''web'', rj_staging_path = [RootDir], rj_volume_path = [RootDir],
     rj_volume_created = True, rj_kernel_path = [RootDir], rj_kernel_created = True, rj_network = None,
     rj_progress_state = ''committing''\<rparr>"

definition demo_commit :: RestoredMicroVmCommit where
  "demo_commit = \<lparr>rc_record = demo_record\<lparr>vm_kernel_id := ''r''\<rparr>, rc_network = demo_network, rc_credential = demo_credential,
     rc_runtime = demo_runtime, rc_kernel = demo_kernel\<lparr>k_id := ''r''\<rparr>, rc_kernel_spec = demo_restored_spec,
     rc_kernel_integrity = spec_integrity demo_restored_spec,
     rc_snapshot_metadata = \<lparr>rm_distribution_name = ''Debian'', rm_distribution_version = ''12'', rm_root_device = ''/dev/vda'',
       rm_kernel_args = [''quiet''], rm_image_sha256 = demo_digest, rm_guest_architecture = ''x86_64''\<rparr>,
     rc_operation_id = ''op''\<rparr>"

definition demo_restoring_db :: db where
  "demo_restoring_db = demo_store\<lparr>db_journals := [(1, demo_journal)]\<rparr>"

lemma demo_restoring_reachable: "repository_reachable demo_restoring_db"
proof (rule repository_reachable.step [OF demo_store_reachable repository_step.record_journal])
  show "record_restore_journal (Inr 1) demo_journal demo_store = (Inr (), demo_restoring_db)"
    by (simp add: record_restore_journal_def record_restore_journal_stmt_def run_defs demo_restoring_db_def demo_store_def empty_db_def)
qed

lemma demo_restored_kernel:
  "\<exists>a. restored_kernel_transaction (Inr 1) (demo_kernel\<lparr>k_id := ''r''\<rparr>) demo_restored_spec (spec_integrity demo_restored_spec)
     ''debian'' demo_artifacts = Inr ((), a)"
  by (simp add: restored_kernel_transaction_def insert_or_ignore_distribution_kernel_def find_kernel_row_def artifact_run
      demo_artifacts_def empty_artifacts_def demo_digest_valid spec_integrity_def download_row_sha ok_or_def kernel_row_def)

lemma demo_commit_runs: "\<exists>db'. commit_restored_microvm (Inr 1) demo_commit demo_restoring_db = (Inr 1, db')"
  using demo_restored_kernel
  by (auto simp: commit_restored_microvm_def commit_restored_transaction_def bindS_def liftS_def returnS_def executeS_def in_artifacts_def
      insert_microvm_stmt_def microvm_row_def check_microvm_row_def to_sqlite_integer_def
      persist_network_transaction_def bridge_for_network_def network_row_def recount_bridges_def
      insert_credential_stmt_def persist_credential_stmt_def credential_row_def insert_runtime_stmt_def persist_runtime_stmt_def
      restored_runtime_def insert_snapshot_metadata_stmt_def run_defs demo_commit_def demo_record_def demo_network_def
      demo_credential_def demo_runtime_def demo_restoring_db_def demo_store_def empty_db_def)

lemma demo_commit_utf8: "utf8_commit demo_commit"
  by (simp add: utf8_commit_def demo_commit_def utf8_record_def utf8_credential_def utf8_runtime_def utf8_path_def
      demo_record_def demo_credential_def demo_runtime_def demo_spec_def utf8_valid_ascii is_ascii_def)

theorem commit_restored_round_trip_witness:
  "\<exists>db'. commit_restored_microvm (Inr 1) (bound_commit demo_commit) demo_restoring_db = (Inr 1, db')
    \<and> find_microvm ''web'' db' = Inr (Some (restored_vm demo_commit 1))
    \<and> resolve_kernel ''r'' (db_artifacts db') = Inr (spec_artifact demo_restored_spec)
    \<and> list_restore_journals ''web'' demo_restoring_db = [demo_journal] \<and> list_restore_journals ''web'' db' = []"
proof -
  obtain db' where run: "commit_restored_microvm (Inr 1) (bound_commit demo_commit) demo_restoring_db = (Inr 1, db')"
    using demo_commit_runs by (auto simp: bound_commit_utf8 demo_commit_utf8)
  have "list_restore_journals ''web'' demo_restoring_db = [demo_journal]"
    by (simp add: list_restore_journals_def demo_restoring_db_def demo_journal_def)
  with commit_restored_round_trip [OF demo_restoring_reachable run] run demo_commit_utf8 show ?thesis
    by (auto simp: demo_commit_def demo_record_def demo_journal_def)
qed

end
