(* ===== verification/Manager_Ports.thy ===== *)
theory Manager_Ports
  imports Request_Validation Linux_Controller Inventory_Contract Artifact_Repository
begin

text \<open>
  The state and the ports of \<open>MicroVmSdk\<close> (src/crates/sdk/src/manager.rs). The SDK is a client of the
  inventory and of the trait objects of its ports (runtime, runtime disk, network, storage and
  credentials), of the file system, of the clock and of the lifecycle lock file. Its state is the
  database of Repository and an environment of any type; every port is a function on the
  environment, and a record of such functions is a parameter of the operations. The in-process mutexes
  of \<open>target_locks\<close> order the operations of one SDK value: each operation is one step here, and
  \<open>target_lock\<close> says whether the mutex of a path is free. The order of versions is that of the semver crate.
  The first group of definitions reads and writes that state; the second translates the helper functions
  of manager.rs that check the stored description of a VM.
\<close>

section \<open>Ports\<close>

record metadata =
  md_is_symlink :: bool
  md_is_file :: bool
  md_is_dir :: bool
  md_len :: u64
  md_mode :: u32

record StartRequest =
  sr_vm_name :: string
  sr_firectl_path :: path
  sr_firecracker_path :: path
  sr_kernel_path :: path
  sr_runtime_disk_path :: path
  sr_vcpu_count :: u32
  sr_memory_effective_mib :: u64
  sr_kernel_options :: string
  sr_tap_name :: string
  sr_guest_mac :: string
  sr_socket_path :: path
  sr_log_path :: path

record PreparedRootfs =
  rf_path :: path
  rf_created_volume :: bool

record GeneratedCredential =
  gc_private_key_path :: path
  gc_public_key_path :: path
  gc_public_key :: string
  gc_fingerprint :: string
  gc_file_mode :: string

text \<open>\<open>RuntimeController\<close>, \<open>RuntimeDiskController\<close>, \<open>NetworkController\<close> and \<open>GuestStorage\<close>.\<close>

record 'w RuntimeController =
  validate_host :: "('w, unit) sdk_io"
  verify_stopped :: "path \<Rightarrow> ('w, unit) sdk_io"
  process_references_vm :: "u32 \<Rightarrow> path \<Rightarrow> path \<Rightarrow> path \<Rightarrow> ('w, bool) sdk_io"
  socket_answers :: "path \<Rightarrow> ('w, bool) sdk_io"
  launch_detached :: "StartRequest \<Rightarrow> ('w, u32) sdk_io"
  wait_for_socket :: "path \<Rightarrow> ('w, bool) sdk_io"
  request_shutdown :: "path \<Rightarrow> ('w, bool) sdk_io"
  wait_for_stop :: "path \<Rightarrow> u32 option \<Rightarrow> path \<Rightarrow> path \<Rightarrow> nat \<Rightarrow> ('w, bool) sdk_io"
  terminate_spawned :: "u32 \<Rightarrow> ('w, unit) sdk_io"

record 'w RuntimeDiskController =
  ensure_mapping :: "path \<Rightarrow> string \<Rightarrow> path \<Rightarrow> ('w, path) sdk_io"
  release_mapping :: "path \<Rightarrow> string \<Rightarrow> path \<Rightarrow> ('w, unit) sdk_io"

record 'w NetworkController =
  configure_port :: "NetworkRequest \<Rightarrow> PersistedNetwork option \<Rightarrow> used_address list \<Rightarrow> used_address list
     \<Rightarrow> ('w, NetworkOutcome) sdk_io"
  cleanup_port :: "PersistedNetwork \<Rightarrow> ('w, unit) sdk_io"
  cleanup_for_delete_port :: "PersistedNetwork \<Rightarrow> ('w, unit) sdk_io"

record 'w GuestStorage =
  prepare_rootfs :: "path \<Rightarrow> path \<Rightarrow> u64 \<Rightarrow> (u64 \<Rightarrow> u64 \<Rightarrow> 'w \<Rightarrow> 'w) \<Rightarrow> ('w, PreparedRootfs) sdk_io"
  inject_public_key :: "path \<Rightarrow> string \<Rightarrow> ('w, unit) sdk_io"
  write_guest_network_config :: "path \<Rightarrow> ipv4 \<Rightarrow> ipv4 \<Rightarrow> ('w, unit) sdk_io"
  write_guest_lan_config :: "path \<Rightarrow> ipv4 \<Rightarrow> ipv4 \<Rightarrow> ipv4 \<Rightarrow> ('w, unit) sdk_io"
  disk_used_bytes :: "path \<Rightarrow> ('w, u64) sdk_io"
  resize_rootfs :: "path \<Rightarrow> u64 \<Rightarrow> ('w, unit) sdk_io"

text \<open>The file system calls of \<open>std::fs\<close> that the manager makes.\<close>

record 'w file_system =
  symlink_metadata :: "path \<Rightarrow> (io_error, 'w, metadata) io"
  metadata_of :: "path \<Rightarrow> (io_error, 'w, metadata) io"
  open_file :: "path \<Rightarrow> (io_error, 'w, unit) io"
  read_file :: "path \<Rightarrow> (io_error, 'w, string) io"
  remove_file :: "path \<Rightarrow> (io_error, 'w, unit) io"
  read_dir :: "path \<Rightarrow> (io_error, 'w, (io_error + string) list) io"
  remove_dir :: "path \<Rightarrow> (io_error, 'w, unit) io"
  remove_dir_all :: "path \<Rightarrow> (io_error, 'w, unit) io"

record 'w MicroVmSdk =
  home :: path
  runtime :: "'w RuntimeController"
  runtime_disk :: "'w RuntimeDiskController"
  network :: "'w NetworkController"
  storage :: "'w GuestStorage"
  files :: "'w file_system"
  fetch_manifest :: "('w, TaumaruRegistry) sdk_io"
  generate_credential :: "path \<Rightarrow> ('w, GeneratedCredential) sdk_io"
  target_lock :: "path \<Rightarrow> ('w, bool) sdk_io"
  open_connection :: "('w, unit) sdk_io"
  unix_timestamp :: "('w, int) sdk_io"
  acquire_lifecycle_lock :: "path \<Rightarrow> string \<Rightarrow> ('w, unit) sdk_io"
  sha256 :: "string \<Rightarrow> u8 list"
  version_valid :: "string \<Rightarrow> bool"
  version_less :: "string \<Rightarrow> string \<Rightarrow> bool"
  ARCH :: string
  sleep :: "nat \<Rightarrow> 'w \<Rightarrow> 'w"
  autostart_retry_backoff :: nat

text \<open>The state: the database, and the environment of the ports.\<close>

record 'w sdk =
  sd_db :: db
  sd_env :: 'w

definition on_env :: "('w, 'a) sdk_io \<Rightarrow> ('w sdk, 'a) sdk_io" where
  "on_env m s = (case m (sd_env s) of (r, w) \<Rightarrow> (r, s\<lparr>sd_env := w\<rparr>))"

definition on_db :: "(db, 'a) sdk_io \<Rightarrow> ('w sdk, 'a) sdk_io" where
  "on_db m s = (case m (sd_db s) of (r, d) \<Rightarrow> (r, s\<lparr>sd_db := d\<rparr>))"

text \<open>\<open>run_repository\<close>: each repository call opens a connection; a call that stamps its rows reads the
  clock.\<close>

definition repository_read :: "'w MicroVmSdk \<Rightarrow> (db \<Rightarrow> 'a result) \<Rightarrow> ('w sdk, 'a) sdk_io" where
  "repository_read sdk f =
     bindE (on_env (open_connection sdk)) (\<lambda>_. on_db (\<lambda>db. (f db, db)))"

definition repository_write :: "'w MicroVmSdk \<Rightarrow> (db, 'a) sdk_io \<Rightarrow> ('w sdk, 'a) sdk_io" where
  "repository_write sdk m = bindE (on_env (open_connection sdk)) (\<lambda>_. on_db m)"

definition repository_stamped ::
  "'w MicroVmSdk \<Rightarrow> (int result \<Rightarrow> (db, 'a) sdk_io) \<Rightarrow> ('w sdk, 'a) sdk_io" where
  "repository_stamped sdk f =
     bindE (on_env (open_connection sdk)) (\<lambda>_.
     bindE (attemptE (on_env (unix_timestamp sdk))) (\<lambda>now. on_db (f now)))"

text \<open>\<open>map_err\<close> on an I/O result, and \<open>e?\<close> for an optional value.\<close>

definition filesystem_call :: "string \<Rightarrow> path \<Rightarrow> (io_error, 'w, 'a) io \<Rightarrow> ('w sdk, 'a) sdk_io" where
  "filesystem_call operation p m =
     on_env (\<lambda>w. case m w of (Inl e, w') \<Rightarrow> (Inl (Filesystem operation p e), w') | (Inr x, w') \<Rightarrow> (Inr x, w'))"

definition attempt_call :: "(io_error, 'w, 'a) io \<Rightarrow> ('w sdk, io_error + 'a) sdk_io" where
  "attempt_call m = on_env (\<lambda>w. case m w of (r, w') \<Rightarrow> (Inr r, w'))"

definition require_some :: "'a option \<Rightarrow> SdkError \<Rightarrow> ('w, 'a) sdk_io" where
  "require_some x e = liftE (ok_or x e)"

section \<open>Paths of a VM\<close>

definition in_volume :: "path \<Rightarrow> string \<Rightarrow> path" where
  "in_volume volume relative = path_join volume (components relative)"

definition path_is_below_home :: "path \<Rightarrow> path \<Rightarrow> bool" where
  "path_is_below_home h candidate = path_starts_with candidate h"

definition normalize_home_path :: "path result \<Rightarrow> path \<Rightarrow> path result" where
  "normalize_home_path current_dir p =
     (if p = [] then Inl (InvalidHome p ''path is empty'')
      else bindR (if is_absolute p then Inr p else bindR current_dir (\<lambda>d. Inr (path_join d p))) (\<lambda>absolute.
      let normalized = fold normalize_step absolute [] in
      if normalized = [] then Inl (InvalidHome p ''path resolves to an empty location'')
      else Inr normalized))"

section \<open>Checks on the file system\<close>

definition path_entry_exists :: "'w MicroVmSdk \<Rightarrow> path \<Rightarrow> ('w sdk, bool) sdk_io" where
  "path_entry_exists sdk p =
     bindE (attempt_call (symlink_metadata (files sdk) p)) (\<lambda>r.
     case r of
       Inr _ \<Rightarrow> returnE True
     | Inl e \<Rightarrow> if io_kind e = NotFoundKind then returnE False
               else throwE (Filesystem ''inspect path entry'' p e))"

definition verify_regular_file :: "'w MicroVmSdk \<Rightarrow> path \<Rightarrow> string \<Rightarrow> ('w sdk, unit) sdk_io" where
  "verify_regular_file sdk p operation =
     bindE (filesystem_call operation p (symlink_metadata (files sdk) p)) (\<lambda>m.
     if md_is_symlink m \<or> \<not> md_is_file m
     then throwE (GuestFilesystem operation p ''the path is not a regular file'')
     else returnE ())"

definition verify_executable_file :: "'w MicroVmSdk \<Rightarrow> path \<Rightarrow> string \<Rightarrow> ('w sdk, unit) sdk_io" where
  "verify_executable_file sdk p component =
     bindE (attempt_call (symlink_metadata (files sdk) p)) (\<lambda>r.
     case r of
       Inl e \<Rightarrow> throwE (RuntimeIncompatible component ''local'' ''unknown'' (ARCH sdk)
                 (''could not inspect executable: '' @ io_text e))
     | Inr m \<Rightarrow>
         if md_is_symlink m \<or> \<not> md_is_file m
         then throwE (RuntimeIncompatible component ''local'' ''unknown'' (ARCH sdk)
                ''the selected path is not a regular file'')
         else if md_mode m AND 73 = 0
         then throwE (RuntimeIncompatible component ''local'' ''unknown'' (ARCH sdk)
                ''the selected path is not executable'')
         else returnE ())"

definition verify_private_key_mode :: "'w MicroVmSdk \<Rightarrow> path \<Rightarrow> ('w sdk, unit) sdk_io" where
  "verify_private_key_mode sdk p =
     bindE (filesystem_call ''inspect private SSH key'' p (symlink_metadata (files sdk) p)) (\<lambda>m.
     if md_mode m AND 511 \<noteq> 384
     then throwE (Credential ''verify private SSH key permissions'' p ''the private key must have mode 0600'')
     else returnE ())"

definition verify_public_key_mode :: "'w MicroVmSdk \<Rightarrow> path \<Rightarrow> ('w sdk, unit) sdk_io" where
  "verify_public_key_mode sdk p =
     bindE (filesystem_call ''inspect public SSH key'' p (symlink_metadata (files sdk) p)) (\<lambda>m.
     if md_mode m AND 511 \<noteq> 420
     then throwE (Credential ''verify public SSH key permissions'' p ''the public key must have mode 0644'')
     else returnE ())"

definition hex_digest :: "u8 list \<Rightarrow> string" where
  "hex_digest digest = concat (map show_hex2 digest)"

text \<open>The read loop accumulates the whole file; its length is checked against the range of \<open>u64\<close>.\<close>

definition calculate_file_integrity ::
  "'w MicroVmSdk \<Rightarrow> path \<Rightarrow> ('w sdk, FileIntegrity option) sdk_io" where
  "calculate_file_integrity sdk p =
     bindE (attempt_call (symlink_metadata (files sdk) p)) (\<lambda>r.
     case r of
       Inl e \<Rightarrow> if io_kind e = NotFoundKind then returnE None
                else throwE (Filesystem ''inspect artifact file'' p e)
     | Inr m \<Rightarrow>
         if md_is_symlink m \<or> \<not> md_is_file m then returnE None
         else bindE (filesystem_call ''open artifact file'' p (open_file (files sdk) p)) (\<lambda>_.
              bindE (filesystem_call ''read artifact file'' p (read_file (files sdk) p)) (\<lambda>bytes.
              if 2 ^ 64 \<le> length bytes
              then throwE (Migration ''artifact file size exceeds u64 range'')
              else returnE (Some \<lparr>fi_size_bytes = of_nat (length bytes),
                     fi_sha256 = hex_digest (sha256 sdk bytes)\<rparr>))))"

end
