(* ===== verification/Manager_Lifecycle.thy ===== *)
theory Manager_Lifecycle
  imports Manager_Ports
begin

text \<open>
  The lifecycle operations of \<open>MicroVmSdk\<close> in src/crates/sdk/src/manager.rs: \<open>start_microvm\<close>,
  \<open>stop_microvm\<close>, \<open>delete_microvm\<close>, \<open>update_microvm\<close>, \<open>configure_network\<close> and the listings, with the
  helpers that validate the stored VM, build the results and clean up after a failed launch.
\<close>

section \<open>Results\<close>

definition stored_ssh :: "PersistedNetwork \<Rightarrow> PersistedCredential \<Rightarrow> SshConnectionInfo" where
  "stored_ssh n c = \<lparr>ssh_user = pc_ssh_user c, ssh_port = pc_ssh_port c,
     ssh_address = nc_guest_address (pn_config n), ssh_private_key_path = pc_private_key_path c,
     ssh_public_key_path = pc_public_key_path c\<rparr>"

definition outside_socket :: "StoredMicroVm \<Rightarrow> SdkError" where
  "outside_socket stored = StorageConflict (vm_name (st_record stored)) (vm_volume_path (st_record stored))
     ''persisted VM paths'' ''the control socket must remain inside the VM volume''"

definition build_start_result :: "StoredMicroVm \<Rightarrow> u32 \<Rightarrow> MicroVmStartResult result" where
  "build_start_result stored pid =
     bindR (require_full ''start MicroVM'' stored) (\<lambda>(n, c, r).
     bindR (ok_or (rt_process_id r) (TemporaryRuntime ''firecracker''
             (Text ''the running VM has no recorded process identifier'') False)) (\<lambda>recorded.
     let rec = st_record stored in
     if recorded \<noteq> pid
     then Inl (TemporaryRuntime ''firecracker''
            (Text ''the recorded process identifier does not match the live machine'') False)
     else if vm_socket_path rec \<noteq> in_volume (vm_volume_path rec) ''firecracker.sock''
     then Inl (outside_socket stored)
     else Inr \<lparr>msr_name = vm_name rec, msr_state = Running, msr_volume_path = vm_volume_path rec,
       msr_rootfs_path = vm_rootfs_path rec, msr_socket_path = vm_socket_path rec, msr_process_id = pid,
       msr_network = pn_config n, msr_ssh = stored_ssh n c\<rparr>))"

definition build_stop_result :: "StoredMicroVm \<Rightarrow> bool \<Rightarrow> MicroVmStopResult result" where
  "build_stop_result stored forced =
     bindR (require_complete ''stop MicroVM'' stored) (\<lambda>_.
     let rec = st_record stored in
     if vm_socket_path rec \<noteq> in_volume (vm_volume_path rec) ''firecracker.sock''
     then Inl (outside_socket stored)
     else Inr \<lparr>mst_name = vm_name rec, mst_state = Stopped, mst_socket_path = vm_socket_path rec,
       mst_forced = forced\<rparr>)"

section \<open>Validation of a stored VM\<close>

definition expected_mode :: "StoredMicroVm \<Rightarrow> NetworkMode" where
  "expected_mode stored = (if vm_expose_on_lan (st_record stored) then Lan else HostOnly)"

definition persisted_ssh_metadata_ok :: "PersistedCredential \<Rightarrow> bool" where
  "persisted_ssh_metadata_ok c \<longleftrightarrow> pc_key_type c = ''ed25519'' \<and> pc_ssh_user c = ''root''
     \<and> pc_ssh_port c = 22 \<and> pc_guest_authorized_keys_path c = ''/root/.ssh/authorized_keys''
     \<and> pc_file_mode c = ''0600''"

text \<open>The part that \<open>validate_persisted_files\<close> and \<open>validate_start_prerequisites\<close> share, up to the check of the
  runtime record; \<open>operation\<close> is the text of the incomplete-creation error.\<close>

definition validate_volume_files ::
  "'w MicroVmSdk \<Rightarrow> string \<Rightarrow> StoredMicroVm \<Rightarrow> ('w sdk, PersistedRuntime) sdk_io" where
  "validate_volume_files sdk operation stored =
     (let rec = st_record stored; volume = vm_volume_path rec; rootfs = vm_rootfs_path rec;
          conflict = StorageConflict (vm_name rec) volume in
      if \<not> is_absolute volume
      then throwE (conflict ''persisted VM volume'' ''the configured VM volume path must be absolute'')
      else
      bindE (filesystem_call ''inspect configured VM volume'' volume
               (symlink_metadata (files sdk) volume)) (\<lambda>m.
      if md_is_symlink m \<or> \<not> md_is_dir m
      then throwE (conflict ''persisted VM volume'' ''the configured VM volume is not a real directory'')
      else if rootfs \<noteq> in_volume volume ''rootfs.ext4''
        \<or> vm_socket_path rec \<noteq> in_volume volume ''firecracker.sock''
      then throwE (conflict ''persisted VM paths''
             ''rootfs and socket paths must remain inside the VM volume'')
      else
      bindE (verify_regular_file sdk rootfs ''verify configured rootfs'') (\<lambda>_.
      bindE (filesystem_call ''inspect configured rootfs'' rootfs (metadata_of (files sdk) rootfs)) (\<lambda>rm.
      if md_len rm \<noteq> vm_disk_size_bytes rec
      then throwE (GuestFilesystem ''verify configured rootfs size'' rootfs
             (''expected '' @ show_nat (unat (vm_disk_size_bytes rec)) @ '' bytes, found ''
                @ show_nat (unat (md_len rm))))
      else
      bindE (liftE (require_full operation stored)) (\<lambda>(n, c, r).
      if pc_private_key_path c \<noteq> in_volume volume ''ssh/id_ed25519''
        \<or> pc_public_key_path c \<noteq> in_volume volume ''ssh/id_ed25519.pub''
      then throwE (Credential ''verify configured key paths'' volume
             ''credential paths are outside the VM volume'')
      else
      bindE (verify_regular_file sdk (pc_private_key_path c) ''verify private SSH key'') (\<lambda>_.
      bindE (verify_regular_file sdk (pc_public_key_path c) ''verify public SSH key'') (\<lambda>_.
      bindE (verify_private_key_mode sdk (pc_private_key_path c)) (\<lambda>_.
      bindE (verify_public_key_mode sdk (pc_public_key_path c)) (\<lambda>_.
      if \<not> persisted_ssh_metadata_ok c
      then throwE (Credential ''verify configured SSH metadata'' (pc_private_key_path c)
             ''persisted SSH metadata does not match the SDK contract'')
      else returnE r)))))))))"

definition validate_persisted_files :: "'w MicroVmSdk \<Rightarrow> StoredMicroVm \<Rightarrow> ('w sdk, unit) sdk_io" where
  "validate_persisted_files sdk stored =
     bindE (validate_volume_files sdk ''verify persisted files'' stored) (\<lambda>r.
     let e = TemporaryRuntime ''firecracker.sock''
           (Text ''the persisted runtime is not stopped or its socket is still present'') False;
         socket = vm_socket_path (st_record stored) in
     if rt_process_state r \<noteq> ''stopped'' \<or> rt_socket_path r \<noteq> socket then throwE e
     else bindE (path_entry_exists sdk socket) (\<lambda>present.
          if present then throwE e else returnE ()))"

definition validate_start_prerequisites :: "'w MicroVmSdk \<Rightarrow> StoredMicroVm \<Rightarrow> ('w sdk, unit) sdk_io" where
  "validate_start_prerequisites sdk stored =
     bindE (validate_volume_files sdk ''start MicroVM'' stored) (\<lambda>r.
     if rt_socket_path r \<noteq> vm_socket_path (st_record stored)
     then throwE (TemporaryRuntime ''firecracker.sock''
            (Text ''the persisted runtime socket does not match the VM volume'') False)
     else returnE ())"

definition host_only_addresses_are_consistent :: "PersistedNetwork \<Rightarrow> bool" where
  "host_only_addresses_are_consistent n =
     (case (pn_host_address n, nc_guest_address (pn_config n)) of
        (Some (V4 host_ip), V4 guest) \<Rightarrow>
          let network_base = host_ip AND NOT 3 in
          (case nc_gateway (pn_config n) of None \<Rightarrow> True | Some (V4 a) \<Rightarrow> a = host_ip | Some (V6 _) \<Rightarrow> False)
          \<and> guest AND NOT 3 = network_base \<and> host_ip = network_base + 1 \<and> guest = network_base + 2
      | _ \<Rightarrow> False)"

fun check_resources ::
  "(string \<Rightarrow> string \<Rightarrow> string \<Rightarrow> SdkError) \<Rightarrow> string \<Rightarrow> NetworkResource list
     \<Rightarrow> PersistedNetworkResource list \<Rightarrow> unit result" where
  "check_resources err name seen [] = Inr ()"
| "check_resources err name seen (r # rs) =
     (if pnr_ownership r \<noteq> SDK_OWNERSHIP
      then Inl (err ''validate persisted network ownership'' (pnr_identity r)
             ''a persisted network resource is not owned by this SDK'')
      else if pnr_resource r \<in> set seen
      then Inl (err ''validate persisted network resources'' name
             ''the network contains duplicate resource kinds'')
      else check_resources err name (pnr_resource r # seen) rs)"

definition validate_persisted_network :: "(string \<Rightarrow> u8 list) \<Rightarrow> StoredMicroVm \<Rightarrow> unit result" where
  "validate_persisted_network hash stored =
     bindR (require_full ''verify persisted network'' stored) (\<lambda>(n, _, _).
     let mode = expected_mode stored; name = vm_name (st_record stored);
         err = Network (NetworkMode_as_str mode) in
     if nc_mode (pn_config n) \<noteq> mode
     then Inl (err ''validate persisted network mode'' name
            ''the persisted network mode does not match the VM configuration'')
     else if pn_guest_mac n \<noteq> guest_mac hash name
     then Inl (err ''validate persisted network identity'' name
            ''the persisted guest MAC does not match the VM identity'')
     else bindR (check_resources err name [] (pn_resources n)) (\<lambda>_.
       case mode of
         HostOnly \<Rightarrow>
           if \<not> host_only_addresses_are_consistent n \<or> nc_prefix_length (pn_config n) \<noteq> 30
             \<or> nc_bridge_name (pn_config n) \<noteq> None \<or> nc_uplink_name (pn_config n) \<noteq> None
             \<or> pn_dhcp_lease_reference n \<noteq> None
           then Inl (err ''validate persisted host-only network'' name
                  ''host-only network metadata is incomplete or inconsistent'')
           else Inr ()
       | Lan \<Rightarrow>
           if nc_lan_address (pn_config n) = None \<or> nc_uplink_name (pn_config n) = None
             \<or> pn_uplink_cidr n = None \<or> \<not> host_only_addresses_are_consistent n
           then Inl (err ''validate persisted LAN network'' name ''LAN network metadata is incomplete'')
           else Inr ()))"

section \<open>Boot artifacts\<close>

definition validate_safe_component :: "string \<Rightarrow> string \<Rightarrow> unit result" where
  "validate_safe_component v kind =
     (if v = [] \<or> v = ''.'' \<or> v = ''..'' \<or> CHR ''/'' \<in> set v \<or> CHR 0x5C \<in> set v
      then Inl (invalid_metadata v (kind @ '' is not a safe path component''))
      else Inr ())"

definition integrity_mismatch :: "string \<Rightarrow> u64 \<Rightarrow> string \<Rightarrow> FileIntegrity \<Rightarrow> SdkError" where
  "integrity_mismatch artifact expected digest i =
     IntegrityMismatch artifact expected (fi_size_bytes i) digest (fi_sha256 i)"

definition resolve_binary :: "'w MicroVmSdk \<Rightarrow> string \<Rightarrow> string \<Rightarrow> ('w sdk, InstalledBinary) sdk_io" where
  "resolve_binary sdk package_id component =
     bindE (liftE (validate_safe_component package_id ''binary package'')) (\<lambda>_.
     bindE (liftE (validate_safe_component component ''binary component'')) (\<lambda>_.
     bindE (repository_read sdk (\<lambda>db. resolve_binary_row package_id component (db_artifacts db))) (\<lambda>b.
     let stale = StaleBinary (ib_package_id b) (ib_component_name b) (ib_path b) in
     if \<not> path_is_below_home (home sdk) (ib_path b) then throwE stale
     else bindE (calculate_file_integrity sdk (ib_path b)) (\<lambda>i.
     case i of
       None \<Rightarrow> throwE stale
     | Some i \<Rightarrow>
         if fi_size_bytes i \<noteq> ib_size_bytes b \<or> fi_sha256 i \<noteq> ib_sha256 b
         then throwE (integrity_mismatch
                (''binary:'' @ ib_package_id b @ ''/'' @ ib_component_name b) (ib_size_bytes b) (ib_sha256 b) i)
         else returnE b))))"

definition map_artifact_resolution_error :: "SdkError \<Rightarrow> string \<Rightarrow> string \<Rightarrow> path \<Rightarrow> SdkError" where
  "map_artifact_resolution_error e kind i p =
     (case e of
        NotFound k n \<Rightarrow>
          ArtifactPrerequisite kind i p (Text (k @ '' artifact '' @ n @ '' was not found in the registry''))
      | StaleBinary pkg c q \<Rightarrow>
          ArtifactPrerequisite kind i p
            (Text (''binary '' @ pkg @ ''/'' @ c @ '' is stale or missing at '' @ show_path q))
      | _ \<Rightarrow> e)"

text \<open>\<open>result.map_err(f)\<close>.\<close>

definition map_err :: "(SdkError \<Rightarrow> SdkError) \<Rightarrow> ('w, 'a) sdk_io \<Rightarrow> ('w, 'a) sdk_io" where
  "map_err f m w = (case m w of (Inl e, w') \<Rightarrow> (Inl (f e), w') | (Inr x, w') \<Rightarrow> (Inr x, w'))"

record StartBootArtifacts =
  ba_kernel_path :: path
  ba_firecracker_path :: path
  ba_firectl_path :: path

definition verify_start_boot_artifacts ::
  "'w MicroVmSdk \<Rightarrow> StoredMicroVm \<Rightarrow> ('w sdk, StartBootArtifacts) sdk_io" where
  "verify_start_boot_artifacts sdk stored =
     (let rec = st_record stored in
      bindE (map_err (\<lambda>e. map_artifact_resolution_error e ''kernel'' (vm_kernel_id rec)
                (in_volume (home sdk) ''artifacts/kernels''))
              (repository_read sdk (\<lambda>db. resolve_kernel (vm_kernel_id rec) (db_artifacts db)))) (\<lambda>kern.
      bindE (verify_regular_file sdk (la_path kern) ''verify start kernel'') (\<lambda>_.
      bindE (map_err (\<lambda>e. map_artifact_resolution_error e ''runtime binary'' (vm_firecracker_package_id rec)
                (in_volume (home sdk) ''tools/firecracker''))
              (resolve_binary sdk (vm_firecracker_package_id rec) ''firecracker'')) (\<lambda>firecracker.
      bindE (verify_executable_file sdk (ib_path firecracker) ''firecracker'') (\<lambda>_.
      bindE (map_err (\<lambda>e. map_artifact_resolution_error e ''runtime binary'' (vm_firectl_package_id rec)
                (in_volume (home sdk) ''tools/firectl''))
              (resolve_binary sdk (vm_firectl_package_id rec) ''firectl'')) (\<lambda>firectl.
      bindE (verify_executable_file sdk (ib_path firectl) ''firectl'') (\<lambda>_.
      returnE \<lparr>ba_kernel_path = la_path kern, ba_firecracker_path = ib_path firecracker,
        ba_firectl_path = ib_path firectl\<rparr>)))))))"

section \<open>Common steps\<close>

definition vm_not_found :: "string \<Rightarrow> SdkError" where
  "vm_not_found name = NotFound ''MicroVM'' name"

definition load_vm :: "'w MicroVmSdk \<Rightarrow> string \<Rightarrow> ('w sdk, StoredMicroVm) sdk_io" where
  "load_vm sdk name =
     bindE (repository_read sdk (find_microvm name)) (\<lambda>x. require_some x (vm_not_found name))"

definition lock_and_load :: "'w MicroVmSdk \<Rightarrow> string \<Rightarrow> ('w sdk, StoredMicroVm) sdk_io" where
  "lock_and_load sdk name =
     bindE (on_env (acquire_lifecycle_lock sdk (home sdk) name)) (\<lambda>_. load_vm sdk name)"

definition socket_live :: "'w MicroVmSdk \<Rightarrow> StoredMicroVm \<Rightarrow> ('w sdk, bool) sdk_io" where
  "socket_live sdk stored = on_env (socket_answers (runtime sdk) (vm_socket_path (st_record stored)))"

definition refers_to_vm ::
  "'w MicroVmSdk \<Rightarrow> StoredMicroVm \<Rightarrow> u32 \<Rightarrow> path \<Rightarrow> path \<Rightarrow> ('w sdk, bool) sdk_io" where
  "refers_to_vm sdk stored pid firectl firecracker =
     on_env (process_references_vm (runtime sdk) pid (vm_socket_path (st_record stored)) firectl firecracker)"

definition release_vm_mapping :: "'w MicroVmSdk \<Rightarrow> StoredMicroVm \<Rightarrow> ('w sdk, unit) sdk_io" where
  "release_vm_mapping sdk stored =
     on_env (release_mapping (runtime_disk sdk) (home sdk) (vm_name (st_record stored))
       (vm_rootfs_path (st_record stored)))"

definition temporary_runtime :: "string \<Rightarrow> string \<Rightarrow> bool \<Rightarrow> SdkError" where
  "temporary_runtime component reason stopped = TemporaryRuntime component (Text reason) stopped"

definition verify_recorded_process_exited :: "'w MicroVmSdk \<Rightarrow> StoredMicroVm \<Rightarrow> ('w sdk, unit) sdk_io" where
  "verify_recorded_process_exited sdk stored =
     (case st_runtime stored of
        None \<Rightarrow> returnE ()
      | Some r \<Rightarrow>
          (case rt_process_id r of
             None \<Rightarrow> returnE ()
           | Some pid \<Rightarrow>
               bindE (refers_to_vm sdk stored pid (rt_firectl_path r) (rt_firecracker_path r)) (\<lambda>alive.
               if alive
               then throwE (temporary_runtime ''firecracker''
                      ''the control socket is silent but the recorded machine process is still alive'' False)
               else returnE ())))"

definition remove_stale_socket :: "'w MicroVmSdk \<Rightarrow> StoredMicroVm \<Rightarrow> ('w sdk, unit) sdk_io" where
  "remove_stale_socket sdk stored =
     (let socket = vm_socket_path (st_record stored) in
      bindE (path_entry_exists sdk socket) (\<lambda>present.
      if \<not> present then returnE ()
      else bindE (socket_live sdk stored) (\<lambda>live.
      if live
      then throwE (temporary_runtime ''firecracker.sock''
             ''the machine control socket answered while the VM was not live'' False)
      else filesystem_call ''remove stale machine control socket'' socket
             (remove_file (files sdk) socket))))"

definition stopped_runtime :: "StoredMicroVm \<Rightarrow> PersistedRuntime" where
  "stopped_runtime stored =
     \<lparr>rt_firecracker_path = (case st_runtime stored of None \<Rightarrow> [] | Some r \<Rightarrow> rt_firecracker_path r),
      rt_firectl_path = (case st_runtime stored of None \<Rightarrow> [] | Some r \<Rightarrow> rt_firectl_path r),
      rt_socket_path = vm_socket_path (st_record stored), rt_process_id = None,
      rt_process_state = ''stopped''\<rparr>"

definition put_runtime :: "'w MicroVmSdk \<Rightarrow> StoredMicroVm \<Rightarrow> PersistedRuntime \<Rightarrow> ('w sdk, unit) sdk_io" where
  "put_runtime sdk stored r =
     repository_stamped sdk (\<lambda>now. persist_runtime now (vm_id (st_record stored)) r)"

definition reset_runtime_to_stopped :: "'w MicroVmSdk \<Rightarrow> StoredMicroVm \<Rightarrow> ('w sdk, unit) sdk_io" where
  "reset_runtime_to_stopped sdk stored = put_runtime sdk stored (stopped_runtime stored)"

definition finish_stopped_vm ::
  "'w MicroVmSdk \<Rightarrow> StoredMicroVm \<Rightarrow> bool \<Rightarrow> ('w sdk, MicroVmStopResult) sdk_io" where
  "finish_stopped_vm sdk stored forced =
     bindE (release_vm_mapping sdk stored) (\<lambda>_.
     bindE (remove_stale_socket sdk stored) (\<lambda>_.
     bindE (reset_runtime_to_stopped sdk stored) (\<lambda>_.
     liftE (build_stop_result stored forced))))"

section \<open>Cleaning up a failed launch\<close>

text \<open>One step of a clean-up: its failure, if any, is added to the failures.\<close>

definition note_failure :: "message list \<Rightarrow> ('w, unit) sdk_io \<Rightarrow> ('w, message list) sdk_io" where
  "note_failure failures m =
     bindE (attemptE m) (\<lambda>r. returnE (case r of Inl e \<Rightarrow> failures @ [Shown e] | Inr _ \<Rightarrow> failures))"

definition note_if_clean :: "message list \<Rightarrow> ('w, unit) sdk_io \<Rightarrow> ('w, message list) sdk_io" where
  "note_if_clean failures m = (if failures = [] then note_failure failures m else returnE failures)"

definition cleanup_unstarted_launch ::
  "'w MicroVmSdk \<Rightarrow> StoredMicroVm \<Rightarrow> SdkError \<Rightarrow> ('w sdk, 'a) sdk_io" where
  "cleanup_unstarted_launch sdk stored primary =
     bindE (note_failure [] (release_vm_mapping sdk stored)) (\<lambda>f1.
     bindE (note_if_clean f1 (reset_runtime_to_stopped sdk stored)) (\<lambda>f2.
     throwE (with_cleanup_failures primary f2)))"

definition STOP_EXIT_DEADLINE :: nat where
  "STOP_EXIT_DEADLINE = 60"

definition STOP_KILL_DEADLINE :: nat where
  "STOP_KILL_DEADLINE = 10"

definition cleanup_failed_launch ::
  "'w MicroVmSdk \<Rightarrow> StoredMicroVm \<Rightarrow> u32 \<Rightarrow> PersistedRuntime \<Rightarrow> SdkError \<Rightarrow> ('w sdk, 'a) sdk_io" where
  "cleanup_failed_launch sdk stored pid starting primary =
     bindE (note_failure [] (on_env (terminate_spawned (runtime sdk) pid))) (\<lambda>f1.
     bindE (attemptE (on_env (wait_for_stop (runtime sdk) (vm_socket_path (st_record stored)) (Some pid)
              (rt_firectl_path starting) (rt_firecracker_path starting) STOP_KILL_DEADLINE))) (\<lambda>stopped.
     if stopped \<noteq> Inr True
     then bindE (attemptE (put_runtime sdk stored starting)) (\<lambda>kept.
          let f2 = (case kept of
                Inl e \<Rightarrow> f1 @ [Prefixed ''retain starting process identity: '' e]
              | Inr _ \<Rightarrow> f1)
          in throwE (Cleanup (Shown primary)
               (f2 @ [Text ''the spawned machine process could not be confirmed stopped''])))
     else
     bindE (note_failure f1 (release_vm_mapping sdk stored)) (\<lambda>f2.
     bindE (note_if_clean f2 (remove_stale_socket sdk stored)) (\<lambda>f3.
     bindE (note_if_clean f3 (reset_runtime_to_stopped sdk stored)) (\<lambda>f4.
     throwE (with_cleanup_failures primary f4))))))"

section \<open>Starting\<close>

definition reconcile_request :: "StoredMicroVm \<Rightarrow> PersistedNetwork \<Rightarrow> NetworkRequest" where
  "reconcile_request stored n =
     \<lparr>nr_vm_name = vm_name (st_record stored), nr_mode = expected_mode stored,
      nr_guest_mac = pn_guest_mac n, nr_lan_address_override = None, nr_guest_address_override = None,
      nr_prefix_length_override = None, nr_gateway_override = None, nr_exact_network_values = False\<rparr>"

definition network_mode_mismatch :: "StoredMicroVm \<Rightarrow> SdkError" where
  "network_mode_mismatch stored =
     Network (NetworkMode_as_str (expected_mode stored)) ''validate persisted network mode''
       (vm_name (st_record stored)) ''the persisted network mode does not match the VM configuration''"

definition reconcile_start_network :: "'w MicroVmSdk \<Rightarrow> StoredMicroVm \<Rightarrow> ('w sdk, StoredMicroVm) sdk_io" where
  "reconcile_start_network sdk stored =
     bindE (liftE (require_full ''start MicroVM'' stored)) (\<lambda>(n, _, _).
     if nc_mode (pn_config n) \<noteq> expected_mode stored then throwE (network_mode_mismatch stored)
     else
     bindE (repository_read sdk (\<lambda>db. Inr (list_host_only_networks db))) (\<lambda>used.
     bindE (repository_read sdk (\<lambda>db. Inr (list_lan_addresses db))) (\<lambda>used_lan.
     bindE (on_env (configure_port (network sdk) (reconcile_request stored n) (Some n) used used_lan)) (\<lambda>outcome.
     bindE (repository_stamped sdk (\<lambda>now. update_network now (vm_id (st_record stored)) (no_persisted outcome))) (\<lambda>_.
     load_vm sdk (vm_name (st_record stored)))))))"

definition launch_kernel_options :: "Distribution \<Rightarrow> PersistedNetwork \<Rightarrow> string" where
  "launch_kernel_options d n =
     (let args = join_with '' '' (bc_kernel_args (d_boot d)) in
      str_trim ((if args = [] then [] else args @ '' '') @ ''root='' @ bc_root_device (d_boot d) @ '' ''
        @ pn_desired_boot_parameters n))"

definition find_distribution :: "string \<Rightarrow> TaumaruRegistry \<Rightarrow> Distribution result" where
  "find_distribution i manifest =
     ok_or (find (\<lambda>d. d_id d = i) (reg_distributions manifest)) (NotFound ''distribution'' i)"

definition start_launch_request ::
  "'w MicroVmSdk \<Rightarrow> StoredMicroVm \<Rightarrow> StartBootArtifacts \<Rightarrow> ('w sdk, StartRequest) sdk_io" where
  "start_launch_request sdk stored boot =
     (let rec = st_record stored in
      bindE (on_env (fetch_manifest sdk)) (\<lambda>manifest.
      bindE (liftE (find_distribution (vm_distribution_id rec) manifest)) (\<lambda>d.
      bindE (liftE (require_full ''start MicroVM'' stored)) (\<lambda>(n, _, _).
      returnE \<lparr>sr_vm_name = vm_name rec, sr_firectl_path = ba_firectl_path boot,
        sr_firecracker_path = ba_firecracker_path boot, sr_kernel_path = ba_kernel_path boot,
        sr_runtime_disk_path = vm_rootfs_path rec, sr_vcpu_count = vm_vcpu_count rec,
        sr_memory_effective_mib = vm_memory_effective_mib rec,
        sr_kernel_options = launch_kernel_options d n, sr_tap_name = nc_tap_name (pn_config n),
        sr_guest_mac = pn_guest_mac n, sr_socket_path = vm_socket_path rec,
        sr_log_path = in_volume (vm_volume_path rec) ''firecracker.log''\<rparr>))))"

text \<open>The live socket belongs to a machine this SDK started: return it, and promote its state.\<close>

definition adopt_running :: "'w MicroVmSdk \<Rightarrow> StoredMicroVm \<Rightarrow> ('w sdk, MicroVmStartResult) sdk_io" where
  "adopt_running sdk stored =
     (let foreign = temporary_runtime ''firecracker'' ''the machine is already running outside SDK management'' False in
      bindE (require_some (st_runtime stored) foreign) (\<lambda>r.
      bindE (require_some (rt_process_id r) foreign) (\<lambda>pid.
      if rt_process_state r \<notin> {''starting'', ''running''}
      then throwE (temporary_runtime ''firecracker''
             ''the live machine has no adoptable persisted process state'' False)
      else
      bindE (refers_to_vm sdk stored pid (rt_firectl_path r) (rt_firecracker_path r)) (\<lambda>mine.
      if \<not> mine then throwE foreign
      else
      bindE (whenE (rt_process_state r = ''starting'')
               (put_runtime sdk stored (r\<lparr>rt_process_state := ''running''\<rparr>))) (\<lambda>_.
      liftE (build_start_result stored pid))))))"

definition refuse_live_process :: "'w MicroVmSdk \<Rightarrow> StoredMicroVm \<Rightarrow> ('w sdk, unit) sdk_io" where
  "refuse_live_process sdk stored =
     (case st_runtime stored of
        None \<Rightarrow> returnE ()
      | Some r \<Rightarrow>
          (case rt_process_id r of
             None \<Rightarrow> returnE ()
           | Some pid \<Rightarrow>
               bindE (refers_to_vm sdk stored pid (rt_firectl_path r) (rt_firecracker_path r)) (\<lambda>alive.
               if alive
               then throwE (temporary_runtime ''firecracker''
                      ''the recorded machine process is still alive while its control socket is silent'' False)
               else returnE ())))"

definition starting_runtime :: "StoredMicroVm \<Rightarrow> StartBootArtifacts \<Rightarrow> u32 \<Rightarrow> PersistedRuntime" where
  "starting_runtime stored boot pid =
     \<lparr>rt_firecracker_path = ba_firecracker_path boot, rt_firectl_path = ba_firectl_path boot,
      rt_socket_path = vm_socket_path (st_record stored), rt_process_id = Some pid,
      rt_process_state = ''starting''\<rparr>"

text \<open>From the launch on: the process identity is persisted before the socket is awaited.\<close>

definition launch_machine ::
  "'w MicroVmSdk \<Rightarrow> StoredMicroVm \<Rightarrow> StartBootArtifacts \<Rightarrow> StartRequest
     \<Rightarrow> ('w sdk, MicroVmStartResult) sdk_io" where
  "launch_machine sdk stored boot request =
     bindE (attemptE (on_env (launch_detached (runtime sdk) request))) (\<lambda>launched.
     case launched of
       Inl e \<Rightarrow> cleanup_unstarted_launch sdk stored e
     | Inr pid \<Rightarrow>
         if pid = 0
         then cleanup_unstarted_launch sdk stored (temporary_runtime ''firecracker''
                ''the machine launch returned an invalid process identifier'' True)
         else
         let starting = starting_runtime stored boot pid in
         bindE (attemptE (put_runtime sdk stored starting)) (\<lambda>recorded.
         case recorded of
           Inl primary \<Rightarrow> cleanup_failed_launch sdk stored pid starting primary
         | Inr _ \<Rightarrow>
             bindE (attemptE (on_env (wait_for_socket (runtime sdk) (vm_socket_path (st_record stored))))) (\<lambda>answered.
             case answered of
               Inl primary \<Rightarrow> cleanup_failed_launch sdk stored pid starting primary
             | Inr False \<Rightarrow> cleanup_failed_launch sdk stored pid starting (temporary_runtime ''firecracker.sock''
                   ''the machine control socket did not answer after launch'' True)
             | Inr True \<Rightarrow>
                 bindE (put_runtime sdk stored (starting\<lparr>rt_process_state := ''running''\<rparr>)) (\<lambda>_.
                 bindE (load_vm sdk (vm_name (st_record stored))) (\<lambda>final.
                 liftE (build_start_result final pid))))))"

definition start_microvm :: "'w MicroVmSdk \<Rightarrow> string \<Rightarrow> ('w sdk, MicroVmStartResult) sdk_io" where
  "start_microvm sdk name =
     bindE (liftE (validate_vm_name name)) (\<lambda>_.
     bindE (lock_and_load sdk name) (\<lambda>stored.
     bindE (liftE (require_complete ''start MicroVM'' stored)) (\<lambda>_.
     bindE (validate_start_prerequisites sdk stored) (\<lambda>_.
     bindE (liftE (validate_persisted_network (sha256 sdk) stored)) (\<lambda>_.
     bindE (verify_start_boot_artifacts sdk stored) (\<lambda>boot.
     bindE (socket_live sdk stored) (\<lambda>live.
     if live then adopt_running sdk stored
     else
     bindE (refuse_live_process sdk stored) (\<lambda>_.
     bindE (release_vm_mapping sdk stored) (\<lambda>_.
     bindE (remove_stale_socket sdk stored) (\<lambda>_.
     bindE (reset_runtime_to_stopped sdk stored) (\<lambda>_.
     bindE (on_env (validate_host (runtime sdk))) (\<lambda>_.
     bindE (reconcile_start_network sdk stored) (\<lambda>reconciled.
     bindE (start_launch_request sdk reconciled boot) (\<lambda>request.
     bindE (on_env (ensure_mapping (runtime_disk sdk) (home sdk) (vm_name (st_record reconciled))
              (vm_rootfs_path (st_record reconciled)))) (\<lambda>disk.
     launch_machine sdk reconciled boot (request\<lparr>sr_runtime_disk_path := disk\<rparr>))))))))))))))))"

section \<open>Stopping\<close>

text \<open>A silent socket after a shutdown that was refused or lost.\<close>

definition finish_silent :: "'w MicroVmSdk \<Rightarrow> StoredMicroVm \<Rightarrow> ('w sdk, MicroVmStopResult) sdk_io" where
  "finish_silent sdk stored =
     bindE (verify_recorded_process_exited sdk stored) (\<lambda>_. finish_stopped_vm sdk stored False)"

definition force_stop ::
  "'w MicroVmSdk \<Rightarrow> StoredMicroVm \<Rightarrow> u32 \<Rightarrow> path \<Rightarrow> path \<Rightarrow> ('w sdk, MicroVmStopResult) sdk_io" where
  "force_stop sdk stored pid firectl firecracker =
     bindE (refers_to_vm sdk stored pid firectl firecracker) (\<lambda>mine.
     if \<not> mine
     then bindE (socket_live sdk stored) (\<lambda>live.
          if \<not> live then finish_stopped_vm sdk stored False
          else throwE (temporary_runtime ''firecracker''
                 ''the machine is still running but its process identity is unknown'' False))
     else
     bindE (on_env (terminate_spawned (runtime sdk) pid)) (\<lambda>_.
     bindE (on_env (wait_for_stop (runtime sdk) (vm_socket_path (st_record stored)) (Some pid) firectl
              firecracker STOP_KILL_DEADLINE)) (\<lambda>stopped.
     if stopped then finish_stopped_vm sdk stored True
     else throwE (temporary_runtime ''firecracker''
            ''the machine is still running after forced termination'' False))))"

definition stop_microvm :: "'w MicroVmSdk \<Rightarrow> string \<Rightarrow> ('w sdk, MicroVmStopResult) sdk_io" where
  "stop_microvm sdk name =
     bindE (liftE (validate_vm_name name)) (\<lambda>_.
     bindE (lock_and_load sdk name) (\<lambda>stored.
     bindE (liftE (require_complete ''stop MicroVM'' stored)) (\<lambda>_.
     bindE (socket_live sdk stored) (\<lambda>live.
     if \<not> live then finish_silent sdk stored
     else
     bindE (on_env (request_shutdown (runtime sdk) (vm_socket_path (st_record stored)))) (\<lambda>delivered.
     if \<not> delivered
     then bindE (socket_live sdk stored) (\<lambda>still.
          if \<not> still then finish_silent sdk stored
          else throwE (temporary_runtime ''firecracker.sock''
                 ''the machine shutdown request could not be confirmed'' False))
     else
     let firectl = (case st_runtime stored of None \<Rightarrow> [] | Some r \<Rightarrow> rt_firectl_path r);
         firecracker = (case st_runtime stored of None \<Rightarrow> [] | Some r \<Rightarrow> rt_firecracker_path r);
         pid = Option.bind (st_runtime stored) rt_process_id
     in
     bindE (on_env (wait_for_stop (runtime sdk) (vm_socket_path (st_record stored)) pid firectl
              firecracker STOP_EXIT_DEADLINE)) (\<lambda>stopped.
     if stopped then finish_stopped_vm sdk stored False
     else (case pid of
             None \<Rightarrow> throwE (temporary_runtime ''firecracker''
               ''the machine is still running and has no process identity to force'' False)
           | Some p \<Rightarrow> force_stop sdk stored p firectl firecracker)))))))"

section \<open>Deleting\<close>

definition remove_owned_volume :: "'w MicroVmSdk \<Rightarrow> StoredMicroVm \<Rightarrow> ('w sdk, unit) sdk_io" where
  "remove_owned_volume sdk stored =
     (let rec = st_record stored; volume = vm_volume_path rec in
      if \<not> is_absolute volume \<or> \<not> path_is_below_home (home sdk) volume \<or> volume = home sdk
      then throwE (StorageConflict (vm_name rec) volume ''persisted VM volume''
             ''the persisted VM volume must be a directory strictly below the SDK home'')
      else if vm_rootfs_path rec \<noteq> in_volume volume ''rootfs.ext4''
        \<or> vm_socket_path rec \<noteq> in_volume volume ''firecracker.sock''
      then throwE (StorageConflict (vm_name rec) volume ''persisted VM paths''
             ''rootfs and socket paths must remain inside the VM volume'')
      else if (case st_credential stored of
                 None \<Rightarrow> False
               | Some c \<Rightarrow> pc_private_key_path c \<noteq> in_volume volume ''ssh/id_ed25519''
                   \<or> pc_public_key_path c \<noteq> in_volume volume ''ssh/id_ed25519.pub'')
      then throwE (Credential ''verify owned key paths'' volume ''credential paths are outside the VM volume'')
      else
      bindE (attempt_call (remove_dir_all (files sdk) volume)) (\<lambda>r.
      case r of
        Inr _ \<Rightarrow> returnE ()
      | Inl e \<Rightarrow> if io_kind e = NotFoundKind then returnE ()
                else throwE (Filesystem ''remove VM volume'' volume e)))"

definition delete_microvm_op :: "'w MicroVmSdk \<Rightarrow> string \<Rightarrow> ('w sdk, MicroVmDeleteResult) sdk_io" where
  "delete_microvm_op sdk name =
     bindE (liftE (validate_vm_name name)) (\<lambda>_.
     bindE (load_vm sdk name) (\<lambda>stored.
     bindE (socket_live sdk stored) (\<lambda>live.
     if live
     then throwE (LifecycleConflict (vm_name (st_record stored)) ''running''
            ''delete MicroVM (stop the machine first)'')
     else
     bindE (case st_network stored of
              None \<Rightarrow> returnE ()
            | Some n \<Rightarrow> on_env (cleanup_for_delete_port (network sdk) n)) (\<lambda>_.
     bindE (remove_owned_volume sdk stored) (\<lambda>_.
     bindE (repository_stamped sdk (\<lambda>now. delete_microvm now (vm_id (st_record stored)))) (\<lambda>_.
     returnE \<lparr>mdr_name = vm_name (st_record stored)\<rparr>))))))"

section \<open>Updating resources\<close>

definition check_update_request :: "UpdateMicroVmRequest \<Rightarrow> unit result" where
  "check_update_request r =
     (if ur_disk_size_bytes r = None \<and> ur_memory_bytes r = None \<and> ur_vcpu_count r = None
      then Inl (InvalidRequest ''update''
             ''at least one of disk_size_bytes, memory_bytes, or vcpu_count must be set'')
      else if ur_disk_size_bytes r = Some 0
      then Inl (InvalidRequest ''disk_size_bytes'' ''must be greater than zero'')
      else if ur_memory_bytes r = Some 0
      then Inl (InvalidRequest ''memory_bytes'' ''must be greater than zero'')
      else if ur_vcpu_count r = Some 0
      then Inl (InvalidRequest ''vcpu_count'' ''must be greater than zero'')
      else if (case ur_disk_size_bytes r of None \<Rightarrow> False | Some d \<Rightarrow> 2 ^ 63 \<le> unat d)
      then Inl (InvalidRequest ''disk_size_bytes'' ''value exceeds the SQLite INTEGER range'')
      else if (case ur_memory_bytes r of None \<Rightarrow> False | Some m \<Rightarrow> 2 ^ 63 \<le> unat m)
      then Inl (InvalidRequest ''memory_bytes'' ''value exceeds the SQLite INTEGER range'')
      else Inr ())"

definition check_distribution_minimums :: "Distribution \<Rightarrow> u64 \<Rightarrow> u32 \<Rightarrow> unit result" where
  "check_distribution_minimums d new_memory new_vcpus =
     bindR (minimum_memory_bytes (dr_min_memory_mb (d_requirements d))) (\<lambda>minimum.
     if new_memory < minimum
     then Inl (InvalidRequest ''memory_bytes'' (''must be at least '' @ show_nat (unat minimum)
            @ '' bytes for distribution '' @ d_id d))
     else if new_vcpus < dr_min_vcpus (d_requirements d)
     then Inl (InvalidRequest ''vcpu_count'' (''must be at least ''
            @ show_nat (unat (dr_min_vcpus (d_requirements d))) @ '' vCPUs for distribution '' @ d_id d))
     else Inr ())"

definition effective_mib :: "u64 \<Rightarrow> u64 result" where
  "effective_mib memory =
     bindR (ok_or (checked_add memory (BYTES_PER_MIB - 1))
             (InvalidRequest ''memory_bytes'' ''value cannot be converted to MiB'')) (\<lambda>padded.
     let mib = padded div BYTES_PER_MIB in
     if mib = 0 \<or> 2 ^ 63 \<le> unat mib
     then Inl (InvalidRequest ''memory_bytes'' ''value cannot be represented as a Firecracker MiB value'')
     else Inr mib)"

definition update_result :: "MicroVmRecord \<Rightarrow> u64 \<Rightarrow> u64 \<Rightarrow> u32 \<Rightarrow> bool \<Rightarrow> MicroVmUpdateResult" where
  "update_result rec disk memory vcpus resized =
     \<lparr>mur_name = vm_name rec, mur_state = Stopped, mur_distribution_id = vm_distribution_id rec,
      mur_image_id = vm_image_id rec, mur_volume_path = vm_volume_path rec,
      mur_rootfs_path = vm_rootfs_path rec, mur_vcpu_count = vcpus, mur_memory_bytes = memory,
      mur_disk_size_bytes = disk, mur_disk_resized = resized\<rparr>"

text \<open>Undo a change of the disk after \<open>primary\<close>, and report the primary error.\<close>

definition restore_disk :: "'w MicroVmSdk \<Rightarrow> path \<Rightarrow> u64 \<Rightarrow> SdkError \<Rightarrow> ('w sdk, 'a) sdk_io" where
  "restore_disk sdk rootfs previous primary =
     bindE (attemptE (on_env (resize_rootfs (storage sdk) rootfs previous))) (\<lambda>r.
     case r of Inl e \<Rightarrow> throwE (Cleanup (Shown primary) [Shown e]) | Inr _ \<Rightarrow> throwE primary)"

definition converge_disk :: "'w MicroVmSdk \<Rightarrow> MicroVmRecord \<Rightarrow> ('w sdk, unit) sdk_io" where
  "converge_disk sdk rec =
     (let rootfs = vm_rootfs_path rec in
      bindE (filesystem_call ''inspect VM rootfs'' rootfs (symlink_metadata (files sdk) rootfs)) (\<lambda>m.
      if md_is_symlink m \<or> \<not> md_is_file m
      then throwE (GuestFilesystem ''inspect VM rootfs'' rootfs ''the root disk is not a regular file'')
      else whenE (md_len m \<noteq> vm_disk_size_bytes rec)
             (on_env (resize_rootfs (storage sdk) rootfs (vm_disk_size_bytes rec)))))"

definition resize_disk :: "'w MicroVmSdk \<Rightarrow> StoredMicroVm \<Rightarrow> u64 \<Rightarrow> ('w sdk, unit) sdk_io" where
  "resize_disk sdk stored new_disk =
     (let rec = st_record stored; rootfs = vm_rootfs_path rec in
      bindE (on_env (disk_used_bytes (storage sdk) rootfs)) (\<lambda>used.
      if new_disk < used
      then throwE (InvalidRequest ''disk_size_bytes'' (''requested '' @ show_nat (unat new_disk)
             @ '' bytes is smaller than the used '' @ show_nat (unat used) @ '' bytes''))
      else
      bindE (release_vm_mapping sdk stored) (\<lambda>_.
      bindE (attemptE (on_env (resize_rootfs (storage sdk) rootfs new_disk))) (\<lambda>r.
      case r of
        Inl e \<Rightarrow> restore_disk sdk rootfs (vm_disk_size_bytes rec) e
      | Inr _ \<Rightarrow> returnE ()))))"

text \<open>The row is written after the disk; a refused row restores the previous size of the disk.\<close>

definition commit_resources ::
  "'w MicroVmSdk \<Rightarrow> MicroVmRecord \<Rightarrow> u64 \<Rightarrow> u64 \<Rightarrow> u64 \<Rightarrow> u32 \<Rightarrow> bool \<Rightarrow> ('w sdk, MicroVmUpdateResult) sdk_io" where
  "commit_resources sdk rec new_disk new_memory mib new_vcpus disk_changed =
     bindE (attemptE (repository_stamped sdk (\<lambda>now.
              update_microvm_resources now (vm_id rec) new_disk new_memory mib new_vcpus))) (\<lambda>updated.
     case updated of
       Inl primary \<Rightarrow>
         if disk_changed then restore_disk sdk (vm_rootfs_path rec) (vm_disk_size_bytes rec) primary
         else throwE primary
     | Inr _ \<Rightarrow> returnE (update_result rec new_disk new_memory new_vcpus disk_changed))"

definition update_microvm :: "'w MicroVmSdk \<Rightarrow> UpdateMicroVmRequest \<Rightarrow> ('w sdk, MicroVmUpdateResult) sdk_io" where
  "update_microvm sdk request =
     bindE (liftE (validate_vm_name (ur_name request))) (\<lambda>_.
     bindE (liftE (check_update_request request)) (\<lambda>_.
     bindE (lock_and_load sdk (ur_name request)) (\<lambda>stored.
     bindE (liftE (require_complete ''edit MicroVM'' stored)) (\<lambda>_.
     bindE (socket_live sdk stored) (\<lambda>live.
     if live
     then throwE (LifecycleConflict (vm_name (st_record stored)) ''running'' ''edit MicroVM (stop the machine first)'')
     else
     bindE (verify_recorded_process_exited sdk stored) (\<lambda>_.
     bindE (on_env (fetch_manifest sdk)) (\<lambda>manifest.
     let rec = st_record stored;
         new_disk = (case ur_disk_size_bytes request of None \<Rightarrow> vm_disk_size_bytes rec | Some d \<Rightarrow> d);
         new_memory = (case ur_memory_bytes request of None \<Rightarrow> vm_memory_bytes rec | Some m \<Rightarrow> m);
         new_vcpus = (case ur_vcpu_count request of None \<Rightarrow> vm_vcpu_count rec | Some v \<Rightarrow> v);
         disk_changed = (new_disk \<noteq> vm_disk_size_bytes rec)
     in
     bindE (liftE (find_distribution (vm_distribution_id rec) manifest)) (\<lambda>d.
     bindE (liftE (check_distribution_minimums d new_memory new_vcpus)) (\<lambda>_.
     bindE (liftE (effective_mib new_memory)) (\<lambda>mib.
     if \<not> disk_changed \<and> new_memory = vm_memory_bytes rec \<and> new_vcpus = vm_vcpu_count rec
     then returnE (update_result rec (vm_disk_size_bytes rec) (vm_memory_bytes rec) (vm_vcpu_count rec) False)
     else
     bindE (converge_disk sdk rec) (\<lambda>_.
     bindE (whenE disk_changed (resize_disk sdk stored new_disk)) (\<lambda>_.
     commit_resources sdk rec new_disk new_memory mib new_vcpus disk_changed))))))))))))"

section \<open>Reconciling the network, and listing\<close>

record NetworkConfigurationResult =
  ncr_name :: string
  ncr_configuration :: NetworkConfiguration
  ncr_applied :: "NetworkResource list"
  ncr_skipped :: "NetworkResource list"

definition configure_network :: "'w MicroVmSdk \<Rightarrow> string \<Rightarrow> ('w sdk, NetworkConfigurationResult) sdk_io" where
  "configure_network sdk name =
     bindE (liftE (validate_vm_name name)) (\<lambda>_.
     bindE (load_vm sdk name) (\<lambda>stored.
     bindE (liftE (require_full ''configure network'' stored)) (\<lambda>(n, _, r).
     bindE (validate_persisted_files sdk stored) (\<lambda>_.
     bindE (liftE (validate_persisted_network (sha256 sdk) stored)) (\<lambda>_.
     if nc_mode (pn_config n) \<noteq> expected_mode stored then throwE (network_mode_mismatch stored)
     else
     bindE (repository_read sdk (\<lambda>db. Inr (list_host_only_networks db))) (\<lambda>used.
     bindE (on_env (configure_port (network sdk) (reconcile_request stored n) (Some n) used [])) (\<lambda>outcome.
     bindE (on_env (verify_stopped (runtime sdk) (vm_socket_path (st_record stored)))) (\<lambda>_.
     bindE (repository_stamped sdk (\<lambda>now. update_network now (vm_id (st_record stored)) (no_persisted outcome))) (\<lambda>_.
     bindE (put_runtime sdk stored r) (\<lambda>_.
     returnE \<lparr>ncr_name = vm_name (st_record stored), ncr_configuration = pn_config (no_persisted outcome),
       ncr_applied = no_applied outcome, ncr_skipped = no_skipped outcome\<rparr>))))))))))"

definition probe_state :: "'w MicroVmSdk \<Rightarrow> StoredMicroVm \<Rightarrow> ('w sdk, MicroVmState) sdk_io" where
  "probe_state sdk vm =
     bindE (attemptE (case st_runtime vm of
              None \<Rightarrow> returnE False
            | Some r \<Rightarrow> (case rt_process_id r of
                None \<Rightarrow> returnE False
              | Some pid \<Rightarrow> refers_to_vm sdk vm pid (rt_firectl_path r) (rt_firecracker_path r)))) (\<lambda>_.
     bindE (attemptE (socket_live sdk vm)) (\<lambda>live.
     returnE (if live = Inr True then Running else Stopped)))"

fun verify_all :: "'w MicroVmSdk \<Rightarrow> StoredMicroVm list \<Rightarrow> ('w sdk, MicroVmState list) sdk_io" where
  "verify_all sdk [] = returnE []"
| "verify_all sdk (vm # vms) =
     bindE (probe_state sdk vm) (\<lambda>s. bindE (verify_all sdk vms) (\<lambda>ss. returnE (s # ss)))"

definition summary_of :: "StoredMicroVm \<Rightarrow> MicroVmState \<Rightarrow> MicroVmSummary" where
  "summary_of vm state =
     (let rec = st_record vm; c = map_option pn_config (st_network vm) in
      \<lparr>mvs_name = vm_name rec, mvs_state = state, mvs_vcpu_count = vm_vcpu_count rec,
       mvs_memory_bytes = vm_memory_bytes rec, mvs_disk_size_bytes = vm_disk_size_bytes rec,
       mvs_distribution_id = vm_distribution_id rec, mvs_image_id = vm_image_id rec,
       mvs_network_mode = map_option nc_mode c, mvs_guest_address = map_option nc_guest_address c,
       mvs_lan_address = Option.bind c nc_lan_address\<rparr>)"

definition list_microvms :: "'w MicroVmSdk \<Rightarrow> ('w sdk, MicroVmSummary list) sdk_io" where
  "list_microvms sdk =
     bindE (repository_read sdk list_stored_microvms) (\<lambda>stored.
     bindE (verify_all sdk stored) (\<lambda>states. returnE (map2 summary_of stored states)))"

definition running_of :: "StoredMicroVm \<Rightarrow> MicroVmState \<Rightarrow> RunningMicroVm option" where
  "running_of vm state =
     (if state \<noteq> Running then None
      else case (st_network vm, st_credential vm, st_runtime vm) of
        (Some n, Some c, Some _) \<Rightarrow> Some \<lparr>run_name = vm_name (st_record vm), run_ssh = stored_ssh n c\<rparr>
      | _ \<Rightarrow> None)"

definition list_running_microvms :: "'w MicroVmSdk \<Rightarrow> ('w sdk, RunningMicroVm list) sdk_io" where
  "list_running_microvms sdk =
     bindE (repository_read sdk list_stored_microvms) (\<lambda>stored.
     bindE (verify_all sdk stored) (\<lambda>states.
     returnE (List.map_filter (\<lambda>(vm, st). running_of vm st) (zip stored states))))"

definition microvm_disk_used_bytes :: "'w MicroVmSdk \<Rightarrow> string \<Rightarrow> ('w sdk, u64) sdk_io" where
  "microvm_disk_used_bytes sdk name =
     bindE (liftE (validate_vm_name name)) (\<lambda>_.
     bindE (lock_and_load sdk name) (\<lambda>stored.
     bindE (liftE (require_complete ''inspect MicroVM disk usage'' stored)) (\<lambda>_.
     bindE (socket_live sdk stored) (\<lambda>live.
     if live
     then throwE (LifecycleConflict (vm_name (st_record stored)) ''running''
            ''inspect MicroVM disk usage (stop the machine first)'')
     else on_env (disk_used_bytes (storage sdk) (vm_rootfs_path (st_record stored)))))))"

end
