(* ===== verification/Manager_Autostart.thy ===== *)
theory Manager_Autostart
  imports Manager_Lifecycle
begin

text \<open>
  Autostart policies: src/crates/sdk/src/manager/autostart.rs over the repository and \<open>start_microvm\<close>.
\<close>

definition MIN_AUTOSTART_ATTEMPTS :: u32 where
  "MIN_AUTOSTART_ATTEMPTS = 1"

definition MAX_AUTOSTART_ATTEMPTS :: u32 where
  "MAX_AUTOSTART_ATTEMPTS = 10"

definition validate_max_start_attempts :: "u32 \<Rightarrow> unit result" where
  "validate_max_start_attempts attempts =
     (if MIN_AUTOSTART_ATTEMPTS \<le> attempts \<and> attempts \<le> MAX_AUTOSTART_ATTEMPTS then Inr ()
      else Inl (InvalidRequest ''max_start_attempts''
             (''must be between '' @ show_nat (unat MIN_AUTOSTART_ATTEMPTS) @ '' and ''
                @ show_nat (unat MAX_AUTOSTART_ATTEMPTS) @ '', got '' @ show_nat (unat attempts))))"

definition policy_from_settings :: "string \<Rightarrow> AutostartSettings \<Rightarrow> AutostartPolicy" where
  "policy_from_settings name settings =
     \<lparr>ap_name = name, ap_enabled = as_enabled settings,
      ap_max_start_attempts = as_max_start_attempts settings\<rparr>"

definition policy_not_found :: "string \<Rightarrow> SdkError" where
  "policy_not_found name = NotFound ''autostart policy'' name"

definition show_bool :: "bool \<Rightarrow> string" where
  "show_bool b = (if b then ''true'' else ''false'')"

definition settings_conflict :: "AutostartPolicy \<Rightarrow> AutostartPolicy \<Rightarrow> SdkError" where
  "settings_conflict existing requested =
     (if ap_enabled existing \<noteq> ap_enabled requested
      then ConfigurationConflict (ap_name existing) ''autostart.enabled''
             (show_bool (ap_enabled existing)) (show_bool (ap_enabled requested))
      else ConfigurationConflict (ap_name existing) ''autostart.max_start_attempts''
             (show_nat (unat (ap_max_start_attempts existing)))
             (show_nat (unat (ap_max_start_attempts requested))))"

definition require_autostart_microvm :: "'w MicroVmSdk \<Rightarrow> string \<Rightarrow> ('w sdk, StoredMicroVm) sdk_io" where
  "require_autostart_microvm sdk name = load_vm sdk name"

definition create_autostart_policy ::
  "'w MicroVmSdk \<Rightarrow> string \<Rightarrow> AutostartSettings \<Rightarrow> ('w sdk, AutostartPolicy) sdk_io" where
  "create_autostart_policy sdk name settings =
     bindE (liftE (validate_vm_name name)) (\<lambda>_.
     bindE (liftE (validate_max_start_attempts (as_max_start_attempts settings))) (\<lambda>_.
     bindE (require_autostart_microvm sdk name) (\<lambda>stored.
     bindE (repository_read sdk (find_autostart_policy name)) (\<lambda>existing.
     let requested = policy_from_settings name settings in
     case existing of
       Some policy \<Rightarrow>
         if policy = requested then returnE policy else throwE (settings_conflict policy requested)
     | None \<Rightarrow>
         bindE (repository_stamped sdk (\<lambda>now. insert_autostart_policy now (vm_id (st_record stored)) settings)) (\<lambda>_.
         returnE requested)))))"

definition updated_settings :: "AutostartPolicyUpdate \<Rightarrow> AutostartPolicy \<Rightarrow> AutostartSettings" where
  "updated_settings update existing =
     \<lparr>as_enabled = (case au_enabled update of None \<Rightarrow> ap_enabled existing | Some b \<Rightarrow> b),
      as_max_start_attempts = (case au_max_start_attempts update of
         None \<Rightarrow> ap_max_start_attempts existing | Some n \<Rightarrow> n)\<rparr>"

definition update_autostart_policy_op ::
  "'w MicroVmSdk \<Rightarrow> string \<Rightarrow> AutostartPolicyUpdate \<Rightarrow> ('w sdk, AutostartPolicy) sdk_io" where
  "update_autostart_policy_op sdk name update =
     bindE (liftE (validate_vm_name name)) (\<lambda>_.
     bindE (liftE (case au_max_start_attempts update of
              None \<Rightarrow> Inr () | Some n \<Rightarrow> validate_max_start_attempts n)) (\<lambda>_.
     bindE (require_autostart_microvm sdk name) (\<lambda>stored.
     bindE (repository_read sdk (find_autostart_policy name)) (\<lambda>found.
     bindE (require_some found (policy_not_found name)) (\<lambda>existing.
     let settings = updated_settings update existing; updated = policy_from_settings name settings in
     if updated = existing then returnE existing
     else
     bindE (repository_stamped sdk (\<lambda>now. update_autostart_policy now (vm_id (st_record stored)) settings)) (\<lambda>_.
     returnE updated))))))"

definition delete_autostart_policy_op ::
  "'w MicroVmSdk \<Rightarrow> string \<Rightarrow> ('w sdk, AutostartDeleteResult) sdk_io" where
  "delete_autostart_policy_op sdk name =
     bindE (liftE (validate_vm_name name)) (\<lambda>_.
     bindE (require_autostart_microvm sdk name) (\<lambda>stored.
     bindE (repository_write sdk (delete_autostart_policy (vm_id (st_record stored)))) (\<lambda>removed.
     returnE \<lparr>ad_name = name, ad_removed = removed\<rparr>)))"

definition autostart_policy :: "'w MicroVmSdk \<Rightarrow> string \<Rightarrow> ('w sdk, AutostartPolicy option) sdk_io" where
  "autostart_policy sdk name =
     bindE (liftE (validate_vm_name name)) (\<lambda>_. repository_read sdk (find_autostart_policy name))"

definition list_autostart_policies_op :: "'w MicroVmSdk \<Rightarrow> ('w sdk, AutostartPolicy list) sdk_io" where
  "list_autostart_policies_op sdk = repository_read sdk list_autostart_policies"

text \<open>The retry loop. It ends: an attempt that fails is repeated only below the maximum, which the
  32-bit counter reaches without wrapping.\<close>

definition pause :: "'w MicroVmSdk \<Rightarrow> nat \<Rightarrow> ('w sdk, unit) sdk_io" where
  "pause sdk n = on_env (\<lambda>w. (Inr (), sleep sdk n w))"

lemma next_attempt:
  assumes "\<not> limit \<le> (attempt :: u32)"
  shows "unat (attempt + 1) = unat attempt + 1"
proof -
  have "unat attempt < unat limit" using assms by (simp add: word_le_nat_alt)
  moreover have "unat limit < 2 ^ 32" using unsigned_less [of limit] by simp
  ultimately show ?thesis by (simp add: unat_word_ariths)
qed

function start_attempts_from ::
  "'w MicroVmSdk \<Rightarrow> AutostartPolicy \<Rightarrow> u32 \<Rightarrow> ('w sdk, AutostartOutcome) sdk_io" where
  "start_attempts_from sdk policy attempt =
     bindE (attemptE (start_microvm sdk (ap_name policy))) (\<lambda>r.
     case r of
       Inr started \<Rightarrow> returnE \<lparr>ao_name = ap_name policy, ao_attempts = attempt,
         ao_result = AutostartStarted started\<rparr>
     | Inl e \<Rightarrow>
         if ap_max_start_attempts policy \<le> attempt
         then returnE \<lparr>ao_name = ap_name policy, ao_attempts = attempt, ao_result = AutostartFailed e\<rparr>
         else bindE (pause sdk (autostart_retry_backoff sdk * unat attempt)) (\<lambda>_.
              start_attempts_from sdk policy (attempt + 1)))"
  by pat_completeness auto
termination
proof (relation "measure (\<lambda>(sdk, policy, attempt). unat (ap_max_start_attempts policy) - unat attempt)", goal_cases)
  case (2 sdk policy attempt)
  then have limit: "\<not> ap_max_start_attempts policy \<le> attempt" by simp
  then have "unat attempt < unat (ap_max_start_attempts policy)" by (simp add: word_le_nat_alt)
  with next_attempt [OF limit] show ?case by simp
qed simp

declare start_attempts_from.simps [simp del]

definition start_with_attempts :: "'w MicroVmSdk \<Rightarrow> AutostartPolicy \<Rightarrow> ('w sdk, AutostartOutcome) sdk_io" where
  "start_with_attempts sdk policy = start_attempts_from sdk policy 1"

definition autostart_one :: "'w MicroVmSdk \<Rightarrow> AutostartPolicy \<Rightarrow> ('w sdk, AutostartOutcome) sdk_io" where
  "autostart_one sdk policy =
     (if ap_enabled policy then start_with_attempts sdk policy
      else returnE \<lparr>ao_name = ap_name policy, ao_attempts = 0, ao_result = AutostartPaused\<rparr>)"

fun autostart_all :: "'w MicroVmSdk \<Rightarrow> AutostartPolicy list \<Rightarrow> ('w sdk, AutostartOutcome list) sdk_io" where
  "autostart_all sdk [] = returnE []"
| "autostart_all sdk (p # ps) =
     bindE (autostart_one sdk p) (\<lambda>x. bindE (autostart_all sdk ps) (\<lambda>xs. returnE (x # xs)))"

definition start_autostart_microvms :: "'w MicroVmSdk \<Rightarrow> ('w sdk, AutostartOutcome list) sdk_io" where
  "start_autostart_microvms sdk = bindE (list_autostart_policies_op sdk) (autostart_all sdk)"

definition has_failures :: "AutostartOutcome list \<Rightarrow> bool" where
  "has_failures outcomes = list_ex (\<lambda>x. case ao_result x of AutostartFailed _ \<Rightarrow> True | _ \<Rightarrow> False) outcomes"

end
