(* ===== verification/Demo_Host.thy ===== *)
theory Demo_Host
  imports Manager_Autostart
begin

text \<open>
  A concrete host for the instances of the properties of the manager: ports that answer as a host does on
  which nothing goes wrong, with the VM of Inventory_Contract in the inventory. The environment is a
  switch that says whether the control socket of the VM answers.
\<close>

definition demo_metadata :: "path \<Rightarrow> metadata" where
  "demo_metadata p =
     \<lparr>md_is_symlink = False, md_is_file = (p \<noteq> [RootDir, Normal ''h'', Normal ''v'']),
      md_is_dir = (p = [RootDir, Normal ''h'', Normal ''v'']), md_len = 1073741824,
      md_mode = (if last p = Normal ''id_ed25519'' then 384
                 else if last p = Normal ''id_ed25519.pub'' then 420 else 493)\<rparr>"

definition demo_manifest :: TaumaruRegistry where
  "demo_manifest = \<lparr>reg_schema_version = 1, reg_registry = \<lparr>rm_name = ''r'', rm_version = ''1'',
     rm_description = [], rm_base_url = [], rm_updated_at = []\<rparr>, reg_kernels = [demo_kernel],
     reg_binaries = [demo_package ''fc'' ''firecracker'', demo_package ''fctl'' ''firectl''],
     reg_distributions = [demo_distribution], reg_types = []\<rparr>"

definition zero_hash :: "string \<Rightarrow> u8 list" where
  "zero_hash _ = replicate 32 0"

definition demo_runtime_port :: "bool RuntimeController" where
  "demo_runtime_port =
     \<lparr>validate_host = returnE (), verify_stopped = (\<lambda>_. returnE ()),
      process_references_vm = (\<lambda>_ _ _ _ live. (Inr live, live)), socket_answers = (\<lambda>_ live. (Inr live, live)),
      launch_detached = (\<lambda>_ live. (Inr 7, True)), wait_for_socket = (\<lambda>_ live. (Inr live, live)),
      request_shutdown = (\<lambda>_ live. (Inr live, False)), wait_for_stop = (\<lambda>_ _ _ _ _ live. (Inr (\<not> live), live)),
      terminate_spawned = (\<lambda>_ live. (Inr (), False))\<rparr>"

definition demo_generated :: "path \<Rightarrow> GeneratedCredential" where
  "demo_generated volume =
     \<lparr>gc_private_key_path = in_volume volume ''ssh/id_ed25519'', gc_public_key_path = in_volume volume ''ssh/id_ed25519.pub'',
      gc_public_key = ''ssh-ed25519'', gc_fingerprint = ''x'', gc_file_mode = ''0600''\<rparr>"

definition demo_storage :: "bool GuestStorage" where
  "demo_storage =
     \<lparr>prepare_rootfs = (\<lambda>_ volume _ tick live. (Inr \<lparr>rf_path = in_volume volume ''rootfs.ext4'', rf_created_volume = True\<rparr>, tick 0 0 live)),
      inject_public_key = (\<lambda>_ _. returnE ()), write_guest_network_config = (\<lambda>_ _ _. returnE ()),
      write_guest_lan_config = (\<lambda>_ _ _ _. returnE ()), disk_used_bytes = (\<lambda>_. returnE 1), resize_rootfs = (\<lambda>_ _. returnE ())\<rparr>"

definition demo_sdk :: "bool MicroVmSdk" where
  "demo_sdk =
     \<lparr>home = [RootDir, Normal ''h''], runtime = demo_runtime_port,
      runtime_disk = \<lparr>ensure_mapping = (\<lambda>_ _ p. returnE p), release_mapping = (\<lambda>_ _ _. returnE ())\<rparr>,
      network = \<lparr>configure_port = (\<lambda>_ existing _ _. returnE
            \<lparr>no_persisted = (case existing of None \<Rightarrow> demo_network | Some n \<Rightarrow> n), no_applied = [], no_skipped = []\<rparr>),
         cleanup_port = (\<lambda>_. returnE ()), cleanup_for_delete_port = (\<lambda>_. returnE ())\<rparr>,
      storage = demo_storage,
      files = \<lparr>symlink_metadata = (\<lambda>p. returnE (demo_metadata p)), metadata_of = (\<lambda>p. returnE (demo_metadata p)),
         open_file = (\<lambda>_. returnE ()), read_file = (\<lambda>_. returnE []), remove_file = (\<lambda>_. returnE ()),
         read_dir = (\<lambda>_. returnE []), remove_dir = (\<lambda>_. returnE ()), remove_dir_all = (\<lambda>_. returnE ())\<rparr>,
      fetch_manifest = returnE demo_manifest, generate_credential = (\<lambda>p. returnE (demo_generated p)),
      target_lock = (\<lambda>_. returnE True),
      open_connection = returnE (), unix_timestamp = returnE 1, acquire_lifecycle_lock = (\<lambda>_ _. returnE ()),
      sha256 = zero_hash, version_valid = (\<lambda>_. True), version_less = (\<lambda>_ _. False), ARCH = ''x86_64'', sleep = (\<lambda>_ live. live), autostart_retry_backoff = 5\<rparr>"

definition demo_stored :: StoredMicroVm where
  "demo_stored = \<lparr>st_record = demo_record\<lparr>vm_id := 1\<rparr>, st_network = Some demo_network,
     st_credential = Some demo_credential, st_runtime = Some demo_runtime\<rparr>"

abbreviation demo_state :: "bool \<Rightarrow> bool sdk" where
  "demo_state live \<equiv> \<lparr>sd_db = demo_full_db, sd_env = live\<rparr>"

section \<open>Its answers\<close>

lemma components_demo [simp]:
  "components ''rootfs.ext4'' = [Normal ''rootfs.ext4'']" "components ''firecracker.sock'' = [Normal ''firecracker.sock'']"
  "components ''firecracker.log'' = [Normal ''firecracker.log'']"
  "components ''ssh/id_ed25519'' = [Normal ''ssh'', Normal ''id_ed25519'']"
  "components ''ssh/id_ed25519.pub'' = [Normal ''ssh'', Normal ''id_ed25519.pub'']"
  by code_simp+

lemma on_env_state [simp]:
  "on_env m \<lparr>sd_db = d, sd_env = w\<rparr> = (case m w of (r, w') \<Rightarrow> (r, \<lparr>sd_db = d, sd_env = w'\<rparr>))"
  by (simp add: on_env_def)

lemma on_db_state [simp]:
  "on_db m \<lparr>sd_db = d, sd_env = w\<rparr> = (case m d of (r, d') \<Rightarrow> (r, \<lparr>sd_db = d', sd_env = w\<rparr>))"
  by (simp add: on_db_def)

lemma demo_ports [simp]:
  "home demo_sdk = [RootDir, Normal ''h'']"
  "validate_host (runtime demo_sdk) = returnE ()"
  "verify_stopped (runtime demo_sdk) p = returnE ()"
  "process_references_vm (runtime demo_sdk) pid p q q' live = (Inr live, live)"
  "socket_answers (runtime demo_sdk) p live = (Inr live, live)"
  "launch_detached (runtime demo_sdk) req live = (Inr 7, True)"
  "wait_for_socket (runtime demo_sdk) p live = (Inr live, live)"
  "request_shutdown (runtime demo_sdk) p live = (Inr live, False)"
  "wait_for_stop (runtime demo_sdk) p o' q q' deadline live = (Inr (\<not> live), live)"
  "terminate_spawned (runtime demo_sdk) pid live = (Inr (), False)"
  "ensure_mapping (runtime_disk demo_sdk) p name q = returnE q"
  "release_mapping (runtime_disk demo_sdk) p name q = returnE ()"
  "configure_port (network demo_sdk) request (Some net) u u' = returnE \<lparr>no_persisted = net, no_applied = [], no_skipped = []\<rparr>"
  "cleanup_port (network demo_sdk) net = returnE ()"
  "cleanup_for_delete_port (network demo_sdk) net = returnE ()"
  "disk_used_bytes (storage demo_sdk) p = returnE 1"
  "resize_rootfs (storage demo_sdk) p size' = returnE ()"
  "symlink_metadata (files demo_sdk) p = returnE (demo_metadata p)"
  "metadata_of (files demo_sdk) p = returnE (demo_metadata p)"
  "open_file (files demo_sdk) p = returnE ()"
  "read_file (files demo_sdk) p = returnE []"
  "remove_file (files demo_sdk) p = returnE ()"
  "remove_dir_all (files demo_sdk) p = returnE ()"
  "fetch_manifest demo_sdk = returnE demo_manifest"
  "target_lock demo_sdk p = returnE True"
  "open_connection demo_sdk = returnE ()"
  "unix_timestamp demo_sdk = returnE 1"
  "acquire_lifecycle_lock demo_sdk p name = returnE ()"
  "sha256 demo_sdk = zero_hash"
  by (simp_all add: demo_sdk_def demo_runtime_port_def demo_storage_def)

lemma bindE_apply: "m s = (Inr x, s') \<Longrightarrow> bindE m f s = f x s'"
  by (simp add: bindE_def)

lemma bindE_apply_Inl: "m s = (Inl e, s') \<Longrightarrow> bindE m f s = (Inl e, s')"
  by (simp add: bindE_def)

lemma demo_resolves [simp]:
  "resolve_kernel ''k'' demo_artifacts = Inr \<lparr>la_path = [RootDir, Normal ''h'', Normal ''k''], la_size_bytes = 0, la_sha256 = demo_digest\<rparr>"
  "resolve_binary_row ''fc'' ''firecracker'' demo_artifacts = Inr \<lparr>ib_package_id = ''fc'', ib_component_name = ''firecracker'',
     ib_version = ''1'', ib_architecture = X86_64, ib_path = [RootDir, Normal ''h'', Normal ''firecracker''], ib_size_bytes = 0,
     ib_sha256 = demo_digest, ib_executable = True\<rparr>"
  "resolve_binary_row ''fctl'' ''firectl'' demo_artifacts = Inr \<lparr>ib_package_id = ''fctl'', ib_component_name = ''firectl'',
     ib_version = ''1'', ib_architecture = X86_64, ib_path = [RootDir, Normal ''h'', Normal ''firectl''], ib_size_bytes = 0,
     ib_sha256 = demo_digest, ib_executable = True\<rparr>"
  by (simp_all add: resolve_kernel_def find_kernel_row_def find_download_def demo_artifacts_def local_artifact_from_row_def
      demo_download_def download_row_def spec_integrity_def stored_size_def resolve_binary_row_def join_binaries_def
      List.map_filter_simps package_of_def installed_from_row_def file_row_def package_row_def demo_package_def demo_file_def
      parse_architecture_def)

lemma demo_digest_zero: "hex_digest (zero_hash s) = demo_digest"
proof -
  have "show_hex2 0 = ''00''" by code_simp
  moreover have "concat (replicate 32 ''00'') = replicate 64 CHR ''0''" by code_simp
  ultimately show ?thesis by (simp add: hex_digest_def zero_hash_def demo_digest_def)
qed

lemma demo_find: "find_microvm ''web'' demo_full_db = Inr (Some demo_stored)"
  using sqlite.creation_contents [OF demo_ok(1) demo_steps] find_microvm_view [OF demo_ok(2)]
  by (simp add: demo_stored_def demo_record_def)

lemma demo_name_ok: "validate_vm_name ''web'' = Inr ()"
  by code_simp

lemma demo_parts [simp]:
  "vm_id (st_record demo_stored) = 1" "vm_name (st_record demo_stored) = ''web''"
  "st_network demo_stored = Some demo_network" "st_credential demo_stored = Some demo_credential"
  "st_runtime demo_stored = Some demo_runtime"
  "vm_volume_path (st_record demo_stored) = [RootDir, Normal ''h'', Normal ''v'']"
  "vm_rootfs_path (st_record demo_stored) = [RootDir, Normal ''h'', Normal ''v'', Normal ''rootfs.ext4'']"
  "vm_socket_path (st_record demo_stored) = [RootDir, Normal ''h'', Normal ''v'', Normal ''firecracker.sock'']"
  "vm_disk_size_bytes (st_record demo_stored) = 1073741824" "vm_distribution_id (st_record demo_stored) = ''debian''"
  "vm_expose_on_lan (st_record demo_stored) = False" "vm_memory_bytes (st_record demo_stored) = 536870912"
  "vm_vcpu_count (st_record demo_stored) = 2"
  by (simp_all add: demo_stored_def demo_record_def)

lemma in_demo_volume [simp]:
  "in_volume [RootDir, Normal ''h'', Normal ''v''] ''rootfs.ext4'' = [RootDir, Normal ''h'', Normal ''v'', Normal ''rootfs.ext4'']"
  "in_volume [RootDir, Normal ''h'', Normal ''v''] ''firecracker.sock'' = [RootDir, Normal ''h'', Normal ''v'', Normal ''firecracker.sock'']"
  "in_volume [RootDir, Normal ''h'', Normal ''v''] ''ssh/id_ed25519'' = [RootDir, Normal ''h'', Normal ''v'', Normal ''ssh'', Normal ''id_ed25519'']"
  "in_volume [RootDir, Normal ''h'', Normal ''v''] ''ssh/id_ed25519.pub'' = [RootDir, Normal ''h'', Normal ''v'', Normal ''ssh'', Normal ''id_ed25519.pub'']"
  by (simp_all add: in_volume_def path_join_def is_absolute_def)

lemma demo_load: "load_vm demo_sdk ''web'' (demo_state live) = (Inr demo_stored, demo_state live)"
  by (simp add: load_vm_def repository_read_def bindE_def demo_find require_some_def)

lemma demo_lock_and_load: "lock_and_load demo_sdk ''web'' (demo_state live) = (Inr demo_stored, demo_state live)"
  by (simp add: lock_and_load_def bindE_def demo_load)

lemma demo_socket [simp]: "socket_live demo_sdk stored \<lparr>sd_db = d, sd_env = live\<rparr> = (Inr live, \<lparr>sd_db = d, sd_env = live\<rparr>)"
  by (simp add: socket_live_def)

lemma demo_complete [simp]: "require_complete operation demo_stored = Inr ()"
  "require_full operation demo_stored = Inr (demo_network, demo_credential, demo_runtime)"
  by (simp_all add: require_full_def require_complete_def is_complete_def)

lemma demo_release [simp]: "release_vm_mapping demo_sdk stored \<lparr>sd_db = d, sd_env = w\<rparr> = (Inr (), \<lparr>sd_db = d, sd_env = w\<rparr>)"
  by (simp add: release_vm_mapping_def)

lemma demo_remove_socket [simp]:
  "remove_stale_socket demo_sdk stored \<lparr>sd_db = d, sd_env = False\<rparr> = (Inr (), \<lparr>sd_db = d, sd_env = False\<rparr>)"
  by (simp add: remove_stale_socket_def Let_def path_entry_exists_def attempt_call_def filesystem_call_def bindE_def)

lemma demo_remove_volume:
  "remove_owned_volume demo_sdk demo_stored \<lparr>sd_db = d, sd_env = w\<rparr> = (Inr (), \<lparr>sd_db = d, sd_env = w\<rparr>)"
  by (simp add: remove_owned_volume_def Let_def is_absolute_def path_is_below_home_def path_starts_with_def
      attempt_call_def bindE_def demo_credential_def)

lemma demo_delete: "\<exists>s'. delete_microvm_op demo_sdk ''web'' (demo_state False) = (Inr \<lparr>mdr_name = ''web''\<rparr>, s')"
  by (simp add: delete_microvm_op_def bindE_def demo_name_ok demo_load demo_remove_volume repository_stamped_def
      attemptE_def delete_microvm_def run_update_def delete_microvm_stmt_def Let_def)

lemma demo_vm_exists: "vm_exists 1 demo_full_db"
  using demo_credential_db(1)
  by (simp add: demo_full_db_def persist_runtime_def persist_runtime_stmt_def demo_runtime_def run_defs)

lemma demo_put_runtime_row:
  assumes "vm_exists 1 d" "rt_process_state r \<in> {''stopped'', ''starting'', ''running''}"
    and "vm_id (st_record stored) = 1"
  shows "put_runtime demo_sdk stored r \<lparr>sd_db = d, sd_env = live\<rparr>
    = (Inr (), \<lparr>sd_db = d\<lparr>db_runtimes := upsert rr_microvm_id (runtime_row 1 r) (db_runtimes d)\<rparr>, sd_env = live\<rparr>)"
  using assms
  by (simp add: put_runtime_def repository_stamped_def bindE_def attemptE_def persist_runtime_def run_update_def
      persist_runtime_stmt_def constraint_def)

lemma demo_stop: "\<exists>s'. stop_microvm demo_sdk ''web'' (demo_state True) = (Inr \<lparr>mst_name = ''web'', mst_state = Stopped,
    mst_socket_path = [RootDir, Normal ''h'', Normal ''v'', Normal ''firecracker.sock''], mst_forced = False\<rparr>, s')"
  by (simp add: stop_microvm_def bindE_def demo_name_ok demo_lock_and_load finish_stopped_vm_def
      reset_runtime_to_stopped_def demo_put_runtime_row demo_vm_exists stopped_runtime_def build_stop_result_def Let_def)

definition demo_update_request :: UpdateMicroVmRequest where
  "demo_update_request = \<lparr>ur_name = ''web'', ur_disk_size_bytes = None, ur_memory_bytes = None, ur_vcpu_count = Some 4\<rparr>"

lemma demo_checks [simp]:
  "find_distribution ''debian'' demo_manifest = Inr demo_distribution"
  "check_distribution_minimums demo_distribution 536870912 4 = Inr ()"
  "effective_mib 536870912 = Inr 512"
  by (simp_all add: find_distribution_def demo_manifest_def demo_distribution_def check_distribution_minimums_def
      minimum_memory_bytes_def effective_mib_def BYTES_PER_MIB_def checked_add_def checked_mul_def Let_def)

lemma demo_exited [simp]:
  "verify_recorded_process_exited demo_sdk demo_stored \<lparr>sd_db = d, sd_env = w\<rparr> = (Inr (), \<lparr>sd_db = d, sd_env = w\<rparr>)"
  by (simp add: verify_recorded_process_exited_def demo_runtime_def)

lemma demo_converge [simp]:
  "converge_disk demo_sdk (st_record demo_stored) \<lparr>sd_db = d, sd_env = w\<rparr> = (Inr (), \<lparr>sd_db = d, sd_env = w\<rparr>)"
  by (simp add: converge_disk_def Let_def bindE_def filesystem_call_def demo_metadata_def whenE_def)

lemma demo_commit:
  "\<exists>s'. commit_resources demo_sdk (st_record demo_stored) 1073741824 536870912 512 4 False (demo_state w)
    = (Inr (update_result (st_record demo_stored) 1073741824 536870912 4 False), s')"
  using demo_vm_exists
  by (simp add: commit_resources_def bindE_def repository_stamped_def attemptE_def update_microvm_resources_def
      update_microvm_resources_stmt_def to_sqlite_integer_def run_update_def Let_def constraint_def)

lemma demo_update: "\<exists>s'. update_microvm demo_sdk demo_update_request (demo_state False)
    = (Inr (update_result (st_record demo_stored) 1073741824 536870912 4 False), s')"
  using demo_commit [of False]
  by (simp add: update_microvm_def bindE_def demo_update_request_def demo_name_ok demo_lock_and_load
      check_update_request_def whenE_def Let_def)

section \<open>A start of the VM\<close>

text \<open>The states that a start goes through: the inventory is consistent and holds the VM with the given parts.\<close>

definition demo_holds :: "StoredMicroVm \<Rightarrow> db \<Rightarrow> bool" where
  "demo_holds a d \<longleftrightarrow> inventory_ok d \<and> view d ''web'' = Some a \<and> vm_exists 1 d
     \<and> filter (\<lambda>r. nw_microvm_id r \<noteq> 1) (db_networks d) = [] \<and> db_artifacts d = demo_artifacts"

lemma demo_holds_start: "demo_holds demo_stored demo_full_db"
proof -
  have "filter (\<lambda>r. nw_microvm_id r \<noteq> 1) (db_networks demo_full_db) = []"
    using demo_db
    by (simp add: demo_full_db_def demo_credential_db_def demo_network_db_def persist_runtime_def
        persist_runtime_stmt_def demo_runtime_def persist_credential_def persist_credential_stmt_def demo_credential_def
        credential_row_def persist_network_def persist_network_transaction_def bridge_for_network_def
        demo_network_def network_row_def recount_bridges_def run_defs)
  then show ?thesis
    using demo_ok(2) demo_vm_exists demo_find find_microvm_view [OF demo_ok(2), of "''web''"]
    by (simp add: demo_holds_def)
qed

lemma demo_load_now:
  "demo_holds a d \<Longrightarrow> load_vm demo_sdk ''web'' \<lparr>sd_db = d, sd_env = live\<rparr> = (Inr a, \<lparr>sd_db = d, sd_env = live\<rparr>)"
  by (simp add: load_vm_def repository_read_def bindE_def demo_holds_def find_microvm_view require_some_def)

lemma demo_put_runtime_now:
  assumes "demo_holds a d" "rt_process_state r \<in> {''stopped'', ''starting'', ''running''}"
    and "vm_id (st_record stored) = 1" "vm_id (st_record a) = 1"
  shows "\<exists>d'. put_runtime demo_sdk stored r \<lparr>sd_db = d, sd_env = live\<rparr> = (Inr (), \<lparr>sd_db = d', sd_env = live\<rparr>)
    \<and> demo_holds (a\<lparr>st_runtime := Some r\<rparr>) d'"
proof -
  have ex: "vm_exists 1 d" using assms(1) by (simp add: demo_holds_def)
  let ?d = "d\<lparr>db_runtimes := upsert rr_microvm_id (runtime_row 1 r) (db_runtimes d)\<rparr>"
  have run: "persist_runtime (Inr 1) 1 r d = (Inr (), ?d)"
    using assms(2) ex by (simp add: persist_runtime_def run_update_def persist_runtime_stmt_def constraint_def)
  have ok: "inventory_ok d" using assms(1) by (simp add: demo_holds_def)
  from refines_inv [OF sqlite.runtime_refines ok run] refines_Inr [OF sqlite.runtime_refines ok run] assms(1,4) ex
  have "demo_holds (a\<lparr>st_runtime := Some r\<rparr>) ?d"
    by (simp add: demo_holds_def change_vm_def vm_exists_def)
  with demo_put_runtime_row [OF ex assms(2,3)] show ?thesis by blast
qed

lemma demo_network_row:
  assumes "vm_exists 1 d" "filter (\<lambda>r. nw_microvm_id r \<noteq> 1) (db_networks d) = []"
  shows "\<exists>d'. persist_network (Inr 1) 1 demo_network d = (Inr (), d') \<and> vm_exists 1 d'
    \<and> filter (\<lambda>r. nw_microvm_id r \<noteq> 1) (db_networks d') = []"
proof -
  have "bridge_for_network (Inr 1) demo_network d = Inr (None, d)"
    by (simp add: bridge_for_network_def demo_network_def)
  moreover have "pn_resources demo_network = [hd (pn_resources demo_network)]" by (simp add: demo_network_def)
  moreover have "nw_prefix_length (network_row 1 None demo_network) = 30"
    "nw_microvm_id (network_row 1 None demo_network) = 1" by (simp_all add: network_row_def demo_network_def)
  moreover have "\<exists>xs. pn_resources demo_network = [xs]" by (simp add: demo_network_def)
  ultimately show ?thesis
    using assms
    by (auto simp: persist_network_def persist_network_transaction_def run_update_def constraint_def Let_def
        upsert_def recount_bridges_def vm_exists_def filter_empty_conv)
qed

lemma demo_update_network_now:
  assumes "demo_holds a d" "vm_id (st_record a) = 1" "vm_id (st_record stored) = 1"
  shows "\<exists>d'. repository_stamped demo_sdk (\<lambda>now. update_network now (vm_id (st_record stored)) demo_network)
      \<lparr>sd_db = d, sd_env = live\<rparr> = (Inr (), \<lparr>sd_db = d', sd_env = live\<rparr>)
    \<and> demo_holds (a\<lparr>st_network := Some demo_network\<rparr>) d'"
proof -
  have ok: "inventory_ok d" using assms(1) by (simp add: demo_holds_def)
  obtain d' where run: "persist_network (Inr 1) 1 demo_network d = (Inr (), d')"
    and d': "vm_exists 1 d'" "filter (\<lambda>r. nw_microvm_id r \<noteq> 1) (db_networks d') = []"
    using demo_network_row assms(1) by (auto simp: demo_holds_def)
  from refines_inv [OF sqlite.network_refines ok run] refines_Inr [OF sqlite.network_refines ok run] assms d'
  have "demo_holds (a\<lparr>st_network := Some demo_network\<rparr>) d'"
    by (simp add: demo_holds_def change_vm_def persist_calls_artifacts(2) [OF run])
  with run assms(3) show ?thesis
    by (auto simp: repository_stamped_def bindE_def attemptE_def update_network_def)
qed

lemma demo_prerequisites [simp]:
  "validate_start_prerequisites demo_sdk demo_stored \<lparr>sd_db = d, sd_env = w\<rparr> = (Inr (), \<lparr>sd_db = d, sd_env = w\<rparr>)"
  by (simp add: validate_start_prerequisites_def validate_volume_files_def Let_def bindE_def is_absolute_def
      filesystem_call_def demo_metadata_def verify_regular_file_def verify_private_key_mode_def
      verify_public_key_mode_def demo_credential_def persisted_ssh_metadata_ok_def demo_runtime_def)

lemma demo_mac: "guest_mac zero_hash ''web'' = ''02:fc:00:00:00:00''"
  by code_simp

lemma demo_network_valid [simp]: "validate_persisted_network zero_hash demo_stored = Inr ()"
  by (simp add: validate_persisted_network_def Let_def expected_mode_def demo_network_def
      host_only_addresses_are_consistent_def SDK_OWNERSHIP_def demo_mac)

definition demo_boot :: StartBootArtifacts where
  "demo_boot = \<lparr>ba_kernel_path = [RootDir, Normal ''h'', Normal ''k''],
     ba_firecracker_path = [RootDir, Normal ''h'', Normal ''firecracker''],
     ba_firectl_path = [RootDir, Normal ''h'', Normal ''firectl'']\<rparr>"

lemma demo_binary:
  assumes "resolve_binary_row p c (db_artifacts d) = Inr b" "ib_path b = [RootDir, Normal ''h'', Normal x]" "x \<noteq> ''v''"
    and "ib_size_bytes b = 0" "ib_sha256 b = demo_digest"
    and "validate_safe_component p ''binary package'' = Inr ()" "validate_safe_component c ''binary component'' = Inr ()"
  shows "resolve_binary demo_sdk p c \<lparr>sd_db = d, sd_env = w\<rparr> = (Inr b, \<lparr>sd_db = d, sd_env = w\<rparr>)"
  using assms
  by (simp add: resolve_binary_def bindE_def Let_def path_is_below_home_def path_starts_with_def repository_read_def
      calculate_file_integrity_def filesystem_call_def attempt_call_def attemptE_def demo_metadata_def demo_digest_zero)

definition demo_installed :: "string \<Rightarrow> string \<Rightarrow> InstalledBinary" where
  "demo_installed p c = \<lparr>ib_package_id = p, ib_component_name = c, ib_version = ''1'', ib_architecture = X86_64,
     ib_path = [RootDir, Normal ''h'', Normal c], ib_size_bytes = 0, ib_sha256 = demo_digest, ib_executable = True\<rparr>"

lemma demo_binaries [simp]:
  assumes "db_artifacts d = demo_artifacts"
  shows "resolve_binary demo_sdk ''fc'' ''firecracker'' \<lparr>sd_db = d, sd_env = w\<rparr>
      = (Inr (demo_installed ''fc'' ''firecracker''), \<lparr>sd_db = d, sd_env = w\<rparr>)"
    and "resolve_binary demo_sdk ''fctl'' ''firectl'' \<lparr>sd_db = d, sd_env = w\<rparr>
      = (Inr (demo_installed ''fctl'' ''firectl''), \<lparr>sd_db = d, sd_env = w\<rparr>)"
  by (rule demo_binary [where x = "''firecracker''"] demo_binary [where x = "''firectl''"];
      simp add: assms demo_installed_def validate_safe_component_def)+

lemma demo_executable [simp]:
  "verify_executable_file demo_sdk [RootDir, Normal ''h'', Normal ''firecracker''] c \<lparr>sd_db = d, sd_env = w\<rparr>
    = (Inr (), \<lparr>sd_db = d, sd_env = w\<rparr>)"
  "verify_executable_file demo_sdk [RootDir, Normal ''h'', Normal ''firectl''] c \<lparr>sd_db = d, sd_env = w\<rparr>
    = (Inr (), \<lparr>sd_db = d, sd_env = w\<rparr>)"
  by (simp_all add: verify_executable_file_def bindE_def attempt_call_def demo_metadata_def)

lemma demo_boot_artifacts [simp]:
  "db_artifacts d = demo_artifacts \<Longrightarrow>
    verify_start_boot_artifacts demo_sdk demo_stored \<lparr>sd_db = d, sd_env = w\<rparr> = (Inr demo_boot, \<lparr>sd_db = d, sd_env = w\<rparr>)"
  by (simp add: repository_read_def verify_start_boot_artifacts_def Let_def bindE_def map_err_def verify_regular_file_def
      filesystem_call_def demo_metadata_def demo_boot_def demo_installed_def
      demo_stored_def demo_record_def)

lemma demo_refuse [simp]:
  "refuse_live_process demo_sdk demo_stored \<lparr>sd_db = d, sd_env = w\<rparr> = (Inr (), \<lparr>sd_db = d, sd_env = w\<rparr>)"
  by (simp add: refuse_live_process_def demo_runtime_def)

definition demo_reset :: StoredMicroVm where
  "demo_reset = demo_stored\<lparr>st_runtime := Some (stopped_runtime demo_stored)\<rparr>"

lemma demo_reset_parts [simp]:
  "st_record demo_reset = st_record demo_stored" "st_network demo_reset = Some demo_network"
  "st_credential demo_reset = Some demo_credential" "demo_reset\<lparr>st_network := Some demo_network\<rparr> = demo_reset"
  "require_full operation demo_reset = Inr (demo_network, demo_credential, stopped_runtime demo_stored)"
  by (simp_all add: demo_reset_def demo_stored_def require_full_def require_complete_def is_complete_def)

lemma demo_reconcile:
  assumes "demo_holds demo_reset d"
  shows "\<exists>d'. reconcile_start_network demo_sdk demo_stored \<lparr>sd_db = d, sd_env = w\<rparr>
      = (Inr demo_reset, \<lparr>sd_db = d', sd_env = w\<rparr>) \<and> demo_holds demo_reset d'"
proof -
  have mode: "nc_mode (pn_config demo_network) = expected_mode demo_stored"
    by (simp add: expected_mode_def demo_network_def)
  from demo_update_network_now [OF assms, of demo_stored w] obtain d' where
    "repository_stamped demo_sdk (\<lambda>now. update_network now 1 demo_network) \<lparr>sd_db = d, sd_env = w\<rparr>
      = (Inr (), \<lparr>sd_db = d', sd_env = w\<rparr>)" "demo_holds demo_reset d'" by auto
  with mode demo_load_now [of demo_reset d'] show ?thesis
    by (auto simp: reconcile_start_network_def bindE_def repository_read_def)
qed

lemma demo_launch:
  assumes "demo_holds demo_reset d"
  shows "\<exists>x s'. launch_machine demo_sdk demo_reset demo_boot request \<lparr>sd_db = d, sd_env = w\<rparr> = (Inr x, s')
    \<and> msr_name x = ''web'' \<and> msr_process_id x = 7"
proof -
  let ?starting = "starting_runtime demo_reset demo_boot 7"
  from demo_put_runtime_now [OF assms, of ?starting demo_reset True] obtain d1 where
    d1: "put_runtime demo_sdk demo_reset ?starting \<lparr>sd_db = d, sd_env = True\<rparr> = (Inr (), \<lparr>sd_db = d1, sd_env = True\<rparr>)"
    "demo_holds (demo_reset\<lparr>st_runtime := Some ?starting\<rparr>) d1" by (auto simp: starting_runtime_def)
  let ?running = "?starting\<lparr>rt_process_state := ''running''\<rparr>"
  from demo_put_runtime_now [OF d1(2), of ?running demo_reset True] obtain d2 where
    d2: "put_runtime demo_sdk demo_reset ?running \<lparr>sd_db = d1, sd_env = True\<rparr> = (Inr (), \<lparr>sd_db = d2, sd_env = True\<rparr>)"
    "demo_holds (demo_reset\<lparr>st_runtime := Some ?running\<rparr>) d2" by auto
  obtain x where x: "build_start_result (demo_reset\<lparr>st_runtime := Some ?running\<rparr>) 7 = Inr x"
    "msr_name x = ''web''" "msr_process_id x = 7"
    by (auto simp: build_start_result_def require_full_def require_complete_def is_complete_def starting_runtime_def Let_def)
  show ?thesis
    using x d1(1) d2(1) demo_load_now [OF d2(2), of True]
    by (auto simp: launch_machine_def bindE_def attemptE_def Let_def)
qed

lemma demo_start:
  "\<exists>x s'. start_microvm demo_sdk ''web'' (demo_state False) = (Inr x, s') \<and> msr_name x = ''web'' \<and> msr_process_id x = 7"
proof -
  have ok: "rt_process_state (stopped_runtime demo_stored) \<in> {''stopped'', ''starting'', ''running''}"
    by (simp add: stopped_runtime_def)
  from demo_put_runtime_now [OF demo_holds_start ok, of demo_stored False] obtain d1 where
    d1: "reset_runtime_to_stopped demo_sdk demo_stored (demo_state False) = (Inr (), \<lparr>sd_db = d1, sd_env = False\<rparr>)"
    "demo_holds demo_reset d1" by (auto simp: reset_runtime_to_stopped_def demo_reset_def)
  from demo_reconcile [OF d1(2), of False] obtain d2 where
    d2: "reconcile_start_network demo_sdk demo_stored \<lparr>sd_db = d1, sd_env = False\<rparr> = (Inr demo_reset, \<lparr>sd_db = d2, sd_env = False\<rparr>)"
    "demo_holds demo_reset d2" by blast
  obtain request where request: "start_launch_request demo_sdk demo_reset demo_boot \<lparr>sd_db = d2, sd_env = False\<rparr>
      = (Inr request, \<lparr>sd_db = d2, sd_env = False\<rparr>)"
    by (auto simp: start_launch_request_def bindE_def Let_def)
  from demo_launch [OF d2(2)] request d1(1) d2(1) show ?thesis
    by (simp add: start_microvm_def bindE_def demo_name_ok demo_lock_and_load)
qed

end
