(* ===== verification/Lifecycle_Safety.thy ===== *)
theory Lifecycle_Safety
  imports Demo_Host
begin

text \<open>
  What the lifecycle operations of the SDK do to the inventory, whatever the ports answer. The ports
  change the environment only, so the proofs follow the database through each operation with the
  triples of Prelude; the contract of the repository (Inventory_Contract) gives the effect of each
  statement on the abstract inventory.
\<close>

section \<open>Triples on the database\<close>

definition dbT ::
  "(db \<Rightarrow> bool) \<Rightarrow> ('e, 'w sdk, 'a) io \<Rightarrow> ('a \<Rightarrow> db \<Rightarrow> bool) \<Rightarrow> ('e \<Rightarrow> db \<Rightarrow> bool) \<Rightarrow> bool" where
  "dbT P m Q E \<longleftrightarrow> tripleE (\<lambda>s. P (sd_db s)) m (\<lambda>x s. Q x (sd_db s)) (\<lambda>e s. E e (sd_db s))"

named_theorems dbT_rules \<open>compositional rules for triples on the database\<close>

lemma dbT_bind [dbT_rules]: "dbT P m R E \<Longrightarrow> (\<And>x. dbT (R x) (f x) Q E) \<Longrightarrow> dbT P (bindE m f) Q E"
  unfolding dbT_def by (rule tripleE_bind)

lemma dbT_conseq:
  "dbT P' m Q' E' \<Longrightarrow> (\<And>d. P d \<Longrightarrow> P' d) \<Longrightarrow> (\<And>x d. Q' x d \<Longrightarrow> Q x d) \<Longrightarrow> (\<And>e d. E' e d \<Longrightarrow> E e d) \<Longrightarrow> dbT P m Q E"
  unfolding dbT_def by (erule tripleE_conseq) blast+

lemma dbT_return: "(\<And>d. P d \<Longrightarrow> Q x d) \<Longrightarrow> dbT P (returnE x) Q E"
  unfolding dbT_def by (rule tripleE_return)

lemma dbT_throw: "(\<And>d. P d \<Longrightarrow> E e d) \<Longrightarrow> dbT P (throwE e) Q E"
  unfolding dbT_def by (rule tripleE_throw)

lemma dbT_lift: "(\<And>d x. P d \<Longrightarrow> r = Inr x \<Longrightarrow> Q x d) \<Longrightarrow> (\<And>d e. P d \<Longrightarrow> r = Inl e \<Longrightarrow> E e d) \<Longrightarrow> dbT P (liftE r) Q E"
  unfolding dbT_def tripleE_def by (cases r) auto

lemma dbT_attempt: "dbT P m (\<lambda>x. Q (Inr x)) (\<lambda>e. Q (Inl e)) \<Longrightarrow> dbT P (attemptE m) Q E"
  unfolding dbT_def by (rule tripleE_attempt)

lemma dbT_when: "(b \<Longrightarrow> dbT P m (\<lambda>_. Q) E) \<Longrightarrow> (\<And>d. \<not> b \<Longrightarrow> P d \<Longrightarrow> Q d) \<Longrightarrow> dbT P (whenE b m) (\<lambda>_. Q) E"
  unfolding dbT_def by (rule tripleE_when)

lemma dbT_if: "(b \<Longrightarrow> dbT P m Q E) \<Longrightarrow> (\<not> b \<Longrightarrow> dbT P n Q E) \<Longrightarrow> dbT P (if b then m else n) Q E"
  by simp

lemma dbT_assume: "(A \<Longrightarrow> dbT P m Q E) \<Longrightarrow> dbT (\<lambda>d. P d \<and> A) m Q E"
  by (cases A) (simp_all add: dbT_def tripleE_def)

lemma dbT_env: "(\<And>x d. P d \<Longrightarrow> Q x d) \<Longrightarrow> (\<And>e d. P d \<Longrightarrow> E e d) \<Longrightarrow> dbT P (on_env m) Q E"
  unfolding dbT_def tripleE_def on_env_def by (auto split: prod.splits sum.splits)

lemma dbT_db:
  assumes "\<And>d x d'. P d \<Longrightarrow> m d = (Inr x, d') \<Longrightarrow> Q x d'" "\<And>d e d'. P d \<Longrightarrow> m d = (Inl e, d') \<Longrightarrow> E e d'"
  shows "dbT P (on_db m) Q E"
  unfolding dbT_def tripleE_def on_db_def using assms by (auto split: prod.splits sum.splits)

lemma dbT_Inr: "dbT P m Q E \<Longrightarrow> P (sd_db s) \<Longrightarrow> m s = (Inr x, s') \<Longrightarrow> Q x (sd_db s')"
  unfolding dbT_def by (rule tripleE_Inr)

lemma dbT_Inl: "dbT P m Q E \<Longrightarrow> P (sd_db s) \<Longrightarrow> m s = (Inl e, s') \<Longrightarrow> E e (sd_db s')"
  unfolding dbT_def by (rule tripleE_Inl)

text \<open>An effect that never touches the database.\<close>

definition quietD :: "('e, 'w sdk, 'a) io \<Rightarrow> bool" where
  "quietD m \<longleftrightarrow> (\<forall>s r s'. m s = (r, s') \<longrightarrow> sd_db s' = sd_db s)"

named_theorems quiet_intros \<open>effects that do not touch the database\<close>

lemma quietD_iff: "quietD m \<longleftrightarrow> keepsE (\<lambda>s s'. sd_db s' = sd_db s) m"
  by (simp add: quietD_def keepsE_def)

lemma quiet_reflp: "reflp (\<lambda>s s'. sd_db s' = sd_db s)" and quiet_transp: "transp (\<lambda>s s'. sd_db s' = sd_db s)"
  by (auto intro: reflpI transpI)

lemma quiet_return [quiet_intros]: "quietD (returnE x)"
  and quiet_throw [quiet_intros]: "quietD (throwE e)"
  and quiet_lift [quiet_intros]: "quietD (liftE r)"
  and quiet_some [quiet_intros]: "quietD (require_some o' e)"
  by (auto simp: quietD_def require_some_def)

lemma quietD_bind [quiet_intros]: "quietD m \<Longrightarrow> (\<And>x. quietD (f x)) \<Longrightarrow> quietD (bindE m f)"
  unfolding quietD_iff by (rule keepsE_bind [OF quiet_transp])

lemma quiet_attempt [quiet_intros]: "quietD m \<Longrightarrow> quietD (attemptE m)"
  unfolding quietD_iff by (rule keepsE_attempt)

lemma quiet_when [quiet_intros]: "quietD m \<Longrightarrow> quietD (whenE b m)"
  unfolding quietD_iff by (rule keepsE_when [OF quiet_reflp])

lemma quiet_if [quiet_intros]: "quietD m \<Longrightarrow> quietD n \<Longrightarrow> quietD (if b then m else n)"
  by simp

lemma quiet_env [quiet_intros]: "quietD (on_env m)"
  by (auto simp: quietD_def on_env_def split: prod.splits)

lemma quiet_files [quiet_intros]: "quietD (filesystem_call operation p m)" "quietD (attempt_call m)"
  for m :: "(io_error, 'w, 'a) io"
  by (simp_all add: filesystem_call_def attempt_call_def quiet_env)

lemma quiet_map_err [quiet_intros]: "quietD m \<Longrightarrow> quietD (map_err f m)"
  by (fastforce simp: quietD_def map_err_def split: prod.splits sum.splits)

lemma quiet_read [quiet_intros]: "quietD (repository_read sdk f)"
  unfolding repository_read_def by (intro quiet_intros) (auto simp: quietD_def on_db_def)

lemma dbT_quiet: "quietD m \<Longrightarrow> (\<And>x d. P d \<Longrightarrow> Q x d) \<Longrightarrow> (\<And>e d. P d \<Longrightarrow> E e d) \<Longrightarrow> dbT P m Q E"
  by (fastforce simp: dbT_def tripleE_def quietD_def split: prod.splits sum.splits)

lemma dbT_quiet_value:
  assumes "quietD m" "\<And>s x s'. m s = (Inr x, s') \<Longrightarrow> V x"
  shows "dbT P m (\<lambda>x d. P d \<and> V x) (\<lambda>_. P)"
  using assms by (fastforce simp: dbT_def tripleE_def quietD_def split: prod.splits sum.splits)

text \<open>The steps of an operation around its repository statements.\<close>

lemma dbT_step:
  "quietD m \<Longrightarrow> (\<And>x. dbT P (f x) Q E) \<Longrightarrow> (\<And>e d. P d \<Longrightarrow> E e d) \<Longrightarrow> dbT P (bindE m f) Q E"
  by (rule dbT_bind [where R = "\<lambda>_. P"]) (auto intro: dbT_quiet)

lemma dbT_option:
  "(v = None \<Longrightarrow> dbT P m Q E) \<Longrightarrow> (\<And>x. v = Some x \<Longrightarrow> dbT P (f x) Q E) \<Longrightarrow>
   dbT P (case v of None \<Rightarrow> m | Some x \<Rightarrow> f x) Q E"
  by (cases v) auto

lemma dbT_sum:
  "(\<And>e. v = Inl e \<Longrightarrow> dbT P (f e) Q E) \<Longrightarrow> (\<And>x. v = Inr x \<Longrightarrow> dbT P (g x) Q E) \<Longrightarrow>
   dbT P (case v of Inl e \<Rightarrow> f e | Inr x \<Rightarrow> g x) Q E"
  by (cases v) auto

lemma dbT_prod: "(\<And>a b. v = (a, b) \<Longrightarrow> dbT P (f a b) Q E) \<Longrightarrow> dbT P (case v of (a, b) \<Rightarrow> f a b) Q E"
  by (cases v) auto

lemma quiet_option_case [quiet_intros]:
  "quietD m \<Longrightarrow> (\<And>x. quietD (f x)) \<Longrightarrow> quietD (case o' of None \<Rightarrow> m | Some x \<Rightarrow> f x)"
  by (cases o') auto

lemma quiet_sum_case [quiet_intros]:
  "(\<And>e. quietD (f e)) \<Longrightarrow> (\<And>x. quietD (g x)) \<Longrightarrow> quietD (case r of Inl e \<Rightarrow> f e | Inr x \<Rightarrow> g x)"
  by (cases r) auto

lemma quiet_prod_case [quiet_intros]: "(\<And>a b. quietD (f a b)) \<Longrightarrow> quietD (case p of (a, b) \<Rightarrow> f a b)"
  by (cases p) auto

lemma quiet_let [quiet_intros]: "quietD (f x) \<Longrightarrow> quietD (let y = x in f y)"
  by simp

lemmas dbT_steps = dbT_step dbT_if dbT_option dbT_sum dbT_prod dbT_throw

section \<open>Quiet steps\<close>

lemma quiet_checks [quiet_intros]:
  "quietD (path_entry_exists sdk p)" "quietD (verify_regular_file sdk p operation)"
  "quietD (verify_executable_file sdk p component)" "quietD (verify_private_key_mode sdk p)"
  "quietD (verify_public_key_mode sdk p)" "quietD (calculate_file_integrity sdk p)"
  unfolding path_entry_exists_def verify_regular_file_def verify_executable_file_def
    verify_private_key_mode_def verify_public_key_mode_def calculate_file_integrity_def
  by (intro quiet_intros)+

lemma quiet_steps [quiet_intros]:
  "quietD (socket_live sdk stored)" "quietD (refers_to_vm sdk stored pid a b)"
  "quietD (release_vm_mapping sdk stored)" "quietD (load_vm sdk name)" "quietD (lock_and_load sdk name)"
  unfolding socket_live_def refers_to_vm_def release_vm_mapping_def load_vm_def lock_and_load_def
  by (intro quiet_intros)+

lemma quiet_validation [quiet_intros]:
  "quietD (validate_volume_files sdk operation stored)" 
  unfolding validate_volume_files_def by (intro quiet_intros)

lemma quiet_vm_checks [quiet_intros]:
  "quietD (validate_persisted_files sdk stored)" "quietD (validate_start_prerequisites sdk stored)"
  "quietD (verify_recorded_process_exited sdk stored)" "quietD (remove_stale_socket sdk stored)"
  "quietD (refuse_live_process sdk stored)" "quietD (remove_owned_volume sdk stored)"
  unfolding validate_persisted_files_def validate_start_prerequisites_def
    verify_recorded_process_exited_def remove_stale_socket_def refuse_live_process_def remove_owned_volume_def
  by (intro quiet_intros)+

lemma quiet_binary [quiet_intros]: "quietD (resolve_binary sdk p c)"
  unfolding resolve_binary_def by (intro quiet_intros)

lemma quiet_boot [quiet_intros]:
  "quietD (verify_start_boot_artifacts sdk stored)" "quietD (start_launch_request sdk stored boot)"
  unfolding verify_start_boot_artifacts_def start_launch_request_def by (intro quiet_intros)+

lemma quiet_disk [quiet_intros]:
  "quietD (restore_disk sdk rootfs previous primary)" "quietD (converge_disk sdk rec)"
  unfolding restore_disk_def converge_disk_def by (intro quiet_intros)+

lemma quiet_resize [quiet_intros]: "quietD (resize_disk sdk stored new_disk)"
  unfolding resize_disk_def by (intro quiet_intros)

section \<open>Repository steps\<close>

text \<open>The database is a given one, and consistent.\<close>

definition exactly :: "db \<Rightarrow> db \<Rightarrow> bool" where
  "exactly D d \<longleftrightarrow> inventory_ok D \<and> d = D"

text \<open>The database is consistent and holds a given inventory.\<close>

definition holds :: "inventory \<Rightarrow> db \<Rightarrow> bool" where
  "holds V d \<longleftrightarrow> inventory_ok d \<and> view d = V"

lemma exactly_self: "inventory_ok d \<Longrightarrow> exactly d d"
  by (simp add: exactly_def)

lemma exactly_conj: "(\<lambda>d. exactly D d \<and> inventory_ok D) = exactly D"
  by (auto simp: fun_eq_iff exactly_def)

lemma exactly_holds: "exactly D d \<Longrightarrow> holds (view D) d"
  by (auto simp: exactly_def holds_def)

lemma dbT_load_exact:
  "dbT (exactly D) (load_vm sdk name) (\<lambda>stored d. exactly D d \<and> view D name = Some stored) (\<lambda>_. exactly D)"
  unfolding load_vm_def repository_read_def require_some_def
  by (intro dbT_bind [where R = "\<lambda>_. exactly D"] dbT_bind [where R = "\<lambda>x d. exactly D d \<and> x = view D name"]
      dbT_env dbT_db dbT_lift)
    (auto simp: exactly_def find_microvm_view)

lemma dbT_load:
  "dbT (holds V) (load_vm sdk name) (\<lambda>stored d. holds V d \<and> V name = Some stored) (\<lambda>_. holds V)"
  unfolding load_vm_def repository_read_def require_some_def
  by (intro dbT_bind [where R = "\<lambda>_. holds V"] dbT_bind [where R = "\<lambda>x d. holds V d \<and> x = V name"]
      dbT_env dbT_db dbT_lift)
    (auto simp: holds_def find_microvm_view)

lemma dbT_lock_and_load:
  "dbT (exactly D) (lock_and_load sdk name) (\<lambda>stored d. exactly D d \<and> view D name = Some stored) (\<lambda>_. exactly D)"
  unfolding lock_and_load_def
  by (rule dbT_bind [where R = "\<lambda>_. exactly D"], rule dbT_env) (auto intro: dbT_load_exact)

lemma dbT_stamped:
  assumes "\<And>now. refines inventory_ok view (f now) g"
  shows "dbT (holds V) (repository_stamped sdk f) (\<lambda>_. holds (g V)) (\<lambda>_. holds V)"
  unfolding repository_stamped_def
  by (intro dbT_bind [where R = "\<lambda>_. holds V"] dbT_env dbT_attempt dbT_db)
    (auto simp: holds_def dest: refines_inv [OF assms] refines_Inr [OF assms] refines_Inl [OF assms])

lemma dbT_stamped_exact:
  assumes "\<And>now. refines inventory_ok view (f now) g"
  shows "dbT (exactly D) (repository_stamped sdk f) (\<lambda>_. holds (g (view D))) (\<lambda>_. exactly D)"
  unfolding repository_stamped_def
  by (intro dbT_bind [where R = "\<lambda>_. exactly D"] dbT_env dbT_attempt dbT_db)
    (auto simp: exactly_def holds_def dest: refines_inv [OF assms] refines_Inr [OF assms] refines_Inl [OF assms])

definition with_runtime :: "StoredMicroVm \<Rightarrow> PersistedRuntime \<Rightarrow> inventory \<Rightarrow> inventory" where
  "with_runtime stored r = change_vm (vm_id (st_record stored)) (\<lambda>s. s\<lparr>st_runtime := Some r\<rparr>)"

definition with_network :: "StoredMicroVm \<Rightarrow> PersistedNetwork \<Rightarrow> inventory \<Rightarrow> inventory" where
  "with_network stored n = change_vm (vm_id (st_record stored)) (\<lambda>s. s\<lparr>st_network := Some n\<rparr>)"

lemma dbT_put_runtime:
  "dbT (holds V) (put_runtime sdk stored r) (\<lambda>_. holds (with_runtime stored r V)) (\<lambda>_. holds V)"
  unfolding put_runtime_def with_runtime_def by (rule dbT_stamped [OF sqlite.runtime_refines])

lemma dbT_put_runtime_exact:
  "dbT (exactly D) (put_runtime sdk stored r) (\<lambda>_. holds (with_runtime stored r (view D))) (\<lambda>_. exactly D)"
  unfolding put_runtime_def with_runtime_def by (rule dbT_stamped_exact [OF sqlite.runtime_refines])

lemmas dbT_delete_exact = dbT_stamped_exact [OF sqlite.delete_refines]
lemmas dbT_resources_exact = dbT_stamped_exact [OF sqlite.resources_refines]

lemma dbT_update_network:
  "dbT (holds V) (repository_stamped sdk (\<lambda>now. update_network now (vm_id (st_record stored)) n))
     (\<lambda>_. holds (with_network stored n V)) (\<lambda>_. holds V)"
  unfolding with_network_def update_network_def by (rule dbT_stamped) (rule sqlite.network_refines)

text \<open>The entry of the changed VM, and of the others.\<close>

lemma change_vm_own:
  "V name = Some s \<Longrightarrow> change_vm (vm_id (st_record s)) f V name = Some (f s)"
  by (simp add: change_vm_def)

lemma change_vm_other:
  assumes "inventory_ok D" "view D name = Some s" "other \<noteq> name"
  shows "change_vm (vm_id (st_record s)) f (view D) other = view D other"
  using view_unique_id [OF assms(1) _ assms(2), of other] assms(3)
  by (cases "view D other") (auto simp: change_vm_def)

lemma remove_vm_own: "V name = Some s \<Longrightarrow> remove_vm (vm_id (st_record s)) V name = None"
  by (simp add: remove_vm_def)

lemma remove_vm_other:
  assumes "inventory_ok D" "view D name = Some s" "other \<noteq> name"
  shows "remove_vm (vm_id (st_record s)) (view D) other = view D other"
  using view_unique_id [OF assms(1) _ assms(2), of other] assms(3)
  by (cases "view D other") (auto simp: remove_vm_def)

section \<open>Deleting\<close>

lemma delete_microvm_triple:
  "dbT (exactly D) (delete_microvm_op sdk name)
     (\<lambda>r d. \<exists>stored. view D name = Some stored \<and> mdr_name r = vm_name (st_record stored)
        \<and> holds (remove_vm (vm_id (st_record stored)) (view D)) d)
     (\<lambda>_. exactly D)"
  unfolding delete_microvm_op_def
  by (rule dbT_bind [where R = "\<lambda>_. exactly D"], rule dbT_lift, simp, simp,
      rule dbT_bind [OF dbT_load_exact], rule dbT_assume,
      intro dbT_bind [where R = "\<lambda>_. exactly D"] dbT_if dbT_throw
        dbT_bind [OF dbT_delete_exact] dbT_return dbT_quiet [where Q = "\<lambda>_. exactly D"] quiet_intros)
    auto

text \<open>(C5) A deletion that fails, at whatever step, leaves the whole inventory as it was, so that it
  can be repeated; one that succeeds removes the named VM with everything stored for it and no other VM.\<close>
theorem delete_microvm_inventory:
  assumes "inventory_ok (sd_db s)" and "delete_microvm_op sdk name s = (r, s')"
  shows "case r of
      Inl _ \<Rightarrow> sd_db s' = sd_db s
    | Inr result \<Rightarrow> mdr_name result = name \<and> find_microvm name (sd_db s') = Inr None
        \<and> (\<forall>other. other \<noteq> name \<longrightarrow> find_microvm other (sd_db s') = find_microvm other (sd_db s))"
proof (cases r)
  case (Inl e)
  with dbT_Inl [OF delete_microvm_triple exactly_self [OF assms(1)]] assms(2) show ?thesis
    by (auto simp: exactly_def)
next
  case (Inr result)
  with assms(2) have "delete_microvm_op sdk name s = (Inr result, s')" by simp
  from dbT_Inr [OF delete_microvm_triple exactly_self [OF assms(1)] this] obtain stored where
    stored: "view (sd_db s) name = Some stored" "mdr_name result = vm_name (st_record stored)"
    and after: "holds (remove_vm (vm_id (st_record stored)) (view (sd_db s))) (sd_db s')"
    by blast
  from assms(1) stored(1) have "vm_name (st_record stored) = name" by (auto elim: view_SomeE)
  with after stored assms(1) Inr show ?thesis
    by (simp add: holds_def find_microvm_view remove_vm_own [of "view (sd_db s)" name] remove_vm_other)
qed

theorem delete_microvm_inventory_witness:
  "\<exists>s'. delete_microvm_op demo_sdk ''web'' (demo_state False) = (Inr \<lparr>mdr_name = ''web''\<rparr>, s')
    \<and> find_microvm ''web'' (sd_db s') = Inr None"
proof -
  obtain s' where run: "delete_microvm_op demo_sdk ''web'' (demo_state False) = (Inr \<lparr>mdr_name = ''web''\<rparr>, s')"
    using demo_delete by blast
  with delete_microvm_inventory [OF _ run] demo_ok(2) show ?thesis by auto
qed

section \<open>Stopping\<close>

definition stopped_view :: "db \<Rightarrow> StoredMicroVm \<Rightarrow> inventory" where
  "stopped_view D stored = with_runtime stored (stopped_runtime stored) (view D)"

lemma finish_stopped_vm_triple:
  "dbT (exactly D) (finish_stopped_vm sdk stored forced)
     (\<lambda>r d. build_stop_result stored forced = Inr r \<and> holds (stopped_view D stored) d)
     (\<lambda>_ d. exactly D d \<or> holds (stopped_view D stored) d)"
  unfolding finish_stopped_vm_def reset_runtime_to_stopped_def stopped_view_def
  by (rule dbT_step, rule quiet_intros, rule dbT_step, rule quiet_intros,
      rule dbT_bind, rule dbT_conseq, rule dbT_put_runtime_exact, assumption, assumption)
    (auto intro: dbT_lift)

lemma stop_microvm_triple:
  "dbT (exactly D) (stop_microvm sdk name)
     (\<lambda>r d. \<exists>stored forced. view D name = Some stored \<and> build_stop_result stored forced = Inr r
        \<and> holds (stopped_view D stored) d)
     (\<lambda>_ d. exactly D d \<or> (\<exists>stored. view D name = Some stored \<and> holds (stopped_view D stored) d))"
  (is "dbT _ _ ?Q ?E")
proof -
  have finish: "dbT (exactly D) (finish_stopped_vm sdk stored forced) ?Q ?E"
    if "view D name = Some stored" for stored forced
    by (rule dbT_conseq [OF finish_stopped_vm_triple]) (use that in auto)
  have force: "dbT (exactly D) (force_stop sdk stored pid a b) ?Q ?E"
    if "view D name = Some stored" for stored pid a b
    unfolding force_stop_def by (intro finish [OF that] dbT_steps quiet_intros) auto
  have silent: "dbT (exactly D) (finish_silent sdk stored) ?Q ?E" if "view D name = Some stored" for stored
    unfolding finish_silent_def by (intro finish [OF that] dbT_steps quiet_intros) auto
  have body: "dbT (\<lambda>d. exactly D d \<and> view D name = Some stored)
      (bindE (liftE (require_complete ''stop MicroVM'' stored)) (\<lambda>_. f stored)) ?Q ?E"
    if "view D name = Some stored \<Longrightarrow> dbT (exactly D) (f stored) ?Q ?E" for stored f
    by (rule dbT_assume) (intro dbT_steps quiet_intros that; auto)
  show ?thesis
    unfolding stop_microvm_def Let_def
    by (rule dbT_step, rule quiet_intros, rule dbT_bind, rule dbT_conseq, rule dbT_lock_and_load, assumption,
        assumption, blast, rule body, intro silent finish force dbT_steps quiet_intros) auto
qed

lemma stopped_view_find:
  assumes "inventory_ok D" "view D name = Some stored" "holds (stopped_view D stored) d"
  shows "find_microvm name d = Inr (Some (stored\<lparr>st_runtime := Some (stopped_runtime stored)\<rparr>))"
    and "other \<noteq> name \<Longrightarrow> find_microvm other d = find_microvm other D"
  using assms
  by (simp_all add: holds_def stopped_view_def with_runtime_def find_microvm_view change_vm_own change_vm_other)

text \<open>(C7) A stop that succeeds has recorded the VM as stopped and without a process identifier, keeps
  everything else stored for it, and changes no other VM; a stop that fails has either done exactly that
  or changed nothing.\<close>
theorem stop_microvm_inventory:
  assumes "inventory_ok (sd_db s)" and "stop_microvm sdk name s = (r, s')"
  shows "(case r of Inl _ \<Rightarrow> sd_db s' = sd_db s | Inr x \<Rightarrow> False)
    \<or> (\<exists>stored. find_microvm name (sd_db s) = Inr (Some stored)
        \<and> find_microvm name (sd_db s') = Inr (Some (stored\<lparr>st_runtime := Some (stopped_runtime stored)\<rparr>))
        \<and> (\<forall>other. other \<noteq> name \<longrightarrow> find_microvm other (sd_db s') = find_microvm other (sd_db s))
        \<and> (\<forall>x. r = Inr x \<longrightarrow> mst_name x = name \<and> mst_state x = Stopped
             \<and> mst_socket_path x = vm_socket_path (st_record stored)))"
proof (cases r)
  case (Inl e)
  with assms(2) have run: "stop_microvm sdk name s = (Inl e, s')" by simp
  from dbT_Inl [OF stop_microvm_triple exactly_self [OF assms(1)] run] Inl show ?thesis
    using assms(1) stopped_view_find [OF assms(1)] by (auto simp: exactly_def find_microvm_view)
next
  case (Inr x)
  with assms(2) have run: "stop_microvm sdk name s = (Inr x, s')" by simp
  from dbT_Inr [OF stop_microvm_triple exactly_self [OF assms(1)] run] obtain stored forced where
    st: "view (sd_db s) name = Some stored" "build_stop_result stored forced = Inr x"
    "holds (stopped_view (sd_db s) stored) (sd_db s')" by blast
  then have "vm_name (st_record stored) = name" using assms(1) by (auto elim: view_SomeE)
  with st(2) have "mst_name x = name \<and> mst_state x = Stopped \<and> mst_socket_path x = vm_socket_path (st_record stored)"
    by (auto simp: build_stop_result_def Let_def bindR_Inr split: if_splits)
  with Inr st stopped_view_find [OF assms(1) st(1,3)] assms(1) show ?thesis
    by (auto simp: find_microvm_view)
qed

theorem stop_microvm_inventory_witness:
  "\<exists>x s'. stop_microvm demo_sdk ''web'' (demo_state True) = (Inr x, s') \<and> mst_name x = ''web'' \<and> mst_state x = Stopped
    \<and> find_microvm ''web'' (sd_db s') = Inr (Some (demo_stored\<lparr>st_runtime := Some (stopped_runtime demo_stored)\<rparr>))"
proof -
  obtain x s' where run: "stop_microvm demo_sdk ''web'' (demo_state True) = (Inr x, s')"
    using demo_stop by blast
  with stop_microvm_inventory [OF _ run] demo_ok(2) demo_find show ?thesis by auto
qed

section \<open>Updating\<close>

lemma dbT_restore_disk: "dbT P (restore_disk sdk rootfs previous primary) Q (\<lambda>_. P)"
  unfolding restore_disk_def by (intro dbT_steps quiet_intros)

lemma update_microvm_triple:
  "dbT (exactly D) (update_microvm sdk request)
     (\<lambda>r d. \<exists>stored mib. view D (ur_name request) = Some stored \<and> mur_name r = vm_name (st_record stored)
        \<and> holds (change_vm (vm_id (st_record stored))
            (set_resources (mur_disk_size_bytes r) (mur_memory_bytes r) mib (mur_vcpu_count r)) (view D)) d)
     (\<lambda>_. exactly D)" (is "dbT _ _ ?Q ?E")
proof -
  have same: "dbT (exactly D) (returnE (update_result (st_record stored) (vm_disk_size_bytes (st_record stored))
      (vm_memory_bytes (st_record stored)) (vm_vcpu_count (st_record stored)) False)) ?Q ?E"
    if st: "view D (ur_name request) = Some stored" for stored
  proof (rule dbT_return)
    fix d assume d: "exactly D d"
    let ?f = "set_resources (vm_disk_size_bytes (st_record stored)) (vm_memory_bytes (st_record stored))
      (vm_memory_effective_mib (st_record stored)) (vm_vcpu_count (st_record stored))"
    have "change_vm (vm_id (st_record stored)) ?f (view D) = view D"
    proof
      fix other
      have "?f stored = stored" by (simp add: set_resources_def)
      with st d show "change_vm (vm_id (st_record stored)) ?f (view D) other = view D other"
        by (cases "other = ur_name request") (simp_all add: change_vm_own change_vm_other exactly_def)
    qed
    with st d show "?Q (update_result (st_record stored) (vm_disk_size_bytes (st_record stored))
      (vm_memory_bytes (st_record stored)) (vm_vcpu_count (st_record stored)) False) d"
      by (auto simp: update_result_def exactly_def holds_def intro!: exI [of _ stored] exI [of _ "vm_memory_effective_mib (st_record stored)"])
  qed
  have commit: "dbT (exactly D) (commit_resources sdk (st_record stored) disk memory mib vcpus changed) ?Q ?E"
    if st: "view D (ur_name request) = Some stored" for stored disk memory mib vcpus changed
    unfolding commit_resources_def
  proof (rule dbT_bind [where R = "\<lambda>updated d. case updated of Inl e \<Rightarrow> exactly D d
        | Inr _ \<Rightarrow> holds (change_vm (vm_id (st_record stored)) (set_resources disk memory mib vcpus) (view D)) d"],
      rule dbT_attempt, rule dbT_conseq, rule dbT_resources_exact, goal_cases)
    case (4 updated)
    show ?case
      by (cases updated)
        (auto intro!: dbT_restore_disk dbT_throw dbT_return simp: update_result_def st split: if_splits)
  qed auto
  have body: "dbT (\<lambda>d. exactly D d \<and> view D (ur_name request) = Some stored)
      (bindE (liftE (require_complete ''edit MicroVM'' stored)) (\<lambda>_. f stored)) ?Q ?E"
    if "view D (ur_name request) = Some stored \<Longrightarrow> dbT (exactly D) (f stored) ?Q ?E" for stored f
    by (rule dbT_assume) (intro dbT_steps quiet_intros that; auto)
  show ?thesis
    unfolding update_microvm_def Let_def
    by (rule dbT_step, rule quiet_intros, rule dbT_step, rule quiet_intros, rule dbT_bind, rule dbT_conseq,
        rule dbT_lock_and_load, assumption, assumption, blast, rule body,
        intro same commit dbT_steps quiet_intros) auto
qed

text \<open>(C6) An update that fails, also after the disk was already resized, leaves the inventory as it was; one
  that succeeds has recorded the disk size, memory and number of processors it reports, and neither the
  identity, network, credential and runtime of the VM nor any other VM changes.\<close>
theorem update_microvm_inventory:
  assumes "inventory_ok (sd_db s)" and "update_microvm sdk request s = (r, s')"
  shows "case r of
      Inl _ \<Rightarrow> sd_db s' = sd_db s
    | Inr x \<Rightarrow> (\<exists>stored mib. find_microvm (ur_name request) (sd_db s) = Inr (Some stored)
        \<and> find_microvm (ur_name request) (sd_db s')
            = Inr (Some (set_resources (mur_disk_size_bytes x) (mur_memory_bytes x) mib (mur_vcpu_count x) stored)))
        \<and> (\<forall>other. other \<noteq> ur_name request \<longrightarrow> find_microvm other (sd_db s') = find_microvm other (sd_db s))"
proof (cases r)
  case (Inl e)
  with dbT_Inl [OF update_microvm_triple exactly_self [OF assms(1)]] assms(2) show ?thesis
    by (auto simp: exactly_def)
next
  case (Inr x)
  with assms(2) have "update_microvm sdk request s = (Inr x, s')" by simp
  from dbT_Inr [OF update_microvm_triple exactly_self [OF assms(1)] this] obtain stored mib where
    st: "view (sd_db s) (ur_name request) = Some stored"
    and d: "holds (change_vm (vm_id (st_record stored))
            (set_resources (mur_disk_size_bytes x) (mur_memory_bytes x) mib (mur_vcpu_count x)) (view (sd_db s))) (sd_db s')"
    by blast
  from d st assms(1) Inr show ?thesis
    by (auto simp: holds_def find_microvm_view change_vm_own change_vm_other)
qed

theorem update_microvm_inventory_witness:
  "\<exists>x s' mib. update_microvm demo_sdk demo_update_request (demo_state False) = (Inr x, s') \<and> mur_vcpu_count x = 4
    \<and> find_microvm ''web'' (sd_db s') = Inr (Some (set_resources 1073741824 536870912 mib 4 demo_stored))"
proof -
  obtain s' where run: "update_microvm demo_sdk demo_update_request (demo_state False)
      = (Inr (update_result (st_record demo_stored) 1073741824 536870912 4 False), s')"
    using demo_update by blast
  with update_microvm_inventory [OF _ run] demo_ok(2) demo_find show ?thesis
    by (auto simp: update_result_def demo_update_request_def)
qed

section \<open>Starting\<close>

lemma dbT_pointwise:
  fixes m :: "('w sdk, 'a) sdk_io"
  assumes "\<And>d. P d \<Longrightarrow> inventory_ok d" "\<And>d. P d \<Longrightarrow> dbT (exactly d) m Q E"
  shows "dbT P m Q E"
  unfolding dbT_def tripleE_def
proof (intro allI impI)
  fix w :: "'w sdk"
  assume P: "P (sd_db w)"
  then have "exactly (sd_db w) (sd_db w)" using assms(1) by (simp add: exactly_def)
  with assms(2) [OF P] show "case m w of (Inl e, w') \<Rightarrow> E e (sd_db w') | (Inr x, w') \<Rightarrow> Q x (sd_db w')"
    by (simp add: dbT_def tripleE_def)
qed

text \<open>Of all VMs only the named one may differ, and of that one only the runtime and the network, which is the
  old one or in the relation \<open>ok\<close> to it.\<close>

definition own_changes ::
  "(PersistedNetwork option \<Rightarrow> PersistedNetwork option \<Rightarrow> bool) \<Rightarrow> string \<Rightarrow> db \<Rightarrow> db \<Rightarrow> bool" where
  "own_changes ok name D d \<longleftrightarrow> inventory_ok d \<and> (\<forall>other. other \<noteq> name \<longrightarrow> view d other = view D other)
     \<and> (case view D name of
          None \<Rightarrow> view d name = None
        | Some a \<Rightarrow> \<exists>n r. view d name = Some (a\<lparr>st_network := n, st_runtime := r\<rparr>)
            \<and> (n = st_network a \<or> ok (st_network a) n))"

lemma same_parts: "\<exists>n r. a = a\<lparr>st_network := n, st_runtime := r\<rparr>"
  by (rule exI [of _ "st_network a"], rule exI [of _ "st_runtime a"]) simp

lemma same_network: "\<exists>n r. a = a\<lparr>st_network := n, st_runtime := r\<rparr> \<and> (n = st_network a \<or> ok n)"
  by (rule exI [of _ "st_network a"], rule exI [of _ "st_runtime a"]) simp

lemma own_changes_refl: "exactly D d \<Longrightarrow> own_changes ok name D d"
  using same_network by (auto simp: own_changes_def exactly_def split: option.split)

lemma own_record:
  "own_changes ok name D d \<Longrightarrow> view D name = Some s \<Longrightarrow> view d name = Some a \<Longrightarrow> st_record a = st_record s"
  by (auto simp: own_changes_def)

lemma own_changes_change:
  assumes d: "own_changes ok name D d" and st: "view D name = Some stored"
    and f: "\<And>a. \<exists>n r. f a = a\<lparr>st_network := n, st_runtime := r\<rparr> \<and> (n = st_network a \<or> ok (st_network stored) n)"
    and h: "holds (change_vm (vm_id (st_record stored)) f (view d)) d'"
  shows "own_changes ok name D d' \<and> (\<exists>a. view d name = Some a \<and> view d' name = Some (f a))"
proof -
  from d st obtain n r where a: "view d name = Some (stored\<lparr>st_network := n, st_runtime := r\<rparr>)"
    and n: "n = st_network stored \<or> ok (st_network stored) n"
    by (auto simp: own_changes_def)
  let ?a = "stored\<lparr>st_network := n, st_runtime := r\<rparr>"
  have id: "vm_id (st_record ?a) = vm_id (st_record stored)" by simp
  have inventory: "inventory_ok d" using d by (simp add: own_changes_def)
  have own: "view d' name = Some (f ?a)"
    using h change_vm_own [of "view d" name, OF a] by (simp add: holds_def id)
  moreover have "view d' other = view d other" if "other \<noteq> name" for other
    using h change_vm_other [OF inventory a that] by (simp add: holds_def id)
  moreover obtain n' r' where "f ?a = stored\<lparr>st_network := n', st_runtime := r'\<rparr>"
      "n' = st_network stored \<or> ok (st_network stored) n'"
    using f [of ?a] n by auto
  ultimately show ?thesis using d h st a by (auto simp: own_changes_def holds_def)
qed

lemma runtime_keeps_network:
  "\<exists>n ro. a\<lparr>st_runtime := Some r\<rparr> = a\<lparr>st_network := n, st_runtime := ro\<rparr> \<and> (n = st_network a \<or> ok n)"
  by (rule exI [of _ "st_network a"], rule exI [of _ "Some r"]) simp

lemma own_put_runtime:
  assumes st: "view D name = Some stored" and id: "vm_id (st_record current) = vm_id (st_record stored)"
  shows "dbT (own_changes ok name D) (put_runtime sdk current r)
    (\<lambda>_ d. own_changes ok name D d \<and> (\<exists>a. view d name = Some a \<and> st_runtime a = Some r)) (\<lambda>_. own_changes ok name D)"
proof (rule dbT_pointwise)
  fix d assume d: "own_changes ok name D d"
  show "dbT (exactly d) (put_runtime sdk current r)
    (\<lambda>_ d. own_changes ok name D d \<and> (\<exists>a. view d name = Some a \<and> st_runtime a = Some r)) (\<lambda>_. own_changes ok name D)"
  proof (rule dbT_conseq [OF dbT_put_runtime_exact])
    fix x d' assume h: "holds (with_runtime current r (view d)) d'"
    from own_changes_change [OF d st runtime_keeps_network h [unfolded with_runtime_def id]]
    show "own_changes ok name D d' \<and> (\<exists>a. view d' name = Some a \<and> st_runtime a = Some r)" by auto
  qed (use d in \<open>auto simp: exactly_def\<close>)
qed (simp add: own_changes_def)

lemma own_update_network:
  assumes st: "view D name = Some stored" and ok: "ok (st_network stored) (Some n)"
  shows "dbT (own_changes ok name D) (repository_stamped sdk (\<lambda>now. update_network now (vm_id (st_record stored)) n))
    (\<lambda>_ d. own_changes ok name D d \<and> (\<exists>a. view d name = Some a \<and> st_network a = Some n)) (\<lambda>_. own_changes ok name D)"
proof (rule dbT_pointwise)
  fix d assume d: "own_changes ok name D d"
  have ex: "\<exists>no r. a\<lparr>st_network := Some n\<rparr> = a\<lparr>st_network := no, st_runtime := r\<rparr>
      \<and> (no = st_network a \<or> ok (st_network stored) no)" for a
    by (rule exI [of _ "Some n"], rule exI [of _ "st_runtime a"]) (simp add: ok)
  have "dbT (exactly d) (repository_stamped sdk (\<lambda>now. update_network now (vm_id (st_record stored)) n))
     (\<lambda>_. holds (with_network stored n (view d))) (\<lambda>_. exactly d)"
    unfolding with_network_def update_network_def by (rule dbT_stamped_exact) (rule sqlite.network_refines)
  then show "dbT (exactly d) (repository_stamped sdk (\<lambda>now. update_network now (vm_id (st_record stored)) n))
    (\<lambda>_ d. own_changes ok name D d \<and> (\<exists>a. view d name = Some a \<and> st_network a = Some n)) (\<lambda>_. own_changes ok name D)"
  proof (rule dbT_conseq)
    fix x d' assume h: "holds (with_network stored n (view d)) d'"
    from own_changes_change [OF d st ex h [unfolded with_network_def]]
    show "own_changes ok name D d' \<and> (\<exists>a. view d' name = Some a \<and> st_network a = Some n)" by auto
  qed (use d in \<open>auto simp: exactly_def\<close>)
qed (simp add: own_changes_def)

lemma own_load:
  "dbT (\<lambda>d. own_changes ok name D d \<and> R d) (load_vm sdk name)
     (\<lambda>a d. own_changes ok name D d \<and> R d \<and> view d name = Some a) (\<lambda>_ d. own_changes ok name D d \<and> R d)"
  by (rule dbT_pointwise, simp add: own_changes_def,
      rule dbT_conseq [OF dbT_load_exact]) (auto simp: exactly_def)

text \<open>Steps that keep a predicate of the database whether they succeed or fail.\<close>

lemma dbT_note_failure: "dbT P m (\<lambda>_. P) (\<lambda>_. P) \<Longrightarrow> dbT P (note_failure failures m) (\<lambda>_. P) (\<lambda>_. P)"
  unfolding note_failure_def
  by (rule dbT_bind [where R = "\<lambda>_. P"], rule dbT_attempt) (auto intro: dbT_return)

lemma dbT_note_if_clean: "dbT P m (\<lambda>_. P) (\<lambda>_. P) \<Longrightarrow> dbT P (note_if_clean failures m) (\<lambda>_. P) (\<lambda>_. P)"
  unfolding note_if_clean_def by (auto intro: dbT_note_failure dbT_return)

lemma dbT_keep_bind:
  "dbT P m (\<lambda>_. P) (\<lambda>_. P) \<Longrightarrow> (\<And>x. dbT P (f x) Q (\<lambda>_. P)) \<Longrightarrow> dbT P (bindE m f) Q (\<lambda>_. P)"
  by (rule dbT_bind)

lemma dbT_keep_attempt: "dbT P m (\<lambda>_. P) (\<lambda>_. P) \<Longrightarrow> dbT P (attemptE m) (\<lambda>_. P) (\<lambda>_. P)"
  by (rule dbT_attempt)

lemma dbT_keep_quiet: "quietD m \<Longrightarrow> dbT P m (\<lambda>_. P) (\<lambda>_. P)"
  by (auto intro: dbT_quiet)

lemma dbT_keep_throw: "dbT P (throwE e) Q (\<lambda>_. P)"
  by (simp add: dbT_throw)

lemma keep_put_runtime:
  assumes st: "view D name = Some stored" and id: "st_record current = st_record stored"
  shows "dbT (own_changes ok name D) (put_runtime sdk current r) (\<lambda>_. own_changes ok name D) (\<lambda>_. own_changes ok name D)"
  by (rule dbT_conseq [OF own_put_runtime [OF st]]) (simp_all add: id)

lemma keep_reset:
  assumes st: "view D name = Some stored" and id: "st_record current = st_record stored"
  shows "dbT (own_changes ok name D) (reset_runtime_to_stopped sdk current) (\<lambda>_. own_changes ok name D) (\<lambda>_. own_changes ok name D)"
  unfolding reset_runtime_to_stopped_def by (rule keep_put_runtime [OF assms])

lemma keep_cleanup_unstarted:
  assumes st: "view D name = Some stored" and id: "st_record current = st_record stored"
  shows "dbT (own_changes ok name D) (cleanup_unstarted_launch sdk current primary) Q (\<lambda>_. own_changes ok name D)"
  unfolding cleanup_unstarted_launch_def
  by (intro dbT_keep_bind dbT_note_failure dbT_note_if_clean keep_reset [OF assms] dbT_keep_throw dbT_keep_quiet
      quiet_intros)

lemma keep_cleanup_failed:
  assumes st: "view D name = Some stored" and id: "st_record current = st_record stored"
  shows "dbT (own_changes ok name D) (cleanup_failed_launch sdk current pid starting primary) Q (\<lambda>_. own_changes ok name D)"
  unfolding cleanup_failed_launch_def Let_def
  by (rule dbT_keep_bind, rule dbT_note_failure, rule dbT_keep_quiet, rule quiet_intros,
      rule dbT_keep_bind, rule dbT_keep_attempt, rule dbT_keep_quiet, rule quiet_intros, rule dbT_if,
      rule dbT_keep_bind, rule dbT_keep_attempt, rule keep_put_runtime [OF assms], rule dbT_keep_throw,
      rule dbT_keep_bind, rule dbT_note_failure, rule dbT_keep_quiet, rule quiet_intros,
      rule dbT_keep_bind, rule dbT_note_if_clean, rule dbT_keep_quiet, rule quiet_intros,
      rule dbT_keep_bind, rule dbT_note_if_clean, rule keep_reset [OF assms], rule dbT_keep_throw)

text \<open>What a successful start promises: the VM is recorded as running with the returned process.\<close>

definition recorded_running :: "string \<Rightarrow> MicroVmStartResult \<Rightarrow> db \<Rightarrow> bool" where
  "recorded_running name x d \<longleftrightarrow>
     (\<exists>a r n. view d name = Some a \<and> st_runtime a = Some r \<and> st_network a = Some n
        \<and> rt_process_id r = Some (msr_process_id x) \<and> rt_process_state r = ''running''
        \<and> msr_name x = vm_name (st_record a) \<and> msr_network x = pn_config n)"

lemma build_start_result_Inr:
  "build_start_result a pid = Inr x \<Longrightarrow>
     msr_process_id x = pid \<and> msr_name x = vm_name (st_record a)
     \<and> (\<exists>n r. st_network a = Some n \<and> st_runtime a = Some r \<and> msr_network x = pn_config n \<and> rt_process_id r = Some pid)"
  by (auto simp: build_start_result_def require_full_def require_complete_def is_complete_def bindR_Inr Let_def
      split: if_splits option.splits prod.splits)

lemma keep_quiet_bind:
  "quietD m \<Longrightarrow> (\<And>x. dbT P (f x) Q (\<lambda>_. P)) \<Longrightarrow> dbT P (bindE m f) Q (\<lambda>_. P)"
  by (rule dbT_step) auto

lemma launch_machine_triple:
  assumes st: "view D name = Some stored" and id: "st_record current = st_record stored"
    and nm: "vm_name (st_record stored) = name"
  shows "dbT (own_changes ok name D) (launch_machine sdk current boot request)
    (\<lambda>x d. own_changes ok name D d \<and> recorded_running name x d) (\<lambda>_. own_changes ok name D)" (is "dbT _ _ ?Q ?E")
proof -
  have final: "dbT (own_changes ok name D) (bindE (put_runtime sdk current ((starting_runtime current boot pid)\<lparr>rt_process_state := ''running''\<rparr>)) (\<lambda>_.
      bindE (load_vm sdk (vm_name (st_record current))) (\<lambda>final. liftE (build_start_result final pid)))) ?Q ?E" for pid
    unfolding id nm
  proof (rule dbT_bind, rule dbT_conseq, rule own_put_runtime [OF st], simp add: id, assumption, assumption, assumption,
      rule dbT_bind, rule dbT_conseq, rule own_load, assumption, assumption, blast, rule dbT_lift, goal_cases)
    case (1 u final d x)
    with build_start_result_Inr [of final pid x] show ?case
      by (auto simp: recorded_running_def starting_runtime_def)
  qed blast
  show ?thesis
    unfolding launch_machine_def Let_def
    by (rule keep_quiet_bind, intro quiet_intros, rule dbT_sum, rule keep_cleanup_unstarted [OF st id], rule dbT_if,
        rule keep_cleanup_unstarted [OF st id],
        rule dbT_keep_bind, rule dbT_keep_attempt, rule keep_put_runtime [OF st id], rule dbT_sum,
        rule keep_cleanup_failed [OF st id], rule keep_quiet_bind, intro quiet_intros, rule dbT_sum,
        rule keep_cleanup_failed [OF st id])
      (auto split: bool.split intro: final keep_cleanup_failed [OF st id])
qed

lemma adopt_running_triple:
  assumes st: "view D name = Some stored"
  shows "dbT (exactly D) (adopt_running sdk stored)
    (\<lambda>x d. own_changes ok name D d \<and> recorded_running name x d) (\<lambda>_. own_changes ok name D)" (is "dbT _ _ ?Q ?E")
proof -
  have promote: "dbT (exactly D) (bindE (whenE (rt_process_state r = ''starting'')
      (put_runtime sdk stored (r\<lparr>rt_process_state := ''running''\<rparr>))) (\<lambda>_. liftE (build_start_result stored pid))) ?Q ?E"
    if r: "st_runtime stored = Some r" "rt_process_state r \<in> {''starting'', ''running''}" for r pid
  proof (cases "rt_process_state r = ''starting''")
    case True
    let ?r = "r\<lparr>rt_process_state := ''running''\<rparr>"
    have own: "own_changes ok name D d \<and> view d name = Some (stored\<lparr>st_runtime := Some ?r\<rparr>)"
      if "inventory_ok D" "holds (with_runtime stored ?r (view D)) d" for d
      using own_changes_change [OF own_changes_refl [OF exactly_self [OF that(1)]] st runtime_keeps_network
          that(2) [unfolded with_runtime_def]]
      by (simp add: st)
    have "dbT (\<lambda>d. exactly D d \<and> inventory_ok D) (bindE (put_runtime sdk stored ?r) (\<lambda>_. liftE (build_start_result stored pid))) ?Q ?E"
    proof (rule dbT_assume, rule dbT_bind [where R = "\<lambda>_. holds (with_runtime stored ?r (view D))"],
        rule dbT_conseq, rule dbT_put_runtime_exact, assumption, assumption,
        erule own_changes_refl, rule dbT_lift, goal_cases)
      case (1 u d x)
      with own build_start_result_Inr [of stored pid x] r show ?case
        by (auto simp: recorded_running_def)
    qed (auto dest: own)
    with True show ?thesis by (simp only: exactly_conj whenE_def simp_thms if_True)
  next
    case False
    with r have "rt_process_state r = ''running''" by simp
    have "dbT (exactly D) (liftE (build_start_result stored pid)) ?Q ?E"
    proof (rule dbT_lift)
      fix d x assume d: "exactly D d" and x: "build_start_result stored pid = Inr x"
      from build_start_result_Inr [OF x] r \<open>rt_process_state r = ''running''\<close> d st
      have "recorded_running name x d" by (auto simp: recorded_running_def exactly_def)
      with own_changes_refl [OF d] show "own_changes ok name D d \<and> recorded_running name x d" by blast
    qed (rule own_changes_refl)
    with False show ?thesis by (simp only: whenE_def if_False bindE_return)
  qed
  show ?thesis
    unfolding adopt_running_def Let_def
  proof (rule dbT_bind [where R = "\<lambda>r d. exactly D d \<and> st_runtime stored = Some r"], goal_cases)
    case 1
    show ?case by (auto simp: require_some_def intro!: dbT_lift own_changes_refl)
  next
    case (2 r)
    show ?case
      by (rule dbT_assume, rule dbT_step, rule quiet_intros, rule dbT_if, rule dbT_throw, erule own_changes_refl,
          rule dbT_step, rule quiet_intros, rule dbT_if, rule dbT_throw, erule own_changes_refl, rule promote)
        (auto intro: own_changes_refl)
  qed
qed

text \<open>The networks that the network port may return for an existing one are in the relation.\<close>

definition network_kept :: "(PersistedNetwork option \<Rightarrow> PersistedNetwork option \<Rightarrow> bool) \<Rightarrow> 'w MicroVmSdk \<Rightarrow> bool" where
  "network_kept ok sdk \<longleftrightarrow> (\<forall>request n used lan w outcome w'.
     configure_port (network sdk) request (Some n) used lan w = (Inr outcome, w') \<longrightarrow> ok (Some n) (Some (no_persisted outcome)))"

lemma networkD:
  "network_kept ok sdk \<Longrightarrow> configure_port (network sdk) request (Some n) used lan w = (Inr outcome, w')
    \<Longrightarrow> ok (Some n) (Some (no_persisted outcome))"
  unfolding network_kept_def by blast

lemma dbT_configure:
  assumes "network_kept ok sdk"
  shows "dbT P (on_env (configure_port (network sdk) request (Some n) used lan))
    (\<lambda>outcome d. P d \<and> ok (Some n) (Some (no_persisted outcome))) (\<lambda>_. P)"
  unfolding dbT_def tripleE_def on_env_def using networkD [OF assms]
  by (auto split: prod.splits sum.splits)

lemma require_full_network: "require_full operation stored = Inr (n, c, r) \<Longrightarrow> st_network stored = Some n"
  by (auto simp: require_full_def require_complete_def is_complete_def bindR_Inr split: if_splits option.splits)

lemma reconcile_start_network_triple:
  assumes st: "view D name = Some stored" and nm: "vm_name (st_record stored) = name" and kept: "network_kept ok sdk"
  shows "dbT (own_changes ok name D) (reconcile_start_network sdk stored)
    (\<lambda>a d. own_changes ok name D d \<and> st_record a = st_record stored) (\<lambda>_. own_changes ok name D)"
proof -
  have persist: "dbT (own_changes ok name D) (bindE (repository_stamped sdk
        (\<lambda>now. update_network now (vm_id (st_record stored)) n)) (\<lambda>_. load_vm sdk name))
      (\<lambda>a d. own_changes ok name D d \<and> st_record a = st_record stored) (\<lambda>_. own_changes ok name D)"
    if "ok (st_network stored) (Some n)" for n
    by (rule dbT_bind, rule own_update_network [OF st, where ok = ok], rule that, rule dbT_conseq, rule own_load)
      (auto dest: own_record [OF _ st])
  show ?thesis
    unfolding reconcile_start_network_def nm
  proof (rule dbT_bind [where R = "\<lambda>x d. own_changes ok name D d \<and> st_network stored = Some (fst x)"], goal_cases)
    case 1
    show ?case by (rule dbT_lift) (auto dest: require_full_network)
  next
    case (2 x)
    show ?case
      by (rule dbT_assume, rule dbT_prod, rule dbT_prod, rule dbT_if, rule dbT_keep_throw,
          rule keep_quiet_bind, rule quiet_intros, rule keep_quiet_bind, rule quiet_intros,
          rule dbT_bind, rule dbT_configure [OF kept], rule dbT_assume, rule persist) simp
  qed
qed

lemma start_microvm_triple:
  assumes kept: "network_kept ok sdk"
  shows "dbT (exactly D) (start_microvm sdk name)
     (\<lambda>x d. own_changes ok name D d \<and> recorded_running name x d) (\<lambda>_. own_changes ok name D)" (is "dbT _ _ ?Q ?E")
proof -
  have cold: "dbT (own_changes ok name D)
     (bindE (refuse_live_process sdk stored) (\<lambda>_.
     bindE (release_vm_mapping sdk stored) (\<lambda>_.
     bindE (remove_stale_socket sdk stored) (\<lambda>_.
     bindE (reset_runtime_to_stopped sdk stored) (\<lambda>_.
     bindE (on_env (validate_host (runtime sdk))) (\<lambda>_.
     bindE (reconcile_start_network sdk stored) (\<lambda>reconciled.
     bindE (start_launch_request sdk reconciled boot) (\<lambda>request.
     bindE (on_env (ensure_mapping (runtime_disk sdk) (home sdk) (vm_name (st_record reconciled))
              (vm_rootfs_path (st_record reconciled)))) (\<lambda>disk.
     launch_machine sdk reconciled boot (request\<lparr>sr_runtime_disk_path := disk\<rparr>))))))))) ) ?Q ?E"
    if st: "view D name = Some stored" and nm: "vm_name (st_record stored) = name" for stored boot
    by (rule keep_quiet_bind, rule quiet_intros, rule keep_quiet_bind, rule quiet_intros,
        rule keep_quiet_bind, rule quiet_intros, rule dbT_keep_bind, rule keep_reset [OF st refl],
        rule keep_quiet_bind, rule quiet_intros, rule dbT_bind, rule reconcile_start_network_triple [OF st nm kept],
        rule dbT_assume, rule keep_quiet_bind, rule quiet_intros, rule keep_quiet_bind, rule quiet_intros,
        erule launch_machine_triple [OF st _ nm])
  have "dbT (\<lambda>d. exactly D d \<and> inventory_ok D) (start_microvm sdk name) ?Q ?E"
    unfolding start_microvm_def
  proof (rule dbT_assume, rule dbT_step, rule quiet_intros,
      rule dbT_bind [where R = "\<lambda>stored d. exactly D d \<and> view D name = Some stored"],
      rule dbT_conseq, rule dbT_lock_and_load, assumption, assumption, erule own_changes_refl, rule dbT_assume, goal_cases)
    case (1 u stored)
    then have nm: "vm_name (st_record stored) = name" by (auto elim: view_SomeE)
    show ?case
      by (rule dbT_step, rule quiet_intros, rule dbT_step, rule quiet_intros, rule dbT_step, rule quiet_intros,
          rule dbT_step, rule quiet_intros, rule dbT_step, rule quiet_intros, rule dbT_if,
          rule adopt_running_triple [OF 1(2)], rule dbT_conseq, rule cold [OF 1(2) nm])
        (auto intro: own_changes_refl)
  qed (auto intro: own_changes_refl)
  then show ?thesis by (simp only: exactly_conj)
qed

lemma any_network: "network_kept (\<lambda>_ _. True) sdk"
  by (simp add: network_kept_def)

text \<open>(C4) Whatever the host does and wherever it fails, starting a VM changes no other VM, and of the VM
  itself only the recorded network and runtime; when the start succeeds, the VM is recorded as running
  with exactly the process identifier and the network configuration that are returned.\<close>
theorem start_microvm_inventory:
  assumes "inventory_ok (sd_db s)" and "start_microvm sdk name s = (r, s')"
  shows "(\<forall>other. other \<noteq> name \<longrightarrow> find_microvm other (sd_db s') = find_microvm other (sd_db s))
    \<and> (\<forall>stored. find_microvm name (sd_db s) = Inr (Some stored) \<longrightarrow>
        (\<exists>n rt. find_microvm name (sd_db s') = Inr (Some (stored\<lparr>st_network := n, st_runtime := rt\<rparr>))
          \<and> (\<forall>x. r = Inr x \<longrightarrow> (\<exists>n' rt'. n = Some n' \<and> rt = Some rt' \<and> msr_network x = pn_config n'
               \<and> rt_process_id rt' = Some (msr_process_id x) \<and> rt_process_state rt' = ''running''))))"
proof -
  let ?D = "sd_db s"
  have own: "own_changes (\<lambda>_ _. True) name ?D (sd_db s') \<and> (\<forall>x. r = Inr x \<longrightarrow> recorded_running name x (sd_db s'))"
  proof (cases r)
    case (Inl e)
    with dbT_Inl [OF start_microvm_triple [OF any_network] exactly_self [OF assms(1)]] assms(2) show ?thesis by auto
  next
    case (Inr x)
    with dbT_Inr [OF start_microvm_triple [OF any_network] exactly_self [OF assms(1)]] assms(2) show ?thesis by auto
  qed
  then have ok: "inventory_ok (sd_db s')" by (simp add: own_changes_def)
  show ?thesis
    unfolding find_microvm_view [OF ok] find_microvm_view [OF assms(1)] sum.inject
  proof (intro conjI allI impI)
    fix other assume "other \<noteq> name"
    with own show "view (sd_db s') other = view ?D other" by (simp add: own_changes_def)
  next
    fix stored assume "view ?D name = Some stored"
    with own obtain n rt where after: "view (sd_db s') name = Some (stored\<lparr>st_network := n, st_runtime := rt\<rparr>)"
      by (auto simp: own_changes_def)
    moreover have "\<exists>n' rt'. n = Some n' \<and> rt = Some rt' \<and> msr_network x = pn_config n'
        \<and> rt_process_id rt' = Some (msr_process_id x) \<and> rt_process_state rt' = ''running''" if "r = Inr x" for x
      using own that after by (auto simp: recorded_running_def)
    ultimately show "\<exists>n rt. view (sd_db s') name = Some (stored\<lparr>st_network := n, st_runtime := rt\<rparr>)
        \<and> (\<forall>x. r = Inr x \<longrightarrow> (\<exists>n' rt'. n = Some n' \<and> rt = Some rt' \<and> msr_network x = pn_config n'
             \<and> rt_process_id rt' = Some (msr_process_id x) \<and> rt_process_state rt' = ''running''))"
      by blast
  qed
qed

theorem start_microvm_inventory_witness:
  "\<exists>x s' n rt. start_microvm demo_sdk ''web'' (demo_state False) = (Inr x, s')
    \<and> find_microvm ''web'' (sd_db s') = Inr (Some (demo_stored\<lparr>st_network := Some n, st_runtime := Some rt\<rparr>))
    \<and> rt_process_id rt = Some 7 \<and> rt_process_state rt = ''running''"
proof -
  obtain x s' where run: "start_microvm demo_sdk ''web'' (demo_state False) = (Inr x, s')" "msr_process_id x = 7"
    using demo_start by blast
  with start_microvm_inventory [OF _ run(1)] demo_ok(2) demo_find show ?thesis by auto
qed

end
