(* ===== verification/Network_Contract.thy ===== *)
theory Network_Contract
  imports Lifecycle_Safety
begin

text \<open>
  The contract between the lifecycle operations and the network controller: reconciling an existing network
  never changes its identity. The clients are proved for every port that promises this, and the Linux
  controller is shown to promise it.
\<close>

text \<open>The addresses, the TAP, the MAC and the recorded resources of a network; the flags that say what the SDK changed on
  the host may differ.\<close>

definition same_identity :: "PersistedNetwork option \<Rightarrow> PersistedNetwork option \<Rightarrow> bool" where
  "same_identity old new \<longleftrightarrow> (case (old, new) of
     (Some n, Some n') \<Rightarrow> pn_config n' = pn_config n \<and> pn_guest_mac n' = pn_guest_mac n
        \<and> pn_host_address n' = pn_host_address n \<and> pn_resources n' = pn_resources n
        \<and> pn_desired_boot_parameters n' = pn_desired_boot_parameters n \<and> pn_uplink_cidr n' = pn_uplink_cidr n
   | _ \<Rightarrow> False)"

locale network_port =
  fixes reconfigure :: "NetworkRequest \<Rightarrow> PersistedNetwork option \<Rightarrow> used_address list \<Rightarrow> used_address list
    \<Rightarrow> ('w, NetworkOutcome) sdk_io"
  assumes identity_kept: "reconfigure request (Some n) used lan w = (Inr outcome, w')
    \<Longrightarrow> same_identity (Some n) (Some (no_persisted outcome))"
begin

lemma kept: "configure_port (network sdk) = reconfigure \<Longrightarrow> network_kept same_identity sdk"
  unfolding network_kept_def using identity_kept by blast

lemma start_keeps_identity:
  assumes port: "configure_port (network sdk) = reconfigure" and ok: "inventory_ok (sd_db s)"
    and run: "start_microvm sdk name s = (r, s')" and st: "find_microvm name (sd_db s) = Inr (Some stored)"
  shows "\<exists>n rt. find_microvm name (sd_db s') = Inr (Some (stored\<lparr>st_network := n, st_runtime := rt\<rparr>))
    \<and> (n = st_network stored \<or> same_identity (st_network stored) n)"
proof -
  note triple = start_microvm_triple [OF kept [OF port]]
  have own: "own_changes same_identity name (sd_db s) (sd_db s')"
    using dbT_Inl [OF triple exactly_self [OF ok]] dbT_Inr [OF triple exactly_self [OF ok]] run by (cases r) auto
  then have "inventory_ok (sd_db s')" by (simp add: own_changes_def)
  with own st find_microvm_view [OF ok] show ?thesis by (auto simp: own_changes_def find_microvm_view)
qed

end

section \<open>The Linux controller\<close>

text \<open>Every result that an effect returns has a property, whatever its earlier steps do.\<close>

definition gives :: "('a \<Rightarrow> bool) \<Rightarrow> ('w, 'a) sdk_io \<Rightarrow> bool" where
  "gives Q m \<longleftrightarrow> (\<forall>w x w'. m w = (Inr x, w') \<longrightarrow> Q x)"

named_theorems gives_intros \<open>results of effects\<close>

lemma gives_bind [gives_intros]: "(\<And>x. gives Q (f x)) \<Longrightarrow> gives Q (bindE m f)"
  by (fastforce simp: gives_def bindE_def split: prod.splits sum.splits)

lemma gives_throw [gives_intros]: "gives Q (throwE e)"
  and gives_rollback [gives_intros]: "gives Q (rollback primary m')"
  by (auto simp: gives_def rollback_def bindE_def attemptE_def split: prod.splits sum.splits if_splits)

lemma gives_cases [gives_intros]:
  "gives Q m \<Longrightarrow> gives Q m' \<Longrightarrow> gives Q (if b then m else m')"
  "gives Q m \<Longrightarrow> (\<And>x. gives Q (f x)) \<Longrightarrow> gives Q (case o' of None \<Rightarrow> m | Some x \<Rightarrow> f x)"
  "(\<And>a. gives Q (h a)) \<Longrightarrow> (\<And>a. gives Q (k a)) \<Longrightarrow> gives Q (case ip of V4 a \<Rightarrow> h a | V6 a' \<Rightarrow> k a')"
  "(\<And>e. gives Q (h' e)) \<Longrightarrow> (\<And>x. gives Q (k' x)) \<Longrightarrow> gives Q (case r of Inl e \<Rightarrow> h' e | Inr x \<Rightarrow> k' x)"
  "(\<And>x y. gives Q (g x y)) \<Longrightarrow> gives Q (case p of (x, y) \<Rightarrow> g x y)"
  by (simp_all split: option.split ip_addr.split sum.split prod.split)

lemma gives_return: "Q x \<Longrightarrow> gives Q (returnE x)"
  by (simp add: gives_def)

lemma givesD: "gives Q m \<Longrightarrow> m w = (Inr x, w') \<Longrightarrow> Q x"
  unfolding gives_def by blast

lemma record_reconciled_identity: "same_identity (Some n) (Some (record_reconciled applied n))"
  by (simp add: record_reconciled_def same_identity_def Let_def)

lemma reconcile_host_only_identity:
  "gives (\<lambda>(n', _). same_identity (Some n) (Some n')) (reconcile_host_only spawn n)"
  unfolding reconcile_host_only_def Let_def
  by (intro gives_intros gives_return) (simp add: same_identity_def)

lemma reconcile_lan_identity:
  "gives (\<lambda>(n', _). same_identity (Some n) (Some n')) (reconcile_lan spawn n name)"
  unfolding reconcile_lan_def Let_def
  by (intro gives_intros gives_return) (simp add: record_reconciled_identity)

lemma reconcile_identity:
  assumes "reconcile spawn request n w = (Inr outcome, w')"
  shows "same_identity (Some n) (Some (no_persisted outcome))"
proof -
  have "gives (\<lambda>(n', _). same_identity (Some n) (Some n'))
      (case nr_mode request of HostOnly \<Rightarrow> reconcile_host_only spawn n | Lan \<Rightarrow> reconcile_lan spawn n (nr_vm_name request))"
    by (cases "nr_mode request") (simp_all add: reconcile_host_only_identity reconcile_lan_identity)
  with assms show ?thesis
    by (auto simp: reconcile_def bindE_def split: if_splits prod.splits sum.splits dest: givesD)
qed

interpretation linux: network_port "configure hash spawn" for hash spawn
  by unfold_locales (auto simp: configure_def dest: reconcile_identity)

text \<open>(C29) On a host whose network is managed by the Linux controller, starting a VM, whether it succeeds or fails and
  at whatever step, never changes the addresses, the TAP name, the MAC, the boot parameters or the resources
  recorded for its network.\<close>
theorem start_keeps_network_identity:
  assumes "configure_port (network sdk) = configure hash spawn" and "inventory_ok (sd_db s)"
    and "start_microvm sdk name s = (r, s')" and "find_microvm name (sd_db s) = Inr (Some stored)"
  shows "\<exists>n rt. find_microvm name (sd_db s') = Inr (Some (stored\<lparr>st_network := n, st_runtime := rt\<rparr>))
    \<and> (n = st_network stored \<or> same_identity (st_network stored) n)"
  using assms by (rule linux.start_keeps_identity)

definition silent_spawn :: "bool cmd" where
  "silent_spawn program arguments live = (Inl ''not found'', live)"

definition linux_demo_sdk :: "bool MicroVmSdk" where
  "linux_demo_sdk = demo_sdk\<lparr>network := (network demo_sdk)\<lparr>configure_port := configure zero_hash silent_spawn\<rparr>\<rparr>"

theorem start_keeps_network_identity_witness:
  "\<exists>r s' n rt. start_microvm linux_demo_sdk ''web'' (demo_state False) = (r, s')
    \<and> find_microvm ''web'' (sd_db s') = Inr (Some (demo_stored\<lparr>st_network := n, st_runtime := rt\<rparr>))
    \<and> (n = Some demo_network \<or> same_identity (Some demo_network) n)"
proof -
  obtain r s' where run: "start_microvm linux_demo_sdk ''web'' (demo_state False) = (r, s')" by fastforce
  have port: "configure_port (network linux_demo_sdk) = configure zero_hash silent_spawn" by (simp add: linux_demo_sdk_def)
  have "\<exists>n rt. find_microvm ''web'' (sd_db s') = Inr (Some (demo_stored\<lparr>st_network := n, st_runtime := rt\<rparr>))
      \<and> (n = st_network demo_stored \<or> same_identity (st_network demo_stored) n)"
    by (rule start_keeps_network_identity [OF port _ run]) (simp_all add: demo_ok demo_find)
  with run show ?thesis by (auto simp del: demo_parts simp: demo_parts(3))
qed

end
