(* ===== verification/Volume_Removal.thy ===== *)
theory Volume_Removal
  imports Demo_Host
begin

text \<open>
  What \<open>remove_owned_volume\<close> removes from the host: at most the recorded volume, and what the check of that
  volume does and does not exclude.
\<close>

section \<open>Removing the volume\<close>

text \<open>(C30) The removal of the volume of a VM removes at most one path, the recorded volume, and only when that path is
  absolute, extends the SDK home by at least one component and holds every file recorded for the VM; refused removals
  remove nothing. The environment is taken to record the removed paths.\<close>
theorem remove_owned_volume_only_volume:
  assumes "\<And>p w r w'. remove_dir_all (files sdk) p w = (r, w') \<Longrightarrow> w' = w @ [p]"
    and "remove_owned_volume sdk stored s = (r, s')"
  shows "sd_db s' = sd_db s \<and> (sd_env s' = sd_env s \<and> r \<noteq> Inr ()
    \<or> (let volume = vm_volume_path (st_record stored) in sd_env s' = sd_env s @ [volume]
        \<and> is_absolute volume \<and> (\<exists>rest. rest \<noteq> [] \<and> volume = home sdk @ rest)
        \<and> vm_rootfs_path (st_record stored) = in_volume volume ''rootfs.ext4''
        \<and> vm_socket_path (st_record stored) = in_volume volume ''firecracker.sock''
        \<and> (\<forall>c. st_credential stored = Some c \<longrightarrow> pc_private_key_path c = in_volume volume ''ssh/id_ed25519''
             \<and> pc_public_key_path c = in_volume volume ''ssh/id_ed25519.pub'')))"
  using assms(2)
  by (auto simp: remove_owned_volume_def Let_def bindE_def attempt_call_def on_env_def attemptE_def path_is_below_home_def
      path_starts_with_def prefix_def split: if_splits prod.splits sum.splits option.splits dest: assms(1))

text \<open>A host whose environment records the removed paths.\<close>

definition logging_files :: "path list file_system" where
  "logging_files = \<lparr>symlink_metadata = (\<lambda>p. returnE (demo_metadata p)), metadata_of = (\<lambda>p. returnE (demo_metadata p)),
     open_file = (\<lambda>_. returnE ()), read_file = (\<lambda>_. returnE []), remove_file = (\<lambda>_. returnE ()),
     read_dir = (\<lambda>_. returnE []), remove_dir = (\<lambda>_. returnE ()), remove_dir_all = (\<lambda>p w. (Inr (), w @ [p]))\<rparr>"


definition logging_sdk :: "path list MicroVmSdk" where
  "logging_sdk =
     \<lparr>home = [RootDir, Normal ''h''],
      runtime = \<lparr>validate_host = returnE (), verify_stopped = (\<lambda>_. returnE ()),
        process_references_vm = (\<lambda>_ _ _ _. returnE False), socket_answers = (\<lambda>_. returnE False),
        launch_detached = (\<lambda>_. returnE 7), wait_for_socket = (\<lambda>_. returnE True),
        request_shutdown = (\<lambda>_. returnE True), wait_for_stop = (\<lambda>_ _ _ _ _. returnE True),
        terminate_spawned = (\<lambda>_. returnE ())\<rparr>,
      runtime_disk = \<lparr>ensure_mapping = (\<lambda>_ _ p. returnE p), release_mapping = (\<lambda>_ _ _. returnE ())\<rparr>,
      network = \<lparr>configure_port = (\<lambda>_ _ _ _. returnE \<lparr>no_persisted = demo_network, no_applied = [], no_skipped = []\<rparr>),
        cleanup_port = (\<lambda>_. returnE ()), cleanup_for_delete_port = (\<lambda>_. returnE ())\<rparr>,
      storage = \<lparr>prepare_rootfs = (\<lambda>_ volume _ _. returnE \<lparr>rf_path = volume, rf_created_volume = True\<rparr>),
        inject_public_key = (\<lambda>_ _. returnE ()), write_guest_network_config = (\<lambda>_ _ _. returnE ()),
        write_guest_lan_config = (\<lambda>_ _ _ _. returnE ()), disk_used_bytes = (\<lambda>_. returnE 1), resize_rootfs = (\<lambda>_ _. returnE ())\<rparr>,
      files = logging_files, fetch_manifest = returnE demo_manifest, generate_credential = (\<lambda>p. returnE (demo_generated p)),
      target_lock = (\<lambda>_. returnE True),
      open_connection = returnE (), unix_timestamp = returnE 1, acquire_lifecycle_lock = (\<lambda>_ _. returnE ()),
      sha256 = zero_hash, version_valid = (\<lambda>_. True), version_less = (\<lambda>_ _. False), ARCH = ''x86_64'', sleep = (\<lambda>_ w. w), autostart_retry_backoff = 5\<rparr>"

lemma logging_sdk_parts [simp]: "home logging_sdk = [RootDir, Normal ''h'']" "files logging_sdk = logging_files"
  "remove_dir_all logging_files p w = (Inr (), w @ [p])"
  by (simp_all add: logging_sdk_def logging_files_def)

theorem remove_owned_volume_only_volume_witness:
  "\<exists>r s'. remove_owned_volume logging_sdk demo_stored \<lparr>sd_db = empty_db, sd_env = []\<rparr> = (r, s')
    \<and> sd_env s' = [[RootDir, Normal ''h'', Normal ''v'']]"
proof -
  let ?s = "\<lparr>sd_db = empty_db, sd_env = [] :: path list\<rparr>"
  have run: "remove_owned_volume logging_sdk demo_stored ?s = (Inr (), ?s\<lparr>sd_env := [[RootDir, Normal ''h'', Normal ''v'']]\<rparr>)"
    by (simp add: remove_owned_volume_def Let_def is_absolute_def path_is_below_home_def path_starts_with_def
        attempt_call_def bindE_def demo_credential_def)
  have log: "w' = w @ [p]" if "remove_dir_all (files logging_sdk) p w = (r, w')" for p w r w'
    using that by simp
  from remove_owned_volume_only_volume [OF log run] run show ?thesis by auto
qed




end
