(* ===== verification/Autostart_Policies.thy ===== *)
theory Autostart_Policies
  imports Lifecycle_Safety
begin

text \<open>
  The autostart policies of a consistent inventory as a map from VM names, and the three operations that
  change them as updates of that map.
\<close>

section \<open>The stored policies\<close>

definition policy_of_row :: "MicroVmRow \<times> AutostartRow \<Rightarrow> AutostartPolicy" where
  "policy_of_row = (\<lambda>(m, a). \<lparr>ap_name = mr_name m, ap_enabled = ar_enabled a,
     ap_max_start_attempts = word_of_int (ar_max_start_attempts a)\<rparr>)"

lemma policy_of_row_name [simp]: "ap_name (policy_of_row x) = mr_name (fst x)"
  by (simp add: policy_of_row_def split: prod.split)

lemma join_autostart_in:
  "(m, a) \<in> set (join_autostart db) \<longleftrightarrow> m \<in> set (db_microvms db) \<and> a \<in> set (db_autostart db) \<and> ar_microvm_id a = mr_id m"
  by (auto simp: join_autostart_def)

lemma policy_from_row_ok:
  assumes "inventory_ok db" "x \<in> set (join_autostart db)"
  shows "autostart_policy_from_row x = Inr (policy_of_row x)"
    and "1 \<le> ap_max_start_attempts (policy_of_row x)" "ap_max_start_attempts (policy_of_row x) \<le> 10"
proof -
  obtain m a where x: "x = (m, a)" by fastforce
  with assms have a: "1 \<le> ar_max_start_attempts a" "ar_max_start_attempts a \<le> 10"
    by (auto simp: join_autostart_in inventory_ok_def owned_rows_def autostart_row_ok_def)
  then show "autostart_policy_from_row x = Inr (policy_of_row x)"
    by (simp add: x autostart_policy_from_row_def policy_of_row_def try_word_def)
  have "uint (word_of_int (ar_max_start_attempts a) :: u32) = ar_max_start_attempts a"
    using a by (simp add: uint_word_of_int)
  with a show "1 \<le> ap_max_start_attempts (policy_of_row x)" "ap_max_start_attempts (policy_of_row x) \<le> 10"
    by (simp_all add: x policy_of_row_def word_le_def)
qed

lemma filter_one_key:
  "distinct (map key rows) \<Longrightarrow> length (filter (\<lambda>r. key r = k) rows) \<le> 1"
  by (induction rows) (auto simp: filter_empty_conv intro: rev_image_eqI)

lemma join_names_distinct:
  assumes "inventory_ok db"
  shows "distinct (map (\<lambda>x. mr_name (fst x)) (join_autostart db))"
proof -
  have one: "length (filter (\<lambda>a. ar_microvm_id a = i) (db_autostart db)) \<le> 1" for i
    using assms by (intro filter_one_key) (simp add: inventory_ok_def owned_rows_def)
  have names: "distinct (map mr_name (db_microvms db))"
    using assms by (simp add: inventory_ok_def microvms_ok_def)
  have "distinct (map (\<lambda>x. mr_name (fst x)) (concat (map (\<lambda>m. map (Pair m) (f m)) ms)))
      \<and> mr_name ` fst ` set (concat (map (\<lambda>m. map (Pair m) (f m)) ms)) \<subseteq> mr_name ` set ms"
    if "distinct (map mr_name ms)" "\<And>m. length (f m) \<le> 1" for ms :: "MicroVmRow list" and f :: "MicroVmRow \<Rightarrow> AutostartRow list"
    using that(1)
  proof (induction ms)
    case (Cons m ms)
    from that(2) [of m] have "f m = [] \<or> (\<exists>a. f m = [a])" by (cases "f m") auto
    with Cons show ?case by (auto simp: image_image image_iff)
  qed simp
  from this [OF names one] show ?thesis by (simp add: join_autostart_def)
qed

definition policies :: "db \<Rightarrow> AutostartPolicy list" where
  "policies db = map policy_of_row (sort_key (\<lambda>x. mr_name (fst x)) (join_autostart db))"

lemma list_policies: "inventory_ok db \<Longrightarrow> list_autostart_policies db = Inr (policies db)"
  unfolding list_autostart_policies_def policies_def case_prod_unfold
  by (rule mapR_all_Inr) (auto dest: policy_from_row_ok(1))

lemma policies_bounds:
  "inventory_ok db \<Longrightarrow> p \<in> set (policies db) \<Longrightarrow> 1 \<le> ap_max_start_attempts p \<and> ap_max_start_attempts p \<le> 10"
  by (auto simp: policies_def dest: policy_from_row_ok)

lemma policies_distinct:
  assumes "inventory_ok db"
  shows "distinct (map ap_name (policies db))"
proof -
  have "distinct (map (\<lambda>x. mr_name (fst x)) (sort_key (\<lambda>x. mr_name (fst x)) (join_autostart db)))"
    using join_names_distinct [OF assms] by (simp add: distinct_map)
  then show ?thesis by (simp add: policies_def comp_def)
qed

lemma policies_sorted: "sorted (map ap_name (policies db))"
  by (simp add: policies_def comp_def)

lemma find_policy:
  assumes "inventory_ok db"
  shows "find_autostart_policy name db = Inr (find (\<lambda>p. ap_name p = name) (policies db))"
proof (cases "find (\<lambda>x. mr_name (fst x) = name) (join_autostart db)")
  case None
  then have "find (\<lambda>p. ap_name p = name) (policies db) = None"
    by (auto simp: find_None_iff policies_def)
  with None show ?thesis by (simp add: find_autostart_policy_def load_row_def case_prod_unfold)
next
  case (Some x)
  then have x: "x \<in> set (join_autostart db)" "mr_name (fst x) = name" by (auto simp: find_Some_iff)
  have "find (\<lambda>p. ap_name p = name) (policies db) = Some (policy_of_row x)"
  proof (cases "find (\<lambda>p. ap_name p = name) (policies db)")
    case None
    with x show ?thesis by (auto simp: find_None_iff policies_def)
  next
    case (Some p)
    then obtain y where y: "y \<in> set (join_autostart db)" "p = policy_of_row y" "mr_name (fst y) = name"
      by (auto simp: policies_def dest!: find_SomeD)
    with x join_names_distinct [OF assms] have "y = x" by (auto simp: distinct_map inj_on_def)
    with Some y show ?thesis by simp
  qed
  with Some policy_from_row_ok(1) [OF assms x(1)] show ?thesis
    by (simp add: find_autostart_policy_def load_row_def case_prod_unfold)
qed

text \<open>The policies by the name of the VM.\<close>

definition policy_view :: "db \<Rightarrow> string \<Rightarrow> AutostartPolicy option" where
  "policy_view db name = find (\<lambda>p. ap_name p = name) (policies db)"

lemma policy_view_Some:
  assumes "inventory_ok db"
  shows "policy_view db name = Some p \<longleftrightarrow> (\<exists>m a. m \<in> set (db_microvms db) \<and> a \<in> set (db_autostart db)
    \<and> ar_microvm_id a = mr_id m \<and> mr_name m = name \<and> p = policy_of_row (m, a))"
    (is "_ \<longleftrightarrow> ?rhs")
proof -
  have inj: "inj_on ap_name (set (policies db))" using policies_distinct [OF assms] by (simp add: distinct_map)
  have "policy_view db name = Some p \<longleftrightarrow> p \<in> set (policies db) \<and> ap_name p = name"
  proof
    assume p: "p \<in> set (policies db) \<and> ap_name p = name"
    then obtain q where q: "policy_view db name = Some q"
      by (cases "policy_view db name") (auto simp: policy_view_def find_None_iff)
    then have "q \<in> set (policies db)" "ap_name q = name" by (auto simp: policy_view_def dest: find_SomeD)
    with p inj q show "policy_view db name = Some p" by (auto dest: inj_onD)
  qed (auto simp: policy_view_def dest: find_SomeD)
  also have "\<dots> \<longleftrightarrow> ?rhs" by (force simp: policies_def join_autostart_in)
  finally show ?thesis .
qed

lemma policy_view_at:
  assumes ok: "inventory_ok db" and m: "m \<in> set (db_microvms db)"
  shows "policy_view db (mr_name m) = Some p \<longleftrightarrow>
    (\<exists>a \<in> set (db_autostart db). ar_microvm_id a = mr_id m \<and> p = policy_of_row (m, a))"
proof -
  have "x = m" if "x \<in> set (db_microvms db)" "mr_name x = mr_name m" for x
    using ok m that by (auto simp: inventory_ok_def microvms_ok_def distinct_map inj_on_def)
  with m show ?thesis unfolding policy_view_Some [OF ok] by blast
qed

lemma policy_view_absent:
  assumes "inventory_ok db" "name \<notin> mr_name ` set (db_microvms db)"
  shows "policy_view db name = None"
  using policy_view_Some [OF assms(1), of name] assms(2) by (cases "policy_view db name") auto

text \<open>A table in which only the row of the named VM differs.\<close>

lemma policy_change:
  assumes ok: "inventory_ok db" "inventory_ok db'" and st: "view db name = Some stored"
    and vms: "db_microvms db' = db_microvms db"
    and rows: "set (db_autostart db') = {a \<in> set (db_autostart db). ar_microvm_id a \<noteq> vm_id (st_record stored)} \<union> new"
    and new: "\<And>a. a \<in> new \<Longrightarrow> ar_microvm_id a = vm_id (st_record stored)"
  shows "other \<noteq> name \<Longrightarrow> policy_view db' other = policy_view db other"
    and "policy_view db' name = Some p \<longleftrightarrow> (\<exists>a \<in> new. p = \<lparr>ap_name = name, ap_enabled = ar_enabled a,
      ap_max_start_attempts = word_of_int (ar_max_start_attempts a)\<rparr>)"
proof -
  obtain m where m: "m \<in> set (db_microvms db)" "mr_name m = name" "vm_id (st_record stored) = mr_id m"
    using view_SomeE [OF ok(1) st] by metis
  have "m \<in> set (db_microvms db')" using m(1) by (simp add: vms)
  from policy_view_at [OF ok(2) this] new show "policy_view db' name = Some p \<longleftrightarrow> (\<exists>a \<in> new. p = \<lparr>ap_name = name,
      ap_enabled = ar_enabled a, ap_max_start_attempts = word_of_int (ar_max_start_attempts a)\<rparr>)"
    unfolding rows by (auto simp: m policy_of_row_def)
  assume other: "other \<noteq> name"
  show "policy_view db' other = policy_view db other"
  proof (cases "other \<in> mr_name ` set (db_microvms db)")
    case True
    then obtain k where k: "k \<in> set (db_microvms db)" "mr_name k = other" by blast
    then have ids: "mr_id k \<noteq> mr_id m"
      using ok(1) m(1,2) other by (auto simp: inventory_ok_def microvms_ok_def distinct_map inj_on_def)
    have "policy_view db' other = Some q \<longleftrightarrow> policy_view db other = Some q" for q
      using policy_view_at [OF ok(2), of k q] policy_view_at [OF ok(1) k(1), of q] k ids new
      unfolding rows vms m(3) by auto
    then show ?thesis by (metis not_Some_eq)
  next
    case False
    then show ?thesis by (simp add: policy_view_absent ok vms)
  qed
qed

section \<open>The operations\<close>

lemma find_policy_view: "inventory_ok db \<Longrightarrow> find_autostart_policy name db = Inr (policy_view db name)"
  by (simp add: find_policy policy_view_def)

lemma find_microvm_autostart [simp]: "find_microvm name (db\<lparr>db_autostart := rows\<rparr>) = find_microvm name db"
proof -
  have "bridge_name_of (db\<lparr>db_autostart := rows\<rparr>) = bridge_name_of db"
    by (simp add: fun_eq_iff bridge_name_of_def split: option.split)
  then have "network_from_row (db\<lparr>db_autostart := rows\<rparr>) = network_from_row db"
    by (simp add: fun_eq_iff network_from_row_def)
  then have "stored_from_row (db\<lparr>db_autostart := rows\<rparr>) = stored_from_row db"
    by (intro ext) (simp add: stored_from_row_def load_network_record_def load_credential_record_def
        load_runtime_record_def)
  then show ?thesis by (simp add: find_microvm_def)
qed

text \<open>The policy of one VM changed, and nothing else.\<close>

definition policy_changed :: "db \<Rightarrow> string \<Rightarrow> AutostartPolicy option \<Rightarrow> db \<Rightarrow> bool" where
  "policy_changed D name new d \<longleftrightarrow> inventory_ok d \<and> policy_view d = (policy_view D)(name := new)
     \<and> (\<forall>vm. find_microvm vm d = find_microvm vm D)"

lemma policy_changed_put:
  assumes ok: "inventory_ok D" "inventory_ok d" and st: "view D name = Some stored"
    and d: "d = D\<lparr>db_autostart := rows\<rparr>"
    and rows: "set rows = {a \<in> set (db_autostart D). ar_microvm_id a \<noteq> vm_id (st_record stored)}
      \<union> {autostart_row (vm_id (st_record stored)) settings}"
  shows "policy_changed D name (Some (policy_from_settings name settings)) d"
proof -
  let ?new = "{autostart_row (vm_id (st_record stored)) settings}"
  have set: "set (db_autostart d) = {a \<in> set (db_autostart D). ar_microvm_id a \<noteq> vm_id (st_record stored)} \<union> ?new"
    and vms: "db_microvms d = db_microvms D" using rows by (simp_all add: d)
  have new: "a \<in> ?new \<Longrightarrow> ar_microvm_id a = vm_id (st_record stored)" for a by (simp add: autostart_row_def)
  note change = policy_change [OF ok st vms set new]
  show ?thesis
    unfolding policy_changed_def
  proof (intro conjI ext allI)
    fix other
    show "policy_view d other = ((policy_view D)(name := Some (policy_from_settings name settings))) other"
      using change(1) [of other] change(2) [of "policy_from_settings name settings"]
      by (cases "other = name") (simp_all add: autostart_row_def policy_from_settings_def)
  qed (use ok(2) in \<open>simp_all add: d\<close>)
qed

lemma policy_changed_drop:
  assumes ok: "inventory_ok D" "inventory_ok d" and st: "view D name = Some stored"
    and d: "d = D\<lparr>db_autostart := filter (\<lambda>r. ar_microvm_id r \<noteq> vm_id (st_record stored)) (db_autostart D)\<rparr>"
  shows "policy_changed D name None d"
proof -
  have set: "set (db_autostart d) = {a \<in> set (db_autostart D). ar_microvm_id a \<noteq> vm_id (st_record stored)} \<union> {}"
    and vms: "db_microvms d = db_microvms D" by (simp_all add: d)
  note change = policy_change [OF ok st vms set]
  show ?thesis
    unfolding policy_changed_def
  proof (intro conjI ext allI)
    fix other
    show "policy_view d other = ((policy_view D)(name := None)) other"
      using change(1) [of other] change(2) by (cases "other = name") auto
  qed (use ok(2) in \<open>simp_all add: d\<close>)
qed

lemma dbT_insert_policy:
  assumes st: "view D name = Some stored"
  shows "dbT (exactly D) (repository_stamped sdk (\<lambda>now. insert_autostart_policy now (vm_id (st_record stored)) settings))
    (\<lambda>_. policy_changed D name (Some (policy_from_settings name settings))) (\<lambda>_. exactly D)"
  unfolding repository_stamped_def
proof (intro dbT_bind [where R = "\<lambda>_. exactly D"] dbT_env dbT_attempt dbT_db, goal_cases)
  case (5 u now d x d')
  then have D: "inventory_ok D" "d = D" by (auto simp: exactly_def)
  with 5(2) have stmt: "insert_autostart_policy_stmt now (vm_id (st_record stored)) settings D = Inr (x, d')"
    by (auto simp: insert_autostart_policy_def run_update_def split: sum.splits)
  with insert_autostart_policy_stmt_ok [OF D(1) stmt] st show ?case
    by (auto simp: insert_autostart_policy_stmt_def bindR_Inr list_ex_iff intro!: policy_changed_put [OF D(1)])
qed (auto simp: insert_autostart_policy_def run_update_def split: sum.splits)

lemma dbT_update_policy:
  assumes st: "view D name = Some stored" and old: "policy_view D name = Some p"
  shows "dbT (exactly D) (repository_stamped sdk (\<lambda>now. update_autostart_policy now (vm_id (st_record stored)) settings))
    (\<lambda>_. policy_changed D name (Some (policy_from_settings name settings))) (\<lambda>_. exactly D)"
  unfolding repository_stamped_def
proof (intro dbT_bind [where R = "\<lambda>_. exactly D"] dbT_env dbT_attempt dbT_db, goal_cases)
  case (5 u now d x d')
  then have D: "inventory_ok D" "d = D" by (auto simp: exactly_def)
  with 5(2) have stmt: "update_autostart_policy_stmt now (vm_id (st_record stored)) settings D = Inr (x, d')"
    by (auto simp: update_autostart_policy_def run_update_def split: sum.splits)
  obtain m where m: "m \<in> set (db_microvms D)" "mr_name m = name" "vm_id (st_record stored) = mr_id m"
    using view_SomeE [OF D(1) st] by metis
  from old policy_view_at [OF D(1) m(1), of p] obtain a where
    a: "a \<in> set (db_autostart D)" "ar_microvm_id a = vm_id (st_record stored)" by (auto simp: m)
  let ?f = "\<lambda>r. if ar_microvm_id r = vm_id (st_record stored) then autostart_row (vm_id (st_record stored)) settings else r"
  have d': "d' = D\<lparr>db_autostart := map ?f (db_autostart D)\<rparr>"
    using stmt by (auto simp: update_autostart_policy_stmt_def bindR_Inr)
  from a have "set (map ?f (db_autostart D)) = {a \<in> set (db_autostart D). ar_microvm_id a \<noteq> vm_id (st_record stored)}
      \<union> {autostart_row (vm_id (st_record stored)) settings}" by (auto simp: image_iff)
  with policy_changed_put [OF D(1) update_autostart_policy_stmt_ok [OF D(1) stmt] st d'] show ?case by blast
qed (auto simp: update_autostart_policy_def run_update_def split: sum.splits)

lemma dbT_delete_policy:
  assumes st: "view D name = Some stored"
  shows "dbT (exactly D) (repository_write sdk (delete_autostart_policy (vm_id (st_record stored))))
    (\<lambda>removed d. policy_changed D name None d \<and> (removed \<longleftrightarrow> policy_view D name \<noteq> None)) (\<lambda>_. exactly D)"
  unfolding repository_write_def
proof (intro dbT_bind [where R = "\<lambda>_. exactly D"] dbT_env dbT_db, goal_cases)
  case (3 u d removed d')
  then have D: "inventory_ok D" "d = D" by (auto simp: exactly_def)
  obtain m where m: "m \<in> set (db_microvms D)" "mr_name m = name" "vm_id (st_record stored) = mr_id m"
    using view_SomeE [OF D(1) st] by metis
  have "removed \<longleftrightarrow> policy_view D name \<noteq> None"
    using 3 policy_view_at [OF D(1) m(1)] by (auto simp: D delete_autostart_policy_def list_ex_iff m)
  moreover have "policy_changed D name None d'"
    using policy_changed_drop [OF D(1) _ st] delete_autostart_policy_ok [OF D(1)] 3(2)
    by (auto simp: D delete_autostart_policy_def)
  ultimately show ?case by blast
qed (auto simp: delete_autostart_policy_def)

lemma policy_unchanged: "exactly D d \<Longrightarrow> policy_view D name = v \<Longrightarrow> policy_changed D name v d"
  by (auto simp: policy_changed_def exactly_def fun_eq_iff)

lemma dbT_find_policy:
  "dbT (exactly D) (repository_read sdk (find_autostart_policy name)) (\<lambda>x d. exactly D d \<and> x = policy_view D name) (\<lambda>_. exactly D)"
  unfolding repository_read_def
  by (intro dbT_bind [where R = "\<lambda>_. exactly D"] dbT_env dbT_db) (auto simp: exactly_def find_policy_view)

lemma create_autostart_policy_triple:
  "dbT (exactly D) (create_autostart_policy sdk name settings)
     (\<lambda>p d. p = policy_from_settings name settings \<and> policy_changed D name (Some p) d
        \<and> policy_view D name \<in> {None, Some p} \<and> view D name \<noteq> None) (\<lambda>_. exactly D)" (is "dbT _ _ ?Q ?E")
  unfolding create_autostart_policy_def require_autostart_microvm_def
proof (rule dbT_step, rule quiet_intros, rule dbT_step, rule quiet_intros, rule dbT_bind [OF dbT_load_exact],
    rule dbT_assume, rule dbT_bind [OF dbT_find_policy], rule dbT_assume, goal_cases)
  case (1 u v stored existing)
  show ?case
  proof (cases existing)
    case None
    show ?thesis
      unfolding None Let_def option.case
      by (rule dbT_bind [OF dbT_insert_policy [OF 1(1)]], rule dbT_return) (use 1 None in simp)
  next
    case (Some p)
    show ?thesis
      unfolding Some Let_def option.case
      by (intro dbT_if dbT_return dbT_throw) (use 1 Some policy_unchanged [of D _ name] in auto)
  qed
qed auto

lemma update_autostart_policy_triple:
  "dbT (exactly D) (update_autostart_policy_op sdk name update)
     (\<lambda>p d. \<exists>old. policy_view D name = Some old \<and> p = policy_from_settings name (updated_settings update old)
        \<and> policy_changed D name (Some p) d) (\<lambda>_. exactly D)" (is "dbT _ _ ?Q ?E")
proof -
  have body: "dbT (exactly D) (let settings = updated_settings update old; updated = policy_from_settings name settings in
     if updated = old then returnE old
     else bindE (repository_stamped sdk (\<lambda>now. update_autostart_policy now (vm_id (st_record stored)) settings))
       (\<lambda>_. returnE updated)) ?Q ?E"
    if st: "view D name = Some stored" and old: "policy_view D name = Some old" for stored old
    unfolding Let_def
  proof (rule dbT_if, rule dbT_return, goal_cases)
    case (1 d)
    with policy_unchanged [OF 1(2) old] old show ?case by auto
  next
    case 2
    show ?case by (rule dbT_bind [OF dbT_update_policy [OF st old]], rule dbT_return) (use old in simp)
  qed
  show ?thesis
    unfolding update_autostart_policy_op_def require_autostart_microvm_def require_some_def
    by (rule dbT_step, rule quiet_intros, rule dbT_step, rule quiet_intros, rule dbT_bind [OF dbT_load_exact],
        rule dbT_assume, rule dbT_bind [OF dbT_find_policy], rule dbT_assume,
        rule dbT_bind [where R = "\<lambda>old d. exactly D d \<and> policy_view D name = Some old"], rule dbT_lift)
      (auto intro!: dbT_assume body)
qed

lemma delete_autostart_policy_triple:
  "dbT (exactly D) (delete_autostart_policy_op sdk name)
     (\<lambda>x d. policy_changed D name None d \<and> ad_name x = name \<and> (ad_removed x \<longleftrightarrow> policy_view D name \<noteq> None)) (\<lambda>_. exactly D)"
  unfolding delete_autostart_policy_op_def require_autostart_microvm_def
  by (rule dbT_step, rule quiet_intros, rule dbT_bind [OF dbT_load_exact], rule dbT_assume,
      rule dbT_bind, erule dbT_delete_policy, rule dbT_return) auto

section \<open>A VM with a policy\<close>

definition demo_settings :: AutostartSettings where
  "demo_settings = \<lparr>as_enabled = True, as_max_start_attempts = 3\<rparr>"

definition demo_policy_db :: db where
  "demo_policy_db = demo_full_db\<lparr>db_autostart := [autostart_row 1 demo_settings]\<rparr>"

lemma demo_rows: "\<exists>m. db_microvms demo_full_db = [m] \<and> mr_id m = 1 \<and> mr_name m = ''web''" "db_autostart demo_full_db = []"
  by (simp_all add: demo_full_db_def demo_credential_db_def demo_network_db_def demo_db_def persist_runtime_def
      persist_runtime_stmt_def demo_runtime_def persist_credential_def persist_credential_stmt_def demo_credential_def
      credential_row_def persist_network_def persist_network_transaction_def bridge_for_network_def
      demo_network_def network_row_def recount_bridges_def run_defs insert_microvm_def insert_microvm_stmt_def
      microvm_row_def check_microvm_row_def demo_record_def demo_store_def empty_db_def to_sqlite_integer_def)

lemma demo_policy_run:
  "insert_autostart_policy (Inr 1) 1 demo_settings demo_full_db = (Inr (), demo_policy_db)"
  using demo_rows(2) demo_vm_exists
  by (simp add: insert_autostart_policy_def run_update_def insert_autostart_policy_stmt_def constraint_def attempts_ok_def
      demo_policy_db_def demo_settings_def)

lemma demo_policy_ok: "inventory_ok demo_policy_db"
  using insert_autostart_policy_stmt_ok [OF demo_ok(2)] demo_policy_run
  by (auto simp: insert_autostart_policy_def run_update_def split: sum.splits)

lemma demo_find_policy:
  "find_autostart_policy ''web'' demo_full_db = Inr None"
  "find_autostart_policy ''web'' demo_policy_db = Inr (Some (policy_from_settings ''web'' demo_settings))"
  "list_autostart_policies demo_policy_db = Inr [policy_from_settings ''web'' demo_settings]"
  using demo_rows
  by (auto simp: find_autostart_policy_def list_autostart_policies_def join_autostart_def load_row_def demo_policy_db_def
      autostart_policy_from_row_def autostart_row_def demo_settings_def try_word_def policy_from_settings_def)

lemma demo_policy_load: "load_vm demo_sdk ''web'' \<lparr>sd_db = demo_policy_db, sd_env = w\<rparr>
    = (Inr demo_stored, \<lparr>sd_db = demo_policy_db, sd_env = w\<rparr>)"
  by (simp add: load_vm_def repository_read_def bindE_def demo_policy_db_def demo_find require_some_def)

lemma demo_policy_rows: "db_autostart demo_policy_db = [autostart_row 1 demo_settings]"
  by (simp add: demo_policy_db_def)

lemma demo_attempts: "validate_max_start_attempts (as_max_start_attempts demo_settings) = Inr ()"
  by (simp add: demo_settings_def validate_max_start_attempts_def MIN_AUTOSTART_ATTEMPTS_def MAX_AUTOSTART_ATTEMPTS_def)

lemma demo_create_policy: "create_autostart_policy demo_sdk ''web'' demo_settings (demo_state w)
    = (Inr (policy_from_settings ''web'' demo_settings), \<lparr>sd_db = demo_policy_db, sd_env = w\<rparr>)"
  using demo_attempts
  by (simp add: create_autostart_policy_def bindE_def demo_name_ok require_autostart_microvm_def demo_load Let_def
      repository_read_def repository_stamped_def attemptE_def demo_find_policy demo_policy_run)

lemma demo_change_policy:
  "\<exists>p s'. update_autostart_policy_op demo_sdk ''web'' \<lparr>au_enabled = Some False, au_max_start_attempts = None\<rparr>
     \<lparr>sd_db = demo_policy_db, sd_env = w\<rparr> = (Inr p, s')"
  "\<exists>s'. delete_autostart_policy_op demo_sdk ''web'' \<lparr>sd_db = demo_policy_db, sd_env = w\<rparr>
     = (Inr \<lparr>ad_name = ''web'', ad_removed = True\<rparr>, s')"
  by (simp_all add: update_autostart_policy_op_def delete_autostart_policy_op_def bindE_def demo_name_ok
      require_autostart_microvm_def demo_policy_load Let_def repository_read_def repository_write_def
      repository_stamped_def attemptE_def demo_find_policy require_some_def updated_settings_def policy_from_settings_def
      demo_settings_def update_autostart_policy_def run_update_def update_autostart_policy_stmt_def attempts_ok_def
      constraint_def delete_autostart_policy_def demo_policy_rows autostart_row_def)

section \<open>Properties of the policies\<close>

lemma policy_changed_find:
  assumes "inventory_ok D" "policy_changed D name new d"
  shows "find_autostart_policy other d = (if other = name then Inr new else find_autostart_policy other D)"
    and "find_microvm vm d = find_microvm vm D"
  using assms by (simp_all add: policy_changed_def find_policy_view)

text \<open>(C27) Creating an autostart policy that succeeds, also when it was there already with the same settings, gives
  and stores exactly the requested policy and changes no other policy and no VM; a creation that is refused
  changes nothing, and it is refused whenever the VM has a policy with other settings.\<close>
theorem create_policy_refines:
  assumes "inventory_ok (sd_db s)" and "create_autostart_policy sdk name settings s = (r, s')"
  shows "case r of
      Inl _ \<Rightarrow> sd_db s' = sd_db s
    | Inr p \<Rightarrow> p = \<lparr>ap_name = name, ap_enabled = as_enabled settings, ap_max_start_attempts = as_max_start_attempts settings\<rparr>
        \<and> find_autostart_policy name (sd_db s) \<in> {Inr None, Inr (Some p)}
        \<and> (\<forall>other. find_autostart_policy other (sd_db s')
             = (if other = name then Inr (Some p) else find_autostart_policy other (sd_db s)))
        \<and> (\<forall>vm. find_microvm vm (sd_db s') = find_microvm vm (sd_db s))"
proof (cases r)
  case (Inl e)
  with dbT_Inl [OF create_autostart_policy_triple exactly_self [OF assms(1)]] assms(2) show ?thesis
    by (auto simp: exactly_def)
next
  case (Inr p)
  with assms(2) have "create_autostart_policy sdk name settings s = (Inr p, s')" by simp
  from dbT_Inr [OF create_autostart_policy_triple exactly_self [OF assms(1)] this] Inr
    policy_changed_find [OF assms(1)] find_policy_view [OF assms(1), of name]
  show ?thesis by (auto simp: policy_from_settings_def)
qed

theorem create_policy_refines_witness:
  "\<exists>p s'. create_autostart_policy demo_sdk ''web'' demo_settings (demo_state False) = (Inr p, s')
    \<and> ap_max_start_attempts p = 3 \<and> find_autostart_policy ''web'' (sd_db s') = Inr (Some p)
    \<and> find_microvm ''web'' (sd_db s') = Inr (Some demo_stored)"
  using create_policy_refines [OF _ demo_create_policy [of False]] demo_ok(2) demo_create_policy [of False] demo_find
  by (simp add: demo_settings_def)

text \<open>(C28) Updating an autostart policy succeeds only on a VM that has one: the named settings are replaced, the
  others kept, and no other policy and no VM changes; deleting one leaves the VM without a policy, reports whether there was
  one, and changes nothing else. When either fails, nothing changes.\<close>
theorem change_policy_refines:
  assumes "inventory_ok (sd_db s)"
    and "update_autostart_policy_op sdk name update s = (r, s1)" and "delete_autostart_policy_op sdk name s = (q, s2)"
  shows "(case r of
      Inl _ \<Rightarrow> sd_db s1 = sd_db s
    | Inr p \<Rightarrow> (\<exists>old. find_autostart_policy name (sd_db s) = Inr (Some old)
          \<and> ap_enabled p = (case au_enabled update of None \<Rightarrow> ap_enabled old | Some b \<Rightarrow> b)
          \<and> ap_max_start_attempts p = (case au_max_start_attempts update of None \<Rightarrow> ap_max_start_attempts old | Some n \<Rightarrow> n))
        \<and> (\<forall>other. find_autostart_policy other (sd_db s1)
             = (if other = name then Inr (Some p) else find_autostart_policy other (sd_db s)))
        \<and> (\<forall>vm. find_microvm vm (sd_db s1) = find_microvm vm (sd_db s)))
    \<and> (case q of
      Inl _ \<Rightarrow> sd_db s2 = sd_db s
    | Inr x \<Rightarrow> (ad_removed x \<longleftrightarrow> find_autostart_policy name (sd_db s) \<noteq> Inr None)
        \<and> (\<forall>other. find_autostart_policy other (sd_db s2)
             = (if other = name then Inr None else find_autostart_policy other (sd_db s)))
        \<and> (\<forall>vm. find_microvm vm (sd_db s2) = find_microvm vm (sd_db s)))" (is "?update \<and> ?delete")
proof
  show ?update
  proof (cases r)
    case (Inl e)
    with dbT_Inl [OF update_autostart_policy_triple exactly_self [OF assms(1)]] assms(2) show ?thesis
      by (auto simp: exactly_def)
  next
    case (Inr p)
    with assms(2) have "update_autostart_policy_op sdk name update s = (Inr p, s1)" by simp
    from dbT_Inr [OF update_autostart_policy_triple exactly_self [OF assms(1)] this] Inr
      policy_changed_find [OF assms(1)] find_policy_view [OF assms(1), of name]
    show ?thesis by (auto simp: policy_from_settings_def updated_settings_def)
  qed
  show ?delete
  proof (cases q)
    case (Inl e)
    with dbT_Inl [OF delete_autostart_policy_triple exactly_self [OF assms(1)]] assms(3) show ?thesis
      by (auto simp: exactly_def)
  next
    case (Inr x)
    with assms(3) have "delete_autostart_policy_op sdk name s = (Inr x, s2)" by simp
    from dbT_Inr [OF delete_autostart_policy_triple exactly_self [OF assms(1)] this] Inr
      policy_changed_find [OF assms(1)] find_policy_view [OF assms(1), of name]
    show ?thesis by auto
  qed
qed

theorem change_policy_refines_witness:
  "\<exists>p s1 s2. update_autostart_policy_op demo_sdk ''web'' \<lparr>au_enabled = Some False, au_max_start_attempts = None\<rparr>
        \<lparr>sd_db = demo_policy_db, sd_env = True\<rparr> = (Inr p, s1)
    \<and> find_autostart_policy ''web'' (sd_db s1) = Inr (Some p) \<and> \<not> ap_enabled p \<and> ap_max_start_attempts p = 3
    \<and> delete_autostart_policy_op demo_sdk ''web'' \<lparr>sd_db = demo_policy_db, sd_env = True\<rparr>
        = (Inr \<lparr>ad_name = ''web'', ad_removed = True\<rparr>, s2)
    \<and> find_autostart_policy ''web'' (sd_db s2) = Inr None"
proof -
  obtain p s1 s2 where runs:
    "update_autostart_policy_op demo_sdk ''web'' \<lparr>au_enabled = Some False, au_max_start_attempts = None\<rparr>
       \<lparr>sd_db = demo_policy_db, sd_env = True\<rparr> = (Inr p, s1)"
    "delete_autostart_policy_op demo_sdk ''web'' \<lparr>sd_db = demo_policy_db, sd_env = True\<rparr>
       = (Inr \<lparr>ad_name = ''web'', ad_removed = True\<rparr>, s2)"
    using demo_change_policy [of True] by blast
  from change_policy_refines [OF _ runs] demo_policy_ok demo_find_policy runs show ?thesis
    by (auto simp: policy_from_settings_def demo_settings_def)
qed

end
