(* ===== verification/Autostart_Runs.thy ===== *)
theory Autostart_Runs
  imports Autostart_Policies
begin

text \<open>
  Autostart runs: what the retry loop does for one policy, and what a whole run over all policies does to the
  inventory.
\<close>

section \<open>The retry loop\<close>

text \<open>The state after a number of starts that all failed, with the pause that follows each of them.\<close>

fun after_failures :: "'w MicroVmSdk \<Rightarrow> string \<Rightarrow> nat \<Rightarrow> 'w sdk \<Rightarrow> 'w sdk option" where
  "after_failures sdk name 0 s = Some s"
| "after_failures sdk name (Suc n) s =
     (case after_failures sdk name n s of
        None \<Rightarrow> None
      | Some t \<Rightarrow> (case start_microvm sdk name t of
          (Inl e, t') \<Rightarrow> Some (snd (pause sdk (autostart_retry_backoff sdk * Suc n) t'))
        | (Inr x, t') \<Rightarrow> None))"

lemma bindE_pause: "bindE (pause sdk n) f s = f () (snd (pause sdk n s))"
  by (simp add: pause_def on_env_def bindE_def)

lemma start_attempts_run:
  assumes "after_failures sdk (ap_name p) (unat attempt - 1) s = Some t" "1 \<le> attempt"
    and "attempt \<le> ap_max_start_attempts p \<or> attempt = 1"
  shows "\<exists>x s' u. start_attempts_from sdk p attempt t = (Inr x, s') \<and> ao_name x = ap_name p \<and> 1 \<le> ao_attempts x
    \<and> (ao_attempts x \<le> ap_max_start_attempts p \<or> ao_attempts x = 1)
    \<and> after_failures sdk (ap_name p) (unat (ao_attempts x) - 1) s = Some u
    \<and> (case ao_result x of
        AutostartStarted y \<Rightarrow> start_microvm sdk (ap_name p) u = (Inr y, s')
      | AutostartFailed e \<Rightarrow> start_microvm sdk (ap_name p) u = (Inl e, s') \<and> ap_max_start_attempts p \<le> ao_attempts x
      | AutostartPaused \<Rightarrow> False)"
  using assms
proof (induction sdk p attempt arbitrary: t rule: start_attempts_from.induct)
  case (1 sdk p attempt)
  obtain r t' where start: "start_microvm sdk (ap_name p) t = (r, t')" by fastforce
  have run: "start_attempts_from sdk p attempt t = (case r of
       Inr started \<Rightarrow> (Inr \<lparr>ao_name = ap_name p, ao_attempts = attempt, ao_result = AutostartStarted started\<rparr>, t')
     | Inl e \<Rightarrow> if ap_max_start_attempts p \<le> attempt
         then (Inr \<lparr>ao_name = ap_name p, ao_attempts = attempt, ao_result = AutostartFailed e\<rparr>, t')
         else start_attempts_from sdk p (attempt + 1) (snd (pause sdk (autostart_retry_backoff sdk * unat attempt) t')))"
    unfolding start_attempts_from.simps [of sdk p attempt] bindE_def [of "attemptE _"]
    by (simp add: attemptE_def start bindE_pause split: sum.split)
  show ?case
  proof (cases "\<exists>e. r = Inl e \<and> \<not> ap_max_start_attempts p \<le> attempt")
    case True
    then obtain e where e: "r = Inl e" and more: "\<not> ap_max_start_attempts p \<le> attempt" by blast
    obtain k where k: "unat attempt = Suc k" using 1(3) by (cases "unat attempt") (auto simp: word_le_nat_alt)
    have "after_failures sdk (ap_name p) (Suc k) s
        = Some (snd (pause sdk (autostart_retry_backoff sdk * unat attempt) t'))"
      using 1(2) by (simp add: start e k)
    then have "after_failures sdk (ap_name p) (unat (attempt + 1) - 1) s
        = Some (snd (pause sdk (autostart_retry_backoff sdk * unat attempt) t'))"
      using next_attempt [OF more] by (simp add: k)
    moreover have "1 \<le> attempt + 1" "attempt + 1 \<le> ap_max_start_attempts p"
      using next_attempt [OF more] more by (simp_all add: word_le_nat_alt)
    ultimately show ?thesis using "1.IH" [OF more] run e more by simp
  next
    case False
    with run start 1(2-) show ?thesis by (cases r) auto
  qed
qed

text \<open>(C26) The retry loop of one policy always ends with an outcome, after between one and the
  configured number of attempts: it reports success exactly after the first start that succeeds, and failure, with
  the error of the last start, only after the configured number of starts all failed; every failed start but the
  last is followed by a pause that grows with the number of the attempt.\<close>
theorem start_with_attempts_exact:
  "\<exists>x s' t. start_with_attempts sdk p s = (Inr x, s') \<and> ao_name x = ap_name p \<and> 1 \<le> ao_attempts x
    \<and> (ao_attempts x \<le> ap_max_start_attempts p \<or> ao_attempts x = 1)
    \<and> after_failures sdk (ap_name p) (unat (ao_attempts x) - 1) s = Some t
    \<and> (case ao_result x of
        AutostartStarted y \<Rightarrow> start_microvm sdk (ap_name p) t = (Inr y, s')
      | AutostartFailed e \<Rightarrow> start_microvm sdk (ap_name p) t = (Inl e, s') \<and> ap_max_start_attempts p \<le> ao_attempts x
      | AutostartPaused \<Rightarrow> False)"
  unfolding start_with_attempts_def using start_attempts_run [of sdk p 1 s s] by simp

section \<open>A whole run\<close>

text \<open>Only the named VMs may differ, and of those only the network and the runtime.\<close>

definition changes_within :: "string set \<Rightarrow> db \<Rightarrow> db \<Rightarrow> bool" where
  "changes_within N D d \<longleftrightarrow> inventory_ok d \<and> (\<forall>name. name \<notin> N \<longrightarrow> view d name = view D name)
     \<and> (\<forall>name. case view D name of
          None \<Rightarrow> view d name = None
        | Some a \<Rightarrow> \<exists>n r. view d name = Some (a\<lparr>st_network := n, st_runtime := r\<rparr>))"

lemma changes_refl: "inventory_ok D \<Longrightarrow> changes_within N D D"
  using same_parts by (auto simp: changes_within_def split: option.split)

lemma changes_Some:
  "changes_within N D d \<Longrightarrow> view D name = Some a \<Longrightarrow> \<exists>n r. view d name = Some (a\<lparr>st_network := n, st_runtime := r\<rparr>)"
  unfolding changes_within_def by (drule conjunct2, drule conjunct2, drule spec [of _ name]) simp

lemma changes_None: "changes_within N D d \<Longrightarrow> view D name = None \<Longrightarrow> view d name = None"
  unfolding changes_within_def by (drule conjunct2, drule conjunct2, drule spec [of _ name]) simp

lemma changes_trans:
  assumes "changes_within N D d" "changes_within M d d'"
  shows "changes_within (N \<union> M) D d'"
proof -
  have "\<exists>n r. view d' name = Some (a\<lparr>st_network := n, st_runtime := r\<rparr>)" if a: "view D name = Some a" for name a
  proof -
    from changes_Some [OF assms(1) a] obtain n r where d: "view d name = Some (a\<lparr>st_network := n, st_runtime := r\<rparr>)"
      by blast
    from changes_Some [OF assms(2) d] show ?thesis by auto
  qed
  moreover have "view d' name = None" if "view D name = None" for name
    by (rule changes_None [OF assms(2) changes_None [OF assms(1) that]])
  ultimately show ?thesis
    using assms by (auto simp: changes_within_def split: option.split)
qed

lemma changes_own:
  assumes "own_changes ok name D d"
  shows "changes_within {name} D d"
proof -
  have "case view D a of None \<Rightarrow> view d a = None
      | Some x \<Rightarrow> \<exists>n r. view d a = Some (x\<lparr>st_network := n, st_runtime := r\<rparr>)" for a
  proof (cases "a = name")
    case True
    with assms show ?thesis unfolding own_changes_def by (cases "view D name") (simp, simp, blast)
  next
    case False
    with assms same_parts show ?thesis by (auto simp: own_changes_def split: option.split)
  qed
  with assms show ?thesis by (simp add: changes_within_def own_changes_def)
qed

lemma start_changes:
  assumes "inventory_ok (sd_db s)" "start_microvm sdk name s = (r, s')"
  shows "changes_within {name} (sd_db s) (sd_db s') \<and> (\<forall>x. r = Inr x \<longrightarrow> recorded_running name x (sd_db s'))"
  using dbT_Inl [OF start_microvm_triple [OF any_network] exactly_self [OF assms(1)]]
    dbT_Inr [OF start_microvm_triple [OF any_network] exactly_self [OF assms(1)]] assms(2)
  by (cases r) (auto intro!: changes_own [where ok = "\<lambda>_ _. True"])

lemma after_failures_changes:
  assumes "inventory_ok (sd_db s)" "after_failures sdk name n s = Some t"
  shows "changes_within {name} (sd_db s) (sd_db t)"
  using assms(2)
proof (induction n arbitrary: t)
  case 0
  with assms(1) show ?case by (simp add: changes_refl)
next
  case (Suc n)
  then obtain u where u: "after_failures sdk name n s = Some u" by (auto split: option.splits)
  with Suc.prems obtain e u' where start: "start_microvm sdk name u = (Inl e, u')"
    and t: "t = snd (pause sdk (autostart_retry_backoff sdk * Suc n) u')"
    by (auto split: option.splits prod.splits sum.splits)
  note before = Suc.IH [OF u]
  then have "inventory_ok (sd_db u)" by (simp add: changes_within_def)
  from changes_trans [OF before, of "{name}"] start_changes [OF this start]
  show ?case by (simp add: t pause_def on_env_def)
qed

text \<open>The outcome reported for a policy, and what the inventory then holds.\<close>

definition outcome_ok :: "AutostartPolicy \<Rightarrow> AutostartOutcome \<Rightarrow> db \<Rightarrow> bool" where
  "outcome_ok p x d \<longleftrightarrow> ao_name x = ap_name p
     \<and> (case ao_result x of
          AutostartStarted y \<Rightarrow> ap_enabled p \<and> 1 \<le> ao_attempts x \<and> ao_attempts x \<le> ap_max_start_attempts p
            \<and> recorded_running (ap_name p) y d
        | AutostartFailed e \<Rightarrow> ap_enabled p \<and> ao_attempts x = ap_max_start_attempts p
        | AutostartPaused \<Rightarrow> \<not> ap_enabled p \<and> ao_attempts x = 0)"

definition enabled_names :: "AutostartPolicy list \<Rightarrow> string set" where
  "enabled_names ps = set (map ap_name (filter ap_enabled ps))"

lemma autostart_one_run:
  assumes ok: "inventory_ok (sd_db s)" and limit: "1 \<le> ap_max_start_attempts p"
  shows "\<exists>x s'. autostart_one sdk p s = (Inr x, s') \<and> outcome_ok p x (sd_db s')
    \<and> changes_within (enabled_names [p]) (sd_db s) (sd_db s')"
proof (cases "ap_enabled p")
  case True
  from start_attempts_run [of sdk p 1 s s] obtain x s' u where
    run: "start_attempts_from sdk p 1 s = (Inr x, s')" "ao_name x = ap_name p" "1 \<le> ao_attempts x"
      "ao_attempts x \<le> ap_max_start_attempts p \<or> ao_attempts x = 1"
    and u: "after_failures sdk (ap_name p) (unat (ao_attempts x) - 1) s = Some u"
    and last: "case ao_result x of
        AutostartStarted y \<Rightarrow> start_microvm sdk (ap_name p) u = (Inr y, s')
      | AutostartFailed e \<Rightarrow> start_microvm sdk (ap_name p) u = (Inl e, s') \<and> ap_max_start_attempts p \<le> ao_attempts x
      | AutostartPaused \<Rightarrow> False" by auto
  note before = after_failures_changes [OF ok u]
  then have oku: "inventory_ok (sd_db u)" by (simp add: changes_within_def)
  from last obtain r where start: "start_microvm sdk (ap_name p) u = (r, s')"
    and r: "\<And>y. ao_result x = AutostartStarted y \<Longrightarrow> r = Inr y"
    by (auto split: AutostartResult.splits)
  from changes_trans [OF before conjunct1 [OF start_changes [OF oku start]]] True
  have "changes_within (enabled_names [p]) (sd_db s) (sd_db s')" by (simp add: enabled_names_def)
  moreover have "outcome_ok p x (sd_db s')"
    using run(2-4) last limit True start_changes [OF oku start] r
    by (auto simp: outcome_ok_def split: AutostartResult.splits)
  ultimately show ?thesis using run(1) True by (simp add: autostart_one_def start_with_attempts_def)
next
  case False
  with ok show ?thesis by (simp add: autostart_one_def outcome_ok_def enabled_names_def changes_refl)
qed

lemma outcome_ok_later:
  "outcome_ok p x d \<Longrightarrow> changes_within N d d' \<Longrightarrow> ap_name p \<notin> N \<Longrightarrow> outcome_ok p x d'"
  by (auto simp: outcome_ok_def recorded_running_def changes_within_def split: AutostartResult.splits)

lemma autostart_all_run:
  assumes "inventory_ok (sd_db s)" "distinct (map ap_name ps)" "\<And>p. p \<in> set ps \<Longrightarrow> 1 \<le> ap_max_start_attempts p"
  shows "\<exists>xs s'. autostart_all sdk ps s = (Inr xs, s') \<and> list_all2 (\<lambda>p x. outcome_ok p x (sd_db s')) ps xs
    \<and> changes_within (enabled_names ps) (sd_db s) (sd_db s')"
  using assms
proof (induction ps arbitrary: s)
  case Nil
  then show ?case by (simp add: enabled_names_def changes_refl)
next
  case (Cons p ps)
  from autostart_one_run [OF Cons.prems(1), of p sdk] Cons.prems(3) obtain x s1 where
    one: "autostart_one sdk p s = (Inr x, s1)" "outcome_ok p x (sd_db s1)"
      "changes_within (enabled_names [p]) (sd_db s) (sd_db s1)" by auto
  then have "inventory_ok (sd_db s1)" by (simp add: changes_within_def)
  with Cons.IH [of s1] Cons.prems obtain xs s' where
    rest: "autostart_all sdk ps s1 = (Inr xs, s')" "list_all2 (\<lambda>p x. outcome_ok p x (sd_db s')) ps xs"
      "changes_within (enabled_names ps) (sd_db s1) (sd_db s')" by auto
  have "ap_name p \<notin> enabled_names ps" using Cons.prems(2) by (auto simp: enabled_names_def)
  with one(2) rest(3) have "outcome_ok p x (sd_db s')" by (rule outcome_ok_later)
  moreover have "enabled_names [p] \<union> enabled_names ps = enabled_names (p # ps)" by (simp add: enabled_names_def)
  ultimately show ?case using one(1) rest changes_trans [OF one(3) rest(3)] by (simp add: bindE_def)
qed

text \<open>(C8) An autostart run on a consistent inventory fails as a whole only when the database cannot be opened, and
  then changes nothing. Otherwise it gives one outcome per policy, in the order of the policies, however many of the starts
  fail: a paused policy is not attempted, a failed one used all its attempts, a started one at most as many, and its
  VM is recorded as running with the reported process at the end of the whole run. VMs without an enabled policy are
  not changed.\<close>
theorem autostart_run:
  assumes "inventory_ok (sd_db s)" and "start_autostart_microvms sdk s = (r, s')"
  shows "case r of
      Inl e \<Rightarrow> sd_db s' = sd_db s \<and> fst (open_connection sdk (sd_env s)) = Inl e
    | Inr xs \<Rightarrow> \<exists>ps. list_autostart_policies (sd_db s) = Inr ps \<and> sorted (map ap_name ps)
        \<and> list_all2 (\<lambda>p x. ao_name x = ap_name p \<and> (case ao_result x of
              AutostartStarted y \<Rightarrow> ap_enabled p \<and> 1 \<le> ao_attempts x \<and> ao_attempts x \<le> ap_max_start_attempts p
                \<and> (\<exists>a rt. find_microvm (ap_name p) (sd_db s') = Inr (Some a) \<and> st_runtime a = Some rt
                     \<and> rt_process_state rt = ''running'' \<and> rt_process_id rt = Some (msr_process_id y))
            | AutostartFailed e \<Rightarrow> ap_enabled p \<and> ao_attempts x = ap_max_start_attempts p
            | AutostartPaused \<Rightarrow> \<not> ap_enabled p \<and> ao_attempts x = 0)) ps xs
        \<and> (\<forall>name. name \<notin> enabled_names ps \<longrightarrow> find_microvm name (sd_db s') = find_microvm name (sd_db s))"
proof (cases "open_connection sdk (sd_env s)")
  case (Pair opened w)
  show ?thesis
  proof (cases opened)
    case (Inl e)
    with Pair assms(2) show ?thesis
      by (auto simp: start_autostart_microvms_def list_autostart_policies_op_def repository_read_def bindE_def on_env_def)
  next
    case (Inr u)
    let ?ps = "policies (sd_db s)"
    let ?s = "s\<lparr>sd_env := w\<rparr>"
    from autostart_all_run [of ?s ?ps sdk] policies_bounds policies_distinct assms(1) obtain xs s1 where
      run: "autostart_all sdk ?ps ?s = (Inr xs, s1)" "list_all2 (\<lambda>p x. outcome_ok p x (sd_db s1)) ?ps xs"
        "changes_within (enabled_names ?ps) (sd_db s) (sd_db s1)" by fastforce
    have "start_autostart_microvms sdk s = (Inr xs, s1)"
      using run(1) list_policies [OF assms(1)]
      by (simp add: start_autostart_microvms_def list_autostart_policies_op_def repository_read_def bindE_def
          on_env_def on_db_def Pair Inr)
    with assms(2) have r: "r = Inr xs" "s' = s1" by simp_all
    from run(3) have ok: "inventory_ok (sd_db s1)" by (simp add: changes_within_def)
    have "list_all2 (\<lambda>p x. ao_name x = ap_name p \<and> (case ao_result x of
              AutostartStarted y \<Rightarrow> ap_enabled p \<and> 1 \<le> ao_attempts x \<and> ao_attempts x \<le> ap_max_start_attempts p
                \<and> (\<exists>a rt. find_microvm (ap_name p) (sd_db s1) = Inr (Some a) \<and> st_runtime a = Some rt
                     \<and> rt_process_state rt = ''running'' \<and> rt_process_id rt = Some (msr_process_id y))
            | AutostartFailed e \<Rightarrow> ap_enabled p \<and> ao_attempts x = ap_max_start_attempts p
            | AutostartPaused \<Rightarrow> \<not> ap_enabled p \<and> ao_attempts x = 0)) ?ps xs"
      using run(2)
      by (rule list_all2_mono)
        (auto simp: outcome_ok_def recorded_running_def find_microvm_view [OF ok] split: AutostartResult.splits)
    then show ?thesis
      using r run(3) list_policies [OF assms(1)] policies_sorted [of "sd_db s"] find_microvm_view [OF ok]
        find_microvm_view [OF assms(1)]
      by (auto simp: changes_within_def)
  qed
qed

theorem autostart_run_witness:
  "\<exists>x s'. start_autostart_microvms demo_sdk \<lparr>sd_db = demo_policy_db, sd_env = False\<rparr> = (Inr [x], s')
    \<and> ao_name x = ''web'' \<and> ao_result x \<noteq> AutostartPaused \<and> ao_attempts x \<in> {1..3}"
proof -
  let ?s = "\<lparr>sd_db = demo_policy_db, sd_env = False\<rparr>"
  obtain r s' where run: "start_autostart_microvms demo_sdk ?s = (r, s')" by fastforce
  obtain xs where xs: "r = Inr xs" using autostart_run [OF _ run] demo_policy_ok by (cases r) simp_all
  let ?p = "policy_from_settings ''web'' demo_settings"
  from autostart_run [OF _ run] demo_policy_ok demo_find_policy(3) xs obtain x where x: "xs = [x]" "ao_name x = ap_name ?p"
    and outcome: "case ao_result x of AutostartStarted y \<Rightarrow> ap_enabled ?p \<and> 1 \<le> ao_attempts x
          \<and> ao_attempts x \<le> ap_max_start_attempts ?p
          \<and> (\<exists>a rt. find_microvm (ap_name ?p) (sd_db s') = Inr (Some a) \<and> st_runtime a = Some rt
               \<and> rt_process_state rt = ''running'' \<and> rt_process_id rt = Some (msr_process_id y))
      | AutostartFailed e \<Rightarrow> ap_enabled ?p \<and> ao_attempts x = ap_max_start_attempts ?p
      | AutostartPaused \<Rightarrow> \<not> ap_enabled ?p \<and> ao_attempts x = 0"
    by (auto simp: list_all2_Cons1)
  have p: "ap_name ?p = ''web''" "ap_enabled ?p" "ap_max_start_attempts ?p = 3"
    by (simp_all add: policy_from_settings_def demo_settings_def)
  from outcome have "ao_result x \<noteq> AutostartPaused \<and> ao_attempts x \<in> {1..3}"
    by (cases "ao_result x") (auto simp: p)
  with xs x p have "r = Inr [x]" "ao_name x = ''web''" "ao_result x \<noteq> AutostartPaused" "ao_attempts x \<in> {1..3}" by simp_all
  then show ?thesis using run by blast
qed

end
