(* ===== verification/Manager_Prune.thy ===== *)
theory Manager_Prune
  imports Manager_Lifecycle
begin

text \<open>
  The reclaiming of unused artifacts of src/crates/sdk/src/manager.rs: the preview
  (\<open>list_prune_candidates\<close>), the removal of one file (\<open>delete_prune_file\<close>), of one candidate of each kind and
  of all of them (\<open>prune_unused_artifacts\<close>). The summary and the failures, which the code collects in
  mutable vectors, are passed on from candidate to candidate.
\<close>

record PrunePreview =
  pp_kernels :: "string list"
  pp_images :: "PrunedImageId list"
  pp_estimated_bytes :: u64

text \<open>\<open>sort_by\<close> on the pair of a distribution and an image.\<close>

definition sort_images :: "PrunedImageId list \<Rightarrow> PrunedImageId list" where
  "sort_images images = sort_key pi_distribution_id (sort_key pi_image_id images)"

section \<open>The preview\<close>

definition preview_kernel :: "PruneReferences \<Rightarrow> PrunableKernel \<Rightarrow> PrunePreview \<Rightarrow> PrunePreview" where
  "preview_kernel refs kern p =
     (if kernel_referenced refs (pk_registry_id kern) then p
      else p\<lparr>pp_estimated_bytes := saturating_add (pp_estimated_bytes p) (pk_size_bytes kern),
             pp_kernels := pp_kernels p @ [pk_registry_id kern]\<rparr>)"

definition preview_image :: "PruneReferences \<Rightarrow> PrunableImage \<Rightarrow> PrunePreview \<Rightarrow> PrunePreview" where
  "preview_image refs img p =
     (if image_referenced refs (pm_distribution_id img) (pm_image_id img) then p
      else p\<lparr>pp_estimated_bytes := saturating_add (pp_estimated_bytes p) (pm_size_bytes img),
             pp_images := pp_images p @ [\<lparr>pi_distribution_id = pm_distribution_id img, pi_image_id = pm_image_id img\<rparr>]\<rparr>)"

definition push_new :: "'a \<Rightarrow> 'a list \<Rightarrow> 'a list" where
  "push_new x xs = (if x \<in> set xs then xs else xs @ [x])"

definition preview_orphan :: "PruneReferences \<Rightarrow> OrphanArtifactDownload \<Rightarrow> PrunePreview \<Rightarrow> PrunePreview" where
  "preview_orphan refs orphan p =
     (let bytes = saturating_add (pp_estimated_bytes p) (oa_size_bytes orphan) in
      case parse_identity orphan of
        None \<Rightarrow> p
      | Some (OrphanKernel kernel_id) \<Rightarrow>
          if kernel_referenced refs kernel_id then p
          else p\<lparr>pp_estimated_bytes := bytes, pp_kernels := push_new kernel_id (pp_kernels p)\<rparr>
      | Some (OrphanImage distribution_id image_id) \<Rightarrow>
          if image_referenced refs distribution_id image_id then p
          else p\<lparr>pp_estimated_bytes := bytes,
                 pp_images := push_new \<lparr>pi_distribution_id = distribution_id, pi_image_id = image_id\<rparr> (pp_images p)\<rparr>)"

definition prune_preview ::
  "PrunableKernel list \<Rightarrow> PrunableImage list \<Rightarrow> OrphanArtifactDownload list \<Rightarrow> PruneReferences \<Rightarrow> PrunePreview" where
  "prune_preview kernels images orphans refs =
     (let p = fold (preview_orphan refs) orphans (fold (preview_image refs) images (fold (preview_kernel refs) kernels
                \<lparr>pp_kernels = [], pp_images = [], pp_estimated_bytes = 0\<rparr>)) in
      p\<lparr>pp_kernels := sort (pp_kernels p), pp_images := sort_images (pp_images p)\<rparr>)"

text \<open>The four reads that both operations start with.\<close>

definition read_candidates ::
  "'w MicroVmSdk \<Rightarrow> ('w sdk, PrunableKernel list \<times> PrunableImage list \<times> OrphanArtifactDownload list \<times> PruneReferences) sdk_io" where
  "read_candidates sdk =
     bindE (repository_read sdk (\<lambda>db. Inr (list_prunable_kernels (db_artifacts db)))) (\<lambda>kernels.
     bindE (repository_read sdk (\<lambda>db. Inr (list_prunable_images (db_artifacts db)))) (\<lambda>images.
     bindE (repository_read sdk (\<lambda>db. Inr (list_orphan_artifact_downloads (db_artifacts db)))) (\<lambda>orphans.
     bindE (repository_read sdk (\<lambda>db. Inr (list_prune_references db))) (\<lambda>refs.
     returnE (kernels, images, orphans, refs)))))"

definition list_prune_candidates :: "'w MicroVmSdk \<Rightarrow> ('w sdk, PrunePreview) sdk_io" where
  "list_prune_candidates sdk =
     bindE (read_candidates sdk) (\<lambda>(kernels, images, orphans, refs).
     returnE (prune_preview kernels images orphans refs))"

section \<open>The removal of one file\<close>

datatype PruneFileOutcome = PruneSkipped | PruneAbsent | PruneFailed message | PruneRemoved u64

definition delete_prune_file :: "'w MicroVmSdk \<Rightarrow> path \<Rightarrow> string \<Rightarrow> ('w sdk, PruneFileOutcome) sdk_io" where
  "delete_prune_file sdk p artifact_key =
     (if \<not> path_is_below_home (home sdk) p
      then returnE (PruneFailed (Text (''the recorded path for '' @ artifact_key @ '' escapes the SDK home'')))
      else bindE (attemptE (on_env (target_lock sdk p))) (\<lambda>lock.
      case lock of
        Inl e \<Rightarrow> returnE (PruneFailed (Shown e))
      | Inr free \<Rightarrow>
          if \<not> free then returnE PruneSkipped
          else bindE (attempt_call (symlink_metadata (files sdk) p)) (\<lambda>r.
          case r of
            Inl e \<Rightarrow>
              returnE (if io_kind e = NotFoundKind then PruneAbsent
                       else PruneFailed (Shown (Filesystem ''inspect prune candidate'' p e)))
          | Inr m \<Rightarrow>
              if md_is_symlink m \<or> \<not> md_is_file m
              then returnE (PruneFailed (Text (''the recorded path for '' @ artifact_key @ '' is not a regular file'')))
              else bindE (attempt_call (remove_file (files sdk) p)) (\<lambda>r.
                   returnE (case r of
                      Inl e \<Rightarrow> PruneFailed (Shown (Filesystem ''remove unused artifact'' p e))
                    | Inr _ \<Rightarrow> PruneRemoved (md_len m))))))"

section \<open>The removal of the candidates\<close>

type_synonym prune_state = "PruneSummary \<times> (string \<times> message) list"

definition add_failure :: "string \<Rightarrow> message \<Rightarrow> prune_state \<Rightarrow> prune_state" where
  "add_failure artifact_key reason st = (fst st, snd st @ [(artifact_key, reason)])"

definition add_skipped :: "string \<Rightarrow> prune_state \<Rightarrow> prune_state" where
  "add_skipped artifact_key st =
     ((fst st)\<lparr>ps_skipped_artifact_keys := ps_skipped_artifact_keys (fst st) @ [artifact_key]\<rparr>, snd st)"

definition add_kernel :: "string \<Rightarrow> u64 \<Rightarrow> prune_state \<Rightarrow> prune_state" where
  "add_kernel kernel_id freed st =
     ((fst st)\<lparr>ps_removed_kernels := ps_removed_kernels (fst st) @ [kernel_id],
               ps_freed_bytes_kernels := saturating_add (ps_freed_bytes_kernels (fst st)) freed\<rparr>, snd st)"

definition add_image :: "string \<Rightarrow> string \<Rightarrow> u64 \<Rightarrow> prune_state \<Rightarrow> prune_state" where
  "add_image distribution_id image_id freed st =
     ((fst st)\<lparr>ps_removed_images := ps_removed_images (fst st) @
                 [\<lparr>pi_distribution_id = distribution_id, pi_image_id = image_id\<rparr>],
               ps_freed_bytes_images := saturating_add (ps_freed_bytes_images (fst st)) freed\<rparr>, snd st)"

text \<open>The match on the outcome that the three candidate functions share: the file first, then the rows. A file
  that was absent frees nothing.\<close>

definition prune_candidate ::
  "'w MicroVmSdk \<Rightarrow> string \<Rightarrow> path \<Rightarrow> (db, bool) sdk_io \<Rightarrow> (u64 \<Rightarrow> prune_state \<Rightarrow> prune_state) \<Rightarrow> prune_state
     \<Rightarrow> ('w sdk, prune_state) sdk_io" where
  "prune_candidate sdk artifact_key p remove_rows removed st =
     bindE (delete_prune_file sdk p artifact_key) (\<lambda>outcome.
     case outcome of
       PruneSkipped \<Rightarrow> returnE (add_skipped artifact_key st)
     | PruneFailed reason \<Rightarrow> returnE (add_failure artifact_key reason st)
     | PruneAbsent \<Rightarrow>
         bindE (attemptE (repository_write sdk remove_rows)) (\<lambda>r.
         returnE (case r of
            Inr True \<Rightarrow> removed 0 st
          | Inr False \<Rightarrow> st
          | Inl e \<Rightarrow> add_failure artifact_key (Shown e) st))
     | PruneRemoved freed \<Rightarrow>
         bindE (attemptE (repository_write sdk remove_rows)) (\<lambda>r.
         returnE (case r of
            Inr True \<Rightarrow> removed freed st
          | Inr False \<Rightarrow> add_failure artifact_key
              (Text ''the artifact became referenced before its rows could be removed'') st
          | Inl e \<Rightarrow> add_failure artifact_key (Shown e) st)))"

definition prune_kernel_candidate ::
  "'w MicroVmSdk \<Rightarrow> PrunableKernel \<Rightarrow> prune_state \<Rightarrow> ('w sdk, prune_state) sdk_io" where
  "prune_kernel_candidate sdk kern =
     prune_candidate sdk (''kernel:'' @ pk_registry_id kern) (pk_absolute_path kern)
       (delete_kernel_if_unreferenced (pk_registry_id kern)) (add_kernel (pk_registry_id kern))"

definition prune_image_candidate ::
  "'w MicroVmSdk \<Rightarrow> PrunableImage \<Rightarrow> prune_state \<Rightarrow> ('w sdk, prune_state) sdk_io" where
  "prune_image_candidate sdk img =
     prune_candidate sdk (''distribution_image:'' @ pm_distribution_id img @ '':'' @ pm_image_id img) (pm_absolute_path img)
       (delete_image_if_unreferenced (pm_distribution_id img) (pm_image_id img))
       (add_image (pm_distribution_id img) (pm_image_id img))"

fun identity_referenced :: "PruneReferences \<Rightarrow> OrphanIdentity \<Rightarrow> bool" where
  "identity_referenced refs (OrphanKernel kernel_id) = kernel_referenced refs kernel_id"
| "identity_referenced refs (OrphanImage distribution_id image_id) = image_referenced refs distribution_id image_id"

fun add_identity :: "OrphanIdentity \<Rightarrow> u64 \<Rightarrow> prune_state \<Rightarrow> prune_state" where
  "add_identity (OrphanKernel kernel_id) = add_kernel kernel_id"
| "add_identity (OrphanImage distribution_id image_id) = add_image distribution_id image_id"

definition prune_orphan_candidate ::
  "'w MicroVmSdk \<Rightarrow> PruneReferences \<Rightarrow> OrphanArtifactDownload \<Rightarrow> prune_state \<Rightarrow> ('w sdk, prune_state) sdk_io" where
  "prune_orphan_candidate sdk refs orphan st =
     (case parse_identity orphan of
        None \<Rightarrow> returnE (add_failure (oa_artifact_key orphan)
                  (Text ''the orphan artifact key does not match its recorded artifact type'') st)
      | Some identity \<Rightarrow>
          if identity_referenced refs identity then returnE st
          else prune_candidate sdk (oa_artifact_key orphan) (oa_absolute_path orphan)
                 (delete_orphan_download_if_unreferenced (oa_artifact_key orphan)) (add_identity identity) st)"

fun foldE :: "('a \<Rightarrow> 's \<Rightarrow> ('e, 'w, 's) io) \<Rightarrow> 'a list \<Rightarrow> 's \<Rightarrow> ('e, 'w, 's) io" where
  "foldE f [] st = returnE st"
| "foldE f (x # xs) st = bindE (f x st) (foldE f xs)"

definition empty_summary :: PruneSummary where
  "empty_summary = \<lparr>ps_removed_kernels = [], ps_removed_images = [], ps_skipped_artifact_keys = [],
     ps_freed_bytes_kernels = 0, ps_freed_bytes_images = 0, ps_freed_bytes_total = 0\<rparr>"

definition finish_prune :: "prune_state \<Rightarrow> PruneSummary result" where
  "finish_prune st =
     (let summary = (fst st)\<lparr>ps_removed_kernels := sort (ps_removed_kernels (fst st)),
            ps_removed_images := sort_images (ps_removed_images (fst st)),
            ps_skipped_artifact_keys := sort (ps_skipped_artifact_keys (fst st))\<rparr> in
      bindR (ok_or (checked_add (ps_freed_bytes_kernels summary) (ps_freed_bytes_images summary))
              (invalid_metadata ''prune summary'' ''reclaimed bytes exceed u64 range'')) (\<lambda>total.
      if snd st = [] then Inr (summary\<lparr>ps_freed_bytes_total := total\<rparr>)
      else Inl (PruneIncomplete (summary\<lparr>ps_freed_bytes_total := total\<rparr>) (snd st))))"

definition prune_all ::
  "'w MicroVmSdk \<Rightarrow> PrunableKernel list \<Rightarrow> PrunableImage list \<Rightarrow> OrphanArtifactDownload list \<Rightarrow> PruneReferences
     \<Rightarrow> ('w sdk, prune_state) sdk_io" where
  "prune_all sdk kernels images orphans refs =
     bindE (foldE (\<lambda>kern st. if kernel_referenced refs (pk_registry_id kern) then returnE st
              else prune_kernel_candidate sdk kern st) kernels (empty_summary, [])) (\<lambda>st.
     bindE (foldE (\<lambda>img st. if image_referenced refs (pm_distribution_id img) (pm_image_id img) then returnE st
              else prune_image_candidate sdk img st) images st) (\<lambda>st.
     foldE (prune_orphan_candidate sdk refs) orphans st))"

definition prune_unused_artifacts :: "'w MicroVmSdk \<Rightarrow> ('w sdk, PruneSummary) sdk_io" where
  "prune_unused_artifacts sdk =
     bindE (read_candidates sdk) (\<lambda>(kernels, images, orphans, refs).
     bindE (prune_all sdk kernels images orphans refs) (\<lambda>st. liftE (finish_prune st)))"

end
