(* ===== verification/Prune_Safety.thy ===== *)
theory Prune_Safety
  imports Manager_Prune Lifecycle_Safety Artifact_Keys
begin

text \<open>
  What the reclaiming of unused artifacts does: the rows and the files of the artifacts that a VM uses and of
  the runtime binaries stay, and a run that reports success without skipping anything leaves nothing to
  reclaim.
\<close>

section \<open>Rows\<close>

text \<open>What every step of a run keeps of the database \<open>D\<close> it started from.\<close>

definition pruned :: "db \<Rightarrow> db \<Rightarrow> bool" where
  "pruned D d \<longleftrightarrow> d\<lparr>db_artifacts := db_artifacts D\<rparr> = D \<and> artifacts_ok (db_artifacts d)
     \<and> (\<forall>m \<in> set (db_microvms D).
          kernel_download (mr_kernel_id m) (db_artifacts d) = kernel_download (mr_kernel_id m) (db_artifacts D)
        \<and> image_download (mr_distribution_id m) (mr_image_id m) (db_artifacts d)
          = image_download (mr_distribution_id m) (mr_image_id m) (db_artifacts D))
     \<and> join_binaries (db_artifacts d) = join_binaries (db_artifacts D)"

lemma pruned_refl: "artifacts_ok (db_artifacts D) \<Longrightarrow> pruned D D"
  by (simp add: pruned_def)

lemma pruned_microvms: assumes "pruned D d" shows "db_microvms d = db_microvms D"
proof -
  have "db_microvms (d\<lparr>db_artifacts := db_artifacts D\<rparr>) = db_microvms D" using assms by (simp only: pruned_def)
  then show ?thesis by simp
qed

lemma removing_Inr:
  "removing m d = (r, d') \<Longrightarrow> (\<exists>a. m (db_artifacts d) = Inr ((), a) \<and> d' = d\<lparr>db_artifacts := a\<rparr> \<and> r = Inr True)
     \<or> (\<exists>e. d' = d \<and> r = Inl e)"
  by (auto simp: removing_def on_artifacts_def run_update_def bindR_Inr bindS_Inr split: sum.splits prod.splits)

text \<open>The three removals as changes of the maps of downloads.\<close>

lemma delete_kernel_cases:
  assumes "artifacts_ok (db_artifacts d)" "delete_kernel_if_unreferenced name d = (r, d')"
  shows "d' = d \<and> (r = Inr False \<longrightarrow> kernel_is_referenced name d \<or> kernel_download name (db_artifacts d) = None) \<and> r \<noteq> Inr True
    \<or> (\<exists>k i a. \<not> kernel_is_referenced name d \<and> r = Inr True \<and> d' = d\<lparr>db_artifacts := a\<rparr>
        \<and> find_kernel_row name (db_artifacts d) = Some k \<and> kr_download_id k = Some i
        \<and> remove_kernel_rows (kr_id k) i (db_artifacts d) = Inr ((), a))"
  using assms(2)
  by (auto simp: delete_kernel_if_unreferenced_def kernel_download_def split: if_splits option.splits Option.bind_splits
      dest!: removing_Inr)

lemma delete_image_cases:
  assumes "artifacts_ok (db_artifacts d)" "delete_image_if_unreferenced dist img d = (r, d')"
  shows "d' = d \<and> (r = Inr False \<longrightarrow> image_is_referenced dist img d \<or> image_download dist img (db_artifacts d) = None) \<and> r \<noteq> Inr True
    \<or> (\<exists>m a. \<not> image_is_referenced dist img d \<and> r = Inr True \<and> d' = d\<lparr>db_artifacts := a\<rparr>
        \<and> find_image_row dist img (db_artifacts d) = Some m
        \<and> remove_image_rows (im_id m) (im_download_id m) (db_artifacts d) = Inr ((), a))"
  using assms(2)
  by (auto simp: delete_image_if_unreferenced_def image_download_def split: if_splits option.splits dest!: removing_Inr)

lemma delete_orphan_cases:
  assumes "delete_orphan_download_if_unreferenced key d = (r, d')"
  shows "d' = d \<and> r \<noteq> Inr True
    \<or> (\<exists>x a. r = Inr True \<and> d' = d\<lparr>db_artifacts := a\<rparr> \<and> x \<in> set (ad_downloads (db_artifacts d)) \<and> dl_artifact_key x = key
        \<and> member_count (dl_id x) (db_artifacts d) = 0
        \<and> delete_downloads (\<lambda>r. dl_id r = dl_id x) (db_artifacts d) = Inr ((), a))"
  using assms
  by (auto simp: delete_orphan_download_if_unreferenced_def split: if_splits option.splits dest!: removing_Inr dest: find_SomeD)

lemma pruned_delete_kernel:
  assumes "pruned D d" "delete_kernel_if_unreferenced name d = (r, d')"
  shows "pruned D d'"
proof -
  have ok: "artifacts_ok (db_artifacts d)" using assms(1) by (simp add: pruned_def)
  from artifact_calls_ok(5) [OF ok assms(2)] have ok': "artifacts_ok (db_artifacts d')" .
  from delete_kernel_cases [OF ok assms(2)] show ?thesis
  proof (elim disjE exE conjE)
    fix k i a
    assume free: "\<not> kernel_is_referenced name d" and d': "d' = d\<lparr>db_artifacts := a\<rparr>"
      and rows: "find_kernel_row name (db_artifacts d) = Some k" "kr_download_id k = Some i"
        "remove_kernel_rows (kr_id k) i (db_artifacts d) = Inr ((), a)"
    from free pruned_microvms [OF assms(1)] have "mr_kernel_id m \<noteq> name" if "m \<in> set (db_microvms D)" for m
      using that by (auto simp: kernel_is_referenced_def list_ex_iff)
    with assms(1) ok' d' show ?thesis by (simp add: pruned_def remove_kernel_rows_maps [OF ok rows])
  qed (use assms(1) in simp)
qed

lemma pruned_delete_image:
  assumes "pruned D d" "delete_image_if_unreferenced dist img d = (r, d')"
  shows "pruned D d'"
proof -
  have ok: "artifacts_ok (db_artifacts d)" using assms(1) by (simp add: pruned_def)
  from artifact_calls_ok(6) [OF ok assms(2)] have ok': "artifacts_ok (db_artifacts d')" .
  from delete_image_cases [OF ok assms(2)] show ?thesis
  proof (elim disjE exE conjE)
    fix m a
    assume free: "\<not> image_is_referenced dist img d" and d': "d' = d\<lparr>db_artifacts := a\<rparr>"
      and rows: "find_image_row dist img (db_artifacts d) = Some m"
        "remove_image_rows (im_id m) (im_download_id m) (db_artifacts d) = Inr ((), a)"
    from free pruned_microvms [OF assms(1)]
    have "\<not> (mr_distribution_id v = dist \<and> mr_image_id v = img)" if "v \<in> set (db_microvms D)" for v
      using that by (auto simp: image_is_referenced_def list_ex_iff)
    with assms(1) ok' d' show ?thesis by (auto simp: pruned_def remove_image_rows_maps [OF ok rows])
  qed (use assms(1) in simp)
qed

lemma pruned_delete_orphan:
  assumes "pruned D d" "delete_orphan_download_if_unreferenced key d = (r, d')"
  shows "pruned D d'"
proof -
  have ok: "artifacts_ok (db_artifacts d)" using assms(1) by (simp add: pruned_def)
  from artifact_calls_ok(7) [OF ok assms(2)] have ok': "artifacts_ok (db_artifacts d')" .
  from delete_orphan_cases [OF assms(2)] show ?thesis
  proof (elim disjE exE conjE)
    fix x a
    assume d': "d' = d\<lparr>db_artifacts := a\<rparr>" and x: "x \<in> set (ad_downloads (db_artifacts d))"
      and rows: "delete_downloads (\<lambda>r. dl_id r = dl_id x) (db_artifacts d) = Inr ((), a)"
    have "find_download (dl_id x) (db_artifacts d) \<noteq> None" using x by (simp add: find_download_None)
    with assms(1) ok' d' show ?thesis by (simp add: pruned_def delete_download_maps [OF _ rows])
  qed (use assms(1) in simp)
qed

section \<open>Invariants of a run\<close>

text \<open>An effect that keeps a property of the database, whatever it returns.\<close>

abbreviation keepsD :: "(db \<Rightarrow> bool) \<Rightarrow> ('w sdk, 'a) sdk_io \<Rightarrow> bool" where
  "keepsD P m \<equiv> dbT P m (\<lambda>_. P) (\<lambda>_. P)"

lemma keepsD_quiet: "quietD m \<Longrightarrow> keepsD P m"
  by (rule dbT_quiet)

lemma keepsD_write:
  assumes "\<And>d r d'. P d \<Longrightarrow> m d = (r, d') \<Longrightarrow> P d'"
  shows "keepsD P (repository_write sdk m)"
  unfolding repository_write_def using assms by (auto intro!: dbT_step [OF quiet_env] dbT_db)

lemma keepsD_fold: "(\<And>x st. x \<in> set xs \<Longrightarrow> keepsD P (f x st)) \<Longrightarrow> keepsD P (foldE f xs st)"
  by (induction xs arbitrary: st) (auto intro!: dbT_return dbT_bind)

lemma quiet_outcome_case [quiet_intros]:
  "quietD a \<Longrightarrow> quietD b \<Longrightarrow> (\<And>x. quietD (f x)) \<Longrightarrow> (\<And>x. quietD (g x)) \<Longrightarrow>
   quietD (case outcome of PruneSkipped \<Rightarrow> a | PruneAbsent \<Rightarrow> b | PruneFailed x \<Rightarrow> f x | PruneRemoved x \<Rightarrow> g x)"
  by (cases outcome) auto

lemma quiet_delete_prune_file [quiet_intros]: "quietD (delete_prune_file sdk p key)"
  unfolding delete_prune_file_def by (intro quiet_intros)

lemma keepsD_candidate:
  assumes "\<And>d r d'. P d \<Longrightarrow> remove_rows d = (r, d') \<Longrightarrow> P d'"
  shows "keepsD P (prune_candidate sdk key p remove_rows removed st)"
proof -
  have rows: "keepsD P (bindE (attemptE (repository_write sdk remove_rows)) (\<lambda>r. returnE (g r)))" for g
    using keepsD_write [OF assms] by (auto intro!: dbT_bind dbT_attempt dbT_return)
  have "keepsD P (case outcome of
       PruneSkipped \<Rightarrow> returnE (add_skipped key st) | PruneAbsent \<Rightarrow> bindE (attemptE (repository_write sdk remove_rows)) (\<lambda>r. returnE (g r))
     | PruneFailed reason \<Rightarrow> returnE (add_failure key reason st)
     | PruneRemoved freed \<Rightarrow> bindE (attemptE (repository_write sdk remove_rows)) (\<lambda>r. returnE (h freed r)))" for outcome g h
    using rows by (cases outcome) (auto intro: dbT_return)
  then show ?thesis
    unfolding prune_candidate_def by (rule dbT_step [OF quiet_delete_prune_file])
qed

lemma quiet_read_candidates [quiet_intros]: "quietD (read_candidates sdk)"
  unfolding read_candidates_def by (intro quiet_intros)

text \<open>A property of the database that the three removals keep is kept by a run.\<close>

lemma keepsD_prune:
  assumes "\<And>name d r d'. P d \<Longrightarrow> delete_kernel_if_unreferenced name d = (r, d') \<Longrightarrow> P d'"
    and "\<And>dist img d r d'. P d \<Longrightarrow> delete_image_if_unreferenced dist img d = (r, d') \<Longrightarrow> P d'"
    and "\<And>key d r d'. P d \<Longrightarrow> delete_orphan_download_if_unreferenced key d = (r, d') \<Longrightarrow> P d'"
  shows "keepsD P (prune_unused_artifacts sdk)"
proof -
  have kern: "keepsD P (prune_kernel_candidate sdk k st)" for k st
    unfolding prune_kernel_candidate_def by (rule keepsD_candidate) (rule assms(1))
  have img: "keepsD P (prune_image_candidate sdk m st)" for m st
    unfolding prune_image_candidate_def by (rule keepsD_candidate) (rule assms(2))
  have orphan: "keepsD P (prune_orphan_candidate sdk refs x st)" for refs x st
    unfolding prune_orphan_candidate_def
    by (auto intro!: dbT_option dbT_return dbT_if intro: keepsD_candidate assms(3))
  have "keepsD P (bindE (prune_all sdk kernels images orphans refs) (\<lambda>st. liftE (finish_prune st)))" for kernels images orphans refs
    unfolding prune_all_def
    by (rule dbT_bind [where R = "\<lambda>_. P"], rule dbT_bind [where R = "\<lambda>_. P"], rule keepsD_fold, rule dbT_if,
        rule dbT_return, assumption, rule kern, rule dbT_bind [where R = "\<lambda>_. P"], rule keepsD_fold, rule dbT_if,
        rule dbT_return, assumption, rule img, rule keepsD_fold, rule orphan, rule dbT_lift)
  then show ?thesis
    unfolding prune_unused_artifacts_def by (auto intro!: dbT_step [OF quiet_read_candidates] dbT_prod)
qed

lemma prune_keepsD_pruned: "keepsD (pruned D) (prune_unused_artifacts sdk)"
  by (rule keepsD_prune) (erule pruned_delete_kernel pruned_delete_image pruned_delete_orphan; assumption)+

lemma keepsDD: "keepsD P m \<Longrightarrow> P (sd_db s) \<Longrightarrow> m s = (r, s') \<Longrightarrow> P (sd_db s')"
  by (cases r) (auto dest: dbT_Inr dbT_Inl)

text \<open>(C13) Reclaiming unused artifacts, whether it succeeds or fails and whatever the host answers, changes the
  artifact tables only, keeps them consistent, and leaves the kernel and the image of every VM, in whatever
  state the VM is, and every runtime binary resolving exactly as before.\<close>
theorem prune_keeps_referenced:
  assumes "artifacts_ok (db_artifacts (sd_db s))" and "prune_unused_artifacts sdk s = (r, s')"
  shows "sd_db s' = (sd_db s)\<lparr>db_artifacts := db_artifacts (sd_db s')\<rparr>
    \<and> artifacts_ok (db_artifacts (sd_db s'))
    \<and> (\<forall>m \<in> set (db_microvms (sd_db s)).
         resolve_kernel (mr_kernel_id m) (db_artifacts (sd_db s')) = resolve_kernel (mr_kernel_id m) (db_artifacts (sd_db s))
       \<and> resolve_distribution_image (mr_distribution_id m) (mr_image_id m) (db_artifacts (sd_db s'))
         = resolve_distribution_image (mr_distribution_id m) (mr_image_id m) (db_artifacts (sd_db s)))
    \<and> (\<forall>package component. resolve_binary_row package component (db_artifacts (sd_db s'))
         = resolve_binary_row package component (db_artifacts (sd_db s)))"
proof -
  note kept = keepsDD [OF prune_keepsD_pruned pruned_refl [OF assms(1)] assms(2)]
  show ?thesis
  proof (rule conjI)
    show "sd_db s' = (sd_db s)\<lparr>db_artifacts := db_artifacts (sd_db s')\<rparr>"
      using kept by (simp add: pruned_def) (metis db.surjective db.update_convs(12))
  qed (use kept in \<open>simp add: pruned_def resolve_downloads resolve_binary_row_def\<close>)
qed

lemma demo_row: "\<exists>m \<in> set (db_microvms demo_full_db). mr_kernel_id m = ''k'' \<and> mr_distribution_id m = ''debian'' \<and> mr_image_id m = ''12''"
proof -
  from demo_find obtain m where "m \<in> set (db_microvms demo_full_db)" "stored_from_row demo_full_db m = Inr demo_stored"
    by (auto simp: find_microvm_def load_row_def bindR_Inr split: option.splits dest: find_SomeD)
  then show ?thesis
    by (intro bexI [of _ m]) (auto simp: stored_from_row_def record_from_row_def bindR_Inr demo_stored_def demo_record_def)
qed

theorem prune_keeps_referenced_witness:
  "\<exists>r s' m. prune_unused_artifacts demo_sdk (demo_state False) = (r, s') \<and> m \<in> set (db_microvms (sd_db s'))
    \<and> resolve_kernel (mr_kernel_id m) (db_artifacts (sd_db s'))
      = Inr \<lparr>la_path = [RootDir, Normal ''h'', Normal ''k''], la_size_bytes = 0, la_sha256 = demo_digest\<rparr>"
proof -
  obtain r s' where run: "prune_unused_artifacts demo_sdk (demo_state False) = (r, s')" by fastforce
  have ok: "artifacts_ok (db_artifacts (sd_db (demo_state False)))"
    using reachable_artifacts_ok [OF demo_reachable] by simp
  obtain m where m: "m \<in> set (db_microvms demo_full_db)" "mr_kernel_id m = ''k''" using demo_row by blast
  note kept = prune_keeps_referenced [OF ok run]
  have "db_microvms (sd_db s') = db_microvms demo_full_db"
    using kept by (metis db.select_convs(1) db.surjective db.update_convs(12) sdk.select_convs(1))
  with kept m run show ?thesis by (auto intro!: exI [of _ m])
qed

section \<open>Files\<close>

text \<open>Every member is recorded under the key that the manager gives to its kind.\<close>

definition keyed :: "artifact_db \<Rightarrow> bool" where
  "keyed a \<longleftrightarrow>
     (\<forall>n d. kernel_download n a = Some d \<longrightarrow> dl_artifact_key d = ''kernel:'' @ n)
     \<and> (\<forall>(p, f, d) \<in> set (join_binaries a). dl_artifact_key d = ''binary:'' @ pa_registry_id p @ '':'' @ bi_component_name f)
     \<and> (\<forall>n m d. image_download n m a = Some d \<longrightarrow> dl_artifact_key d = ''distribution_image:'' @ n @ '':'' @ m)"

text \<open>The keys of the rows are those of the members that the joins find.\<close>

lemma keyed_stored:
  assumes "stored_ok a"
  shows "keyed a"
proof -
  note rows = keyed_rowsD [OF stored_okD(2) [OF assms]]
  show ?thesis
    unfolding keyed_def
  proof (intro conjI allI ballI impI; clarify?)
    fix n d assume "kernel_download n a = Some d"
    then obtain k i where "k \<in> set (ad_kernels a)" "kr_registry_id k = n" "kr_download_id k = Some i" "find_download i a = Some d"
      by (auto simp: kernel_download_def find_kernel_row_def split: Option.bind_splits dest: find_SomeD)
    with rows(1) [of k i] show "dl_artifact_key d = ''kernel:'' @ n" by (simp add: download_key_def)
  next
    fix p f d assume "(p, f, d) \<in> set (join_binaries a)"
    then have "f \<in> set (ad_files a)" "package_of f a = Some p" "find_download (bi_download_id f) a = Some d"
      by (auto simp: join_binaries_def List.map_filter_def split: Option.bind_splits)
    moreover from this(2) have "p \<in> set (ad_packages a)" "pa_id p = bi_binary_package_id f"
      by (auto simp: package_of_def dest: find_SomeD)
    ultimately show "dl_artifact_key d = ''binary:'' @ pa_registry_id p @ '':'' @ bi_component_name f"
      using rows(2) [of f p] by (simp add: download_key_def)
  next
    fix n m d assume "image_download n m a = Some d"
    then obtain r s where "r \<in> set (ad_images a)" "im_registry_id r = m" "find_download (im_download_id r) a = Some d"
      "s \<in> set (ad_distributions a)" "ds_id s = im_distribution_id r" "ds_registry_id s = n"
      by (auto simp: image_download_def find_image_row_def distribution_of_def split: Option.bind_splits dest!: find_SomeD)
    with rows(3) [of r s] show "dl_artifact_key d = ''distribution_image:'' @ n @ '':'' @ m" by (simp add: download_key_def)
  qed
qed

text \<open>The files of the artifacts that VMs use, and of the runtime binaries.\<close>

definition needed_download :: "db \<Rightarrow> DownloadRow \<Rightarrow> bool" where
  "needed_download db d \<longleftrightarrow> (\<exists>m \<in> set (db_microvms db). kernel_download (mr_kernel_id m) (db_artifacts db) = Some d
       \<or> image_download (mr_distribution_id m) (mr_image_id m) (db_artifacts db) = Some d)
     \<or> (\<exists>p f. (p, f, d) \<in> set (join_binaries (db_artifacts db)))"

definition needed_files :: "db \<Rightarrow> path set" where
  "needed_files db = {dl_absolute_path d |d. needed_download db d}"

lemma in_map_filter: "y \<in> set (List.map_filter f xs) \<longleftrightarrow> (\<exists>x \<in> set xs. f x = Some y)"
  by (induction xs) (auto simp: List.map_filter_simps split: option.splits)

lemma kernel_row_download:
  assumes "artifacts_ok a" "k \<in> set (ad_kernels a)" "kr_download_id k = Some i" "find_download i a = Some d"
  shows "kernel_download (kr_registry_id k) a = Some d"
  using assms find_key_distinct [of kr_registry_id "ad_kernels a" k]
  by (simp add: kernel_download_def find_kernel_row_def artifacts_ok_def kernels_ok_def key_table_def)

lemma image_row_download:
  assumes "artifacts_ok a" "m \<in> set (ad_images a)" "distribution_of m a = Some s" "find_download (im_download_id m) a = Some d"
  shows "image_download (ds_registry_id s) (im_registry_id m) a = Some d"
proof -
  have images: "images_ok a" using assms(1) by (simp add: artifacts_ok_def)
  have "distribution_key (ds_registry_id s) a = Some (im_distribution_id m)"
    using distribution_of_key [OF images, of m "ds_registry_id s"] assms(3) by simp
  moreover have "find (\<lambda>r. image_key r = image_key m) (ad_images a) = Some m"
    using find_key_distinct [of image_key "ad_images a" m] images assms(2) by (simp add: images_ok_def key_table_def)
  ultimately show ?thesis
    using assms(4) by (simp add: image_download_def find_image_row_key [OF images] image_key_def)
qed

lemma prunable_kernelD:
  assumes "artifacts_ok a" "k \<in> set (list_prunable_kernels a)"
  shows "\<exists>d. kernel_download (pk_registry_id k) a = Some d \<and> pk_absolute_path k = dl_absolute_path d"
  using assms(2) kernel_row_download [OF assms(1)]
  by (auto simp: list_prunable_kernels_def in_map_filter split: Option.bind_splits)

lemma prunable_imageD:
  assumes "artifacts_ok a" "m \<in> set (list_prunable_images a)"
  shows "\<exists>d. image_download (pm_distribution_id m) (pm_image_id m) a = Some d \<and> pm_absolute_path m = dl_absolute_path d"
  using assms(2) image_row_download [OF assms(1)]
  by (auto simp: list_prunable_images_def join_images_def in_map_filter split: Option.bind_splits)

lemma orphanD:
  assumes "x \<in> set (list_orphan_artifact_downloads a)"
  shows "\<exists>d \<in> set (ad_downloads a). oa_artifact_key x = dl_artifact_key d \<and> oa_artifact_type x = dl_artifact_type d
    \<and> oa_absolute_path x = dl_absolute_path d \<and> is_orphan_type (dl_artifact_type d) \<and> member_count (dl_id d) a = 0"
  using assms by (auto simp: list_orphan_artifact_downloads_def)

lemma download_in: "find_download i a = Some d \<Longrightarrow> d \<in> set (ad_downloads a) \<and> dl_id d = i"
  by (auto simp: find_download_def dest: find_SomeD)

lemma map_download_in:
  "kernel_download n a = Some d \<Longrightarrow> d \<in> set (ad_downloads a)"
  "image_download n m a = Some d \<Longrightarrow> d \<in> set (ad_downloads a)"
  "(p, f, d) \<in> set (join_binaries a) \<Longrightarrow> d \<in> set (ad_downloads a)"
  by (auto simp: kernel_download_def image_download_def join_binaries_def in_map_filter split: Option.bind_splits dest: download_in)

lemma same_path:
  "artifacts_ok a \<Longrightarrow> d \<in> set (ad_downloads a) \<Longrightarrow> d' \<in> set (ad_downloads a) \<Longrightarrow> dl_absolute_path d = dl_absolute_path d' \<Longrightarrow> d = d'"
  by (auto simp: artifacts_ok_def downloads_ok_def distinct_map dest: inj_onD)

lemma image_download_inj:
  assumes "artifacts_ok a" "image_download n m a = Some d" "image_download n' m' a = Some d"
  shows "n = n' \<and> m = m'"
proof -
  have images: "images_ok a" using assms(1) by (simp add: artifacts_ok_def)
  from assms(2,3) obtain r r' where r: "find_image_row n m a = Some r" "find_download (im_download_id r) a = Some d"
    and r': "find_image_row n' m' a = Some r'" "find_download (im_download_id r') a = Some d"
    by (auto simp: image_download_def split: Option.bind_splits)
  from r(2) r'(2) have "im_download_id r = im_download_id r'" using download_in by metis
  with find_image_rowD [OF images r(1)] find_image_rowD [OF images r'(1)] images
  have "r = r'" by (auto simp: images_ok_def distinct_map dest: inj_onD)
  with find_image_rowD [OF images r(1)] find_image_rowD [OF images r'(1)] distribution_key_inj [OF images] show ?thesis
    by auto
qed

text \<open>The members of a download: an orphan has none.\<close>

lemma kernel_download_member: "kernel_download n a = Some d \<Longrightarrow> member_count (dl_id d) a \<noteq> 0"
  by (auto simp: kernel_download_def find_kernel_row_def member_count_def filter_empty_conv split: Option.bind_splits
      dest!: find_SomeD download_in)

lemma image_download_member: "image_download n m a = Some d \<Longrightarrow> member_count (dl_id d) a \<noteq> 0"
  by (auto simp: image_download_def find_image_row_def member_count_def filter_empty_conv split: Option.bind_splits
      dest!: find_SomeD download_in)

lemma parse_identity_key:
  "parse_identity x = Some (OrphanKernel n) \<Longrightarrow> oa_artifact_key x = ''kernel:'' @ n"
  "parse_identity x = Some (OrphanImage n m) \<Longrightarrow> \<exists>rest. oa_artifact_key x = ''distribution_image:'' @ rest"
  by (auto simp: parse_identity_def split: if_splits Option.bind_splits dest: strip_prefix_SomeD)

lemma keyed_kernel: "keyed a \<Longrightarrow> kernel_download n a = Some d \<Longrightarrow> dl_artifact_key d = ''kernel:'' @ n"
  and keyed_binary: "keyed a \<Longrightarrow> (p, f, d) \<in> set (join_binaries a) \<Longrightarrow> \<exists>rest. dl_artifact_key d = ''binary:'' @ rest"
  and keyed_image: "keyed a \<Longrightarrow> image_download n m a = Some d \<Longrightarrow> \<exists>rest. dl_artifact_key d = ''distribution_image:'' @ rest"
  by (auto simp: keyed_def)

lemma needed_cases:
  assumes "artifacts_ok (db_artifacts db)" "d \<in> set (ad_downloads (db_artifacts db))" "dl_absolute_path d \<in> needed_files db"
  obtains m where "m \<in> set (db_microvms db)" "kernel_download (mr_kernel_id m) (db_artifacts db) = Some d"
    | m where "m \<in> set (db_microvms db)" "image_download (mr_distribution_id m) (mr_image_id m) (db_artifacts db) = Some d"
    | p f where "(p, f, d) \<in> set (join_binaries (db_artifacts db))"
proof -
  from assms(3) obtain d' where d': "needed_download db d'" "dl_absolute_path d = dl_absolute_path d'" by (auto simp: needed_files_def)
  have "d' \<in> set (ad_downloads (db_artifacts db))" using d'(1) map_download_in by (auto simp: needed_download_def)
  with same_path [OF assms(1,2)] d' have "needed_download db d" by metis
  with that show thesis by (auto simp: needed_download_def)
qed

lemma kernel_not_needed:
  assumes ok: "artifacts_ok (db_artifacts db)" and keys: "keyed (db_artifacts db)"
    and d: "kernel_download n (db_artifacts db) = Some d" and free: "n \<notin> mr_kernel_id ` set (db_microvms db)"
  shows "dl_absolute_path d \<notin> needed_files db"
proof
  assume "dl_absolute_path d \<in> needed_files db"
  with ok map_download_in(1) [OF d] show False
  proof (cases rule: needed_cases)
    case (1 m)
    with keyed_kernel [OF keys d] keyed_kernel [OF keys 1(2)] free show False by auto
  next
    case (2 m)
    with keyed_kernel [OF keys d] keyed_image [OF keys 2(2)] show False by auto
  next
    case (3 p f)
    with keyed_kernel [OF keys d] keyed_binary [OF keys 3] show False by auto
  qed
qed

lemma image_not_needed:
  assumes ok: "artifacts_ok (db_artifacts db)" and keys: "keyed (db_artifacts db)"
    and d: "image_download n i (db_artifacts db) = Some d"
    and free: "(n, i) \<notin> (\<lambda>m. (mr_distribution_id m, mr_image_id m)) ` set (db_microvms db)"
  shows "dl_absolute_path d \<notin> needed_files db"
proof
  assume "dl_absolute_path d \<in> needed_files db"
  with ok map_download_in(2) [OF d] show False
  proof (cases rule: needed_cases)
    case (1 m)
    with keyed_image [OF keys d] keyed_kernel [OF keys 1(2)] show False by auto
  next
    case (2 m)
    with image_download_inj [OF ok d 2(2)] free show False by force
  next
    case (3 p f)
    with keyed_image [OF keys d] keyed_binary [OF keys 3] show False by auto
  qed
qed

lemma orphan_not_needed:
  assumes ok: "artifacts_ok (db_artifacts db)" and keys: "keyed (db_artifacts db)"
    and x: "x \<in> set (list_orphan_artifact_downloads (db_artifacts db))" "parse_identity x \<noteq> None"
  shows "oa_absolute_path x \<notin> needed_files db"
proof
  assume need: "oa_absolute_path x \<in> needed_files db"
  from orphanD [OF x(1)] obtain d where d: "d \<in> set (ad_downloads (db_artifacts db))" "oa_artifact_key x = dl_artifact_key d"
    "oa_absolute_path x = dl_absolute_path d" "member_count (dl_id d) (db_artifacts db) = 0" by blast
  from x(2) obtain identity where "parse_identity x = Some identity" by blast
  with parse_identity_key [of x] d(2)
  have key: "\<exists>rest. dl_artifact_key d = ''kernel:'' @ rest \<or> dl_artifact_key d = ''distribution_image:'' @ rest"
    by (cases identity) auto
  from ok d(1) need [unfolded d(3)] show False
  proof (cases rule: needed_cases)
    case (3 p f)
    with keyed_binary [OF keys 3] key show False by auto
  qed (use d(4) in \<open>auto dest: kernel_download_member image_download_member\<close>)
qed

text \<open>Effects that keep a property of the environment.\<close>

abbreviation keepsW :: "('w \<Rightarrow> bool) \<Rightarrow> ('w sdk, 'a) sdk_io \<Rightarrow> bool" where
  "keepsW I \<equiv> keepsE (\<lambda>s s'. I (sd_env s) \<longrightarrow> I (sd_env s'))"

lemma keepsW_refl: "reflp (\<lambda>s s'. I (sd_env s) \<longrightarrow> I (sd_env s'))" and keepsW_trans: "transp (\<lambda>s s'. I (sd_env s) \<longrightarrow> I (sd_env s'))"
  by (auto intro: reflpI transpI)

lemma keepsW_bind: "keepsW I m \<Longrightarrow> (\<And>x. keepsW I (f x)) \<Longrightarrow> keepsW I (bindE m f)"
  by (rule keepsE_bind [OF keepsW_trans])

lemma keepsW_return: "keepsW I (returnE x)"
  by (rule keepsE_return [OF keepsW_refl])

lemma keepsW_env: "(\<And>w r w'. m w = (r, w') \<Longrightarrow> I w \<Longrightarrow> I w') \<Longrightarrow> keepsW I (on_env m)"
  by (auto simp: keepsE_def on_env_def split: prod.splits)

lemma keepsW_call: "(\<And>w r w'. m w = (r, w') \<Longrightarrow> I w \<Longrightarrow> I w') \<Longrightarrow> keepsW I (attempt_call m)"
  unfolding attempt_call_def by (rule keepsW_env) (auto split: prod.splits)

lemma keepsW_db: "keepsW I (on_db m)"
  by (auto simp: keepsE_def on_db_def split: prod.splits)

lemma keepsW_fold: "(\<And>x st. x \<in> set xs \<Longrightarrow> keepsW I (f x st)) \<Longrightarrow> keepsW I (foldE f xs st)"
  by (induction xs arbitrary: st) (auto intro: keepsW_return keepsW_bind)

lemma keepsW_if: "(b \<Longrightarrow> keepsW I m) \<Longrightarrow> (\<not> b \<Longrightarrow> keepsW I n) \<Longrightarrow> keepsW I (if b then m else n)"
  by simp

lemma keepsW_sum: "(\<And>e. keepsW I (f e)) \<Longrightarrow> (\<And>x. keepsW I (g x)) \<Longrightarrow> keepsW I (case r of Inl e \<Rightarrow> f e | Inr x \<Rightarrow> g x)"
  by (cases r) auto

lemmas keepsW_rules = keepsW_bind keepsW_return keepsW_if keepsW_sum keepsW_env keepsW_call keepsW_db keepsE_attempt

lemma delete_prune_file_env:
  assumes "\<And>w r w'. target_lock sdk p w = (r, w') \<Longrightarrow> I w \<Longrightarrow> I w'"
    and "\<And>w r w'. symlink_metadata (files sdk) p w = (r, w') \<Longrightarrow> I w \<Longrightarrow> I w'"
    and "\<And>w r w'. path_is_below_home (home sdk) p \<Longrightarrow> remove_file (files sdk) p w = (r, w') \<Longrightarrow> I w \<Longrightarrow> I w'"
  shows "keepsW I (delete_prune_file sdk p key)"
  unfolding delete_prune_file_def by (intro keepsW_rules; use assms in blast)

lemma prune_candidate_env:
  assumes "keepsW I (delete_prune_file sdk p key)"
    and "\<And>w r w'. open_connection sdk w = (r, w') \<Longrightarrow> I w \<Longrightarrow> I w'"
  shows "keepsW I (prune_candidate sdk key p remove_rows removed st)"
proof -
  have "keepsW I (repository_write sdk remove_rows)"
    unfolding repository_write_def by (auto intro!: keepsW_rules) (use assms(2) in blast)
  then have rows: "keepsW I (bindE (attemptE (repository_write sdk remove_rows)) (\<lambda>r. returnE (g r)))" for g
    by (auto intro!: keepsW_rules)
  show ?thesis
    unfolding prune_candidate_def by (rule keepsW_bind [OF assms(1)]) (auto intro: keepsW_return rows split: PruneFileOutcome.split)
qed

lemma read_candidates_Inr:
  assumes "read_candidates sdk s = (Inr (kernels, images, orphans, refs), s')"
  shows "kernels = list_prunable_kernels (db_artifacts (sd_db s))" "images = list_prunable_images (db_artifacts (sd_db s))"
    "orphans = list_orphan_artifact_downloads (db_artifacts (sd_db s))" "refs = list_prune_references (sd_db s)" "sd_db s' = sd_db s"
proof -
  have read: "x = f (sd_db t) \<and> sd_db t' = sd_db t" if "repository_read sdk (\<lambda>db. Inr (f db)) t = (Inr x, t')" for f x t t'
    using that by (auto simp: repository_read_def bindE_Inr on_env_def on_db_def split: prod.splits)
  from assms show "kernels = list_prunable_kernels (db_artifacts (sd_db s))" "images = list_prunable_images (db_artifacts (sd_db s))"
    "orphans = list_orphan_artifact_downloads (db_artifacts (sd_db s))" "refs = list_prune_references (sd_db s)" "sd_db s' = sd_db s"
    by (auto simp: read_candidates_def bindE_Inr dest!: read)
qed

lemma read_candidates_env:
  assumes "\<And>w r w'. open_connection sdk w = (r, w') \<Longrightarrow> I w \<Longrightarrow> I w'"
  shows "keepsW I (read_candidates sdk)"
  unfolding read_candidates_def repository_read_def by (auto intro!: keepsW_rules) (use assms in blast)+

lemma references_iff:
  "kernel_referenced (list_prune_references db) n \<longleftrightarrow> n \<in> mr_kernel_id ` set (db_microvms db)"
  "image_referenced (list_prune_references db) n i \<longleftrightarrow> (n, i) \<in> (\<lambda>m. (mr_distribution_id m, mr_image_id m)) ` set (db_microvms db)"
  by (simp_all add: list_prune_references_def kernel_referenced_def image_referenced_def)

lemma prune_spares_keyed:
  assumes "artifacts_ok (db_artifacts (sd_db s))" and "keyed (db_artifacts (sd_db s))"
    and "prune_unused_artifacts sdk s = (r, s')" and "I (sd_env s)"
    and conn: "\<And>w r w'. open_connection sdk w = (r, w') \<Longrightarrow> I w \<Longrightarrow> I w'"
    and lock: "\<And>p w r w'. target_lock sdk p w = (r, w') \<Longrightarrow> I w \<Longrightarrow> I w'"
    and meta: "\<And>p w r w'. symlink_metadata (files sdk) p w = (r, w') \<Longrightarrow> I w \<Longrightarrow> I w'"
    and rm: "\<And>p w r w'. path_is_below_home (home sdk) p \<Longrightarrow> p \<notin> needed_files (sd_db s) \<Longrightarrow>
      remove_file (files sdk) p w = (r, w') \<Longrightarrow> I w \<Longrightarrow> I w'"
  shows "I (sd_env s')"
proof -
  let ?a = "db_artifacts (sd_db s)" and ?refs = "list_prune_references (sd_db s)"
  have candidate: "keepsW I (prune_candidate sdk key p remove_rows removed st)" if "p \<notin> needed_files (sd_db s)" for key p remove_rows removed st
    by (rule prune_candidate_env [OF delete_prune_file_env conn]) (use lock meta rm that in blast)+
  have kern: "keepsW I (if kernel_referenced ?refs (pk_registry_id k) then returnE st else prune_kernel_candidate sdk k st)"
    if "k \<in> set (list_prunable_kernels ?a)" for k st
    using prunable_kernelD [OF assms(1) that] kernel_not_needed [OF assms(1,2)]
    by (auto simp: prune_kernel_candidate_def references_iff intro!: keepsW_return candidate)
  have img: "keepsW I (if image_referenced ?refs (pm_distribution_id m) (pm_image_id m) then returnE st else prune_image_candidate sdk m st)"
    if "m \<in> set (list_prunable_images ?a)" for m st
    using prunable_imageD [OF assms(1) that] image_not_needed [OF assms(1,2)]
    by (auto simp: prune_image_candidate_def references_iff intro!: keepsW_return candidate)
  have orphan: "keepsW I (prune_orphan_candidate sdk ?refs x st)" if "x \<in> set (list_orphan_artifact_downloads ?a)" for x st
    using orphan_not_needed [OF assms(1,2) that]
    by (auto simp: prune_orphan_candidate_def intro!: keepsW_return candidate split: option.split)
  have all: "keepsW I (prune_all sdk (list_prunable_kernels ?a) (list_prunable_images ?a) (list_orphan_artifact_downloads ?a) ?refs)"
    unfolding prune_all_def by (intro keepsW_bind keepsW_fold kern img orphan)
  show ?thesis
  proof (cases "read_candidates sdk s")
    case (Pair r0 s1)
    have "keepsW I (read_candidates sdk)" by (rule read_candidates_env) (rule conn)
    from keepsED [OF this Pair] assms(4) have env: "I (sd_env s1)" by blast
    show ?thesis
    proof (cases r0)
      case (Inl e)
      with assms(3) Pair env show ?thesis by (simp add: prune_unused_artifacts_def bindE_def)
    next
      case (Inr c)
      obtain kernels images orphans refs where c: "c = (kernels, images, orphans, refs)" by (cases c) auto
      note read = read_candidates_Inr [OF Pair [unfolded Inr c]]
      obtain r1 s2 where run: "prune_all sdk kernels images orphans refs s1 = (r1, s2)" by fastforce
      then have "I (sd_env s2)" using keepsED [OF all, of s1] env read by auto
      with assms(3) Pair Inr c run show ?thesis
        by (cases r1) (auto simp: prune_unused_artifacts_def bindE_def split: sum.splits)
    qed
  qed
qed

text \<open>(C14) In every inventory that repository calls with the artifact keys of the manager produce (\<open>kernel:\<close>, \<open>binary:\<close>
  and \<open>distribution_image:\<close> with the identifiers), reclaiming unused artifacts removes a file only when its
  recorded path begins with the components of the SDK home (a lexical check, which does not resolve \<open>..\<close>), and
  never the file of a kernel or image that a VM uses, nor of a runtime binary: any property of the host that its
  other calls and the removal of other files keep is kept by the whole run, whether it succeeds or fails.\<close>
theorem prune_spares_needed_files:
  assumes "keyed_reachable (sd_db s)"
    and "prune_unused_artifacts sdk s = (r, s')" and "I (sd_env s)"
    and "\<And>w r w'. open_connection sdk w = (r, w') \<Longrightarrow> I w \<Longrightarrow> I w'"
    and "\<And>p w r w'. target_lock sdk p w = (r, w') \<Longrightarrow> I w \<Longrightarrow> I w'"
    and "\<And>p w r w'. symlink_metadata (files sdk) p w = (r, w') \<Longrightarrow> I w \<Longrightarrow> I w'"
    and "\<And>p w r w'. path_is_below_home (home sdk) p \<Longrightarrow> p \<notin> needed_files (sd_db s) \<Longrightarrow>
      remove_file (files sdk) p w = (r, w') \<Longrightarrow> I w \<Longrightarrow> I w'"
  shows "I (sd_env s')"
  using stored_okD(1) [OF keyed_reachable_stored [OF assms(1)]] keyed_stored [OF keyed_reachable_stored [OF assms(1)]] assms(2-)
  by (rule prune_spares_keyed)

text \<open>A host that notes whether the Firecracker binary is still there, and an inventory without VMs.\<close>

definition noting_sdk :: "bool MicroVmSdk" where
  "noting_sdk = demo_sdk\<lparr>files := (files demo_sdk)\<lparr>remove_file := \<lambda>p there.
     (Inr (), there \<and> p \<noteq> [RootDir, Normal ''h'', Normal ''firecracker''])\<rparr>\<rparr>"

lemma demo_joins:
  "kernel_download n demo_artifacts = (if n = ''k'' then Some (demo_download 1 demo_kernel_spec) else None)"
  "image_download n m demo_artifacts = (if n = ''debian'' \<and> m = ''12'' then Some (demo_download 4 demo_image_spec) else None)"
  "join_binaries demo_artifacts =
     [(package_row (demo_package ''fc'' ''firecracker'') 1, file_row 1 2 (demo_file ''firecracker'') 0 1, demo_download 2 demo_fc_spec),
      (package_row (demo_package ''fctl'' ''firectl'') 2, file_row 2 3 (demo_file ''firectl'') 0 2, demo_download 3 demo_fctl_spec)]"
  by (auto simp: kernel_download_def find_kernel_row_def find_download_def demo_artifacts_def demo_download_def download_row_def
      image_download_def find_image_row_def distribution_of_def join_binaries_def List.map_filter_simps package_of_def file_row_def
      package_row_def image_row_def kernel_row_def distribution_row_def demo_package_def demo_file_def demo_image_def demo_kernel_def
      demo_distribution_def)

lemma demo_needed: "[RootDir, Normal ''h'', Normal ''firecracker''] \<in> needed_files demo_store"
  by (auto simp: needed_files_def needed_download_def demo_store_def demo_joins demo_download_def download_row_def
      intro!: exI [of _ "demo_download 2 demo_fc_spec"])

theorem prune_spares_needed_files_witness:
  "\<exists>r s'. prune_unused_artifacts noting_sdk \<lparr>sd_db = demo_store, sd_env = True\<rparr> = (r, s') \<and> sd_env s'
    \<and> \<not> snd (remove_file (files noting_sdk) [RootDir, Normal ''h'', Normal ''firecracker''] True)"
proof -
  obtain r s' where run: "prune_unused_artifacts noting_sdk \<lparr>sd_db = demo_store, sd_env = True\<rparr> = (r, s')" by fastforce
  have "sd_env s'"
    by (rule prune_spares_needed_files [where I = "\<lambda>there. there", OF _ run])
      (use demo_keyed_reachable demo_needed in \<open>auto simp: noting_sdk_def returnE_def\<close>)
  with run show ?thesis by (simp add: noting_sdk_def)
qed

end
