(* ===== verification/Prune_Complete.thy ===== *)
theory Prune_Complete
  imports Prune_Safety
begin

text \<open>
  A run that reports success and skipped nothing leaves nothing to reclaim: the proof follows the set of
  reclaimable artifacts through the run.
\<close>

section \<open>Reclaimable artifacts\<close>

datatype reclaim = ReclaimKernel string | ReclaimImage string string | ReclaimOrphan string

definition orphan_of :: "DownloadRow \<Rightarrow> OrphanArtifactDownload" where
  "orphan_of d = \<lparr>oa_artifact_key = dl_artifact_key d, oa_artifact_type = dl_artifact_type d,
     oa_absolute_path = dl_absolute_path d, oa_size_bytes = size_or_zero (dl_actual_size_bytes d)\<rparr>"

lemma parse_identity_cong:
  "oa_artifact_key x = oa_artifact_key y \<Longrightarrow> oa_artifact_type x = oa_artifact_type y \<Longrightarrow> parse_identity x = parse_identity y"
  by (simp add: parse_identity_def)

text \<open>A download that no member has and whose identity no VM uses.\<close>

definition free_orphan :: "db \<Rightarrow> DownloadRow \<Rightarrow> bool" where
  "free_orphan db d \<longleftrightarrow> is_orphan_type (dl_artifact_type d) \<and> member_count (dl_id d) (db_artifacts db) = 0
     \<and> (\<exists>identity. parse_identity (orphan_of d) = Some identity \<and> \<not> identity_is_referenced identity db)"

fun reclaimable :: "db \<Rightarrow> reclaim \<Rightarrow> bool" where
  "reclaimable db (ReclaimKernel n) \<longleftrightarrow> kernel_download n (db_artifacts db) \<noteq> None \<and> \<not> kernel_is_referenced n db"
| "reclaimable db (ReclaimImage n i) \<longleftrightarrow> image_download n i (db_artifacts db) \<noteq> None \<and> \<not> image_is_referenced n i db"
| "reclaimable db (ReclaimOrphan key) \<longleftrightarrow>
     (\<exists>d \<in> set (ad_downloads (db_artifacts db)). dl_artifact_key d = key \<and> free_orphan db d)"

lemma member_count_0:
  "member_count i a = 0 \<longleftrightarrow> (\<forall>k \<in> set (ad_kernels a). kr_download_id k \<noteq> Some i) \<and> (\<forall>m \<in> set (ad_images a). im_download_id m \<noteq> i)"
  by (auto simp: member_count_def filter_empty_conv)

text \<open>One removal: it makes nothing reclaimable, and when it does not fail its artifact is not reclaimable any more.\<close>

definition shrinks :: "db \<Rightarrow> db \<Rightarrow> bool" where
  "shrinks d d' \<longleftrightarrow> (\<forall>x. reclaimable d' x \<longrightarrow> reclaimable d x)"

lemma shrinks_refl [simp]: "shrinks d d" and shrinks_trans: "shrinks d d' \<Longrightarrow> shrinks d' d'' \<Longrightarrow> shrinks d d''"
  by (auto simp: shrinks_def)

definition reclaims :: "reclaim \<Rightarrow> (db, bool) sdk_io \<Rightarrow> bool" where
  "reclaims c op \<longleftrightarrow> (\<forall>D d r d'. pruned D d \<longrightarrow> op d = (r, d') \<longrightarrow>
     pruned D d' \<and> shrinks d d' \<and> (\<forall>b. r = Inr b \<longrightarrow> \<not> reclaimable d' c))"

lemma referenced_artifacts [simp]:
  "kernel_is_referenced n (d\<lparr>db_artifacts := a\<rparr>) = kernel_is_referenced n d"
  "image_is_referenced n i (d\<lparr>db_artifacts := a\<rparr>) = image_is_referenced n i d"
  by (auto simp: kernel_is_referenced_def image_is_referenced_def)

lemma identity_artifacts [simp]: "identity_is_referenced identity (d\<lparr>db_artifacts := a\<rparr>) = identity_is_referenced identity d"
  by (cases identity) simp_all

lemma shrinksI:
  assumes k: "\<And>n. kernel_download n a \<in> {None, kernel_download n (db_artifacts d)}"
    and m: "\<And>n i. image_download n i a \<in> {None, image_download n i (db_artifacts d)}"
    and rows: "set (ad_downloads a) \<subseteq> set (ad_downloads (db_artifacts d))"
    and count: "\<And>x. x \<in> set (ad_downloads a) \<Longrightarrow> member_count (dl_id x) a = 0 \<Longrightarrow> member_count (dl_id x) (db_artifacts d) = 0"
  shows "shrinks d (d\<lparr>db_artifacts := a\<rparr>)"
  unfolding shrinks_def
proof (intro allI impI)
  fix x
  assume x: "reclaimable (d\<lparr>db_artifacts := a\<rparr>) x"
  show "reclaimable d x"
  proof (cases x)
    case (ReclaimKernel n)
    with x k [of n] show ?thesis by auto
  next
    case (ReclaimImage n i)
    with x m [of n i] show ?thesis by auto
  next
    case (ReclaimOrphan key)
    with x rows count show ?thesis by (auto simp: free_orphan_def)
  qed
qed

lemma delete_downloads_rows:
  "delete_downloads (\<lambda>d. dl_id d = i) a = Inr (u, a') \<Longrightarrow> ad_downloads a' = filter (\<lambda>d. dl_id d \<noteq> i) (ad_downloads a)"
  by (auto simp: delete_downloads_def stmt_simps split: if_splits)

lemma reclaims_kernel: "reclaims (ReclaimKernel n) (delete_kernel_if_unreferenced n)"
  unfolding reclaims_def
proof (intro allI impI)
  fix D d r d'
  assume d: "pruned D d" and run: "delete_kernel_if_unreferenced n d = (r, d')"
  have ok: "artifacts_ok (db_artifacts d)" using d by (simp add: pruned_def)
  have "shrinks d d' \<and> (\<forall>b. r = Inr b \<longrightarrow> \<not> reclaimable d' (ReclaimKernel n))"
    using delete_kernel_cases [OF ok run]
  proof (elim disjE exE conjE)
    fix k i a
    assume d': "d' = d\<lparr>db_artifacts := a\<rparr>" and rows: "find_kernel_row n (db_artifacts d) = Some k" "kr_download_id k = Some i"
      "remove_kernel_rows (kr_id k) i (db_artifacts d) = Inr ((), a)"
    note maps = remove_kernel_rows_maps [OF ok rows]
    from rows(3) have del: "delete_downloads (\<lambda>d. dl_id d = i) (delete_kernel_row (kr_id k) (db_artifacts d)) = Inr ((), a)"
      by (auto simp: remove_kernel_rows_def bindS_Inr)
    have k: "k \<in> set (ad_kernels (db_artifacts d))" using rows(1) by (auto simp: find_kernel_row_def dest: find_SomeD)
    have single: "x = k" if "x \<in> set (ad_kernels (db_artifacts d))" "kr_id x = kr_id k" for x
      using that k ok by (auto simp: artifacts_ok_def kernels_ok_def key_table_def distinct_map dest: inj_onD)
    have tables: "ad_downloads a = filter (\<lambda>d. dl_id d \<noteq> i) (ad_downloads (db_artifacts d))"
      "ad_kernels a = filter (\<lambda>x. kr_id x \<noteq> kr_id k) (ad_kernels (db_artifacts d))" "ad_images a = ad_images (db_artifacts d)"
      using delete_downloads_rows [OF del] delete_downloads_Inr(2,5) [OF del] by (simp_all add: delete_kernel_row_def)
    have count: "member_count (dl_id x) (db_artifacts d) = 0" if x: "x \<in> set (ad_downloads a)" "member_count (dl_id x) a = 0" for x
      unfolding member_count_0
    proof (intro conjI ballI)
      fix y assume y: "y \<in> set (ad_kernels (db_artifacts d))"
      show "kr_download_id y \<noteq> Some (dl_id x)"
        using single [OF y] rows(2) x y tables by (cases "kr_id y = kr_id k") (auto simp: member_count_0)
    qed (use x tables in \<open>auto simp: member_count_0\<close>)
    have "shrinks d d'" unfolding d' by (rule shrinksI) (use maps tables count in auto)
    then show ?thesis using maps(1) [of n] by (auto simp: d')
  qed auto
  with pruned_delete_kernel [OF d run] show "pruned D d' \<and> shrinks d d' \<and> (\<forall>b. r = Inr b \<longrightarrow> \<not> reclaimable d' (ReclaimKernel n))"
    by simp
qed

lemma reclaims_image: "reclaims (ReclaimImage n i) (delete_image_if_unreferenced n i)"
  unfolding reclaims_def
proof (intro allI impI)
  fix D d r d'
  assume d: "pruned D d" and run: "delete_image_if_unreferenced n i d = (r, d')"
  have ok: "artifacts_ok (db_artifacts d)" using d by (simp add: pruned_def)
  have "shrinks d d' \<and> (\<forall>b. r = Inr b \<longrightarrow> \<not> reclaimable d' (ReclaimImage n i))"
    using delete_image_cases [OF ok run]
  proof (elim disjE exE conjE)
    fix m a
    assume d': "d' = d\<lparr>db_artifacts := a\<rparr>" and rows: "find_image_row n i (db_artifacts d) = Some m"
      "remove_image_rows (im_id m) (im_download_id m) (db_artifacts d) = Inr ((), a)"
    note maps = remove_image_rows_maps [OF ok rows]
    from rows(2) have del: "delete_downloads (\<lambda>d. dl_id d = im_download_id m) (delete_image_row (im_id m) (db_artifacts d)) = Inr ((), a)"
      by (auto simp: remove_image_rows_def bindS_Inr)
    have m: "m \<in> set (ad_images (db_artifacts d))" using rows(1) by (auto simp: find_image_row_def dest: find_SomeD)
    have single: "x = m" if "x \<in> set (ad_images (db_artifacts d))" "im_id x = im_id m" for x
      using that m ok by (auto simp: artifacts_ok_def images_ok_def key_table_def distinct_map dest: inj_onD)
    have tables: "ad_downloads a = filter (\<lambda>d. dl_id d \<noteq> im_download_id m) (ad_downloads (db_artifacts d))"
      "ad_images a = filter (\<lambda>x. im_id x \<noteq> im_id m) (ad_images (db_artifacts d))" "ad_kernels a = ad_kernels (db_artifacts d)"
      using delete_downloads_rows [OF del] delete_downloads_Inr(2,5) [OF del] by (simp_all add: delete_image_row_def)
    have count: "member_count (dl_id x) (db_artifacts d) = 0" if x: "x \<in> set (ad_downloads a)" "member_count (dl_id x) a = 0" for x
      unfolding member_count_0
    proof (intro conjI ballI)
      fix y assume y: "y \<in> set (ad_images (db_artifacts d))"
      show "im_download_id y \<noteq> dl_id x"
        using single [OF y] x y tables by (cases "im_id y = im_id m") (auto simp: member_count_0)
    qed (use x tables in \<open>auto simp: member_count_0\<close>)
    have "shrinks d d'" unfolding d' by (rule shrinksI) (use maps tables count in auto)
    then show ?thesis using maps(1) [of n i] by (auto simp: d')
  qed auto
  with pruned_delete_image [OF d run] show "pruned D d' \<and> shrinks d d' \<and> (\<forall>b. r = Inr b \<longrightarrow> \<not> reclaimable d' (ReclaimImage n i))"
    by simp
qed

lemma same_key:
  "artifacts_ok a \<Longrightarrow> x \<in> set (ad_downloads a) \<Longrightarrow> y \<in> set (ad_downloads a) \<Longrightarrow> dl_artifact_key x = dl_artifact_key y \<Longrightarrow> x = y"
  by (auto simp: artifacts_ok_def downloads_ok_def key_table_def distinct_map dest: inj_onD)

lemma orphan_kept:
  assumes ok: "artifacts_ok (db_artifacts d)" and run: "delete_orphan_download_if_unreferenced key d = (Inr False, d')"
  shows "\<not> reclaimable d (ReclaimOrphan key)"
proof
  assume "reclaimable d (ReclaimOrphan key)"
  then obtain x identity where x: "x \<in> set (ad_downloads (db_artifacts d))" "dl_artifact_key x = key" "is_orphan_type (dl_artifact_type x)"
    "member_count (dl_id x) (db_artifacts d) = 0" "parse_identity (orphan_of x) = Some identity" "\<not> identity_is_referenced identity d"
    by (auto simp: free_orphan_def)
  let ?P = "\<lambda>d. dl_artifact_key d = key \<and> is_orphan_type (dl_artifact_type d)"
  have "find ?P (ad_downloads (db_artifacts d)) = Some x"
  proof (cases "find ?P (ad_downloads (db_artifacts d))")
    case None
    with x(1-3) show ?thesis by (auto simp: find_None_iff)
  next
    case (Some y)
    then have "y \<in> set (ad_downloads (db_artifacts d))" "dl_artifact_key x = dl_artifact_key y"
      using x(2) by (auto dest: find_SomeD)
    with same_key [OF ok x(1)] Some show ?thesis by simp
  qed
  moreover have "parse_identity \<lparr>oa_artifact_key = key, oa_artifact_type = dl_artifact_type x,
      oa_absolute_path = dl_absolute_path x, oa_size_bytes = 0\<rparr> = Some identity"
    using x(5) by (subst parse_identity_cong [of _ "orphan_of x"]) (simp_all add: orphan_of_def x(2))
  ultimately show False
    using run x(4,6) by (auto simp: delete_orphan_download_if_unreferenced_def dest!: removing_Inr)
qed

lemma reclaims_orphan: "reclaims (ReclaimOrphan key) (delete_orphan_download_if_unreferenced key)"
  unfolding reclaims_def
proof (intro allI impI)
  fix D d r d'
  assume d: "pruned D d" and run: "delete_orphan_download_if_unreferenced key d = (r, d')"
  have ok: "artifacts_ok (db_artifacts d)" using d by (simp add: pruned_def)
  have "shrinks d d' \<and> (\<forall>b. r = Inr b \<longrightarrow> \<not> reclaimable d' (ReclaimOrphan key))"
    using delete_orphan_cases [OF run]
  proof (elim disjE exE conjE)
    fix x a
    assume d': "d' = d\<lparr>db_artifacts := a\<rparr>" and x: "x \<in> set (ad_downloads (db_artifacts d))" "dl_artifact_key x = key"
      and del: "delete_downloads (\<lambda>r. dl_id r = dl_id x) (db_artifacts d) = Inr ((), a)"
    have "find_download (dl_id x) (db_artifacts d) \<noteq> None" using x(1) by (simp add: find_download_None)
    note maps = delete_download_maps [OF this del]
    note tables = delete_downloads_rows [OF del] delete_downloads_Inr(2,5) [OF del]
    have "shrinks d d'" unfolding d' by (rule shrinksI) (use maps tables in \<open>auto simp: member_count_def\<close>)
    moreover have "\<not> reclaimable d' (ReclaimOrphan key)"
      using tables(1) same_key [OF ok x(1)] x(2) by (auto simp: d')
    ultimately show ?thesis by blast
  next
    assume same: "d' = d" "r \<noteq> Inr True"
    show ?thesis
    proof (intro conjI allI impI)
      fix b assume "r = Inr b"
      with same run have "delete_orphan_download_if_unreferenced key d = (Inr False, d)" by (cases b) auto
      from orphan_kept [OF ok this] same(1) show "\<not> reclaimable d' (ReclaimOrphan key)" by simp
    qed (simp add: same)
  qed
  with pruned_delete_orphan [OF d run] show "pruned D d' \<and> shrinks d d' \<and> (\<forall>b. r = Inr b \<longrightarrow> \<not> reclaimable d' (ReclaimOrphan key))"
    by simp
qed

section \<open>Progress of a run\<close>

definition clean :: "prune_state \<Rightarrow> bool" where
  "clean st \<longleftrightarrow> snd st = [] \<and> ps_skipped_artifact_keys (fst st) = []"

text \<open>A step that starts with the summary \<open>st\<close> and, when it adds neither a failure nor a skipped key, leaves none of
  the artifacts \<open>C\<close> reclaimable.\<close>

definition settles :: "db \<Rightarrow> reclaim set \<Rightarrow> prune_state \<Rightarrow> ('w sdk, prune_state) sdk_io \<Rightarrow> bool" where
  "settles D C st m \<longleftrightarrow> (\<forall>s st' s'. pruned D (sd_db s) \<longrightarrow> m s = (Inr st', s') \<longrightarrow>
     pruned D (sd_db s') \<and> shrinks (sd_db s) (sd_db s') \<and> (clean st' \<longrightarrow> clean st \<and> (\<forall>c \<in> C. \<not> reclaimable (sd_db s') c)))"

lemma settles_return: "settles D {} st (returnE st)"
  by (simp add: settles_def returnE_def)

lemma settles_bind:
  assumes "settles D A st m" and "\<And>st'. settles D B st' (f st')"
  shows "settles D (A \<union> B) st (bindE m f)"
  unfolding settles_def
proof (intro allI impI)
  fix s st'' s''
  assume d: "pruned D (sd_db s)" and "bindE m f s = (Inr st'', s'')"
  then obtain st' s' where run: "m s = (Inr st', s')" "f st' s' = (Inr st'', s'')" by (auto simp: bindE_Inr)
  from assms(1) d run(1) have m: "pruned D (sd_db s')" "shrinks (sd_db s) (sd_db s')"
    "clean st' \<longrightarrow> clean st \<and> (\<forall>c \<in> A. \<not> reclaimable (sd_db s') c)" unfolding settles_def by blast+
  from assms(2) [of st'] m(1) run(2) have f: "pruned D (sd_db s'')" "shrinks (sd_db s') (sd_db s'')"
    "clean st'' \<longrightarrow> clean st' \<and> (\<forall>c \<in> B. \<not> reclaimable (sd_db s'') c)" unfolding settles_def by blast+
  from m f show "pruned D (sd_db s'') \<and> shrinks (sd_db s) (sd_db s'')
      \<and> (clean st'' \<longrightarrow> clean st \<and> (\<forall>c \<in> A \<union> B. \<not> reclaimable (sd_db s'') c))"
    unfolding shrinks_def by blast
qed

lemma settles_fold:
  "(\<And>x st. x \<in> set xs \<Longrightarrow> settles D (C x) st (f x st)) \<Longrightarrow> settles D (\<Union>x \<in> set xs. C x) st (foldE f xs st)"
proof (induction xs arbitrary: st)
  case (Cons x xs)
  have "settles D (C x \<union> (\<Union>x \<in> set xs. C x)) st (bindE (f x st) (foldE f xs))"
    by (rule settles_bind) (use Cons in auto)
  then show ?case by simp
qed (simp add: settles_return)

lemma settles_candidate:
  assumes "reclaims c remove_rows" and clean: "\<And>b. clean (removed b st) \<longleftrightarrow> clean st"
  shows "settles D {c} st (prune_candidate sdk key p remove_rows removed st)"
  unfolding settles_def
proof (intro allI impI)
  fix s st' s'
  assume d: "pruned D (sd_db s)" and "prune_candidate sdk key p remove_rows removed st s = (Inr st', s')"
  then obtain outcome s1 where gone: "delete_prune_file sdk p key s = (Inr outcome, s1)"
    and rest: "(case outcome of PruneSkipped \<Rightarrow> returnE (add_skipped key st) | PruneFailed reason \<Rightarrow> returnE (add_failure key reason st)
     | PruneAbsent \<Rightarrow> bindE (attemptE (repository_write sdk remove_rows)) (\<lambda>r. returnE (case r of
            Inr True \<Rightarrow> removed 0 st | Inr False \<Rightarrow> st | Inl e \<Rightarrow> add_failure key (Shown e) st))
     | PruneRemoved freed \<Rightarrow> bindE (attemptE (repository_write sdk remove_rows)) (\<lambda>r. returnE (case r of
            Inr True \<Rightarrow> removed freed st
          | Inr False \<Rightarrow> add_failure key (Text ''the artifact became referenced before its rows could be removed'') st
          | Inl e \<Rightarrow> add_failure key (Shown e) st))) s1 = (Inr st', s')"
    unfolding prune_candidate_def by (auto simp: bindE_Inr)
  have same: "sd_db s1 = sd_db s" using quiet_delete_prune_file [of sdk p key] gone unfolding quietD_def by blast
  have dirty: "\<not> clean (add_skipped key st)" "\<not> clean (add_failure key reason st)" for reason
    by (simp_all add: clean_def add_skipped_def add_failure_def)
  have rows: "pruned D (sd_db s') \<and> shrinks (sd_db s) (sd_db s') \<and> (clean st' \<longrightarrow> clean st \<and> \<not> reclaimable (sd_db s') c)"
    if run: "bindE (attemptE (repository_write sdk remove_rows)) (\<lambda>r. returnE (g r)) s1 = (Inr st', s')"
      and g: "\<And>e. \<not> clean (g (Inl e))" "\<And>b. clean (g (Inr b)) \<Longrightarrow> clean st" for g
  proof -
    from run obtain r where w: "repository_write sdk remove_rows s1 = (r, s')" and st': "st' = g r"
      by (auto simp: bindE_Inr attemptE_def split: prod.splits)
    then consider "\<exists>e. r = Inl e \<and> sd_db s' = sd_db s1" | "remove_rows (sd_db s1) = (r, sd_db s')"
      by (auto simp: repository_write_def bindE_def on_env_def on_db_def split: prod.splits sum.splits)
    then show ?thesis
    proof cases
      case 1
      with d g(1) st' same show ?thesis by auto
    next
      case 2
      with assms(1) d same have "pruned D (sd_db s')" "shrinks (sd_db s) (sd_db s')" "\<forall>b. r = Inr b \<longrightarrow> \<not> reclaimable (sd_db s') c"
        unfolding reclaims_def by metis+
      with g st' show ?thesis by (cases r) auto
    qed
  qed
  show "pruned D (sd_db s') \<and> shrinks (sd_db s) (sd_db s') \<and> (clean st' \<longrightarrow> clean st \<and> (\<forall>c \<in> {c}. \<not> reclaimable (sd_db s') c))"
  proof (cases outcome)
    case PruneAbsent
    with rest have run: "bindE (attemptE (repository_write sdk remove_rows)) (\<lambda>r. returnE (case r of
        Inr True \<Rightarrow> removed 0 st | Inr False \<Rightarrow> st | Inl e \<Rightarrow> add_failure key (Shown e) st)) s1 = (Inr st', s')" by simp
    have "pruned D (sd_db s') \<and> shrinks (sd_db s) (sd_db s') \<and> (clean st' \<longrightarrow> clean st \<and> \<not> reclaimable (sd_db s') c)"
      by (rule rows [OF run]) (auto simp: dirty clean split: bool.splits)
    then show ?thesis by simp
  next
    case (PruneRemoved freed)
    with rest have run: "bindE (attemptE (repository_write sdk remove_rows)) (\<lambda>r. returnE (case r of
        Inr True \<Rightarrow> removed freed st
      | Inr False \<Rightarrow> add_failure key (Text ''the artifact became referenced before its rows could be removed'') st
      | Inl e \<Rightarrow> add_failure key (Shown e) st)) s1 = (Inr st', s')" by simp
    have "pruned D (sd_db s') \<and> shrinks (sd_db s) (sd_db s') \<and> (clean st' \<longrightarrow> clean st \<and> \<not> reclaimable (sd_db s') c)"
      by (rule rows [OF run]) (auto simp: dirty clean split: bool.splits)
    then show ?thesis by simp
  qed (use rest same d dirty in \<open>auto simp: returnE_def\<close>)
qed

lemma settles_failed: "\<not> clean (g st) \<Longrightarrow> settles D C st (returnE (g st))"
  by (simp add: settles_def returnE_def)

lemma settles_empty: "settles D C st m \<Longrightarrow> C' \<subseteq> C \<Longrightarrow> settles D C' st m"
  unfolding settles_def by blast

lemma clean_added [simp]:
  "clean (add_kernel n b st) = clean st" "clean (add_image n i b st) = clean st" "clean (add_identity identity b st) = clean st"
  "\<not> clean (add_failure key reason st)"
  by (cases identity; simp add: clean_def add_kernel_def add_image_def add_failure_def)+

definition kernel_goals :: "PruneReferences \<Rightarrow> PrunableKernel \<Rightarrow> reclaim set" where
  "kernel_goals refs k = (if kernel_referenced refs (pk_registry_id k) then {} else {ReclaimKernel (pk_registry_id k)})"

definition image_goals :: "PruneReferences \<Rightarrow> PrunableImage \<Rightarrow> reclaim set" where
  "image_goals refs m = (if image_referenced refs (pm_distribution_id m) (pm_image_id m) then {}
     else {ReclaimImage (pm_distribution_id m) (pm_image_id m)})"

definition orphan_goals :: "PruneReferences \<Rightarrow> OrphanArtifactDownload \<Rightarrow> reclaim set" where
  "orphan_goals refs x = (case parse_identity x of None \<Rightarrow> {}
     | Some identity \<Rightarrow> if identity_referenced refs identity then {} else {ReclaimOrphan (oa_artifact_key x)})"

lemma settles_prune_all:
  "settles D ((\<Union>k \<in> set kernels. kernel_goals refs k) \<union> ((\<Union>m \<in> set images. image_goals refs m)
     \<union> (\<Union>x \<in> set orphans. orphan_goals refs x))) (empty_summary, []) (prune_all sdk kernels images orphans refs)"
proof -
  have "settles D (kernel_goals refs k) st (if kernel_referenced refs (pk_registry_id k) then returnE st else prune_kernel_candidate sdk k st)" for k st
    by (simp add: kernel_goals_def prune_kernel_candidate_def settles_return settles_candidate reclaims_kernel)
  moreover have "settles D (image_goals refs m) st (if image_referenced refs (pm_distribution_id m) (pm_image_id m) then returnE st
      else prune_image_candidate sdk m st)" for m st
    by (simp add: image_goals_def prune_image_candidate_def settles_return settles_candidate reclaims_image)
  moreover have "settles D (orphan_goals refs x) st (prune_orphan_candidate sdk refs x st)" for x st
    by (simp add: orphan_goals_def prune_orphan_candidate_def settles_return settles_candidate reclaims_orphan settles_failed
        split: option.split)
  ultimately show ?thesis
    unfolding prune_all_def by (intro settles_bind settles_fold)
qed

section \<open>The listings and the reclaimable artifacts\<close>

lemma kernel_download_listed:
  "kernel_download n a = Some d \<Longrightarrow> \<exists>k \<in> set (list_prunable_kernels a). pk_registry_id k = n"
  by (auto simp: kernel_download_def list_prunable_kernels_def find_kernel_row_def in_map_filter split: Option.bind_splits
      dest!: find_SomeD intro!: bexI)

lemma image_download_listed:
  "image_download n i a = Some d \<Longrightarrow> \<exists>m \<in> set (list_prunable_images a). pm_distribution_id m = n \<and> pm_image_id m = i"
  by (auto simp: image_download_def list_prunable_images_def join_images_def find_image_row_def in_map_filter split: Option.bind_splits
      dest!: find_SomeD intro!: bexI)

lemma orphan_listed:
  "d \<in> set (ad_downloads a) \<Longrightarrow> is_orphan_type (dl_artifact_type d) \<Longrightarrow> member_count (dl_id d) a = 0 \<Longrightarrow>
   orphan_of d \<in> set (list_orphan_artifact_downloads a)"
  by (auto simp: list_orphan_artifact_downloads_def orphan_of_def)

lemma identity_referenced_iff: "identity_referenced (list_prune_references d) identity = identity_is_referenced identity d"
  by (cases identity) (auto simp: references_iff kernel_is_referenced_def image_is_referenced_def list_ex_iff)

lemma kernel_referenced_iff: "kernel_referenced (list_prune_references d) n = kernel_is_referenced n d"
  and image_referenced_iff: "image_referenced (list_prune_references d) n i = image_is_referenced n i d"
  by (auto simp: references_iff kernel_is_referenced_def image_is_referenced_def list_ex_iff)

text \<open>Every reclaimable artifact is a goal of a run.\<close>

lemma reclaimable_goal:
  assumes "reclaimable d c"
  shows "c \<in> (\<Union>k \<in> set (list_prunable_kernels (db_artifacts d)). kernel_goals (list_prune_references d) k)
    \<union> ((\<Union>m \<in> set (list_prunable_images (db_artifacts d)). image_goals (list_prune_references d) m)
    \<union> (\<Union>x \<in> set (list_orphan_artifact_downloads (db_artifacts d)). orphan_goals (list_prune_references d) x))"
proof (cases c)
  case (ReclaimKernel n)
  with assms show ?thesis
    by (auto simp: kernel_goals_def kernel_referenced_iff dest!: kernel_download_listed intro!: bexI)
next
  case (ReclaimImage n i)
  with assms show ?thesis
    by (auto simp: image_goals_def image_referenced_iff dest!: image_download_listed intro!: bexI)
next
  case (ReclaimOrphan key)
  with assms obtain x where x: "x \<in> set (ad_downloads (db_artifacts d))" "dl_artifact_key x = key" "free_orphan d x" by auto
  then have "orphan_of x \<in> set (list_orphan_artifact_downloads (db_artifacts d))" by (simp add: orphan_listed free_orphan_def)
  moreover have "c \<in> orphan_goals (list_prune_references d) (orphan_of x)"
    using x ReclaimOrphan by (auto simp: orphan_goals_def free_orphan_def identity_referenced_iff orphan_of_def)
  ultimately show ?thesis by blast
qed

text \<open>When nothing is reclaimable the preview is empty.\<close>

lemma fold_id: "(\<And>x. x \<in> set xs \<Longrightarrow> f x p = p) \<Longrightarrow> fold f xs p = p"
  by (induction xs) auto

lemma preview_empty:
  assumes "artifacts_ok (db_artifacts d)" and none: "\<And>c. \<not> reclaimable d c"
  shows "prune_preview (list_prunable_kernels (db_artifacts d)) (list_prunable_images (db_artifacts d))
     (list_orphan_artifact_downloads (db_artifacts d)) (list_prune_references d)
     = \<lparr>pp_kernels = [], pp_images = [], pp_estimated_bytes = 0\<rparr>"
proof -
  have k: "kernel_is_referenced (pk_registry_id k) d" if "k \<in> set (list_prunable_kernels (db_artifacts d))" for k
    using prunable_kernelD [OF assms(1) that] none [of "ReclaimKernel (pk_registry_id k)"] by auto
  have m: "image_is_referenced (pm_distribution_id m) (pm_image_id m) d" if "m \<in> set (list_prunable_images (db_artifacts d))" for m
    using prunable_imageD [OF assms(1) that] none [of "ReclaimImage (pm_distribution_id m) (pm_image_id m)"] by auto
  have o: "identity_is_referenced identity d"
    if x: "x \<in> set (list_orphan_artifact_downloads (db_artifacts d))" "parse_identity x = Some identity" for x identity
  proof -
    from x(1) obtain r where r: "r \<in> set (ad_downloads (db_artifacts d))" "x = orphan_of r" "is_orphan_type (dl_artifact_type r)"
      "member_count (dl_id r) (db_artifacts d) = 0" by (auto simp: list_orphan_artifact_downloads_def orphan_of_def)
    with x(2) none [of "ReclaimOrphan (dl_artifact_key r)"] show ?thesis by (auto simp: free_orphan_def)
  qed
  have "fold (preview_kernel (list_prune_references d)) (list_prunable_kernels (db_artifacts d)) p = p"
    "fold (preview_image (list_prune_references d)) (list_prunable_images (db_artifacts d)) p = p"
    "fold (preview_orphan (list_prune_references d)) (list_orphan_artifact_downloads (db_artifacts d)) p = p" for p
    by (rule fold_id; use k m o in \<open>force simp: preview_kernel_def preview_image_def preview_orphan_def Let_def kernel_referenced_iff
        image_referenced_iff split: option.split OrphanIdentity.split\<close>)+
  then show ?thesis by (simp add: prune_preview_def Let_def sort_images_def)
qed

text \<open>(C15) A run of the reclaiming that reports success and skipped nothing leaves nothing to reclaim: the preview
  of the candidates, asked afterwards, is empty.\<close>
theorem prune_complete:
  assumes "artifacts_ok (db_artifacts (sd_db s))" and "prune_unused_artifacts sdk s = (Inr summary, s')"
    and "ps_skipped_artifact_keys summary = []"
  shows "prune_preview (list_prunable_kernels (db_artifacts (sd_db s'))) (list_prunable_images (db_artifacts (sd_db s')))
     (list_orphan_artifact_downloads (db_artifacts (sd_db s'))) (list_prune_references (sd_db s'))
     = \<lparr>pp_kernels = [], pp_images = [], pp_estimated_bytes = 0\<rparr>"
proof -
  from assms(2) obtain kernels images orphans refs s1 st where read: "read_candidates sdk s = (Inr (kernels, images, orphans, refs), s1)"
    and all: "prune_all sdk kernels images orphans refs s1 = (Inr st, s')" and summary: "finish_prune st = Inr summary"
    by (auto simp: prune_unused_artifacts_def bindE_Inr liftE_def)
  note lists = read_candidates_Inr [OF read]
  have sorted: "sort xs = [] \<Longrightarrow> xs = []" for xs :: "string list" by (metis set_empty set_sort)
  have clean: "clean st"
    using summary assms(3) by (auto simp: clean_def finish_prune_def Let_def bindR_Inr split: if_splits dest: sorted)
  let ?goals = "(\<Union>k \<in> set kernels. kernel_goals refs k) \<union> ((\<Union>m \<in> set images. image_goals refs m)
      \<union> (\<Union>x \<in> set orphans. orphan_goals refs x))"
  have "pruned (sd_db s) (sd_db s1)" using pruned_refl [OF assms(1)] lists(5) by simp
  then have "pruned (sd_db s) (sd_db s') \<and> shrinks (sd_db s1) (sd_db s') \<and> (\<forall>c \<in> ?goals. \<not> reclaimable (sd_db s') c)"
    using settles_prune_all [of "sd_db s" refs kernels images orphans sdk] all clean unfolding settles_def by metis
  then have after: "pruned (sd_db s) (sd_db s')" "shrinks (sd_db s) (sd_db s')"
    and settled: "\<And>c. c \<in> ?goals \<Longrightarrow> \<not> reclaimable (sd_db s') c"
    using lists(5) by auto
  have "\<not> reclaimable (sd_db s') c" for c
    using settled [of c] reclaimable_goal [of "sd_db s" c] after(2) lists unfolding shrinks_def by blast
  then show ?thesis using after(1) by (intro preview_empty) (auto simp: pruned_def)
qed

text \<open>An inventory without VMs, on a host where nothing goes wrong: the kernel and the image go.\<close>

definition demo_unlinked :: artifact_db where
  "demo_unlinked = demo_artifacts
     \<lparr>ad_downloads := [demo_download 2 demo_fc_spec, demo_download 3 demo_fctl_spec, demo_download 4 demo_image_spec],
      ad_kernels := [], ad_distribution_kernels := []\<rparr>"

lemma demo_lists:
  "list_prunable_kernels demo_artifacts = [\<lparr>pk_registry_id = ''k'', pk_absolute_path = [RootDir, Normal ''h'', Normal ''k''], pk_size_bytes = 0\<rparr>]"
  "list_prunable_images demo_artifacts = [\<lparr>pm_distribution_id = ''debian'', pm_image_id = ''12'',
     pm_absolute_path = [RootDir, Normal ''h'', Normal ''img''], pm_size_bytes = 0\<rparr>]"
  "list_orphan_artifact_downloads demo_artifacts = []"
  by (simp_all add: list_prunable_kernels_def list_prunable_images_def list_orphan_artifact_downloads_def join_images_def
      distribution_of_def find_download_def demo_artifacts_def demo_download_def download_row_def List.map_filter_simps
      kernel_row_def image_row_def distribution_row_def demo_kernel_def demo_image_def demo_distribution_def size_or_zero_def
      spec_integrity_def is_orphan_type_def member_count_def)

lemma demo_delete_kernel: "delete_kernel_if_unreferenced ''k'' demo_store = (Inr True, demo_store\<lparr>db_artifacts := demo_unlinked\<rparr>)"
  by (auto simp: delete_kernel_if_unreferenced_def kernel_is_referenced_def demo_store_def empty_db_def find_kernel_row_def removing_def
      on_artifacts_def run_update_def remove_kernel_rows_def artifact_run delete_kernel_row_def delete_downloads_def demo_unlinked_def
      demo_artifacts_def demo_download_def download_row_def kernel_row_def demo_kernel_def file_row_def image_row_def empty_artifacts_def)

lemma demo_delete_image:
  "\<exists>a. delete_image_if_unreferenced ''debian'' ''12'' (demo_store\<lparr>db_artifacts := demo_unlinked\<rparr>) = (Inr True, demo_store\<lparr>db_artifacts := a\<rparr>)"
  by (auto simp: delete_image_if_unreferenced_def image_is_referenced_def demo_store_def empty_db_def find_image_row_def distribution_of_def
      removing_def on_artifacts_def run_update_def remove_image_rows_def artifact_run delete_image_row_def delete_downloads_def
      demo_unlinked_def demo_artifacts_def demo_download_def download_row_def file_row_def image_row_def demo_image_def
      demo_distribution_def distribution_row_def empty_artifacts_def)

lemma demo_prune_file:
  "delete_prune_file demo_sdk [RootDir, Normal ''h'', Normal p] key \<lparr>sd_db = d, sd_env = w\<rparr>
    = (Inr (PruneRemoved 1073741824), \<lparr>sd_db = d, sd_env = w\<rparr>)" if "p \<noteq> ''v''"
  using that by (simp add: delete_prune_file_def path_is_below_home_def path_starts_with_def bindE_def attemptE_def attempt_call_def
      demo_metadata_def)

lemma demo_prune:
  "\<exists>summary s'. prune_unused_artifacts demo_sdk \<lparr>sd_db = demo_store, sd_env = False\<rparr> = (Inr summary, s')
    \<and> ps_skipped_artifact_keys summary = [] \<and> ps_removed_kernels summary = [''k'']"
proof -
  obtain a where a: "delete_image_if_unreferenced ''debian'' ''12'' (demo_store\<lparr>db_artifacts := demo_unlinked\<rparr>) = (Inr True, demo_store\<lparr>db_artifacts := a\<rparr>)"
    using demo_delete_image by blast
  have "db_artifacts demo_store = demo_artifacts" "db_microvms demo_store = []" by (simp_all add: demo_store_def empty_db_def)
  then show ?thesis
    by (simp add: prune_unused_artifacts_def read_candidates_def repository_read_def repository_write_def bindE_def demo_lists
        prune_all_def list_prune_references_def kernel_referenced_def image_referenced_def prune_kernel_candidate_def
        prune_image_candidate_def prune_candidate_def demo_prune_file demo_delete_kernel a attemptE_def add_kernel_def add_image_def
        empty_summary_def finish_prune_def Let_def checked_add_def saturating_add_def liftE_def)
qed

theorem prune_complete_witness:
  "\<exists>summary s'. prune_unused_artifacts demo_sdk \<lparr>sd_db = demo_store, sd_env = False\<rparr> = (Inr summary, s')
    \<and> ps_removed_kernels summary = [''k'']
    \<and> prune_preview (list_prunable_kernels (db_artifacts (sd_db s'))) (list_prunable_images (db_artifacts (sd_db s')))
        (list_orphan_artifact_downloads (db_artifacts (sd_db s'))) (list_prune_references (sd_db s'))
      = \<lparr>pp_kernels = [], pp_images = [], pp_estimated_bytes = 0\<rparr>"
proof -
  obtain summary s' where run: "prune_unused_artifacts demo_sdk \<lparr>sd_db = demo_store, sd_env = False\<rparr> = (Inr summary, s')"
    "ps_skipped_artifact_keys summary = []" "ps_removed_kernels summary = [''k'']" using demo_prune by blast
  have "artifacts_ok (db_artifacts (sd_db \<lparr>sd_db = demo_store, sd_env = False\<rparr>))"
    using reachable_artifacts_ok [OF demo_store_reachable] by simp
  from prune_complete [OF this run(1,2)] run show ?thesis by blast
qed

end
