(* ===== verification/Manager_Download.thy ===== *)
theory Manager_Download
  imports Manager_Lifecycle
begin

text \<open>
  The downloads of src/crates/sdk/src/manager.rs: what a member of an artifact is, when a cached file is reused
  (\<open>decide_cache\<close>), the transfer to a temporary file that is verified and renamed (\<open>stream_and_publish\<close>), the record
  in the inventory (\<open>persist_member\<close>), and the public operations on kernels, packages, distributions and images. The
  record \<open>Transfer\<close> holds what a download uses besides the ports of the SDK: the caller's cancellation token and
  progress callback, the HTTP response as the chunks the connection delivers until it closes, the counter and the
  clock of the temporary names, and the calls on files that are written. A cancellation may be asked for at any
  time: each test of the token is a call on the environment, and so is the race of \<open>select!\<close>.
\<close>

section \<open>Data\<close>

datatype DownloadPhase = Downloading | Verifying | Completed | AdoptedPhase | SkippedPhase | CancelledPhase

record DownloadProgress =
  dp_artifact_kind :: ArtifactKind
  dp_artifact_id :: string
  dp_member_name :: "string option"
  dp_bytes_received :: u64
  dp_total_bytes :: u64
  dp_aggregate_bytes_received :: u64
  dp_aggregate_total_bytes :: u64
  dp_phase :: DownloadPhase

datatype DownloadDisposition = Downloaded | AdoptedExisting | SkippedExisting

record DownloadedFile =
  df_artifact_kind :: ArtifactKind
  df_artifact_id :: string
  df_member_name :: "string option"
  df_absolute_path :: path
  df_relative_path :: path
  df_size_bytes :: u64
  df_sha256 :: string
  df_disposition :: DownloadDisposition

record DownloadedKernel =
  dk_kernel :: Kernel
  dk_file :: DownloadedFile

record DownloadedBinary =
  db_binary :: BinaryPackage
  db_files :: "DownloadedFile list"

record DownloadedDistribution =
  dd_distribution :: Distribution
  dd_images :: "DownloadedFile list"

record DownloadedDistributionImage =
  dm_distribution :: Distribution
  dm_image :: DistributionImage
  dm_file :: DownloadedFile

record ProgressTracker =
  pt_aggregate_bytes_received :: u64
  pt_aggregate_total_bytes :: u64

datatype CacheDecision = Skip | Adopt | Replace

datatype LogicalMember =
    KernelMember Kernel
  | BinaryMember BinaryPackage BinaryFile
  | ImageMember Distribution DistributionImage "Kernel list"

record DownloadMember =
  mb_spec :: DownloadSpec
  mb_logical :: LogicalMember

definition new_tracker :: "u64 \<Rightarrow> ProgressTracker" where
  "new_tracker aggregate = \<lparr>pt_aggregate_bytes_received = 0, pt_aggregate_total_bytes = aggregate\<rparr>"

definition event :: "ProgressTracker \<Rightarrow> DownloadSpec \<Rightarrow> DownloadPhase \<Rightarrow> u64 \<Rightarrow> DownloadProgress" where
  "event tracker spec phase received =
     \<lparr>dp_artifact_kind = sp_artifact_kind spec, dp_artifact_id = sp_artifact_id spec, dp_member_name = sp_member_name spec,
      dp_bytes_received = received, dp_total_bytes = sp_expected_size spec,
      dp_aggregate_bytes_received = saturating_add (pt_aggregate_bytes_received tracker) received,
      dp_aggregate_total_bytes = pt_aggregate_total_bytes tracker, dp_phase = phase\<rparr>"

definition commit_member :: "u64 \<Rightarrow> ProgressTracker \<Rightarrow> ProgressTracker" where
  "commit_member received tracker =
     tracker\<lparr>pt_aggregate_bytes_received := saturating_add (pt_aggregate_bytes_received tracker) received\<rparr>"

record 'w Transfer =
  is_cancelled :: "'w \<Rightarrow> bool \<times> 'w"
  on_progress :: "DownloadProgress \<Rightarrow> 'w \<Rightarrow> 'w"
  fetch_file :: "string \<Rightarrow> ('w, (SdkError + string) list) sdk_io"
  as_nanos :: "('w, nat) sdk_io"
  fetch_add :: "'w \<Rightarrow> u64 \<times> 'w"
  create_dir_all :: "path \<Rightarrow> (io_error, 'w, unit) io"
  create_new :: "path \<Rightarrow> (io_error, 'w, unit) io"
  write_all :: "path \<Rightarrow> string \<Rightarrow> (io_error, 'w, unit) io"
  flush :: "path \<Rightarrow> (io_error, 'w, unit) io"
  sync_all :: "path \<Rightarrow> (io_error, 'w, unit) io"
  set_permissions :: "path \<Rightarrow> u32 \<Rightarrow> (io_error, 'w, unit) io"
  rename :: "path \<Rightarrow> path \<Rightarrow> (io_error, 'w, unit) io"

section \<open>Members\<close>

text \<open>\<open>PathBuf::from(first).join(second)\<close> and so on.\<close>

definition path_of :: "string list \<Rightarrow> path" where
  "path_of parts = foldl (\<lambda>p s. path_join p (components s)) [] parts"

definition make_download_spec :: "path \<Rightarrow> DownloadSpec \<Rightarrow> DownloadSpec result" where
  "make_download_spec h input =
     (let key = sp_artifact_key input; relative = sp_relative_path input; absolute = path_join h relative in
      if \<not> validate_registry_path (sp_registry_path input)
      then Inl (invalid_metadata key ''registry path is not a safe relative path'')
      else bindR (validate_safe_component (sp_artifact_id input) ''artifact identifier'') (\<lambda>_.
      bindR (case sp_member_name input of None \<Rightarrow> Inr () | Some m \<Rightarrow> validate_safe_component m ''artifact member identifier'') (\<lambda>_.
      bindR (validate_safe_component (sp_filename input) ''artifact filename'') (\<lambda>_.
      if \<not> is_valid_sha256 (sp_expected_sha256 input)
      then Inl (invalid_metadata key ''SHA-256 must be 64 lowercase hexadecimal characters'')
      else if is_absolute relative \<or> \<not> list_all is_Normal relative
      then Inl (invalid_metadata key ''managed relative path is unsafe'')
      else if \<not> path_is_below_home h absolute
      then Inl (invalid_metadata key ''managed path escapes SDK home'')
      else Inr (input\<lparr>sp_absolute_path := absolute\<rparr>)))))"

definition kernel_member :: "'w MicroVmSdk \<Rightarrow> Kernel \<Rightarrow> DownloadMember result" where
  "kernel_member sdk kern =
     bindR (make_download_spec (home sdk)
       \<lparr>sp_artifact_kind = KernelKind, sp_artifact_id = k_id kern, sp_member_name = None,
        sp_artifact_key = ''kernel:'' @ k_id kern, sp_registry_path = k_path kern, sp_registry_url = k_url kern,
        sp_filename = k_filename kern, sp_expected_size = k_size_bytes kern, sp_expected_sha256 = k_sha256 kern,
        sp_executable = False, sp_mode = None,
        sp_relative_path = path_of [''artifacts'', ''kernels'', k_id kern, k_filename kern], sp_absolute_path = []\<rparr>) (\<lambda>spec.
     Inr \<lparr>mb_spec = spec, mb_logical = KernelMember kern\<rparr>)"

definition binary_member :: "'w MicroVmSdk \<Rightarrow> BinaryPackage \<Rightarrow> BinaryFile \<Rightarrow> DownloadMember result" where
  "binary_member sdk package f =
     bindR (make_download_spec (home sdk)
       \<lparr>sp_artifact_kind = BinaryKind, sp_artifact_id = bp_id package, sp_member_name = Some (bf_name f),
        sp_artifact_key = ''binary:'' @ bp_id package @ '':'' @ bf_name f, sp_registry_path = bf_path f, sp_registry_url = bf_url f,
        sp_filename = bf_filename f, sp_expected_size = bf_size_bytes f, sp_expected_sha256 = bf_sha256 f,
        sp_executable = bf_executable f, sp_mode = bf_mode f,
        sp_relative_path = path_of [''tools'', bp_id package, bf_name f, bf_filename f], sp_absolute_path = []\<rparr>) (\<lambda>spec.
     Inr \<lparr>mb_spec = spec, mb_logical = BinaryMember package f\<rparr>)"

definition distribution_image_member ::
  "'w MicroVmSdk \<Rightarrow> Distribution \<Rightarrow> DistributionImage \<Rightarrow> Kernel list \<Rightarrow> DownloadMember result" where
  "distribution_image_member sdk distribution img kernels =
     bindR (make_download_spec (home sdk)
       \<lparr>sp_artifact_kind = DistributionImageKind, sp_artifact_id = d_id distribution, sp_member_name = Some (di_id img),
        sp_artifact_key = ''distribution_image:'' @ d_id distribution @ '':'' @ di_id img,
        sp_registry_path = di_path img, sp_registry_url = di_url img, sp_filename = di_filename img,
        sp_expected_size = di_size_bytes img, sp_expected_sha256 = di_sha256 img, sp_executable = False, sp_mode = None,
        sp_relative_path = path_of [''artifacts'', ''rootfs'', d_id distribution, di_id img, di_filename img],
        sp_absolute_path = []\<rparr>) (\<lambda>spec.
     Inr \<lparr>mb_spec = spec, mb_logical = ImageMember distribution img kernels\<rparr>)"

definition decide_cache :: "DownloadSpec \<Rightarrow> FileIntegrity option \<Rightarrow> InventoryState \<Rightarrow> CacheDecision" where
  "decide_cache spec integrity state =
     (if state = Complete then Skip
      else if (case integrity of None \<Rightarrow> False
               | Some i \<Rightarrow> fi_size_bytes i = sp_expected_size spec \<and> fi_sha256 i = sp_expected_sha256 spec)
      then Adopt else Replace)"

definition downloaded_file :: "DownloadMember \<Rightarrow> FileIntegrity \<Rightarrow> DownloadDisposition \<Rightarrow> DownloadedFile" where
  "downloaded_file member integrity disposition =
     (let spec = mb_spec member in
      \<lparr>df_artifact_kind = sp_artifact_kind spec, df_artifact_id = sp_artifact_id spec, df_member_name = sp_member_name spec,
       df_absolute_path = sp_absolute_path spec, df_relative_path = sp_relative_path spec,
       df_size_bytes = fi_size_bytes integrity, df_sha256 = fi_sha256 integrity, df_disposition = disposition\<rparr>)"

fun total_size :: "DownloadMember list \<Rightarrow> string \<Rightarrow> u64 \<Rightarrow> u64 result" where
  "total_size [] artifact_id acc = Inr acc"
| "total_size (m # ms) artifact_id acc =
     bindR (ok_or (checked_add acc (sp_expected_size (mb_spec m)))
             (invalid_metadata artifact_id ''aggregate download size exceeds u64 range''))
       (total_size ms artifact_id)"

definition verify_integrity :: "DownloadSpec \<Rightarrow> FileIntegrity \<Rightarrow> unit result" where
  "verify_integrity spec integrity =
     (if fi_size_bytes integrity \<noteq> sp_expected_size spec \<or> fi_sha256 integrity \<noteq> sp_expected_sha256 spec
      then Inl (integrity_mismatch (sp_artifact_key spec) (sp_expected_size spec) (sp_expected_sha256 spec) integrity)
      else Inr ())"

section \<open>The transfer\<close>

definition cancelled :: "'w Transfer \<Rightarrow> ('w sdk, bool) sdk_io" where
  "cancelled tr = on_env (\<lambda>w. case is_cancelled tr w of (b, w') \<Rightarrow> (Inr b, w'))"

definition report :: "'w Transfer \<Rightarrow> DownloadProgress \<Rightarrow> ('w sdk, unit) sdk_io" where
  "report tr e = on_env (\<lambda>w. (Inr (), on_progress tr e w))"

text \<open>The test that precedes most steps: an event and \<open>SdkError::Cancelled\<close>.\<close>

definition stop_if_cancelled ::
  "'w Transfer \<Rightarrow> ProgressTracker \<Rightarrow> DownloadSpec \<Rightarrow> u64 \<Rightarrow> ('w sdk, unit) sdk_io" where
  "stop_if_cancelled tr tracker spec received =
     bindE (cancelled tr) (\<lambda>b.
     if b then bindE (report tr (event tracker spec CancelledPhase received)) (\<lambda>_. throwE Cancelled)
     else returnE ())"

definition temporary_path :: "'w MicroVmSdk \<Rightarrow> 'w Transfer \<Rightarrow> string \<Rightarrow> ('w sdk, path) sdk_io" where
  "temporary_path sdk tr key =
     bindE (on_env (as_nanos tr)) (\<lambda>timestamp.
     bindE (on_env (\<lambda>w. case fetch_add tr w of (n, w') \<Rightarrow> (Inr n, w'))) (\<lambda>sequence.
     returnE (path_join (path_join (home sdk) [Normal ''tmp''])
       [Normal (''.'' @ hex_digest (sha256 sdk key) @ ''.'' @ show_nat timestamp @ ''.'' @ show_nat (unat sequence) @ ''.part'')])))"

text \<open>\<open>u32::from_str_radix(mode, 8)\<close>: an optional plus sign, at least one octal digit, no overflow.\<close>

fun parse_octal_digits :: "nat \<Rightarrow> string \<Rightarrow> nat option" where
  "parse_octal_digits acc [] = Some acc"
| "parse_octal_digits acc (c # cs) =
     (if 48 \<le> byte c \<and> byte c < 56 then parse_octal_digits (8 * acc + (byte c - 48)) cs else None)"

definition parse_octal :: "string \<Rightarrow> u32 option" where
  "parse_octal s =
     (let ds = (case s of c # cs \<Rightarrow> if c = CHR ''+'' then cs else s | [] \<Rightarrow> []) in
      if ds = [] then None
      else case parse_octal_digits 0 ds of None \<Rightarrow> None | Some n \<Rightarrow> if n < 2 ^ 32 then Some (of_nat n) else None)"

definition apply_file_mode :: "'w Transfer \<Rightarrow> path \<Rightarrow> DownloadSpec \<Rightarrow> ('w sdk, unit) sdk_io" where
  "apply_file_mode tr p spec =
     (let set_mode = (\<lambda>mode. filesystem_call ''apply artifact file mode'' p (set_permissions tr p mode)) in
      case sp_mode spec of
        Some mode \<Rightarrow>
          bindE (require_some (parse_octal mode) (invalid_metadata (sp_artifact_key spec) ''file mode is not valid octal'')) set_mode
      | None \<Rightarrow> if sp_executable spec then set_mode 493 else returnE ())"

text \<open>The loop over the chunks. It returns the number of the bytes and the bytes that the hasher was fed.\<close>

fun receive ::
  "'w Transfer \<Rightarrow> ProgressTracker \<Rightarrow> DownloadSpec \<Rightarrow> path \<Rightarrow> (SdkError + string) list \<Rightarrow> u64 \<Rightarrow> string
     \<Rightarrow> ('w sdk, u64 \<times> string) sdk_io" where
  "receive tr tracker spec tmp [] size_bytes hashed =
     bindE (stop_if_cancelled tr tracker spec size_bytes) (\<lambda>_.
     bindE (stop_if_cancelled tr tracker spec size_bytes) (\<lambda>_. returnE (size_bytes, hashed)))"
| "receive tr tracker spec tmp (c # cs) size_bytes hashed =
     bindE (stop_if_cancelled tr tracker spec size_bytes) (\<lambda>_.
     bindE (stop_if_cancelled tr tracker spec size_bytes) (\<lambda>_.
     bindE (liftE c) (\<lambda>chunk.
     if 2 ^ 64 \<le> length chunk then throwE (Migration ''HTTP response chunk exceeds u64 size'')
     else bindE (require_some (checked_add size_bytes (of_nat (length chunk))) (Migration ''download size exceeds u64 range'')) (\<lambda>size_bytes.
     bindE (filesystem_call ''write temporary download file'' tmp (write_all tr tmp chunk)) (\<lambda>_.
     bindE (report tr (event tracker spec Downloading size_bytes)) (\<lambda>_.
     receive tr tracker spec tmp cs size_bytes (hashed @ chunk)))))))"

definition stream_to_temporary ::
  "'w MicroVmSdk \<Rightarrow> 'w Transfer \<Rightarrow> DownloadMember \<Rightarrow> ProgressTracker \<Rightarrow> path \<Rightarrow> ('w sdk, FileIntegrity) sdk_io" where
  "stream_to_temporary sdk tr member tracker tmp =
     (let spec = mb_spec member in
      bindE (require_some (path_parent (sp_absolute_path spec))
              (InvalidMetadata (sp_artifact_key spec) ''download target has no parent directory'')) (\<lambda>parent.
      bindE (filesystem_call ''create artifact directory'' parent (create_dir_all tr parent)) (\<lambda>_.
      bindE (filesystem_call ''create temporary download file'' tmp (create_new tr tmp)) (\<lambda>_.
      bindE (on_env (fetch_file tr (sp_registry_url spec))) (\<lambda>response.
      bindE (receive tr tracker spec tmp response 0 []) (\<lambda>(size_bytes, hashed).
      bindE (stop_if_cancelled tr tracker spec size_bytes) (\<lambda>_.
      bindE (filesystem_call ''flush temporary download file'' tmp (flush tr tmp)) (\<lambda>_.
      bindE (filesystem_call ''sync temporary download file'' tmp (sync_all tr tmp)) (\<lambda>_.
      let integrity = \<lparr>fi_size_bytes = size_bytes, fi_sha256 = hex_digest (sha256 sdk hashed)\<rparr> in
      bindE (report tr (event tracker spec Verifying size_bytes)) (\<lambda>_.
      bindE (liftE (verify_integrity spec integrity)) (\<lambda>_.
      bindE (apply_file_mode tr tmp spec) (\<lambda>_.
      returnE integrity))))))))))))"

text \<open>\<open>let _ = remove_file(path)\<close>.\<close>

definition discard :: "'w MicroVmSdk \<Rightarrow> path \<Rightarrow> ('w sdk, unit) sdk_io" where
  "discard sdk p = bindE (attempt_call (remove_file (files sdk) p)) (\<lambda>_. returnE ())"

definition stream_and_publish ::
  "'w MicroVmSdk \<Rightarrow> 'w Transfer \<Rightarrow> DownloadMember \<Rightarrow> ProgressTracker \<Rightarrow> ('w sdk, FileIntegrity) sdk_io" where
  "stream_and_publish sdk tr member tracker =
     (let spec = mb_spec member in
      bindE (temporary_path sdk tr (sp_artifact_key spec)) (\<lambda>tmp.
      bindE (attemptE (stream_to_temporary sdk tr member tracker tmp)) (\<lambda>r.
      case r of
        Inl e \<Rightarrow> bindE (discard sdk tmp) (\<lambda>_. throwE e)
      | Inr integrity \<Rightarrow>
          bindE (cancelled tr) (\<lambda>b.
          if b then bindE (discard sdk tmp) (\<lambda>_.
                    bindE (report tr (event tracker spec CancelledPhase (fi_size_bytes integrity))) (\<lambda>_. throwE Cancelled))
          else bindE (attempt_call (rename tr tmp (sp_absolute_path spec))) (\<lambda>moved.
               case moved of
                 Inl e \<Rightarrow> bindE (discard sdk tmp) (\<lambda>_.
                   throwE (Filesystem ''atomically publish downloaded file'' (sp_absolute_path spec) e))
               | Inr _ \<Rightarrow> returnE integrity)))))"

section \<open>One member\<close>

definition remove_invalid_target_if_exists :: "'w MicroVmSdk \<Rightarrow> path \<Rightarrow> ('w sdk, unit) sdk_io" where
  "remove_invalid_target_if_exists sdk p =
     bindE (attempt_call (symlink_metadata (files sdk) p)) (\<lambda>r.
     case r of
       Inl e \<Rightarrow> if io_kind e = NotFoundKind then returnE ()
               else throwE (Filesystem ''inspect invalid artifact target'' p e)
     | Inr m \<Rightarrow> filesystem_call ''remove invalid artifact target'' p
                 (if md_is_dir m then remove_dir_all (files sdk) p else remove_file (files sdk) p))"

definition persist_member :: "'w MicroVmSdk \<Rightarrow> DownloadMember \<Rightarrow> FileIntegrity \<Rightarrow> ('w sdk, unit) sdk_io" where
  "persist_member sdk member integrity =
     repository_stamped sdk (\<lambda>now.
       case mb_logical member of
         KernelMember kern \<Rightarrow> persist_kernel now kern (mb_spec member) integrity
       | BinaryMember package f \<Rightarrow> persist_binary_file now package f (mb_spec member) integrity
       | ImageMember distribution img kernels \<Rightarrow>
           persist_distribution_image now distribution img kernels (mb_spec member) integrity)"

definition replace_member ::
  "'w MicroVmSdk \<Rightarrow> 'w Transfer \<Rightarrow> DownloadMember \<Rightarrow> ProgressTracker \<Rightarrow> ('w sdk, DownloadedFile \<times> ProgressTracker) sdk_io" where
  "replace_member sdk tr member tracker =
     (let spec = mb_spec member in
      bindE (stop_if_cancelled tr tracker spec 0) (\<lambda>_.
      bindE (repository_write sdk (remove_member spec)) (\<lambda>_.
      bindE (remove_invalid_target_if_exists sdk (sp_absolute_path spec)) (\<lambda>_.
      bindE (stream_and_publish sdk tr member tracker) (\<lambda>integrity.
      bindE (persist_member sdk member integrity) (\<lambda>_.
      bindE (report tr (event tracker spec Completed (fi_size_bytes integrity))) (\<lambda>_.
      returnE (downloaded_file member integrity Downloaded, commit_member (fi_size_bytes integrity) tracker))))))))"

text \<open>The reuse of a kernel or an image that the inventory records: only the size of its file is looked at.\<close>

definition reuse_recorded ::
  "'w MicroVmSdk \<Rightarrow> 'w Transfer \<Rightarrow> DownloadMember \<Rightarrow> ProgressTracker \<Rightarrow> ('w sdk, DownloadedFile \<times> ProgressTracker) sdk_io" where
  "reuse_recorded sdk tr member tracker =
     (let spec = mb_spec member; target = sp_absolute_path spec in
      bindE (attempt_call (symlink_metadata (files sdk) target)) (\<lambda>r.
      case r of
        Inl e \<Rightarrow> if io_kind e = NotFoundKind then replace_member sdk tr member tracker
                else throwE (Filesystem ''inspect artifact file'' target e)
      | Inr m \<Rightarrow>
          if md_is_symlink m \<or> \<not> md_is_file m then replace_member sdk tr member tracker
          else if md_len m \<noteq> sp_expected_size spec then replace_member sdk tr member tracker
          else bindE (report tr (event tracker spec SkippedPhase 0)) (\<lambda>_.
               returnE (downloaded_file member
                 \<lparr>fi_size_bytes = sp_expected_size spec, fi_sha256 = sp_expected_sha256 spec\<rparr> SkippedExisting, tracker))))"

text \<open>The hash of a file that is adopted without one.\<close>

definition adoption_integrity :: "'w MicroVmSdk \<Rightarrow> DownloadSpec \<Rightarrow> ('w sdk, FileIntegrity) sdk_io" where
  "adoption_integrity sdk spec =
     (let target = sp_absolute_path spec in
      bindE (filesystem_call ''inspect artifact file'' target (symlink_metadata (files sdk) target)) (\<lambda>m.
      bindE (if \<not> md_is_symlink m \<and> md_is_file m then calculate_file_integrity sdk target else returnE None) (\<lambda>i.
      require_some (case i of None \<Rightarrow> None
          | Some i \<Rightarrow> if fi_size_bytes i = sp_expected_size spec \<and> fi_sha256 i = sp_expected_sha256 spec then Some i else None)
        (Migration (''cache adoption has no physical file for '' @ sp_artifact_key spec)))))"

definition download_member ::
  "'w MicroVmSdk \<Rightarrow> 'w Transfer \<Rightarrow> DownloadMember \<Rightarrow> ProgressTracker \<Rightarrow> ('w sdk, DownloadedFile \<times> ProgressTracker) sdk_io" where
  "download_member sdk tr member tracker =
     (let spec = mb_spec member; hash_first = (sp_artifact_kind spec = BinaryKind) in
      bindE (stop_if_cancelled tr tracker spec 0) (\<lambda>_.
      bindE (on_env (target_lock sdk (sp_absolute_path spec))) (\<lambda>_.
      bindE (stop_if_cancelled tr tracker spec 0) (\<lambda>_.
      bindE (repository_read sdk (\<lambda>db. inspect_member spec None (db_artifacts db))) (\<lambda>state.
      bindE (if hash_first \<or> state = Missing \<or> state = Incomplete
             then calculate_file_integrity sdk (sp_absolute_path spec) else returnE None) (\<lambda>physical.
      bindE (stop_if_cancelled tr tracker spec 0) (\<lambda>_.
      case decide_cache spec physical state of
        Skip \<Rightarrow>
          if hash_first then
            bindE (require_some physical
                    (Migration (''complete inventory has no physical file for '' @ sp_artifact_key spec))) (\<lambda>integrity.
            bindE (report tr (event tracker spec SkippedPhase 0)) (\<lambda>_.
            returnE (downloaded_file member integrity SkippedExisting, tracker)))
          else (case physical of
              Some i \<Rightarrow>
                if fi_size_bytes i \<noteq> sp_expected_size spec \<or> fi_sha256 i \<noteq> sp_expected_sha256 spec
                then replace_member sdk tr member tracker
                else reuse_recorded sdk tr member tracker
            | None \<Rightarrow> reuse_recorded sdk tr member tracker)
      | Adopt \<Rightarrow>
          bindE (case physical of Some i \<Rightarrow> returnE i | None \<Rightarrow> adoption_integrity sdk spec) (\<lambda>integrity.
          bindE (persist_member sdk member integrity) (\<lambda>_.
          bindE (report tr (event tracker spec AdoptedPhase 0)) (\<lambda>_.
          returnE (downloaded_file member integrity AdoptedExisting, tracker))))
      | Replace \<Rightarrow> replace_member sdk tr member tracker)))))))"

fun download_members ::
  "'w MicroVmSdk \<Rightarrow> 'w Transfer \<Rightarrow> DownloadMember list \<Rightarrow> ProgressTracker \<Rightarrow> ('w sdk, DownloadedFile list) sdk_io" where
  "download_members sdk tr [] tracker = returnE []"
| "download_members sdk tr (m # ms) tracker =
     bindE (download_member sdk tr m tracker) (\<lambda>(f, tracker).
     bindE (download_members sdk tr ms tracker) (\<lambda>fs. returnE (f # fs)))"

section \<open>Public operations\<close>

definition list_kernels :: "'w MicroVmSdk \<Rightarrow> ('w sdk, Kernel list) sdk_io" where
  "list_kernels sdk = bindE (on_env (fetch_manifest sdk)) (\<lambda>m. returnE (reg_kernels m))"

definition list_binaries :: "'w MicroVmSdk \<Rightarrow> ('w sdk, BinaryPackage list) sdk_io" where
  "list_binaries sdk = bindE (on_env (fetch_manifest sdk)) (\<lambda>m. returnE (reg_binaries m))"

definition list_distributions :: "'w MicroVmSdk \<Rightarrow> ('w sdk, Distribution list) sdk_io" where
  "list_distributions sdk = bindE (on_env (fetch_manifest sdk)) (\<lambda>m. returnE (reg_distributions m))"

definition download_kernel_with_cancellation ::
  "'w MicroVmSdk \<Rightarrow> 'w Transfer \<Rightarrow> string \<Rightarrow> ('w sdk, DownloadedKernel) sdk_io" where
  "download_kernel_with_cancellation sdk tr kernel_id =
     bindE (liftE (validate_safe_component kernel_id ''kernel'')) (\<lambda>_.
     bindE (on_env (fetch_manifest sdk)) (\<lambda>manifest.
     bindE (require_some (find (\<lambda>k. k_id k = kernel_id) (reg_kernels manifest)) (NotFound ''kernel'' kernel_id)) (\<lambda>kern.
     bindE (liftE (kernel_member sdk kern)) (\<lambda>member.
     bindE (download_member sdk tr member (new_tracker (sp_expected_size (mb_spec member)))) (\<lambda>(f, _).
     returnE \<lparr>dk_kernel = kern, dk_file = f\<rparr>)))))"

definition download_binary_with_cancellation ::
  "'w MicroVmSdk \<Rightarrow> 'w Transfer \<Rightarrow> string \<Rightarrow> ('w sdk, DownloadedBinary) sdk_io" where
  "download_binary_with_cancellation sdk tr binary_id =
     bindE (liftE (validate_safe_component binary_id ''binary package'')) (\<lambda>_.
     bindE (on_env (fetch_manifest sdk)) (\<lambda>manifest.
     bindE (require_some (find (\<lambda>p. bp_id p = binary_id) (reg_binaries manifest)) (NotFound ''binary package'' binary_id)) (\<lambda>package.
     bindE (liftE (mapR (binary_member sdk package) (bp_files package))) (\<lambda>members.
     bindE (liftE (total_size members binary_id 0)) (\<lambda>aggregate.
     bindE (download_members sdk tr members (new_tracker aggregate)) (\<lambda>fs.
     returnE \<lparr>db_binary = package, db_files = fs\<rparr>))))))"

definition download_distribution_with_cancellation ::
  "'w MicroVmSdk \<Rightarrow> 'w Transfer \<Rightarrow> string \<Rightarrow> ('w sdk, DownloadedDistribution) sdk_io" where
  "download_distribution_with_cancellation sdk tr distribution_id =
     bindE (liftE (validate_safe_component distribution_id ''distribution'')) (\<lambda>_.
     bindE (on_env (fetch_manifest sdk)) (\<lambda>manifest.
     bindE (liftE (find_distribution distribution_id manifest)) (\<lambda>d.
     bindE (liftE (mapR (\<lambda>img. distribution_image_member sdk d img (reg_kernels manifest)) (d_images d))) (\<lambda>members.
     bindE (liftE (total_size members distribution_id 0)) (\<lambda>aggregate.
     bindE (download_members sdk tr members (new_tracker aggregate)) (\<lambda>fs.
     returnE \<lparr>dd_distribution = d, dd_images = fs\<rparr>))))))"

definition find_image :: "string \<Rightarrow> Distribution \<Rightarrow> DistributionImage result" where
  "find_image image_id d = ok_or (find (\<lambda>m. di_id m = image_id) (d_images d)) (NotFound ''distribution image'' image_id)"

definition download_distribution_image_with_cancellation ::
  "'w MicroVmSdk \<Rightarrow> 'w Transfer \<Rightarrow> string \<Rightarrow> string \<Rightarrow> ('w sdk, DownloadedDistributionImage) sdk_io" where
  "download_distribution_image_with_cancellation sdk tr distribution_id image_id =
     bindE (liftE (validate_safe_component distribution_id ''distribution'')) (\<lambda>_.
     bindE (liftE (validate_safe_component image_id ''distribution image'')) (\<lambda>_.
     bindE (on_env (fetch_manifest sdk)) (\<lambda>manifest.
     bindE (liftE (find_distribution distribution_id manifest)) (\<lambda>d.
     bindE (liftE (find_image image_id d)) (\<lambda>img.
     bindE (liftE (distribution_image_member sdk d img (reg_kernels manifest))) (\<lambda>member.
     bindE (download_member sdk tr member (new_tracker (sp_expected_size (mb_spec member)))) (\<lambda>(f, _).
     returnE \<lparr>dm_distribution = d, dm_image = img, dm_file = f\<rparr>)))))))"

definition list_present_distribution_images :: "'w MicroVmSdk \<Rightarrow> ('w sdk, (string \<times> string) list) sdk_io" where
  "list_present_distribution_images sdk = repository_read sdk (\<lambda>db. Inr (list_ready_distribution_images (db_artifacts db)))"

definition is_distribution_image_ready :: "'w MicroVmSdk \<Rightarrow> string \<Rightarrow> string \<Rightarrow> ('w sdk, bool) sdk_io" where
  "is_distribution_image_ready sdk distribution_id image_id =
     bindE (liftE (validate_safe_component distribution_id ''distribution'')) (\<lambda>_.
     bindE (liftE (validate_safe_component image_id ''distribution image'')) (\<lambda>_.
     bindE (on_env (fetch_manifest sdk)) (\<lambda>manifest.
     bindE (liftE (find_distribution distribution_id manifest)) (\<lambda>d.
     bindE (liftE (find_image image_id d)) (\<lambda>img.
     bindE (attemptE (repository_read sdk (\<lambda>db. resolve_distribution_image (d_id d) (di_id img) (db_artifacts db)))) (\<lambda>r.
     case r of
       Inl (NotFound k i) \<Rightarrow> returnE False
     | Inl (ArtifactPrerequisite k i p reason) \<Rightarrow> returnE False
     | Inl e \<Rightarrow> throwE e
     | Inr local \<Rightarrow>
         if \<not> path_is_below_home (home sdk) (la_path local)
            \<or> la_size_bytes local \<noteq> di_size_bytes img \<or> la_sha256 local \<noteq> di_sha256 img
         then returnE False
         else bindE (calculate_file_integrity sdk (la_path local)) (\<lambda>i.
              returnE (case i of None \<Rightarrow> False
                | Some i \<Rightarrow> fi_size_bytes i = di_size_bytes img \<and> fi_sha256 i = di_sha256 img))))))))"

end
