(* ===== verification/Demo_Store.thy ===== *)
theory Demo_Store
  imports Manager_Download Demo_Host
begin

text \<open>
  A host whose environment is the contents of its files, on which every call succeeds, and a registry that serves
  the kernel of Artifact_Contract in two chunks: the instance of the properties of downloads.
\<close>

type_synonym store = "path \<Rightarrow> string option"

definition store_files :: "store file_system" where
  "store_files =
     (let stat = (\<lambda>p F. case F p of
        None \<Rightarrow> (Inl \<lparr>io_kind = NotFoundKind, io_text = ''not found''\<rparr>, F)
      | Some b \<Rightarrow> (Inr \<lparr>md_is_symlink = False, md_is_file = True, md_is_dir = False, md_len = of_nat (length b), md_mode = 420\<rparr>, F)) in
      \<lparr>symlink_metadata = stat, metadata_of = stat, open_file = (\<lambda>_. returnE ()),
       read_file = (\<lambda>p F. case F p of None \<Rightarrow> (Inl \<lparr>io_kind = NotFoundKind, io_text = ''not found''\<rparr>, F) | Some b \<Rightarrow> (Inr b, F)),
       remove_file = (\<lambda>p F. (Inr (), F(p := None))), read_dir = (\<lambda>_. returnE []), remove_dir = (\<lambda>_. returnE ()),
       remove_dir_all = (\<lambda>p F. (Inr (), \<lambda>q. if prefix p q then None else F q))\<rparr>)"

definition store_sdk :: "store MicroVmSdk" where
  "store_sdk =
     \<lparr>home = [RootDir, Normal ''h''],
      runtime = \<lparr>validate_host = returnE (), verify_stopped = (\<lambda>_. returnE ()), process_references_vm = (\<lambda>_ _ _ _. returnE False),
        socket_answers = (\<lambda>_. returnE False), launch_detached = (\<lambda>_. returnE 7), wait_for_socket = (\<lambda>_. returnE True),
        request_shutdown = (\<lambda>_. returnE True), wait_for_stop = (\<lambda>_ _ _ _ _. returnE True), terminate_spawned = (\<lambda>_. returnE ())\<rparr>,
      runtime_disk = \<lparr>ensure_mapping = (\<lambda>_ _. returnE), release_mapping = (\<lambda>_ _ _. returnE ())\<rparr>,
      network = \<lparr>configure_port = (\<lambda>_ _ _ _. returnE \<lparr>no_persisted = demo_network, no_applied = [], no_skipped = []\<rparr>),
         cleanup_port = (\<lambda>_. returnE ()), cleanup_for_delete_port = (\<lambda>_. returnE ())\<rparr>,
      storage = \<lparr>prepare_rootfs = (\<lambda>_ volume _ _. returnE \<lparr>rf_path = in_volume volume ''rootfs.ext4'', rf_created_volume = True\<rparr>),
        inject_public_key = (\<lambda>_ _. returnE ()), write_guest_network_config = (\<lambda>_ _ _. returnE ()),
        write_guest_lan_config = (\<lambda>_ _ _ _. returnE ()), disk_used_bytes = (\<lambda>_. returnE 1), resize_rootfs = (\<lambda>_ _. returnE ())\<rparr>,
      files = store_files, fetch_manifest = returnE demo_manifest, generate_credential = (\<lambda>p. returnE (demo_generated p)),
      target_lock = (\<lambda>_. returnE True), open_connection = returnE (), unix_timestamp = returnE 1,
      acquire_lifecycle_lock = (\<lambda>_ _. returnE ()), sha256 = zero_hash, version_valid = (\<lambda>_. True), version_less = (\<lambda>_ _. False),
      ARCH = ''x86_64'', sleep = (\<lambda>_ F. F), autostart_retry_backoff = 5\<rparr>"

definition store_transfer :: "store Transfer" where
  "store_transfer =
     \<lparr>is_cancelled = (\<lambda>F. (False, F)), on_progress = (\<lambda>_ F. F), fetch_file = (\<lambda>_. returnE [Inr ''ab'', Inr ''c'']),
      as_nanos = returnE 1, fetch_add = (\<lambda>F. (0, F)), create_dir_all = (\<lambda>_. returnE ()),
      create_new = (\<lambda>p F. (Inr (), F(p := Some []))),
      write_all = (\<lambda>p b F. (Inr (), F(p := Some ((case F p of None \<Rightarrow> [] | Some old \<Rightarrow> old) @ b)))),
      flush = (\<lambda>_. returnE ()), sync_all = (\<lambda>_. returnE ()), set_permissions = (\<lambda>_ _. returnE ()),
      rename = (\<lambda>p q F. (Inr (), F(q := F p, p := None)))\<rparr>"

text \<open>A kernel of three bytes; every digest of this host is the one of its manifest.\<close>

definition small_kernel :: Kernel where
  "small_kernel = demo_kernel\<lparr>k_size_bytes := 3\<rparr>"

definition small_member :: DownloadMember where
  "small_member =
     \<lparr>mb_spec = \<lparr>sp_artifact_kind = KernelKind, sp_artifact_id = ''k'', sp_member_name = None, sp_artifact_key = ''kernel:k'',
        sp_registry_path = ''k'', sp_registry_url = [], sp_filename = ''k'', sp_expected_size = 3, sp_expected_sha256 = demo_digest,
        sp_executable = False, sp_mode = None, sp_relative_path = map Normal [''artifacts'', ''kernels'', ''k'', ''k''],
        sp_absolute_path = [RootDir, Normal ''h'', Normal ''artifacts'', Normal ''kernels'', Normal ''k'', Normal ''k'']\<rparr>,
      mb_logical = KernelMember small_kernel\<rparr>"

lemma small_member: "kernel_member store_sdk small_kernel = Inr small_member"
proof -
  have "validate_registry_path ''k''" "path_of [''artifacts'', ''kernels'', ''k'', ''k''] = map Normal [''artifacts'', ''kernels'', ''k'', ''k'']"
    by code_simp+
  then show ?thesis
    by (simp add: kernel_member_def small_kernel_def demo_kernel_def store_sdk_def make_download_spec_def Let_def validate_safe_component_def
        demo_digest_valid is_absolute_def is_Normal_def path_is_below_home_def path_starts_with_def path_join_def small_member_def)
qed

abbreviation small_target :: path where
  "small_target \<equiv> [RootDir, Normal ''h'', Normal ''artifacts'', Normal ''kernels'', Normal ''k'', Normal ''k'']"

lemma small_parts [simp]:
  "sp_absolute_path (mb_spec small_member) = small_target" "sp_expected_size (mb_spec small_member) = 3"
  "sp_expected_sha256 (mb_spec small_member) = demo_digest" "sp_artifact_kind (mb_spec small_member) = KernelKind"
  "sp_artifact_key (mb_spec small_member) = ''kernel:k''" "sp_mode (mb_spec small_member) = None"
  "sp_executable (mb_spec small_member) = False" "mb_logical small_member = KernelMember small_kernel"
  "sp_artifact_id (mb_spec small_member) = ''k''"
  by (simp_all add: small_member_def)

lemma store_ports [simp]:
  "home store_sdk = [RootDir, Normal ''h'']" "files store_sdk = store_files" "target_lock store_sdk p = returnE True"
  "open_connection store_sdk = returnE ()" "unix_timestamp store_sdk = returnE 1" "sha256 store_sdk = zero_hash"
  "symlink_metadata store_files p F = (case F p of
        None \<Rightarrow> (Inl \<lparr>io_kind = NotFoundKind, io_text = ''not found''\<rparr>, F)
      | Some b \<Rightarrow> (Inr \<lparr>md_is_symlink = False, md_is_file = True, md_is_dir = False, md_len = of_nat (length b), md_mode = 420\<rparr>, F))"
  "open_file store_files p = returnE ()" "remove_file store_files p F = (Inr (), F(p := None))"
  "read_file store_files p F = (case F p of None \<Rightarrow> (Inl \<lparr>io_kind = NotFoundKind, io_text = ''not found''\<rparr>, F) | Some b \<Rightarrow> (Inr b, F))"
  "remove_dir_all store_files p F = (Inr (), \<lambda>q. if prefix p q then None else F q)"
  by (simp_all add: store_sdk_def store_files_def Let_def)

lemma transfer_ports [simp]:
  "is_cancelled store_transfer F = (False, F)" "on_progress store_transfer e F = F" "fetch_file store_transfer url = returnE [Inr ''ab'', Inr ''c'']"
  "as_nanos store_transfer = returnE 1" "fetch_add store_transfer F = (0, F)" "create_dir_all store_transfer p = returnE ()"
  "create_new store_transfer p F = (Inr (), F(p := Some []))"
  "write_all store_transfer p b F = (Inr (), F(p := Some ((case F p of None \<Rightarrow> [] | Some old \<Rightarrow> old) @ b)))"
  "flush store_transfer p = returnE ()" "sync_all store_transfer p = returnE ()" "set_permissions store_transfer p mode = returnE ()"
  "rename store_transfer p q F = (Inr (), F(q := F p, p := None))"
  by (simp_all add: store_transfer_def)

lemma small_persist:
  "persist_kernel (Inr 1) small_kernel (mb_spec small_member) \<lparr>fi_size_bytes = 3, fi_sha256 = demo_digest\<rparr> empty_db
   = (Inr (), empty_db\<lparr>db_artifacts := empty_artifacts\<lparr>
        ad_downloads := [download_row (mb_spec small_member) \<lparr>fi_size_bytes = 3, fi_sha256 = demo_digest\<rparr> 1 3 3],
        ad_kernels := [kernel_row 1 (Some 1) small_kernel 3], ad_next_download := 2, ad_next_kernel := 2\<rparr>\<rparr>)"
  by (simp add: persist_kernel_def on_artifacts_def run_update_def artifact_run empty_db_def empty_artifacts_def small_kernel_def
      download_row_sha demo_digest_valid)

lemma small_download:
  "\<exists>t s'. download_member store_sdk store_transfer small_member (new_tracker 3) \<lparr>sd_db = empty_db, sd_env = \<lambda>_. None\<rparr>
     = (Inr (downloaded_file small_member \<lparr>fi_size_bytes = 3, fi_sha256 = demo_digest\<rparr> Downloaded, t), s')"
proof -
  have tmp: "\<exists>n. \<forall>s. temporary_path store_sdk store_transfer key s = (Inr [RootDir, Normal ''h'', Normal ''tmp'', Normal n], s)" for key
    by (auto simp: temporary_path_def bindE_def path_join_def is_absolute_def on_env_def)
  have remove: "remove_member (mb_spec small_member) empty_db = (Inr (), empty_db)"
    by (simp add: remove_member_def on_artifacts_def run_update_def remove_member_transaction_def artifact_run find_kernel_row_def
        empty_db_def empty_artifacts_def delete_downloads_def)
  have add: "checked_add (0 :: u64) 2 = Some 2" "checked_add (2 :: u64) 1 = Some 3" by (simp_all add: checked_add_def)
  have inspect: "inspect_member (mb_spec small_member) None (db_artifacts empty_db) = Inr Missing"
    by (simp add: inspect_member_def empty_db_def empty_artifacts_def)
  obtain n where n: "\<And>s. temporary_path store_sdk store_transfer ''kernel:k'' s = (Inr [RootDir, Normal ''h'', Normal ''tmp'', Normal n], s)"
    using tmp by blast
  have stop: "stop_if_cancelled store_transfer tracker spec k s = (Inr (), s)" for tracker spec k s
    by (simp add: stop_if_cancelled_def cancelled_def bindE_def on_env_def)
  show ?thesis
    by (simp add: download_member_def Let_def bindE_def stop repository_read_def inspect calculate_file_integrity_def attempt_call_def
        decide_cache_def replace_member_def repository_write_def remove remove_invalid_target_if_exists_def stream_and_publish_def n
        attemptE_def stream_to_temporary_def require_some_def path_parent_def filesystem_call_def report_def add verify_integrity_def
        demo_digest_zero apply_file_mode_def cancelled_def persist_member_def repository_stamped_def small_persist)
qed

end
