(* ===== verification/Download_Files.thy ===== *)
theory Download_Files
  imports Manager_Download Prune_Safety Demo_Store
begin

text \<open>
  What a download does to files. The contents of the regular files are observed through a function \<open>content\<close> of
  the environment, and \<open>store_laws\<close> states the documented behaviour of the calls on them; every call may fail. The
  triples \<open>fileT\<close> follow the contents through a download: a file is published only after all of its bytes were
  written, counted and hashed.
\<close>

section \<open>Members of the manifest\<close>

text \<open>The members that the operations build.\<close>

definition member_of :: "'w MicroVmSdk \<Rightarrow> DownloadMember \<Rightarrow> bool" where
  "member_of sdk member \<longleftrightarrow> (\<exists>k. kernel_member sdk k = Inr member) \<or> (\<exists>p f. binary_member sdk p f = Inr member)
     \<or> (\<exists>d i ks. distribution_image_member sdk d i ks = Inr member)"

lemma make_download_spec_Inr:
  "make_download_spec h input = Inr spec \<Longrightarrow> spec = input\<lparr>sp_absolute_path := path_join h (sp_relative_path input)\<rparr>
     \<and> list_all is_Normal (sp_relative_path input) \<and> is_valid_sha256 (sp_expected_sha256 input)"
  by (auto simp: make_download_spec_def Let_def bindR_Inr split: if_splits)

lemma safe_component_plain: "validate_safe_component s kind = Inr () \<Longrightarrow> plain_name s"
  by (auto simp: validate_safe_component_def plain_name_def split: if_splits)

lemma make_download_spec_safe:
  assumes "make_download_spec h input = Inr spec"
  shows "plain_name (sp_artifact_id input)" "plain_name (sp_filename input)" "sp_member_name input = Some m \<Longrightarrow> plain_name m"
  using assms by (auto simp: make_download_spec_def Let_def bindR_Inr safe_component_plain split: if_splits option.splits)

lemma path_of_plain: "list_all plain_name parts \<Longrightarrow> path_of parts = map Normal parts"
proof (induction parts rule: rev_induct)
  case (snoc x xs)
  then show ?case
    by (cases xs) (simp_all add: path_of_def path_join_def is_absolute_def components_plain_name)
qed (simp add: path_of_def)

lemma plain_directories [simp]: "plain_name ''artifacts''" "plain_name ''kernels''" "plain_name ''tools''" "plain_name ''rootfs''"
  by (simp_all add: plain_name_def)

text \<open>The target of a member is below \<open>artifacts\<close> or \<open>tools\<close> of the home, and so is no temporary file.\<close>

lemma path_join_Normal: "path_join h (Normal x # q) = h @ Normal x # q"
  by (simp add: path_join_def is_absolute_def)

lemma kernel_member_Inr:
  assumes "kernel_member sdk k = Inr member"
  shows "mb_logical member = KernelMember k \<and> sp_artifact_kind (mb_spec member) = KernelKind \<and> sp_artifact_id (mb_spec member) = k_id k
    \<and> sp_absolute_path (mb_spec member) = home sdk @ map Normal [''artifacts'', ''kernels'', k_id k, k_filename k]"
  using assms
  by (auto simp: kernel_member_def bindR_Inr)
    (frule make_download_spec_Inr, frule make_download_spec_safe(1), frule make_download_spec_safe(2), simp add: path_of_plain path_join_Normal)+

lemma binary_member_Inr:
  assumes "binary_member sdk p f = Inr member"
  shows "mb_logical member = BinaryMember p f \<and> sp_artifact_kind (mb_spec member) = BinaryKind \<and> sp_artifact_id (mb_spec member) = bp_id p
    \<and> sp_member_name (mb_spec member) = Some (bf_name f)
    \<and> sp_absolute_path (mb_spec member) = home sdk @ map Normal [''tools'', bp_id p, bf_name f, bf_filename f]"
  using assms
  by (auto simp: binary_member_def bindR_Inr)
    (frule make_download_spec_Inr, frule make_download_spec_safe(1), frule make_download_spec_safe(2),
     frule make_download_spec_safe(3), simp, simp add: path_of_plain path_join_Normal)+

lemma image_member_Inr:
  assumes "distribution_image_member sdk d i ks = Inr member"
  shows "mb_logical member = ImageMember d i ks \<and> sp_artifact_kind (mb_spec member) = DistributionImageKind
    \<and> sp_artifact_id (mb_spec member) = d_id d \<and> sp_member_name (mb_spec member) = Some (di_id i)
    \<and> sp_absolute_path (mb_spec member) = home sdk @ map Normal [''artifacts'', ''rootfs'', d_id d, di_id i, di_filename i]"
  using assms
  by (auto simp: distribution_image_member_def bindR_Inr)
    (frule make_download_spec_Inr, frule make_download_spec_safe(1), frule make_download_spec_safe(2),
     frule make_download_spec_safe(3), simp, simp add: path_of_plain path_join_Normal)+

lemma member_target:
  assumes "member_of sdk member"
  shows "\<exists>dir q. sp_absolute_path (mb_spec member) = home sdk @ Normal dir # q \<and> dir \<in> {''artifacts'', ''tools''}"
  using assms unfolding member_of_def
  by (auto dest!: kernel_member_Inr binary_member_Inr image_member_Inr)

section \<open>The contents of files\<close>

definition silent :: "('w \<Rightarrow> 'c) \<Rightarrow> ('e, 'w, 'a) io \<Rightarrow> bool" where
  "silent content m \<longleftrightarrow> (\<forall>w r w'. m w = (r, w') \<longrightarrow> content w' = content w)"

text \<open>The calls that leave the contents alone.\<close>

definition silent_ports :: "'w MicroVmSdk \<Rightarrow> 'w Transfer \<Rightarrow> ('w \<Rightarrow> 'c) \<Rightarrow> bool" where
  "silent_ports sdk tr content \<longleftrightarrow>
     silent content (open_connection sdk) \<and> silent content (unix_timestamp sdk) \<and> silent content (as_nanos tr)
     \<and> (\<forall>p. silent content (target_lock sdk p) \<and> silent content (symlink_metadata (files sdk) p) \<and> silent content (open_file (files sdk) p)
          \<and> silent content (create_dir_all tr p) \<and> silent content (flush tr p) \<and> silent content (sync_all tr p))
     \<and> (\<forall>p mode. silent content (set_permissions tr p mode)) \<and> (\<forall>url. silent content (fetch_file tr url))
     \<and> (\<forall>w. content (snd (is_cancelled tr w)) = content w \<and> content (snd (fetch_add tr w)) = content w)
     \<and> (\<forall>e w. content (on_progress tr e w) = content w)"

text \<open>The documented behaviour of the calls that read or change the contents.\<close>

definition store_laws :: "'w MicroVmSdk \<Rightarrow> 'w Transfer \<Rightarrow> ('w \<Rightarrow> path \<Rightarrow> string option) \<Rightarrow> bool" where
  "store_laws sdk tr content \<longleftrightarrow> silent_ports sdk tr content
     \<and> (\<forall>p w r w'. read_file (files sdk) p w = (r, w') \<longrightarrow> content w' = content w \<and> (\<forall>b. r = Inr b \<longrightarrow> content w p = Some b))
     \<and> (\<forall>p w r w'. remove_file (files sdk) p w = (r, w') \<longrightarrow> content w' = content w \<or> content w' = (content w)(p := None))
     \<and> (\<forall>p w r w' q. remove_dir_all (files sdk) p w = (r, w') \<longrightarrow> content w' q = content w q \<or> prefix p q \<and> content w' q = None)
     \<and> (\<forall>p w r w'. create_new tr p w = (r, w') \<longrightarrow> content w' = (if isl r then content w else (content w)(p := Some [])))
     \<and> (\<forall>p b w r w'. write_all tr p b w = (r, w') \<longrightarrow> (\<forall>q. q \<noteq> p \<longrightarrow> content w' q = content w q)
          \<and> (\<forall>old. \<not> isl r \<longrightarrow> content w p = Some old \<longrightarrow> content w' p = Some (old @ b)))
     \<and> (\<forall>p q w r w'. rename tr p q w = (r, w') \<longrightarrow>
          content w' = (if isl r then content w else (content w)(q := content w p, p := None)))"

definition verified :: "'w MicroVmSdk \<Rightarrow> DownloadSpec \<Rightarrow> string \<Rightarrow> bool" where
  "verified sdk spec bytes \<longleftrightarrow> length bytes = unat (sp_expected_size spec) \<and> hex_digest (sha256 sdk bytes) = sp_expected_sha256 spec"

text \<open>Triples on the contents, with one condition for every failure.\<close>

definition fileT ::
  "('w \<Rightarrow> 'c) \<Rightarrow> ('c \<Rightarrow> bool) \<Rightarrow> ('c \<Rightarrow> bool) \<Rightarrow> ('w sdk, 'a) sdk_io \<Rightarrow> ('a \<Rightarrow> 'c \<Rightarrow> bool) \<Rightarrow> bool" where
  "fileT content I P m Q \<longleftrightarrow> (\<forall>s r s'. P (content (sd_env s)) \<longrightarrow> m s = (r, s') \<longrightarrow>
     (case r of Inl e \<Rightarrow> I (content (sd_env s')) | Inr x \<Rightarrow> Q x (content (sd_env s'))))"

lemma fileT_Inr: "fileT content I P m Q \<Longrightarrow> P (content (sd_env s)) \<Longrightarrow> m s = (Inr x, s') \<Longrightarrow> Q x (content (sd_env s'))"
  and fileT_Inl: "fileT content I P m Q \<Longrightarrow> P (content (sd_env s)) \<Longrightarrow> m s = (Inl e, s') \<Longrightarrow> I (content (sd_env s'))"
  unfolding fileT_def by (metis sum.case(2)) (metis sum.case(1))

lemma fileTI:
  assumes "\<And>s x s'. P (content (sd_env s)) \<Longrightarrow> m s = (Inr x, s') \<Longrightarrow> Q x (content (sd_env s'))"
    and "\<And>s e s'. P (content (sd_env s)) \<Longrightarrow> m s = (Inl e, s') \<Longrightarrow> I (content (sd_env s'))"
  shows "fileT content I P m Q"
  unfolding fileT_def using assms by (simp split: sum.split)

lemma fileT_bind:
  assumes "fileT content I P m R" and "\<And>x. fileT content I (R x) (f x) Q"
  shows "fileT content I P (bindE m f) Q"
  by (rule fileTI) (auto simp: bindE_def split: prod.splits sum.splits dest: fileT_Inr [OF assms(1)] fileT_Inl [OF assms(1)]
      fileT_Inr [OF assms(2)] fileT_Inl [OF assms(2)])

lemma fileT_conseq:
  assumes "fileT content I P' m Q'" "\<And>F. P F \<Longrightarrow> P' F" "\<And>x F. Q' x F \<Longrightarrow> Q x F"
  shows "fileT content I P m Q"
  by (rule fileTI) (use assms in \<open>auto dest: fileT_Inr fileT_Inl\<close>)

lemma fileT_return: "(\<And>F. P F \<Longrightarrow> Q x F) \<Longrightarrow> fileT content I P (returnE x) Q"
  by (auto simp: fileT_def returnE_def)

lemma fileT_throw: "(\<And>F. P F \<Longrightarrow> I F) \<Longrightarrow> fileT content I P (throwE e) Q"
  by (auto simp: fileT_def throwE_def)

lemma fileT_lift: "(\<And>F x. P F \<Longrightarrow> r = Inr x \<Longrightarrow> Q x F) \<Longrightarrow> (\<And>F. P F \<Longrightarrow> I F) \<Longrightarrow> fileT content I P (liftE r) Q"
  by (auto simp: fileT_def liftE_def split: sum.splits)

lemma fileT_lift_bind:
  "(\<And>x. r = Inr x \<Longrightarrow> fileT content I P (f x) Q) \<Longrightarrow> (\<And>F. P F \<Longrightarrow> I F) \<Longrightarrow> fileT content I P (bindE (liftE r) f) Q"
  by (cases r) (auto simp: fileT_def bindE_def liftE_def)

lemma fileT_require:
  "(\<And>x. v = Some x \<Longrightarrow> fileT content I P (f x) Q) \<Longrightarrow> (\<And>F. P F \<Longrightarrow> I F) \<Longrightarrow> fileT content I P (bindE (require_some v e) f) Q"
  unfolding require_some_def by (rule fileT_lift_bind) (auto simp: ok_or_def split: option.splits)

lemma fileT_if: "(b \<Longrightarrow> fileT content I P m Q) \<Longrightarrow> (\<not> b \<Longrightarrow> fileT content I P n Q) \<Longrightarrow> fileT content I P (if b then m else n) Q"
  by simp

lemma fileT_sum:
  "(\<And>e. fileT content I P (f e) Q) \<Longrightarrow> (\<And>x. fileT content I P (g x) Q) \<Longrightarrow> fileT content I P (case r of Inl e \<Rightarrow> f e | Inr x \<Rightarrow> g x) Q"
  by (cases r) simp_all

lemma fileT_attempt:
  assumes "fileT content E P m (\<lambda>x. Q (Inr x))" "\<And>e F. E F \<Longrightarrow> Q (Inl e) F"
  shows "fileT content I P (attemptE m) Q"
proof (rule fileTI)
  fix s x s'
  assume "P (content (sd_env s))" "attemptE m s = (Inr x, s')"
  with assms(2) show "Q x (content (sd_env s'))"
    by (cases x) (auto simp: attemptE_def split: prod.splits dest: fileT_Inr [OF assms(1)] fileT_Inl [OF assms(1)])
qed (auto simp: attemptE_def split: prod.splits)

lemma fileT_env:
  assumes "\<And>w r w'. P (content w) \<Longrightarrow> m w = (r, w') \<Longrightarrow> (case r of Inl e \<Rightarrow> I (content w') | Inr x \<Rightarrow> Q x (content w'))"
  shows "fileT content I P (on_env m) Q"
  by (rule fileTI) (auto simp: on_env_def split: prod.splits dest: assms)

lemma fileT_call:
  assumes "\<And>w r w'. P (content w) \<Longrightarrow> m w = (r, w') \<Longrightarrow> (case r of Inl e \<Rightarrow> I (content w') | Inr x \<Rightarrow> Q x (content w'))"
  shows "fileT content I P (filesystem_call operation p m) Q"
  unfolding filesystem_call_def by (rule fileT_env) (auto split: prod.splits sum.splits dest: assms)

lemma fileT_attempt_call:
  assumes "\<And>w r w'. P (content w) \<Longrightarrow> m w = (r, w') \<Longrightarrow> Q r (content w')"
  shows "fileT content I P (attempt_call m) Q"
  unfolding attempt_call_def by (rule fileT_env) (auto split: prod.splits dest: assms)

text \<open>Effects without an effect on the contents.\<close>

definition calm :: "('w \<Rightarrow> 'c) \<Rightarrow> ('w sdk, 'a) sdk_io \<Rightarrow> bool" where
  "calm content m \<longleftrightarrow> keepsE (\<lambda>s s'. content (sd_env s') = content (sd_env s)) m"

lemma calmD: "calm content m \<Longrightarrow> m s = (r, s') \<Longrightarrow> content (sd_env s') = content (sd_env s)"
  by (auto simp: calm_def dest: keepsED)

lemma fileT_calm:
  assumes "calm content m" "\<And>F x. P F \<Longrightarrow> Q x F" "\<And>F. P F \<Longrightarrow> I F"
  shows "fileT content I P m Q"
  by (rule fileTI) (use assms in \<open>auto simp: calm_def dest: keepsED\<close>)

lemma fileT_step:
  "calm content m \<Longrightarrow> (\<And>F. P F \<Longrightarrow> I F) \<Longrightarrow> (\<And>x. fileT content I P (f x) Q) \<Longrightarrow> fileT content I P (bindE m f) Q"
  by (rule fileT_bind [where R = "\<lambda>_. P"]) (auto intro: fileT_calm)

named_theorems calm_intros

lemma calm_relation: "reflp (\<lambda>s s'. content (sd_env s') = content (sd_env s))" "transp (\<lambda>s s'. content (sd_env s') = content (sd_env s))"
  by (auto intro: reflpI transpI)

lemma calm_basic [calm_intros]:
  "calm content (returnE x)" "calm content (throwE e)" "calm content (liftE r)" "calm content (on_db d)"
  "calm content m \<Longrightarrow> (\<And>x. calm content (f x)) \<Longrightarrow> calm content (bindE m f)"
  "calm content m \<Longrightarrow> calm content (attemptE m)"
  "(b \<Longrightarrow> calm content m) \<Longrightarrow> (\<not> b \<Longrightarrow> calm content n) \<Longrightarrow> calm content (if b then m else n)"
  unfolding calm_def
  by (simp_all add: keepsE_return keepsE_throw keepsE_lift keepsE_bind keepsE_attempt calm_relation)
    (auto simp: keepsE_def on_db_def split: prod.splits)

lemma calm_cases [calm_intros]:
  "(\<And>e. calm content (f e)) \<Longrightarrow> (\<And>x. calm content (g x)) \<Longrightarrow> calm content (case r of Inl e \<Rightarrow> f e | Inr x \<Rightarrow> g x)"
  "calm content m \<Longrightarrow> (\<And>x. calm content (h x)) \<Longrightarrow> calm content (case v of None \<Rightarrow> m | Some x \<Rightarrow> h x)"
  by (cases r; simp) (cases v; simp)

lemma calm_env [calm_intros]: "silent content m \<Longrightarrow> calm content (on_env m)"
  by (auto simp: calm_def silent_def keepsE_def on_env_def split: prod.splits)

lemma calm_files [calm_intros]:
  "silent content m \<Longrightarrow> calm content (filesystem_call operation p m)" "silent content m \<Longrightarrow> calm content (attempt_call m)"
  unfolding filesystem_call_def attempt_call_def
  by (rule calm_env, auto simp: silent_def split: prod.splits sum.splits)+

section \<open>The transfer\<close>

lemma laws_silent:
  assumes "store_laws sdk tr content"
  shows "silent content (open_connection sdk)" "silent content (unix_timestamp sdk)" "silent content (as_nanos tr)"
    "silent content (target_lock sdk p)" "silent content (symlink_metadata (files sdk) p)" "silent content (open_file (files sdk) p)"
    "silent content (create_dir_all tr p)" "silent content (flush tr p)" "silent content (sync_all tr p)"
    "silent content (set_permissions tr p mode)" "silent content (fetch_file tr url)" "silent content (read_file (files sdk) p)"
    "silent content (\<lambda>w. case is_cancelled tr w of (b, w') \<Rightarrow> (Inr b, w'))" "silent content (\<lambda>w. case fetch_add tr w of (n, w') \<Rightarrow> (Inr n, w'))"
    "silent content (\<lambda>w. (Inr (), on_progress tr e w))"
  using assms
  by (auto simp: store_laws_def silent_ports_def silent_def split: prod.splits) (metis snd_conv)+

lemma laws_read: "store_laws sdk tr content \<Longrightarrow> read_file (files sdk) p w = (Inr b, w') \<Longrightarrow> content w p = Some b"
  and laws_remove: "store_laws sdk tr content \<Longrightarrow> remove_file (files sdk) p w = (r, w') \<Longrightarrow>
    content w' = content w \<or> content w' = (content w)(p := None)"
  and laws_remove_dir: "store_laws sdk tr content \<Longrightarrow> remove_dir_all (files sdk) p w = (r', w') \<Longrightarrow>
    content w' q = content w q \<or> prefix p q \<and> content w' q = None"
  and laws_create: "store_laws sdk tr content \<Longrightarrow> create_new tr p w = (r, w') \<Longrightarrow>
    content w' = (if isl r then content w else (content w)(p := Some []))"
  and laws_rename: "store_laws sdk tr content \<Longrightarrow> rename tr p q w = (r, w') \<Longrightarrow>
    content w' = (if isl r then content w else (content w)(q := content w p, p := None))"
  by (simp_all add: store_laws_def)

lemma calm_transfer:
  assumes "store_laws sdk tr content"
  shows "calm content (cancelled tr)" "calm content (report tr e)" "calm content (stop_if_cancelled tr tracker spec n)"
    "calm content (temporary_path sdk tr key)" "calm content (apply_file_mode tr p spec)"
    "calm content (repository_read sdk f)" "calm content (repository_write sdk d)" "calm content (repository_stamped sdk g)"
    "calm content (calculate_file_integrity sdk p)"
  by (auto simp: cancelled_def report_def stop_if_cancelled_def temporary_path_def apply_file_mode_def require_some_def Let_def
      repository_read_def repository_write_def repository_stamped_def calculate_file_integrity_def
      intro!: calm_intros laws_silent [OF assms])

lemma temporary_path_shape: "temporary_path sdk tr key s = (Inr tmp, s') \<Longrightarrow> \<exists>n. tmp = home sdk @ [Normal ''tmp'', Normal n]"
  by (auto simp: temporary_path_def bindE_Inr path_join_def is_absolute_def returnE_def)

text \<open>The condition that a download of \<open>spec\<close> keeps of the contents \<open>F0\<close> it started from: only the target, what is
  below it and the temporary directory differ, and a new content of the target is verified.\<close>

definition outside :: "'w MicroVmSdk \<Rightarrow> DownloadSpec \<Rightarrow> path \<Rightarrow> bool" where
  "outside sdk spec p \<longleftrightarrow> \<not> prefix (sp_absolute_path spec) p \<and> \<not> prefix (home sdk @ [Normal ''tmp'']) p"

definition published :: "'w MicroVmSdk \<Rightarrow> DownloadSpec \<Rightarrow> (path \<Rightarrow> string option) \<Rightarrow> bool" where
  "published sdk spec F \<longleftrightarrow> (\<exists>bytes. F (sp_absolute_path spec) = Some bytes \<and> verified sdk spec bytes)"

definition safe_files :: "'w MicroVmSdk \<Rightarrow> DownloadSpec \<Rightarrow> (path \<Rightarrow> string option) \<Rightarrow> (path \<Rightarrow> string option) \<Rightarrow> bool" where
  "safe_files sdk spec F0 F \<longleftrightarrow> (\<forall>p. outside sdk spec p \<longrightarrow> F p = F0 p)
     \<and> (F (sp_absolute_path spec) = F0 (sp_absolute_path spec) \<or> F (sp_absolute_path spec) = None \<or> published sdk spec F)"

definition target_free :: "'w MicroVmSdk \<Rightarrow> DownloadSpec \<Rightarrow> bool" where
  "target_free sdk spec \<longleftrightarrow> (\<forall>n. sp_absolute_path spec \<noteq> home sdk @ [Normal ''tmp'', Normal n])"

lemma member_target_free: "member_of sdk member \<Longrightarrow> target_free sdk (mb_spec member)"
  using member_target [of sdk member] by (auto simp: target_free_def)

lemma safe_files_refl: "safe_files sdk spec F F"
  by (simp add: safe_files_def)

lemma safe_files_tmp:
  assumes "safe_files sdk spec F0 F" "target_free sdk spec" "tmp = home sdk @ [Normal ''tmp'', Normal n]" "\<And>q. q \<noteq> tmp \<Longrightarrow> F' q = F q"
  shows "safe_files sdk spec F0 F'"
proof -
  have "sp_absolute_path spec \<noteq> tmp" "\<not> outside sdk spec tmp" using assms(2,3) by (auto simp: target_free_def outside_def)
  with assms(1,4) show ?thesis by (auto simp: safe_files_def published_def) metis+
qed

lemma receive_files:
  assumes laws: "store_laws sdk tr content" and free: "target_free sdk spec" and tmp: "tmp = home sdk @ [Normal ''tmp'', Normal n]"
  shows "fileT content (safe_files sdk spec F0) (\<lambda>F. safe_files sdk spec F0 F \<and> F tmp = Some hashed \<and> unat size_bytes = length hashed)
    (receive tr tracker spec tmp cs size_bytes hashed)
    (\<lambda>(n, bytes) F. safe_files sdk spec F0 F \<and> F tmp = Some bytes \<and> unat n = length bytes)"
proof (induction cs arbitrary: size_bytes hashed)
  case Nil
  show ?case
    unfolding receive.simps
    by (rule fileT_step, rule calm_transfer [OF laws], simp, rule fileT_step, rule calm_transfer [OF laws], simp, rule fileT_return) simp
next
  case (Cons c cs)
  let ?P = "\<lambda>F. safe_files sdk spec F0 F \<and> F tmp = Some hashed \<and> unat size_bytes = length hashed"
  have put: "fileT content (safe_files sdk spec F0) ?P
      (filesystem_call ''write temporary download file'' tmp (write_all tr tmp chunk))
      (\<lambda>_ F. safe_files sdk spec F0 F \<and> F tmp = Some (hashed @ chunk) \<and> unat size_bytes = length hashed)" for chunk
  proof (rule fileT_call)
    fix w r w'
    assume P: "?P (content w)" and run: "write_all tr tmp chunk w = (r, w')"
    from laws run have same: "\<And>q. q \<noteq> tmp \<Longrightarrow> content w' q = content w q"
      and more: "\<not> isl r \<Longrightarrow> content w tmp = Some hashed \<Longrightarrow> content w' tmp = Some (hashed @ chunk)"
      unfolding store_laws_def by blast+
    have "safe_files sdk spec F0 (content w')" 
      by (rule safe_files_tmp [OF _ free tmp]) (use P same in auto)
    with P more show "case r of Inl e \<Rightarrow> safe_files sdk spec F0 (content w')
      | Inr x \<Rightarrow> safe_files sdk spec F0 (content w') \<and> content w' tmp = Some (hashed @ chunk) \<and> unat size_bytes = length hashed"
      by (simp split: sum.split)
  qed
  have rest: "fileT content (safe_files sdk spec F0) (\<lambda>F. safe_files sdk spec F0 F \<and> F tmp = Some (hashed @ chunk) \<and> unat size_bytes = length hashed)
      (bindE (report tr e) (\<lambda>_. receive tr tracker spec tmp cs size' (hashed @ chunk)))
      (\<lambda>(n, bytes) F. safe_files sdk spec F0 F \<and> F tmp = Some bytes \<and> unat n = length bytes)"
    if "length chunk < 2 ^ 64" "checked_add size_bytes (of_nat (length chunk)) = Some size'" for chunk size' e
  proof (rule fileT_step [OF calm_transfer(2) [OF laws]])
    have "unat size' = unat size_bytes + length chunk"
      using checked_add_Some [OF that(2)] that(1) by (simp add: unat_of_nat)
    then show "fileT content (safe_files sdk spec F0) (\<lambda>F. safe_files sdk spec F0 F \<and> F tmp = Some (hashed @ chunk) \<and> unat size_bytes = length hashed)
      (receive tr tracker spec tmp cs size' (hashed @ chunk)) (\<lambda>(n, bytes) F. safe_files sdk spec F0 F \<and> F tmp = Some bytes \<and> unat n = length bytes)"
      by (intro fileT_conseq [OF Cons.IH]) auto
  qed simp
  have chunk: "fileT content (safe_files sdk spec F0) ?P
      (if 2 ^ 64 \<le> length chunk then throwE (Migration ''HTTP response chunk exceeds u64 size'')
       else bindE (require_some (checked_add size_bytes (of_nat (length chunk))) (Migration ''download size exceeds u64 range'')) (\<lambda>size'.
         bindE (filesystem_call ''write temporary download file'' tmp (write_all tr tmp chunk)) (\<lambda>_.
         bindE (report tr (event tracker spec Downloading size')) (\<lambda>_. receive tr tracker spec tmp cs size' (hashed @ chunk)))))
      (\<lambda>(n, bytes) F. safe_files sdk spec F0 F \<and> F tmp = Some bytes \<and> unat n = length bytes)" for chunk
    by (intro fileT_if fileT_throw fileT_require fileT_bind [OF put] rest) auto
  show ?case
    unfolding receive.simps
    by (rule fileT_step, rule calm_transfer [OF laws], simp, rule fileT_step, rule calm_transfer [OF laws], simp,
        rule fileT_lift_bind, rule chunk, simp)
qed

lemma stream_files:
  assumes laws: "store_laws sdk tr content" and free: "target_free sdk (mb_spec member)" and tmp: "tmp = home sdk @ [Normal ''tmp'', Normal n]"
  shows "fileT content (safe_files sdk (mb_spec member) F0) (safe_files sdk (mb_spec member) F0) (stream_to_temporary sdk tr member tracker tmp)
    (\<lambda>i F. safe_files sdk (mb_spec member) F0 F \<and> (\<exists>bytes. F tmp = Some bytes \<and> verified sdk (mb_spec member) bytes)
       \<and> fi_size_bytes i = sp_expected_size (mb_spec member) \<and> fi_sha256 i = sp_expected_sha256 (mb_spec member))"
    (is "fileT content ?I ?I _ ?Q")
proof -
  let ?spec = "mb_spec member"
  have new: "fileT content ?I ?I (filesystem_call ''create temporary download file'' tmp (create_new tr tmp)) (\<lambda>_ F. ?I F \<and> F tmp = Some [])"
  proof (rule fileT_call)
    fix w r w'
    assume I: "?I (content w)" and run: "create_new tr tmp w = (r, w')"
    from laws run have F: "content w' = (if isl r then content w else (content w)(tmp := Some []))" by (rule laws_create)
    have "?I (content w')" by (rule safe_files_tmp [OF I free tmp]) (simp add: F)
    with F show "case r of Inl e \<Rightarrow> ?I (content w') | Inr x \<Rightarrow> ?I (content w') \<and> content w' tmp = Some []" by (cases r) simp_all
  qed
  note calm = calm_transfer [OF laws] calm_files(1) [OF laws_silent(7) [OF laws]] calm_files(1) [OF laws_silent(8) [OF laws]]
    calm_files(1) [OF laws_silent(9) [OF laws]] calm_env [OF laws_silent(11) [OF laws]]
  have final: "fileT content ?I (\<lambda>F. ?I F \<and> F tmp = Some bytes \<and> unat size_bytes = length bytes)
     (bindE (liftE (verify_integrity ?spec \<lparr>fi_size_bytes = size_bytes, fi_sha256 = hex_digest (sha256 sdk bytes)\<rparr>)) (\<lambda>_.
      bindE (apply_file_mode tr tmp ?spec) (\<lambda>_. returnE \<lparr>fi_size_bytes = size_bytes, fi_sha256 = hex_digest (sha256 sdk bytes)\<rparr>)))
     ?Q" for size_bytes bytes
    by (rule fileT_lift_bind, rule fileT_step [OF calm(5)], simp, rule fileT_return)
      (auto simp: verify_integrity_def verified_def split: if_splits)
  have after: "fileT content ?I (\<lambda>F. ?I F \<and> F tmp = Some bytes \<and> unat size_bytes = length bytes)
     (bindE (stop_if_cancelled tr tracker ?spec size_bytes) (\<lambda>_.
      bindE (filesystem_call ''flush temporary download file'' tmp (flush tr tmp)) (\<lambda>_.
      bindE (filesystem_call ''sync temporary download file'' tmp (sync_all tr tmp)) (\<lambda>_.
      bindE (report tr (event tracker ?spec Verifying size_bytes)) (\<lambda>_.
      bindE (liftE (verify_integrity ?spec \<lparr>fi_size_bytes = size_bytes, fi_sha256 = hex_digest (sha256 sdk bytes)\<rparr>)) (\<lambda>_.
      bindE (apply_file_mode tr tmp ?spec) (\<lambda>_. returnE \<lparr>fi_size_bytes = size_bytes, fi_sha256 = hex_digest (sha256 sdk bytes)\<rparr>)))))))
     ?Q" for size_bytes bytes
    by (rule fileT_step, rule calm, simp, rule fileT_step, rule calm, simp, rule fileT_step, rule calm, simp, rule fileT_step, rule calm, simp,
        rule final)
  show ?thesis
    unfolding stream_to_temporary_def Let_def
    by (rule fileT_require, rule fileT_step, rule calm, assumption, rule fileT_bind [OF new], rule fileT_step, rule calm, simp,
        rule fileT_bind [where R = "\<lambda>(n, bytes) F. ?I F \<and> F tmp = Some bytes \<and> unat n = length bytes"],
        rule fileT_conseq [OF receive_files [OF laws free tmp]], simp, simp, clarsimp, rule after)
qed

lemma safe_files_target:
  assumes "safe_files sdk spec F0 F" "\<And>q. F' q = F q \<or> prefix (sp_absolute_path spec) q \<and> F' q = None"
  shows "safe_files sdk spec F0 F'"
proof -
  have "F' p = F p" if "outside sdk spec p" for p using assms(2) [of p] that by (auto simp: outside_def)
  with assms(1) assms(2) [of "sp_absolute_path spec"] show ?thesis by (auto simp: safe_files_def published_def)
qed

lemma discard_files:
  assumes laws: "store_laws sdk tr content" and free: "target_free sdk spec" and tmp: "tmp = home sdk @ [Normal ''tmp'', Normal n]"
  shows "fileT content (safe_files sdk spec F0) (safe_files sdk spec F0) (discard sdk tmp) (\<lambda>_. safe_files sdk spec F0)"
proof -
  have "fileT content (safe_files sdk spec F0) (safe_files sdk spec F0) (attempt_call (remove_file (files sdk) tmp)) (\<lambda>_. safe_files sdk spec F0)"
  proof (rule fileT_attempt_call)
    fix w r w'
    assume I: "safe_files sdk spec F0 (content w)" and "remove_file (files sdk) tmp w = (r, w')"
    then have "content w' = content w \<or> content w' = (content w)(tmp := None)" by (intro laws_remove [OF laws])
    then show "safe_files sdk spec F0 (content w')" using safe_files_tmp [OF I free tmp] by force
  qed
  then show ?thesis
    unfolding discard_def by (rule fileT_bind) (rule fileT_return)
qed

lemma publish_files:
  assumes laws: "store_laws sdk tr content" and free: "target_free sdk (mb_spec member)"
  shows "fileT content (safe_files sdk (mb_spec member) F0) (safe_files sdk (mb_spec member) F0) (stream_and_publish sdk tr member tracker)
    (\<lambda>i F. safe_files sdk (mb_spec member) F0 F \<and> published sdk (mb_spec member) F
       \<and> fi_size_bytes i = sp_expected_size (mb_spec member) \<and> fi_sha256 i = sp_expected_sha256 (mb_spec member))"
    (is "fileT content ?I ?I _ ?Q")
proof -
  let ?spec = "mb_spec member" and ?T = "sp_absolute_path (mb_spec member)"
  have moved: "fileT content ?I (\<lambda>F. ?I F \<and> (\<exists>bytes. F tmp = Some bytes \<and> verified sdk ?spec bytes) \<and> good)
      (attempt_call (rename tr tmp ?T)) (\<lambda>r F. ?I F \<and> good \<and> (isl r \<or> published sdk ?spec F))"
    if tmp: "tmp = home sdk @ [Normal ''tmp'', Normal n]" for tmp n good
  proof (rule fileT_attempt_call)
    fix w r w'
    assume P: "?I (content w) \<and> (\<exists>bytes. content w tmp = Some bytes \<and> verified sdk ?spec bytes) \<and> good" and "rename tr tmp ?T w = (r, w')"
    then have F: "content w' = (if isl r then content w else (content w)(?T := content w tmp, tmp := None))"
      by (intro laws_rename [OF laws])
    have "?T \<noteq> tmp" "\<not> outside sdk ?spec tmp" "\<not> outside sdk ?spec ?T" using free tmp by (auto simp: target_free_def outside_def)
    with P F show "?I (content w') \<and> good \<and> (isl r \<or> published sdk ?spec (content w'))"
      by (cases r) (auto simp: safe_files_def published_def)
  qed
  have body: "fileT content ?I (\<lambda>F. case r of Inl e \<Rightarrow> ?I F | Inr i \<Rightarrow> ?I F \<and> (\<exists>bytes. F tmp = Some bytes \<and> verified sdk ?spec bytes)
        \<and> fi_size_bytes i = sp_expected_size ?spec \<and> fi_sha256 i = sp_expected_sha256 ?spec)
     (case r of
        Inl e \<Rightarrow> bindE (discard sdk tmp) (\<lambda>_. throwE e)
      | Inr integrity \<Rightarrow>
          bindE (cancelled tr) (\<lambda>b.
          if b then bindE (discard sdk tmp) (\<lambda>_.
                    bindE (report tr (event tracker ?spec CancelledPhase (fi_size_bytes integrity))) (\<lambda>_. throwE Cancelled))
          else bindE (attempt_call (rename tr tmp ?T)) (\<lambda>moved.
               case moved of
                 Inl e \<Rightarrow> bindE (discard sdk tmp) (\<lambda>_. throwE (Filesystem ''atomically publish downloaded file'' ?T e))
               | Inr _ \<Rightarrow> returnE integrity))) ?Q"
    if tmp: "tmp = home sdk @ [Normal ''tmp'', Normal n]" for tmp n r
  proof -
    note gone = discard_files [OF laws free tmp, of F0]
    have fail: "fileT content ?I ?I (bindE (discard sdk tmp) (\<lambda>_. throwE e)) ?Q" for e
      by (rule fileT_bind [OF gone]) (rule fileT_throw)
    have stop: "fileT content ?I ?I (bindE (discard sdk tmp) (\<lambda>_. bindE (report tr ev) (\<lambda>_. throwE Cancelled))) ?Q" for ev
      by (rule fileT_bind [OF gone], rule fileT_step [OF calm_transfer(2) [OF laws]], assumption, rule fileT_throw)
    have outcome: "fileT content ?I (\<lambda>F. ?I F \<and> (fi_size_bytes i = sp_expected_size ?spec \<and> fi_sha256 i = sp_expected_sha256 ?spec)
          \<and> (isl m \<or> published sdk ?spec F))
        (case m of Inl e \<Rightarrow> bindE (discard sdk tmp) (\<lambda>_. throwE (Filesystem ''atomically publish downloaded file'' ?T e))
         | Inr _ \<Rightarrow> returnE i) ?Q" for m :: "io_error + unit" and i
      by (cases m) (auto intro!: fileT_return fileT_conseq [OF fail])
    show ?thesis
    proof (cases r)
      case (Inr i)
      show ?thesis
        unfolding Inr sum.case
        by (rule fileT_step [OF calm_transfer(1) [OF laws]], simp, rule fileT_if, rule fileT_conseq [OF stop], simp, simp,
            rule fileT_bind [OF moved [OF tmp, of "fi_size_bytes i = sp_expected_size ?spec \<and> fi_sha256 i = sp_expected_sha256 ?spec"]],
            rule outcome)
    qed (simp add: fail)
  qed
  have path: "fileT content ?I ?I (temporary_path sdk tr key) (\<lambda>tmp F. ?I F \<and> (\<exists>n. tmp = home sdk @ [Normal ''tmp'', Normal n]))" for key
    by (rule fileTI) (auto simp: calmD [OF calm_transfer(4) [OF laws]] dest: temporary_path_shape)
  have rest: "fileT content ?I (\<lambda>F. ?I F \<and> (\<exists>n. tmp = home sdk @ [Normal ''tmp'', Normal n]))
     (bindE (attemptE (stream_to_temporary sdk tr member tracker tmp)) (\<lambda>r. f r)) ?Q"
    if f: "\<And>n r. tmp = home sdk @ [Normal ''tmp'', Normal n] \<Longrightarrow>
      fileT content ?I (\<lambda>F. case r of Inl e \<Rightarrow> ?I F | Inr i \<Rightarrow> ?I F \<and> (\<exists>bytes. F tmp = Some bytes \<and> verified sdk ?spec bytes)
        \<and> fi_size_bytes i = sp_expected_size ?spec \<and> fi_sha256 i = sp_expected_sha256 ?spec) (f r) ?Q" for tmp f
  proof (cases "\<exists>n. tmp = home sdk @ [Normal ''tmp'', Normal n]")
    case True
    then obtain n where n: "tmp = home sdk @ [Normal ''tmp'', Normal n]" by blast
    have "fileT content ?I ?I (attemptE (stream_to_temporary sdk tr member tracker tmp))
      (\<lambda>r F. case r of Inl e \<Rightarrow> ?I F | Inr i \<Rightarrow> ?I F \<and> (\<exists>bytes. F tmp = Some bytes \<and> verified sdk ?spec bytes)
        \<and> fi_size_bytes i = sp_expected_size ?spec \<and> fi_sha256 i = sp_expected_sha256 ?spec)"
      by (rule fileT_attempt [where E = ?I], rule fileT_conseq [OF stream_files [OF laws free n]]) simp_all
    from fileT_bind [OF this f [OF n]] show ?thesis by (rule fileT_conseq) simp_all
  qed (simp add: fileT_def)
  show ?thesis
    unfolding stream_and_publish_def Let_def by (rule fileT_bind [OF path], rule rest, rule body)
qed

section \<open>A member\<close>

lemma remove_target_files:
  assumes laws: "store_laws sdk tr content"
  shows "fileT content (safe_files sdk spec F0) (safe_files sdk spec F0) (remove_invalid_target_if_exists sdk (sp_absolute_path spec))
    (\<lambda>_. safe_files sdk spec F0)"
proof -
  have remove: "safe_files sdk spec F0 (content w')"
    if "safe_files sdk spec F0 (content w)"
      and "(if b then remove_dir_all (files sdk) (sp_absolute_path spec) else remove_file (files sdk) (sp_absolute_path spec)) w = (r, w')" for b w r w'
  proof (rule safe_files_target [OF that(1)])
    fix q
    show "content w' q = content w q \<or> prefix (sp_absolute_path spec) q \<and> content w' q = None"
    proof (cases b)
      case True
      with that(2) show ?thesis by (intro laws_remove_dir [OF laws, of _ w r]) simp
    next
      case False
      with that(2) have "content w' = content w \<or> content w' = (content w)(sp_absolute_path spec := None)"
        by (intro laws_remove [OF laws, of _ w r]) simp
      then show ?thesis by (cases "q = sp_absolute_path spec") auto
    qed
  qed
  show ?thesis
    unfolding remove_invalid_target_if_exists_def
  proof (rule fileT_step [OF calm_files(2) [OF laws_silent(5) [OF laws]]], assumption)
    fix r
    show "fileT content (safe_files sdk spec F0) (safe_files sdk spec F0) (case r of
        Inl e \<Rightarrow> if io_kind e = NotFoundKind then returnE ()
                else throwE (Filesystem ''inspect invalid artifact target'' (sp_absolute_path spec) e)
      | Inr m \<Rightarrow> filesystem_call ''remove invalid artifact target'' (sp_absolute_path spec)
          (if md_is_dir m then remove_dir_all (files sdk) (sp_absolute_path spec) else remove_file (files sdk) (sp_absolute_path spec)))
      (\<lambda>_. safe_files sdk spec F0)"
    proof (cases r)
      case (Inr m)
      show ?thesis
        unfolding Inr sum.case by (rule fileT_call) (simp split: sum.split, blast intro: remove)
    qed (simp add: fileT_return fileT_throw)
  qed
qed

text \<open>What a call that succeeds says of the target.\<close>

definition handled :: "'w MicroVmSdk \<Rightarrow> DownloadSpec \<Rightarrow> (path \<Rightarrow> string option) \<Rightarrow> DownloadedFile \<times> ProgressTracker \<Rightarrow> (path \<Rightarrow> string option) \<Rightarrow> bool" where
  "handled sdk spec F0 x F \<longleftrightarrow> safe_files sdk spec F0 F \<and> (df_disposition (fst x) \<noteq> SkippedExisting \<longrightarrow> published sdk spec F)"

lemma replace_files:
  assumes laws: "store_laws sdk tr content" and free: "target_free sdk (mb_spec member)"
  shows "fileT content (safe_files sdk (mb_spec member) F0) (safe_files sdk (mb_spec member) F0) (replace_member sdk tr member tracker)
    (handled sdk (mb_spec member) F0)"
  unfolding replace_member_def Let_def persist_member_def
  by (rule fileT_step, rule calm_transfer [OF laws], assumption, rule fileT_step, rule calm_transfer [OF laws], assumption,
      rule fileT_bind [OF remove_target_files [OF laws]], rule fileT_bind [OF publish_files [OF laws free]],
      rule fileT_step, rule calm_transfer [OF laws], simp, rule fileT_step, rule calm_transfer [OF laws], simp, rule fileT_return)
    (simp add: handled_def)

lemma reuse_files:
  assumes laws: "store_laws sdk tr content" and free: "target_free sdk (mb_spec member)"
  shows "fileT content (safe_files sdk (mb_spec member) F0) (safe_files sdk (mb_spec member) F0) (reuse_recorded sdk tr member tracker)
    (handled sdk (mb_spec member) F0)"
proof -
  have skip: "fileT content (safe_files sdk (mb_spec member) F0) (safe_files sdk (mb_spec member) F0)
      (bindE (report tr e) (\<lambda>_. returnE (downloaded_file member i SkippedExisting, tracker))) (handled sdk (mb_spec member) F0)" for e i
    by (rule fileT_step, rule calm_transfer [OF laws], assumption, rule fileT_return)
      (simp add: handled_def downloaded_file_def Let_def)
  show ?thesis
    unfolding reuse_recorded_def Let_def
    by (rule fileT_step [OF calm_files(2) [OF laws_silent(5) [OF laws]]], assumption)
      (auto split: sum.split intro!: fileT_throw skip replace_files [OF laws free])
qed

lemma integrity_files:
  assumes laws: "store_laws sdk tr content"
  shows "fileT content (safe_files sdk spec F0) (safe_files sdk spec F0) (calculate_file_integrity sdk (sp_absolute_path spec))
    (\<lambda>i F. safe_files sdk spec F0 F \<and> (\<forall>v. i = Some v \<longrightarrow> fi_size_bytes v = sp_expected_size spec \<longrightarrow> fi_sha256 v = sp_expected_sha256 spec \<longrightarrow>
       published sdk spec F))" (is "fileT content ?I ?I _ ?Q")
proof -
  have read: "fileT content ?I ?I (filesystem_call operation p (read_file (files sdk) p)) (\<lambda>bytes F. ?I F \<and> F p = Some bytes)" for operation p
  proof (rule fileT_call)
    fix w r w'
    assume "?I (content w)" and run: "read_file (files sdk) p w = (r, w')"
    moreover have "content w' = content w" using laws_silent(12) [OF laws] run unfolding silent_def by blast
    ultimately show "case r of Inl e \<Rightarrow> ?I (content w') | Inr x \<Rightarrow> ?I (content w') \<and> content w' p = Some x"
      using laws_read [OF laws] by (cases r) auto
  qed
  have hash: "fileT content ?I (\<lambda>F. ?I F \<and> F (sp_absolute_path spec) = Some bytes)
     (if 2 ^ 64 \<le> length bytes then throwE (Migration ''artifact file size exceeds u64 range'')
      else returnE (Some \<lparr>fi_size_bytes = of_nat (length bytes), fi_sha256 = hex_digest (sha256 sdk bytes)\<rparr>)) ?Q" for bytes
  proof (rule fileT_if)
    assume "\<not> 2 ^ 64 \<le> length bytes"
    then have "length bytes = unat (of_nat (length bytes) :: u64)" by (simp add: unat_of_nat)
    then show "fileT content ?I (\<lambda>F. ?I F \<and> F (sp_absolute_path spec) = Some bytes)
      (returnE (Some \<lparr>fi_size_bytes = of_nat (length bytes), fi_sha256 = hex_digest (sha256 sdk bytes)\<rparr>)) ?Q"
      by (intro fileT_return) (auto simp: published_def verified_def)
  qed (auto intro: fileT_throw)
  show ?thesis
    unfolding calculate_file_integrity_def
    by (rule fileT_step [OF calm_files(2) [OF laws_silent(5) [OF laws]]], assumption, rule fileT_sum, rule fileT_if,
        rule fileT_return, simp, rule fileT_throw, assumption, rule fileT_if, rule fileT_return, simp,
        rule fileT_step [OF calm_files(1) [OF laws_silent(6) [OF laws]]], assumption, rule fileT_bind [OF read], rule hash)
qed

lemma adoption_files:
  assumes laws: "store_laws sdk tr content"
  shows "fileT content (safe_files sdk spec F0) (safe_files sdk spec F0) (adoption_integrity sdk spec)
    (\<lambda>_ F. safe_files sdk spec F0 F \<and> published sdk spec F)"
proof -
  have final: "fileT content (safe_files sdk spec F0) (\<lambda>F. safe_files sdk spec F0 F \<and> (\<forall>v. i = Some v \<longrightarrow> fi_size_bytes v = sp_expected_size spec \<longrightarrow>
         fi_sha256 v = sp_expected_sha256 spec \<longrightarrow> published sdk spec F))
     (require_some (case i of None \<Rightarrow> None
          | Some i \<Rightarrow> if fi_size_bytes i = sp_expected_size spec \<and> fi_sha256 i = sp_expected_sha256 spec then Some i else None) e)
     (\<lambda>_ F. safe_files sdk spec F0 F \<and> published sdk spec F)" for i e
    unfolding require_some_def by (rule fileT_lift) (auto simp: ok_or_def split: option.splits if_splits)
  show ?thesis
    unfolding adoption_integrity_def Let_def
    by (rule fileT_step [OF calm_files(1) [OF laws_silent(5) [OF laws]]], assumption, rule fileT_bind [OF _ final], rule fileT_if,
        rule integrity_files [OF laws], rule fileT_return) simp
qed

lemma download_member_files:
  assumes laws: "store_laws sdk tr content" and free: "target_free sdk (mb_spec member)"
  shows "fileT content (safe_files sdk (mb_spec member) F0) (safe_files sdk (mb_spec member) F0) (download_member sdk tr member tracker)
    (handled sdk (mb_spec member) F0)"
proof -
  let ?spec = "mb_spec member"
  let ?I = "safe_files sdk ?spec F0"
  let ?P = "\<lambda>i F. ?I F \<and> (\<forall>v. i = Some v \<longrightarrow> fi_size_bytes v = sp_expected_size ?spec \<longrightarrow> fi_sha256 v = sp_expected_sha256 ?spec \<longrightarrow>
       published sdk ?spec F)"
  note replace = replace_files [OF laws free, of F0 tracker] and reuse = reuse_files [OF laws free, of F0 tracker]
  have hashed: "fileT content ?I ?I (if b then calculate_file_integrity sdk (sp_absolute_path ?spec) else returnE None) ?P" for b
    by (rule fileT_if, rule integrity_files [OF laws], rule fileT_return) simp
  have skip: "fileT content ?I (?P i) (bindE (require_some i e) (\<lambda>integrity.
      bindE (report tr ev) (\<lambda>_. returnE (downloaded_file member integrity SkippedExisting, tracker)))) (handled sdk ?spec F0)" for i e ev
    by (rule fileT_require, rule fileT_step [OF calm_transfer(2) [OF laws]], simp, rule fileT_return)
      (simp_all add: handled_def downloaded_file_def Let_def)
  have adopted: "fileT content ?I (\<lambda>F. ?I F \<and> published sdk ?spec F) (bindE (persist_member sdk member i) (\<lambda>_.
      bindE (report tr ev) (\<lambda>_. returnE (downloaded_file member i AdoptedExisting, tracker)))) (handled sdk ?spec F0)" for i ev
    unfolding persist_member_def
    by (rule fileT_step [OF calm_transfer(8) [OF laws]], simp, rule fileT_step [OF calm_transfer(2) [OF laws]], simp, rule fileT_return)
      (simp add: handled_def)
  have adopt: "fileT content ?I (?P physical) (case physical of Some i \<Rightarrow> returnE i | None \<Rightarrow> adoption_integrity sdk ?spec)
      (\<lambda>_ F. ?I F \<and> published sdk ?spec F)" if "decide_cache ?spec physical state = Adopt" for physical state
    using that
    by (cases physical) (auto simp: decide_cache_def split: if_splits intro!: fileT_return fileT_conseq [OF adoption_files [OF laws]])
  have decide: "fileT content ?I (?P physical) (case decide_cache ?spec physical state of
        Skip \<Rightarrow>
          if hash_first then
            bindE (require_some physical e) (\<lambda>integrity.
            bindE (report tr (event tracker ?spec SkippedPhase 0)) (\<lambda>_. returnE (downloaded_file member integrity SkippedExisting, tracker)))
          else (case physical of
              Some i \<Rightarrow>
                if fi_size_bytes i \<noteq> sp_expected_size ?spec \<or> fi_sha256 i \<noteq> sp_expected_sha256 ?spec
                then replace_member sdk tr member tracker else reuse_recorded sdk tr member tracker
            | None \<Rightarrow> reuse_recorded sdk tr member tracker)
      | Adopt \<Rightarrow>
          bindE (case physical of Some i \<Rightarrow> returnE i | None \<Rightarrow> adoption_integrity sdk ?spec) (\<lambda>integrity.
          bindE (persist_member sdk member integrity) (\<lambda>_.
          bindE (report tr (event tracker ?spec AdoptedPhase 0)) (\<lambda>_. returnE (downloaded_file member integrity AdoptedExisting, tracker))))
      | Replace \<Rightarrow> replace_member sdk tr member tracker) (handled sdk ?spec F0)" for physical state hash_first e
  proof (cases "decide_cache ?spec physical state")
    case Skip
    show ?thesis
      unfolding Skip CacheDecision.case
      by (rule fileT_if, rule skip, cases physical) (auto intro: fileT_conseq [OF replace] fileT_conseq [OF reuse])
  next
    case Adopt
    show ?thesis
      unfolding Adopt CacheDecision.case by (rule fileT_bind [OF adopt [OF Adopt] adopted])
  next
    case Replace
    show ?thesis
      unfolding Replace CacheDecision.case by (rule fileT_conseq [OF replace]) auto
  qed
  show ?thesis
    unfolding download_member_def Let_def
    by (rule fileT_step [OF calm_transfer(3) [OF laws]], assumption, rule fileT_step [OF calm_env [OF laws_silent(4) [OF laws]]], assumption,
        rule fileT_step [OF calm_transfer(3) [OF laws]], assumption, rule fileT_step [OF calm_transfer(6) [OF laws]], assumption,
        rule fileT_bind [OF hashed], rule fileT_step [OF calm_transfer(3) [OF laws]], simp, rule decide)
qed

text \<open>(C9) Downloading a member of an artifact, whatever the registry answers and whether it succeeds, fails or is
  cancelled at any point, touches no file but its target, what is below it, and the temporary directory; the
  target keeps its content, is removed, or holds bytes of the length and the digest that the manifest gives.
  A call that reports a downloaded or an adopted file leaves such bytes there.\<close>
theorem download_publishes_verified:
  assumes "store_laws sdk tr content" and "member_of sdk member" and "download_member sdk tr member tracker s = (r, s')"
  shows "safe_files sdk (mb_spec member) (content (sd_env s)) (content (sd_env s'))
    \<and> (\<forall>f t. r = Inr (f, t) \<longrightarrow> df_disposition f \<noteq> SkippedExisting \<longrightarrow> published sdk (mb_spec member) (content (sd_env s')))"
proof -
  note triple = download_member_files [OF assms(1) member_target_free [OF assms(2)], of "content (sd_env s)" tracker]
  show ?thesis
    using fileT_Inr [OF triple safe_files_refl] fileT_Inl [OF triple safe_files_refl] assms(3)
    by (cases r) (auto simp: handled_def)
qed

lemma store_laws_demo: "store_laws store_sdk store_transfer (\<lambda>F. F)"
  unfolding store_laws_def silent_ports_def silent_def
  by (simp add: returnE_def split: option.splits)

theorem download_publishes_verified_witness:
  "\<exists>f t s'. download_member store_sdk store_transfer small_member (new_tracker 3) \<lparr>sd_db = empty_db, sd_env = \<lambda>_. None\<rparr> = (Inr (f, t), s')
    \<and> df_disposition f = Downloaded \<and> published store_sdk (mb_spec small_member) (sd_env s') \<and> sd_env s' [RootDir, Normal ''etc''] = None"
proof -
  obtain t s' where run: "download_member store_sdk store_transfer small_member (new_tracker 3) \<lparr>sd_db = empty_db, sd_env = \<lambda>_. None\<rparr>
      = (Inr (downloaded_file small_member \<lparr>fi_size_bytes = 3, fi_sha256 = demo_digest\<rparr> Downloaded, t), s')"
    using small_download by blast
  have "member_of store_sdk small_member" using small_member by (auto simp: member_of_def)
  from download_publishes_verified [OF store_laws_demo this run]
  have "published store_sdk (mb_spec small_member) (sd_env s')" "sd_env s' [RootDir, Normal ''etc''] = None"
    by (auto simp: downloaded_file_def Let_def safe_files_def outside_def)
  with run show ?thesis by (auto simp: downloaded_file_def Let_def)
qed

end
