(* ===== verification/Download_Inventory.thy ===== *)
theory Download_Inventory
  imports Download_Files
begin

text \<open>
  What a download does to the database: it changes the artifact tables only, keeps them consistent, and when it
  succeeds its member is recorded as complete. A binary that the tables record is never repaired.
\<close>

section \<open>Persisting a member\<close>

lemma persist_binary_transaction_inspects:
  assumes ok: "artifacts_ok a"
    and run: "persist_binary_file_transaction now package f spec (spec_integrity spec) a = Inr (u, a')"
    and kind: "sp_artifact_kind spec = BinaryKind" "sp_artifact_id spec = bp_id package" "sp_member_name spec = Some (bf_name f)"
  shows "inspect_member spec None a' = Inr Complete"
proof -
  from run obtain p a1 i a2 n a3 where run1: "upsert_package package a = Inr (p, a1)"
    and run2: "persist_download now spec (spec_integrity spec) a1 = Inr (i, a2)" and run3: "upsert_file p i f n a2 = Inr ((), a3)"
    and run4: "persist_elf i (bf_elf f) a3 = Inr ((), a')"
    by (auto simp: persist_binary_file_transaction_def bindS_Inr)
  have ok1: "artifacts_ok a1" and ok2: "artifacts_ok a2" and ok3: "artifacts_ok a3" and ok': "artifacts_ok a'"
    using ok run1 run2 run3 run4 keeps_upsert_package keeps_persist_download keeps_upsert_file keeps_persist_elf by (blast dest: keepsSD)+
  note frame = persist_elf_frame [OF run4]
  let ?row = "file_row p i f n (row_id file_key bi_id (p, bf_name f) (ad_next_file a2) (ad_files a2))"
  have a3: "a3 = a2\<lparr>ad_files := upsert file_key ?row (ad_files a2),
      ad_next_file := advance_id file_key (p, bf_name f) (ad_next_file a2) (ad_files a2)\<rparr>"
    using run3 by (auto simp: upsert_file_def stmt_simps split: if_splits)
  have files: "ad_packages a3 = ad_packages a2" "ad_downloads a3 = ad_downloads a2" "?row \<in> set (ad_files a3)"
    by (simp_all add: a3 in_upsert)
  have packages: "ad_packages a2 = ad_packages a1" using persist_download_Inr(4) [OF run2] by simp
  have row: "package_row package p \<in> set (ad_packages a1)"
    using run1 by (auto simp: upsert_package_def Let_def in_upsert package_row_def)
  have "distinct (map pa_id (ad_packages a1))" using ok1 by (simp add: artifacts_ok_def binaries_ok_def key_table_def)
  from find_key_distinct [OF this row]
  have "find (\<lambda>r. pa_id r = p) (ad_packages a1) = Some (package_row package p)" by (simp add: package_row_def)
  moreover obtain r where "r \<in> set (ad_files a')" "bi_binary_package_id r = p" "bi_component_name r = bf_name f" "bi_download_id r = i"
    using files(3) frame that [of ?row] by (simp add: file_row_def)
  ultimately have "member_relation_exists spec i a' = Inr True"
    using kind frame files(1) packages
    by (auto simp: member_relation_exists_def member_name_def ok_or_def list_ex_iff package_of_def package_row_def intro!: bexI [of _ r])
  moreover have "find_download i a' = Some (download_row spec (spec_integrity spec) i (uint (sp_expected_size spec)) (uint (sp_expected_size spec)))"
    using find_download_upsert [OF _ run2, of i] ok1 files(2) frame by (simp add: find_download_def artifacts_ok_def spec_integrity_def)
  ultimately show ?thesis using inspect_spec [of a' i spec None] ok' by (simp add: artifacts_ok_def)
qed

definition downloads_only :: "db \<Rightarrow> db \<Rightarrow> bool" where
  "downloads_only D d \<longleftrightarrow> d\<lparr>db_artifacts := db_artifacts D\<rparr> = D \<and> artifacts_ok (db_artifacts d)"

definition recorded :: "DownloadSpec \<Rightarrow> db \<Rightarrow> bool" where
  "recorded spec d \<longleftrightarrow> inspect_member spec None (db_artifacts d) = Inr Complete"

text \<open>The members that the operations build, as a condition on their spec.\<close>

definition fits :: "DownloadMember \<Rightarrow> bool" where
  "fits member \<longleftrightarrow>
     (case mb_logical member of
        KernelMember k \<Rightarrow> sp_artifact_kind (mb_spec member) = KernelKind \<and> sp_artifact_id (mb_spec member) = k_id k
      | BinaryMember p f \<Rightarrow> sp_artifact_kind (mb_spec member) = BinaryKind \<and> sp_artifact_id (mb_spec member) = bp_id p
          \<and> sp_member_name (mb_spec member) = Some (bf_name f)
      | ImageMember d i ks \<Rightarrow> sp_artifact_kind (mb_spec member) = DistributionImageKind \<and> sp_artifact_id (mb_spec member) = d_id d
          \<and> sp_member_name (mb_spec member) = Some (di_id i))"

lemma member_of_fits: "member_of sdk member \<Longrightarrow> fits member"
  by (auto simp: member_of_def fits_def dest!: kernel_member_Inr binary_member_Inr image_member_Inr)

text \<open>The repository call of \<open>persist_member\<close>.\<close>

definition persist_call :: "DownloadMember \<Rightarrow> FileIntegrity \<Rightarrow> int result \<Rightarrow> (db, unit) sdk_io" where
  "persist_call member integrity now =
     (case mb_logical member of
        KernelMember kern \<Rightarrow> persist_kernel now kern (mb_spec member) integrity
      | BinaryMember package f \<Rightarrow> persist_binary_file now package f (mb_spec member) integrity
      | ImageMember distribution img kernels \<Rightarrow>
          persist_distribution_image now distribution img kernels (mb_spec member) integrity)"

lemma persist_member_call: "persist_member sdk member integrity = repository_stamped sdk (persist_call member integrity)"
  by (simp add: persist_member_def persist_call_def [abs_def])

lemma downloads_only_ok: "downloads_only D d \<Longrightarrow> artifacts_ok (db_artifacts d)"
  by (simp add: downloads_only_def)

lemma downloads_only_shape: "downloads_only D d \<Longrightarrow> \<exists>a. d' = d\<lparr>db_artifacts := a\<rparr> \<Longrightarrow> artifacts_ok (db_artifacts d') \<Longrightarrow> downloads_only D d'"
  by (auto simp: downloads_only_def)

lemma persist_call_only:
  assumes "downloads_only D d" "persist_call member integrity now d = (r, d')"
  shows "downloads_only D d'"
proof (rule downloads_only_shape [OF assms(1)])
  have ok: "artifacts_ok (db_artifacts d)" using assms(1) by (simp add: downloads_only_def)
  show "\<exists>a. d' = d\<lparr>db_artifacts := a\<rparr>"
    using assms(2) by (auto simp: persist_call_def dest: artifact_calls_shape(1-3) split: LogicalMember.splits)
  show "artifacts_ok (db_artifacts d')"
    using assms(2) by (auto simp: persist_call_def dest: artifact_calls_ok(1-3) [OF ok] split: LogicalMember.splits)
qed

lemma persist_call_records:
  assumes ok: "artifacts_ok (db_artifacts d)" and fits: "fits member"
    and run: "persist_call member (spec_integrity (mb_spec member)) now d = (Inr (), d')"
  shows "recorded (mb_spec member) d'"
  using run fits
  by (cases "mb_logical member")
    (auto simp: persist_call_def fits_def recorded_def persist_kernel_def persist_binary_file_def persist_distribution_image_def on_artifacts_Inr
      intro: persist_kernel_transaction_resolves(2) [OF ok] persist_binary_transaction_inspects [OF ok]
        persist_image_transaction_resolves(2) [OF ok])

section \<open>One download\<close>

abbreviation downloadT :: "db \<Rightarrow> (db \<Rightarrow> bool) \<Rightarrow> ('w sdk, 'a) sdk_io \<Rightarrow> ('a \<Rightarrow> db \<Rightarrow> bool) \<Rightarrow> bool" where
  "downloadT D P m Q \<equiv> dbT P m Q (\<lambda>_. downloads_only D)"

text \<open>What a download that succeeds returns and leaves in the database.\<close>

definition complete :: "db \<Rightarrow> DownloadMember \<Rightarrow> DownloadedFile \<times> ProgressTracker \<Rightarrow> db \<Rightarrow> bool" where
  "complete D member x d \<longleftrightarrow> downloads_only D d \<and> recorded (mb_spec member) d
     \<and> (\<exists>i. fst x = downloaded_file member i (df_disposition (fst x))
          \<and> (sp_artifact_kind (mb_spec member) = BinaryKind \<and> df_disposition (fst x) = SkippedExisting \<or> i = spec_integrity (mb_spec member)))"

lemma persist_member_triple:
  assumes "fits member"
  shows "downloadT D (\<lambda>d. downloads_only D d \<and> i = spec_integrity (mb_spec member)) (persist_member sdk member i)
    (\<lambda>_ d. downloads_only D d \<and> recorded (mb_spec member) d)"
  unfolding persist_member_call repository_stamped_def
  by (rule dbT_step [OF quiet_env], rule dbT_step [OF quiet_attempt [OF quiet_env]], rule dbT_db)
    (auto dest: persist_call_only downloads_only_ok intro: persist_call_records [OF _ assms])

lemma quiet_transfer [quiet_intros]:
  "quietD (cancelled tr)" "quietD (report tr e)" "quietD (stop_if_cancelled tr tracker spec n)" "quietD (temporary_path sdk tr key)"
  "quietD (apply_file_mode tr p spec)" "quietD (discard sdk p)" "quietD (remove_invalid_target_if_exists sdk p)"
  by (auto simp: cancelled_def report_def stop_if_cancelled_def temporary_path_def apply_file_mode_def discard_def
      remove_invalid_target_if_exists_def require_some_def Let_def intro!: quiet_intros)

lemma quiet_receive [quiet_intros]: "quietD (receive tr tracker spec tmp cs n hashed)"
  by (induction cs arbitrary: n hashed) (auto simp: require_some_def intro!: quiet_intros)

lemma quiet_stream [quiet_intros]: "quietD (stream_and_publish sdk tr member tracker)" "quietD (adoption_integrity sdk spec)"
  by (auto simp: stream_and_publish_def stream_to_temporary_def adoption_integrity_def require_some_def Let_def intro!: quiet_intros)

lemma stream_value: "stream_to_temporary sdk tr member tracker tmp s = (Inr i, s') \<Longrightarrow> i = spec_integrity (mb_spec member)"
  by (auto simp: stream_to_temporary_def Let_def bindE_Inr returnE_def verify_integrity_def spec_integrity_def liftE_def split: if_splits)

lemma attemptE_InrD: "attemptE m s = (Inr r, s') \<Longrightarrow> m s = (r, s')"
  by (auto simp: attemptE_def split: prod.splits)

lemma publish_value:
  assumes "stream_and_publish sdk tr member tracker s = (Inr i, s')"
  shows "i = spec_integrity (mb_spec member)"
proof -
  let ?rest = "\<lambda>tmp r. case r of
        Inl e \<Rightarrow> bindE (discard sdk tmp) (\<lambda>_. throwE e)
      | Inr integrity \<Rightarrow>
          bindE (cancelled tr) (\<lambda>b.
          if b then bindE (discard sdk tmp) (\<lambda>_.
                    bindE (report tr (event tracker (mb_spec member) CancelledPhase (fi_size_bytes integrity))) (\<lambda>_. throwE Cancelled))
          else bindE (attempt_call (rename tr tmp (sp_absolute_path (mb_spec member)))) (\<lambda>moved.
               case moved of
                 Inl e \<Rightarrow> bindE (discard sdk tmp) (\<lambda>_.
                   throwE (Filesystem ''atomically publish downloaded file'' (sp_absolute_path (mb_spec member)) e))
               | Inr _ \<Rightarrow> returnE integrity))"
  from assms obtain tmp r s1 s2 where r: "stream_to_temporary sdk tr member tracker tmp s1 = (r, s2)" and rest: "?rest tmp r s2 = (Inr i, s')"
    by (auto simp: stream_and_publish_def Let_def bindE_Inr dest!: attemptE_InrD)
  show ?thesis
  proof (cases r)
    case (Inl e)
    with rest show ?thesis by (simp add: bindE_Inr throwE_def)
  next
    case (Inr v)
    with rest obtain moved s3 where "(case moved of
        Inl e \<Rightarrow> bindE (discard sdk tmp) (\<lambda>_. throwE (Filesystem ''atomically publish downloaded file'' (sp_absolute_path (mb_spec member)) e))
      | Inr (_ :: unit) \<Rightarrow> returnE v) s3 = (Inr i, s')"
      by (auto simp: bindE_Inr [of "cancelled tr"] bindE_Inr [of "attempt_call m" for m] bindE_Inr [of "report tr e" for e]
          bindE_Inr [of "discard sdk p" for p] split: if_splits)
    then have "i = v" by (cases moved) (auto simp: bindE_Inr throwE_def returnE_def)
    with stream_value r Inr show ?thesis by blast
  qed
qed

lemma adoption_value: "adoption_integrity sdk spec s = (Inr i, s') \<Longrightarrow> i = spec_integrity spec"
  by (auto simp: adoption_integrity_def Let_def bindE_Inr require_some_def liftE_def ok_or_def spec_integrity_def split: option.splits if_splits)

lemma remove_member_triple: "downloadT D (downloads_only D) (repository_write sdk (remove_member spec)) (\<lambda>_. downloads_only D)"
  unfolding repository_write_def
  by (rule dbT_step [OF quiet_env], rule dbT_db)
    (auto intro: downloads_only_shape dest: artifact_calls_shape(4) artifact_calls_ok(4) [OF downloads_only_ok])

lemma completed:
  "downloads_only D d \<and> recorded (mb_spec member) d \<Longrightarrow> i = spec_integrity (mb_spec member) \<Longrightarrow> complete D member (downloaded_file member i c, t) d"
  by (auto simp: complete_def downloaded_file_def Let_def)

lemma replace_triple:
  assumes "fits member"
  shows "downloadT D (downloads_only D) (replace_member sdk tr member tracker) (complete D member)"
proof -
  let ?spec = "mb_spec member"
  have after: "downloadT D (\<lambda>d. downloads_only D d \<and> i = spec_integrity ?spec)
     (bindE (persist_member sdk member i) (\<lambda>_. bindE (report tr e) (\<lambda>_. returnE (downloaded_file member i Downloaded, t)))) (complete D member)" for i e t
  proof (rule dbT_assume)
    assume i: "i = spec_integrity ?spec"
    show "downloadT D (downloads_only D)
     (bindE (persist_member sdk member i) (\<lambda>_. bindE (report tr e) (\<lambda>_. returnE (downloaded_file member i Downloaded, t)))) (complete D member)"
      by (rule dbT_bind, rule dbT_conseq [OF persist_member_triple [OF assms, of D i]], simp add: i, assumption, assumption,
          rule dbT_step, intro quiet_intros, rule dbT_return, rule completed, assumption, rule i, simp)
  qed
  show ?thesis
    unfolding replace_member_def Let_def
    by (rule dbT_step, intro quiet_intros, rule dbT_bind [OF remove_member_triple], rule dbT_step, intro quiet_intros,
        rule dbT_bind [OF dbT_quiet_value [OF quiet_stream(1) publish_value]], assumption, rule after, assumption+)
qed

lemma reuse_triple:
  assumes "fits member"
  shows "downloadT D (\<lambda>d. downloads_only D d \<and> recorded (mb_spec member) d) (reuse_recorded sdk tr member tracker) (complete D member)"
proof -
  let ?P = "\<lambda>d. downloads_only D d \<and> recorded (mb_spec member) d"
  have replace: "downloadT D ?P (replace_member sdk tr member tracker) (complete D member)"
    by (rule dbT_conseq [OF replace_triple [OF assms]]) simp_all
  show ?thesis
    unfolding reuse_recorded_def Let_def
    by (rule dbT_step, intro quiet_intros, rule dbT_sum, rule dbT_if, rule replace, rule dbT_throw, simp, rule dbT_if, rule replace,
        rule dbT_if, rule replace, rule dbT_step, intro quiet_intros, rule dbT_return, rule completed, assumption, simp add: spec_integrity_def,
        simp, simp)
qed

lemma inspect_triple:
  "downloadT D (downloads_only D) (repository_read sdk (\<lambda>db. inspect_member spec None (db_artifacts db)))
     (\<lambda>state d. downloads_only D d \<and> (state = Complete \<longrightarrow> recorded spec d))"
  unfolding repository_read_def by (rule dbT_step [OF quiet_env], rule dbT_db) (auto simp: recorded_def)

lemma download_member_triple:
  assumes fits: "fits member"
  shows "downloadT D (downloads_only D) (download_member sdk tr member tracker) (complete D member)"
proof -
  let ?spec = "mb_spec member" and ?P = "\<lambda>state d. downloads_only D d \<and> (state = Complete \<longrightarrow> recorded (mb_spec member) d)"
  have replace: "downloadT D (?P state) (replace_member sdk tr member tracker) (complete D member)" for state
    by (rule dbT_conseq [OF replace_triple [OF fits]]) simp_all
  have reuse: "downloadT D (?P Complete) (reuse_recorded sdk tr member tracker) (complete D member)"
    by (rule dbT_conseq [OF reuse_triple [OF fits]]) simp_all
  have skip: "downloadT D (?P Complete) (bindE (require_some physical e) (\<lambda>i. bindE (report tr ev) (\<lambda>_.
      returnE (downloaded_file member i SkippedExisting, tracker)))) (complete D member)" if "sp_artifact_kind ?spec = BinaryKind" for physical e ev
    unfolding require_some_def
    by (rule dbT_step, intro quiet_intros, rule dbT_step, intro quiet_intros, rule dbT_return)
      (use that in \<open>auto simp: complete_def downloaded_file_def Let_def\<close>)
  have digest: "dbT (downloads_only D) (case physical of Some i \<Rightarrow> returnE i | None \<Rightarrow> adoption_integrity sdk ?spec)
      (\<lambda>i d. downloads_only D d \<and> i = spec_integrity ?spec) (\<lambda>_. downloads_only D)" if "decide_cache ?spec physical state = Adopt" for physical state
    using that
    by (cases physical) (auto simp: decide_cache_def spec_integrity_def split: if_splits intro!: dbT_return
        dbT_quiet_value [OF quiet_stream(2) adoption_value, unfolded spec_integrity_def])
  have adopt: "downloadT D (\<lambda>d. downloads_only D d \<and> i = spec_integrity ?spec) (bindE (persist_member sdk member i) (\<lambda>_.
      bindE (report tr ev) (\<lambda>_. returnE (downloaded_file member i AdoptedExisting, tracker)))) (complete D member)" for i ev
  proof (rule dbT_assume)
    assume i: "i = spec_integrity ?spec"
    show "downloadT D (downloads_only D) (bindE (persist_member sdk member i) (\<lambda>_.
      bindE (report tr ev) (\<lambda>_. returnE (downloaded_file member i AdoptedExisting, tracker)))) (complete D member)"
      by (rule dbT_bind, rule dbT_conseq [OF persist_member_triple [OF fits, of D i]], simp add: i, assumption, assumption,
          rule dbT_step, intro quiet_intros, rule dbT_return, rule completed, assumption, rule i, simp)
  qed
  have decide: "downloadT D (?P state) (case decide_cache ?spec physical state of
        Skip \<Rightarrow>
          if sp_artifact_kind ?spec = BinaryKind then
            bindE (require_some physical e) (\<lambda>integrity.
            bindE (report tr (event tracker ?spec SkippedPhase 0)) (\<lambda>_. returnE (downloaded_file member integrity SkippedExisting, tracker)))
          else (case physical of
              Some i \<Rightarrow>
                if fi_size_bytes i \<noteq> sp_expected_size ?spec \<or> fi_sha256 i \<noteq> sp_expected_sha256 ?spec
                then replace_member sdk tr member tracker else reuse_recorded sdk tr member tracker
            | None \<Rightarrow> reuse_recorded sdk tr member tracker)
      | Adopt \<Rightarrow>
          bindE (case physical of Some i \<Rightarrow> returnE i | None \<Rightarrow> adoption_integrity sdk ?spec) (\<lambda>integrity.
          bindE (persist_member sdk member integrity) (\<lambda>_.
          bindE (report tr (event tracker ?spec AdoptedPhase 0)) (\<lambda>_. returnE (downloaded_file member integrity AdoptedExisting, tracker))))
      | Replace \<Rightarrow> replace_member sdk tr member tracker) (complete D member)" for physical state e
  proof (cases "decide_cache ?spec physical state")
    case Skip
    then have state: "state = Complete" by (auto simp: decide_cache_def split: if_splits)
    show ?thesis
      unfolding state Skip [unfolded state] CacheDecision.case by (rule dbT_if, rule skip, assumption, rule dbT_option, rule reuse, rule dbT_if, rule replace, rule reuse)
  next
    case Adopt
    show ?thesis
      unfolding Adopt CacheDecision.case
      by (rule dbT_bind [OF _ adopt], rule dbT_conseq [OF digest [OF Adopt]]) simp_all
  next
    case Replace
    show ?thesis
      unfolding Replace CacheDecision.case by (rule replace)
  qed
  show ?thesis
    unfolding download_member_def Let_def
    by (rule dbT_step, intro quiet_intros, rule dbT_step, intro quiet_intros, rule dbT_step, intro quiet_intros, rule dbT_bind [OF inspect_triple],
        rule dbT_step, intro quiet_intros, rule dbT_step, intro quiet_intros, rule decide) simp_all
qed

text \<open>(C11) Downloading a member of an artifact changes the artifact tables only and keeps them consistent, whether it
  succeeds or fails. When it succeeds the tables record the member as complete, and the file it returns is at
  the managed path of the member; its size and digest are those of the manifest, except for a binary whose
  existing file was reused.\<close>
theorem download_member_records:
  assumes "artifacts_ok (db_artifacts (sd_db s))" and "member_of sdk member" and "download_member sdk tr member tracker s = (r, s')"
  shows "sd_db s' = (sd_db s)\<lparr>db_artifacts := db_artifacts (sd_db s')\<rparr> \<and> artifacts_ok (db_artifacts (sd_db s'))
    \<and> (\<forall>f t. r = Inr (f, t) \<longrightarrow> inspect_member (mb_spec member) None (db_artifacts (sd_db s')) = Inr Complete
         \<and> df_absolute_path f = sp_absolute_path (mb_spec member)
         \<and> (sp_artifact_kind (mb_spec member) = BinaryKind \<and> df_disposition f = SkippedExisting
            \<or> df_size_bytes f = sp_expected_size (mb_spec member) \<and> df_sha256 f = sp_expected_sha256 (mb_spec member)))"
proof -
  note triple = download_member_triple [OF member_of_fits [OF assms(2)], of "sd_db s" sdk tr tracker]
  have start: "downloads_only (sd_db s) (sd_db s)" using assms(1) by (simp add: downloads_only_def)
  have only: "downloads_only (sd_db s) (sd_db s')"
    using dbT_Inr [OF triple start] dbT_Inl [OF triple start] assms(3) by (cases r) (auto simp: complete_def)
  have whole: "complete (sd_db s) member (f, t) (sd_db s')" if "r = Inr (f, t)" for f t
    using dbT_Inr [OF triple start] assms(3) that by simp
  show ?thesis
  proof (intro conjI allI impI)
    show "sd_db s' = (sd_db s)\<lparr>db_artifacts := db_artifacts (sd_db s')\<rparr>"
      using only by (simp add: downloads_only_def) (metis db.surjective db.update_convs(12))
  next
    fix f t assume "r = Inr (f, t)"
    from whole [OF this] show "df_absolute_path f = sp_absolute_path (mb_spec member)"
      by (auto simp: complete_def downloaded_file_def Let_def dest: arg_cong [where f = df_absolute_path])
  next
    fix f t assume "r = Inr (f, t)"
    from whole [OF this] show "sp_artifact_kind (mb_spec member) = BinaryKind \<and> df_disposition f = SkippedExisting
        \<or> df_size_bytes f = sp_expected_size (mb_spec member) \<and> df_sha256 f = sp_expected_sha256 (mb_spec member)"
      by (auto simp: complete_def downloaded_file_def Let_def spec_integrity_def dest: arg_cong [where f = df_size_bytes] arg_cong [where f = df_sha256])
  qed (use only whole in \<open>auto simp: downloads_only_def complete_def recorded_def\<close>)
qed

theorem download_member_records_witness:
  "\<exists>f t s'. download_member store_sdk store_transfer small_member (new_tracker 3) \<lparr>sd_db = empty_db, sd_env = \<lambda>_. None\<rparr> = (Inr (f, t), s')
    \<and> inspect_member (mb_spec small_member) None (db_artifacts (sd_db s')) = Inr Complete \<and> df_size_bytes f = 3"
proof -
  obtain t s' where run: "download_member store_sdk store_transfer small_member (new_tracker 3) \<lparr>sd_db = empty_db, sd_env = \<lambda>_. None\<rparr>
      = (Inr (downloaded_file small_member \<lparr>fi_size_bytes = 3, fi_sha256 = demo_digest\<rparr> Downloaded, t), s')"
    using small_download by blast
  have "member_of store_sdk small_member" using small_member by (auto simp: member_of_def)
  moreover have "artifacts_ok (db_artifacts (sd_db \<lparr>sd_db = empty_db, sd_env = \<lambda>_. None\<rparr>))" by (simp add: empty_db_def empty_artifacts_ok)
  ultimately show ?thesis using download_member_records [OF _ _ run] run by auto
qed

section \<open>Recorded binaries\<close>

text \<open>A binary that the tables record as complete is never transferred again: on a host where every call succeeds, a
  file of any other content is reported as reused, with the size and the digest it has, and a missing file is
  an error.\<close>

lemma recorded_binary_not_repaired:
  assumes kind: "sp_artifact_kind (mb_spec member) = BinaryKind"
    and complete: "inspect_member (mb_spec member) None (db_artifacts d) = Inr Complete"
  shows "F (sp_absolute_path (mb_spec member)) = Some bytes \<Longrightarrow> length bytes < 2 ^ 64 \<Longrightarrow>
      download_member store_sdk store_transfer member tracker \<lparr>sd_db = d, sd_env = F\<rparr>
      = (Inr (downloaded_file member \<lparr>fi_size_bytes = of_nat (length bytes), fi_sha256 = hex_digest (zero_hash bytes)\<rparr> SkippedExisting, tracker),
         \<lparr>sd_db = d, sd_env = F\<rparr>)"
    and "F (sp_absolute_path (mb_spec member)) = None \<Longrightarrow>
      download_member store_sdk store_transfer member tracker \<lparr>sd_db = d, sd_env = F\<rparr>
      = (Inl (Migration (''complete inventory has no physical file for '' @ sp_artifact_key (mb_spec member))), \<lparr>sd_db = d, sd_env = F\<rparr>)"
  by (simp_all add: download_member_def Let_def bindE_def stop_if_cancelled_def cancelled_def on_env_def repository_read_def complete kind
      calculate_file_integrity_def attempt_call_def filesystem_call_def decide_cache_def require_some_def report_def)

end
