(* ===== verification/Manager_Creation.thy ===== *)
theory Manager_Creation
  imports Manager_Download Manager_Autostart
begin

text \<open>
  Creation of a VM: \<open>create_microvm\<close> of src/crates/sdk/src/manager.rs with its stages (validation, prerequisites,
  volume, credential, network and finalization), the progress events it reports to an observer, the journal of what
  it made and the rollback that undoes it. The observer is a function on the environment. The function that runs
  after the claim of the name changes its journal in place and the caller rolls back what the journal holds when it
  fails, so its error carries the journal it had at that point.
\<close>

section \<open>Texts of the standard library\<close>

fun show_hex :: "nat \<Rightarrow> string" where
  "show_hex n = (if n < 16 then [hex_char n] else show_hex (n div 16) @ [hex_char (n mod 16)])"

declare show_hex.simps [simp del]

definition ipv6_segments :: "128 word \<Rightarrow> nat list" where
  "ipv6_segments a = map (\<lambda>i. unat (a div 2 ^ (112 - 16 * i)) mod 2 ^ 16) [0..<8]"

text \<open>The first longest run of zero segments, as its start and its length.\<close>

fun longest_zeros :: "nat \<Rightarrow> nat \<times> nat \<Rightarrow> nat \<times> nat \<Rightarrow> nat list \<Rightarrow> nat \<times> nat" where
  "longest_zeros i current longest [] = longest"
| "longest_zeros i current longest (s # ss) =
     (if s = 0
      then let current' = (if snd current = 0 then (i, 1) else (fst current, snd current + 1)) in
           longest_zeros (i + 1) current' (if snd current' > snd longest then current' else longest) ss
      else longest_zeros (i + 1) (0, 0) longest ss)"

definition show_segments :: "nat list \<Rightarrow> string" where
  "show_segments ss = join_with '':'' (map show_hex ss)"

definition show_ipv6 :: "128 word \<Rightarrow> string" where
  "show_ipv6 a =
     (let ss = ipv6_segments a; (start, len) = longest_zeros 0 (0, 0) (0, 0) ss in
      if take 6 ss = [0, 0, 0, 0, 0, 65535] then ''::ffff:'' @ show_ipv4 (ucast a)
      else if len > 1 then show_segments (take start ss) @ ''::'' @ show_segments (drop (start + len) ss)
      else show_segments ss)"

definition show_ip :: "ip_addr \<Rightarrow> string" where
  "show_ip a = (case a of V4 v \<Rightarrow> show_ipv4 v | V6 v \<Rightarrow> show_ipv6 v)"

text \<open>The order of strings by their bytes, and a stable sort by a total preorder.\<close>

fun str_le :: "string \<Rightarrow> string \<Rightarrow> bool" where
  "str_le [] t = True"
| "str_le (x # xs) [] = False"
| "str_le (x # xs) (y # ys) = (byte x < byte y \<or> x = y \<and> str_le xs ys)"

fun insert_by :: "('a \<Rightarrow> 'a \<Rightarrow> bool) \<Rightarrow> 'a \<Rightarrow> 'a list \<Rightarrow> 'a list" where
  "insert_by le x [] = [x]"
| "insert_by le x (y # ys) = (if le x y then x # y # ys else y # insert_by le x ys)"

definition sort_by :: "('a \<Rightarrow> 'a \<Rightarrow> bool) \<Rightarrow> 'a list \<Rightarrow> 'a list" where
  "sort_by le xs = foldr (insert_by le) xs []"

section \<open>Journal and progress\<close>

record CreationPrerequisites =
  pq_image_path :: path
  pq_kernel :: Kernel
  pq_firecracker :: InstalledBinary
  pq_firectl :: InstalledBinary

record CreationJournal =
  cj_vm_id :: "int option"
  cj_volume_path :: path
  cj_volume_created :: bool
  cj_rootfs_path :: "path option"
  cj_ssh_directory :: "path option"
  cj_private_key_path :: "path option"
  cj_public_key_path :: "path option"
  cj_network :: "PersistedNetwork option"

type_synonym 'w observer = "(CreationProgress \<Rightarrow> 'w \<Rightarrow> 'w) option"

definition TOTAL_CREATION_STEPS :: u64 where
  "TOTAL_CREATION_STEPS = 6"

definition emit_creation_progress :: "'w observer \<Rightarrow> CreationProgress \<Rightarrow> ('e, 'w sdk, unit) io" where
  "emit_creation_progress observer e s =
     (Inr (), case observer of None \<Rightarrow> s | Some f \<Rightarrow> s\<lparr>sd_env := f e (sd_env s)\<rparr>)"

text \<open>The product of the last line is the wrapping one of the release profile. A total so large that it wraps to zero
  makes the code panic on the division; here the share is then zero.\<close>

definition overall_percent :: "u64 \<Rightarrow> (u64 \<times> u64) option \<Rightarrow> u64" where
  "overall_percent completed_steps stage_bytes =
     (let base = saturating_mul completed_steps 100 div TOTAL_CREATION_STEPS in
      case stage_bytes of
        None \<Rightarrow> min base 100
      | Some (bytes, total_bytes) \<Rightarrow>
          if total_bytes = 0 then min base 100
          else let share = saturating_mul (min bytes total_bytes) 100 div (total_bytes * TOTAL_CREATION_STEPS) in
               min (saturating_add base share) 100)"

definition creation_event ::
  "CreationStage \<Rightarrow> u64 \<Rightarrow> CreationEventPhase \<Rightarrow> CreationOutcome option \<Rightarrow> CreationProgress" where
  "creation_event stage completed_steps phase outcome =
     \<lparr>cp_stage = stage, cp_completed_steps = completed_steps, cp_total_steps = TOTAL_CREATION_STEPS,
      cp_overall_percent = overall_percent completed_steps None, cp_phase = phase, cp_bytes_completed = None,
      cp_expected_bytes = None, cp_outcome = outcome\<rparr>"

definition creation_started_event :: "CreationStage \<Rightarrow> u64 \<Rightarrow> CreationProgress" where
  "creation_started_event stage completed_steps = creation_event stage completed_steps Started None"

definition creation_tick_event :: "CreationStage \<Rightarrow> u64 \<Rightarrow> u64 \<Rightarrow> u64 \<Rightarrow> CreationProgress" where
  "creation_tick_event stage completed_steps bytes_completed expected_bytes =
     \<lparr>cp_stage = stage, cp_completed_steps = completed_steps, cp_total_steps = TOTAL_CREATION_STEPS,
      cp_overall_percent = overall_percent completed_steps (Some (bytes_completed, expected_bytes)),
      cp_phase = InProgress, cp_bytes_completed = Some bytes_completed, cp_expected_bytes = Some expected_bytes,
      cp_outcome = None\<rparr>"

definition creation_stage_event :: "CreationStage \<Rightarrow> u64 \<Rightarrow> CreationProgress" where
  "creation_stage_event stage completed_steps = creation_event stage completed_steps Finished None"

definition creation_terminal_event :: "CreationStage \<Rightarrow> u64 \<Rightarrow> CreationOutcome \<Rightarrow> CreationProgress" where
  "creation_terminal_event stage completed_steps outcome = creation_event stage completed_steps Finished (Some outcome)"

text \<open>The callback of byte-moving work.\<close>

definition tick :: "'w observer \<Rightarrow> CreationStage \<Rightarrow> u64 \<Rightarrow> u64 \<Rightarrow> u64 \<Rightarrow> 'w \<Rightarrow> 'w" where
  "tick observer stage completed_steps bytes expected w =
     (case observer of
        None \<Rightarrow> w
      | Some f \<Rightarrow> f (creation_tick_event stage completed_steps bytes (max expected 1)) w)"

text \<open>\<open>match m { Ok(x) => x, Err(error) => { emit(Failed { stage }); return Err(error) } }\<close>.\<close>

definition failing :: "'w observer \<Rightarrow> CreationStage \<Rightarrow> u64 \<Rightarrow> ('w sdk, 'a) sdk_io \<Rightarrow> ('w sdk, 'a) sdk_io" where
  "failing observer stage completed_steps m =
     bindE (attemptE m) (\<lambda>r.
     case r of
       Inr x \<Rightarrow> returnE x
     | Inl e \<Rightarrow>
         bindE (emit_creation_progress observer (creation_terminal_event stage completed_steps (Failed stage))) (\<lambda>_.
         throwE e))"

text \<open>The same in the function that keeps a journal.\<close>

definition in_stage ::
  "'w observer \<Rightarrow> CreationStage \<Rightarrow> u64 \<Rightarrow> CreationJournal \<Rightarrow> ('w sdk, 'a) sdk_io
     \<Rightarrow> (CreationJournal \<times> SdkError, 'w sdk, 'a) io" where
  "in_stage observer stage completed_steps journal m s =
     (case failing observer stage completed_steps m s of
        (Inl e, s') \<Rightarrow> (Inl (journal, e), s')
      | (Inr x, s') \<Rightarrow> (Inr x, s'))"

section \<open>An existing VM\<close>

text \<open>\<open>expect\<close> panics with the error of \<open>require_full\<close>; the callers check the VM before.\<close>

definition build_creation_result :: "StoredMicroVm \<Rightarrow> MicroVmCreationResult result" where
  "build_creation_result stored =
     bindR (require_full ''create MicroVM'' stored) (\<lambda>(n, c, _).
     let rec = st_record stored in
     Inr \<lparr>mcr_name = vm_name rec, mcr_state = Stopped, mcr_distribution_id = vm_distribution_id rec,
       mcr_image_id = vm_image_id rec, mcr_volume_path = vm_volume_path rec, mcr_rootfs_path = vm_rootfs_path rec,
       mcr_socket_path = vm_socket_path rec, mcr_vcpu_count = vm_vcpu_count rec, mcr_memory_bytes = vm_memory_bytes rec,
       mcr_disk_size_bytes = vm_disk_size_bytes rec, mcr_network = pn_config n, mcr_ssh = stored_ssh n c\<rparr>)"

definition load_creation_result :: "'w MicroVmSdk \<Rightarrow> StoredMicroVm \<Rightarrow> ('w sdk, MicroVmCreationResult) sdk_io" where
  "load_creation_result sdk stored =
     bindE (validate_persisted_files sdk stored) (\<lambda>_.
     bindE (liftE (validate_persisted_network (sha256 sdk) stored)) (\<lambda>_.
     liftE (build_creation_result stored)))"

definition creation_comparisons :: "ValidatedCreateRequest \<Rightarrow> StoredMicroVm \<Rightarrow> (string \<times> string \<times> string) list" where
  "creation_comparisons validated existing =
     (let rec = st_record existing; request = vr_request validated in
      [(''distribution_id'', vm_distribution_id rec, cr_distribution_id request),
       (''image_id'', vm_image_id rec, cr_image_id request),
       (''disk_size_bytes'', show_nat (unat (vm_disk_size_bytes rec)), show_nat (unat (cr_disk_size_bytes request))),
       (''vcpu_count'', show_nat (unat (vm_vcpu_count rec)), show_nat (unat (cr_vcpu_count request))),
       (''memory_bytes'', show_nat (unat (vm_memory_bytes rec)), show_nat (unat (cr_memory_bytes request))),
       (''expose_on_lan'', show_bool (vm_expose_on_lan rec), show_bool (cr_expose_on_lan request)),
       (''lan_address'',
          (case st_network existing of
             None \<Rightarrow> []
           | Some n \<Rightarrow> (case nc_lan_address (pn_config n) of None \<Rightarrow> [] | Some a \<Rightarrow> show_ip a)),
          (case cr_lan_address request of None \<Rightarrow> [] | Some a \<Rightarrow> show_ipv4 a)),
       (''volume_path'', show_path (vm_volume_path rec), show_path (vr_volume_path validated))])"

definition configuration_conflict :: "ValidatedCreateRequest \<Rightarrow> StoredMicroVm \<Rightarrow> SdkError option" where
  "configuration_conflict validated existing =
     map_option (\<lambda>(field, current, requested). ConfigurationConflict (vm_name (st_record existing)) field current requested)
       (find (\<lambda>(field, current, requested). current \<noteq> requested) (creation_comparisons validated existing))"

definition return_or_reject_existing_creation ::
  "'w MicroVmSdk \<Rightarrow> 'w observer \<Rightarrow> ValidatedCreateRequest \<Rightarrow> StoredMicroVm \<Rightarrow> ('w sdk, MicroVmCreationResult) sdk_io" where
  "return_or_reject_existing_creation sdk observer validated existing =
     (if \<not> is_complete existing
      then failing observer Validation 0
             (throwE (LifecycleConflict (vm_name (st_record existing)) ''creation incomplete'' ''create MicroVM''))
      else case configuration_conflict validated existing of
        Some e \<Rightarrow> failing observer Validation 0 (throwE e)
      | None \<Rightarrow>
          bindE (failing observer Validation 0 (load_creation_result sdk existing)) (\<lambda>result.
          bindE (emit_creation_progress observer (creation_terminal_event Validation 0 AlreadyConfigured)) (\<lambda>_.
          returnE result)))"

section \<open>Prerequisites\<close>

definition host_architecture :: "'w MicroVmSdk \<Rightarrow> Architecture result" where
  "host_architecture sdk =
     (if ARCH sdk = ''x86_64'' then Inr X86_64
      else if ARCH sdk = ''aarch64'' then Inr Aarch64
      else if ARCH sdk \<in> {''arm'', ''armv7'', ''armv7a''} then Inr Arm
      else if ARCH sdk = ''riscv64'' then Inr Riscv64
      else if ARCH sdk \<in> {''x86'', ''i686''} then Inr X86
      else Inl (RuntimeIncompatible ''host'' ''host'' ''unknown'' (ARCH sdk)
             ''the host architecture is not supported by this SDK''))"

text \<open>The read loop, on the contents of the file: a regular file fills the buffer of 64 KiB up to its end.\<close>

function read_loop ::
  "'w observer \<Rightarrow> u64 \<Rightarrow> string \<Rightarrow> u64 \<Rightarrow> ('w sdk, u64) sdk_io" where
  "read_loop observer expected bytes size_bytes =
     (if bytes = [] then returnE size_bytes
      else
      bindE (require_some (checked_add size_bytes (of_nat (length (take 65536 bytes))))
              (Migration ''artifact file size exceeds u64 range'')) (\<lambda>n.
      bindE (on_env (\<lambda>w. (Inr (), tick observer PrerequisiteResolution 1 (min n expected) expected w))) (\<lambda>_.
      read_loop observer expected (drop 65536 bytes) n)))"
  by pat_completeness auto

termination
  by (relation "measure (\<lambda>(_, _, bytes, _). length bytes)") auto

declare read_loop.simps [simp del]

definition calculate_file_integrity_with_progress ::
  "'w MicroVmSdk \<Rightarrow> 'w observer \<Rightarrow> path \<Rightarrow> u64 \<Rightarrow> ('w sdk, FileIntegrity option) sdk_io" where
  "calculate_file_integrity_with_progress sdk observer p expected_bytes =
     bindE (attempt_call (symlink_metadata (files sdk) p)) (\<lambda>r.
     case r of
       Inl e \<Rightarrow> if io_kind e = NotFoundKind then returnE None
                else throwE (Filesystem ''inspect artifact file'' p e)
     | Inr m \<Rightarrow>
         if md_is_symlink m \<or> \<not> md_is_file m then returnE None
         else
         let expected = max expected_bytes 1 in
         bindE (filesystem_call ''open artifact file'' p (open_file (files sdk) p)) (\<lambda>_.
         bindE (filesystem_call ''read artifact file'' p (read_file (files sdk) p)) (\<lambda>bytes.
         bindE (read_loop observer expected bytes 0) (\<lambda>n.
         bindE (on_env (\<lambda>w. (Inr (), tick observer PrerequisiteResolution 1 expected expected w))) (\<lambda>_.
         returnE (Some \<lparr>fi_size_bytes = n, fi_sha256 = hex_digest (sha256 sdk bytes)\<rparr>))))))"

definition verify_local_artifact_with_progress ::
  "'w MicroVmSdk \<Rightarrow> 'w observer \<Rightarrow> LocalArtifact \<Rightarrow> u64 \<Rightarrow> string \<Rightarrow> string \<Rightarrow> string \<Rightarrow> ('w sdk, unit) sdk_io" where
  "verify_local_artifact_with_progress sdk observer local expected_size expected_sha256 kind i =
     (let p = la_path local; missing = (\<lambda>reason. ArtifactPrerequisite kind i p (Text reason)) in
      if \<not> path_is_below_home (home sdk) p then throwE (missing ''the inventory path escapes the SDK home'')
      else if la_size_bytes local \<noteq> expected_size \<or> la_sha256 local \<noteq> expected_sha256
      then throwE (missing ''the local inventory does not match the selected registry metadata'')
      else
      bindE (calculate_file_integrity_with_progress sdk observer p (max expected_size 1)) (\<lambda>r.
      case r of
        None \<Rightarrow> throwE (missing ''the downloaded file is missing, not regular, or is a symlink'')
      | Some integrity \<Rightarrow>
          if fi_size_bytes integrity \<noteq> expected_size \<or> fi_sha256 integrity \<noteq> expected_sha256
          then throwE (integrity_mismatch (kind @ '':'' @ i) expected_size expected_sha256 integrity)
          else returnE ()))"

text \<open>The candidates of a component, the newest version first and the smallest identifier first among equals.\<close>

definition newer_first :: "'w MicroVmSdk \<Rightarrow> BinaryPackage \<Rightarrow> BinaryPackage \<Rightarrow> bool" where
  "newer_first sdk l r \<longleftrightarrow>
     version_less sdk (bp_version r) (bp_version l)
     \<or> \<not> version_less sdk (bp_version l) (bp_version r) \<and> str_le (bp_id l) (bp_id r)"

definition runtime_candidates ::
  "'w MicroVmSdk \<Rightarrow> BinaryPackage list \<Rightarrow> string \<Rightarrow> Architecture \<Rightarrow> BinaryPackage list" where
  "runtime_candidates sdk packages component architecture =
     sort_by (newer_first sdk)
       (filter (\<lambda>p. bp_architecture p = architecture \<and> list_ex (\<lambda>f. bf_name f = component) (bp_files p)
          \<and> version_valid sdk (bp_version p)) packages)"

definition try_candidate ::
  "'w MicroVmSdk \<Rightarrow> string \<Rightarrow> Architecture \<Rightarrow> BinaryPackage \<Rightarrow> ('w sdk, InstalledBinary) sdk_io" where
  "try_candidate sdk component architecture package =
     bindE (resolve_binary sdk (bp_id package) component) (\<lambda>binary.
     if ib_architecture binary \<noteq> architecture \<or> \<not> ib_executable binary
     then throwE (RuntimeIncompatible component (bp_id package) (bp_version package)
            (architecture_name (ib_architecture binary)) ''the installed component is not an executable for the host'')
     else if ib_version binary \<noteq> bp_version package
     then throwE (RuntimeIncompatible component (bp_id package) (ib_version binary)
            (architecture_name (ib_architecture binary)) ''the installed inventory version does not match the registry'')
     else bindE (verify_executable_file sdk (ib_path binary) component) (\<lambda>_. returnE binary))"

fun first_candidate ::
  "'w MicroVmSdk \<Rightarrow> string \<Rightarrow> Architecture \<Rightarrow> SdkError option \<Rightarrow> BinaryPackage list \<Rightarrow> ('w sdk, InstalledBinary) sdk_io" where
  "first_candidate sdk component architecture last_error [] =
     throwE (ArtifactPrerequisite ''runtime binary'' component
       (path_join (path_join (home sdk) (components ''tools'')) (components component))
       (case last_error of
          Some e \<Rightarrow> Prefixed (''no verified host-compatible '' @ component @ '' is available: '') e
        | None \<Rightarrow> Text (''download a verified '' @ component @ '' package for host architecture ''
            @ architecture_name architecture @ '' first'')))"
| "first_candidate sdk component architecture last_error (p # ps) =
     bindE (attemptE (try_candidate sdk component architecture p)) (\<lambda>r.
     case r of
       Inr binary \<Rightarrow> returnE binary
     | Inl e \<Rightarrow> first_candidate sdk component architecture (Some e) ps)"

definition select_runtime_binary ::
  "'w MicroVmSdk \<Rightarrow> BinaryPackage list \<Rightarrow> string \<Rightarrow> Architecture \<Rightarrow> ('w sdk, InstalledBinary) sdk_io" where
  "select_runtime_binary sdk packages component architecture =
     first_candidate sdk component architecture None (runtime_candidates sdk packages component architecture)"

text \<open>The part of the resolution that reads the manifest only.\<close>

definition select_from_manifest ::
  "'w MicroVmSdk \<Rightarrow> CreateMicroVmRequest \<Rightarrow> Architecture \<Rightarrow> TaumaruRegistry
     \<Rightarrow> (Distribution \<times> DistributionImage \<times> Kernel) result" where
  "select_from_manifest sdk request architecture manifest =
     bindR (find_distribution (cr_distribution_id request) manifest) (\<lambda>d.
     if d_architecture d \<noteq> architecture
     then Inl (IncompatibleArtifact (''distribution:'' @ d_id d)
            (''architecture '' @ architecture_name (d_architecture d) @ '' is not supported by host architecture ''
               @ architecture_name architecture))
     else
     bindR (find_image (cr_image_id request) d) (\<lambda>img.
     if di_format img \<noteq> ''ext4'' \<or> fs_filesystem_type (di_filesystem img) \<noteq> ''ext4''
     then Inl (IncompatibleArtifact (''distribution image:'' @ di_id img)
            ''the selected image is not an ext4 filesystem image'')
     else if cr_disk_size_bytes request < di_size_bytes img
     then Inl (DiskSizeTooSmall (di_id img) (cr_disk_size_bytes request) (di_size_bytes img))
     else
     bindR (minimum_memory_bytes (dr_min_memory_mb (d_requirements d))) (\<lambda>minimum_memory.
     if cr_memory_bytes request < minimum_memory
     then Inl (InvalidRequest ''memory_bytes''
            (''must be at least '' @ show_nat (unat minimum_memory) @ '' bytes for distribution '' @ d_id d))
     else if cr_vcpu_count request < dr_min_vcpus (d_requirements d)
     then Inl (InvalidRequest ''vcpu_count''
            (''must be at least '' @ show_nat (unat (dr_min_vcpus (d_requirements d))) @ '' vCPUs for distribution '' @ d_id d))
     else
     bindR (ok_or (find (\<lambda>k. k_id k = d_default_kernel d) (reg_kernels manifest))
             (ArtifactPrerequisite ''kernel'' (d_default_kernel d) (in_volume (home sdk) ''artifacts/kernels'')
                (Text ''the distribution default kernel is absent from the registry manifest''))) (\<lambda>kern.
     if k_architecture kern \<noteq> architecture
     then Inl (IncompatibleArtifact (''kernel:'' @ k_id kern)
            (''kernel architecture '' @ architecture_name (k_architecture kern) @ '' does not match host architecture ''
               @ architecture_name architecture))
     else Inr (d, img, kern)))))"

definition resolve_creation_prerequisites ::
  "'w MicroVmSdk \<Rightarrow> 'w observer \<Rightarrow> CreateMicroVmRequest \<Rightarrow> ('w sdk, CreationPrerequisites) sdk_io" where
  "resolve_creation_prerequisites sdk observer request =
     bindE (liftE (host_architecture sdk)) (\<lambda>architecture.
     bindE (on_env (fetch_manifest sdk)) (\<lambda>manifest.
     bindE (liftE (select_from_manifest sdk request architecture manifest)) (\<lambda>(d, img, kern).
     bindE (map_err (\<lambda>e. map_artifact_resolution_error e ''distribution image'' (di_id img)
               (in_volume (home sdk) ''artifacts/rootfs''))
             (repository_read sdk (\<lambda>db. resolve_distribution_image (d_id d) (di_id img) (db_artifacts db)))) (\<lambda>image_local.
     bindE (verify_local_artifact_with_progress sdk observer image_local (di_size_bytes img) (di_sha256 img)
              ''distribution image'' (di_id img)) (\<lambda>_.
     bindE (map_err (\<lambda>e. map_artifact_resolution_error e ''kernel'' (k_id kern)
               (in_volume (home sdk) ''artifacts/kernels''))
             (repository_read sdk (\<lambda>db. resolve_kernel (k_id kern) (db_artifacts db)))) (\<lambda>kernel_local.
     bindE (verify_local_artifact_with_progress sdk observer kernel_local (k_size_bytes kern) (k_sha256 kern)
              ''kernel'' (k_id kern)) (\<lambda>_.
     bindE (select_runtime_binary sdk (reg_binaries manifest) ''firecracker'' architecture) (\<lambda>firecracker.
     bindE (select_runtime_binary sdk (reg_binaries manifest) ''firectl'' architecture) (\<lambda>firectl.
     returnE \<lparr>pq_image_path = la_path image_local, pq_kernel = kern, pq_firecracker = firecracker,
       pq_firectl = firectl\<rparr>)))))))))"

definition ensure_volume_empty :: "'w MicroVmSdk \<Rightarrow> string \<Rightarrow> path \<Rightarrow> ('w sdk, unit) sdk_io" where
  "ensure_volume_empty sdk name volume =
     bindE (attempt_call (symlink_metadata (files sdk) volume)) (\<lambda>r.
     case r of
       Inl e \<Rightarrow> if io_kind e = NotFoundKind then returnE ()
               else throwE (Filesystem ''inspect VM volume directory'' volume e)
     | Inr m \<Rightarrow>
         if md_is_symlink m \<or> \<not> md_is_dir m
         then throwE (StorageConflict name volume ''unmanaged filesystem entry'' ''the VM volume must be a real directory'')
         else
         bindE (filesystem_call ''inspect VM volume contents'' volume (read_dir (files sdk) volume)) (\<lambda>entries.
         case entries of
           [] \<Rightarrow> returnE ()
         | Inl e # _ \<Rightarrow> throwE (Filesystem ''inspect VM volume contents'' volume e)
         | Inr _ # _ \<Rightarrow>
             throwE (StorageConflict name volume ''unmanaged volume contents''
               ''refusing to mix creation-owned files with existing data'')))"

definition ensure_volume_available :: "'w MicroVmSdk \<Rightarrow> string \<Rightarrow> path \<Rightarrow> ('w sdk, unit) sdk_io" where
  "ensure_volume_available sdk name volume =
     bindE (repository_read sdk (\<lambda>db. Inr (find_volume_owner volume db))) (\<lambda>owner.
     case owner of
       Some o' \<Rightarrow>
         if o' \<noteq> name
         then throwE (StorageConflict name volume o' ''the volume is already assigned to another VM'')
         else ensure_volume_empty sdk name volume
     | None \<Rightarrow> ensure_volume_empty sdk name volume)"

section \<open>The claimed VM\<close>

definition prepare_volume ::
  "'w MicroVmSdk \<Rightarrow> 'w observer \<Rightarrow> ValidatedCreateRequest \<Rightarrow> CreationPrerequisites \<Rightarrow> MicroVmRecord \<Rightarrow> CreationJournal
     \<Rightarrow> (CreationJournal \<times> SdkError, 'w sdk, PreparedRootfs \<times> CreationJournal) io" where
  "prepare_volume sdk observer validated prerequisites rec journal =
     bindE (emit_creation_progress observer (creation_started_event VolumePreparation 2)) (\<lambda>_.
     bindE (in_stage observer VolumePreparation 2 journal
              (on_env (prepare_rootfs (storage sdk) (pq_image_path prerequisites) (vm_volume_path rec)
                (cr_disk_size_bytes (vr_request validated)) (tick observer VolumePreparation 2)))) (\<lambda>prepared.
     bindE (emit_creation_progress observer (creation_stage_event VolumePreparation 3)) (\<lambda>_.
     returnE (prepared, journal\<lparr>cj_volume_created := rf_created_volume prepared,
       cj_rootfs_path := Some (rf_path prepared)\<rparr>))))"

definition set_up_credential ::
  "'w MicroVmSdk \<Rightarrow> 'w observer \<Rightarrow> MicroVmRecord \<Rightarrow> PreparedRootfs \<Rightarrow> CreationJournal
     \<Rightarrow> (CreationJournal \<times> SdkError, 'w sdk, GeneratedCredential \<times> CreationJournal) io" where
  "set_up_credential sdk observer rec prepared journal =
     bindE (emit_creation_progress observer (creation_started_event CredentialSetup 3)) (\<lambda>_.
     let journal1 = journal\<lparr>cj_ssh_directory := Some (in_volume (vm_volume_path rec) ''ssh'')\<rparr> in
     bindE (in_stage observer CredentialSetup 3 journal1
              (on_env (generate_credential sdk (vm_volume_path rec)))) (\<lambda>generated.
     let journal2 = journal1\<lparr>cj_private_key_path := Some (gc_private_key_path generated),
           cj_public_key_path := Some (gc_public_key_path generated)\<rparr> in
     bindE (in_stage observer CredentialSetup 3 journal2
              (on_env (inject_public_key (storage sdk) (rf_path prepared) (gc_public_key generated)))) (\<lambda>_.
     bindE (emit_creation_progress observer (creation_stage_event CredentialSetup 4)) (\<lambda>_.
     returnE (generated, journal2)))))"

definition creation_network_request :: "'w MicroVmSdk \<Rightarrow> ValidatedCreateRequest \<Rightarrow> MicroVmRecord \<Rightarrow> NetworkRequest" where
  "creation_network_request sdk validated rec =
     \<lparr>nr_vm_name = vm_name rec, nr_mode = (if cr_expose_on_lan (vr_request validated) then Lan else HostOnly),
      nr_guest_mac = guest_mac (sha256 sdk) (vm_name rec), nr_lan_address_override = cr_lan_address (vr_request validated),
      nr_guest_address_override = None, nr_prefix_length_override = None, nr_gateway_override = None,
      nr_exact_network_values = False\<rparr>"

definition write_guest_config :: "'w MicroVmSdk \<Rightarrow> PreparedRootfs \<Rightarrow> NetworkConfiguration \<Rightarrow> ('w sdk, unit) sdk_io" where
  "write_guest_config sdk prepared config =
     (case (nc_guest_address config, nc_gateway config, nc_lan_address config) of
        (V4 guest, Some (V4 gateway), Some (V4 lan)) \<Rightarrow>
          on_env (write_guest_lan_config (storage sdk) (rf_path prepared) guest gateway lan)
      | (V4 guest, Some (V4 gateway), _) \<Rightarrow>
          on_env (write_guest_network_config (storage sdk) (rf_path prepared) guest gateway)
      | _ \<Rightarrow> returnE ())"

definition set_up_network ::
  "'w MicroVmSdk \<Rightarrow> 'w observer \<Rightarrow> ValidatedCreateRequest \<Rightarrow> MicroVmRecord \<Rightarrow> PreparedRootfs \<Rightarrow> CreationJournal
     \<Rightarrow> (CreationJournal \<times> SdkError, 'w sdk, NetworkOutcome \<times> CreationJournal) io" where
  "set_up_network sdk observer validated rec prepared journal =
     bindE (emit_creation_progress observer (creation_started_event NetworkConfigurationStage 4)) (\<lambda>_.
     bindE (in_stage observer NetworkConfigurationStage 4 journal
              (repository_read sdk (\<lambda>db. Inr (list_host_only_networks db)))) (\<lambda>used.
     bindE (in_stage observer NetworkConfigurationStage 4 journal
              (repository_read sdk (\<lambda>db. Inr (list_lan_addresses db)))) (\<lambda>used_lan.
     bindE (in_stage observer NetworkConfigurationStage 4 journal
              (on_env (configure_port (network sdk) (creation_network_request sdk validated rec) None used used_lan))) (\<lambda>outcome.
     bindE (in_stage observer NetworkConfigurationStage 4 journal
              (write_guest_config sdk prepared (pn_config (no_persisted outcome)))) (\<lambda>_.
     bindE (emit_creation_progress observer (creation_stage_event NetworkConfigurationStage 5)) (\<lambda>_.
     returnE (outcome, journal\<lparr>cj_network := Some (no_persisted outcome)\<rparr>)))))))"

definition creation_credential :: "GeneratedCredential \<Rightarrow> PersistedCredential" where
  "creation_credential generated =
     \<lparr>pc_private_key_path = gc_private_key_path generated, pc_public_key_path = gc_public_key_path generated,
      pc_guest_authorized_keys_path = ''/root/.ssh/authorized_keys'', pc_key_type = ''ed25519'', pc_ssh_user = ''root'',
      pc_ssh_port = 22, pc_public_key_fingerprint = gc_fingerprint generated, pc_file_mode = gc_file_mode generated\<rparr>"

definition creation_runtime :: "CreationPrerequisites \<Rightarrow> MicroVmRecord \<Rightarrow> PersistedRuntime" where
  "creation_runtime prerequisites rec =
     \<lparr>rt_firecracker_path = ib_path (pq_firecracker prerequisites), rt_firectl_path = ib_path (pq_firectl prerequisites),
      rt_socket_path = vm_socket_path rec, rt_process_id = None, rt_process_state = ''stopped''\<rparr>"

definition unspecified_address :: ip_addr where
  "unspecified_address = V4 0"

definition created_result ::
  "MicroVmRecord \<Rightarrow> NetworkOutcome \<Rightarrow> PersistedCredential \<Rightarrow> CreationJournal \<Rightarrow> MicroVmCreationResult" where
  "created_result rec outcome credential journal =
     \<lparr>mcr_name = vm_name rec, mcr_state = Stopped, mcr_distribution_id = vm_distribution_id rec,
      mcr_image_id = vm_image_id rec, mcr_volume_path = vm_volume_path rec, mcr_rootfs_path = vm_rootfs_path rec,
      mcr_socket_path = vm_socket_path rec, mcr_vcpu_count = vm_vcpu_count rec, mcr_memory_bytes = vm_memory_bytes rec,
      mcr_disk_size_bytes = vm_disk_size_bytes rec, mcr_network = pn_config (no_persisted outcome),
      mcr_ssh = \<lparr>ssh_user = pc_ssh_user credential, ssh_port = pc_ssh_port credential,
        ssh_address = (case cj_network journal of None \<Rightarrow> unspecified_address | Some n \<Rightarrow> nc_guest_address (pn_config n)),
        ssh_private_key_path = pc_private_key_path credential, ssh_public_key_path = pc_public_key_path credential\<rparr>\<rparr>"

definition finalize ::
  "'w MicroVmSdk \<Rightarrow> 'w observer \<Rightarrow> CreationPrerequisites \<Rightarrow> MicroVmRecord \<Rightarrow> GeneratedCredential \<Rightarrow> NetworkOutcome
     \<Rightarrow> CreationJournal \<Rightarrow> (CreationJournal \<times> SdkError, 'w sdk, MicroVmCreationResult) io" where
  "finalize sdk observer prerequisites rec generated outcome journal =
     bindE (emit_creation_progress observer (creation_started_event Finalization 5)) (\<lambda>_.
     let credential = creation_credential generated in
     bindE (in_stage observer Finalization 5 journal
              (bindE (repository_stamped sdk (\<lambda>now. persist_network now (vm_id rec) (no_persisted outcome))) (\<lambda>_.
               repository_write sdk (persist_credential (vm_id rec) credential)))) (\<lambda>_.
     bindE (in_stage observer Finalization 5 journal
              (on_env (verify_stopped (runtime sdk) (vm_socket_path rec)))) (\<lambda>_.
     bindE (in_stage observer Finalization 5 journal
              (repository_stamped sdk (\<lambda>now. persist_runtime now (vm_id rec) (creation_runtime prerequisites rec)))) (\<lambda>_.
     bindE (emit_creation_progress observer (creation_stage_event Finalization 6)) (\<lambda>_.
     returnE (created_result rec outcome credential journal))))))"

definition create_claimed_microvm ::
  "'w MicroVmSdk \<Rightarrow> 'w observer \<Rightarrow> ValidatedCreateRequest \<Rightarrow> CreationPrerequisites \<Rightarrow> MicroVmRecord \<Rightarrow> CreationJournal
     \<Rightarrow> (CreationJournal \<times> SdkError, 'w sdk, MicroVmCreationResult) io" where
  "create_claimed_microvm sdk observer validated prerequisites rec journal =
     bindE (prepare_volume sdk observer validated prerequisites rec journal) (\<lambda>(prepared, journal1).
     bindE (set_up_credential sdk observer rec prepared journal1) (\<lambda>(generated, journal2).
     bindE (set_up_network sdk observer validated rec prepared journal2) (\<lambda>(outcome, journal3).
     finalize sdk observer prerequisites rec generated outcome journal3)))"

section \<open>Rollback\<close>

definition keep_bridge :: "PersistedNetwork \<Rightarrow> PersistedNetwork" where
  "keep_bridge n = n\<lparr>pn_bridge_created_by_sdk := False, pn_uplink_attached_by_sdk := False\<rparr>"

text \<open>The network to clean up, without the bridge when another VM uses it or that is not known.\<close>

definition rollback_network ::
  "'w MicroVmSdk \<Rightarrow> int option \<Rightarrow> PersistedNetwork \<Rightarrow> ('w sdk, message list \<times> PersistedNetwork) sdk_io" where
  "rollback_network sdk claimed n =
     (if nc_mode (pn_config n) = Lan \<and> (pn_bridge_created_by_sdk n \<or> pn_uplink_attached_by_sdk n)
      then case (nc_bridge_name (pn_config n), nc_uplink_name (pn_config n)) of
          (Some bridge, Some uplink) \<Rightarrow>
            (case claimed of
               Some i \<Rightarrow>
                 bindE (attemptE (repository_read sdk (\<lambda>db. Inr (bridge_has_other_references i bridge uplink db)))) (\<lambda>r.
                 returnE (case r of
                     Inr shared \<Rightarrow> ([], if shared then keep_bridge n else n)
                   | Inl e \<Rightarrow> ([Shown e], keep_bridge n)))
             | None \<Rightarrow> returnE ([Text ''network rollback has no provisional VM identity''], keep_bridge n))
        | _ \<Rightarrow> returnE ([], n)
      else returnE ([], n))"

definition clean_up_network ::
  "'w MicroVmSdk \<Rightarrow> CreationJournal \<Rightarrow> ('w sdk, message list) sdk_io" where
  "clean_up_network sdk journal =
     (case cj_network journal of
        None \<Rightarrow> returnE []
      | Some n \<Rightarrow>
          bindE (rollback_network sdk (cj_vm_id journal) n) (\<lambda>(failures, n').
          note_failure failures (on_env (cleanup_port (network sdk) n'))))"

fun remove_created_files :: "'w MicroVmSdk \<Rightarrow> path option list \<Rightarrow> message list \<Rightarrow> ('w sdk, message list) sdk_io" where
  "remove_created_files sdk [] failures = returnE failures"
| "remove_created_files sdk (None # ps) failures = remove_created_files sdk ps failures"
| "remove_created_files sdk (Some p # ps) failures =
     bindE (attempt_call (symlink_metadata (files sdk) p)) (\<lambda>r.
     case r of
       Inr _ \<Rightarrow>
         bindE (attempt_call (remove_file (files sdk) p)) (\<lambda>r'.
         remove_created_files sdk ps (case r' of
             Inl e \<Rightarrow> failures @ [Text (''remove '' @ show_path p @ '': '' @ io_text e)]
           | Inr _ \<Rightarrow> failures))
     | Inl e \<Rightarrow>
         remove_created_files sdk ps (if io_kind e = NotFoundKind then failures
           else failures @ [Text (''inspect '' @ show_path p @ '': '' @ io_text e)]))"

definition remove_created_dir :: "'w MicroVmSdk \<Rightarrow> path option \<Rightarrow> message list \<Rightarrow> ('w sdk, message list) sdk_io" where
  "remove_created_dir sdk dir failures =
     (case dir of
        None \<Rightarrow> returnE failures
      | Some p \<Rightarrow>
          bindE (attempt_call (remove_dir (files sdk) p)) (\<lambda>r.
          returnE (case r of
              Inl e \<Rightarrow> if io_kind e = NotFoundKind then failures
                       else failures @ [Text (''remove '' @ show_path p @ '': '' @ io_text e)]
            | Inr _ \<Rightarrow> failures)))"

definition rollback_creation :: "'w MicroVmSdk \<Rightarrow> CreationJournal \<Rightarrow> ('w sdk, message list) sdk_io" where
  "rollback_creation sdk journal =
     bindE (clean_up_network sdk journal) (\<lambda>f1.
     bindE (remove_created_files sdk [cj_private_key_path journal, cj_public_key_path journal, cj_rootfs_path journal] f1) (\<lambda>f2.
     bindE (remove_created_dir sdk (cj_ssh_directory journal) f2) (\<lambda>f3.
     bindE (remove_created_dir sdk (if cj_volume_created journal then Some (cj_volume_path journal) else None) f3) (\<lambda>f4.
     case cj_vm_id journal of
       None \<Rightarrow> returnE f4
     | Some i \<Rightarrow> note_failure f4 (repository_stamped sdk (\<lambda>now. delete_microvm now i))))))"

section \<open>The operation\<close>

definition map_insert_creation_error :: "SdkError \<Rightarrow> string \<Rightarrow> path \<Rightarrow> SdkError" where
  "map_insert_creation_error e name volume =
     (case e of
        Sqlite text \<Rightarrow>
          if str_contains text ''UNIQUE''
          then StorageConflict name volume ''another concurrent creation attempt''
                 ''the VM name or volume path was claimed concurrently''
          else e
      | _ \<Rightarrow> e)"

definition creation_record :: "ValidatedCreateRequest \<Rightarrow> CreationPrerequisites \<Rightarrow> int \<Rightarrow> MicroVmRecord" where
  "creation_record validated prerequisites now =
     (let request = vr_request validated; volume = vr_volume_path validated in
      \<lparr>vm_id = 0, vm_name = cr_name request, vm_distribution_id = cr_distribution_id request,
       vm_image_id = cr_image_id request, vm_kernel_id = k_id (pq_kernel prerequisites),
       vm_firecracker_package_id = ib_package_id (pq_firecracker prerequisites),
       vm_firectl_package_id = ib_package_id (pq_firectl prerequisites), vm_disk_size_bytes = cr_disk_size_bytes request,
       vm_memory_bytes = cr_memory_bytes request, vm_memory_effective_mib = vr_memory_effective_mib validated,
       vm_vcpu_count = cr_vcpu_count request, vm_volume_path = volume, vm_rootfs_path = in_volume volume ''rootfs.ext4'',
       vm_socket_path = in_volume volume ''firecracker.sock'', vm_expose_on_lan = cr_expose_on_lan request,
       vm_created_at = now\<rparr>)"

text \<open>The second stage, up to the claim of the name in the inventory.\<close>

definition claim_microvm ::
  "'w MicroVmSdk \<Rightarrow> 'w observer \<Rightarrow> ValidatedCreateRequest \<Rightarrow> ('w sdk, CreationPrerequisites \<times> MicroVmRecord) sdk_io" where
  "claim_microvm sdk observer validated =
     (let name = cr_name (vr_request validated); volume = vr_volume_path validated in
      bindE (resolve_creation_prerequisites sdk observer (vr_request validated)) (\<lambda>prerequisites.
      bindE (on_env (validate_host (runtime sdk))) (\<lambda>_.
      bindE (ensure_volume_available sdk name volume) (\<lambda>_.
      bindE (on_env (unix_timestamp sdk)) (\<lambda>now.
      let rec = creation_record validated prerequisites now in
      bindE (map_err (\<lambda>e. map_insert_creation_error e name volume) (repository_write sdk (insert_microvm rec))) (\<lambda>i.
      returnE (prerequisites, rec\<lparr>vm_id := i\<rparr>)))))))"

definition new_journal :: "MicroVmRecord \<Rightarrow> CreationJournal" where
  "new_journal rec =
     \<lparr>cj_vm_id = Some (vm_id rec), cj_volume_path = vm_volume_path rec, cj_volume_created = False, cj_rootfs_path = None,
      cj_ssh_directory = None, cj_private_key_path = None, cj_public_key_path = None, cj_network = None\<rparr>"

text \<open>The end of \<open>create_microvm\<close>: the terminal event of a success, the rollback of a failure.\<close>

definition create_or_roll_back ::
  "'w MicroVmSdk \<Rightarrow> 'w observer \<Rightarrow> ValidatedCreateRequest \<Rightarrow> CreationPrerequisites \<Rightarrow> MicroVmRecord
     \<Rightarrow> ('w sdk, MicroVmCreationResult) sdk_io" where
  "create_or_roll_back sdk observer validated prerequisites rec s =
     (case create_claimed_microvm sdk observer validated prerequisites rec (new_journal rec) s of
        (Inr result, s') \<Rightarrow>
          bindE (emit_creation_progress observer (creation_terminal_event Finalization 6 CreationOutcome.Completed)) (\<lambda>_.
          returnE result) s'
      | (Inl (journal, primary), s') \<Rightarrow>
          bindE (rollback_creation sdk journal) (\<lambda>failures. throwE (with_cleanup_failures primary failures)) s')"

definition create_new_microvm ::
  "'w MicroVmSdk \<Rightarrow> 'w observer \<Rightarrow> ValidatedCreateRequest \<Rightarrow> ('w sdk, MicroVmCreationResult) sdk_io" where
  "create_new_microvm sdk observer validated =
     bindE (emit_creation_progress observer (creation_stage_event Validation 1)) (\<lambda>_.
     bindE (emit_creation_progress observer (creation_started_event PrerequisiteResolution 1)) (\<lambda>_.
     bindE (failing observer PrerequisiteResolution 1 (claim_microvm sdk observer validated)) (\<lambda>(prerequisites, rec).
     bindE (emit_creation_progress observer (creation_stage_event PrerequisiteResolution 2)) (\<lambda>_.
     create_or_roll_back sdk observer validated prerequisites rec))))"

definition lock_targets :: "'w MicroVmSdk \<Rightarrow> ValidatedCreateRequest \<Rightarrow> ('w sdk, unit) sdk_io" where
  "lock_targets sdk validated =
     (let name_lock = path_join (path_join (home sdk) (components ''vms'')) (components (cr_name (vr_request validated)));
          volume = vr_volume_path validated in
      bindE (on_env (target_lock sdk name_lock)) (\<lambda>_.
      whenE (volume \<noteq> name_lock) (bindE (on_env (target_lock sdk volume)) (\<lambda>_. returnE ()))))"

definition create_microvm ::
  "'w MicroVmSdk \<Rightarrow> 'w observer \<Rightarrow> CreateMicroVmRequest \<Rightarrow> ('w sdk, MicroVmCreationResult) sdk_io" where
  "create_microvm sdk observer request =
     bindE (emit_creation_progress observer (creation_started_event Validation 0)) (\<lambda>_.
     bindE (failing observer Validation 0 (liftE (validate request (home sdk)))) (\<lambda>validated.
     bindE (failing observer Validation 0 (lock_targets sdk validated)) (\<lambda>_.
     bindE (failing observer Validation 0 (repository_read sdk (find_microvm (cr_name (vr_request validated))))) (\<lambda>existing.
     case existing of
       Some stored \<Rightarrow> return_or_reject_existing_creation sdk observer validated stored
     | None \<Rightarrow> create_new_microvm sdk observer validated))))"

end
