(* ===== verification/Demo_Creation.thy ===== *)
theory Demo_Creation
  imports Manager_Creation Demo_Host
begin

text \<open>
  A creation that succeeds: the request for the VM of Inventory_Contract on a host whose ports answer as those of
  Demo_Host do and leave their environment alone, with the artifacts of Artifact_Contract in the inventory. The
  observer is arbitrary.
\<close>

definition steady_sdk :: "'w MicroVmSdk" where
  "steady_sdk =
     \<lparr>home = [RootDir, Normal ''h''],
      runtime = \<lparr>validate_host = returnE (), verify_stopped = (\<lambda>_. returnE ()), process_references_vm = (\<lambda>_ _ _ _. returnE False),
        socket_answers = (\<lambda>_. returnE False), launch_detached = (\<lambda>_. returnE 7), wait_for_socket = (\<lambda>_. returnE True),
        request_shutdown = (\<lambda>_. returnE True), wait_for_stop = (\<lambda>_ _ _ _ _. returnE True), terminate_spawned = (\<lambda>_. returnE ())\<rparr>,
      runtime_disk = \<lparr>ensure_mapping = (\<lambda>_ _. returnE), release_mapping = (\<lambda>_ _ _. returnE ())\<rparr>,
      network = \<lparr>configure_port = (\<lambda>_ _ _ _. returnE \<lparr>no_persisted = demo_network, no_applied = [], no_skipped = []\<rparr>),
         cleanup_port = (\<lambda>_. returnE ()), cleanup_for_delete_port = (\<lambda>_. returnE ())\<rparr>,
      storage = \<lparr>prepare_rootfs = (\<lambda>_ volume _ notify w. (Inr \<lparr>rf_path = in_volume volume ''rootfs.ext4'', rf_created_volume = True\<rparr>, notify 1 1 w)),
        inject_public_key = (\<lambda>_ _. returnE ()), write_guest_network_config = (\<lambda>_ _ _. returnE ()),
        write_guest_lan_config = (\<lambda>_ _ _ _. returnE ()), disk_used_bytes = (\<lambda>_. returnE 1), resize_rootfs = (\<lambda>_ _. returnE ())\<rparr>,
      files = \<lparr>symlink_metadata = (\<lambda>p. returnE (demo_metadata p)), metadata_of = (\<lambda>p. returnE (demo_metadata p)),
         open_file = (\<lambda>_. returnE ()), read_file = (\<lambda>_. returnE []), remove_file = (\<lambda>_. returnE ()),
         read_dir = (\<lambda>_. returnE []), remove_dir = (\<lambda>_. returnE ()), remove_dir_all = (\<lambda>_. returnE ())\<rparr>,
      fetch_manifest = returnE demo_manifest, generate_credential = (\<lambda>p. returnE (demo_generated p)),
      target_lock = (\<lambda>_. returnE True), open_connection = returnE (), unix_timestamp = returnE 7,
      acquire_lifecycle_lock = (\<lambda>_ _. returnE ()), sha256 = zero_hash, version_valid = (\<lambda>_. True), version_less = (\<lambda>_ _. False),
      ARCH = ''x86_64'', sleep = (\<lambda>_ w. w), autostart_retry_backoff = 5\<rparr>"

definition demo_request :: CreateMicroVmRequest where
  "demo_request =
     \<lparr>cr_name = ''web'', cr_distribution_id = ''debian'', cr_image_id = ''12'', cr_disk_size_bytes = 1073741824, cr_vcpu_count = 2,
      cr_memory_bytes = 536870912, cr_expose_on_lan = False, cr_lan_address = None,
      cr_volume_path = Some [RootDir, Normal ''h'', Normal ''v'']\<rparr>"

definition demo_validated :: ValidatedCreateRequest where
  "demo_validated = \<lparr>vr_request = demo_request, vr_volume_path = [RootDir, Normal ''h'', Normal ''v''], vr_memory_effective_mib = 512\<rparr>"

lemma demo_validates: "validate demo_request h = Inr demo_validated"
proof -
  have "validate_vm_name ''web'' = Inr ()" "validate_identifier ''debian'' ''distribution_id'' = Inr ()"
    "validate_identifier ''12'' ''image_id'' = Inr ()" "normalize_volume_path [RootDir, Normal ''h'', Normal ''v''] = Inr [RootDir, Normal ''h'', Normal ''v'']"
    by code_simp+
  then show ?thesis
    by (simp add: validate_def demo_request_def demo_validated_def validate_positive_def I64_MAX_def BYTES_PER_MIB_def checked_add_def)
qed

lemma steady_ports [simp]:
  "home steady_sdk = [RootDir, Normal ''h'']" "validate_host (runtime steady_sdk) = returnE ()" "verify_stopped (runtime steady_sdk) p = returnE ()"
  "configure_port (network steady_sdk) request n u u' = returnE \<lparr>no_persisted = demo_network, no_applied = [], no_skipped = []\<rparr>"
  "prepare_rootfs (storage steady_sdk) q volume disk notify w = (Inr \<lparr>rf_path = in_volume volume ''rootfs.ext4'', rf_created_volume = True\<rparr>, notify 1 1 w)"
  "inject_public_key (storage steady_sdk) p k = returnE ()" "write_guest_network_config (storage steady_sdk) p g g' = returnE ()"
  "symlink_metadata (files steady_sdk) p = returnE (demo_metadata p)" "open_file (files steady_sdk) p = returnE ()"
  "read_file (files steady_sdk) p = returnE []" "read_dir (files steady_sdk) p = returnE []"
  "fetch_manifest steady_sdk = returnE demo_manifest" "generate_credential steady_sdk p = returnE (demo_generated p)"
  "target_lock steady_sdk p = returnE True" "open_connection steady_sdk = returnE ()" "unix_timestamp steady_sdk = returnE 7"
  "sha256 steady_sdk = zero_hash" "ARCH steady_sdk = ''x86_64''" "version_valid steady_sdk v = True"
  by (simp_all add: steady_sdk_def)

text \<open>The effect of the observer on the environment, left as it is.\<close>

definition notified :: "'w observer \<Rightarrow> CreationProgress \<Rightarrow> 'w \<Rightarrow> 'w" where
  "notified observer e w = (case observer of None \<Rightarrow> w | Some f \<Rightarrow> f e w)"

lemma emit_run [simp]:
  "emit_creation_progress observer e \<lparr>sd_db = d, sd_env = w\<rparr> = (Inr (), \<lparr>sd_db = d, sd_env = notified observer e w\<rparr>)"
  by (simp add: emit_creation_progress_def notified_def split: option.split)

lemma steady_image: "resolve_distribution_image ''debian'' ''12'' demo_artifacts
  = Inr \<lparr>la_path = [RootDir, Normal ''h'', Normal ''img''], la_size_bytes = 0, la_sha256 = demo_digest\<rparr>"
  by (simp add: resolve_distribution_image_def find_image_row_def distribution_of_def find_download_def demo_artifacts_def
      local_artifact_from_row_def demo_download_def download_row_def spec_integrity_def stored_size_def image_row_def distribution_row_def
      demo_image_def demo_distribution_def)

lemma steady_artifact:
  "file \<noteq> ''v'' \<Longrightarrow> \<exists>w'. verify_local_artifact_with_progress steady_sdk observer \<lparr>la_path = [RootDir, Normal ''h'', Normal file], la_size_bytes = 0, la_sha256 = demo_digest\<rparr>
     0 demo_digest kind i \<lparr>sd_db = d, sd_env = w\<rparr> = (Inr (), \<lparr>sd_db = d, sd_env = w'\<rparr>)"
  by (simp add: verify_local_artifact_with_progress_def path_is_below_home_def path_starts_with_def bindE_def
      calculate_file_integrity_with_progress_def attempt_call_def filesystem_call_def demo_metadata_def read_loop.simps on_env_def
      demo_digest_zero Let_def)

lemma steady_binary:
  assumes "resolve_binary_row i component (db_artifacts d) = Inr \<lparr>ib_package_id = i, ib_component_name = component,
     ib_version = ''1'', ib_architecture = X86_64, ib_path = [RootDir, Normal ''h'', Normal component], ib_size_bytes = 0,
     ib_sha256 = demo_digest, ib_executable = True\<rparr>" (is "_ = Inr ?b")
    and "validate_safe_component i ''binary package'' = Inr ()" "validate_safe_component component ''binary component'' = Inr ()"
    and "component \<noteq> ''id_ed25519''" "component \<noteq> ''id_ed25519.pub''" "component \<noteq> ''v''"
  shows "try_candidate steady_sdk component X86_64 (demo_package i component) \<lparr>sd_db = d, sd_env = w\<rparr> = (Inr ?b, \<lparr>sd_db = d, sd_env = w\<rparr>)"
  using assms
  by (simp add: try_candidate_def resolve_binary_def bindE_def repository_read_def Let_def path_is_below_home_def path_starts_with_def
      calculate_file_integrity_def attempt_call_def filesystem_call_def demo_metadata_def demo_digest_zero demo_package_def
      verify_executable_file_def)

definition demo_firecracker :: "string \<Rightarrow> string \<Rightarrow> InstalledBinary" where
  "demo_firecracker i component = \<lparr>ib_package_id = i, ib_component_name = component, ib_version = ''1'', ib_architecture = X86_64,
     ib_path = [RootDir, Normal ''h'', Normal component], ib_size_bytes = 0, ib_sha256 = demo_digest, ib_executable = True\<rparr>"

lemma steady_select:
  assumes "db_artifacts d = demo_artifacts"
  shows "select_runtime_binary steady_sdk (reg_binaries demo_manifest) ''firecracker'' X86_64 \<lparr>sd_db = d, sd_env = w\<rparr>
      = (Inr (demo_firecracker ''fc'' ''firecracker''), \<lparr>sd_db = d, sd_env = w\<rparr>)"
    and "select_runtime_binary steady_sdk (reg_binaries demo_manifest) ''firectl'' X86_64 \<lparr>sd_db = d, sd_env = w\<rparr>
      = (Inr (demo_firecracker ''fctl'' ''firectl''), \<lparr>sd_db = d, sd_env = w\<rparr>)"
proof -
  have candidates: "runtime_candidates steady_sdk (reg_binaries demo_manifest) ''firecracker'' X86_64 = [demo_package ''fc'' ''firecracker'']"
    "runtime_candidates steady_sdk (reg_binaries demo_manifest) ''firectl'' X86_64 = [demo_package ''fctl'' ''firectl'']"
    by (simp_all add: runtime_candidates_def demo_manifest_def demo_package_def demo_file_def sort_by_def)
  have "try_candidate steady_sdk ''firecracker'' X86_64 (demo_package ''fc'' ''firecracker'') \<lparr>sd_db = d, sd_env = w\<rparr>
      = (Inr (demo_firecracker ''fc'' ''firecracker''), \<lparr>sd_db = d, sd_env = w\<rparr>)"
    "try_candidate steady_sdk ''firectl'' X86_64 (demo_package ''fctl'' ''firectl'') \<lparr>sd_db = d, sd_env = w\<rparr>
      = (Inr (demo_firecracker ''fctl'' ''firectl''), \<lparr>sd_db = d, sd_env = w\<rparr>)"
    unfolding demo_firecracker_def
    by (rule steady_binary; simp add: assms validate_safe_component_def)+
  then show "select_runtime_binary steady_sdk (reg_binaries demo_manifest) ''firecracker'' X86_64 \<lparr>sd_db = d, sd_env = w\<rparr>
      = (Inr (demo_firecracker ''fc'' ''firecracker''), \<lparr>sd_db = d, sd_env = w\<rparr>)"
    "select_runtime_binary steady_sdk (reg_binaries demo_manifest) ''firectl'' X86_64 \<lparr>sd_db = d, sd_env = w\<rparr>
      = (Inr (demo_firecracker ''fctl'' ''firectl''), \<lparr>sd_db = d, sd_env = w\<rparr>)"
    by (simp_all add: select_runtime_binary_def candidates bindE_def attemptE_def)
qed

definition demo_prerequisites :: CreationPrerequisites where
  "demo_prerequisites = \<lparr>pq_image_path = [RootDir, Normal ''h'', Normal ''img''], pq_kernel = demo_kernel,
     pq_firecracker = demo_firecracker ''fc'' ''firecracker'', pq_firectl = demo_firecracker ''fctl'' ''firectl''\<rparr>"

lemma steady_selection: "select_from_manifest steady_sdk demo_request X86_64 demo_manifest = Inr (demo_distribution, demo_image, demo_kernel)"
  by (simp add: select_from_manifest_def demo_request_def demo_manifest_def find_distribution_def find_image_def minimum_memory_bytes_def
      checked_mul_def BYTES_PER_MIB_def demo_distribution_def demo_image_def demo_kernel_def)

lemma steady_prerequisites:
  assumes "db_artifacts d = demo_artifacts"
  shows "\<exists>w'. resolve_creation_prerequisites steady_sdk observer demo_request \<lparr>sd_db = d, sd_env = w\<rparr>
    = (Inr demo_prerequisites, \<lparr>sd_db = d, sd_env = w'\<rparr>)"
proof -
  have parts: "d_id demo_distribution = ''debian''" "di_id demo_image = ''12''" "k_id demo_kernel = ''k''" "di_size_bytes demo_image = 0"
    "di_sha256 demo_image = demo_digest" "k_size_bytes demo_kernel = 0" "k_sha256 demo_kernel = demo_digest"
    by (simp_all add: demo_distribution_def demo_image_def demo_kernel_def)
  obtain w1 where w1: "verify_local_artifact_with_progress steady_sdk observer \<lparr>la_path = [RootDir, Normal ''h'', Normal ''img''], la_size_bytes = 0, la_sha256 = demo_digest\<rparr>
     0 demo_digest ''distribution image'' ''12'' \<lparr>sd_db = d, sd_env = w\<rparr> = (Inr (), \<lparr>sd_db = d, sd_env = w1\<rparr>)"
    using steady_artifact [of "''img''" observer "''distribution image''" "''12''" d w] by auto
  obtain w2 where w2: "verify_local_artifact_with_progress steady_sdk observer \<lparr>la_path = [RootDir, Normal ''h'', Normal ''k''], la_size_bytes = 0, la_sha256 = demo_digest\<rparr>
     0 demo_digest ''kernel'' ''k'' \<lparr>sd_db = d, sd_env = w1\<rparr> = (Inr (), \<lparr>sd_db = d, sd_env = w2\<rparr>)"
    using steady_artifact [of "''k''" observer "''kernel''" "''k''" d w1] by auto
  show ?thesis
    by (simp add: resolve_creation_prerequisites_def bindE_def host_architecture_def steady_selection parts map_err_def repository_read_def
        assms steady_image w1 w2 steady_select [OF assms] demo_prerequisites_def)
qed

lemma steady_volume:
  "find_volume_owner volume d = None \<Longrightarrow> volume = [RootDir, Normal ''h'', Normal ''v''] \<Longrightarrow>
   ensure_volume_available steady_sdk name volume \<lparr>sd_db = d, sd_env = w\<rparr> = (Inr (), \<lparr>sd_db = d, sd_env = w\<rparr>)"
  by (simp add: ensure_volume_available_def ensure_volume_empty_def bindE_def repository_read_def attempt_call_def filesystem_call_def
      demo_metadata_def)

lemma demo_creation_record: "creation_record demo_validated demo_prerequisites 7 = demo_record"
  by (simp add: creation_record_def demo_validated_def demo_request_def demo_prerequisites_def demo_record_def demo_kernel_def
      demo_firecracker_def)

lemma steady_claim:
  "\<exists>w'. claim_microvm steady_sdk observer demo_validated \<lparr>sd_db = demo_store, sd_env = w\<rparr>
    = (Inr (demo_prerequisites, demo_record\<lparr>vm_id := 1\<rparr>), \<lparr>sd_db = demo_db, sd_env = w'\<rparr>)"
proof -
  have artifacts: "db_artifacts demo_store = demo_artifacts" and owner: "find_volume_owner volume demo_store = None" for volume
    by (simp_all add: demo_store_def empty_db_def find_volume_owner_def)
  obtain w' where
    "resolve_creation_prerequisites steady_sdk observer demo_request \<lparr>sd_db = demo_store, sd_env = w\<rparr>
     = (Inr demo_prerequisites, \<lparr>sd_db = demo_store, sd_env = w'\<rparr>)"
    using steady_prerequisites [OF artifacts, of observer w] by (elim exE)
  moreover have "vr_request demo_validated = demo_request" "vr_volume_path demo_validated = [RootDir, Normal ''h'', Normal ''v'']"
    by (simp_all add: demo_validated_def)
  ultimately show ?thesis
    by (simp add: claim_microvm_def bindE_def steady_volume owner demo_creation_record map_err_def repository_write_def demo_insert Let_def)
qed

text \<open>The repository calls of the finalization do not depend on the time.\<close>

lemma demo_creation_credential: "creation_credential (demo_generated [RootDir, Normal ''h'', Normal ''v'']) = demo_credential"
  by (simp add: creation_credential_def demo_generated_def demo_credential_def)

lemma steady_puts:
  "persist_network (Inr 7) 1 demo_network demo_db = (Inr (), demo_network_db)"
  "persist_credential 1 demo_credential demo_network_db = (Inr (), demo_credential_db)"
  "\<exists>d. persist_runtime (Inr 7) 1 (creation_runtime demo_prerequisites (demo_record\<lparr>vm_id := 1\<rparr>)) demo_credential_db = (Inr (), d)"
proof -
  have "bridge_for_network (Inr 7) n d = bridge_for_network (Inr 1) n d" for n d
    by (simp add: bridge_for_network_def Let_def split: option.split)
  then have "persist_network (Inr 7) = persist_network (Inr 1)"
    by (simp add: fun_eq_iff persist_network_def run_update_def persist_network_transaction_def)
  then show "persist_network (Inr 7) 1 demo_network demo_db = (Inr (), demo_network_db)" by (simp add: demo_put_network)
  show "\<exists>d. persist_runtime (Inr 7) 1 (creation_runtime demo_prerequisites (demo_record\<lparr>vm_id := 1\<rparr>)) demo_credential_db = (Inr (), d)"
    using demo_credential_db(1)
    by (simp add: persist_runtime_def run_update_def persist_runtime_stmt_def constraint_def creation_runtime_def)
qed (rule demo_put_credential)

lemma steady_stages:
  fixes w :: 'w
  shows "\<exists>j' w'. prepare_volume steady_sdk observer demo_validated demo_prerequisites (demo_record\<lparr>vm_id := 1\<rparr>) j \<lparr>sd_db = d, sd_env = w\<rparr>
      = (Inr (\<lparr>rf_path = [RootDir, Normal ''h'', Normal ''v'', Normal ''rootfs.ext4''], rf_created_volume = True\<rparr>, j'), \<lparr>sd_db = d, sd_env = w'\<rparr>)"
    and "\<exists>j' w'. set_up_credential steady_sdk observer (demo_record\<lparr>vm_id := 1\<rparr>) prepared j \<lparr>sd_db = d, sd_env = w\<rparr>
      = (Inr (demo_generated [RootDir, Normal ''h'', Normal ''v''], j'), \<lparr>sd_db = d, sd_env = w'\<rparr>)"
    and "\<exists>j' w'. set_up_network steady_sdk observer demo_validated (demo_record\<lparr>vm_id := 1\<rparr>) prepared j \<lparr>sd_db = d, sd_env = w\<rparr>
      = (Inr (\<lparr>no_persisted = demo_network, no_applied = [], no_skipped = []\<rparr>, j'), \<lparr>sd_db = d, sd_env = w'\<rparr>)"
  by (simp_all add: prepare_volume_def set_up_credential_def set_up_network_def bindE_def  repository_read_def in_stage_def failing_def attemptE_def write_guest_config_def demo_network_def demo_record_def on_env_def Let_def)

lemma steady_finalize:
  assumes "outcome = \<lparr>no_persisted = demo_network, no_applied = [], no_skipped = []\<rparr>"
  shows "\<exists>x s'. finalize steady_sdk observer demo_prerequisites (demo_record\<lparr>vm_id := 1\<rparr>) (demo_generated [RootDir, Normal ''h'', Normal ''v''])
    outcome j \<lparr>sd_db = demo_db, sd_env = w\<rparr> = (Inr x, s')"
proof -
  obtain d where "persist_runtime (Inr 7) 1 (creation_runtime demo_prerequisites (demo_record\<lparr>vm_id := 1\<rparr>)) demo_credential_db = (Inr (), d)"
    using steady_puts(3) by blast
  then show ?thesis
    by (simp add: finalize_def assms bindE_def in_stage_def failing_def attemptE_def repository_stamped_def repository_write_def
        steady_puts(1,2) demo_creation_credential Let_def)
qed

lemma steady_claimed:
  "\<exists>x s'. create_claimed_microvm steady_sdk observer demo_validated demo_prerequisites (demo_record\<lparr>vm_id := 1\<rparr>) j
      \<lparr>sd_db = demo_db, sd_env = v\<rparr> = (Inr x, s')"
proof -
  let ?p = "\<lparr>rf_path = [RootDir, Normal ''h'', Normal ''v'', Normal ''rootfs.ext4''], rf_created_volume = True\<rparr>"
  obtain j1 w1 where s1: "prepare_volume steady_sdk observer demo_validated demo_prerequisites (demo_record\<lparr>vm_id := 1\<rparr>) j \<lparr>sd_db = demo_db, sd_env = v\<rparr>
    = (Inr (?p, j1), \<lparr>sd_db = demo_db, sd_env = w1\<rparr>)"
    using steady_stages(1) [of observer j demo_db v] by (elim exE)
  obtain j2 w2 where s2: "set_up_credential steady_sdk observer (demo_record\<lparr>vm_id := 1\<rparr>)
      ?p j1 \<lparr>sd_db = demo_db, sd_env = w1\<rparr>
    = (Inr (demo_generated [RootDir, Normal ''h'', Normal ''v''], j2), \<lparr>sd_db = demo_db, sd_env = w2\<rparr>)"
    using steady_stages(2) [of observer ?p j1 demo_db w1] by (elim exE)
  obtain j3 w3 where s3: "set_up_network steady_sdk observer demo_validated (demo_record\<lparr>vm_id := 1\<rparr>)
      ?p j2 \<lparr>sd_db = demo_db, sd_env = w2\<rparr>
    = (Inr (\<lparr>no_persisted = demo_network, no_applied = [], no_skipped = []\<rparr>, j3), \<lparr>sd_db = demo_db, sd_env = w3\<rparr>)"
    using steady_stages(3) [of observer ?p j2 demo_db w2] by (elim exE)
  show ?thesis
    using steady_finalize [OF refl, of observer j3 w3] by (simp add: create_claimed_microvm_def bindE_def s1 s2 s3)
qed

lemma steady_creation:
  "\<exists>result s'. create_microvm steady_sdk observer demo_request \<lparr>sd_db = demo_store, sd_env = w\<rparr> = (Inr result, s')"
proof -
  have find: "find_microvm ''web'' demo_store = Inr None"
    by (simp add: find_microvm_def load_row_def demo_store_def empty_db_def)
  have parts: "vr_request demo_validated = demo_request" "cr_name demo_request = ''web''"
    by (simp_all add: demo_validated_def demo_request_def)
  have locks: "lock_targets steady_sdk demo_validated \<lparr>sd_db = d, sd_env = v\<rparr> = (Inr (), \<lparr>sd_db = d, sd_env = v\<rparr>)" for d and v :: 'a
    by (simp add: lock_targets_def bindE_def Let_def whenE_def)
  have "\<exists>x s'. create_or_roll_back steady_sdk observer demo_validated demo_prerequisites (demo_record\<lparr>vm_id := 1\<rparr>)
      \<lparr>sd_db = demo_db, sd_env = v\<rparr> = (Inr x, s')" for v
  proof -
    obtain x s' where "create_claimed_microvm steady_sdk observer demo_validated demo_prerequisites (demo_record\<lparr>vm_id := 1\<rparr>)
        (new_journal (demo_record\<lparr>vm_id := 1\<rparr>)) \<lparr>sd_db = demo_db, sd_env = v\<rparr> = (Inr x, s')"
      using steady_claimed [of observer "new_journal (demo_record\<lparr>vm_id := 1\<rparr>)" v] by (elim exE)
    then show ?thesis by (simp add: create_or_roll_back_def bindE_def emit_creation_progress_def)
  qed
  moreover obtain w' where "claim_microvm steady_sdk observer demo_validated \<lparr>sd_db = demo_store, sd_env = v\<rparr>
    = (Inr (demo_prerequisites, demo_record\<lparr>vm_id := 1\<rparr>), \<lparr>sd_db = demo_db, sd_env = w' v\<rparr>)" for v
    using steady_claim [of observer] by metis
  ultimately show ?thesis
    by (simp add: create_microvm_def bindE_def failing_def attemptE_def demo_validates locks repository_read_def parts find
        create_new_microvm_def)
qed

end
