(* ===== verification/Creation_Safety.thy ===== *)
theory Creation_Safety
  imports Demo_Creation Lifecycle_Safety
begin

text \<open>
  What the creation of a VM does to the inventory, whatever the ports and the observer do: it either stores the VM
  that it describes to its caller, or returns the VM that is there already, or fails and rolls the claim of the name
  back. The triples of Lifecycle_Safety follow the database through the stages and the rollback.
\<close>

section \<open>Stages\<close>

lemma quiet_emit [quiet_intros]: "quietD (emit_creation_progress observer e)"
  by (auto simp: quietD_def emit_creation_progress_def split: option.splits)

lemma dbT_emit: "(\<And>d. P d \<Longrightarrow> Q () d) \<Longrightarrow> dbT P (emit_creation_progress observer e) Q E"
  by (auto simp: dbT_def tripleE_def emit_creation_progress_def split: option.splits)

lemma dbT_emit_step: "dbT P (f ()) Q E \<Longrightarrow> dbT P (bindE (emit_creation_progress observer e) f) Q E"
  by (rule dbT_bind [where R = "\<lambda>_. P"]) (auto intro: dbT_emit)

lemma dbT_failing:
  assumes "dbT P m Q E"
  shows "dbT P (failing observer stage n m) Q E"
proof -
  have "dbT P (attemptE m) (\<lambda>r d. case r of Inl e \<Rightarrow> E e d | Inr x \<Rightarrow> Q x d) E"
    using assms by (auto intro!: dbT_attempt)
  then show ?thesis unfolding failing_def
    by (rule dbT_bind)
      (auto intro!: dbT_return dbT_bind [OF dbT_emit] dbT_throw split: sum.splits)
qed

lemma dbT_in_stage:
  assumes "dbT P m Q (\<lambda>e. E (journal, e))"
  shows "dbT P (in_stage observer stage n journal m) Q E"
  using dbT_failing [OF assms, of observer stage n]
  by (fastforce simp: dbT_def tripleE_def in_stage_def split: prod.splits sum.splits)

lemma quiet_failing [quiet_intros]: "quietD m \<Longrightarrow> quietD (failing observer stage n m)"
  unfolding failing_def by (intro quiet_intros)

lemma quiet_in_stage [quiet_intros]: "quietD m \<Longrightarrow> quietD (in_stage observer stage n journal m)"
  using quiet_failing [of m observer stage n]
  by (fastforce simp: quietD_def in_stage_def split: prod.splits sum.splits)

section \<open>Quiet steps of a creation\<close>

lemma quiet_read_loop [quiet_intros]: "quietD (read_loop observer expected bytes n)"
proof (induction observer expected bytes n rule: read_loop.induct)
  case (1 observer expected bytes n)
  show ?case
  proof (cases "bytes = []")
    case True
    then show ?thesis by (subst read_loop.simps) (simp only: if_True simp_thms quiet_return)
  next
    case False
    then show ?thesis by (subst read_loop.simps) (use 1 in \<open>auto intro!: quiet_intros\<close>)
  qed
qed

lemma quiet_verify_local [quiet_intros]:
  "quietD (calculate_file_integrity_with_progress sdk observer p n)"
  "quietD (verify_local_artifact_with_progress sdk observer local size' sha kind i)"
  unfolding verify_local_artifact_with_progress_def calculate_file_integrity_with_progress_def by (intro quiet_intros)+

lemma quiet_try [quiet_intros]: "quietD (try_candidate sdk component architecture package)"
  unfolding try_candidate_def by (intro quiet_intros)

lemma quiet_first [quiet_intros]: "quietD (first_candidate sdk component architecture last_error packages)"
  by (induction packages arbitrary: last_error) (auto intro!: quiet_intros)

lemma quiet_prerequisites [quiet_intros]:
  "quietD (resolve_creation_prerequisites sdk observer request)"
  unfolding resolve_creation_prerequisites_def select_runtime_binary_def by (intro quiet_intros)

lemma quiet_volume_empty [quiet_intros]: "quietD (ensure_volume_empty sdk name volume)"
  unfolding ensure_volume_empty_def by (intro quiet_intros) (auto intro!: quiet_intros split: list.split sum.split)

lemma quiet_volume [quiet_intros]: "quietD (ensure_volume_available sdk name volume)"
  unfolding ensure_volume_available_def by (intro quiet_intros)

lemma quiet_creation_steps [quiet_intros]:
  "quietD (lock_targets sdk validated)" "quietD (write_guest_config sdk prepared config)"
  "quietD (load_creation_result sdk stored)"
  unfolding lock_targets_def write_guest_config_def load_creation_result_def
  by (auto intro!: quiet_intros split: ip_addr.split option.split)

lemma quiet_existing [quiet_intros]: "quietD (return_or_reject_existing_creation sdk observer validated stored)"
  unfolding return_or_reject_existing_creation_def by (intro quiet_intros)

section \<open>The claim\<close>

text \<open>An identifier that no VM of an inventory has, and the entry of a VM with nothing but its record.\<close>

definition fresh_id :: "int \<Rightarrow> inventory \<Rightarrow> bool" where
  "fresh_id i V \<longleftrightarrow> (\<forall>name v. V name = Some v \<longrightarrow> vm_id (st_record v) \<noteq> i)"

lemma change_vm_fresh:
  "fresh_id i V \<Longrightarrow> vm_id (st_record v) = i \<Longrightarrow> change_vm i f (V(a \<mapsto> v)) = V(a \<mapsto> f v)"
  by (auto simp: change_vm_def fresh_id_def fun_eq_iff intro!: option.map_ident_strong)

lemma remove_vm_fresh:
  "fresh_id i V \<Longrightarrow> V a = None \<Longrightarrow> vm_id (st_record v) = i \<Longrightarrow> remove_vm i (V(a \<mapsto> v)) = V"
  by (auto simp: remove_vm_def fresh_id_def fun_eq_iff bind_eq_None_conv split: bind_split)

definition entry :: "MicroVmRecord \<Rightarrow> StoredMicroVm" where
  "entry rec = \<lparr>st_record = rec, st_network = None, st_credential = None, st_runtime = None\<rparr>"

text \<open>A record whose name and identifier an inventory does not have, and one that was claimed for a request.\<close>

definition free_for :: "MicroVmRecord \<Rightarrow> inventory \<Rightarrow> bool" where
  "free_for rec V \<longleftrightarrow> fresh_id (vm_id rec) V \<and> V (vm_name rec) = None"

definition claimed_for :: "ValidatedCreateRequest \<Rightarrow> CreationPrerequisites \<Rightarrow> MicroVmRecord \<Rightarrow> bool" where
  "claimed_for validated prerequisites rec \<longleftrightarrow> (\<exists>now i. rec = (creation_record validated prerequisites now)\<lparr>vm_id := i\<rparr>)"

lemma dbT_map_err: "dbT P m Q (\<lambda>e. E (f e)) \<Longrightarrow> dbT P (map_err f m) Q E"
  by (fastforce simp: dbT_def tripleE_def map_err_def split: prod.splits sum.splits)

lemma insert_triple:
  "dbT (exactly D) (repository_write sdk (insert_microvm rec))
     (\<lambda>i d. holds ((view D)(vm_name rec \<mapsto> entry (rec\<lparr>vm_id := i\<rparr>))) d \<and> fresh_id i (view D) \<and> view D (vm_name rec) = None)
     (\<lambda>_. exactly D)"
  unfolding repository_write_def
proof (rule dbT_step [OF quiet_env], rule dbT_db)
  fix d i d'
  assume d: "exactly D d" and run: "insert_microvm rec d = (Inr i, d')"
  from d have ok: "inventory_ok D" and run: "insert_microvm rec D = (Inr i, d')" using run by (auto simp: exactly_def)
  have "new_vm rec i = entry (rec\<lparr>vm_id := i\<rparr>)" by (simp add: new_vm_def entry_def)
  with sqlite.insert_contents [OF ok run] sqlite.insert_keeps [OF ok run] sqlite.insert_fresh_id [OF ok run]
    sqlite.insert_fresh_name [OF ok run]
  show "holds ((view D)(vm_name rec \<mapsto> entry (rec\<lparr>vm_id := i\<rparr>))) d' \<and> fresh_id i (view D) \<and> view D (vm_name rec) = None"
    by (auto simp: holds_def fresh_id_def)
qed (auto simp: exactly_def dest: sqlite.insert_refused)

lemma claim_triple:
  "dbT (exactly D) (claim_microvm sdk observer validated)
     (\<lambda>(prerequisites, rec) d. holds ((view D)(vm_name rec \<mapsto> entry rec)) d \<and> free_for rec (view D) \<and> claimed_for validated prerequisites rec)
     (\<lambda>_. exactly D)"
  unfolding claim_microvm_def Let_def
  by (rule dbT_step, rule quiet_intros, rule dbT_step, rule quiet_intros, rule dbT_step, rule quiet_intros,
      rule dbT_step, rule quiet_intros, rule dbT_bind, rule dbT_map_err, rule insert_triple)
    (auto intro!: dbT_return simp: free_for_def claimed_for_def)

section \<open>After the claim\<close>

text \<open>The name is claimed and nothing else of the inventory has changed.\<close>

definition claimed :: "inventory \<Rightarrow> MicroVmRecord \<Rightarrow> db \<Rightarrow> bool" where
  "claimed V rec d \<longleftrightarrow> inventory_ok d \<and> remove_vm (vm_id rec) (view d) = V \<and> (\<forall>n. n \<noteq> vm_name rec \<longrightarrow> view d n = V n)"

lemma holds_claimed:
  "free_for rec V \<Longrightarrow> holds (V(vm_name rec \<mapsto> v)) d \<Longrightarrow> vm_id (st_record v) = vm_id rec \<Longrightarrow> claimed V rec d"
  by (simp add: free_for_def holds_def claimed_def remove_vm_fresh)

text \<open>The VM that the finalization stores.\<close>

definition finished ::
  "CreationPrerequisites \<Rightarrow> MicroVmRecord \<Rightarrow> PersistedNetwork \<Rightarrow> GeneratedCredential \<Rightarrow> StoredMicroVm" where
  "finished prerequisites rec n generated = \<lparr>st_record = rec, st_network = Some n,
     st_credential = Some (creation_credential generated), st_runtime = Some (creation_runtime prerequisites rec)\<rparr>"

lemma created_result_finished:
  "cj_network journal = Some (no_persisted outcome) \<Longrightarrow>
   build_creation_result (finished prerequisites rec (no_persisted outcome) generated)
     = Inr (created_result rec outcome (creation_credential generated) journal)"
  by (simp add: build_creation_result_def finished_def require_full_def require_complete_def is_complete_def
      created_result_def stored_ssh_def)

text \<open>The stages fail with a journal that names the claim, in a database where only the claim was made.\<close>

definition stage_failed :: "inventory \<Rightarrow> MicroVmRecord \<Rightarrow> CreationJournal \<times> SdkError \<Rightarrow> db \<Rightarrow> bool" where
  "stage_failed V rec f d \<longleftrightarrow> claimed V rec d \<and> cj_vm_id (fst f) = Some (vm_id rec)"

lemma dbT_write:
  assumes "refines inventory_ok view m g"
  shows "dbT (holds V) (repository_write sdk m) (\<lambda>_. holds (g V)) (\<lambda>_. holds V)"
  unfolding repository_write_def
  by (rule dbT_step [OF quiet_env], rule dbT_db)
    (auto simp: holds_def dest: refines_inv [OF assms] refines_Inr [OF assms] refines_Inl [OF assms])

lemma stage_change:
  assumes free: "free_for rec V" "cj_vm_id journal = Some (vm_id rec)" and v: "vm_id (st_record v) = vm_id rec"
    and put: "dbT (holds (V(vm_name rec \<mapsto> v))) m (\<lambda>_. holds (change_vm (vm_id rec) g (V(vm_name rec \<mapsto> v))))
      (\<lambda>_. holds (V(vm_name rec \<mapsto> v)))"
  shows "dbT (holds (V(vm_name rec \<mapsto> v))) m (\<lambda>_. holds (V(vm_name rec \<mapsto> g v))) (\<lambda>e. stage_failed V rec (journal, e))"
proof -
  have "change_vm (vm_id rec) g (V(vm_name rec \<mapsto> v)) = V(vm_name rec \<mapsto> g v)"
    using free v by (simp add: free_for_def change_vm_fresh)
  with put free v show ?thesis by (auto simp: stage_failed_def elim!: dbT_conseq intro: holds_claimed)
qed

lemma stage_quiet:
  assumes "quietD m" "free_for rec V" "cj_vm_id journal = Some (vm_id rec)" "vm_id (st_record v) = vm_id rec"
  shows "dbT (holds (V(vm_name rec \<mapsto> v))) m (\<lambda>_. holds (V(vm_name rec \<mapsto> v))) (\<lambda>e. stage_failed V rec (journal, e))"
  using assms by (auto simp: stage_failed_def intro!: dbT_quiet intro: holds_claimed)

lemmas stage_puts = stage_change [OF _ _ _ dbT_stamped [OF sqlite.network_refines]]
  stage_change [OF _ _ _ dbT_write [OF sqlite.credential_refines]] stage_change [OF _ _ _ dbT_stamped [OF sqlite.runtime_refines]]

lemma finalize_triple:
  assumes free: "free_for rec V" "cj_vm_id journal = Some (vm_id rec)" and net: "cj_network journal = Some (no_persisted outcome)"
  shows "dbT (holds (V(vm_name rec \<mapsto> entry rec))) (finalize sdk observer prerequisites rec generated outcome journal)
    (\<lambda>result d. \<exists>stored. st_record stored = rec \<and> build_creation_result stored = Inr result \<and> holds (V(vm_name rec \<mapsto> stored)) d)
    (stage_failed V rec)"
  unfolding finalize_def Let_def
  by (rule dbT_emit_step,
      rule dbT_bind, rule dbT_in_stage, rule dbT_bind, rule stage_puts(1) [OF free], simp add: entry_def,
      rule stage_puts(2) [OF free], simp add: entry_def,
      rule dbT_bind, rule dbT_in_stage, rule stage_quiet [OF quiet_env free], simp add: entry_def,
      rule dbT_bind, rule dbT_in_stage, rule stage_puts(3) [OF free], simp add: entry_def,
      rule dbT_emit_step, rule dbT_return,
      rule exI [of _ "finished prerequisites rec (no_persisted outcome) generated"])
    (simp add: created_result_finished [OF net, unfolded finished_def] finished_def entry_def fun_upd_def)

text \<open>The stages before: they leave the database and pass on a journal that names the claim.\<close>

lemma early_stages:
  assumes free: "free_for rec V" "cj_vm_id journal = Some (vm_id rec)"
  defines "P \<equiv> holds (V(vm_name rec \<mapsto> entry rec))"
  shows "dbT P (prepare_volume sdk observer validated prerequisites rec journal)
      (\<lambda>(_, journal') d. P d \<and> cj_vm_id journal' = Some (vm_id rec)) (stage_failed V rec)"
    and "dbT P (set_up_credential sdk observer rec prepared journal)
      (\<lambda>(_, journal') d. P d \<and> cj_vm_id journal' = Some (vm_id rec)) (stage_failed V rec)"
    and "dbT P (set_up_network sdk observer validated rec prepared journal)
      (\<lambda>(outcome, journal') d. P d \<and> cj_vm_id journal' = Some (vm_id rec) \<and> cj_network journal' = Some (no_persisted outcome))
      (stage_failed V rec)"
proof -
  have step: "dbT P (in_stage observer stage n j m) (\<lambda>_. P) (stage_failed V rec)"
    if "quietD m" "cj_vm_id j = Some (vm_id rec)" for stage n j and m :: "('a sdk, 'b) sdk_io"
    unfolding P_def by (rule dbT_in_stage, rule stage_quiet [OF that(1) free(1) that(2)]) (simp add: entry_def)
  note bind = dbT_bind [where R = "\<lambda>_. P"]
  show "dbT P (prepare_volume sdk observer validated prerequisites rec journal)
      (\<lambda>(_, journal') d. P d \<and> cj_vm_id journal' = Some (vm_id rec)) (stage_failed V rec)"
    unfolding prepare_volume_def by (intro bind dbT_emit step dbT_return quiet_intros) (simp_all add: free)
  show "dbT P (set_up_credential sdk observer rec prepared journal)
      (\<lambda>(_, journal') d. P d \<and> cj_vm_id journal' = Some (vm_id rec)) (stage_failed V rec)"
    unfolding set_up_credential_def Let_def by (intro bind dbT_emit step dbT_return quiet_intros) (simp_all add: free)
  show "dbT P (set_up_network sdk observer validated rec prepared journal)
      (\<lambda>(outcome, journal') d. P d \<and> cj_vm_id journal' = Some (vm_id rec) \<and> cj_network journal' = Some (no_persisted outcome))
      (stage_failed V rec)"
    unfolding set_up_network_def by (intro bind dbT_emit step dbT_return quiet_intros) (simp_all add: free)
qed

definition stored_result :: "inventory \<Rightarrow> MicroVmRecord \<Rightarrow> MicroVmCreationResult \<Rightarrow> db \<Rightarrow> bool" where
  "stored_result V rec result d \<longleftrightarrow>
     (\<exists>stored. st_record stored = rec \<and> build_creation_result stored = Inr result \<and> holds (V(vm_name rec \<mapsto> stored)) d)"

lemma dbT_assume_split:
  "(\<And>a b. C a b \<Longrightarrow> dbT P (f a b) Q E) \<Longrightarrow> dbT ((\<lambda>(a, b) d. P d \<and> C a b) x) (case x of (a, b) \<Rightarrow> f a b) Q E"
  by (cases x) (simp add: dbT_assume)

lemma create_claimed_triple:
  assumes free: "free_for rec V" "cj_vm_id journal = Some (vm_id rec)"
  shows "dbT (holds (V(vm_name rec \<mapsto> entry rec))) (create_claimed_microvm sdk observer validated prerequisites rec journal)
    (stored_result V rec) (stage_failed V rec)"
  unfolding create_claimed_microvm_def stored_result_def [abs_def]
  by (rule dbT_bind [OF early_stages(1) [OF free]], rule dbT_assume_split,
      rule dbT_bind [OF early_stages(2) [OF free(1)]], assumption, rule dbT_assume_split,
      rule dbT_bind [OF early_stages(3) [OF free(1)]], assumption, rule dbT_assume_split,
      rule finalize_triple [OF free(1)]) auto

text \<open>A failure of the network stage, also one after the host network was configured, returns the journal unchanged; a
  rollback of a journal without a network does not call the network controller.\<close>

lemma in_stage_journal: "in_stage observer stage n journal m s = (Inl (j, e), s') \<Longrightarrow> j = journal"
  by (auto simp: in_stage_def split: prod.splits sum.splits)

lemma set_up_network_journal:
  assumes "set_up_network sdk observer validated rec prepared journal s = (Inl (j, e), s')"
  shows "j = journal"
  using assms unfolding set_up_network_def bindE_Inl
  by (elim disjE exE conjE) (auto simp: emit_creation_progress_def dest: in_stage_journal)

lemma configured_network_not_rolled_back:
  assumes "set_up_network sdk observer validated rec prepared journal s = (Inl (j, e), s')" "cj_network journal = None"
  shows "clean_up_network sdk j = returnE []"
  using set_up_network_journal [OF assms(1)] assms(2) by (simp add: clean_up_network_def)

section \<open>The rollback\<close>

text \<open>Steps that neither touch the database nor fail.\<close>

definition placid :: "('e, 'w sdk, 'a) io \<Rightarrow> bool" where
  "placid m \<longleftrightarrow> (\<forall>s. \<exists>x s'. m s = (Inr x, s') \<and> sd_db s' = sd_db s)"

named_theorems placid_intros \<open>steps that neither touch the database nor fail\<close>

lemma placid_return [placid_intros]: "placid (returnE x)"
  by (simp add: placid_def)

lemma placid_bind [placid_intros]: "placid m \<Longrightarrow> (\<And>x. placid (f x)) \<Longrightarrow> placid (bindE m f)"
proof (unfold placid_def, rule allI)
  fix s
  assume m: "\<forall>s. \<exists>x s'. m s = (Inr x, s') \<and> sd_db s' = sd_db s"
    and f: "\<And>x. \<forall>s. \<exists>y s'. f x s = (Inr y, s') \<and> sd_db s' = sd_db s"
  from m obtain x s1 where "m s = (Inr x, s1)" "sd_db s1 = sd_db s" by blast
  moreover from f obtain y s2 where "f x s1 = (Inr y, s2)" "sd_db s2 = sd_db s1" by blast
  ultimately show "\<exists>x s'. bindE m f s = (Inr x, s') \<and> sd_db s' = sd_db s" by (simp add: bindE_def)
qed

lemma placid_attempt [placid_intros]: "quietD m \<Longrightarrow> placid (attemptE m)"
  unfolding placid_def quietD_def attemptE_def by (auto split: prod.splits)

lemma placid_attempt_call [placid_intros]: "placid (attempt_call m)"
  by (auto simp: placid_def attempt_call_def on_env_def split: prod.splits)

lemma placid_cases [placid_intros]:
  "placid m \<Longrightarrow> placid n \<Longrightarrow> placid (if b then m else n)"
  "placid m \<Longrightarrow> (\<And>x. placid (f x)) \<Longrightarrow> placid (case v of None \<Rightarrow> m | Some x \<Rightarrow> f x)"
  "(\<And>e. placid (g e)) \<Longrightarrow> (\<And>x. placid (h x)) \<Longrightarrow> placid (case r of Inl e \<Rightarrow> g e | Inr x \<Rightarrow> h x)"
  "(\<And>a b. placid (k a b)) \<Longrightarrow> placid (case p of (a, b) \<Rightarrow> k a b)"
  by (auto split: option.splits sum.splits prod.splits)

lemma placid_note [placid_intros]: "quietD m \<Longrightarrow> placid (note_failure failures m)"
  unfolding note_failure_def by (intro placid_intros)

lemma placid_remove [placid_intros]: "placid (remove_created_files sdk ps failures)" "placid (remove_created_dir sdk dir failures)"
  by (induction sdk ps failures rule: remove_created_files.induct)
    (auto intro!: placid_intros simp: remove_created_dir_def)

lemma placid_network [placid_intros]: "placid (clean_up_network sdk journal)"
  unfolding clean_up_network_def rollback_network_def by (intro placid_intros quiet_intros)

lemma dbT_placid:
  fixes m :: "('e, 'w sdk, 'a) io"
  assumes "placid m" "\<And>x. dbT P (f x) Q E"
  shows "dbT P (bindE m f) Q E"
proof (rule dbT_bind [where R = "\<lambda>_. P"])
  show "dbT P m (\<lambda>_. P) E" unfolding dbT_def tripleE_def
  proof (intro allI impI)
    fix s :: "'w sdk" assume "P (sd_db s)"
    moreover from assms(1) obtain x s' where "m s = (Inr x, s')" "sd_db s' = sd_db s" unfolding placid_def by blast
    ultimately show "case m s of (Inl e, s') \<Rightarrow> E e (sd_db s') | (Inr x, s') \<Rightarrow> P (sd_db s')" by simp
  qed
qed (rule assms(2))

definition rolled_back :: "inventory \<Rightarrow> MicroVmRecord \<Rightarrow> message list \<Rightarrow> db \<Rightarrow> bool" where
  "rolled_back V rec failures d \<longleftrightarrow>
     inventory_ok d \<and> (\<forall>n. n \<noteq> vm_name rec \<longrightarrow> view d n = V n) \<and> (failures = [] \<longrightarrow> view d = V)"

lemma rollback_creation_triple:
  assumes "cj_vm_id journal = Some (vm_id rec)"
  shows "dbT (claimed V rec) (rollback_creation sdk journal) (rolled_back V rec) (\<lambda>_ _. False)"
proof -
  have delete: "dbT (claimed V rec) (repository_stamped sdk (\<lambda>now. delete_microvm now (vm_id rec)))
      (\<lambda>_. holds V) (\<lambda>_. claimed V rec)"
    unfolding repository_stamped_def
    by (rule dbT_step [OF quiet_env], rule dbT_step, intro quiet_intros, rule dbT_db)
      (auto simp: claimed_def holds_def dest: refines_inv [OF sqlite.delete_refines] refines_Inr [OF sqlite.delete_refines]
        refines_Inl [OF sqlite.delete_refines])
  have "dbT (claimed V rec) (note_failure failures (repository_stamped sdk (\<lambda>now. delete_microvm now (vm_id rec))))
      (rolled_back V rec) (\<lambda>_ _. False)" for failures
    unfolding note_failure_def
    by (rule dbT_bind [where R = "\<lambda>r. rolled_back V rec (case r of Inl e \<Rightarrow> failures @ [Shown e] | Inr _ \<Rightarrow> failures)"],
        rule dbT_attempt, rule dbT_conseq [OF delete], assumption)
      (auto simp: claimed_def rolled_back_def holds_def intro!: dbT_return)
  with assms show ?thesis unfolding rollback_creation_def by (intro dbT_placid placid_intros) simp
qed

section \<open>The whole operation\<close>

definition creation_failed :: "inventory \<Rightarrow> string \<Rightarrow> SdkError \<Rightarrow> db \<Rightarrow> bool" where
  "creation_failed V name e d \<longleftrightarrow>
     inventory_ok d \<and> (\<forall>n. n \<noteq> name \<longrightarrow> view d n = V n) \<and> ((\<exists>p fs. e = Cleanup p fs) \<or> view d = V)"

lemma exactly_failed: "exactly D d \<Longrightarrow> creation_failed (view D) name e d"
  by (auto simp: exactly_def creation_failed_def)

lemma create_or_roll_back_triple:
  assumes "free_for rec V"
  shows "dbT (holds (V(vm_name rec \<mapsto> entry rec))) (create_or_roll_back sdk observer validated prerequisites rec)
    (stored_result V rec) (creation_failed V (vm_name rec))"
  unfolding dbT_def tripleE_def
proof (intro allI impI)
  fix s :: "'a sdk"
  assume pre: "holds (V(vm_name rec \<mapsto> entry rec)) (sd_db s)"
  have journal: "cj_vm_id (new_journal rec) = Some (vm_id rec)" by (simp add: new_journal_def)
  note claimed_run = create_claimed_triple [OF assms journal]
  obtain r s1 where run: "create_claimed_microvm sdk observer validated prerequisites rec (new_journal rec) s = (r, s1)"
    by fastforce
  show "case create_or_roll_back sdk observer validated prerequisites rec s of
      (Inl e, s') \<Rightarrow> creation_failed V (vm_name rec) e (sd_db s') | (Inr x, s') \<Rightarrow> stored_result V rec x (sd_db s')"
  proof (cases r)
    case (Inr result)
    with dbT_Inr [OF claimed_run pre] run have "stored_result V rec result (sd_db s1)" by simp
    with run Inr show ?thesis
      by (simp add: create_or_roll_back_def bindE_def emit_creation_progress_def split: option.split)
  next
    case (Inl f)
    obtain j e where f: "f = (j, e)" by fastforce
    from dbT_Inl [OF claimed_run pre] run Inl f have "claimed V rec (sd_db s1)" and j: "cj_vm_id j = Some (vm_id rec)"
      by (auto simp: stage_failed_def)
    note left = this(1)
    obtain r2 s2 where roll: "rollback_creation sdk j s1 = (r2, s2)" by fastforce
    then obtain failures where r2: "r2 = Inr failures" using dbT_Inl [OF rollback_creation_triple [OF j] left] by (cases r2) auto
    from dbT_Inr [OF rollback_creation_triple [OF j] left] roll r2 have "rolled_back V rec failures (sd_db s2)" by simp
    with run Inl f roll r2 show ?thesis
      by (auto simp: create_or_roll_back_def bindE_def rolled_back_def creation_failed_def with_cleanup_failures_def)
  qed
qed

text \<open>A stored VM is what a request asked for.\<close>

definition provides :: "CreateMicroVmRequest \<Rightarrow> StoredMicroVm \<Rightarrow> bool" where
  "provides request stored \<longleftrightarrow>
     (let rec = st_record stored in
      vm_name rec = cr_name request \<and> vm_distribution_id rec = cr_distribution_id request
      \<and> vm_image_id rec = cr_image_id request \<and> vm_disk_size_bytes rec = cr_disk_size_bytes request
      \<and> vm_vcpu_count rec = cr_vcpu_count request \<and> vm_memory_bytes rec = cr_memory_bytes request
      \<and> vm_expose_on_lan rec = cr_expose_on_lan request)"

lemma claimed_for_provides:
  "claimed_for validated prerequisites (st_record stored) \<Longrightarrow> provides (vr_request validated) stored"
  by (auto simp: claimed_for_def provides_def creation_record_def Let_def)

lemma no_conflict_provides:
  assumes "configuration_conflict validated stored = None" "vm_name (st_record stored) = cr_name (vr_request validated)"
  shows "provides (vr_request validated) stored"
proof -
  have inj: "show_nat (unat a) = show_nat (unat b) \<Longrightarrow> a = b" for a b :: "'a::len word"
    by (auto dest!: show_nat_inject simp: word_unat_eq_iff)
  from assms(1) have "\<forall>(f, current, requested) \<in> set (creation_comparisons validated stored). current = requested"
    by (auto simp: configuration_conflict_def find_None_iff)
  with assms(2) show ?thesis
    by (auto simp: creation_comparisons_def Let_def provides_def show_bool_def dest: inj split: if_splits)
qed

definition created :: "db \<Rightarrow> CreateMicroVmRequest \<Rightarrow> MicroVmCreationResult \<Rightarrow> db \<Rightarrow> bool" where
  "created D request result d \<longleftrightarrow>
     inventory_ok d \<and> (\<forall>n. n \<noteq> cr_name request \<longrightarrow> view d n = view D n)
     \<and> (\<exists>stored. view d (cr_name request) = Some stored \<and> provides request stored
          \<and> build_creation_result stored = Inr result)
     \<and> (view D (cr_name request) = None \<or> d = D)"

lemma create_new_triple:
  "dbT (exactly D) (create_new_microvm sdk observer validated)
     (created D (vr_request validated)) (creation_failed (view D) (cr_name (vr_request validated)))"
  unfolding create_new_microvm_def
proof (rule dbT_emit_step, rule dbT_emit_step, rule dbT_bind)
  show "dbT (exactly D) (failing observer PrerequisiteResolution 1 (claim_microvm sdk observer validated))
     (\<lambda>(prerequisites, rec) d. holds ((view D)(vm_name rec \<mapsto> entry rec)) d
        \<and> free_for rec (view D) \<and> claimed_for validated prerequisites rec)
     (creation_failed (view D) (cr_name (vr_request validated)))"
    by (rule dbT_failing, rule dbT_conseq [OF claim_triple]) (auto intro: exactly_failed)
next
  fix x :: "CreationPrerequisites \<times> MicroVmRecord"
  obtain prerequisites rec where x: "x = (prerequisites, rec)" by fastforce
  have goal: "dbT (holds ((view D)(vm_name rec \<mapsto> entry rec)))
      (bindE (emit_creation_progress observer (creation_stage_event PrerequisiteResolution 2))
        (\<lambda>_. create_or_roll_back sdk observer validated prerequisites rec))
      (created D (vr_request validated)) (creation_failed (view D) (cr_name (vr_request validated)))"
    if free: "free_for rec (view D)" and rec: "claimed_for validated prerequisites rec"
  proof (rule dbT_emit_step, rule dbT_conseq [OF create_or_roll_back_triple [OF free]])
    have name: "vm_name rec = cr_name (vr_request validated)"
      using rec by (auto simp: claimed_for_def creation_record_def Let_def)
    show "creation_failed (view D) (vm_name rec) e d \<Longrightarrow> creation_failed (view D) (cr_name (vr_request validated)) e d" for e d
      by (simp add: name)
    show "stored_result (view D) rec result d \<Longrightarrow> created D (vr_request validated) result d" for result d
      using free rec claimed_for_provides [of validated prerequisites]
      by (auto simp: stored_result_def created_def holds_def free_for_def name)
  qed
  then show "dbT ((\<lambda>(prerequisites, rec) d. holds ((view D)(vm_name rec \<mapsto> entry rec)) d
        \<and> free_for rec (view D) \<and> claimed_for validated prerequisites rec) x)
      (case x of (prerequisites, rec) \<Rightarrow>
        bindE (emit_creation_progress observer (creation_stage_event PrerequisiteResolution 2))
          (\<lambda>_. create_or_roll_back sdk observer validated prerequisites rec))
      (created D (vr_request validated)) (creation_failed (view D) (cr_name (vr_request validated)))"
    by (auto simp: x intro!: dbT_assume)
qed

lemma existing_triple:
  assumes "view D (cr_name (vr_request validated)) = Some stored"
  shows "dbT (exactly D) (return_or_reject_existing_creation sdk observer validated stored)
     (created D (vr_request validated)) (creation_failed (view D) (cr_name (vr_request validated)))"
proof -
  have load: "build_creation_result stored = Inr result" if "load_creation_result sdk stored s = (Inr result, s')" for s result s'
    using that by (auto simp: load_creation_result_def bindE_Inr)
  have "dbT (exactly D) (load_creation_result sdk stored) (\<lambda>result d. exactly D d \<and> build_creation_result stored = Inr result)
     (creation_failed (view D) (cr_name (vr_request validated)))"
    by (rule dbT_conseq [OF dbT_quiet_value [OF quiet_creation_steps(3), where P = "exactly D"]])
      (auto intro: load exactly_failed)
  moreover have "created D (vr_request validated) result d"
    if "exactly D d" "build_creation_result stored = Inr result" "configuration_conflict validated stored = None" for result d
    using that assms no_conflict_provides [OF that(3)] by (auto simp: exactly_def created_def elim: view_SomeE)
  ultimately show ?thesis unfolding return_or_reject_existing_creation_def
    by (auto intro!: dbT_failing dbT_throw exactly_failed dbT_bind [OF dbT_failing] dbT_emit_step dbT_return
        split: option.split)
qed

lemma create_triple:
  "dbT (exactly D) (create_microvm sdk observer request) (created D request) (creation_failed (view D) (cr_name request))"
proof -
  have find: "dbT (exactly D) (repository_read sdk (find_microvm name)) (\<lambda>x d. exactly D d \<and> x = view D name)
      (creation_failed (view D) (cr_name request))" for name
    unfolding repository_read_def
    by (rule dbT_step [OF quiet_env], rule dbT_db) (auto simp: exactly_def find_microvm_view intro: exactly_failed)
  have valid: "dbT (exactly D) (liftE (validate request (home sdk))) (\<lambda>validated d. exactly D d \<and> vr_request validated = request)
      (creation_failed (view D) (cr_name request))"
    by (rule dbT_lift) (auto elim: validate_Inr intro: exactly_failed)
  show ?thesis unfolding create_microvm_def
    by (rule dbT_emit_step, rule dbT_bind [OF dbT_failing [OF valid]], rule dbT_assume,
        rule dbT_step, intro quiet_intros, rule dbT_bind [OF dbT_failing [OF find]], rule dbT_assume)
      (auto intro!: dbT_option create_new_triple existing_triple exactly_failed)
qed

section \<open>The property\<close>

text \<open>(C3) Creation is all or nothing, whatever the ports and the observer do. A success returns the description of a
  complete VM that is stored under the requested name with the requested distribution, image, disk, vCPUs, memory and
  exposure; the VM was either new or stood there already, and then the database is as it was. An error leaves the
  inventory as it was, unless it says that the cleanup of the attempt failed; and no other VM is ever touched.\<close>
theorem create_microvm_atomic:
  assumes "inventory_ok (sd_db s)" and "create_microvm sdk observer request s = (r, s')"
  shows "inventory_ok (sd_db s') \<and> (\<forall>n. n \<noteq> cr_name request \<longrightarrow> find_microvm n (sd_db s') = find_microvm n (sd_db s))
    \<and> (case r of
         Inr result \<Rightarrow>
           (\<exists>stored. find_microvm (cr_name request) (sd_db s') = Inr (Some stored) \<and> provides request stored
              \<and> build_creation_result stored = Inr result)
           \<and> (find_microvm (cr_name request) (sd_db s) = Inr None \<or> sd_db s' = sd_db s)
       | Inl e \<Rightarrow>
           (\<exists>primary failures. e = Cleanup primary failures) \<or> (\<forall>n. find_microvm n (sd_db s') = find_microvm n (sd_db s)))"
proof (cases r)
  case (Inr result)
  with dbT_Inr [OF create_triple exactly_self [OF assms(1)]] assms(2)
  have "created (sd_db s) request result (sd_db s')" by simp
  with Inr assms(1) show ?thesis by (auto simp: created_def find_microvm_view)
next
  case (Inl e)
  with dbT_Inl [OF create_triple exactly_self [OF assms(1)]] assms(2)
  have "creation_failed (view (sd_db s)) (cr_name request) e (sd_db s')" by simp
  with Inl assms(1) show ?thesis by (auto simp: creation_failed_def find_microvm_view)
qed

theorem create_microvm_atomic_witness:
  "\<exists>result s' stored. create_microvm steady_sdk None demo_request \<lparr>sd_db = demo_store, sd_env = ()\<rparr> = (Inr result, s')
     \<and> find_microvm ''web'' (sd_db s') = Inr (Some stored) \<and> provides demo_request stored \<and> build_creation_result stored = Inr result"
proof -
  obtain result s' where run: "create_microvm steady_sdk None demo_request \<lparr>sd_db = demo_store, sd_env = ()\<rparr> = (Inr result, s')"
    using steady_creation [of None "()"] by (elim exE)
  have "cr_name demo_request = ''web''" by (simp add: demo_request_def)
  with create_microvm_atomic [OF _ run] demo_ok(1) run show ?thesis by auto
qed

end
