(* ===== verification/Creation_Events.thy ===== *)
theory Creation_Events
  imports Creation_Safety Download_Files
begin

text \<open>
  The progress events of a creation. The events that reached the observer are read from the environment by a function
  \<open>log\<close>, and \<open>event_laws\<close> says that the ports do not call the observer, except for the callback of the volume
  preparation. The stages before the end only report ordinary events; the operation ends with one terminal event.
\<close>

section \<open>Events\<close>

definition ordinary :: "CreationProgress \<Rightarrow> bool" where
  "ordinary e \<longleftrightarrow> cp_outcome e = None \<and> cp_total_steps e = TOTAL_CREATION_STEPS \<and> cp_overall_percent e \<le> 100"

definition extends :: "('w \<Rightarrow> CreationProgress list) \<Rightarrow> 'w sdk \<Rightarrow> 'w sdk \<Rightarrow> bool" where
  "extends log s s' \<longleftrightarrow> (\<exists>es. log (sd_env s') = log (sd_env s) @ es \<and> list_all ordinary es)"

text \<open>The run ends with a terminal event, whose stage and outcome satisfy a condition.\<close>

definition closes ::
  "('w \<Rightarrow> CreationProgress list) \<Rightarrow> (CreationStage \<Rightarrow> CreationOutcome \<Rightarrow> bool) \<Rightarrow> 'w sdk \<Rightarrow> 'w sdk \<Rightarrow> bool" where
  "closes log C s s' \<longleftrightarrow> (\<exists>es e outcome. log (sd_env s') = log (sd_env s) @ es @ [e] \<and> list_all ordinary es
     \<and> cp_outcome e = Some outcome \<and> C (cp_stage e) outcome)"

definition failed_in :: "CreationStage \<Rightarrow> CreationOutcome \<Rightarrow> bool" where
  "failed_in stage outcome \<longleftrightarrow> outcome = Failed stage"

definition succeeded :: "CreationStage \<Rightarrow> CreationOutcome \<Rightarrow> bool" where
  "succeeded stage outcome \<longleftrightarrow> outcome \<in> {CreationOutcome.Completed, AlreadyConfigured}"

text \<open>A port with a callback changes the log through its callback only.\<close>

definition callback_only :: "('w \<Rightarrow> 'c) \<Rightarrow> ((u64 \<Rightarrow> u64 \<Rightarrow> 'w \<Rightarrow> 'w) \<Rightarrow> ('w, 'a) sdk_io) \<Rightarrow> bool" where
  "callback_only log m \<longleftrightarrow> (\<forall>callback w r w' I. m callback w = (r, w') \<longrightarrow>
     (\<forall>a b v. I (log v) \<longrightarrow> I (log (callback a b v))) \<longrightarrow> I (log w) \<longrightarrow> I (log w'))"

lemma callback_onlyD:
  "callback_only log m \<Longrightarrow> m callback w = (r, w') \<Longrightarrow> (\<And>a b v. I (log v) \<Longrightarrow> I (log (callback a b v))) \<Longrightarrow> I (log w) \<Longrightarrow> I (log w')"
  unfolding callback_only_def by blast

text \<open>What the property relies on: the observer logs the event it gets, and the ports leave the log alone.\<close>

definition event_laws :: "'w MicroVmSdk \<Rightarrow> (CreationProgress \<Rightarrow> 'w \<Rightarrow> 'w) \<Rightarrow> ('w \<Rightarrow> CreationProgress list) \<Rightarrow> bool" where
  "event_laws sdk observe log \<longleftrightarrow>
     (\<forall>e w. log (observe e w) = log w @ [e])
     \<and> silent log (open_connection sdk) \<and> silent log (unix_timestamp sdk) \<and> silent log (fetch_manifest sdk)
     \<and> silent log (validate_host (runtime sdk))
     \<and> (\<forall>p. silent log (target_lock sdk p) \<and> silent log (generate_credential sdk p) \<and> silent log (verify_stopped (runtime sdk) p)
          \<and> silent log (symlink_metadata (files sdk) p) \<and> silent log (metadata_of (files sdk) p) \<and> silent log (open_file (files sdk) p)
          \<and> silent log (read_file (files sdk) p) \<and> silent log (read_dir (files sdk) p) \<and> silent log (remove_file (files sdk) p)
          \<and> silent log (remove_dir (files sdk) p))
     \<and> (\<forall>request n u u'. silent log (configure_port (network sdk) request n u u')) \<and> (\<forall>n. silent log (cleanup_port (network sdk) n))
     \<and> (\<forall>p k g a l. silent log (inject_public_key (storage sdk) p k) \<and> silent log (write_guest_network_config (storage sdk) p g a)
          \<and> silent log (write_guest_lan_config (storage sdk) p g a l))
     \<and> (\<forall>p q n. callback_only log (prepare_rootfs (storage sdk) p q n))"

lemma event_laws_prepare: "event_laws sdk observe log \<Longrightarrow> callback_only log (prepare_rootfs (storage sdk) p q n)"
  by (simp add: event_laws_def)

lemma event_laws_observe: "event_laws sdk observe log \<Longrightarrow> log (observe e w) = log w @ [e]"
  by (simp add: event_laws_def)

lemma event_laws_silent:
  assumes "event_laws sdk observe log"
  shows "silent log (open_connection sdk)" "silent log (unix_timestamp sdk)" "silent log (fetch_manifest sdk)"
    "silent log (validate_host (runtime sdk))" "silent log (target_lock sdk p)" "silent log (generate_credential sdk p)"
    "silent log (verify_stopped (runtime sdk) p)" "silent log (symlink_metadata (files sdk) p)" "silent log (metadata_of (files sdk) p)"
    "silent log (open_file (files sdk) p)" "silent log (read_file (files sdk) p)" "silent log (read_dir (files sdk) p)"
    "silent log (remove_file (files sdk) p)" "silent log (remove_dir (files sdk) p)"
    "silent log (configure_port (network sdk) request n u u')" "silent log (cleanup_port (network sdk) n')"
    "silent log (inject_public_key (storage sdk) p k)" "silent log (write_guest_network_config (storage sdk) p g a)"
    "silent log (write_guest_lan_config (storage sdk) p g a l)"
  using assms by (simp_all add: event_laws_def)

section \<open>Steps that report nothing\<close>

lemma calm_more [calm_intros]:
  "calm log (require_some v e)" "calm log m \<Longrightarrow> calm log (whenE b m)" "calm log m \<Longrightarrow> calm log (note_failure failures m)"
  by (auto simp: require_some_def whenE_def note_failure_def intro!: calm_intros)

lemma calm_map_err [calm_intros]: "calm log m \<Longrightarrow> calm log (map_err f m)"
  by (fastforce simp: calm_def keepsE_def map_err_def split: prod.splits sum.splits)

lemma calm_pair [calm_intros]: "(\<And>a b. calm log (f a b)) \<Longrightarrow> calm log (case p of (a, b) \<Rightarrow> f a b)"
  by (cases p) simp

lemma calm_let [calm_intros]: "calm log (f x) \<Longrightarrow> calm log (let y = x in f y)"
  by simp

lemma calm_repository:
  assumes "event_laws sdk observe log"
  shows "calm log (repository_read sdk f)" "calm log (repository_write sdk d)" "calm log (repository_stamped sdk g)"
  unfolding repository_read_def repository_write_def repository_stamped_def
  by (intro calm_intros event_laws_silent [OF assms])+

lemma calm_file_checks:
  assumes "event_laws sdk observe log"
  shows "calm log (path_entry_exists sdk p)" "calm log (verify_regular_file sdk p operation)"
    "calm log (verify_executable_file sdk p component)" "calm log (verify_private_key_mode sdk p)" "calm log (verify_public_key_mode sdk p)"
    "calm log (calculate_file_integrity sdk p)"
  unfolding path_entry_exists_def verify_regular_file_def verify_executable_file_def verify_private_key_mode_def
    verify_public_key_mode_def calculate_file_integrity_def
  by (intro calm_intros event_laws_silent [OF assms])+

lemma calm_stored_checks:
  assumes "event_laws sdk observe log"
  shows "calm log (load_creation_result sdk stored)" "calm log (resolve_binary sdk i component)"
  unfolding load_creation_result_def validate_persisted_files_def validate_volume_files_def resolve_binary_def
  by (intro calm_intros event_laws_silent [OF assms] calm_file_checks [OF assms] calm_repository [OF assms])+

lemma calm_candidates:
  assumes "event_laws sdk observe log"
  shows "calm log (first_candidate sdk component architecture last_error packages)"
  by (induction packages arbitrary: last_error)
    (auto simp: try_candidate_def intro!: calm_intros calm_stored_checks [OF assms] calm_file_checks [OF assms])

lemma calm_volume:
  assumes "event_laws sdk observe log"
  shows "calm log (ensure_volume_available sdk name volume)" "calm log (lock_targets sdk validated)"
    "calm log (write_guest_config sdk prepared config)"
  unfolding ensure_volume_available_def ensure_volume_empty_def lock_targets_def write_guest_config_def
  by (auto intro!: calm_intros event_laws_silent [OF assms] calm_repository [OF assms]
      split: list.split sum.split option.split ip_addr.split)

lemma calm_rollback:
  assumes "event_laws sdk observe log"
  shows "calm log (rollback_creation sdk journal)"
proof -
  have "calm log (remove_created_files sdk ps failures)" for ps failures
  proof (induction ps arbitrary: failures)
    case Nil
    show ?case unfolding remove_created_files.simps by (intro calm_intros)
  next
    case (Cons p ps)
    then show ?case
      by (cases p) (auto intro!: calm_intros event_laws_silent [OF assms])
  qed
  then show ?thesis
    unfolding rollback_creation_def clean_up_network_def rollback_network_def remove_created_dir_def
    by (intro calm_intros event_laws_silent [OF assms] calm_repository [OF assms])
qed

section \<open>Steps that report ordinary events\<close>

abbreviation adds :: "('w \<Rightarrow> CreationProgress list) \<Rightarrow> ('e, 'w sdk, 'a) io \<Rightarrow> bool" where
  "adds log m \<equiv> keepsE (extends log) m"

lemma extends_refl: "reflp (extends log)"
  by (auto simp: extends_def intro: reflpI)

lemma extends_trans: "transp (extends log)"
  by (rule transpI) (fastforce simp: extends_def)

lemma adds_calm: "calm log m \<Longrightarrow> adds log m"
  by (auto simp: calm_def keepsE_def extends_def)

lemmas adds_bind = keepsE_bind [OF extends_trans]

lemma adds_cases:
  "adds log m \<Longrightarrow> adds log n \<Longrightarrow> adds log (if b then m else n)"
  "(\<And>e. adds log (f e)) \<Longrightarrow> (\<And>x. adds log (g x)) \<Longrightarrow> adds log (case r of Inl e \<Rightarrow> f e | Inr x \<Rightarrow> g x)"
  "adds log m \<Longrightarrow> (\<And>x. adds log (h x)) \<Longrightarrow> adds log (case v of None \<Rightarrow> m | Some x \<Rightarrow> h x)"
  "(\<And>a b. adds log (k a b)) \<Longrightarrow> adds log (case p of (a, b) \<Rightarrow> k a b)"
  by (simp_all split: sum.split option.split prod.split)

lemma overall_percent_bound: "overall_percent n b \<le> 100"
  by (auto simp: overall_percent_def Let_def split: option.split)

lemma ordinary_events [simp]:
  "ordinary (creation_started_event stage n)" "ordinary (creation_stage_event stage n)" "ordinary (creation_tick_event stage n a b)"
  by (simp_all add: ordinary_def creation_started_event_def creation_stage_event_def creation_tick_event_def creation_event_def
      overall_percent_bound)

lemma emit_log:
  "event_laws sdk observe log \<Longrightarrow> emit_creation_progress (Some observe) e s = (r, s') \<Longrightarrow> log (sd_env s') = log (sd_env s) @ [e]"
  by (auto simp: emit_creation_progress_def event_laws_observe)

lemma adds_emit: "event_laws sdk observe log \<Longrightarrow> ordinary e \<Longrightarrow> adds log (emit_creation_progress (Some observe) e)"
  by (auto simp: keepsE_def extends_def dest: emit_log)

lemma adds_tick:
  "event_laws sdk observe log \<Longrightarrow> adds log (on_env (\<lambda>w. (Inr (), tick (Some observe) stage n a b w)))"
  by (auto simp: keepsE_def extends_def on_env_def tick_def event_laws_observe)

lemma adds_prepare:
  assumes "event_laws sdk observe log"
  shows "adds log (on_env (prepare_rootfs (storage sdk) p q n (tick (Some observe) stage k)))"
proof (unfold keepsE_def, intro allI impI)
  fix s r s'
  assume "on_env (prepare_rootfs (storage sdk) p q n (tick (Some observe) stage k)) s = (r, s')"
  then have run: "prepare_rootfs (storage sdk) p q n (tick (Some observe) stage k) (sd_env s) = (r, sd_env s')"
    by (auto simp: on_env_def split: prod.splits)
  let ?I = "\<lambda>l. \<exists>es. l = log (sd_env s) @ es \<and> list_all ordinary es"
  have "?I (log (tick (Some observe) stage k a b v))" if I: "?I (log v)" for a b v
  proof -
    from I obtain es where "log v = log (sd_env s) @ es" "list_all ordinary es" by blast
    then have "log (tick (Some observe) stage k a b v) = log (sd_env s) @ (es @ [creation_tick_event stage k a (max b 1)])"
      "list_all ordinary (es @ [creation_tick_event stage k a (max b 1)])"
      by (simp_all add: tick_def event_laws_observe [OF assms])
    then show ?thesis by (intro exI conjI)
  qed
  from callback_onlyD [where m = "prepare_rootfs (storage sdk) p q n" and callback = "tick (Some observe) stage k" and w = "sd_env s"
      and r = r and w' = "sd_env s'" and I = ?I, OF event_laws_prepare [OF assms] run this]
  have "?I (log (sd_env s'))" by simp
  then show "extends log s s'" by (simp add: extends_def)
qed

lemma adds_read_loop:
  assumes "event_laws sdk observe log"
  shows "adds log (read_loop (Some observe) expected bytes n)"
proof (induction "Some observe" expected bytes n rule: read_loop.induct)
  case (1 expected bytes n)
  show ?case
  proof (cases "bytes = []")
    case True
    then show ?thesis by (subst read_loop.simps) (simp only: if_True simp_thms keepsE_return [OF extends_refl])
  next
    case False
    then show ?thesis
      by (subst read_loop.simps)
        (simp only: if_False, intro adds_bind adds_tick [OF assms] 1 adds_calm [OF calm_more(1)], simp_all)
  qed
qed

lemma adds_prerequisites:
  assumes "event_laws sdk observe log"
  shows "adds log (resolve_creation_prerequisites sdk (Some observe) request)"
proof -
  have "adds log (calculate_file_integrity_with_progress sdk (Some observe) p n)" for p n
    unfolding calculate_file_integrity_with_progress_def Let_def
    by (intro adds_bind adds_cases adds_read_loop [OF assms] adds_tick [OF assms] adds_calm calm_intros event_laws_silent [OF assms])
  then have "adds log (verify_local_artifact_with_progress sdk (Some observe) local n sha kind i)" for local n sha kind i
    unfolding verify_local_artifact_with_progress_def Let_def
    by (intro adds_cases adds_bind adds_calm [OF calm_basic(2)]) (auto intro!: adds_calm calm_intros)
  then show ?thesis unfolding resolve_creation_prerequisites_def select_runtime_binary_def
    by (intro adds_bind adds_cases)
      (auto intro!: adds_calm calm_intros event_laws_silent [OF assms] calm_repository [OF assms] calm_candidates [OF assms])
qed

lemma adds_claim:
  assumes "event_laws sdk observe log"
  shows "adds log (claim_microvm sdk (Some observe) validated)"
  unfolding claim_microvm_def Let_def
  by (intro adds_bind adds_prerequisites [OF assms])
    (auto intro!: adds_calm calm_intros event_laws_silent [OF assms] calm_repository [OF assms] calm_volume [OF assms])

section \<open>The protocol\<close>

text \<open>A part of the operation reports ordinary events while it succeeds and the terminal event when it fails; the
  operation as a whole reports the terminal event in both cases.\<close>

definition reports :: "('w \<Rightarrow> CreationProgress list) \<Rightarrow> ('e, 'w sdk, 'a) io \<Rightarrow> bool" where
  "reports log m \<longleftrightarrow> (\<forall>s r s'. m s = (r, s') \<longrightarrow> (case r of Inl _ \<Rightarrow> closes log failed_in s s' | Inr _ \<Rightarrow> extends log s s'))"

definition concludes :: "('w \<Rightarrow> CreationProgress list) \<Rightarrow> ('e, 'w sdk, 'a) io \<Rightarrow> bool" where
  "concludes log m \<longleftrightarrow> (\<forall>s r s'. m s = (r, s') \<longrightarrow> (case r of Inl _ \<Rightarrow> closes log failed_in s s' | Inr _ \<Rightarrow> closes log succeeded s s'))"

lemma reportsD: "reports log m \<Longrightarrow> m s = (Inl e, s') \<Longrightarrow> closes log failed_in s s'"
  "reports log m \<Longrightarrow> m s = (Inr x, s') \<Longrightarrow> extends log s s'"
  unfolding reports_def by fastforce+

lemma concludesD: "concludes log m \<Longrightarrow> m s = (Inl e, s') \<Longrightarrow> closes log failed_in s s'"
  "concludes log m \<Longrightarrow> m s = (Inr x, s') \<Longrightarrow> closes log succeeded s s'"
  unfolding concludes_def by fastforce+

lemma reportsI:
  assumes "\<And>s e s'. m s = (Inl e, s') \<Longrightarrow> closes log failed_in s s'" "\<And>s x s'. m s = (Inr x, s') \<Longrightarrow> extends log s s'"
  shows "reports log m"
  unfolding reports_def using assms by (auto split: sum.split)

lemma concludesI:
  assumes "\<And>s e s'. m s = (Inl e, s') \<Longrightarrow> closes log failed_in s s'" "\<And>s x s'. m s = (Inr x, s') \<Longrightarrow> closes log succeeded s s'"
  shows "concludes log m"
  unfolding concludes_def using assms by (auto split: sum.split)

lemma extends_closes: "extends log s s1 \<Longrightarrow> closes log C s1 s2 \<Longrightarrow> closes log C s s2"
proof -
  assume "extends log s s1" "closes log C s1 s2"
  then obtain es fs e outcome where "log (sd_env s1) = log (sd_env s) @ es" "list_all ordinary es"
    "log (sd_env s2) = log (sd_env s1) @ fs @ [e]" "list_all ordinary fs" "cp_outcome e = Some outcome" "C (cp_stage e) outcome"
    unfolding extends_def closes_def by blast
  then have "log (sd_env s2) = log (sd_env s) @ (es @ fs) @ [e]" "list_all ordinary (es @ fs)" "cp_outcome e = Some outcome" "C (cp_stage e) outcome"
    by simp_all
  then show ?thesis unfolding closes_def by blast
qed

lemma reports_bind:
  assumes "reports log m" "\<And>x. reports log (f x)"
  shows "reports log (bindE m f)"
proof (rule reportsI)
  show "closes log failed_in s s'" if "bindE m f s = (Inl e, s')" for s e s'
    using that unfolding bindE_Inl
    by (elim disjE exE conjE) (rule reportsD(1) [OF assms(1)], assumption,
        rule extends_closes [OF reportsD(2) [OF assms(1)] reportsD(1) [OF assms(2)]], assumption+)
  show "extends log s s'" if "bindE m f s = (Inr x, s')" for s x s'
    using that unfolding bindE_Inr
    by (elim exE conjE) (rule transpD [OF extends_trans reportsD(2) [OF assms(1)] reportsD(2) [OF assms(2)]], assumption+)
qed

lemma concludes_bind:
  assumes "reports log m" "\<And>x. concludes log (f x)"
  shows "concludes log (bindE m f)"
proof (rule concludesI)
  show "closes log failed_in s s'" if "bindE m f s = (Inl e, s')" for s e s'
    using that unfolding bindE_Inl
    by (elim disjE exE conjE) (rule reportsD(1) [OF assms(1)], assumption,
        rule extends_closes [OF reportsD(2) [OF assms(1)] concludesD(1) [OF assms(2)]], assumption+)
  show "closes log succeeded s s'" if "bindE m f s = (Inr x, s')" for s x s'
    using that unfolding bindE_Inr
    by (elim exE conjE) (rule extends_closes [OF reportsD(2) [OF assms(1)] concludesD(2) [OF assms(2)]], assumption+)
qed

lemma reports_return: "reports log (returnE x)"
  by (rule reportsI) (auto simp: reflpD [OF extends_refl])

lemma reports_emit: "event_laws sdk observe log \<Longrightarrow> ordinary e \<Longrightarrow> reports log (emit_creation_progress (Some observe) e)"
  by (rule reportsI) (auto simp: emit_creation_progress_def extends_def event_laws_observe)

lemma reports_prod: "(\<And>a b. reports log (f a b)) \<Longrightarrow> reports log (case p of (a, b) \<Rightarrow> f a b)"
  and concludes_prod: "(\<And>a b. concludes log (g a b)) \<Longrightarrow> concludes log (case p of (a, b) \<Rightarrow> g a b)"
  by (cases p; simp)+

lemma closes_terminal:
  assumes "extends log s s1" "C stage outcome" "log (sd_env s2) = log (sd_env s1) @ [creation_terminal_event stage n outcome]"
  shows "closes log C s s2"
proof -
  have "closes log C s1 s2"
    using assms(2,3) by (auto simp: closes_def creation_terminal_event_def creation_event_def)
  with assms(1) show ?thesis by (rule extends_closes)
qed

lemma reports_failing:
  assumes "event_laws sdk observe log" "adds log m"
  shows "reports log (failing (Some observe) stage n m)"
proof (rule reportsI)
  show "extends log s s'" if "failing (Some observe) stage n m s = (Inr x, s')" for s x s'
    using that keepsED [OF assms(2)] by (auto simp: failing_def bindE_Inr attemptE_def split: prod.splits sum.splits)
next
  fix s e s'
  assume "failing (Some observe) stage n m s = (Inl e, s')"
  then obtain s1 e' where m: "m s = (Inl e', s1)"
    and "log (sd_env s') = log (sd_env s1) @ [creation_terminal_event stage n (Failed stage)]"
    by (auto simp: failing_def bindE_def attemptE_def emit_creation_progress_def event_laws_observe [OF assms(1)] split: prod.splits sum.splits)
  from closes_terminal [OF keepsED [OF assms(2) m] _ this(2)] show "closes log failed_in s s'"
    by (simp add: failed_in_def)
qed

lemma reports_in_stage:
  assumes "event_laws sdk observe log" "adds log m"
  shows "reports log (in_stage (Some observe) stage n journal m)"
proof (rule reportsI)
  show "closes log failed_in s s'" if "in_stage (Some observe) stage n journal m s = (Inl e, s')" for s e s'
    using that reportsD(1) [OF reports_failing [OF assms]] by (auto simp: in_stage_def split: prod.splits sum.splits)
  show "extends log s s'" if "in_stage (Some observe) stage n journal m s = (Inr x, s')" for s x s'
    using that reportsD(2) [OF reports_failing [OF assms]] by (auto simp: in_stage_def split: prod.splits sum.splits)
qed

lemma concludes_terminal:
  assumes "event_laws sdk observe log" "succeeded stage outcome"
  shows "concludes log (bindE (emit_creation_progress (Some observe) (creation_terminal_event stage n outcome)) (\<lambda>_. returnE x))"
proof (rule concludesI)
  fix s y s'
  assume "bindE (emit_creation_progress (Some observe) (creation_terminal_event stage n outcome)) (\<lambda>_. returnE x) s = (Inr y, s')"
  then have "log (sd_env s') = log (sd_env s) @ [creation_terminal_event stage n outcome]"
    by (auto simp: bindE_Inr dest: emit_log [OF assms(1)])
  with reflpD [OF extends_refl, of log s] assms(2) show "closes log succeeded s s'" by (rule closes_terminal)
qed (auto simp: bindE_def emit_creation_progress_def)

section \<open>The stages\<close>

lemma create_claimed_reports:
  assumes laws: "event_laws sdk observe log"
  shows "reports log (create_claimed_microvm sdk (Some observe) validated prerequisites rec journal)"
  unfolding create_claimed_microvm_def prepare_volume_def set_up_credential_def set_up_network_def finalize_def Let_def
  by (intro reports_bind reports_prod reports_emit [OF laws] reports_return reports_in_stage [OF laws] adds_prepare [OF laws]
      ordinary_events adds_calm calm_intros event_laws_silent [OF laws] calm_repository [OF laws] calm_volume [OF laws])

lemma create_or_roll_back_concludes:
  assumes laws: "event_laws sdk observe log"
  shows "concludes log (create_or_roll_back sdk (Some observe) validated prerequisites rec)"
proof (rule concludesI)
  fix s x s'
  assume run: "create_or_roll_back sdk (Some observe) validated prerequisites rec s = (Inr x, s')"
  then obtain s1 where claimed: "create_claimed_microvm sdk (Some observe) validated prerequisites rec (new_journal rec) s = (Inr x, s1)"
    and fin: "log (sd_env s') = log (sd_env s1) @ [creation_terminal_event Finalization 6 CreationOutcome.Completed]"
    by (auto simp: create_or_roll_back_def bindE_def emit_creation_progress_def event_laws_observe [OF laws] split: prod.splits sum.splits)
  show "closes log succeeded s s'"
    by (rule closes_terminal [OF reportsD(2) [OF create_claimed_reports [OF laws] claimed] _ fin]) (simp add: succeeded_def)
next
  fix s e s'
  assume "create_or_roll_back sdk (Some observe) validated prerequisites rec s = (Inl e, s')"
  then obtain f s1 r where claimed: "create_claimed_microvm sdk (Some observe) validated prerequisites rec (new_journal rec) s = (Inl f, s1)"
    and "rollback_creation sdk (fst f) s1 = (r, s')"
    by (auto simp: create_or_roll_back_def bindE_def emit_creation_progress_def split: prod.splits sum.splits)
  then show "closes log failed_in s s'"
    using reportsD(1) [OF create_claimed_reports [OF laws] claimed] calmD [OF calm_rollback [OF laws]]
    by (simp add: closes_def)
qed

lemma existing_concludes:
  assumes laws: "event_laws sdk observe log"
  shows "concludes log (return_or_reject_existing_creation sdk (Some observe) validated stored)"
proof -
  have refuse: "concludes log (failing (Some observe) Validation 0 (throwE e))" for e
    using reportsD(1) [OF reports_failing [OF laws keepsE_throw [OF extends_refl]]]
    by (intro concludesI) (auto simp: failing_def bindE_def attemptE_def emit_creation_progress_def)
  have "succeeded Validation AlreadyConfigured" by (simp add: succeeded_def)
  then show ?thesis unfolding return_or_reject_existing_creation_def
    by (auto intro!: refuse concludes_bind reports_failing [OF laws] concludes_terminal [OF laws] adds_calm calm_stored_checks [OF laws]
        split: option.split)
qed

lemma create_concludes:
  assumes laws: "event_laws sdk observe log"
  shows "concludes log (create_microvm sdk (Some observe) request)"
proof -
  have option_case: "concludes log (case v of None \<Rightarrow> m | Some x \<Rightarrow> f x)" if "concludes log m" "\<And>x. concludes log (f x)" for v m f
    using that by (cases v) auto
  have "concludes log (create_new_microvm sdk (Some observe) validated)" for validated
    unfolding create_new_microvm_def
    by (intro concludes_bind concludes_prod reports_emit [OF laws] ordinary_events reports_failing [OF laws] adds_claim [OF laws]
        create_or_roll_back_concludes [OF laws])
  then show ?thesis unfolding create_microvm_def
    by (intro concludes_bind option_case reports_emit [OF laws] ordinary_events reports_failing [OF laws] existing_concludes [OF laws])
      (auto intro!: adds_calm calm_intros calm_volume [OF laws] calm_repository [OF laws])
qed

section \<open>The property\<close>

text \<open>(C10) An observed creation reports exactly one terminal event, as its last one. It says that the VM was created or
  was there already when the operation succeeds, and names the failed stage when it fails. All events before it are
  ordinary ones: they have no outcome, count the same total of steps and show at most 100 percent.\<close>
theorem create_microvm_reports:
  assumes "event_laws sdk observe log" and "create_microvm sdk (Some observe) request s = (r, s')"
  shows "\<exists>es e. log (sd_env s') = log (sd_env s) @ es @ [e]
    \<and> list_all (\<lambda>x. cp_outcome x = None \<and> cp_total_steps x = TOTAL_CREATION_STEPS \<and> cp_overall_percent x \<le> 100) es
    \<and> (case r of
         Inr _ \<Rightarrow> cp_outcome e = Some CreationOutcome.Completed \<or> cp_outcome e = Some AlreadyConfigured
       | Inl _ \<Rightarrow> cp_outcome e = Some (Failed (cp_stage e)))"
proof (cases r)
  case (Inl error)
  with assms(2) have "closes log failed_in s s'" using concludesD(1) [OF create_concludes [OF assms(1)]] by blast
  with Inl show ?thesis unfolding closes_def ordinary_def failed_in_def by fastforce
next
  case (Inr result)
  with assms(2) have "closes log succeeded s s'" using concludesD(2) [OF create_concludes [OF assms(1)]] by blast
  with Inr show ?thesis unfolding closes_def ordinary_def succeeded_def by fastforce
qed

lemma steady_event_laws: "event_laws steady_sdk (\<lambda>e l. l @ [e]) (\<lambda>l. l)"
  by (simp add: event_laws_def steady_sdk_def silent_def callback_only_def returnE_def)

theorem create_microvm_reports_witness:
  "\<exists>result s' es e. create_microvm steady_sdk (Some (\<lambda>e l. l @ [e])) demo_request \<lparr>sd_db = demo_store, sd_env = []\<rparr> = (Inr result, s')
     \<and> sd_env s' = es @ [e] \<and> (cp_outcome e = Some CreationOutcome.Completed \<or> cp_outcome e = Some AlreadyConfigured)"
proof -
  obtain result s' where run: "create_microvm steady_sdk (Some (\<lambda>e l. l @ [e])) demo_request \<lparr>sd_db = demo_store, sd_env = []\<rparr> = (Inr result, s')"
    using steady_creation [of "Some (\<lambda>e l. l @ [e])" "[]"] by (elim exE)
  from create_microvm_reports [OF steady_event_laws run] run show ?thesis by auto
qed

end
