(* ===== verification/Credential_Round_Trip.thy ===== *)
theory Credential_Round_Trip
  imports Ssh_Credentials
begin

text \<open>
  The keys that \<open>generate\<close> writes are the keys that \<open>validate_ed25519_key_pair\<close> accepts: the readers of the wire format
  invert its writers, the text of the private key is read back line by line, and the two files hold the texts the pair was
  encoded to. What is relied on of the other crates and of the file system is stated in \<open>crypto_laws\<close> and \<open>key_file_laws\<close>.
\<close>

section \<open>The wire format is read back\<close>

lemma length_to_be_bytes [simp]: "length (to_be_bytes x) = 4"
  by (simp add: to_be_bytes_def)

lemma four_digits:
  assumes "n < 2 ^ 32"
  shows "((n div 256 ^ 3 mod 256 * 256 + n div 256 ^ 2 mod 256) * 256 + n div 256 mod 256) * 256 + n mod 256 = (n :: nat)"
proof -
  have digits: "n div 256 ^ 3 = n div 256 div 256 div 256" "n div 256 ^ 2 = n div 256 div 256"
    by (simp_all flip: div_mult2_eq)
  have "n div 256 div 256 div 256 = n div 2 ^ 24" by (simp flip: div_mult2_eq)
  also have "\<dots> < 256" using assms by (intro less_mult_imp_div_less) simp
  finally have "n div 256 div 256 div 256 mod 256 = n div 256 div 256 div 256" by (rule mod_less)
  then show ?thesis unfolding digits by (simp add: div_mult_mod_eq)
qed

lemma from_to_be_bytes [simp]: "from_be_bytes (to_be_bytes x) = x"
proof -
  have digit: "unat (of_nat n :: u8) = n mod 256" for n by (simp add: unsigned_of_nat take_bit_eq_mod)
  have "foldl (\<lambda>n b. n * 256 + unat b) 0 (to_be_bytes x) = unat x"
    unfolding to_be_bytes_def list.map foldl.simps digit using four_digits [of "unat x"] unsigned_less [of x, where ?'a = nat] by simp
  then show ?thesis by (simp add: from_be_bytes_def)
qed

definition ssh_string :: "u8 list \<Rightarrow> u8 list" where
  "ssh_string v = to_be_bytes (of_nat (length v)) @ v"

lemma length_ssh_string [simp]: "length (ssh_string v) = 4 + length v"
  by (simp add: ssh_string_def)

lemma append_ssh_string_Some: "length v < 2 ^ 32 \<Longrightarrow> append_ssh_string buffer v = Some (buffer @ ssh_string v)"
  by (simp add: append_ssh_string_def ssh_string_def)

lemma slice_at: "bytes = pre @ v @ post \<Longrightarrow> slice_get bytes (length pre) (length pre + length v) = Some v"
  by (simp add: slice_get_def)

lemma read_u32_at:
  assumes "length pre + 4 < 2 ^ 64"
  shows "read_u32 (pre @ to_be_bytes x @ post) (length pre) = Some (x, length pre + 4)"
  using assms slice_at [OF refl, of pre "to_be_bytes x" post] by (simp add: read_u32_def)

lemma read_ssh_string_at:
  assumes "length v < 2 ^ 32" and "length pre + 4 + length v < 2 ^ 64"
  shows "read_ssh_string (pre @ ssh_string v @ post) (length pre) = Some (v, length (pre @ ssh_string v))"
proof -
  have "unat (of_nat (length v) :: u32) = length v" using assms(1) by (simp add: unsigned_of_nat take_bit_nat_eq_self)
  moreover have "slice_get (pre @ ssh_string v @ post) (length pre + 4) (length pre + 4 + length v) = Some v"
    using slice_at [of "pre @ ssh_string v @ post" "pre @ to_be_bytes (of_nat (length v))" v post] by (simp add: ssh_string_def)
  ultimately show ?thesis
    using assms read_u32_at [of pre "of_nat (length v)" "v @ post"] by (simp add: read_ssh_string_def ssh_string_def add.assoc)
qed

text \<open>The same at the cursor left by the reads before it.\<close>

lemma read_next_string:
  assumes "bytes = pre @ ssh_string v @ post" and "k = length pre" and "length v < 2 ^ 32" and "length pre + 4 + length v < 2 ^ 64"
  shows "read_ssh_string bytes k = Some (v, length (pre @ ssh_string v))"
  using read_ssh_string_at [OF assms(3,4)] assms(1,2) by simp

definition public_blob_of :: "u8 list \<Rightarrow> u8 list" where
  "public_blob_of public_key = ssh_string (bytes_of ''ssh-ed25519'') @ ssh_string public_key"

lemma length_key_type [simp]: "length (bytes_of s) = length s"
  by (simp add: bytes_of_def)

lemma encode_public_blob_Some: "length public_key = 32 \<Longrightarrow> encode_public_blob public_key = Some (public_blob_of public_key)"
  by (simp add: encode_public_blob_def public_blob_of_def append_ssh_string_Some)

definition block_body :: "u8 list \<Rightarrow> u8 list \<Rightarrow> u8 list \<Rightarrow> u8 list" where
  "block_body check_bytes seed public_key =
     to_be_bytes (from_be_bytes check_bytes) @ to_be_bytes (from_be_bytes check_bytes) @ ssh_string (bytes_of ''ssh-ed25519'')
       @ ssh_string public_key @ ssh_string (seed @ public_key) @ ssh_string []"

definition padded :: "u8 list \<Rightarrow> u8 list" where
  "padded body = body @ map of_nat [1..<Suc (8 - length body mod 8)]"

lemma encode_private_block_Some:
  assumes "length public_key = 32" and "length seed = 32"
  shows "encode_private_block check_bytes seed public_key = Some (padded (block_body check_bytes seed public_key))"
  using assms by (simp add: encode_private_block_def block_body_def padded_def append_ssh_string_Some Let_def del: upt_Suc)

definition private_blob_of :: "u8 list \<Rightarrow> u8 list \<Rightarrow> u8 list" where
  "private_blob_of public_blob private_block =
     MAGIC @ ssh_string (bytes_of ''none'') @ ssh_string (bytes_of ''none'') @ ssh_string [] @ to_be_bytes 1
       @ ssh_string public_blob @ ssh_string private_block"

lemma length_MAGIC [simp]: "length MAGIC = 15"
  by (simp add: MAGIC_def)

lemma encode_private_blob_Some:
  "length public_blob < 2 ^ 32 \<Longrightarrow> length private_block < 2 ^ 32
    \<Longrightarrow> encode_private_blob public_blob private_block = Some (private_blob_of public_blob private_block)"
  by (simp add: encode_private_blob_def private_blob_of_def append_ssh_string_Some)

lemma public_blob_read:
  assumes "length public_key = 32"
  shows "read_ssh_string (public_blob_of public_key) 0 = Some (bytes_of ''ssh-ed25519'', 15)"
    and "read_ssh_string (public_blob_of public_key) 15 = Some (public_key, 51)"
    and "length (public_blob_of public_key) = 51"
  using assms read_next_string [of "public_blob_of public_key" "[]" "bytes_of ''ssh-ed25519''" "ssh_string public_key" 0]
    read_next_string [of "public_blob_of public_key" "ssh_string (bytes_of ''ssh-ed25519'')" public_key "[]" 15]
  by (simp_all add: public_blob_of_def)

lemma check_that_True [simp]: "check_that True = Some ()"
  by (simp add: check_that_def)

lemma parse_private_blob_encoded:
  assumes "length public_blob < 2 ^ 32" and "length private_block < 2 ^ 32"
  shows "parse_private_blob public_blob (private_blob_of public_blob private_block) = Some private_block"
proof -
  let ?n = "ssh_string (bytes_of ''none'')" and ?blob = "private_blob_of public_blob private_block"
  have magic: "prefix MAGIC ?blob" by (simp add: private_blob_of_def)
  have reads: "read_ssh_string ?blob 15 = Some (bytes_of ''none'', 23)" "read_ssh_string ?blob 23 = Some (bytes_of ''none'', 31)"
    "read_ssh_string ?blob 31 = Some ([], 35)" "read_u32 ?blob 35 = Some (1, 39)"
    using read_next_string [of ?blob MAGIC "bytes_of ''none''" "?n @ ssh_string [] @ to_be_bytes 1 @ ssh_string public_blob @ ssh_string private_block" 15]
      read_next_string [of ?blob "MAGIC @ ?n" "bytes_of ''none''" "ssh_string [] @ to_be_bytes 1 @ ssh_string public_blob @ ssh_string private_block" 23]
      read_next_string [of ?blob "MAGIC @ ?n @ ?n" "[]" "to_be_bytes 1 @ ssh_string public_blob @ ssh_string private_block" 31]
      read_u32_at [of "MAGIC @ ?n @ ?n @ ssh_string []" 1 "ssh_string public_blob @ ssh_string private_block"]
    by (simp_all add: private_blob_of_def)
  have keys: "read_ssh_string ?blob 39 = Some (public_blob, 43 + length public_blob)"
    "read_ssh_string ?blob (43 + length public_blob) = Some (private_block, 47 + length public_blob + length private_block)"
    using assms
      read_next_string [of ?blob "MAGIC @ ?n @ ?n @ ssh_string [] @ to_be_bytes 1" public_blob "ssh_string private_block" 39]
      read_next_string [of ?blob "MAGIC @ ?n @ ?n @ ssh_string [] @ to_be_bytes 1 @ ssh_string public_blob" private_block "[]"
        "43 + length public_blob"]
    by (simp_all add: private_blob_of_def)
  have all: "length ?blob = 47 + length public_blob + length private_block" by (simp add: private_blob_of_def)
  show ?thesis unfolding parse_private_blob_def by (simp add: magic reads keys all)
qed

lemma padding_ok_upt: "0 < n \<Longrightarrow> padding_ok (map of_nat [1..<Suc n])"
  by (auto simp: padding_ok_def list_all_iff in_set_enumerate_eq simp del: upt_Suc)

lemma parse_private_block_encoded:
  assumes "length public_key = 32" and "length seed = 32" and "padding_ok pad"
  shows "parse_private_block public_key (block_body check_bytes seed public_key @ pad) = Some seed"
proof -
  let ?c = "to_be_bytes (from_be_bytes check_bytes)" and ?t = "ssh_string (bytes_of ''ssh-ed25519'')"
  let ?block = "block_body check_bytes seed public_key @ pad"
  have checks: "read_u32 ?block 0 = Some (from_be_bytes check_bytes, 4)" "read_u32 ?block 4 = Some (from_be_bytes check_bytes, 8)"
    using read_u32_at [of "[]" "from_be_bytes check_bytes" "?c @ ?t @ ssh_string public_key @ ssh_string (seed @ public_key) @ ssh_string [] @ pad"]
      read_u32_at [of ?c "from_be_bytes check_bytes" "?t @ ssh_string public_key @ ssh_string (seed @ public_key) @ ssh_string [] @ pad"]
    by (simp_all add: block_body_def)
  have reads: "read_ssh_string ?block 8 = Some (bytes_of ''ssh-ed25519'', 23)" "read_ssh_string ?block 23 = Some (public_key, 59)"
    "read_ssh_string ?block 59 = Some (seed @ public_key, 127)" "read_ssh_string ?block 127 = Some ([], 131)"
    using assms
      read_next_string [of ?block "?c @ ?c" "bytes_of ''ssh-ed25519''" "ssh_string public_key @ ssh_string (seed @ public_key) @ ssh_string [] @ pad" 8]
      read_next_string [of ?block "?c @ ?c @ ?t" public_key "ssh_string (seed @ public_key) @ ssh_string [] @ pad" 23]
      read_next_string [of ?block "?c @ ?c @ ?t @ ssh_string public_key" "seed @ public_key" "ssh_string [] @ pad" 59]
      read_next_string [of ?block "?c @ ?c @ ?t @ ssh_string public_key @ ssh_string (seed @ public_key)" "[]" pad 127]
    by (simp_all add: block_body_def)
  have rest: "drop 131 ?block = pad" "131 < length ?block"
    using assms by (simp_all add: block_body_def padding_ok_def)
  have pair: "length (seed @ public_key) = 64" "drop 32 (seed @ public_key) = public_key" using assms by simp_all
  show ?thesis
    unfolding parse_private_block_def using assms by (simp add: checks reads rest pair del: drop_append length_append)
qed

section \<open>The texts are read back\<close>

definition base64_char :: "char \<Rightarrow> bool" where
  "base64_char c \<longleftrightarrow> is_ascii_alphanumeric c \<or> c \<in> {CHR ''+'', CHR ''/'', CHR ''=''}"

definition crypto_laws :: "Crypto \<Rightarrow> bool" where
  "crypto_laws c \<longleftrightarrow>
     base64_encode c [] = [] \<and> (\<forall>b. base64_decode c (base64_encode c b) = Some b)
     \<and> (\<forall>b. list_all base64_char (base64_encode c b))
     \<and> (\<forall>seed p. from_seed_unchecked c seed = Some p \<longrightarrow> length p = 32)"

lemma base64_char_bounds:
  assumes "base64_char x"
  shows "32 < byte x" and "byte x < 128" and "x \<noteq> CHR ''-''"
  using assms by (auto simp: base64_char_def is_ascii_alphanumeric_def is_ascii_digit_def)

lemma drop_leading_stops:
  assumes "list_all (\<lambda>w. w \<noteq> [] \<longrightarrow> hd w \<noteq> x) ws"
  shows "drop_leading ws (x # s) = x # s"
proof -
  have "find (\<lambda>w. w \<noteq> [] \<and> prefix w (x # s)) ws = None"
    using assms by (auto simp: find_None_iff list_all_iff prefix_Cons)
  then show ?thesis by (subst drop_leading.simps) simp
qed

lemma printable_not_space:
  assumes "32 < byte x" and "byte x < 128"
  shows "list_all (\<lambda>w. w \<noteq> [] \<longrightarrow> hd w \<noteq> x) utf8_whitespace"
    and "list_all (\<lambda>w. w \<noteq> [] \<longrightarrow> hd w \<noteq> x) (map rev utf8_whitespace)"
  using assms by (auto simp: utf8_whitespace_def list_all_iff)

lemma drop_leading_newline: "drop_leading (map rev utf8_whitespace) (CHR 0x0A # s) = drop_leading (map rev utf8_whitespace) s"
  by (subst drop_leading.simps) (simp add: utf8_whitespace_def)

lemma utf8_trim_line:
  assumes "32 < byte x" and "byte x < 128" and "32 < byte y" and "byte y < 128"
  shows "utf8_trim (x # s @ [y, CHR 0x0A]) = x # s @ [y]"
  using assms by (simp add: utf8_trim_def drop_leading_stops printable_not_space drop_leading_newline)

lemma split_ascii_from_word: "list_all (\<lambda>x. \<not> is_ascii_whitespace x) s \<Longrightarrow> split_ascii_from cur (s @ t) = split_ascii_from (rev s @ cur) t"
  by (induction s arbitrary: cur) auto

lemma public_fields:
  assumes "list_all base64_char b" and "b \<noteq> []"
  shows "split_ascii_whitespace (utf8_trim (''ssh-ed25519 '' @ b @ [CHR 0x0A])) = [''ssh-ed25519'', b]"
proof -
  obtain s y where b: "b = s @ [y]" using assms(2) by (cases b rule: rev_cases) auto
  have "utf8_trim (''ssh-ed25519 '' @ b @ [CHR 0x0A]) = ''ssh-ed25519 '' @ b"
    using utf8_trim_line [of "CHR ''s''" y "''sh-ed25519 '' @ s"] base64_char_bounds [of y] assms(1) by (simp add: b)
  moreover have "list_all (\<lambda>x. \<not> is_ascii_whitespace x) b"
    using assms(1) by (auto simp: list_all_iff is_ascii_whitespace_def dest!: base64_char_bounds(1))
  then have "split_ascii_from [] b = [b]" using split_ascii_from_word [of b "[]" "[]"] assms(2) by simp
  ultimately show ?thesis by (simp add: split_ascii_whitespace_def is_ascii_whitespace_def)
qed

lemma parse_public_key_encoded:
  assumes "crypto_laws c" and "length public_key = 32"
  shows "parse_public_key c (''ssh-ed25519 '' @ base64_encode c (public_blob_of public_key) @ [CHR 0x0A])
    = Some (public_blob_of public_key, public_key)"
proof -
  let ?b = "base64_encode c (public_blob_of public_key)"
  have laws: "list_all base64_char ?b" "base64_decode c ?b = Some (public_blob_of public_key)" "base64_decode c [] = Some []"
    using assms(1) by (auto simp: crypto_laws_def) metis
  have "public_blob_of public_key \<noteq> []" using public_blob_read(3) [OF assms(2)] by auto
  then have "?b \<noteq> []" using laws(2,3) by auto
  with laws(1,2) show ?thesis
    unfolding parse_public_key_def Let_def public_fields [OF laws(1) \<open>?b \<noteq> []\<close>]
    by (simp add: public_blob_read [OF assms(2)] assms(2))
qed

lemma chunks_free: "p \<in> set (chunks n xs) \<Longrightarrow> set p \<subseteq> set xs"
proof (induction n xs rule: chunks.induct)
  case (1 n xs)
  then show ?case
    by (cases "n = 0 \<or> xs = []") (auto simp: chunks.simps [of n xs] dest: in_set_takeD in_set_dropD)
qed

lemma concat_chunks: "0 < n \<Longrightarrow> concat (chunks n xs) = xs"
proof (induction n xs rule: chunks.induct)
  case (1 n xs)
  then show ?case by (cases "xs = []") (simp_all add: chunks.simps [of n xs] chunks.simps [of n "[]"])
qed

lemma split_on_lines: "\<forall>l \<in> set ls. c \<notin> set l \<Longrightarrow> split_on c (concat (map (\<lambda>l. l @ [c]) ls)) = ls @ [[]]"
  by (induction ls) (auto simp: split_on_append)

lemma pem_body_lines:
  "\<forall>l \<in> set ls. l \<noteq> pem_begin \<and> l \<noteq> pem_end \<Longrightarrow> pem_body True e (ls @ rest) = pem_body True (e @ concat ls) rest"
  by (induction ls arbitrary: e) auto

lemma pem_body_text:
  assumes "list_all base64_char e" and "e \<noteq> []"
  shows "pem_body False [] (str_lines (pem_text e)) = Some e"
proof -
  let ?ls = "chunks 70 e"
  have sub: "base64_char x" if "l \<in> set ?ls" "x \<in> set l" for l x
    using chunks_free [OF that(1)] that(2) assms(1) by (auto simp: list_all_iff)
  have plain: "CHR 0x0A \<notin> set l" "CHR 0x0D \<notin> set l" "CHR ''-'' \<notin> set l" if "l \<in> set ?ls" for l
    using sub [OF that] base64_char_bounds by fastforce+
  have kept: "l \<noteq> pem_begin \<and> l \<noteq> pem_end" if "l \<in> set ?ls" for l
    using plain(3) [OF that] by (auto simp: pem_begin_def pem_end_def)
  let ?all = "[pem_begin] @ ?ls @ [pem_end]"
  have "pem_text e = concat (map (\<lambda>l. l @ [CHR 0x0A]) ?all)" by (simp add: pem_text_def)
  moreover have "\<forall>l \<in> set ?all. CHR 0x0A \<notin> set l" using plain(1) by (auto simp: pem_begin_def pem_end_def)
  ultimately have "split_on CHR 0x0A (pem_text e) = ?all @ [[]]" using split_on_lines by metis
  moreover have "strip_cr l = l" if "l \<in> set ?all" for l
  proof -
    have "CHR 0x0D \<notin> set l" using that plain(2) by (auto simp: pem_begin_def pem_end_def)
    then have "\<not> (l \<noteq> [] \<and> last l = CHR 0x0D)" using last_in_set by metis
    then show ?thesis by (simp only: strip_cr_def if_False)
  qed
  ultimately have "str_lines (pem_text e) = ?all" by (simp add: str_lines_def map_idI butlast_append)
  moreover have "pem_body True [] (?ls @ [pem_end]) = pem_body True e [pem_end]"
    using pem_body_lines [of ?ls "[]" "[pem_end]"] kept by (simp add: concat_chunks)
  moreover have "pem_end \<noteq> pem_begin" by (simp add: pem_begin_def pem_end_def)
  ultimately show ?thesis using assms(2) by simp
qed

text \<open>The pair as \<open>generate\<close> encodes it.\<close>

definition private_text :: "Crypto \<Rightarrow> u8 list \<Rightarrow> u8 list \<Rightarrow> u8 list \<Rightarrow> string" where
  "private_text c check_bytes seed public_key =
     pem_text (base64_encode c (private_blob_of (public_blob_of public_key) (padded (block_body check_bytes seed public_key))))"

definition public_text :: "Crypto \<Rightarrow> u8 list \<Rightarrow> string" where
  "public_text c public_key = ''ssh-ed25519 '' @ base64_encode c (public_blob_of public_key) @ [CHR 0x0A]"

lemma length_block_body [simp]: "length (block_body check_bytes seed public_key) = 35 + 2 * length public_key + length seed"
  by (simp add: block_body_def)

lemma length_padded: "length (padded body) = length body + (8 - length body mod 8)"
  by (simp add: padded_def del: upt_Suc)

lemma encode_private_key_Some:
  assumes "length public_key = 32" and "length seed = 32"
  shows "encode_private_key c check_bytes (public_blob_of public_key) seed public_key = Some (private_text c check_bytes seed public_key)"
  using assms public_blob_read(3) [OF assms(1)]
  by (simp add: encode_private_key_def encode_private_block_Some encode_private_blob_Some private_text_def length_padded)

lemma pem_text_ascii: "list_all base64_char e \<Longrightarrow> list_all is_ascii (pem_text e)"
proof -
  assume e: "list_all base64_char e"
  have "is_ascii x" if "l \<in> set (chunks 70 e)" "x \<in> set l" for l x
    using chunks_free [OF that(1)] that(2) e base64_char_bounds(2) [of x] by (auto simp: list_all_iff is_ascii_def)
  then show ?thesis by (auto simp: pem_text_def list_all_iff pem_begin_def pem_end_def is_ascii_def)
qed

lemma generated_pair_validates:
  assumes "crypto_laws c" and "length seed = 32" and "from_seed_unchecked c seed = Some public_key"
  shows "validate_ed25519_key_pair c (private_text c check_bytes seed public_key) (public_text c public_key)
           (public_key_fingerprint c (public_blob_of public_key)) = Inr ()"
proof -
  have key: "length public_key = 32" using assms(1,3) by (simp add: crypto_laws_def)
  let ?block = "padded (block_body check_bytes seed public_key)"
  let ?blob = "private_blob_of (public_blob_of public_key) ?block"
  have laws: "list_all base64_char (base64_encode c b)" "base64_decode c (base64_encode c b) = Some b" "base64_encode c [] = []" for b
    using assms(1) by (auto simp: crypto_laws_def)
  have "?blob \<noteq> []" by (simp add: private_blob_of_def MAGIC_def bytes_of_def)
  then have some: "base64_encode c ?blob \<noteq> []" using laws(2) [of ?blob] laws(2) [of "[]"] laws(3) by auto
  have pem: "private_text c check_bytes seed public_key = pem_text (base64_encode c ?blob)" by (simp add: private_text_def)
  have ascii: "utf8_valid (public_text c public_key)" "utf8_valid (private_text c check_bytes seed public_key)"
    using laws(1) base64_char_bounds(2) pem_text_ascii [OF laws(1)] unfolding pem
    by (auto intro!: utf8_valid_ascii simp: public_text_def list_all_iff is_ascii_def)
  have block: "parse_private_blob (public_blob_of public_key) ?blob = Some ?block"
    by (rule parse_private_blob_encoded) (simp_all add: public_blob_read(3) [OF key] key assms(2) length_padded)
  have "parse_private_block public_key ?block = Some seed"
    unfolding padded_def by (rule parse_private_block_encoded [OF key assms(2)]) (rule padding_ok_upt, simp)
  moreover have "pem_body False [] (str_lines (private_text c check_bytes seed public_key)) = Some (base64_encode c ?blob)"
    unfolding pem by (rule pem_body_text [OF laws(1) some])
  moreover have "parse_public_key c (public_text c public_key) = Some (public_blob_of public_key, public_key)"
    unfolding public_text_def by (rule parse_public_key_encoded [OF assms(1) key])
  ultimately show ?thesis
    unfolding validate_ed25519_key_pair_def parse_key_pair_def
    by (simp add: ascii laws(2) block assms(3) ok_or_def)
qed

end
