(* ===== verification/Credential_Generation.thy ===== *)
theory Credential_Generation
  imports Credential_Round_Trip Demo_Host
begin

text \<open>
  \<open>generate\<close> on the files of a host: a pair that it reports is on disk and is accepted by the validation, files other than
  the two key files keep their contents, and key files that exist are never overwritten.
\<close>

section \<open>What the calls do to the contents of files\<close>

type_synonym 'w contents = "'w \<Rightarrow> path \<Rightarrow> string option"

definition touches :: "'w contents \<Rightarrow> path set \<Rightarrow> ('e, 'w, 'a) io \<Rightarrow> bool" where
  "touches content ps m \<longleftrightarrow> (\<forall>w r w'. m w = (r, w') \<longrightarrow> (\<forall>q. q \<notin> ps \<longrightarrow> content w' q = content w q))"

named_theorems touches_intros \<open>calls and operations that touch only some files\<close>

lemma touches_return [touches_intros]: "touches content ps (returnE x)"
  by (simp add: touches_def returnE_def)

lemma touches_throw [touches_intros]: "touches content ps (throwE e)"
  by (simp add: touches_def throwE_def)

lemma touches_lift [touches_intros]: "touches content ps (liftE r)"
  by (simp add: touches_def liftE_def)

lemma touches_bind [touches_intros]:
  assumes "touches content ps m" and "\<And>x. touches content ps (f x)"
  shows "touches content ps (bindE m f)"
  unfolding touches_def
proof (intro allI impI)
  fix w r w' q assume run: "bindE m f w = (r, w')" and q: "q \<notin> ps"
  obtain r1 w1 where m: "m w = (r1, w1)" by fastforce
  have "content w1 q = content w q" using assms(1) m q unfolding touches_def by blast
  moreover have "content w' q = content w1 q"
  proof (cases r1)
    case (Inl e)
    then show ?thesis using run m by (simp add: bindE_def)
  next
    case (Inr x)
    then have "f x w1 = (r, w')" using run m by (simp add: bindE_def)
    then show ?thesis using assms(2) [of x] q unfolding touches_def by blast
  qed
  ultimately show "content w' q = content w q" by simp
qed

lemma touches_call [touches_intros]: "touches content ps m \<Longrightarrow> touches content ps (key_call operation p m)"
  unfolding touches_def key_call_def by (auto split: prod.splits sum.splits)

lemma touches_try [touches_intros]: "touches content ps m \<Longrightarrow> touches content ps (key_try m)"
  unfolding touches_def key_try_def by (auto split: prod.splits)

lemma touches_attempt [touches_intros]: "touches content ps m \<Longrightarrow> touches content ps (attemptE m)"
  unfolding touches_def attemptE_def by (auto split: prod.splits)

lemma touches_mono: "touches content ps m \<Longrightarrow> ps \<subseteq> qs \<Longrightarrow> touches content qs m"
  unfolding touches_def by blast

lemma touchesD: "touches content ps m \<Longrightarrow> m w = (r, w') \<Longrightarrow> q \<notin> ps \<Longrightarrow> content w' q = content w q"
  unfolding touches_def by blast

text \<open>What is relied on: only the calls that create, write and remove a file change contents, and only those of that file; a
  new file is empty and did not exist, a write appends; the metadata of a file that exists is not \<open>NotFound\<close>; and the
  random source fills the buffer it is given.\<close>

definition key_file_laws :: "'w CredentialFiles \<Rightarrow> 'w contents \<Rightarrow> bool" where
  "key_file_laws fs content \<longleftrightarrow>
     (\<forall>p. touches content {} (key_metadata fs p) \<and> touches content {} (key_create_dir_all fs p) \<and> touches content {} (key_sync_all fs p)
        \<and> touches content {p} (key_remove_file fs p))
     \<and> (\<forall>p mode. touches content {} (key_set_permissions fs p mode) \<and> touches content {p} (key_create_new fs p mode))
     \<and> (\<forall>p s. touches content {p} (key_write_all fs p s))
     \<and> (\<forall>n. touches content {} (fill_random fs n))
     \<and> (\<forall>p w e w'. content w p \<noteq> None \<longrightarrow> key_metadata fs p w = (Inl e, w') \<longrightarrow> io_kind e \<noteq> NotFoundKind)
     \<and> (\<forall>p mode w w'. key_create_new fs p mode w = (Inr (), w') \<longrightarrow> content w' p = Some [])
     \<and> (\<forall>p s old w w'. key_write_all fs p s w = (Inr (), w') \<longrightarrow> content w p = Some old \<longrightarrow> content w' p = Some (old @ s))
     \<and> (\<forall>n w b w'. fill_random fs n w = (Inr b, w') \<longrightarrow> length b = n)"

lemma key_file_calls [touches_intros]:
  assumes "key_file_laws fs content"
  shows "touches content ps (key_metadata fs p)" and "touches content ps (key_create_dir_all fs p)" and "touches content ps (key_sync_all fs p)"
    and "touches content ps (key_set_permissions fs p mode)" and "touches content ps (fill_random fs n)"
  by (rule touches_mono [where ps = "{}"], use assms in \<open>simp_all add: key_file_laws_def\<close>)+

lemma key_file_changes [touches_intros]:
  assumes "key_file_laws fs content" and "p \<in> ps"
  shows "touches content ps (key_create_new fs p mode)" and "touches content ps (key_write_all fs p s)" and "touches content ps (key_remove_file fs p)"
  by (rule touches_mono [where ps = "{p}"], use assms in \<open>simp_all add: key_file_laws_def\<close>)+

section \<open>The steps of the generation\<close>

lemma touches_create_directory [touches_intros]: "key_file_laws fs content \<Longrightarrow> touches content ps (create_directory fs p)"
  unfolding create_directory_def by (auto intro!: touches_intros split: sum.splits)

lemma touches_set_key_mode [touches_intros]: "key_file_laws fs content \<Longrightarrow> touches content ps (set_key_mode fs p mode)"
  unfolding set_key_mode_def by (auto intro!: touches_intros)

lemma touches_reject [touches_intros]: "key_file_laws fs content \<Longrightarrow> touches content ps (reject_existing_managed_file fs p)"
  unfolding reject_existing_managed_file_def by (auto intro!: touches_intros split: sum.splits)

lemma touches_write_new_file [touches_intros]:
  "key_file_laws fs content \<Longrightarrow> p \<in> ps \<Longrightarrow> touches content ps (write_new_file fs p s mode)"
  unfolding write_new_file_def by (auto intro!: touches_intros)

lemma touches_key_error [touches_intros]: "touches content ps (key_error operation p reason v)"
  unfolding key_error_def by (rule touches_lift)

lemma touches_write_key_pair [touches_intros]:
  "key_file_laws fs content \<Longrightarrow> p \<in> ps \<Longrightarrow> q \<in> ps \<Longrightarrow> touches content ps (write_key_pair fs p q s t)"
  unfolding write_key_pair_def by (auto intro!: touches_intros split: sum.splits)

lemma touches_generate:
  assumes "key_file_laws fs content"
    and "in_volume (in_volume volume ''ssh'') ''id_ed25519'' \<in> ps" and "in_volume (in_volume volume ''ssh'') ''id_ed25519.pub'' \<in> ps"
  shows "touches content ps (generate c fs volume)"
  unfolding generate_def Let_def by (intro touches_intros assms)

lemma reject_existing:
  assumes "key_file_laws fs content" and "content w p \<noteq> None"
  shows "\<exists>e w'. reject_existing_managed_file fs p w = (Inl e, w')"
proof (cases "key_metadata fs p w")
  case (Pair r w')
  show ?thesis
  proof (cases r)
    case (Inl e)
    then have "io_kind e \<noteq> NotFoundKind" using assms Pair unfolding key_file_laws_def by blast
    then show ?thesis using Pair Inl by (simp add: reject_existing_managed_file_def bindE_def key_try_def throwE_def)
  next
    case (Inr m)
    then show ?thesis using Pair by (simp add: reject_existing_managed_file_def bindE_def key_try_def throwE_def)
  qed
qed

lemma key_call_Inr: "key_call operation p m w = (Inr x, w') \<longleftrightarrow> m w = (Inr x, w')"
  by (auto simp: key_call_def split: prod.splits sum.splits)

lemma write_new_file_contents:
  assumes laws: "key_file_laws fs content" and run: "write_new_file fs p s mode w = (Inr (), w')"
  shows "content w' p = Some s"
proof -
  obtain w1 w2 w3 where steps: "key_create_new fs p mode w = (Inr (), w1)" "set_key_mode fs p mode w1 = (Inr (), w2)"
    "key_write_all fs p s w2 = (Inr (), w3)" "key_sync_all fs p w3 = (Inr (), w')"
    using run by (auto simp: write_new_file_def bindE_Inr key_call_Inr)
  have "content w1 p = Some []" using laws steps(1) unfolding key_file_laws_def by blast
  then have "content w2 p = Some []" using touchesD [OF touches_set_key_mode [OF laws] steps(2), of p "{}"] by simp
  then have "content w3 p = Some s" using laws steps(3) unfolding key_file_laws_def by fastforce
  then show ?thesis using touchesD [OF key_file_calls(3) [OF laws] steps(4), of p "{}"] by simp
qed

abbreviation private_key_of :: "path \<Rightarrow> path" where
  "private_key_of volume \<equiv> in_volume (in_volume volume ''ssh'') ''id_ed25519''"

abbreviation public_key_of :: "path \<Rightarrow> path" where
  "public_key_of volume \<equiv> in_volume (in_volume volume ''ssh'') ''id_ed25519.pub''"

lemma key_file_components:
  "components ''ssh'' = [Normal ''ssh'']" "components ''id_ed25519'' = [Normal ''id_ed25519'']"
  "components ''id_ed25519.pub'' = [Normal ''id_ed25519.pub'']"
  by code_simp+

lemma key_paths_differ: "private_key_of volume \<noteq> public_key_of volume"
  by (simp add: in_volume_def path_join_def is_absolute_def key_file_components)

lemma write_key_pair_contents:
  assumes laws: "key_file_laws fs content" and "p \<noteq> q" and run: "write_key_pair fs p q s t w = (Inr u, w')"
  shows "content w' p = Some s \<and> content w' q = Some t"
proof -
  obtain w1 where writes: "write_new_file fs p s 384 w = (Inr (), w1)" "write_new_file fs q t 420 w1 = (Inr (), w')"
  proof -
    obtain r w2 where r: "bindE (write_new_file fs p s 384) (\<lambda>_. write_new_file fs q t 420) w = (r, w2)" by fastforce
    then have "\<exists>v. r = Inr v \<and> w2 = w'"
      using run unfolding write_key_pair_def bindE_Inr attemptE_def
      by (cases r) (auto simp only: r prod.case sum.case bindE_Inr throwE_def returnE_def prod.inject sum.inject sum.distinct)
    then show ?thesis using r that by (auto simp: bindE_Inr)
  qed
  have "content w' p = content w1 p"
    using touchesD [OF touches_write_new_file [OF laws, of q "{q}"] writes(2)] \<open>p \<noteq> q\<close> by simp
  then show ?thesis using write_new_file_contents [OF laws writes(1)] write_new_file_contents [OF laws writes(2)] by simp
qed

lemma bind_key_error_Inr: "bindE (key_error operation p reason v) f w = (Inr y, w') \<longleftrightarrow> (\<exists>x. v = Some x \<and> f x w = (Inr y, w'))"
  by (auto simp: bindE_def key_error_def liftE_def ok_or_def split: option.splits)

lemma bind_key_try_Inr: "bindE (key_try m) f w = (Inr y, w') \<longleftrightarrow> (\<exists>r w1. m w = (r, w1) \<and> f r w1 = (Inr y, w'))"
  by (auto simp: bindE_def key_try_def split: prod.splits)

lemma generate_reports:
  assumes crypto: "crypto_laws c" and laws: "key_file_laws fs content" and run: "generate c fs volume w = (Inr g, w')"
  shows "\<exists>seed check_bytes public_key. length seed = 32 \<and> from_seed_unchecked c seed = Some public_key
    \<and> content w' (private_key_of volume) = Some (private_text c check_bytes seed public_key)
    \<and> content w' (public_key_of volume) = Some (public_text c public_key)
    \<and> g = \<lparr>gc_private_key_path = private_key_of volume, gc_public_key_path = public_key_of volume, gc_public_key = public_text c public_key,
        gc_fingerprint = public_key_fingerprint c (public_blob_of public_key), gc_file_mode = ''0600''\<rparr>"
proof -
  obtain random1 w1 w2 seed public_key public_blob random2 w3 private_key u w4 where
    random: "fill_random fs 32 w1 = (random1, w2)" "fill_random fs 4 w2 = (random2, w3)"
    and seed: "(case random1 of Inl _ \<Rightarrow> None | Inr s \<Rightarrow> Some s) = Some seed"
    and key: "from_seed_unchecked c seed = Some public_key" and blob: "encode_public_blob public_key = Some public_blob"
    and priv: "(case random2 of Inl _ \<Rightarrow> None | Inr check_bytes \<Rightarrow> encode_private_key c check_bytes public_blob seed public_key) = Some private_key"
    and files: "write_key_pair fs (private_key_of volume) (public_key_of volume) private_key
       (''ssh-ed25519 '' @ base64_encode c public_blob @ [CHR 0x0A]) w3 = (Inr u, w4)"
    and res: "(returnE :: _ \<Rightarrow> (_, _) sdk_io) \<lparr>gc_private_key_path = private_key_of volume, gc_public_key_path = public_key_of volume,
        gc_public_key = ''ssh-ed25519 '' @ base64_encode c public_blob @ [CHR 0x0A],
        gc_fingerprint = public_key_fingerprint c public_blob, gc_file_mode = ''0600''\<rparr> w4 = (Inr g, w')"
    using run unfolding generate_def Let_def bind_key_error_Inr bind_key_try_Inr bindE_Inr [of "create_directory fs p" for p]
      bindE_Inr [of "set_key_mode fs p m" for p m] bindE_Inr [of "reject_existing_managed_file fs p" for p]
      bindE_Inr [of "write_key_pair fs p q s t" for p q s t]
    by blast
  have size32: "length seed = 32"
  proof -
    have "random1 = Inr seed" using seed by (simp split: sum.splits)
    then show ?thesis using random(1) laws unfolding key_file_laws_def by blast
  qed
  have "length public_key = 32" using crypto key by (simp add: crypto_laws_def)
  then have blob': "public_blob = public_blob_of public_key" using blob by (simp add: encode_public_blob_Some)
  obtain check_bytes where "private_key = private_text c check_bytes seed public_key"
    using priv encode_private_key_Some [OF \<open>length public_key = 32\<close> size32] by (auto simp: blob' split: sum.splits)
  then show ?thesis
    using write_key_pair_contents [OF laws key_paths_differ files] size32 key res
    by (auto simp: blob' public_text_def returnE_def)
qed

text \<open>An operation that fails and leaves the contents of every file as they were.\<close>

definition refuses :: "'w contents \<Rightarrow> ('e, 'w, 'a) io \<Rightarrow> 'w \<Rightarrow> bool" where
  "refuses content m w \<longleftrightarrow> (\<exists>e w'. m w = (Inl e, w') \<and> content w' = content w)"

lemma refuses_later:
  assumes "touches content {} m" and "\<And>x w'. content w' = content w \<Longrightarrow> refuses content (f x) w'"
  shows "refuses content (bindE m f) w"
proof (cases "m w")
  case (Pair r w')
  then have same: "content w' = content w" using assms(1) by (auto simp: touches_def)
  then show ?thesis using Pair assms(2) [OF same] by (cases r) (auto simp: refuses_def bindE_def)
qed

lemma refuses_now: "refuses content m w \<Longrightarrow> refuses content (bindE m f) w"
  by (auto simp: refuses_def bindE_def)

lemma refuses_existing:
  assumes "key_file_laws fs content" and "content w p \<noteq> None"
  shows "refuses content (reject_existing_managed_file fs p) w"
proof -
  obtain e w' where run: "reject_existing_managed_file fs p w = (Inl e, w')" using reject_existing [OF assms] by blast
  have "content w' = content w" using touchesD [OF touches_reject [OF assms(1), of "{}"] run] by (auto simp: fun_eq_iff)
  with run show ?thesis unfolding refuses_def by blast
qed

lemma refuses_pair:
  assumes laws: "key_file_laws fs content" and exists: "content w p \<noteq> None \<or> content w q \<noteq> None"
  shows "refuses content (bindE (reject_existing_managed_file fs p) (\<lambda>x. bindE (reject_existing_managed_file fs q) (f x))) w"
proof (cases "content w p = None")
  case True
  then show ?thesis
    using exists by (intro refuses_later [OF touches_reject [OF laws]] refuses_now refuses_existing [OF laws]) simp
next
  case False
  then show ?thesis by (intro refuses_now refuses_existing [OF laws])
qed

lemma generate_rejects:
  assumes laws: "key_file_laws fs content" and exists: "content w (private_key_of volume) \<noteq> None \<or> content w (public_key_of volume) \<noteq> None"
  shows "refuses content (generate c fs volume) w"
  unfolding generate_def Let_def
proof (rule refuses_later [OF touches_create_directory [OF laws]], rule refuses_later [OF touches_set_key_mode [OF laws]], rule refuses_pair [OF laws])
  fix w1 w2 assume "content w1 = content w" "content w2 = content w1"
  then show "content w2 (private_key_of volume) \<noteq> None \<or> content w2 (public_key_of volume) \<noteq> None" using exists by simp
qed

text \<open>(C25) A credential that was generated is valid: the private and the public key file in the volume hold a pair that the
  validation of restored credentials accepts under the reported fingerprint, and the public key is the reported one. Whatever the
  outcome, no other file changes, and when either key file exists the generation fails and no file changes at all.\<close>
theorem generate_validates:
  assumes "crypto_laws c" and "key_file_laws fs content" and "generate c fs volume w = (r, w')"
  shows "(\<forall>g. r = Inr g \<longrightarrow> (\<exists>private public. content w' (gc_private_key_path g) = Some private
            \<and> content w' (gc_public_key_path g) = Some public \<and> public = gc_public_key g
            \<and> validate_ed25519_key_pair c private public (gc_fingerprint g) = Inr ()))
    \<and> (\<forall>p. p \<noteq> private_key_of volume \<longrightarrow> p \<noteq> public_key_of volume \<longrightarrow> content w' p = content w p)
    \<and> (content w (private_key_of volume) \<noteq> None \<or> content w (public_key_of volume) \<noteq> None \<longrightarrow> isl r \<and> content w' = content w)"
proof (intro conjI allI impI)
  fix g assume "r = Inr g"
  then show "\<exists>private public. content w' (gc_private_key_path g) = Some private \<and> content w' (gc_public_key_path g) = Some public
    \<and> public = gc_public_key g \<and> validate_ed25519_key_pair c private public (gc_fingerprint g) = Inr ()"
    using generate_reports [OF assms(1,2)] assms(3) generated_pair_validates [OF assms(1)] by fastforce
next
  fix p assume "p \<noteq> private_key_of volume" and "p \<noteq> public_key_of volume"
  then show "content w' p = content w p"
    using touchesD [OF touches_generate [OF assms(2), of volume "{private_key_of volume, public_key_of volume}"] assms(3)] by simp
qed (use generate_rejects [OF assms(2), of w volume c] assms(3) in \<open>auto simp: refuses_def\<close>)

section \<open>A host\<close>

text \<open>Files in memory, hexadecimal digits for base64 and the seed for its own public key.\<close>

definition hex_digit :: "nat \<Rightarrow> char" where
  "hex_digit n = (if n < 10 then char_of (48 + n) else char_of (87 + n))"

definition hex_number :: "char \<Rightarrow> nat" where
  "hex_number x = (if byte x < 58 then byte x - 48 else byte x - 87)"

fun unhex :: "string \<Rightarrow> u8 list" where
  "unhex (x # y # s) = of_nat (16 * hex_number x + hex_number y) # unhex s"
| "unhex _ = []"

definition hex_crypto :: Crypto where
  "hex_crypto =
     (let hex = \<lambda>b. concat (map (\<lambda>x. [hex_digit (unat x div 16), hex_digit (unat x mod 16)]) b) in
      \<lparr>base64_encode = hex, base64_encode_no_pad = hex, base64_decode = Some \<circ> unhex,
       from_seed_unchecked = (\<lambda>s. if length s = 32 then Some s else None), digest_bytes = id\<rparr>)"

definition memory_files :: "(path \<Rightarrow> string option) CredentialFiles" where
  "memory_files =
     \<lparr>key_metadata = (\<lambda>p F. case F p of
          None \<Rightarrow> (Inl \<lparr>io_kind = NotFoundKind, io_text = ''not found''\<rparr>, F)
        | Some b \<Rightarrow> (Inr \<lparr>md_is_symlink = False, md_is_file = True, md_is_dir = False, md_len = of_nat (length b), md_mode = 384\<rparr>, F)),
      key_create_dir_all = (\<lambda>_. returnE ()),
      key_create_new = (\<lambda>p _ F. case F p of None \<Rightarrow> (Inr (), F(p := Some [])) | Some _ \<Rightarrow> (Inl \<lparr>io_kind = AlreadyExistsKind, io_text = ''exists''\<rparr>, F)),
      key_set_permissions = (\<lambda>_ _. returnE ()), key_write_all = (\<lambda>p s F. (Inr (), F(p := map_option (\<lambda>old. old @ s) (F p)))),
      key_sync_all = (\<lambda>_. returnE ()), key_remove_file = (\<lambda>p F. (Inr (), F(p := None))),
      fill_random = (\<lambda>n. returnE (replicate n 7))\<rparr>"

lemma byte_hex_digit: "n < 16 \<Longrightarrow> byte (hex_digit n) = (if n < 10 then 48 + n else 87 + n)"
  by (simp add: hex_digit_def)

lemma hex_number_digit: "n < 16 \<Longrightarrow> hex_number (hex_digit n) = n"
  by (simp add: hex_number_def byte_hex_digit)

lemma base64_char_hex_digit: "n < 16 \<Longrightarrow> base64_char (hex_digit n)"
  by (auto simp: base64_char_def is_ascii_alphanumeric_def is_ascii_digit_def byte_hex_digit)

lemma u8_halves: "unat (x :: u8) div 16 < 16"
  using unsigned_less [of x, where ?'a = nat] by (simp add: less_mult_imp_div_less)

lemma hex_crypto_laws: "crypto_laws hex_crypto"
proof -
  have "unhex (base64_encode hex_crypto b) = b" for b
    by (induction b) (simp_all add: hex_crypto_def Let_def hex_number_digit u8_halves)
  moreover have "list_all base64_char (base64_encode hex_crypto b)" for b
    by (induction b) (simp_all add: hex_crypto_def Let_def base64_char_hex_digit u8_halves)
  ultimately show ?thesis by (auto simp: crypto_laws_def hex_crypto_def Let_def)
qed

lemma memory_file_laws: "key_file_laws memory_files (\<lambda>F. F)"
  unfolding key_file_laws_def touches_def memory_files_def by (auto simp: returnE_def split: option.splits)

theorem generate_validates_witness:
  "\<exists>g F' private public. generate hex_crypto memory_files [RootDir, Normal ''v''] Map.empty = (Inr g, F')
     \<and> F' (gc_private_key_path g) = Some private \<and> F' (gc_public_key_path g) = Some public
     \<and> validate_ed25519_key_pair hex_crypto private public (gc_fingerprint g) = Inr ()"
proof -
  let ?v = "[RootDir, Normal ''v'']"
  let ?seed = "replicate 32 7 :: u8 list"
  have seed: "from_seed_unchecked hex_crypto ?seed = Some ?seed" by (simp add: hex_crypto_def Let_def)
  obtain r F' where "generate hex_crypto memory_files ?v Map.empty = (r, F')" by fastforce
  moreover have "\<not> isl (fst (generate hex_crypto memory_files ?v Map.empty))"
    unfolding generate_def Let_def
    by (simp add: bindE_def returnE_def create_directory_def key_call_def key_try_def memory_files_def set_key_mode_def reject_existing_managed_file_def
        key_error_def liftE_def ok_or_def seed encode_public_blob_Some encode_private_key_Some write_key_pair_def write_new_file_def attemptE_def
        in_volume_def path_join_def is_absolute_def key_file_components)
  ultimately obtain g where run: "generate hex_crypto memory_files ?v Map.empty = (Inr g, F')" by (cases r) auto
  with generate_validates [OF hex_crypto_laws memory_file_laws run] show ?thesis by blast
qed

end
