(* ===== verification/Snapshot_Manifest.thy ===== *)
theory Snapshot_Manifest
  imports Request_Validation Ssh_Credentials
begin

text \<open>
  The manifest of a snapshot archive, src/crates/sdk/src/adapters/archive/manifest.rs: its records, its validation and its
  parsing. The JSON decoder is that of another crate and a parameter (\<open>ManifestJson\<close>).
\<close>

section \<open>The records\<close>

datatype SnapshotAddressPolicy = PreserveIpv4Policy | RegenerateIpv4Policy

record VmManifest =
  vmm_name :: string
  vmm_disk_size_bytes :: u64
  vmm_memory_bytes :: u64
  vmm_memory_effective_mib :: u64
  vmm_vcpu_count :: u32

record CompatibilityManifest =
  cmp_host_os :: string
  cmp_guest_architecture :: string
  cmp_requires_kvm :: bool
  cmp_runtime :: string

record KernelManifest =
  km_id :: string
  km_name :: string
  km_display_name :: string
  km_version :: string
  km_architecture :: string
  km_registry_path :: string
  km_registry_url :: string
  km_filename :: string
  km_format :: string
  km_mime_type :: string
  km_modified_at :: string

record BootManifest =
  bm_distribution_id :: string
  bm_distribution_name :: string
  bm_distribution_version :: string
  bm_image_id :: string
  bm_image_sha256 :: string
  bm_kernel :: KernelManifest
  bm_root_device :: string
  bm_kernel_args :: "string list"

record PreservedNetwork =
  pv_guest_ipv4 :: ipv4
  pv_prefix_length :: u8
  pv_guest_gateway_ipv4 :: "ipv4 option"
  pv_lan_ipv4 :: "ipv4 option"
  pv_mode :: string
  pv_expose_on_lan :: bool
  pv_guest_mac :: string

datatype NetworkManifest = PreserveIpv4 PreservedNetwork | RegenerateIpv4 bool

record SshManifest =
  sh_user :: string
  sh_port :: u16
  sh_key_type :: string
  sh_public_key_fingerprint :: string

record ConsistencyManifest =
  cy_kind :: string
  cy_includes_guest_memory :: bool
  cy_includes_process_state :: bool

record PayloadRecord =
  pr_path :: string
  pr_size_bytes :: u64
  pr_sha256 :: string
  pr_mode :: u32

record SnapshotManifest =
  sm_format :: string
  sm_format_version :: u32
  sm_created_at_unix_seconds :: u64
  sm_vm :: VmManifest
  sm_compatibility :: CompatibilityManifest
  sm_boot :: BootManifest
  sm_network :: NetworkManifest
  sm_ssh :: SshManifest
  sm_consistency :: ConsistencyManifest
  sm_payloads :: "PayloadRecord list"

definition FORMAT_ID :: string where "FORMAT_ID = ''taumaru.microvm.snapshot''"
definition FORMAT_VERSION :: u32 where "FORMAT_VERSION = 3"
definition MAX_MANIFEST_BYTES :: u64 where "MAX_MANIFEST_BYTES = 1024 * 1024"
definition ROOTFS_MEMBER :: string where "ROOTFS_MEMBER = ''payload/rootfs.ext4''"
definition KERNEL_MEMBER :: string where "KERNEL_MEMBER = ''payload/kernel/vmlinux''"
definition PRIVATE_KEY_MEMBER :: string where "PRIVATE_KEY_MEMBER = ''payload/ssh/id_ed25519''"
definition PUBLIC_KEY_MEMBER :: string where "PUBLIC_KEY_MEMBER = ''payload/ssh/id_ed25519.pub''"

lemmas member_defs = ROOTFS_MEMBER_def KERNEL_MEMBER_def PRIVATE_KEY_MEMBER_def PUBLIC_KEY_MEMBER_def

definition address_policy :: "SnapshotManifest \<Rightarrow> SnapshotAddressPolicy" where
  "address_policy m = (case sm_network m of PreserveIpv4 _ \<Rightarrow> PreserveIpv4Policy | RegenerateIpv4 _ \<Rightarrow> RegenerateIpv4Policy)"

section \<open>Validation\<close>

abbreviation invalid_manifest :: "string \<Rightarrow> SdkError" where
  "invalid_manifest reason \<equiv> InvalidSnapshotManifest reason"

definition require_text :: "string \<Rightarrow> string \<Rightarrow> unit result" where
  "require_text v field = (if utf8_trim v = [] then Inl (invalid_manifest (field @ '' is empty'')) else Inr ())"

definition snapshot_sha256_valid :: "string \<Rightarrow> bool" where
  "snapshot_sha256_valid v \<longleftrightarrow> length v = 64 \<and> list_all is_ascii_hexdigit v"

definition valid_mac :: "string \<Rightarrow> bool" where
  "valid_mac v \<longleftrightarrow>
     (let octets = split_on CHR '':'' v in
      length octets = 6 \<and> list_all (\<lambda>octet. length octet = 2 \<and> list_all is_ascii_hexdigit octet) octets)"

definition validate_kernel_manifest :: "KernelManifest \<Rightarrow> unit result" where
  "validate_kernel_manifest k =
     bindR (forR [(km_id k, ''kernel ID''), (km_name k, ''kernel name''), (km_display_name k, ''kernel display name''),
              (km_version k, ''kernel version''), (km_architecture k, ''kernel architecture''),
              (km_registry_path k, ''kernel registry path''), (km_registry_url k, ''kernel registry URL''),
              (km_filename k, ''kernel filename''), (km_format k, ''kernel format''), (km_mime_type k, ''kernel MIME type''),
              (km_modified_at k, ''kernel modified time'')] (\<lambda>(v, field). require_text v field)) (\<lambda>_.
     bindR (case validate_identifier (km_id k) ''kernel_id'' of Inl _ \<Rightarrow> Inl (invalid_manifest ''kernel ID is unsafe'') | Inr u \<Rightarrow> Inr u) (\<lambda>_.
     if length (components (km_filename k)) \<noteq> 1 \<or> path_file_name (components (km_filename k)) = None
        \<or> km_filename k = ''.'' \<or> km_filename k = ''..'' \<or> \<not> list_all is_ascii (km_filename k)
        \<or> list_ex (\<lambda>b. \<not> (is_ascii_alphanumeric b \<or> b \<in> {CHR ''.'', CHR ''_'', CHR ''-''})) (km_filename k)
     then Inl (invalid_manifest ''kernel filename must be a safe single path component'')
     else Inr ()))"

definition payload_mode :: "string \<Rightarrow> u32" where
  "payload_mode member = (if member = ROOTFS_MEMBER \<or> member = PRIVATE_KEY_MEMBER then 384 else 420)"

definition payload_members :: "string list" where
  "payload_members = [ROOTFS_MEMBER, KERNEL_MEMBER, PRIVATE_KEY_MEMBER, PUBLIC_KEY_MEMBER]"

definition validate_payload :: "PayloadRecord list \<Rightarrow> string \<Rightarrow> unit result" where
  "validate_payload payloads member =
     (case filter (\<lambda>p. pr_path p = member) payloads of
        [] \<Rightarrow> Inl (invalid_manifest ''a required payload record is missing'')
      | p # rest \<Rightarrow>
          if rest \<noteq> [] then Inl (invalid_manifest ''payload list contains a duplicate member'')
          else if pr_size_bytes p = 0 \<or> \<not> snapshot_sha256_valid (pr_sha256 p)
          then Inl (invalid_manifest ''payload size or SHA-256 value is invalid'')
          else if pr_mode p \<noteq> payload_mode member then Inl (invalid_manifest ''payload file mode is invalid'')
          else Inr ())"

definition validate_payloads :: "SnapshotManifest \<Rightarrow> unit result" where
  "validate_payloads m =
     (if length (sm_payloads m) \<noteq> length payload_members
      then Inl (invalid_manifest ''payload list does not contain the exact required member set'')
      else bindR (forR payload_members (validate_payload (sm_payloads m))) (\<lambda>_.
      if (case find (\<lambda>p. pr_path p = ROOTFS_MEMBER) (sm_payloads m) of
            None \<Rightarrow> True | Some p \<Rightarrow> pr_size_bytes p \<noteq> vmm_disk_size_bytes (sm_vm m))
      then Inl (invalid_manifest ''root disk payload size does not match the VM disk size'')
      else Inr ()))"

definition validate_network_manifest :: "NetworkManifest \<Rightarrow> unit result" where
  "validate_network_manifest n =
     (case n of
        RegenerateIpv4 _ \<Rightarrow> Inr ()
      | PreserveIpv4 p \<Rightarrow>
          if \<not> (1 \<le> pv_prefix_length p \<and> pv_prefix_length p \<le> 32)
          then Inl (invalid_manifest ''IPv4 prefix length must be between 1 and 32'')
          else if pv_mode p \<noteq> ''host_only'' \<and> pv_mode p \<noteq> ''lan'' then Inl (UnsupportedSnapshotPolicy (pv_mode p))
          else if (pv_mode p = ''lan'') \<noteq> pv_expose_on_lan p \<or> (pv_mode p = ''lan'') \<noteq> (pv_lan_ipv4 p \<noteq> None)
          then Inl (invalid_manifest ''preserved LAN mode and address fields are inconsistent'')
          else if \<not> valid_mac (pv_guest_mac p) then Inl (invalid_manifest ''preserved guest MAC is invalid'')
          else Inr ())"

definition validate_snapshot_manifest :: "SnapshotManifest \<Rightarrow> unit result" where
  "validate_snapshot_manifest m =
     (let vm = sm_vm m; boot = sm_boot m; ssh = sm_ssh m; cy = sm_consistency m in
      if sm_format m \<noteq> FORMAT_ID then Inl (invalid_manifest ''the format identifier is not supported'')
      else if sm_format_version m \<noteq> FORMAT_VERSION then Inl (UnsupportedSnapshotVersion (sm_format_version m) FORMAT_VERSION)
      else
      bindR (case validate_vm_name (vmm_name vm) of Inl _ \<Rightarrow> Inl (invalid_manifest ''VM name is unsafe'') | Inr u \<Rightarrow> Inr u) (\<lambda>_.
      if vmm_disk_size_bytes vm = 0 \<or> vmm_memory_bytes vm = 0 \<or> vmm_memory_effective_mib vm = 0 \<or> vmm_vcpu_count vm = 0
      then Inl (invalid_manifest ''VM resource limits must be greater than zero'')
      else
      bindR (require_text (cmp_guest_architecture (sm_compatibility m)) ''guest architecture'') (\<lambda>_.
      if cmp_host_os (sm_compatibility m) \<noteq> ''linux'' \<or> cmp_runtime (sm_compatibility m) \<noteq> ''firecracker''
      then Inl (invalid_manifest ''runtime compatibility metadata is unsupported'')
      else if \<not> cmp_requires_kvm (sm_compatibility m)
      then Inl (invalid_manifest ''the archive must declare its KVM requirement'')
      else
      bindR (forR [(bm_distribution_id boot, ''distribution ID''), (bm_distribution_name boot, ''distribution name''),
               (bm_distribution_version boot, ''distribution version''), (bm_image_id boot, ''image ID''),
               (bm_root_device boot, ''root device'')] (\<lambda>(v, field). require_text v field)) (\<lambda>_.
      bindR (case validate_identifier (bm_distribution_id boot) ''distribution_id'' of
               Inl _ \<Rightarrow> Inl (invalid_manifest ''distribution ID is unsafe'') | Inr u \<Rightarrow> Inr u) (\<lambda>_.
      bindR (case validate_identifier (bm_image_id boot) ''image_id'' of
               Inl _ \<Rightarrow> Inl (invalid_manifest ''image ID is unsafe'') | Inr u \<Rightarrow> Inr u) (\<lambda>_.
      bindR (validate_kernel_manifest (bm_kernel boot)) (\<lambda>_.
      bindR (validate_network_manifest (sm_network m)) (\<lambda>_.
      if sh_user ssh = [] \<or> sh_port ssh = 0 \<or> sh_key_type ssh \<noteq> ''ed25519''
      then Inl (invalid_manifest ''SSH metadata is incomplete or unsupported'')
      else if \<not> prefix ''SHA256:'' (sh_public_key_fingerprint ssh)
      then Inl (invalid_manifest ''SSH public-key fingerprint is invalid'')
      else if cy_kind cy \<noteq> ''disk_only_crash_consistent'' \<or> cy_includes_guest_memory cy \<or> cy_includes_process_state cy
      then Inl (invalid_manifest ''snapshot consistency metadata is unsupported'')
      else validate_payloads m))))))))"

section \<open>Parsing\<close>

text \<open>\<open>serde_json\<close>: the value of a text, the member \<open>format_version\<close> of a value as a number, and the conversion of a value;
  errors are their texts.\<close>

record 'j ManifestJson =
  from_slice :: "string \<Rightarrow> string + 'j"
  format_version_of :: "'j \<Rightarrow> u64 option"
  from_json :: "'j \<Rightarrow> string + SnapshotManifest"

definition parse_manifest :: "'j ManifestJson \<Rightarrow> string \<Rightarrow> SnapshotManifest result" where
  "parse_manifest codec bytes =
     bindR (case from_slice codec bytes of Inl e \<Rightarrow> Inl (SnapshotArchive ''parse snapshot manifest'' e) | Inr v \<Rightarrow> Inr v) (\<lambda>v.
     bindR (ok_or (Option.bind (format_version_of codec v) (\<lambda>n. if unat n < 2 ^ 32 then Some (of_nat (unat n) :: u32) else None))
             (invalid_manifest ''format_version is missing or invalid'')) (\<lambda>version.
     if version \<noteq> FORMAT_VERSION then Inl (UnsupportedSnapshotVersion version FORMAT_VERSION)
     else
     bindR (case from_json codec v of Inl e \<Rightarrow> Inl (SnapshotArchive ''parse snapshot manifest'' e) | Inr m \<Rightarrow> Inr m) (\<lambda>m.
     bindR (validate_snapshot_manifest m) (\<lambda>_. Inr m))))"

end
