(* ===== verification/Archive_Restore.thy ===== *)
theory Archive_Restore
  imports Snapshot_Manifest
begin

text \<open>
  Reading a snapshot archive, src/crates/sdk/src/adapters/archive/restore.rs: the payloads are extracted into a staging
  directory, verified against the manifest and removed again when anything fails. An open archive is what its reads
  deliver, one after the other (the decoders of Zstandard and TAR are other crates); a read of nothing is the end of the
  data. A read that was interrupted and is retried by the standard library is not listed: the reads are the answers after
  such retries. The calls on files, the cancellation token and the progress callback are the parameter \<open>ArchivePort\<close>.
\<close>

section \<open>Archives and their staging\<close>

type_synonym reads = "(io_error + string) list"

record archive_entry =
  en_path_bytes :: string
  en_is_file :: bool
  en_size :: "io_error + u64"
  en_reads :: reads

record archive_stream =
  as_header :: reads
  as_rewind :: "io_error + unit"
  as_decoder :: "io_error + unit"
  as_entries :: "io_error + (io_error + archive_entry) list"
  as_tail :: reads
  as_trailing :: "io_error + string"

record 'w ArchivePort =
  ar_metadata :: "path \<Rightarrow> (io_error, 'w, metadata) io"
  ar_open :: "path \<Rightarrow> (io_error, 'w, archive_stream) io"
  ar_create_dir :: "path \<Rightarrow> (io_error, 'w, unit) io"
  ar_set_permissions :: "path \<Rightarrow> u32 \<Rightarrow> (io_error, 'w, unit) io"
  ar_remove_dir :: "path \<Rightarrow> (io_error, 'w, unit) io"
  ar_remove_dir_all :: "path \<Rightarrow> (io_error, 'w, unit) io"
  ar_create_new :: "path \<Rightarrow> u32 \<Rightarrow> (io_error, 'w, unit) io"
  ar_write_all :: "path \<Rightarrow> string \<Rightarrow> (io_error, 'w, unit) io"
  ar_sync_all :: "path \<Rightarrow> (io_error, 'w, unit) io"
  ar_read :: "path \<Rightarrow> (io_error, 'w, string) io"
  ar_cancelled :: "'w \<Rightarrow> bool \<times> 'w"
  ar_progress :: "u64 \<Rightarrow> u64 \<Rightarrow> 'w \<Rightarrow> 'w"

record ExtractedPayload =
  xp_path :: path
  xp_size_bytes :: u64
  xp_sha256 :: string

record StagedSnapshot =
  ss_manifest :: SnapshotManifest
  ss_rootfs_path :: path
  ss_kernel_path :: path
  ss_private_key_path :: path
  ss_public_key_path :: path

text \<open>The local variables of the loop over the members.\<close>

record extraction =
  ex_seen :: "string set"
  ex_extracted :: "string \<rightharpoonup> ExtractedPayload"
  ex_manifest :: "string option"

definition COPY_BUFFER_SIZE :: nat where "COPY_BUFFER_SIZE = 128 * 1024"
definition MAX_ARCHIVE_BYTES :: u64 where "MAX_ARCHIVE_BYTES = 3 * 1024 * 1024 * 1024 * 1024"
definition MAX_ROOTFS_BYTES :: u64 where "MAX_ROOTFS_BYTES = 2 * 1024 * 1024 * 1024 * 1024"
definition MAX_KERNEL_BYTES :: u64 where "MAX_KERNEL_BYTES = 512 * 1024 * 1024"
definition MAX_SSH_KEY_BYTES :: u64 where "MAX_SSH_KEY_BYTES = 1024 * 1024"
definition MANIFEST_MEMBER :: string where "MANIFEST_MEMBER = ''manifest.json''"
definition LEGACY_AGE_HEADER :: string where "LEGACY_AGE_HEADER = ''age-encryption.org/v1'' @ [CHR 0x0A]"
definition ZSTANDARD_MAGIC :: string where "ZSTANDARD_MAGIC = [CHR 0x28, CHR 0xB5, CHR 0x2F, CHR 0xFD]"

definition is_allowed_member :: "string \<Rightarrow> bool" where
  "is_allowed_member member \<longleftrightarrow> member \<in> {MANIFEST_MEMBER, ROOTFS_MEMBER, KERNEL_MEMBER, PRIVATE_KEY_MEMBER, PUBLIC_KEY_MEMBER}"

definition member_limit :: "string \<Rightarrow> u64" where
  "member_limit member =
     (if member = MANIFEST_MEMBER then MAX_MANIFEST_BYTES
      else if member = ROOTFS_MEMBER then MAX_ROOTFS_BYTES
      else if member = KERNEL_MEMBER then MAX_KERNEL_BYTES
      else if member = PRIVATE_KEY_MEMBER \<or> member = PUBLIC_KEY_MEMBER then MAX_SSH_KEY_BYTES
      else 0)"

definition member_path :: "path \<Rightarrow> string \<Rightarrow> path result" where
  "member_path staging member =
     (if member = ROOTFS_MEMBER then Inr (path_join staging (components ''rootfs.ext4''))
      else if member = KERNEL_MEMBER then Inr (path_join staging (components ''vmlinux''))
      else if member = PRIVATE_KEY_MEMBER then Inr (path_join staging (components ''id_ed25519''))
      else if member = PUBLIC_KEY_MEMBER then Inr (path_join staging (components ''id_ed25519.pub''))
      else Inl (RestoreArchive ''stage snapshot payload'' (Text ''archive member has no SDK-selected staging destination'')))"

definition create_staging :: "'w ArchivePort \<Rightarrow> path \<Rightarrow> ('w, unit) sdk_io" where
  "create_staging ar staging =
     bindE (key_call ''create restore staging directory'' staging (ar_create_dir ar staging)) (\<lambda>_.
     bindE (key_try (ar_set_permissions ar staging 448)) (\<lambda>r.
     case r of
       Inr _ \<Rightarrow> returnE ()
     | Inl e \<Rightarrow>
         bindE (key_try (ar_remove_dir ar staging)) (\<lambda>_.
         throwE (Filesystem ''secure restore staging directory'' staging e))))"

definition create_staged_file :: "'w ArchivePort \<Rightarrow> path \<Rightarrow> ('w, unit) sdk_io" where
  "create_staged_file ar p = key_call ''create staged snapshot payload'' p (ar_create_new ar p 384)"

definition set_staged_mode :: "'w ArchivePort \<Rightarrow> path \<Rightarrow> u32 \<Rightarrow> ('w, unit) sdk_io" where
  "set_staged_mode ar p mode = key_call ''set staged payload permissions'' p (ar_set_permissions ar p mode)"

text \<open>Values of the token and the callback as steps, and an I/O error that becomes a text.\<close>

definition stop_if_restore_cancelled :: "'w ArchivePort \<Rightarrow> ('w, unit) sdk_io" where
  "stop_if_restore_cancelled ar = (\<lambda>w. case ar_cancelled ar w of (b, w') \<Rightarrow> (if b then Inl RestoreCancelled else Inr (), w'))"

definition restore_progress :: "'w ArchivePort \<Rightarrow> u64 \<Rightarrow> u64 \<Rightarrow> ('w, unit) sdk_io" where
  "restore_progress ar completed whole = (\<lambda>w. (Inr (), ar_progress ar completed whole w))"

definition archive_read :: "string \<Rightarrow> io_error + 'a \<Rightarrow> 'a result" where
  "archive_read operation r = (case r of Inl e \<Rightarrow> Inl (RestoreArchive operation (Text (io_text e))) | Inr x \<Rightarrow> Inr x)"

section \<open>The header of the file\<close>

fun read_prefix :: "string \<Rightarrow> reads \<Rightarrow> io_error + string" where
  "read_prefix acc [] = Inr acc"
| "read_prefix acc (r # rs) =
     (if 22 \<le> length acc then Inr acc
      else case r of
        Inl e \<Rightarrow> Inl e
      | Inr s \<Rightarrow> if s = [] then Inr acc else read_prefix (acc @ take (22 - length acc) s) rs)"

definition check_header :: "path \<Rightarrow> archive_stream \<Rightarrow> unit result" where
  "check_header p src =
     (case read_prefix [] (as_header src) of
        Inl e \<Rightarrow> Inl (Filesystem ''read snapshot archive header'' p e)
      | Inr header \<Rightarrow>
          if prefix LEGACY_AGE_HEADER header
          then Inl (RestoreArchive ''detect legacy snapshot format''
                 (Text ''age-encrypted snapshots are unsupported; create a new unencrypted snapshot and try again''))
          else if \<not> prefix ZSTANDARD_MAGIC header
          then Inl (RestoreArchive ''validate snapshot format'' (Text ''archive is not a supported unencrypted Zstandard snapshot''))
          else case as_rewind src of
            Inl e \<Rightarrow> Inl (Filesystem ''rewind snapshot archive'' p e)
          | Inr _ \<Rightarrow> Inr ())"

section \<open>The members\<close>

text \<open>\<open>entry.take(n).read_to_end\<close>.\<close>

fun read_to_end :: "nat \<Rightarrow> reads \<Rightarrow> io_error + string" where
  "read_to_end n [] = Inr []"
| "read_to_end n (r # rs) =
     (if n = 0 then Inr []
      else case r of
        Inl e \<Rightarrow> Inl e
      | Inr s \<Rightarrow> if s = [] then Inr [] else bindR (read_to_end (n - length s) rs) (\<lambda>t. Inr (take n s @ t)))"

text \<open>The copy loop: \<open>n\<close> bytes of the declared size are left; it returns the number of bytes and the bytes that were hashed.\<close>

fun extract_payload ::
  "'w ArchivePort \<Rightarrow> bool \<Rightarrow> path \<Rightarrow> u64 \<Rightarrow> nat \<Rightarrow> reads \<Rightarrow> u64 \<Rightarrow> string \<Rightarrow> ('w, u64 \<times> string) sdk_io" where
  "extract_payload ar root p declared n [] member_bytes hashed =
     bindE (stop_if_restore_cancelled ar) (\<lambda>_. returnE (member_bytes, hashed))"
| "extract_payload ar root p declared n (r # rs) member_bytes hashed =
     bindE (stop_if_restore_cancelled ar) (\<lambda>_.
     if n = 0 then returnE (member_bytes, hashed)
     else
     bindE (liftE (archive_read ''extract snapshot payload'' r)) (\<lambda>s.
     let chunk = take (min n COPY_BUFFER_SIZE) s in
     if chunk = [] then returnE (member_bytes, hashed)
     else
     bindE (key_call ''write staged snapshot payload'' p (ar_write_all ar p chunk)) (\<lambda>_.
     let received = saturating_add member_bytes (of_nat (length chunk)) in
     bindE (if root then restore_progress ar (min received (saturating_sub declared 1)) declared else returnE ()) (\<lambda>_.
     extract_payload ar root p declared (n - length chunk) rs received (hashed @ chunk)))))"

definition stage_member ::
  "Crypto \<Rightarrow> 'w ArchivePort \<Rightarrow> path \<Rightarrow> string \<Rightarrow> u64 \<Rightarrow> reads \<Rightarrow> extraction \<Rightarrow> ('w, extraction) sdk_io" where
  "stage_member c ar staging member declared rs st =
     bindE (liftE (member_path staging member)) (\<lambda>output_path.
     bindE (create_staged_file ar output_path) (\<lambda>_.
     bindE (extract_payload ar (member = ROOTFS_MEMBER) output_path declared (unat declared) rs 0 []) (\<lambda>(member_bytes, hashed).
     if member_bytes \<noteq> declared
     then throwE (RestoreArchive ''extract snapshot payload''
            (Quoted ''archive member '' member '' ended before its declared size''))
     else
     bindE (key_call ''sync staged snapshot payload'' output_path (ar_sync_all ar output_path)) (\<lambda>_.
     returnE (st\<lparr>ex_extracted := (ex_extracted st)(member \<mapsto>
       \<lparr>xp_path = output_path, xp_size_bytes = member_bytes, xp_sha256 = hex_digest (digest_bytes c (bytes_of hashed))\<rparr>)\<rparr>)))))"

definition read_member ::
  "Crypto \<Rightarrow> 'w ArchivePort \<Rightarrow> path \<Rightarrow> archive_entry \<Rightarrow> extraction \<Rightarrow> ('w, extraction) sdk_io" where
  "read_member c ar staging entry st =
     (let member = en_path_bytes entry; tar_error = (\<lambda>a b. RestoreArchive ''validate TAR member'' (Quoted a member b)) in
      if \<not> utf8_valid member then throwE (RestoreArchive ''validate TAR member'' (Text ''member name is not UTF-8''))
      else if \<not> is_allowed_member member then throwE (tar_error ''unexpected archive member '' [])
      else if member \<in> ex_seen st then throwE (tar_error ''duplicate archive member '' [])
      else
      let st = st\<lparr>ex_seen := insert member (ex_seen st)\<rparr> in
      if \<not> en_is_file entry then throwE (tar_error ''archive member '' '' is not a regular file'')
      else
      bindE (liftE (archive_read ''read TAR member size'' (en_size entry))) (\<lambda>declared.
      if declared = 0 \<or> member_limit member < declared
      then throwE (RestoreArchive ''validate TAR member size'' (Quoted ''archive member '' member '' exceeds its supported size''))
      else
      bindE (if member = ROOTFS_MEMBER then restore_progress ar 0 declared else returnE ()) (\<lambda>_.
      if member = MANIFEST_MEMBER
      then
        bindE (liftE (archive_read ''read snapshot manifest'' (read_to_end (unat declared) (en_reads entry)))) (\<lambda>bytes.
        if of_nat (length bytes) \<noteq> declared
        then throwE (RestoreArchive ''read snapshot manifest'' (Text ''manifest ended before its declared size''))
        else returnE (st\<lparr>ex_manifest := Some bytes\<rparr>))
      else stage_member c ar staging member declared (en_reads entry) st)))"

fun read_members ::
  "Crypto \<Rightarrow> 'w ArchivePort \<Rightarrow> path \<Rightarrow> (io_error + archive_entry) list \<Rightarrow> extraction \<Rightarrow> ('w, extraction) sdk_io" where
  "read_members c ar staging [] st = returnE st"
| "read_members c ar staging (e # es) st =
     bindE (stop_if_restore_cancelled ar) (\<lambda>_.
     bindE (liftE (archive_read ''read TAR entry'' e)) (\<lambda>entry.
     bindE (read_member c ar staging entry st) (read_members c ar staging es)))"

section \<open>The end of the archive and the verification\<close>

fun read_tail :: "reads \<Rightarrow> unit result" where
  "read_tail [] = Inr ()"
| "read_tail (r # rs) =
     (case r of
        Inl e \<Rightarrow> Inl (RestoreArchive ''verify compressed archive'' (Text (''compressed stream is damaged or incomplete: '' @ io_text e)))
      | Inr s \<Rightarrow>
          if s = [] then Inr ()
          else if list_ex (\<lambda>b. b \<noteq> CHR 0x00) s
          then Inl (RestoreArchive ''validate TAR end marker'' (Text ''unexpected data follows the archive members''))
          else read_tail rs)"

definition check_trailing :: "io_error + string \<Rightarrow> unit result" where
  "check_trailing r =
     (case r of
        Inl e \<Rightarrow> Inl (RestoreArchive ''validate archive framing'' (Text (''could not read bytes after the compressed frame: '' @ io_text e)))
      | Inr s \<Rightarrow>
          if s \<noteq> [] then Inl (RestoreArchive ''validate archive framing'' (Text ''unexpected bytes follow the compressed TAR stream''))
          else Inr ())"

definition verify_payloads :: "SnapshotManifest \<Rightarrow> (string \<rightharpoonup> ExtractedPayload) \<Rightarrow> unit result" where
  "verify_payloads m extracted =
     forR (sm_payloads m) (\<lambda>rec.
       bindR (ok_or (extracted (pr_path rec)) (RestoreArchive ''verify snapshot payload'' (Text ''a required payload is missing''))) (\<lambda>payload.
       if xp_size_bytes payload \<noteq> pr_size_bytes rec \<or> xp_sha256 payload \<noteq> pr_sha256 rec
       then Inl (RestoreArchive ''verify snapshot payload'' (Text (''size or SHA-256 mismatch for '' @ pr_path rec)))
       else Inr ()))"

definition validate_staged_credentials ::
  "Crypto \<Rightarrow> 'w ArchivePort \<Rightarrow> SnapshotManifest \<Rightarrow> (string \<rightharpoonup> ExtractedPayload) \<Rightarrow> ('w, unit) sdk_io" where
  "validate_staged_credentials c ar m extracted =
     bindE (liftE (ok_or (extracted PRIVATE_KEY_MEMBER) (RestoreArchive ''verify SSH credentials'' (Text ''private key is missing'')))) (\<lambda>private.
     bindE (liftE (ok_or (extracted PUBLIC_KEY_MEMBER) (RestoreArchive ''verify SSH credentials'' (Text ''public key is missing'')))) (\<lambda>public.
     bindE (key_call ''read staged private key'' (xp_path private) (ar_read ar (xp_path private))) (\<lambda>private_bytes.
     bindE (key_call ''read staged public key'' (xp_path public) (ar_read ar (xp_path public))) (\<lambda>public_bytes.
     liftE (validate_ed25519_key_pair c private_bytes public_bytes (sh_public_key_fingerprint (sm_ssh m)))))))"

definition path_for :: "(string \<rightharpoonup> ExtractedPayload) \<Rightarrow> string \<Rightarrow> path result" where
  "path_for extracted member =
     bindR (ok_or (extracted member) (RestoreArchive ''stage snapshot'' (Text ''required payload is missing''))) (\<lambda>p. Inr (xp_path p))"

definition finish_staging ::
  "Crypto \<Rightarrow> 'j ManifestJson \<Rightarrow> 'w ArchivePort \<Rightarrow> extraction \<Rightarrow> ('w, StagedSnapshot) sdk_io" where
  "finish_staging c codec ar st =
     bindE (liftE (ok_or (ex_manifest st) (RestoreArchive ''validate TAR members'' (Text ''manifest.json is missing'')))) (\<lambda>bytes.
     bindE (liftE (parse_manifest codec bytes)) (\<lambda>m.
     bindE (liftE (verify_payloads m (ex_extracted st))) (\<lambda>_.
     bindE (validate_staged_credentials c ar m (ex_extracted st)) (\<lambda>_.
     bindE (liftE (path_for (ex_extracted st) ROOTFS_MEMBER)) (\<lambda>rootfs_path.
     bindE (liftE (path_for (ex_extracted st) KERNEL_MEMBER)) (\<lambda>kernel_path.
     bindE (liftE (path_for (ex_extracted st) PRIVATE_KEY_MEMBER)) (\<lambda>private_key_path.
     bindE (liftE (path_for (ex_extracted st) PUBLIC_KEY_MEMBER)) (\<lambda>public_key_path.
     bindE (liftE (ok_or (ex_extracted st ROOTFS_MEMBER) (RestoreArchive ''stage snapshot'' (Text ''root disk payload is missing'')))) (\<lambda>rootfs.
     bindE (set_staged_mode ar kernel_path 420) (\<lambda>_.
     bindE (set_staged_mode ar public_key_path 420) (\<lambda>_.
     bindE (restore_progress ar (xp_size_bytes rootfs) (xp_size_bytes rootfs)) (\<lambda>_.
     returnE \<lparr>ss_manifest = m, ss_rootfs_path = rootfs_path, ss_kernel_path = kernel_path,
       ss_private_key_path = private_key_path, ss_public_key_path = public_key_path\<rparr>))))))))))))"

text \<open>Everything between the creation of the guard of the staging directory and its drop on an early return.\<close>

definition read_staged ::
  "Crypto \<Rightarrow> 'j ManifestJson \<Rightarrow> 'w ArchivePort \<Rightarrow> archive_stream \<Rightarrow> path \<Rightarrow> ('w, StagedSnapshot) sdk_io" where
  "read_staged c codec ar src staging =
     bindE (restore_progress ar 0 0) (\<lambda>_.
     bindE (liftE (archive_read ''decompress snapshot'' (as_decoder src))) (\<lambda>_.
     bindE (liftE (archive_read ''read TAR entries'' (as_entries src))) (\<lambda>entries.
     bindE (read_members c ar staging entries \<lparr>ex_seen = {}, ex_extracted = Map.empty, ex_manifest = None\<rparr>) (\<lambda>st.
     if card (ex_seen st) \<noteq> 5
     then throwE (RestoreArchive ''validate TAR members'' (Text ''archive does not contain the exact required member set''))
     else
     bindE (liftE (read_tail (as_tail src))) (\<lambda>_.
     bindE (stop_if_restore_cancelled ar) (\<lambda>_.
     bindE (liftE (check_trailing (as_trailing src))) (\<lambda>_.
     finish_staging c codec ar st)))))))"

definition read_archive ::
  "Crypto \<Rightarrow> 'j ManifestJson \<Rightarrow> 'w ArchivePort \<Rightarrow> path \<Rightarrow> path \<Rightarrow> ('w, StagedSnapshot) sdk_io" where
  "read_archive c codec ar archive_path staging =
     bindE (key_call ''inspect snapshot archive'' archive_path (ar_metadata ar archive_path)) (\<lambda>m.
     if md_is_symlink m \<or> \<not> md_is_file m
     then throwE (InvalidRequest ''archive_path'' ''must identify a regular file'')
     else if md_len m = 0 \<or> MAX_ARCHIVE_BYTES < md_len m
     then throwE (RestoreArchive ''validate snapshot archive'' (Text ''archive size is outside the supported limit''))
     else
     bindE (key_call ''open snapshot archive'' archive_path (ar_open ar archive_path)) (\<lambda>src.
     bindE (liftE (check_header archive_path src)) (\<lambda>_.
     bindE (create_staging ar staging) (\<lambda>_.
     bindE (attemptE (read_staged c codec ar src staging)) (\<lambda>r.
     case r of
       Inr staged \<Rightarrow> returnE staged
     | Inl e \<Rightarrow> bindE (key_try (ar_remove_dir_all ar staging)) (\<lambda>_. throwE e))))))"

end
