(* ===== verification/Archive_Staging.thy ===== *)
theory Archive_Staging
  imports Archive_Restore Credential_Generation
begin

text \<open>
  What reading an archive does to the contents of files: members are staged below the staging directory, a payload that is
  accepted is on disk with the size and digest it was checked for, and a failure leaves no file behind.
\<close>

section \<open>What the calls do to the contents of files\<close>

text \<open>What is relied on: only creating, writing and removing change contents, and only below the path they name; a new file is
  empty and a write appends; a directory that could be created held nothing, and one that was removed holds nothing;
  reading a file delivers its contents.\<close>

definition archive_laws :: "'w ArchivePort \<Rightarrow> 'w contents \<Rightarrow> bool" where
  "archive_laws ar content \<longleftrightarrow>
     (\<forall>p. touches content {} (ar_metadata ar p) \<and> touches content {} (ar_open ar p) \<and> touches content {} (ar_create_dir ar p)
        \<and> touches content {} (ar_remove_dir ar p) \<and> touches content {} (ar_sync_all ar p) \<and> touches content {} (ar_read ar p)
        \<and> touches content {q. prefix p q} (ar_remove_dir_all ar p))
     \<and> (\<forall>p mode. touches content {} (ar_set_permissions ar p mode) \<and> touches content {p} (ar_create_new ar p mode))
     \<and> (\<forall>p s. touches content {p} (ar_write_all ar p s))
     \<and> (\<forall>w. content (snd (ar_cancelled ar w)) = content w) \<and> (\<forall>a b w. content (ar_progress ar a b w) = content w)
     \<and> (\<forall>p w w' q. ar_create_dir ar p w = (Inr (), w') \<longrightarrow> prefix p q \<longrightarrow> content w q = None)
     \<and> (\<forall>p w w' q. ar_remove_dir_all ar p w = (Inr (), w') \<longrightarrow> prefix p q \<longrightarrow> content w' q = None)
     \<and> (\<forall>p mode w w'. ar_create_new ar p mode w = (Inr (), w') \<longrightarrow> content w' p = Some [])
     \<and> (\<forall>p s old w w'. ar_write_all ar p s w = (Inr (), w') \<longrightarrow> content w p = Some old \<longrightarrow> content w' p = Some (old @ s))
     \<and> (\<forall>p w b w'. ar_read ar p w = (Inr b, w') \<longrightarrow> content w p = Some b)"

lemma archive_calls [touches_intros]:
  assumes "archive_laws ar content"
  shows "touches content ps (ar_metadata ar p)" and "touches content ps (ar_open ar p)" and "touches content ps (ar_create_dir ar p)"
    and "touches content ps (ar_remove_dir ar p)" and "touches content ps (ar_sync_all ar p)" and "touches content ps (ar_read ar p)"
    and "touches content ps (ar_set_permissions ar p mode)"
  by (rule touches_mono [where ps = "{}"], use assms in \<open>simp_all add: archive_laws_def\<close>)+

lemma archive_changes [touches_intros]:
  assumes "archive_laws ar content" and "p \<in> ps"
  shows "touches content ps (ar_create_new ar p mode)" and "touches content ps (ar_write_all ar p s)"
  by (rule touches_mono [where ps = "{p}"], use assms in \<open>simp_all add: archive_laws_def\<close>)+

lemma archive_observers [touches_intros]:
  assumes "archive_laws ar content"
  shows "touches content ps (stop_if_restore_cancelled ar)" and "touches content ps (restore_progress ar a b)"
  using assms unfolding archive_laws_def touches_def stop_if_restore_cancelled_def restore_progress_def
  by (auto split: prod.splits) (metis snd_conv)

lemma touches_if [touches_intros]: "touches content ps m \<Longrightarrow> touches content ps n \<Longrightarrow> touches content ps (if b then m else n)"
  by simp

lemma touches_staged_mode [touches_intros]: "archive_laws ar content \<Longrightarrow> touches content ps (set_staged_mode ar p mode)"
  unfolding set_staged_mode_def by (intro touches_intros)

lemma touches_create_staging [touches_intros]: "archive_laws ar content \<Longrightarrow> touches content ps (create_staging ar p)"
  unfolding create_staging_def by (auto intro!: touches_intros split: sum.splits)

lemma touches_create_staged_file [touches_intros]: "archive_laws ar content \<Longrightarrow> p \<in> ps \<Longrightarrow> touches content ps (create_staged_file ar p)"
  unfolding create_staged_file_def by (intro touches_intros)

lemma touches_extract [touches_intros]:
  assumes laws: "archive_laws ar content" and "p \<in> ps"
  shows "touches content ps (extract_payload ar root p declared n rs member_bytes hashed)"
proof (induction rs arbitrary: n member_bytes hashed)
  case Nil
  show ?case by (simp only: extract_payload.simps) (intro touches_intros laws)
next
  case (Cons r rs)
  show ?case unfolding extract_payload.simps Let_def by (intro touches_intros laws Cons.IH \<open>p \<in> ps\<close>)
qed

section \<open>Where members are staged\<close>

lemma staged_components:
  "components ''rootfs.ext4'' = [Normal ''rootfs.ext4'']" "components ''vmlinux'' = [Normal ''vmlinux'']"
  by code_simp+

lemma member_path_below: "member_path staging member = Inr p \<Longrightarrow> prefix staging p"
  by (auto simp: member_path_def path_join_def is_absolute_def staged_components key_file_components split: if_splits)

lemma member_path_inj: "member_path staging a = Inr p \<Longrightarrow> member_path staging b = Inr p \<Longrightarrow> a = b"
  by (auto simp: member_path_def path_join_def is_absolute_def staged_components key_file_components split: if_splits)

lemma touches_stage_member_at:
  assumes laws: "archive_laws ar content" and path: "member_path staging member = Inr p"
  shows "touches content {p} (stage_member c ar staging member declared rs st)"
proof -
  have p: "p \<in> {p}" by simp
  have "touches content {p} (bindE (create_staged_file ar p) (\<lambda>_. bindE (extract_payload ar r p d n rs 0 []) (\<lambda>(b, h).
     if b \<noteq> declared then throwE e else bindE (key_call label p (ar_sync_all ar p)) (\<lambda>_. returnE (f b h)))))" for r d n e f label
    by (intro touches_bind touches_create_staged_file [OF laws p] touches_extract [OF laws p])
      (auto intro!: touches_intros laws)
  then show ?thesis unfolding stage_member_def path by (simp add: bindE_def liftE_def)
qed

lemma touches_stage_member:
  assumes laws: "archive_laws ar content"
  shows "touches content {q. prefix staging q} (stage_member c ar staging member declared rs st)"
proof (cases "member_path staging member")
  case (Inl e)
  then show ?thesis unfolding stage_member_def touches_def by (simp add: bindE_def liftE_def)
next
  case (Inr p)
  then show ?thesis
    using member_path_below [OF Inr] by (intro touches_mono [OF touches_stage_member_at [OF laws Inr]]) simp
qed

lemma touches_read_member:
  assumes laws: "archive_laws ar content"
  shows "touches content {q. prefix staging q} (read_member c ar staging entry st)"
  unfolding read_member_def Let_def by (intro touches_intros touches_stage_member laws)

lemma touches_read_members:
  assumes laws: "archive_laws ar content"
  shows "touches content {q. prefix staging q} (read_members c ar staging es st)"
proof (induction es arbitrary: st)
  case Nil
  show ?case unfolding read_members.simps by (rule touches_return)
next
  case (Cons e es)
  show ?case unfolding read_members.simps by (intro touches_intros touches_read_member laws Cons.IH)
qed

lemma touches_finish [touches_intros]:
  assumes laws: "archive_laws ar content"
  shows "touches content ps (finish_staging c codec ar st)"
  unfolding finish_staging_def validate_staged_credentials_def by (intro touches_intros laws)

lemma touches_read_staged:
  assumes laws: "archive_laws ar content"
  shows "touches content {q. prefix staging q} (read_staged c codec ar src staging)"
  unfolding read_staged_def by (intro touches_intros touches_read_members laws)

section \<open>What is staged\<close>

lemma bind_lift_Inr: "bindE (liftE r) f w = (Inr y, w') \<longleftrightarrow> (\<exists>x. r = Inr x \<and> f x w = (Inr y, w'))"
  by (cases r) (auto simp: bindE_def liftE_def)

lemma guard_Inr: "(if b then throwE e else m) w = (Inr x, w') \<longleftrightarrow> \<not> b \<and> m w = (Inr x, w')"
  by (simp add: throwE_def)

lemma extract_payload_Cons:
  assumes "extract_payload ar root p declared n (r # rs) member_bytes hashed w = (Inr (b, h), w')"
  obtains (finished) u where "stop_if_restore_cancelled ar w = (Inr u, w')" and "b = member_bytes" and "h = hashed"
    | (copied) u v z w1 w2 w3 chunk where "stop_if_restore_cancelled ar w = (Inr u, w1)" and "length chunk \<le> n"
        and "ar_write_all ar p chunk w1 = (Inr v, w2)"
        and "(if root then restore_progress ar (min (saturating_add member_bytes (of_nat (length chunk))) (saturating_sub declared 1)) declared
              else returnE ()) w2 = (Inr z, w3)"
        and "extract_payload ar root p declared (n - length chunk) rs (saturating_add member_bytes (of_nat (length chunk))) (hashed @ chunk) w3
             = (Inr (b, h), w')"
proof -
  from assms obtain u w1 where stop: "stop_if_restore_cancelled ar w = (Inr u, w1)"
    and rest: "(if n = 0 then returnE (member_bytes, hashed) else
     bindE (liftE (archive_read ''extract snapshot payload'' r)) (\<lambda>s.
     let chunk = take (min n COPY_BUFFER_SIZE) s in
     if chunk = [] then returnE (member_bytes, hashed) else
     bindE (key_call ''write staged snapshot payload'' p (ar_write_all ar p chunk)) (\<lambda>_.
     let received = saturating_add member_bytes (of_nat (length chunk)) in
     bindE (if root then restore_progress ar (min received (saturating_sub declared 1)) declared else returnE ()) (\<lambda>_.
     extract_payload ar root p declared (n - length chunk) rs received (hashed @ chunk))))) w1 = (Inr (b, h), w')"
    unfolding extract_payload.simps bindE_Inr [of "stop_if_restore_cancelled ar"] by blast
  show thesis
  proof (cases "n = 0")
    case True
    with rest stop show thesis by (intro finished) (auto simp: returnE_def)
  next
    case False
    with rest obtain s where s: "(let chunk = take (min n COPY_BUFFER_SIZE) s in
       if chunk = [] then returnE (member_bytes, hashed) else
       bindE (key_call ''write staged snapshot payload'' p (ar_write_all ar p chunk)) (\<lambda>_.
       let received = saturating_add member_bytes (of_nat (length chunk)) in
       bindE (if root then restore_progress ar (min received (saturating_sub declared 1)) declared else returnE ()) (\<lambda>_.
       extract_payload ar root p declared (n - length chunk) rs received (hashed @ chunk)))) w1 = (Inr (b, h), w')"
      unfolding if_not_P [OF False] bind_lift_Inr by blast
    define chunk where "chunk = take (min n COPY_BUFFER_SIZE) s"
    show thesis
    proof (cases "chunk = []")
      case True
      with s stop show thesis by (intro finished) (auto simp: chunk_def [symmetric] returnE_def Let_def)
    next
      case False
      have "length chunk \<le> n" by (simp add: chunk_def)
      with s stop show thesis
        unfolding Let_def chunk_def [symmetric] if_not_P [OF False] bindE_Inr key_call_Inr by (blast intro: copied)
    qed
  qed
qed

lemma extract_payload_contents:
  assumes laws: "archive_laws ar content" and run: "extract_payload ar root p declared n rs member_bytes hashed w = (Inr (b, h), w')"
    and "content w p = Some hashed" and "unat member_bytes = length hashed" and "length hashed + n < 2 ^ 64"
  shows "content w' p = Some h \<and> unat b = length h"
  using run assms(3-5)
proof (induction rs arbitrary: n member_bytes hashed w)
  case Nil
  then obtain u where "stop_if_restore_cancelled ar w = (Inr u, w')" "b = member_bytes" "h = hashed"
    by (auto simp: bindE_Inr returnE_def)
  with Nil.prems show ?case using touchesD [OF archive_observers(1) [OF laws], of w "Inr u" w' p "{}"] by simp
next
  case (Cons r rs)
  from Cons.prems(1) show ?case
  proof (cases rule: extract_payload_Cons)
    case (finished u)
    with Cons.prems show ?thesis using touchesD [OF archive_observers(1) [OF laws], of w "Inr u" w' p "{}"] by simp
  next
    case (copied u v z w1 w2 w3 chunk)
    let ?received = "saturating_add member_bytes (of_nat (length chunk)) :: u64"
    have "content w1 p = Some hashed"
      using touchesD [OF archive_observers(1) [OF laws] copied(1), of p "{}"] Cons.prems(2) by simp
    then have "content w2 p = Some (hashed @ chunk)" using laws copied(3) unfolding archive_laws_def by (cases v) blast
    moreover have calm: "touches content {} (if root then restore_progress ar (min ?received (saturating_sub declared 1)) declared else returnE ())"
      by (intro touches_intros laws)
    ultimately have w3: "content w3 p = Some (hashed @ chunk)" using touchesD [OF calm copied(4)] by simp
    have received: "unat ?received = length (hashed @ chunk)"
      using Cons.prems(3,4) copied(2) by (simp add: unat_saturating_add unsigned_of_nat take_bit_nat_eq_self)
    show ?thesis by (rule Cons.IH [OF copied(5) w3 received]) (use Cons.prems(4) copied(2) in simp)
  qed
qed

text \<open>What was extracted so far is on disk under the name its member has in the staging directory.\<close>

definition on_disk :: "Crypto \<Rightarrow> 'w contents \<Rightarrow> path \<Rightarrow> 'w \<Rightarrow> string \<Rightarrow> ExtractedPayload \<Rightarrow> bool" where
  "on_disk c content staging w member x \<longleftrightarrow>
     member_path staging member = Inr (xp_path x)
     \<and> (\<exists>bytes. content w (xp_path x) = Some bytes \<and> length bytes = unat (xp_size_bytes x)
          \<and> hex_digest (digest_bytes c (bytes_of bytes)) = xp_sha256 x)"

definition extracted_ok :: "Crypto \<Rightarrow> 'w contents \<Rightarrow> path \<Rightarrow> 'w \<Rightarrow> extraction \<Rightarrow> bool" where
  "extracted_ok c content staging w st \<longleftrightarrow>
     (\<forall>member x. ex_extracted st member = Some x \<longrightarrow> member \<in> ex_seen st \<and> on_disk c content staging w member x)"

lemma on_disk_kept: "content w' (xp_path x) = content w (xp_path x) \<Longrightarrow> on_disk c content staging w member x \<Longrightarrow> on_disk c content staging w' member x"
  by (simp add: on_disk_def)

lemma extracted_ok_touches:
  assumes "touches content {} m" and "m w = (r, w')" and "extracted_ok c content staging w st"
  shows "extracted_ok c content staging w' st"
  using assms(3) touchesD [OF assms(1,2)] unfolding extracted_ok_def on_disk_def by simp

lemma stage_member_extracts:
  assumes laws: "archive_laws ar content" and ok: "extracted_ok c content staging w st"
    and fresh: "ex_extracted st member = None" and seen: "member \<in> ex_seen st"
    and run: "stage_member c ar staging member declared rs st w = (Inr st', w')"
  shows "extracted_ok c content staging w' st'"
proof -
  obtain p where path: "member_path staging member = Inr p"
    using run by (cases "member_path staging member") (auto simp: stage_member_def bindE_def liftE_def)
  from run obtain u w1 b h w2 v where steps: "create_staged_file ar p w = (Inr u, w1)"
    "extract_payload ar (member = ROOTFS_MEMBER) p declared (unat declared) rs 0 [] w1 = (Inr (b, h), w2)"
    "b = declared" "ar_sync_all ar p w2 = (Inr v, w')"
    "st' = st\<lparr>ex_extracted := (ex_extracted st)(member \<mapsto>
       \<lparr>xp_path = p, xp_size_bytes = b, xp_sha256 = hex_digest (digest_bytes c (bytes_of h))\<rparr>)\<rparr>"
    unfolding stage_member_def path bind_lift_Inr
    by (auto simp: bindE_Inr key_call_Inr returnE_def throwE_def split: if_splits)
  have "content w1 p = Some []"
    using laws steps(1) unfolding archive_laws_def create_staged_file_def key_call_Inr by (cases u) blast
  then have "content w2 p = Some h \<and> unat b = length h"
    by (intro extract_payload_contents [OF laws steps(2)]) (simp_all, use unsigned_less [of declared, where ?'a = nat] in simp)
  then have new: "content w' p = Some h" "unat b = length h"
    using touchesD [OF archive_calls(5) [OF laws] steps(4), of p "{}"] by simp_all
  have old: "on_disk c content staging w' m x" if "ex_extracted st m = Some x" for m x
  proof -
    have x: "on_disk c content staging w m x" using ok that unfolding extracted_ok_def by blast
    have "m \<noteq> member" using that fresh by auto
    then have "xp_path x \<noteq> p" using x path member_path_inj unfolding on_disk_def by blast
    then show ?thesis using touchesD [OF touches_stage_member_at [OF laws path] run] by (intro on_disk_kept [OF _ x]) simp
  qed
  show ?thesis
    using ok seen old new path unfolding extracted_ok_def steps(5) by (auto simp: on_disk_def)
qed

lemma read_member_extracts:
  assumes laws: "archive_laws ar content" and ok: "extracted_ok c content staging w st"
    and run: "read_member c ar staging entry st w = (Inr st', w')"
  shows "extracted_ok c content staging w' st'"
proof -
  let ?m = "en_path_bytes entry" let ?st = "st\<lparr>ex_seen := insert ?m (ex_seen st)\<rparr>"
  have checks: "utf8_valid ?m" "is_allowed_member ?m" "?m \<notin> ex_seen st" "en_is_file entry"
    using run by (auto simp: read_member_def Let_def throwE_def split: if_splits)
  then have fresh: "ex_extracted ?st ?m = None" using ok by (cases "ex_extracted st ?m") (auto simp: extracted_ok_def)
  have ok': "extracted_ok c content staging w ?st" using ok by (auto simp: extracted_ok_def)
  have progress: "touches content {} (if ?m = ROOTFS_MEMBER then restore_progress ar 0 d else returnE ())" for d by (intro touches_intros laws)
  obtain declared u w1 where first: "(if ?m = ROOTFS_MEMBER then restore_progress ar 0 declared else returnE ()) w = (Inr u, w1)"
    and rest: "(if ?m = MANIFEST_MEMBER
      then bindE (liftE (archive_read ''read snapshot manifest'' (read_to_end (unat declared) (en_reads entry)))) (\<lambda>bytes.
        if of_nat (length bytes) \<noteq> declared
        then throwE (RestoreArchive ''read snapshot manifest'' (Text ''manifest ended before its declared size''))
        else returnE (?st\<lparr>ex_manifest := Some bytes\<rparr>))
      else stage_member c ar staging ?m declared (en_reads entry) ?st) w1 = (Inr st', w')"
    using run unfolding read_member_def Let_def guard_Inr bind_lift_Inr bindE_Inr [of "if ?m = ROOTFS_MEMBER then x else y" for x y] by blast
  have ok1: "extracted_ok c content staging w1 ?st" by (rule extracted_ok_touches [OF progress first ok'])
  show ?thesis
  proof (cases "?m = MANIFEST_MEMBER")
    case True
    with rest have "w' = w1" "\<exists>bytes. st' = ?st\<lparr>ex_manifest := Some bytes\<rparr>"
      by (auto simp: bind_lift_Inr returnE_def throwE_def split: if_splits)
    with ok1 show ?thesis by (auto simp: extracted_ok_def)
  next
    case False
    with rest have "stage_member c ar staging ?m declared (en_reads entry) ?st w1 = (Inr st', w')" by simp
    from stage_member_extracts [OF laws ok1 fresh _ this] show ?thesis by simp
  qed
qed

lemma read_members_extracts:
  assumes laws: "archive_laws ar content"
  shows "extracted_ok c content staging w st \<Longrightarrow> read_members c ar staging es st w = (Inr st', w') \<Longrightarrow> extracted_ok c content staging w' st'"
proof (induction es arbitrary: st w)
  case Nil
  then show ?case by (simp add: returnE_def)
next
  case (Cons e es)
  then obtain u w1 entry st1 w2 where steps: "stop_if_restore_cancelled ar w = (Inr u, w1)"
    "read_member c ar staging entry st w1 = (Inr st1, w2)" "read_members c ar staging es st1 w2 = (Inr st', w')"
    unfolding read_members.simps bind_lift_Inr bindE_Inr [of "stop_if_restore_cancelled ar"]
      bindE_Inr [of "read_member c ar staging x st" for x] by blast
  have "extracted_ok c content staging w1 st" by (rule extracted_ok_touches [OF archive_observers(1) [OF laws] steps(1) Cons.prems(1)])
  then have "extracted_ok c content staging w2 st1" by (rule read_member_extracts [OF laws _ steps(2)])
  then show ?case by (rule Cons.IH [OF _ steps(3)])
qed

section \<open>Verification\<close>

lemma parse_manifest_valid: "parse_manifest codec bytes = Inr m \<Longrightarrow> validate_snapshot_manifest m = Inr ()"
  by (auto simp: parse_manifest_def bindR_def ok_or_def split: sum.splits option.splits if_splits)

lemma verify_payloads_matches:
  assumes "verify_payloads m extracted = Inr ()" and "rec \<in> set (sm_payloads m)"
  shows "\<exists>x. extracted (pr_path rec) = Some x \<and> xp_size_bytes x = pr_size_bytes rec \<and> xp_sha256 x = pr_sha256 rec"
  using assms unfolding verify_payloads_def forR_Inr by (auto simp: bindR_Inr split: if_splits)

text \<open>A snapshot that was staged: the manifest is valid, the paths are those of the members, every payload has the recorded size and
  digest, and the keys are a pair with the recorded fingerprint.\<close>

definition staged_verified :: "Crypto \<Rightarrow> 'w contents \<Rightarrow> path \<Rightarrow> 'w \<Rightarrow> StagedSnapshot \<Rightarrow> bool" where
  "staged_verified c content staging w s \<longleftrightarrow>
     validate_snapshot_manifest (ss_manifest s) = Inr ()
     \<and> member_path staging ROOTFS_MEMBER = Inr (ss_rootfs_path s) \<and> member_path staging KERNEL_MEMBER = Inr (ss_kernel_path s)
     \<and> member_path staging PRIVATE_KEY_MEMBER = Inr (ss_private_key_path s) \<and> member_path staging PUBLIC_KEY_MEMBER = Inr (ss_public_key_path s)
     \<and> (\<forall>rec \<in> set (sm_payloads (ss_manifest s)). \<exists>p bytes. member_path staging (pr_path rec) = Inr p \<and> content w p = Some bytes
          \<and> length bytes = unat (pr_size_bytes rec) \<and> hex_digest (digest_bytes c (bytes_of bytes)) = pr_sha256 rec)
     \<and> (\<exists>private public. content w (ss_private_key_path s) = Some private \<and> content w (ss_public_key_path s) = Some public
          \<and> validate_ed25519_key_pair c private public (sh_public_key_fingerprint (sm_ssh (ss_manifest s))) = Inr ())"

lemma path_for_Inr: "path_for extracted member = Inr p \<longleftrightarrow> (\<exists>x. extracted member = Some x \<and> p = xp_path x)"
  by (auto simp: path_for_def bindR_def ok_or_def split: option.splits)

lemma validate_staged_credentials_pair:
  assumes laws: "archive_laws ar content" and run: "validate_staged_credentials c ar m extracted w = (Inr u, w')"
  shows "\<exists>x y private public. extracted PRIVATE_KEY_MEMBER = Some x \<and> extracted PUBLIC_KEY_MEMBER = Some y
    \<and> content w (xp_path x) = Some private \<and> content w (xp_path y) = Some public
    \<and> validate_ed25519_key_pair c private public (sh_public_key_fingerprint (sm_ssh m)) = Inr ()"
proof -
  from run obtain x y prv w1 pub w2 where steps: "extracted PRIVATE_KEY_MEMBER = Some x" "extracted PUBLIC_KEY_MEMBER = Some y"
    "ar_read ar (xp_path x) w = (Inr prv, w1)" "ar_read ar (xp_path y) w1 = (Inr pub, w2)"
    "liftE (validate_ed25519_key_pair c prv pub (sh_public_key_fingerprint (sm_ssh m))) w2 = (Inr u, w')"
    unfolding validate_staged_credentials_def bind_lift_Inr ok_or_Inr bindE_Inr [of "key_call a b m" for a b m] key_call_Inr by blast
  have "content w (xp_path x) = Some prv" "content w1 (xp_path y) = Some pub"
    using laws steps(3,4) unfolding archive_laws_def by blast+
  moreover have "content w1 (xp_path y) = content w (xp_path y)"
    using touchesD [OF archive_calls(6) [OF laws] steps(3), of _ "{}"] by simp
  ultimately show ?thesis using steps(1,2,5) by (auto simp: liftE_def)
qed

lemma finish_staging_verified:
  assumes laws: "archive_laws ar content" and ok: "extracted_ok c content staging w st"
    and run: "finish_staging c codec ar st w = (Inr s, w')"
  shows "staged_verified c content staging w' s"
proof -
  have same: "content w' q = content w q" for q using touchesD [OF touches_finish [OF laws] run, of q "{}"] by simp
  from run obtain bytes m u w1 x1 x2 x3 x4 where steps: "parse_manifest codec bytes = Inr m" "verify_payloads m (ex_extracted st) = Inr ()"
    "validate_staged_credentials c ar m (ex_extracted st) w = (Inr u, w1)"
    "ex_extracted st ROOTFS_MEMBER = Some x1" "ex_extracted st KERNEL_MEMBER = Some x2"
    "ex_extracted st PRIVATE_KEY_MEMBER = Some x3" "ex_extracted st PUBLIC_KEY_MEMBER = Some x4"
    and s: "s = \<lparr>ss_manifest = m, ss_rootfs_path = xp_path x1, ss_kernel_path = xp_path x2, ss_private_key_path = xp_path x3,
       ss_public_key_path = xp_path x4\<rparr>"
    unfolding finish_staging_def bind_lift_Inr ok_or_Inr path_for_Inr bindE_Inr [of "validate_staged_credentials c ar m e" for m e]
      bindE_Inr [of "set_staged_mode ar p mode" for p mode] bindE_Inr [of "restore_progress ar a b" for a b]
    by (auto simp: returnE_def)
  have disk: "on_disk c content staging w member x" if "ex_extracted st member = Some x" for member x
    using ok that unfolding extracted_ok_def by blast
  have "\<exists>p bytes. member_path staging (pr_path rec) = Inr p \<and> content w p = Some bytes
      \<and> length bytes = unat (pr_size_bytes rec) \<and> hex_digest (digest_bytes c (bytes_of bytes)) = pr_sha256 rec"
    if "rec \<in> set (sm_payloads m)" for rec
    using verify_payloads_matches [OF steps(2) that] disk unfolding on_disk_def by fastforce
  then show ?thesis
    using parse_manifest_valid [OF steps(1)] validate_staged_credentials_pair [OF laws steps(3)] disk [OF steps(4)] disk [OF steps(5)]
      disk [OF steps(6)] disk [OF steps(7)] steps(6,7)
    unfolding staged_verified_def s by (simp add: same on_disk_def)
qed

lemma read_staged_verified:
  assumes laws: "archive_laws ar content" and run: "read_staged c codec ar src staging w = (Inr s, w')"
  shows "staged_verified c content staging w' s"
proof -
  from run obtain u w1 entries st w2 v w3 where steps: "restore_progress ar 0 0 w = (Inr u, w1)"
    "read_members c ar staging entries \<lparr>ex_seen = {}, ex_extracted = Map.empty, ex_manifest = None\<rparr> w1 = (Inr st, w2)"
    "stop_if_restore_cancelled ar w2 = (Inr v, w3)" "finish_staging c codec ar st w3 = (Inr s, w')"
    unfolding read_staged_def bind_lift_Inr guard_Inr bindE_Inr [of "restore_progress ar a b" for a b]
      bindE_Inr [of "read_members c ar staging e t" for e t] bindE_Inr [of "stop_if_restore_cancelled ar"] by blast
  have "extracted_ok c content staging w2 st"
    by (rule read_members_extracts [OF laws _ steps(2)]) (simp add: extracted_ok_def)
  then have "extracted_ok c content staging w3 st"
    by (rule extracted_ok_touches [OF archive_observers(1) [OF laws] steps(3)])
  then show ?thesis by (rule finish_staging_verified [OF laws _ steps(4)])
qed

lemma touches_read_archive:
  assumes laws: "archive_laws ar content"
  shows "touches content {q. prefix staging q} (read_archive c codec ar archive_path staging)"
proof -
  have drop: "touches content {q. prefix staging q} (ar_remove_dir_all ar staging)" using laws by (simp add: archive_laws_def)
  show ?thesis unfolding read_archive_def
    by (intro touches_intros touches_read_staged laws) (auto intro!: touches_intros drop split: sum.splits)
qed

text \<open>A run that fails leaves every file as it was.\<close>

definition clean :: "'w contents \<Rightarrow> ('e, 'w, 'a) io \<Rightarrow> 'w \<Rightarrow> bool" where
  "clean content m w \<longleftrightarrow> (\<forall>e w'. m w = (Inl e, w') \<longrightarrow> content w' = content w)"

lemma clean_throw: "clean content (throwE e) w"
  by (simp add: clean_def throwE_def)

lemma clean_if: "clean content m w \<Longrightarrow> clean content n w \<Longrightarrow> clean content (if b then m else n) w"
  by simp

lemma clean_bind:
  assumes calm: "touches content {} m" and rest: "\<And>x w1. m w = (Inr x, w1) \<Longrightarrow> content w1 = content w \<Longrightarrow> clean content (f x) w1"
  shows "clean content (bindE m f) w"
  unfolding clean_def
proof (intro allI impI)
  fix e w' assume run: "bindE m f w = (Inl e, w')"
  obtain y w1 where m: "m w = (y, w1)" by fastforce
  then have same: "content w1 = content w" using calm by (auto simp: touches_def)
  show "content w' = content w"
  proof (cases y)
    case (Inl e')
    with m same run show ?thesis by (simp add: bindE_def)
  next
    case (Inr x)
    with m run have "f x w1 = (Inl e, w')" by (simp add: bindE_def)
    with rest [of x w1] m Inr same show ?thesis unfolding clean_def by simp
  qed
qed

lemma create_staging_empty:
  assumes laws: "archive_laws ar content" and "create_staging ar staging w = (Inr u, w')" and "prefix staging q"
  shows "content w q = None"
proof -
  obtain v w1 where "ar_create_dir ar staging w = (Inr v, w1)"
    using assms(2) unfolding create_staging_def bindE_Inr key_call_Inr by blast
  then have "ar_create_dir ar staging w = (Inr (), w1)" by (cases v) simp
  then show ?thesis using laws assms(3) unfolding archive_laws_def by metis
qed

lemma remove_staging_empties:
  assumes "archive_laws ar content" and "ar_remove_dir_all ar staging w = (Inr (), w')" and "prefix staging q"
  shows "content w' q = None"
  using assms unfolding archive_laws_def by metis

lemma clean_staged:
  assumes laws: "archive_laws ar content" and empty: "\<And>q. prefix staging q \<Longrightarrow> content w q = None"
    and removable: "\<And>w1. fst (ar_remove_dir_all ar staging w1) = Inr ()"
  shows "clean content (bindE (attemptE (read_staged c codec ar src staging)) (\<lambda>r.
     case r of Inr staged \<Rightarrow> returnE staged | Inl e \<Rightarrow> bindE (key_try (ar_remove_dir_all ar staging)) (\<lambda>_. throwE e))) w"
  unfolding clean_def
proof (intro allI impI ext)
  fix e w' q
  assume run: "bindE (attemptE (read_staged c codec ar src staging)) (\<lambda>r.
     case r of Inr staged \<Rightarrow> returnE staged | Inl e \<Rightarrow> bindE (key_try (ar_remove_dir_all ar staging)) (\<lambda>_. throwE e)) w = (Inl e, w')"
  obtain r w1 where body: "read_staged c codec ar src staging w = (r, w1)" by fastforce
  with run have "ar_remove_dir_all ar staging w1 = (fst (ar_remove_dir_all ar staging w1), w')"
    by (cases r) (auto simp: bindE_def attemptE_def returnE_def key_try_def throwE_def split: prod.splits)
  then have removed: "ar_remove_dir_all ar staging w1 = (Inr (), w')" using removable by simp
  show "content w' q = content w q"
  proof (cases "prefix staging q")
    case True
    then show ?thesis using remove_staging_empties [OF laws removed] empty by simp
  next
    case False
    have below: "touches content {q. prefix staging q} (ar_remove_dir_all ar staging)" using laws by (simp add: archive_laws_def)
    show ?thesis using touchesD [OF touches_read_staged [OF laws] body, of q] touchesD [OF below removed, of q] False by simp
  qed
qed

lemma clean_read_archive:
  assumes laws: "archive_laws ar content" and removable: "\<And>w1. fst (ar_remove_dir_all ar staging w1) = Inr ()"
  shows "clean content (read_archive c codec ar archive_path staging) w"
  unfolding read_archive_def
proof (rule clean_bind [OF touches_call [OF archive_calls(1) [OF laws]]], intro clean_if clean_throw,
    rule clean_bind [OF touches_call [OF archive_calls(2) [OF laws]]], rule clean_bind [OF touches_lift],
    rule clean_bind [OF touches_create_staging [OF laws]], rule clean_staged [OF laws _ removable])
  fix w3 w4 u q assume "create_staging ar staging w3 = (Inr u, w4)" and "content w4 = content w3" and "prefix staging q"
  then show "content w4 q = None" using create_staging_empty [OF laws] by metis
qed

lemma read_archive_staged:
  assumes "archive_laws ar content" and run: "read_archive c codec ar archive_path staging w = (Inr s, w')"
  shows "staged_verified c content staging w' s"
proof -
  from run obtain src r w1 w2 where body: "attemptE (read_staged c codec ar src staging) w1 = (Inr r, w2)"
    and rest: "(case r of Inr staged \<Rightarrow> returnE staged | Inl e \<Rightarrow> bindE (key_try (ar_remove_dir_all ar staging)) (\<lambda>_. throwE e)) w2 = (Inr s, w')"
    unfolding read_archive_def bindE_Inr [of "key_call a b m" for a b m] guard_Inr bind_lift_Inr
      bindE_Inr [of "create_staging ar staging"] bindE_Inr [of "attemptE m" for m] by blast
  have "r = Inr s" "w2 = w'" using rest by (auto simp: bindE_Inr returnE_def throwE_def split: sum.splits)
  with body have "read_staged c codec ar src staging w1 = (Inr s, w')" by (auto simp: attemptE_def split: prod.splits)
  then show ?thesis by (rule read_staged_verified [OF assms(1)])
qed

end
