(* ===== verification/Archive_Safety.thy ===== *)
theory Archive_Safety
  imports Archive_Staging
begin

text \<open>
  Reading an archive: what is staged is what the manifest records, and an archive that is refused leaves no file behind. The
  instance is an archive in memory with a generated pair of keys.
\<close>

section \<open>An archive\<close>

text \<open>Files in memory and an archive of four small payloads with a generated pair of keys.\<close>

definition plain_crypto :: Crypto where
  "plain_crypto = hex_crypto\<lparr>digest_bytes := \<lambda>_. replicate 32 0\<rparr>"

definition memory_archive :: "archive_stream \<Rightarrow> (path \<Rightarrow> string option) ArchivePort" where
  "memory_archive src =
     \<lparr>ar_metadata = (\<lambda>_. returnE \<lparr>md_is_symlink = False, md_is_file = True, md_is_dir = False, md_len = 1, md_mode = 384\<rparr>),
      ar_open = (\<lambda>_. returnE src),
      ar_create_dir = (\<lambda>p F. if \<forall>q. prefix p q \<longrightarrow> F q = None then (Inr (), F)
        else (Inl \<lparr>io_kind = AlreadyExistsKind, io_text = ''exists''\<rparr>, F)),
      ar_set_permissions = (\<lambda>_ _. returnE ()), ar_remove_dir = (\<lambda>_. returnE ()),
      ar_remove_dir_all = (\<lambda>p F. (Inr (), \<lambda>q. if prefix p q then None else F q)),
      ar_create_new = (\<lambda>p _ F. case F p of None \<Rightarrow> (Inr (), F(p := Some [])) | Some _ \<Rightarrow> (Inl \<lparr>io_kind = AlreadyExistsKind, io_text = ''exists''\<rparr>, F)),
      ar_write_all = (\<lambda>p s F. (Inr (), F(p := map_option (\<lambda>old. old @ s) (F p)))), ar_sync_all = (\<lambda>_. returnE ()),
      ar_read = (\<lambda>p F. case F p of None \<Rightarrow> (Inl \<lparr>io_kind = NotFoundKind, io_text = ''not found''\<rparr>, F) | Some b \<Rightarrow> (Inr b, F)),
      ar_cancelled = (\<lambda>F. (False, F)), ar_progress = (\<lambda>_ _ F. F)\<rparr>"

definition archive_seed :: "u8 list" where "archive_seed = replicate 32 7"

definition archive_private :: string where
  "archive_private = private_text plain_crypto [7, 7, 7, 7] archive_seed archive_seed"

definition archive_public :: string where
  "archive_public = public_text plain_crypto archive_seed"

definition archive_payload :: "string \<Rightarrow> string \<Rightarrow> PayloadRecord" where
  "archive_payload member s = \<lparr>pr_path = member, pr_size_bytes = of_nat (length s), pr_sha256 = demo_digest, pr_mode = payload_mode member\<rparr>"

definition archive_manifest :: SnapshotManifest where
  "archive_manifest =
     \<lparr>sm_format = FORMAT_ID, sm_format_version = 3, sm_created_at_unix_seconds = 1,
      sm_vm = \<lparr>vmm_name = ''a'', vmm_disk_size_bytes = 1, vmm_memory_bytes = 1, vmm_memory_effective_mib = 1, vmm_vcpu_count = 1\<rparr>,
      sm_compatibility = \<lparr>cmp_host_os = ''linux'', cmp_guest_architecture = ''a'', cmp_requires_kvm = True, cmp_runtime = ''firecracker''\<rparr>,
      sm_boot = \<lparr>bm_distribution_id = ''a'', bm_distribution_name = ''a'', bm_distribution_version = ''a'', bm_image_id = ''a'',
        bm_image_sha256 = demo_digest,
        bm_kernel = \<lparr>km_id = ''a'', km_name = ''a'', km_display_name = ''a'', km_version = ''a'', km_architecture = ''a'',
          km_registry_path = ''a'', km_registry_url = ''a'', km_filename = ''a'', km_format = ''a'', km_mime_type = ''a'', km_modified_at = ''a''\<rparr>,
        bm_root_device = ''a'', bm_kernel_args = []\<rparr>,
      sm_network = RegenerateIpv4 False,
      sm_ssh = \<lparr>sh_user = ''root'', sh_port = 22, sh_key_type = ''ed25519'',
        sh_public_key_fingerprint = public_key_fingerprint plain_crypto (public_blob_of archive_seed)\<rparr>,
      sm_consistency = \<lparr>cy_kind = ''disk_only_crash_consistent'', cy_includes_guest_memory = False, cy_includes_process_state = False\<rparr>,
      sm_payloads = [archive_payload ROOTFS_MEMBER ''d'', archive_payload KERNEL_MEMBER ''k'',
        archive_payload PRIVATE_KEY_MEMBER archive_private, archive_payload PUBLIC_KEY_MEMBER archive_public]\<rparr>"

definition archive_member :: "string \<Rightarrow> string \<Rightarrow> io_error + archive_entry" where
  "archive_member member s = Inr \<lparr>en_path_bytes = member, en_is_file = True, en_size = Inr (of_nat (length s)), en_reads = [Inr s]\<rparr>"

definition archive_source :: archive_stream where
  "archive_source =
     \<lparr>as_header = [Inr ZSTANDARD_MAGIC], as_rewind = Inr (), as_decoder = Inr (),
      as_entries = Inr [archive_member ROOTFS_MEMBER ''d'', archive_member KERNEL_MEMBER ''k'', archive_member PRIVATE_KEY_MEMBER archive_private,
        archive_member PUBLIC_KEY_MEMBER archive_public, archive_member MANIFEST_MEMBER ''m''],
      as_tail = [Inr [CHR 0x00]], as_trailing = Inr []\<rparr>"

definition archive_json :: "string ManifestJson" where
  "archive_json = \<lparr>from_slice = Inr, format_version_of = (\<lambda>_. Some 3), from_json = (\<lambda>_. Inr archive_manifest)\<rparr>"

lemma memory_archive_laws: "archive_laws (memory_archive src) (\<lambda>F. F)"
  unfolding archive_laws_def touches_def memory_archive_def by (auto simp: returnE_def split: option.splits if_splits)

lemma plain_crypto_laws: "crypto_laws plain_crypto"
  using hex_crypto_laws by (simp add: plain_crypto_def crypto_laws_def)

lemma length_hex: "length (base64_encode plain_crypto b) = 2 * length b"
  by (induction b) (simp_all add: plain_crypto_def hex_crypto_def Let_def)

lemma length_lines: "0 < n \<Longrightarrow> length (concat (map (\<lambda>l. l @ [x]) (chunks n e))) \<le> 2 * length e"
proof (induction n e rule: chunks.induct)
  case (1 n e)
  then show ?case by (cases "e = []") (auto simp: chunks.simps [of n e] chunks.simps [of n "[]"] min_def Suc_le_eq)
qed

lemma key_lengths: "length archive_public = 115" "0 < length archive_private" "length archive_private \<le> 4096"
proof -
  have seed: "length archive_seed = 32" by (simp add: archive_seed_def)
  show "length archive_public = 115"
    by (simp add: archive_public_def public_text_def length_hex public_blob_read(3) [OF seed])
  have "length (private_blob_of (public_blob_of archive_seed) (padded (block_body [7, 7, 7, 7] archive_seed archive_seed))) = 234"
    by (simp add: private_blob_of_def public_blob_read(3) [OF seed] length_padded seed)
  then show "0 < length archive_private" "length archive_private \<le> 4096"
    using length_lines [of 70 "CHR 0x0A" "base64_encode plain_crypto (private_blob_of (public_blob_of archive_seed) (padded (block_body [7, 7, 7, 7] archive_seed archive_seed)))"]
    by (simp_all add: archive_private_def private_text_def pem_text_def length_hex pem_begin_def pem_end_def)
qed

lemma nonempty_public: "archive_public \<noteq> []"
  using key_lengths(1) by auto

lemma require_letter: "require_text ''a'' field = Inr ()"
  by (simp add: require_text_def utf8_trim_def drop_leading_stops printable_not_space)

lemma member_names [simp]:
  "ROOTFS_MEMBER \<noteq> KERNEL_MEMBER" "ROOTFS_MEMBER \<noteq> PRIVATE_KEY_MEMBER" "ROOTFS_MEMBER \<noteq> PUBLIC_KEY_MEMBER"
  "KERNEL_MEMBER \<noteq> PRIVATE_KEY_MEMBER" "KERNEL_MEMBER \<noteq> PUBLIC_KEY_MEMBER" "PRIVATE_KEY_MEMBER \<noteq> PUBLIC_KEY_MEMBER"
  "MANIFEST_MEMBER \<noteq> ROOTFS_MEMBER" "MANIFEST_MEMBER \<noteq> KERNEL_MEMBER" "MANIFEST_MEMBER \<noteq> PRIVATE_KEY_MEMBER"
  "MANIFEST_MEMBER \<noteq> PUBLIC_KEY_MEMBER"
  by (simp_all add: member_defs MANIFEST_MEMBER_def)

lemmas member_names' [simp] = member_names [symmetric]

lemma small_size: "length s \<le> 4096 \<Longrightarrow> unat (of_nat (length s) :: u64) = length s"
  by (simp add: unsigned_of_nat take_bit_nat_eq_self)

lemma small_positive: "0 < length s \<Longrightarrow> length s \<le> 4096 \<Longrightarrow> (of_nat (length s) :: u64) \<noteq> 0"
  using small_size [of s] by (metis less_irrefl unsigned_0)

lemma archive_payloads_valid: "validate_payloads archive_manifest = Inr ()"
proof -
  have digest: "snapshot_sha256_valid demo_digest" by (simp add: demo_digest_def) code_simp
  have "validate_payload (sm_payloads archive_manifest) member = Inr ()" if "member \<in> set payload_members" for member
    using that digest small_positive [of archive_private] small_positive [of archive_public] key_lengths
    by (auto simp: payload_members_def validate_payload_def archive_manifest_def archive_payload_def)
  then have "forR payload_members (validate_payload (sm_payloads archive_manifest)) = Inr ()" by (simp add: forR_Inr)
  then show ?thesis
    by (simp add: validate_payloads_def payload_members_def archive_manifest_def archive_payload_def)
qed

lemma archive_manifest_valid: "validate_snapshot_manifest archive_manifest = Inr ()"
proof -
  have plain: "validate_vm_name ''a'' = Inr ()" "validate_identifier ''a'' field = Inr ()" "components ''a'' = [Normal ''a'']" for field
    by (code_simp, simp add: validate_identifier_def is_ascii_def is_ascii_control_def is_ascii_whitespace_def, code_simp)
  have "validate_kernel_manifest (bm_kernel (sm_boot archive_manifest)) = Inr ()"
    by (simp add: validate_kernel_manifest_def archive_manifest_def require_letter plain path_file_name_def is_ascii_def
        is_ascii_alphanumeric_def)
  then show ?thesis
    unfolding validate_snapshot_manifest_def Let_def
    by (simp add: archive_payloads_valid)
      (simp add: archive_manifest_def FORMAT_VERSION_def require_letter plain validate_network_manifest_def public_key_fingerprint_def)
qed

lemma archive_parsed: "parse_manifest archive_json ''m'' = Inr archive_manifest"
  by (simp add: parse_manifest_def archive_json_def FORMAT_VERSION_def archive_manifest_valid)

section \<open>Its members in memory\<close>

lemma memory_ports [simp]:
  "ar_cancelled (memory_archive src) F = (False, F)" "ar_progress (memory_archive src) a b F = F"
  "ar_create_new (memory_archive src) p mode F
    = (case F p of None \<Rightarrow> (Inr (), F(p := Some [])) | Some _ \<Rightarrow> (Inl \<lparr>io_kind = AlreadyExistsKind, io_text = ''exists''\<rparr>, F))"
  "ar_write_all (memory_archive src) p s F = (Inr (), F(p := map_option (\<lambda>old. old @ s) (F p)))"
  "ar_metadata (memory_archive src) p = returnE \<lparr>md_is_symlink = False, md_is_file = True, md_is_dir = False, md_len = 1, md_mode = 384\<rparr>"
  "ar_open (memory_archive src) p = returnE src" "ar_create_dir (memory_archive src) p Map.empty = (Inr (), Map.empty)"
  "ar_sync_all (memory_archive src) p = returnE ()" "ar_set_permissions (memory_archive src) p mode = returnE ()"
  "ar_read (memory_archive src) p F = (case F p of None \<Rightarrow> (Inl \<lparr>io_kind = NotFoundKind, io_text = ''not found''\<rparr>, F) | Some b \<Rightarrow> (Inr b, F))"
  by (simp_all add: memory_archive_def)

lemma memory_extract:
  assumes "s \<noteq> []" and "length s \<le> 4096" and "F p = Some []"
  shows "extract_payload (memory_archive src) root p d (length s) [Inr s] 0 [] F = (Inr (of_nat (length s), s), F(p := Some s))"
proof -
  have "saturating_add 0 (of_nat (length s) :: u64) = of_nat (length s)"
    using small_size [OF assms(2)] assms(2) by (simp add: saturating_add_def)
  moreover have "take (min (length s) COPY_BUFFER_SIZE) s = s" using assms(2) by (simp add: COPY_BUFFER_SIZE_def)
  ultimately show ?thesis
    using assms by (simp add: bindE_def stop_if_restore_cancelled_def restore_progress_def liftE_def archive_read_def Let_def key_call_def returnE_def)
qed

lemma memory_member:
  assumes s: "s \<noteq> []" "length s \<le> 4096" and m: "is_allowed_member m" "m \<noteq> MANIFEST_MEMBER" "m \<notin> ex_seen st" "utf8_valid m"
    and path: "member_path staging m = Inr p" and new: "F p = None"
  shows "read_members plain_crypto (memory_archive src) staging (archive_member m s # es) st F
    = read_members plain_crypto (memory_archive src) staging es
        (st\<lparr>ex_seen := insert m (ex_seen st), ex_extracted := (ex_extracted st)(m \<mapsto>
          \<lparr>xp_path = p, xp_size_bytes = of_nat (length s), xp_sha256 = demo_digest\<rparr>)\<rparr>) (F(p := Some s))"
proof -
  have limit: "\<not> member_limit m < of_nat (length s)"
  proof -
    have "4096 \<le> unat (member_limit m)"
      using m(1,2) by (auto simp: is_allowed_member_def member_limit_def MAX_ROOTFS_BYTES_def MAX_KERNEL_BYTES_def MAX_SSH_KEY_BYTES_def)
    then show ?thesis using small_size [OF s(2)] s(2) by (simp add: word_less_nat_alt)
  qed
  have "stage_member plain_crypto (memory_archive src) staging m (of_nat (length s)) [Inr s] t F
    = (Inr (t\<lparr>ex_extracted := (ex_extracted t)(m \<mapsto>
          \<lparr>xp_path = p, xp_size_bytes = of_nat (length s), xp_sha256 = demo_digest\<rparr>)\<rparr>), F(p := Some s))" for t
    using memory_extract [of s "F(p := Some [])" p src] s new demo_digest_zero
    by (simp add: stage_member_def path bindE_def liftE_def create_staged_file_def key_call_def small_size returnE_def
        plain_crypto_def zero_hash_def)
  then show ?thesis
    using m s limit small_positive [of s]
    by (cases "m = ROOTFS_MEMBER") (simp_all add: bindE_def stop_if_restore_cancelled_def archive_member_def archive_read_def liftE_def read_member_def Let_def
        restore_progress_def returnE_def)
qed

definition archive_staging :: path where "archive_staging = [RootDir, Normal ''s'']"

definition staged_file :: "string \<Rightarrow> path" where "staged_file name = archive_staging @ [Normal name]"

lemma staged_paths:
  "member_path archive_staging ROOTFS_MEMBER = Inr (staged_file ''rootfs.ext4'')"
  "member_path archive_staging KERNEL_MEMBER = Inr (staged_file ''vmlinux'')"
  "member_path archive_staging PRIVATE_KEY_MEMBER = Inr (staged_file ''id_ed25519'')"
  "member_path archive_staging PUBLIC_KEY_MEMBER = Inr (staged_file ''id_ed25519.pub'')"
  by (simp_all add: member_path_def staged_file_def archive_staging_def path_join_def is_absolute_def staged_components key_file_components)

lemma members_allowed:
  "is_allowed_member ROOTFS_MEMBER" "is_allowed_member KERNEL_MEMBER" "is_allowed_member PRIVATE_KEY_MEMBER"
  "is_allowed_member PUBLIC_KEY_MEMBER" "is_allowed_member MANIFEST_MEMBER"
  by (simp_all add: is_allowed_member_def)

lemma members_utf8: "utf8_valid ROOTFS_MEMBER" "utf8_valid KERNEL_MEMBER" "utf8_valid PRIVATE_KEY_MEMBER" "utf8_valid PUBLIC_KEY_MEMBER"
  "utf8_valid MANIFEST_MEMBER"
  by (auto intro!: utf8_valid_ascii simp: member_defs MANIFEST_MEMBER_def is_ascii_def)

lemma memory_manifest:
  assumes "MANIFEST_MEMBER \<notin> ex_seen st"
  shows "read_members plain_crypto (memory_archive src) staging [archive_member MANIFEST_MEMBER ''m''] st F
    = (Inr (st\<lparr>ex_seen := insert MANIFEST_MEMBER (ex_seen st), ex_manifest := Some ''m''\<rparr>), F)"
  using assms
  by (simp add: bindE_def stop_if_restore_cancelled_def archive_member_def archive_read_def liftE_def read_member_def Let_def
      members_allowed members_utf8 member_limit_def MAX_MANIFEST_BYTES_def returnE_def)

definition extracted_file :: "string \<Rightarrow> string \<Rightarrow> ExtractedPayload" where
  "extracted_file name s = \<lparr>xp_path = staged_file name, xp_size_bytes = of_nat (length s), xp_sha256 = demo_digest\<rparr>"

definition archive_extracted :: "string \<rightharpoonup> ExtractedPayload" where
  "archive_extracted = [ROOTFS_MEMBER \<mapsto> extracted_file ''rootfs.ext4'' ''d'', KERNEL_MEMBER \<mapsto> extracted_file ''vmlinux'' ''k'',
     PRIVATE_KEY_MEMBER \<mapsto> extracted_file ''id_ed25519'' archive_private, PUBLIC_KEY_MEMBER \<mapsto> extracted_file ''id_ed25519.pub'' archive_public]"

definition archive_files :: "path \<rightharpoonup> string" where
  "archive_files = [staged_file ''rootfs.ext4'' \<mapsto> ''d'', staged_file ''vmlinux'' \<mapsto> ''k'',
     staged_file ''id_ed25519'' \<mapsto> archive_private, staged_file ''id_ed25519.pub'' \<mapsto> archive_public]"

lemma memory_members:
  "read_members plain_crypto (memory_archive src) archive_staging
     [archive_member ROOTFS_MEMBER ''d'', archive_member KERNEL_MEMBER ''k'', archive_member PRIVATE_KEY_MEMBER archive_private,
        archive_member PUBLIC_KEY_MEMBER archive_public, archive_member MANIFEST_MEMBER ''m'']
     \<lparr>ex_seen = {}, ex_extracted = Map.empty, ex_manifest = None\<rparr> Map.empty
   = (Inr \<lparr>ex_seen = {MANIFEST_MEMBER, PUBLIC_KEY_MEMBER, PRIVATE_KEY_MEMBER, KERNEL_MEMBER, ROOTFS_MEMBER},
        ex_extracted = archive_extracted, ex_manifest = Some ''m''\<rparr>, archive_files)"
  using key_lengths nonempty_public
  by (simp add: memory_member [where p = "staged_file ''rootfs.ext4''"] memory_member [where p = "staged_file ''vmlinux''"]
      memory_member [where p = "staged_file ''id_ed25519''"] memory_member [where p = "staged_file ''id_ed25519.pub''"]
      members_allowed members_utf8 staged_paths memory_manifest archive_extracted_def extracted_file_def archive_files_def staged_file_def
      del: read_members.simps)

lemma memory_credentials:
  "validate_staged_credentials plain_crypto (memory_archive src) archive_manifest archive_extracted archive_files = (Inr (), archive_files)"
proof -
  have "validate_ed25519_key_pair plain_crypto archive_private archive_public
      (public_key_fingerprint plain_crypto (public_blob_of archive_seed)) = Inr ()"
    unfolding archive_private_def archive_public_def
    by (rule generated_pair_validates [OF plain_crypto_laws])
      (simp_all add: archive_seed_def plain_crypto_def hex_crypto_def Let_def)
  then show ?thesis
    by (simp add: validate_staged_credentials_def bindE_def liftE_def key_call_def archive_extracted_def extracted_file_def archive_files_def
        staged_file_def archive_manifest_def)
qed

lemma memory_read:
  "\<exists>s F. read_archive plain_crypto archive_json (memory_archive archive_source) [RootDir, Normal ''a''] archive_staging Map.empty = (Inr s, F)"
proof -
  have verified: "verify_payloads archive_manifest archive_extracted = Inr ()"
    by (simp add: verify_payloads_def archive_manifest_def archive_payload_def archive_extracted_def extracted_file_def)
  have "\<exists>s. finish_staging plain_crypto archive_json (memory_archive archive_source)
     \<lparr>ex_seen = S, ex_extracted = archive_extracted, ex_manifest = Some ''m''\<rparr> archive_files = (Inr s, archive_files)" for S
    unfolding finish_staging_def
    by (simp add: bindE_def liftE_def archive_parsed verified memory_credentials path_for_def set_staged_mode_def key_call_def
        restore_progress_def returnE_def) (simp add: archive_extracted_def returnE_def)
  then obtain s where finish: "finish_staging plain_crypto archive_json (memory_archive archive_source)
     \<lparr>ex_seen = {MANIFEST_MEMBER, PUBLIC_KEY_MEMBER, PRIVATE_KEY_MEMBER, KERNEL_MEMBER, ROOTFS_MEMBER},
      ex_extracted = archive_extracted, ex_manifest = Some ''m''\<rparr> archive_files = (Inr s, archive_files)" by blast
  have staged: "read_staged plain_crypto archive_json (memory_archive archive_source) archive_source archive_staging Map.empty = (Inr s, archive_files)"
    using memory_members [of archive_source] finish
    by (simp add: read_staged_def bindE_def liftE_def archive_read_def restore_progress_def archive_source_def stop_if_restore_cancelled_def
        check_trailing_def del: read_members.simps)
  have "check_header p archive_source = Inr ()" for p
    by (simp add: check_header_def archive_source_def ZSTANDARD_MAGIC_def LEGACY_AGE_HEADER_def)
  moreover have "create_staging (memory_archive archive_source) archive_staging Map.empty = (Inr (), Map.empty)"
    by (simp add: create_staging_def bindE_def key_call_def key_try_def returnE_def)
  ultimately show ?thesis
    using staged by (simp add: read_archive_def bindE_def liftE_def key_call_def attemptE_def MAX_ARCHIVE_BYTES_def returnE_def)
qed

section \<open>What is restored\<close>

text \<open>(C12) A snapshot archive is restored only as its manifest describes it: when reading an archive succeeds, its manifest is
  valid, every payload lies in the staging directory under the name of its member with the size and the digest that the manifest
  records, and the staged keys are a pair with the recorded fingerprint. Whatever the archive holds, no file outside the
  staging directory changes; and when reading fails and the staging directory can be removed, no file has changed at all.\<close>
theorem read_archive_verified:
  assumes "archive_laws ar content" and "read_archive c codec ar archive_path staging w = (r, w')"
  shows "(\<forall>s. r = Inr s \<longrightarrow> staged_verified c content staging w' s)
    \<and> (\<forall>q. \<not> prefix staging q \<longrightarrow> content w' q = content w q)
    \<and> (isl r \<longrightarrow> (\<forall>w1. fst (ar_remove_dir_all ar staging w1) = Inr ()) \<longrightarrow> content w' = content w)"
proof (intro conjI allI impI)
  show "staged_verified c content staging w' s" if "r = Inr s" for s
    using read_archive_staged [OF assms(1)] assms(2) that by simp
  show "content w' q = content w q" if "\<not> prefix staging q" for q
    using touchesD [OF touches_read_archive [OF assms(1)] assms(2)] that by simp
  show "content w' = content w" if "isl r" and "\<forall>w1. fst (ar_remove_dir_all ar staging w1) = Inr ()"
    using clean_read_archive [OF assms(1), of staging c codec archive_path w] assms(2) that by (cases r) (auto simp: clean_def)
qed

theorem read_archive_verified_witness:
  "\<exists>s F. read_archive plain_crypto archive_json (memory_archive archive_source) [RootDir, Normal ''a''] archive_staging Map.empty = (Inr s, F)
     \<and> staged_verified plain_crypto (\<lambda>F. F) archive_staging F s"
proof -
  obtain s F where "read_archive plain_crypto archive_json (memory_archive archive_source) [RootDir, Normal ''a''] archive_staging Map.empty = (Inr s, F)"
    using memory_read by blast
  with read_archive_verified [OF memory_archive_laws this] show ?thesis by blast
qed

end
