(* ===== verification/Spec2Isabelle.thy ===== *)
theory Spec2Isabelle
  imports Prelude Domain Request_Validation Registry Net_Addresses Linux_Commands Linux_Network
    Linux_Controller Command_Effects Net_Safety Net_Firewall Artifact_Rows Repository Path_Text Artifact_Repository
    Inventory Artifact_Store Artifact_Contract Artifact_Keys Inventory_Contract Restored_Commit
    Manager_Ports Manager_Lifecycle Manager_Autostart Demo_Host Lifecycle_Safety Network_Contract Volume_Removal
    Autostart_Policies Autostart_Runs Manager_Prune Prune_Safety Prune_Complete
    Manager_Download Demo_Store Download_Files Download_Inventory
    Manager_Creation Demo_Creation Creation_Safety Creation_Events
    Ssh_Credentials Credential_Round_Trip Credential_Generation
    Snapshot_Manifest Archive_Restore Archive_Staging Archive_Safety
begin

text \<open>
  \<^bold>\<open>A verification library for taumaru-microvm.\<close> The program (src/crates/sdk, with a command line client in
  src/crates/cli) creates, starts, stops, edits and deletes Firecracker microVMs on a Linux host. The SDK manager
  (manager.rs) runs each operation over an inventory in SQLite (adapters/persistence/sqlite.rs) and over ports: the
  host network (adapters/network/linux.rs), the Firecracker process, the runtime disk, the guest storage and the file
  system. What the operations rely on is validated first: requests (domain/config.rs) and the manifest of the artifact
  registry (adapters/registry/taumaru.rs).

  \<^bold>\<open>How programs are modelled.\<close> Fallible functions are values of \<open>SdkError + 'a\<close> (type \<open>result\<close>) chained with
  \<open>bindR\<close>; functions with effects are state transformers \<open>'w \<Rightarrow> (SdkError + 'a) \<times> 'w\<close> (type \<open>sdk_io\<close>) chained with
  \<open>bindE\<close>, where \<open>attemptE\<close> is a handled \<open>Result\<close> and \<open>throwE\<close> an early return. Errors keep the state they were
  raised in, so that partial effects are visible. \<open>u8\<close> to \<open>u64\<close> are words; strings are lists of bytes; paths are lists of
  components with the operations of \<open>std::path\<close>. There is no fuel: every loop of the modelled code is a structural recursion
  or a \<open>function\<close> with a termination proof (the search of the address pool by the distance to its end, the search of LAN
  candidates by the remaining candidates, the retry loop of autostart by the attempts that are left, the read loop of an
  artifact by the bytes that are left).

  \<^bold>\<open>Parameters.\<close> What is not code of the repository is an argument: \<open>spawn\<close> runs one host command on an
  arbitrary world, \<open>sha256\<close> is the digest, \<open>now\<close> the clock as a repository transaction reads it (once). The trait objects of
  the manager are the records \<open>RuntimeController\<close>, \<open>RuntimeDiskController\<close>, \<open>NetworkController\<close>, \<open>GuestStorage\<close> and
  \<open>file_system\<close> of functions on an arbitrary environment; the theorems about the manager hold for every choice of them. A
  port may fail at any call and change the environment when it does. Hypotheses about parameters are named
  (\<open>firewall_laws\<close> for iptables, \<open>crypto_laws\<close> and \<open>key_file_laws\<close> for keys, \<open>archive_laws\<close> for the files of an archive, \<open>store_laws\<close> for files, \<open>event_laws\<close> for an observer) and shown to be satisfiable by a concrete host.

  \<^bold>\<open>The theories and the code.\<close>

  \<^item> \<open>Prelude\<close>: words with checked and saturating arithmetic, strings, decimal and hexadecimal numerals, paths, the
    two monads with their preservation relations (\<open>keepsE\<close>) and triples (\<open>tripleE\<close>).
  \<^item> \<open>Domain\<close>: the records, enumerations and errors of domain/*.rs, ports/*.rs and error.rs.
  \<^item> \<open>Request_Validation\<close>: domain/config.rs: VM names, sizes, the lexical normalisation of the volume path. An accepted
    request names a normal absolute volume below its base and sizes that fit the database.
  \<^item> \<open>Registry\<close>: the validation of the manifest in adapters/registry/taumaru.rs: identifiers are unique, references
    resolve, and every path stays below the registry root.
  \<^item> \<open>Net_Addresses\<close>: parsing and allocation of addresses in adapters/network/linux.rs, against set-theoretic
    descriptions of networks.
  \<^item> \<open>Linux_Commands\<close>, \<open>Linux_Network\<close>, \<open>Linux_Controller\<close>: every command of that adapter, and \<open>configure\<close>,
    \<open>reconcile\<close>, \<open>cleanup\<close> and \<open>cleanup_for_delete\<close> composed of them with their rollbacks.
  \<^item> \<open>Command_Effects\<close>, \<open>Net_Safety\<close>, \<open>Net_Firewall\<close>: the locale \<open>command_effect\<close> lifts what single commands do
    to whole operations. Its instance on a log shows which commands an operation may issue: a deletion only those of
    recorded resources, a configuration only those of one \<open>footprint\<close>, the TAP, addresses, rules and LAN entries that the request
    or the record plans. \<open>firewall_host\<close> extends it with the documented behaviour of iptables: a failed creation restores the
    rules, and the rules of a host-only network are still there after its deletion.
  \<^item> \<open>Repository\<close>: the tables of the inventory with the constraints of the schema, and each operation of
    \<open>SqliteRepository\<close> on VMs as one statement or transaction that is undone when it fails. \<open>Path_Text\<close>: the lossy text of a path,
    which the statements bind, and the records as they are bound.
  \<^item> \<open>Artifact_Rows\<close>, \<open>Artifact_Repository\<close>: the tables of downloaded kernels, binaries and images with the constraints
    of migration 0001, and the operations of \<open>SqliteRepository\<close> on them: persist, inspect, resolve, list, remove,
    and with both groups of tables the commit of a restored VM (\<open>commit_restored_microvm\<close>) and its provenance (\<open>snapshot_metadata\<close>).
  \<^item> \<open>Artifact_Store\<close>, \<open>Artifact_Contract\<close>: the invariant \<open>artifacts_ok\<close> of these tables in every reachable database, the
    tables as maps from identifiers to downloads, and the round trips of persisting and removing a member. \<open>Artifact_Keys\<close>: in
    every database that calls with the manager's artifact keys produce (\<open>keyed_reachable\<close>), each member is recorded under its key.
  \<^item> \<open>Inventory\<close>, \<open>Inventory_Contract\<close>: the invariant \<open>inventory_ok\<close> of every reachable database, and the
    abstract inventory, a map from names to stored VMs. The locale \<open>vm_store\<close> is the contract of the repository, SQLite its
    interpretation, and every operation refines an update of the map. \<open>Restored_Commit\<close>: what the repository reads back after a
    restored VM was committed.
  \<^item> \<open>Manager_Ports\<close>, \<open>Manager_Lifecycle\<close>, \<open>Manager_Autostart\<close>: start, stop, delete, update, network
    reconciliation, listings and autostart of manager.rs and manager/autostart.rs.
  \<^item> \<open>Lifecycle_Safety\<close>: triples on the database; what each lifecycle operation does to the inventory, in every branch
    and whatever the ports answer.
  \<^item> \<open>Network_Contract\<close>: the locale \<open>network_port\<close> between the lifecycle operations and the network controller,
    interpreted on the Linux controller: starting never changes the identity of a network.
  \<^item> \<open>Volume_Removal\<close>: what a deletion removes from the file system, also for a recorded volume that leaves the SDK home
    through \<open>..\<close>, which the lexical check accepts.
  \<^item> \<open>Autostart_Policies\<close>, \<open>Autostart_Runs\<close>: the policies as a map, the retry loop and whole runs.
  \<^item> \<open>Manager_Prune\<close>, \<open>Prune_Safety\<close>, \<open>Prune_Complete\<close>: the reclaiming of unused artifacts in manager.rs; it never touches
    the rows or the file of an artifact that a VM uses, nor of a runtime binary, and a successful run leaves nothing to reclaim.
  \<^item> \<open>Manager_Download\<close>: the downloads of manager.rs: cache decisions, transfer, publication and record.
  \<^item> \<open>Download_Files\<close>, \<open>Download_Inventory\<close>: triples on the contents of files and on the database; only verified bytes are
    published, and a download that succeeds is recorded.
  \<^item> \<open>Manager_Creation\<close>: \<open>create_microvm\<close> of manager.rs with its six stages, the selection of artifacts and runtime binaries,
    the progress events, the journal and the rollback.
  \<^item> \<open>Creation_Safety\<close>, \<open>Creation_Events\<close>: a creation is all or nothing for the inventory, also when the rollback runs, and an
    observed creation ends with exactly one terminal event that agrees with its result.
  \<^item> \<open>Ssh_Credentials\<close>: adapters/credentials/ed25519.rs: the OpenSSH wire format, the generation of the key pair of a VM and
    the validation of a restored pair. \<open>Credential_Round_Trip\<close>, \<open>Credential_Generation\<close>: the readers invert the writers, a
    generated pair on disk passes the validation, and existing key files are never overwritten.
  \<^item> \<open>Snapshot_Manifest\<close>, \<open>Archive_Restore\<close>: adapters/archive/manifest.rs and restore.rs: the manifest of a snapshot with its
    validation and the reading of an archive into a staging directory. \<open>Archive_Staging\<close>, \<open>Archive_Safety\<close>: only payloads that
    agree with the manifest are restored, nothing outside the staging directory changes, and a refused archive leaves no trace.
  \<^item> \<open>Demo_Host\<close>, \<open>Demo_Store\<close>, \<open>Demo_Creation\<close>: concrete hosts and a VM, the instances of the properties.

  \<^bold>\<open>Simplifications.\<close> The in-process locks of \<open>target_lock\<close> order concurrent callers and are not modelled: an
  operation is one run to completion. The blocking threads of \<open>run_repository\<close> and \<open>verify_all\<close> are calls in sequence; the
  time limit of a probe is an error answer of the port. Error texts that quote another error keep that error as a value
  (\<open>Shown\<close>, \<open>Prefixed\<close>), those that quote a string in the format \<open>{:?}\<close> that string (\<open>Quoted\<close>), and are not rendered. The code binds the text
  \<open>to_string_lossy\<close> of a path to a statement and reads \<open>PathBuf::from\<close> of the text: the statements of the model (\<open>microvm_row\<close>,
  \<open>credential_row\<close>, \<open>runtime_row\<close>, \<open>download_row\<close>) take paths after that conversion. It is the identity on UTF-8 paths; the round trips
  of a creation and of a restored VM apply it explicitly (\<open>bound_record\<close> and the like), the other properties are about UTF-8
  paths. \<open>str::trim\<close> removes ASCII white space only.

  \<^bold>\<open>Not modelled.\<close> The command line client (argument parsing by clap, prompts and terminal output); HTTP and JSON
  decoding of the registry; the adapters behind the runtime, runtime disk and storage ports (processes, ioctls, losetup,
  dmsetup, e2fsprogs); schema migrations; the writing of snapshot archives
  (adapters/archive/tar_zstd.rs) and the restore of the manager.
\<close>

end
